(* ===== verification/Prelude.thy ===== *)
theory Prelude imports Main "HOL-Library.Word" "HOL-Library.Product_Lexorder" begin

text \<open>
  Shared vocabulary of the development: the identifiers, clocks and machine integers of the
  code, the operation monad in which every function that talks to the database is written
  (explicit state, an error as the left summand, and the state kept when an operation fails,
  because the code decides later whether the transaction is rolled back), the relational and
  invariant calculus over operations, and the list functions behind the SQL statements.
\<close>

named_theorems op_simps "running the primitive operations"
named_theorems op_steps "the relation between the state before and after an operation"
named_theorems op_pres "operations that keep an invariant"

section \<open>Identifiers, clocks and machine integers\<close>

text \<open>A UUID is its 128-bit value; Postgres orders UUIDs by that value. Timestamps count
  microseconds.\<close>

type_synonym uuid = nat
type_synonym timestamp = int
type_synonym u32 = "32 word"

definition uuid_nil :: uuid where
  "uuid_nil = 0"

definition seconds :: "int \<Rightarrow> int" where
  "seconds n = 1000000 * n"

definition minutes :: "int \<Rightarrow> int" where
  "minutes n = seconds (60 * n)"

definition days :: "int \<Rightarrow> int" where
  "days n = seconds (24 * 60 * 60 * n)"

text \<open>Rust's \<open>x as u32\<close> of an \<open>i64\<close> keeps the low 32 bits, \<open>x as i64\<close> of a \<open>u32\<close> is exact.\<close>

definition as_u32 :: "int \<Rightarrow> u32" where
  "as_u32 x = word_of_int x"

definition as_i64 :: "u32 \<Rightarrow> int" where
  "as_i64 x = uint x"

lemma as_i64_as_u32: "0 \<le> x \<Longrightarrow> x < 2 ^ 32 \<Longrightarrow> as_i64 (as_u32 x) = x"
  by (simp add: as_i64_def as_u32_def uint_word_of_int)

lemma as_u32_as_i64 [simp]: "as_u32 (as_i64 x) = x"
  by (simp add: as_i64_def as_u32_def)

lemma as_i64_nonneg [simp]: "0 \<le> as_i64 x"
  by (simp add: as_i64_def)

lemma as_u32_add: "as_u32 (x + y) = as_u32 x + as_u32 y"
  by (simp add: as_u32_def)

text \<open>\<open>unwrap_or\<close>.\<close>

definition unwrap_or :: "'a option \<Rightarrow> 'a \<Rightarrow> 'a" where
  "unwrap_or x d = (case x of None \<Rightarrow> d | Some y \<Rightarrow> y)"

lemma unwrap_or_simps [simp]: "unwrap_or None d = d" "unwrap_or (Some x) d = x"
  by (simp_all add: unwrap_or_def)

section \<open>Operations\<close>

type_synonym ('s, 'e, 'a) op = "'s \<Rightarrow> ('e + 'a) \<times> 's"

definition ret :: "'a \<Rightarrow> ('s, 'e, 'a) op" where
  "ret x = (\<lambda>s. (Inr x, s))"

definition fail :: "'e \<Rightarrow> ('s, 'e, 'a) op" where
  "fail e = (\<lambda>s. (Inl e, s))"

text \<open>The \<open>?\<close> operator: go on with the value, or leave with the error and the state so far.\<close>

definition bindo :: "('s, 'e, 'a) op \<Rightarrow> ('a \<Rightarrow> ('s, 'e, 'b) op) \<Rightarrow> ('s, 'e, 'b) op" where
  "bindo m f = (\<lambda>s. case m s of (Inl e, t) \<Rightarrow> (Inl e, t) | (Inr x, t) \<Rightarrow> f x t)"

definition gets :: "('s \<Rightarrow> 'a) \<Rightarrow> ('s, 'e, 'a) op" where
  "gets f = (\<lambda>s. (Inr (f s), s))"

definition modify :: "('s \<Rightarrow> 's) \<Rightarrow> ('s, 'e, unit) op" where
  "modify f = (\<lambda>s. (Inr (), f s))"

text \<open>Matching on a result instead of propagating it.\<close>

definition attempt :: "('s, 'e, 'a) op \<Rightarrow> ('s, 'f, 'e + 'a) op" where
  "attempt m = (\<lambda>s. case m s of (r, t) \<Rightarrow> (Inr r, t))"

text \<open>A \<open>for\<close> loop with an accumulator, left at the first error.\<close>

fun fold_op :: "('a \<Rightarrow> 'b \<Rightarrow> ('s, 'e, 'b) op) \<Rightarrow> 'a list \<Rightarrow> 'b \<Rightarrow> ('s, 'e, 'b) op" where
  "fold_op f [] acc = ret acc"
| "fold_op f (x # xs) acc = bindo (f x acc) (fold_op f xs)"

definition for_each :: "('a \<Rightarrow> ('s, 'e, unit) op) \<Rightarrow> 'a list \<Rightarrow> ('s, 'e, unit) op" where
  "for_each f xs = fold_op (\<lambda>x _. f x) xs ()"

text \<open>Not simplification rules by default: up to eta they would rewrite the operations themselves.\<close>

lemma ret_run [op_simps]: "ret x s = (Inr x, s)"
  by (simp add: ret_def)

lemma fail_run [op_simps]: "fail e s = (Inl e, s)"
  by (simp add: fail_def)

lemma gets_run [simp, op_simps]: "gets f s = (Inr (f s), s)"
  by (simp add: gets_def)

lemma modify_run [simp, op_simps]: "modify f s = (Inr (), f s)"
  by (simp add: modify_def)

lemma bindo_run [op_simps]:
  "bindo m f s = (case m s of (Inl e, t) \<Rightarrow> (Inl e, t) | (Inr x, t) \<Rightarrow> f x t)"
  by (simp add: bindo_def)

lemma attempt_run [op_simps]: "attempt m s = (Inr (fst (m s)), snd (m s))"
  by (simp add: attempt_def split: prod.splits)

lemma bindo_ret [simp]: "bindo (ret x) f = f x"
  by (rule ext) (simp add: bindo_def ret_run)

lemma bindo_fail [simp]: "bindo (fail e) f = fail e"
  by (rule ext) (simp add: bindo_def fail_run)

lemma bindo_gets [simp]: "bindo (gets g) f s = f (g s) s"
  by (simp add: bindo_def)

lemma bindo_modify [simp]: "bindo (modify g) f s = f () (g s)"
  by (simp add: bindo_def)

lemma for_each_Nil [simp]: "for_each f [] = ret ()"
  by (simp add: for_each_def)

lemma for_each_Cons [simp]: "for_each f (x # xs) = bindo (f x) (\<lambda>_. for_each f xs)"
  unfolding for_each_def by (rule ext) (auto simp: bindo_def split: prod.splits sum.splits)

lemma bindo_InrE:
  assumes "bindo m f s = (Inr y, u)"
  obtains x t where "m s = (Inr x, t)" and "f x t = (Inr y, u)"
  using assms by (auto simp: bindo_def split: prod.splits sum.splits)

lemma bindo_Inr_iff:
  "bindo m f s = (Inr y, u) \<longleftrightarrow> (\<exists>x t. m s = (Inr x, t) \<and> f x t = (Inr y, u))"
  by (auto simp: bindo_def split: prod.splits sum.splits)

lemma fst_bindo_Inr_iff:
  "fst (bindo m f s) = Inr y \<longleftrightarrow> (\<exists>x t. m s = (Inr x, t) \<and> fst (f x t) = Inr y)"
  by (auto simp: bindo_def split: prod.splits sum.splits)

section \<open>What an operation does to the state\<close>

text \<open>\<open>steps R m\<close>: whatever \<open>m\<close> returns, value or error, the states before and after are
  related. \<open>keeps I m\<close>: an invariant that holds before holds after.\<close>

definition steps :: "('s \<Rightarrow> 's \<Rightarrow> bool) \<Rightarrow> ('s, 'e, 'a) op \<Rightarrow> bool" where
  "steps R m \<longleftrightarrow> (\<forall>s. R s (snd (m s)))"

definition keeps :: "('s \<Rightarrow> bool) \<Rightarrow> ('s, 'e, 'a) op \<Rightarrow> bool" where
  "keeps I m \<longleftrightarrow> (\<forall>s. I s \<longrightarrow> I (snd (m s)))"

lemma stepsI: "(\<And>s. R s (snd (m s))) \<Longrightarrow> steps R m"
  by (simp add: steps_def)

lemma stepsD: "steps R m \<Longrightarrow> R s (snd (m s))"
  by (simp add: steps_def)

lemma stepsD_run: "steps R m \<Longrightarrow> m s = (r, t) \<Longrightarrow> R s t"
  using stepsD [of R m s] by simp

lemma keepsI: "(\<And>s. I s \<Longrightarrow> I (snd (m s))) \<Longrightarrow> keeps I m"
  by (simp add: keeps_def)

lemma keepsD: "keeps I m \<Longrightarrow> I s \<Longrightarrow> I (snd (m s))"
  by (simp add: keeps_def)

lemma keepsD_run: "keeps I m \<Longrightarrow> m s = (r, t) \<Longrightarrow> I s \<Longrightarrow> I t"
  using keepsD [of I m s] by simp

text \<open>A reflexive and transitive relation composes along every control construct.\<close>

locale step_relation =
  fixes R :: "'s \<Rightarrow> 's \<Rightarrow> bool"
  assumes step_refl: "R s s"
    and step_trans: "R s t \<Longrightarrow> R t u \<Longrightarrow> R s u"
begin

lemma steps_ret: "steps R (ret x)"
  by (simp add: steps_def step_refl ret_run)

lemma steps_fail: "steps R (fail e)"
  by (simp add: steps_def step_refl fail_run)

lemma steps_gets: "steps R (gets f)"
  by (simp add: steps_def step_refl)

lemma steps_bindo:
  assumes "steps R m" and "\<And>x. steps R (f x)"
  shows "steps R (bindo m f)"
proof (rule stepsI)
  fix s
  obtain r t where run: "m s = (r, t)" by (cases "m s") auto
  have "R s t" using assms(1) run by (rule stepsD_run)
  then show "R s (snd (bindo m f s))"
    using run assms(2) [THEN stepsD] step_trans by (cases r) (auto simp: bindo_def)
qed

text \<open>The same from one state.\<close>

lemma step_bindo_at:
  assumes "R s (snd (m s))" and "\<And>x. steps R (f x)"
  shows "R s (snd (bindo m f s))"
proof (cases "m s")
  case (Pair r t)
  then show ?thesis using assms(1) assms(2) [THEN stepsD] step_trans
    by (cases r) (auto simp: bindo_def)
qed

lemma steps_attempt: "steps R m \<Longrightarrow> steps R (attempt m)"
  by (simp add: steps_def attempt_run)

lemma steps_fold_op: "(\<And>x acc. steps R (f x acc)) \<Longrightarrow> steps R (fold_op f xs acc)"
  by (induction xs arbitrary: acc) (simp_all add: steps_ret steps_bindo)

lemma steps_for_each: "(\<And>x. steps R (f x)) \<Longrightarrow> steps R (for_each f xs)"
  unfolding for_each_def by (rule steps_fold_op)

lemmas steps_control = steps_ret steps_fail steps_gets steps_bindo steps_attempt
  steps_fold_op steps_for_each

end

lemma keeps_ret: "keeps I (ret x)"
  by (simp add: keeps_def ret_run)

lemma keeps_fail: "keeps I (fail e)"
  by (simp add: keeps_def fail_run)

lemma keeps_gets: "keeps I (gets f)"
  by (simp add: keeps_def)

lemma keeps_bindo:
  assumes "keeps I m" and "\<And>x. keeps I (f x)"
  shows "keeps I (bindo m f)"
  using assms unfolding keeps_def bindo_def by (auto split: prod.splits sum.splits)

lemma keeps_attempt: "keeps I m \<Longrightarrow> keeps I (attempt m)"
  by (simp add: keeps_def attempt_run)

lemma keeps_fold_op: "(\<And>x acc. keeps I (f x acc)) \<Longrightarrow> keeps I (fold_op f xs acc)"
  by (induction xs arbitrary: acc) (simp_all add: keeps_ret keeps_bindo)

lemma keeps_for_each: "(\<And>x. keeps I (f x)) \<Longrightarrow> keeps I (for_each f xs)"
  unfolding for_each_def by (rule keeps_fold_op)

text \<open>A check that leaves the state alone before the step that may change it.\<close>

lemma after_check:
  assumes "snd (v s) = s" and "I s" and "\<And>x. I (snd (w x s))"
  shows "I (snd (bindo v w s))"
  using assms by (cases "v s") (auto simp: bindo_def split: sum.splits)

lemmas keeps_control = keeps_ret keeps_fail keeps_gets keeps_bindo keeps_attempt
  keeps_fold_op keeps_for_each

section \<open>Tables as lists of rows\<close>

text \<open>A table is the list of its rows in the order a scan meets them. A statement without an
  \<open>ORDER BY\<close> sees that order, which no theorem fixes.\<close>

definition update_where :: "('r \<Rightarrow> bool) \<Rightarrow> ('r \<Rightarrow> 'r) \<Rightarrow> 'r list \<Rightarrow> 'r list" where
  "update_where P f rs = map (\<lambda>r. if P r then f r else r) rs"

text \<open>\<open>UPDATE .. WHERE id IN (SELECT id .. WHERE Q LIMIT n)\<close>: the ids picked by the subselect.\<close>

definition limited_ids :: "('r \<Rightarrow> uuid) \<Rightarrow> ('r \<Rightarrow> bool) \<Rightarrow> nat \<Rightarrow> 'r list \<Rightarrow> uuid list" where
  "limited_ids key Q n rs = map key (take n (filter Q rs))"

lemma length_update_where [simp]: "length (update_where P f rs) = length rs"
  by (simp add: update_where_def)

lemma map_update_where:
  "(\<And>r. P r \<Longrightarrow> g (f r) = g r) \<Longrightarrow> map g (update_where P f rs) = map g rs"
  by (simp add: update_where_def)

lemma update_where_none: "(\<And>r. r \<in> set rs \<Longrightarrow> \<not> P r) \<Longrightarrow> update_where P f rs = rs"
  unfolding update_where_def by (rule map_idI) auto

lemma set_update_where: "set (update_where P f rs) = f ` {r \<in> set rs. P r} \<union> {r \<in> set rs. \<not> P r}"
  by (auto simp: update_where_def)

lemma filter_update_where:
  assumes "\<And>r. P r \<Longrightarrow> P (f r)"
  shows "filter P (update_where P f rs) = map f (filter P rs)"
  using assms by (induction rs) (auto simp: update_where_def)

lemma list_all2_update_where:
  "(\<And>r. r \<in> set rs \<Longrightarrow> P r \<Longrightarrow> R r (f r)) \<Longrightarrow> (\<And>r. R r r) \<Longrightarrow> list_all2 R rs (update_where P f rs)"
  by (induction rs) (auto simp: update_where_def)

text \<open>Rows with distinct keys: a key lookup finds the one row, and an update by key touches it.\<close>

lemma find_distinct:
  assumes "distinct (map key rs)" and "r \<in> set rs"
  shows "find (\<lambda>x. key x = key r) rs = Some r"
  using assms by (induction rs) (auto simp: rev_image_eqI)

lemma same_row:
  assumes "distinct (map key rs)" and "a \<in> set rs" and "b \<in> set rs" and "key a = key b"
  shows "a = b"
  using assms inj_onD [of key "set rs" a b] by (simp add: distinct_map)

lemma find_update_where:
  assumes "\<And>r. key (f r) = key r"
  shows "find (\<lambda>r. key r = k) (update_where P f rs) =
    map_option (\<lambda>r. if P r then f r else r) (find (\<lambda>r. key r = k) rs)"
  using assms by (induction rs) (auto simp: update_where_def)

lemma find_SomeD: "find P xs = Some x \<Longrightarrow> x \<in> set xs \<and> P x"
  by (induction xs) (auto split: if_splits)

lemma distinct_limited_ids:
  "distinct (map key rs) \<Longrightarrow> distinct (limited_ids key Q n rs)"
  unfolding limited_ids_def
  by (metis distinct_map_filter distinct_take take_map)

lemma set_limited_ids: "k \<in> set (limited_ids key Q n rs) \<Longrightarrow> \<exists>r \<in> set rs. key r = k \<and> Q r"
  unfolding limited_ids_def by (auto dest!: in_set_takeD)

lemma filter_limited_ids:
  assumes "distinct (map key rs)"
  shows "filter (\<lambda>r. key r \<in> set (limited_ids key Q n rs)) rs = take n (filter Q rs)"
  using assms
proof (induction rs arbitrary: n)
  case Nil
  then show ?case by simp
next
  case (Cons a rs)
  then have fresh: "key a \<notin> key ` set rs" and dist: "distinct (map key rs)" by auto
  have other: "filter (\<lambda>r. key r = key a \<or> key r \<in> set (limited_ids key Q m rs)) rs =
    filter (\<lambda>r. key r \<in> set (limited_ids key Q m rs)) rs" for m
    using fresh by (intro filter_cong refl) (metis image_eqI)
  have out: "key a \<notin> set (limited_ids key Q m rs)" for m
    using fresh set_limited_ids [of "key a" key Q m rs] by (metis image_eqI)
  show ?case
  proof (cases n)
    case 0
    then show ?thesis by (simp add: limited_ids_def)
  next
    case (Suc m)
    show ?thesis
    proof (cases "Q a")
      case True
      have "limited_ids key Q n (a # rs) = key a # limited_ids key Q m rs"
        using True Suc by (simp add: limited_ids_def)
      then show ?thesis using True Suc Cons.IH [OF dist, of m] other [of m] by simp
    next
      case False
      have "limited_ids key Q n (a # rs) = limited_ids key Q n rs"
        using False by (simp add: limited_ids_def)
      then show ?thesis using False out [of n] Cons.IH [OF dist, of n] by simp
    qed
  qed
qed

text \<open>Updating the first \<open>n\<close> rows that satisfy \<open>Q\<close> so that they no longer do leaves the rest of
  them.\<close>

lemma filter_notin_take: "distinct xs \<Longrightarrow> filter (\<lambda>x. x \<notin> set (take n xs)) xs = drop n xs"
proof -
  assume d: "distinct xs"
  have "filter (\<lambda>x. x \<notin> set (take n xs)) (take n xs @ drop n xs) = drop n xs"
    using d set_take_disj_set_drop_if_distinct [OF d order_refl]
    by (auto simp: filter_empty_conv filter_id_conv simp del: append_take_drop_id)
  then show ?thesis by simp
qed

lemma filter_update_first:
  assumes "distinct rs" and "\<And>r. r \<in> set (take n (filter Q rs)) \<Longrightarrow> \<not> Q (f r)"
  shows "filter Q (update_where (\<lambda>r. r \<in> set (take n (filter Q rs))) f rs) = drop n (filter Q rs)"
proof -
  have "filter Q (update_where (\<lambda>r. r \<in> S) f xs) = filter (\<lambda>r. r \<notin> S) (filter Q xs)"
    if "\<And>r. r \<in> S \<Longrightarrow> \<not> Q (f r)" for S xs
    using that by (induction xs) (auto simp: update_where_def)
  then show ?thesis using assms by (simp add: filter_notin_take del: filter_filter)
qed

lemma length_filter_update_where_in:
  assumes "\<And>r. r \<in> set P \<Longrightarrow> \<not> Q r \<and> Q (f r)" and "distinct rs" and "distinct P"
    and "set P \<subseteq> set rs"
  shows "length (filter Q (update_where (\<lambda>r. r \<in> set P) f rs)) = length (filter Q rs) + length P"
proof -
  have "length (filter Q (update_where (\<lambda>r. r \<in> set P) f rs)) =
      length (filter (\<lambda>r. r \<in> set P) rs) + length (filter Q rs)"
    using assms(1) by (induction rs) (auto simp: update_where_def)
  also have "length (filter (\<lambda>r. r \<in> set P) rs) = length P"
  proof -
    have "length (filter (\<lambda>r. r \<in> set P) rs) = card (set P \<inter> set rs)"
      using distinct_card [of "filter (\<lambda>r. r \<in> set P) rs"] assms(2)
      by (simp add: Int_def conj_commute)
    also have "set P \<inter> set rs = set P" using assms(4) by blast
    finally show ?thesis using assms(3) by (simp add: distinct_card)
  qed
  finally show ?thesis by simp
qed

text \<open>Rows named by their keys instead of by themselves, and two updates of the same rows.\<close>

lemma update_where_by_key:
  assumes "distinct (map key rs)" and "set P \<subseteq> set rs"
  shows "update_where (\<lambda>t. t \<in> set P) f rs = update_where (\<lambda>t. key t \<in> key ` set P) f rs"
proof -
  have "t \<in> set P \<longleftrightarrow> key t \<in> key ` set P" if "t \<in> set rs" for t
    using that assms by (auto simp: distinct_map dest: inj_onD)
  then show ?thesis by (simp add: update_where_def)
qed

lemma filter_key_in_take:
  fixes key :: "'r \<Rightarrow> uuid"
  assumes "distinct (map key rs)"
  shows "filter (\<lambda>t. key t \<in> key ` set (take n (filter Q rs))) rs = take n (filter Q rs)"
  using filter_limited_ids [where key = key and rs = rs and Q = Q and n = n, OF assms]
  by (simp add: limited_ids_def)

lemma update_where_twice:
  assumes "\<And>r. P (f r) = P r"
  shows "update_where P g (update_where P f rs) = update_where P (\<lambda>r. g (f r)) rs"
  using assms by (simp add: update_where_def)

lemma filter_updated:
  assumes "\<And>r. r \<in> set rs \<Longrightarrow> P r \<Longrightarrow> Q (f r)" and "\<And>r. r \<in> set rs \<Longrightarrow> \<not> P r \<Longrightarrow> \<not> Q r"
  shows "filter Q (update_where P f rs) = map f (filter P rs)"
  using assms by (induction rs) (auto simp: update_where_def)

lemma find_Some_filter: "filter P xs = x # ys \<Longrightarrow> find P xs = Some x"
  by (induction xs) (auto split: if_splits)

lemma find_None_filter: "find P xs = None \<longleftrightarrow> filter P xs = []"
  by (induction xs) auto

lemma list_all2_left: "list_all2 P xs ys \<Longrightarrow> x \<in> set xs \<Longrightarrow> \<exists>y \<in> set ys. P x y"
  by (induction rule: list_all2_induct) auto

lemma list_all2_right: "list_all2 P xs ys \<Longrightarrow> y \<in> set ys \<Longrightarrow> \<exists>x \<in> set xs. P x y"
  by (induction rule: list_all2_induct) auto

lemma find_new: "(\<And>x. x \<in> set xs \<Longrightarrow> \<not> P x) \<Longrightarrow> find P (xs @ [y]) = (if P y then Some y else None)"
  by (induction xs) simp_all

text \<open>The rows with given keys, one per key.\<close>

lemma length_rows_of_keys:
  assumes "distinct (map key rs)" and "distinct ks" and "set ks \<subseteq> key ` set rs"
  shows "length (filter (\<lambda>r. key r \<in> set ks) rs) = length ks"
proof -
  let ?rows = "filter (\<lambda>r. key r \<in> set ks) rs"
  have "distinct (map key ?rows)" using assms(1) by (rule distinct_map_filter)
  then have "length ?rows = card (set (map key ?rows))" using distinct_card by fastforce
  also have "set (map key ?rows) = set ks" using assms(3) by auto
  finally show ?thesis using assms(2) by (simp add: distinct_card)
qed

lemma filter_by_key:
  assumes "distinct (map key rs)" and "r \<in> set rs"
  shows "filter (\<lambda>x. key x = key r) rs = [r]"
  using assms by (induction rs) (auto simp: filter_empty_conv image_iff)

end
