(* ===== verification/Errors.thy ===== *)
theory Errors imports Prelude begin

text \<open>
  The error type of \<open>db/src/utils/errors.rs\<close>: the error codes with their numbers, the
  constructors of errors, the translation of driver errors, and \<open>optional\<close>, which turns the
  one error "no rows" into an absent value. The strings that the driver and the validator crate
  render are kept symbolic: a cause says what it was rendered from. The parameters that the validator
  crate stores with a validation error (the rejected values) are not kept.
\<close>

section \<open>Validation errors\<close>

record validation_error =
  ve_code :: string
  ve_message :: "string option"

text \<open>Fields with the errors recorded for them, in the order of their first error.\<close>

type_synonym validation_errors = "(string \<times> validation_error list) list"

fun add_validation :: "string \<Rightarrow> validation_error \<Rightarrow> validation_errors \<Rightarrow> validation_errors" where
  "add_validation field e [] = [(field, [e])]"
| "add_validation field e ((g, es) # rest) =
     (if g = field then (g, es @ [e]) # rest else (g, es) # add_validation field e rest)"

definition validation_error_new :: "string \<Rightarrow> validation_error" where
  "validation_error_new code = \<lparr>ve_code = code, ve_message = None\<rparr>"

definition create_validation_error :: "string \<Rightarrow> string \<Rightarrow> validation_error" where
  "create_validation_error code message = \<lparr>ve_code = code, ve_message = Some message\<rparr>"

definition append_validation_error ::
  "validation_errors + unit \<Rightarrow> string \<Rightarrow> validation_error + unit \<Rightarrow> validation_errors + unit" where
  "append_validation_error errors field result =
     (case result of
        Inl e \<Rightarrow> Inl (add_validation field e (case errors of Inr _ \<Rightarrow> [] | Inl es \<Rightarrow> es))
      | Inr _ \<Rightarrow> errors)"

lemma append_validation_error_ok [simp]:
  "append_validation_error errors field (Inr u) = errors"
  by (simp add: append_validation_error_def)

lemma append_validation_error_Inr_iff:
  "append_validation_error errors field result = Inr u \<longleftrightarrow> errors = Inr u \<and> result = Inr ()"
  by (auto simp: append_validation_error_def split: sum.splits)

section \<open>Error codes and database errors\<close>

datatype error_code =
    InvalidInput
  | MissingInput
  | NoResults
  | QueryError
  | InsertError
  | UpdateError
  | DeleteError
  | DuplicateKeyError
  | ConnectionError
  | InternalError
  | AccessError
  | BusinessProcessError
  | ConcurrencyError
  | ValidationError validation_errors
  | ForeignKeyError
  | ParseError
  | Unknown
  | MultipleResultsWhenOneExpected

fun get_error_message :: "error_code \<Rightarrow> int \<times> string" where
  "get_error_message InvalidInput = (1000, ''Invalid input'')"
| "get_error_message MissingInput = (1100, ''Missing input'')"
| "get_error_message NoResults = (2000, ''No results'')"
| "get_error_message MultipleResultsWhenOneExpected =
     (2100, ''Multiple results when one was expected'')"
| "get_error_message QueryError = (3000, ''Query Error'')"
| "get_error_message InsertError = (3100, ''Could not insert record'')"
| "get_error_message UpdateError = (3200, ''Could not update record'')"
| "get_error_message DeleteError = (3300, ''Could not delete record'')"
| "get_error_message DuplicateKeyError = (3400, ''Duplicate key error'')"
| "get_error_message ConnectionError = (4000, ''Connection error'')"
| "get_error_message InternalError = (5000, ''Internal error'')"
| "get_error_message AccessError = (6000, ''Access error'')"
| "get_error_message BusinessProcessError = (7000, ''Business Process error'')"
| "get_error_message ConcurrencyError = (7100, ''Concurrency error'')"
| "get_error_message (ValidationError errors) = (7200, ''Validation failed:'')"
| "get_error_message ForeignKeyError =
     (7300, ''Could not delete record because there are other entities referencing it'')"
| "get_error_message ParseError = (7400, ''Parse failed:'')"
| "get_error_message Unknown = (10, ''Unknown database error'')"

text \<open>What the driver reports, as far as the code tells it apart.\<close>

datatype db_error_kind = UniqueViolation | ForeignKeyViolation | OtherViolation

datatype diesel_error = NotFound | DatabaseFailure db_error_kind | OtherFailure

text \<open>The text of a cause: a message of the code, a message followed by the driver's text, or
  the text of validation errors.\<close>

datatype cause = Text string | WithDriverText string diesel_error | RenderedErrors validation_errors

record db_error =
  err_code :: int
  err_message :: string
  err_cause :: "cause option"
  err_error_code :: error_code

definition database_error_new :: "error_code \<Rightarrow> cause option \<Rightarrow> db_error" where
  "database_error_new error_code cause =
     \<lparr>err_code = fst (get_error_message error_code),
      err_message = snd (get_error_message error_code),
      err_cause = cause,
      err_error_code = error_code\<rparr>"

text \<open>\<open>wrap\<close> and \<open>to_db_error\<close>.\<close>

definition wrap :: "error_code \<Rightarrow> string \<Rightarrow> diesel_error + 'a \<Rightarrow> db_error + 'a" where
  "wrap error_code message res =
     (case res of
        Inr v \<Rightarrow> Inr v
      | Inl e \<Rightarrow>
          (case e of
             NotFound \<Rightarrow> Inl (database_error_new NoResults (Some (WithDriverText message e)))
           | DatabaseFailure kind \<Rightarrow>
               (case kind of
                  UniqueViolation \<Rightarrow> Inl (database_error_new DuplicateKeyError (Some (WithDriverText message e)))
                | ForeignKeyViolation \<Rightarrow> Inl (database_error_new ForeignKeyError (Some (WithDriverText message e)))
                | OtherViolation \<Rightarrow> Inl (database_error_new error_code (Some (WithDriverText message e))))
           | OtherFailure \<Rightarrow> Inl (database_error_new error_code (Some (WithDriverText message e)))))"

text \<open>The error constructors, as operations that leave with the error.\<close>

definition business_process_error :: "string \<Rightarrow> ('s, db_error, 'a) op" where
  "business_process_error message = fail (database_error_new BusinessProcessError (Some (Text message)))"

definition validation_error_op :: "string \<Rightarrow> string \<Rightarrow> ('s, db_error, 'a) op" where
  "validation_error_op field message =
     fail (database_error_new
       (ValidationError (add_validation field (validation_error_new message) [])) None)"

definition concurrency_error :: "string \<Rightarrow> ('s, db_error, 'a) op" where
  "concurrency_error message = fail (database_error_new ConcurrencyError (Some (Text message)))"

definition no_results :: "string \<Rightarrow> ('s, db_error, 'a) op" where
  "no_results message = fail (database_error_new NoResults (Some (Text message)))"

text \<open>\<open>impl From<ValidationErrors> for DatabaseError\<close>, through the \<open>?\<close> operator.\<close>

definition from_validation_errors :: "validation_errors \<Rightarrow> db_error" where
  "from_validation_errors es =
     database_error_new (ValidationError es) (Some (RenderedErrors es))"

definition check_validation :: "validation_errors + unit \<Rightarrow> ('s, db_error, unit) op" where
  "check_validation r =
     (case r of Inl es \<Rightarrow> fail (from_validation_errors es) | Inr _ \<Rightarrow> ret ())"

definition lift_result :: "'e + 'a \<Rightarrow> ('s, 'e, 'a) op" where
  "lift_result r = (\<lambda>s. (r, s))"

definition error_if_none :: "db_error + 'a option \<Rightarrow> string \<Rightarrow> db_error + 'a" where
  "error_if_none r message =
     (case r of
        Inr (Some j) \<Rightarrow> Inr j
      | Inr None \<Rightarrow> Inl (database_error_new NoResults
          (Some (Text (''No results returned when results were expected:'' @ message))))
      | Inl e \<Rightarrow> Inl e)"

definition optional :: "db_error + 'a \<Rightarrow> db_error + 'a option" where
  "optional r =
     (case r of Inr u \<Rightarrow> Inr (Some u) | Inl e \<Rightarrow> (if err_code e = 2000 then Inr None else Inl e))"

definition optional_op :: "('s, db_error, 'a) op \<Rightarrow> ('s, db_error, 'a option) op" where
  "optional_op m = (\<lambda>s. case m s of (r, t) \<Rightarrow> (optional r, t))"

lemma error_op_run [op_simps]:
  "business_process_error m s = (Inl (database_error_new BusinessProcessError (Some (Text m))), s)"
  "concurrency_error m s = (Inl (database_error_new ConcurrencyError (Some (Text m))), s)"
  "no_results m s = (Inl (database_error_new NoResults (Some (Text m))), s)"
  "validation_error_op field m s = (Inl (database_error_new
     (ValidationError (add_validation field (validation_error_new m) [])) None), s)"
  by (simp_all add: business_process_error_def concurrency_error_def no_results_def
    validation_error_op_def fail_run)

lemma lift_result_run [op_simps]: "lift_result r s = (r, s)"
  by (simp add: lift_result_def)

lemma check_validation_run [op_simps]:
  "check_validation r s =
     (case r of Inl es \<Rightarrow> (Inl (from_validation_errors es), s) | Inr _ \<Rightarrow> (Inr (), s))"
  by (simp add: check_validation_def fail_run ret_run split: sum.splits)

lemma optional_op_run [op_simps]: "optional_op m s = (optional (fst (m s)), snd (m s))"
  by (simp add: optional_op_def split: prod.splits)

lemma optional_Inr_Some [simp]: "optional r = Inr (Some x) \<longleftrightarrow> r = Inr x"
  by (auto simp: optional_def split: sum.splits if_splits)

lemma optional_Inr [simp]: "optional (Inr x) = Inr (Some x)"
  by (simp add: optional_def)

lemma err_error_code_new [simp]: "err_error_code (database_error_new c m) = c"
  and err_code_new [simp]: "err_code (database_error_new c m) = fst (get_error_message c)"
  by (simp_all add: database_error_new_def)

text \<open>The numbers tell the codes apart, so the test on 2000 recognises \<open>NoResults\<close> only.\<close>

lemma error_number_NoResults: "fst (get_error_message c) = 2000 \<longleftrightarrow> c = NoResults"
  by (cases c) simp_all

lemma optional_new:
  "optional (Inl (database_error_new c m)) =
     (if c = NoResults then Inr None else Inl (database_error_new c m))"
  by (simp add: optional_def error_number_NoResults)

context step_relation
begin

lemma steps_errors:
  "steps R (business_process_error m)" "steps R (concurrency_error m)" "steps R (no_results m)"
  "steps R (validation_error_op field m)" "steps R (lift_result r)" "steps R (check_validation v)"
  by (auto simp: steps_def step_refl op_simps split: sum.splits)

lemma steps_optional_op: "steps R m \<Longrightarrow> steps R (optional_op m)"
  by (simp add: steps_def optional_op_run)

end

lemma keeps_errors:
  "keeps I (business_process_error m)" "keeps I (concurrency_error m)" "keeps I (no_results m)"
  "keeps I (validation_error_op field m)" "keeps I (lift_result r)" "keeps I (check_validation v)"
  by (auto simp: keeps_def op_simps split: sum.splits)

lemma keeps_optional_op: "keeps I m \<Longrightarrow> keeps I (optional_op m)"
  by (simp add: keeps_def optional_op_run)

section \<open>Properties\<close>

text \<open>a driver error keeps its meaning through \<open>wrap\<close>: no rows, a duplicate key and a
  foreign key violation get their own codes whatever code the call site names, every other
  driver error gets the call site's code, the numbers of two errors agree only if they have the
  same code, and \<open>optional\<close> swallows exactly the missing row.\<close>

theorem wrap_classifies:
  "wrap c m (Inl NotFound :: diesel_error + 'a) =
     Inl (database_error_new NoResults (Some (WithDriverText m NotFound))) \<and>
   (\<forall>k. map_sum err_error_code id (wrap c m (Inl (DatabaseFailure k) :: diesel_error + 'a)) =
     Inl (case k of UniqueViolation \<Rightarrow> DuplicateKeyError
          | ForeignKeyViolation \<Rightarrow> ForeignKeyError
          | OtherViolation \<Rightarrow> c)) \<and>
   map_sum err_error_code id (wrap c m (Inl OtherFailure :: diesel_error + 'a)) = Inl c \<and>
   (fst (get_error_message c) = fst (get_error_message d) \<longleftrightarrow>
     c = d \<or> (\<exists>es fs. c = ValidationError es \<and> d = ValidationError fs)) \<and>
   (optional (wrap c m (r :: diesel_error + 'a)) = Inr None \<longleftrightarrow>
     r = Inl NotFound \<or> (c = NoResults \<and>
       (r = Inl OtherFailure \<or> r = Inl (DatabaseFailure OtherViolation))))"
proof (intro conjI allI)
  show "fst (get_error_message c) = fst (get_error_message d) \<longleftrightarrow>
      c = d \<or> (\<exists>es fs. c = ValidationError es \<and> d = ValidationError fs)"
    by (cases c; cases d) simp_all
  show "optional (wrap c m r) = Inr None \<longleftrightarrow> r = Inl NotFound \<or> (c = NoResults \<and>
      (r = Inl OtherFailure \<or> r = Inl (DatabaseFailure OtherViolation)))"
    by (auto simp: wrap_def optional_def error_number_NoResults
      split: sum.splits diesel_error.splits db_error_kind.splits)
qed (simp_all add: wrap_def split: db_error_kind.splits)

end
