(* ===== verification/Enums.thy ===== *)
theory Enums imports Errors begin

text \<open>
  The enumerations of \<open>db/src/models/enums.rs\<close>. The macro \<open>string_enum\<close> gives each a printer
  (the variant's name, also its form in the database) and a parser that compares without regard
  to ASCII case and takes the first variant that matches. A variant is written with its type's
  name where two enumerations share it.
\<close>

datatype asset_status = Unsynced

datatype code_types = Access | Discount

datatype communication_channel_type = Email | Sms | Push

datatype domain_event_types = FeeScheduleCreated | OrderBehalfOfUserChanged | OrganizationCreated | PaymentCreated | PaymentCompleted | PaymentRefund | PaymentMethodCreated | PaymentMethodUpdated | UserRegistration | LostPassword | PurchaseCompleted | TransferTicketStarted | TransferTicketCompleted

datatype domain_action_types = Communication | MarketingContactsCreateEventList | MarketingContactsBulkEventFanListImport

datatype domain_action_status = Pending | RetriesExceeded | Errored | Success | Cancelled

datatype event_status = Draft | Closed | Published | Offline

datatype event_override_status = PurchaseTickets | SoldOut | OnSaleSoon | TicketsAtTheDoor | Free | Rescheduled | Cancelled | OffSale | Ended

datatype hold_types = Discount | Comp

datatype order_status = Cancelled | Draft | Paid | PartiallyPaid

datatype order_item_types = Tickets | PerUnitFees | EventFees

datatype order_types = Cart | BackOffice

datatype payment_methods = External | CreditCard

datatype payment_status = Authorized | Completed | Refunded

datatype roles = Admin | OrgMember | OrgOwner | OrgAdmin | OrgBoxOffice | DoorPerson | User

datatype tables = Events | FeeSchedules | Orders | Organizations | Payments | PaymentMethods | TicketInstances

datatype ticket_instance_status = Available | Reserved | Purchased | Redeemed | Nullified

datatype ticket_pricing_status = Published | Deleted | Default

datatype ticket_type_status = NoActivePricing | Published | SoldOut | Cancelled

section \<open>Printing and parsing\<close>

text \<open>The variants of each enumeration with their names, in declaration order.\<close>

definition asset_status_variants :: "(string \<times> asset_status) list" where
  "asset_status_variants =
     [(''Unsynced'', asset_status.Unsynced)]"

definition code_types_variants :: "(string \<times> code_types) list" where
  "code_types_variants =
     [(''Access'', code_types.Access),
      (''Discount'', code_types.Discount)]"

definition communication_channel_type_variants :: "(string \<times> communication_channel_type) list" where
  "communication_channel_type_variants =
     [(''Email'', communication_channel_type.Email),
      (''Sms'', communication_channel_type.Sms),
      (''Push'', communication_channel_type.Push)]"

definition domain_event_types_variants :: "(string \<times> domain_event_types) list" where
  "domain_event_types_variants =
     [(''FeeScheduleCreated'', domain_event_types.FeeScheduleCreated),
      (''OrderBehalfOfUserChanged'', domain_event_types.OrderBehalfOfUserChanged),
      (''OrganizationCreated'', domain_event_types.OrganizationCreated),
      (''PaymentCreated'', domain_event_types.PaymentCreated),
      (''PaymentCompleted'', domain_event_types.PaymentCompleted),
      (''PaymentRefund'', domain_event_types.PaymentRefund),
      (''PaymentMethodCreated'', domain_event_types.PaymentMethodCreated),
      (''PaymentMethodUpdated'', domain_event_types.PaymentMethodUpdated),
      (''UserRegistration'', domain_event_types.UserRegistration),
      (''LostPassword'', domain_event_types.LostPassword),
      (''PurchaseCompleted'', domain_event_types.PurchaseCompleted),
      (''TransferTicketStarted'', domain_event_types.TransferTicketStarted),
      (''TransferTicketCompleted'', domain_event_types.TransferTicketCompleted)]"

definition domain_action_types_variants :: "(string \<times> domain_action_types) list" where
  "domain_action_types_variants =
     [(''Communication'', domain_action_types.Communication),
      (''MarketingContactsCreateEventList'', domain_action_types.MarketingContactsCreateEventList),
      (''MarketingContactsBulkEventFanListImport'', domain_action_types.MarketingContactsBulkEventFanListImport)]"

definition domain_action_status_variants :: "(string \<times> domain_action_status) list" where
  "domain_action_status_variants =
     [(''Pending'', domain_action_status.Pending),
      (''RetriesExceeded'', domain_action_status.RetriesExceeded),
      (''Errored'', domain_action_status.Errored),
      (''Success'', domain_action_status.Success),
      (''Cancelled'', domain_action_status.Cancelled)]"

definition event_status_variants :: "(string \<times> event_status) list" where
  "event_status_variants =
     [(''Draft'', event_status.Draft),
      (''Closed'', event_status.Closed),
      (''Published'', event_status.Published),
      (''Offline'', event_status.Offline)]"

definition event_override_status_variants :: "(string \<times> event_override_status) list" where
  "event_override_status_variants =
     [(''PurchaseTickets'', event_override_status.PurchaseTickets),
      (''SoldOut'', event_override_status.SoldOut), (''OnSaleSoon'', event_override_status.OnSaleSoon),
      (''TicketsAtTheDoor'', event_override_status.TicketsAtTheDoor),
      (''Free'', event_override_status.Free), (''Rescheduled'', event_override_status.Rescheduled),
      (''Cancelled'', event_override_status.Cancelled), (''OffSale'', event_override_status.OffSale),
      (''Ended'', event_override_status.Ended)]"

definition hold_types_variants :: "(string \<times> hold_types) list" where
  "hold_types_variants =
     [(''Discount'', hold_types.Discount),
      (''Comp'', hold_types.Comp)]"

definition order_status_variants :: "(string \<times> order_status) list" where
  "order_status_variants =
     [(''Cancelled'', order_status.Cancelled),
      (''Draft'', order_status.Draft),
      (''Paid'', order_status.Paid),
      (''PartiallyPaid'', order_status.PartiallyPaid)]"

definition order_item_types_variants :: "(string \<times> order_item_types) list" where
  "order_item_types_variants =
     [(''Tickets'', order_item_types.Tickets),
      (''PerUnitFees'', order_item_types.PerUnitFees),
      (''EventFees'', order_item_types.EventFees)]"

definition order_types_variants :: "(string \<times> order_types) list" where
  "order_types_variants =
     [(''Cart'', order_types.Cart),
      (''BackOffice'', order_types.BackOffice)]"

definition payment_methods_variants :: "(string \<times> payment_methods) list" where
  "payment_methods_variants =
     [(''External'', payment_methods.External),
      (''CreditCard'', payment_methods.CreditCard)]"

definition payment_status_variants :: "(string \<times> payment_status) list" where
  "payment_status_variants =
     [(''Authorized'', payment_status.Authorized),
      (''Completed'', payment_status.Completed),
      (''Refunded'', payment_status.Refunded)]"

definition roles_variants :: "(string \<times> roles) list" where
  "roles_variants =
     [(''Admin'', roles.Admin),
      (''OrgMember'', roles.OrgMember),
      (''OrgOwner'', roles.OrgOwner),
      (''OrgAdmin'', roles.OrgAdmin),
      (''OrgBoxOffice'', roles.OrgBoxOffice),
      (''DoorPerson'', roles.DoorPerson),
      (''User'', roles.User)]"

definition tables_variants :: "(string \<times> tables) list" where
  "tables_variants =
     [(''Events'', tables.Events),
      (''FeeSchedules'', tables.FeeSchedules),
      (''Orders'', tables.Orders),
      (''Organizations'', tables.Organizations),
      (''Payments'', tables.Payments),
      (''PaymentMethods'', tables.PaymentMethods),
      (''TicketInstances'', tables.TicketInstances)]"

definition ticket_instance_status_variants :: "(string \<times> ticket_instance_status) list" where
  "ticket_instance_status_variants =
     [(''Available'', ticket_instance_status.Available),
      (''Reserved'', ticket_instance_status.Reserved),
      (''Purchased'', ticket_instance_status.Purchased),
      (''Redeemed'', ticket_instance_status.Redeemed),
      (''Nullified'', ticket_instance_status.Nullified)]"

definition ticket_pricing_status_variants :: "(string \<times> ticket_pricing_status) list" where
  "ticket_pricing_status_variants =
     [(''Published'', ticket_pricing_status.Published),
      (''Deleted'', ticket_pricing_status.Deleted),
      (''Default'', ticket_pricing_status.Default)]"

definition ticket_type_status_variants :: "(string \<times> ticket_type_status) list" where
  "ticket_type_status_variants =
     [(''NoActivePricing'', ticket_type_status.NoActivePricing),
      (''Published'', ticket_type_status.Published),
      (''SoldOut'', ticket_type_status.SoldOut),
      (''Cancelled'', ticket_type_status.Cancelled)]"

record enum_parse_error =
  epe_message :: string
  epe_value :: string
  epe_enum_type :: string

definition ascii_lower :: "char \<Rightarrow> char" where
  "ascii_lower c = (if 65 \<le> (of_char c :: nat) \<and> (of_char c :: nat) \<le> 90
     then char_of ((of_char c :: nat) + 32) else c)"

definition ascii_upper :: "char \<Rightarrow> char" where
  "ascii_upper c = (if 97 \<le> (of_char c :: nat) \<and> (of_char c :: nat) \<le> 122
     then char_of ((of_char c :: nat) - 32) else c)"

definition eq_ignore_ascii_case :: "string \<Rightarrow> string \<Rightarrow> bool" where
  "eq_ignore_ascii_case s t \<longleftrightarrow> map ascii_lower s = map ascii_lower t"

text \<open>\<open>Display\<close> and \<open>FromStr\<close> as the macro expands them, over the variants of one enumeration.\<close>

definition enum_to_string :: "(string \<times> 'v) list \<Rightarrow> 'v \<Rightarrow> string" where
  "enum_to_string variants v = (case find (\<lambda>p. snd p = v) variants of Some p \<Rightarrow> fst p | None \<Rightarrow> [])"

definition enum_from_str :: "(string \<times> 'v) list \<Rightarrow> string \<Rightarrow> string \<Rightarrow> enum_parse_error + 'v" where
  "enum_from_str variants enum_type s =
     (case find (\<lambda>p. eq_ignore_ascii_case s (fst p)) variants of
        Some p \<Rightarrow> Inr (snd p)
      | None \<Rightarrow> Inl \<lparr>epe_message = ''Could not parse value'', epe_value = s, epe_enum_type = enum_type\<rparr>)"

text \<open>The parser of the database column type compares exactly.\<close>

definition enum_from_sql :: "(string \<times> 'v) list \<Rightarrow> string \<Rightarrow> 'v option" where
  "enum_from_sql variants s = map_option snd (find (\<lambda>p. s = fst p) variants)"

definition table_name :: "tables \<Rightarrow> string" where
  "table_name t = map ascii_lower (enum_to_string tables_variants t)"

text \<open>What makes an enumeration printable and parsable: every variant is listed once, and no two
  names agree up to case.\<close>

definition variants_ok :: "(string \<times> 'v) list \<Rightarrow> bool" where
  "variants_ok variants \<longleftrightarrow>
     distinct (map (\<lambda>p. map ascii_lower (fst p)) variants) \<and> distinct (map snd variants)"

lemma find_variant:
  assumes "distinct (map g xs)" and "p \<in> set xs"
  shows "find (\<lambda>q. g q = g p) xs = Some p"
  using assms by (induction xs) (auto simp: rev_image_eqI)

lemma enum_roundtrip:
  assumes ok: "variants_ok variants" and v: "v \<in> snd ` set variants"
    and matches: "eq_ignore_ascii_case s (enum_to_string variants v)"
  shows "enum_from_str variants enum_type s = Inr v"
proof -
  from v obtain p where p: "p \<in> set variants" "snd p = v" by auto
  have "find (\<lambda>q. snd q = v) variants = Some p"
    using find_variant [of snd variants p] ok p by (simp add: variants_ok_def)
  then have "enum_to_string variants v = fst p" by (simp add: enum_to_string_def)
  with matches have s: "map ascii_lower s = map ascii_lower (fst p)"
    by (simp add: eq_ignore_ascii_case_def)
  have "find (\<lambda>q. map ascii_lower (fst q) = map ascii_lower (fst p)) variants = Some p"
    using find_variant [of "\<lambda>q. map ascii_lower (fst q)" variants p] ok p
    by (simp add: variants_ok_def)
  with s have "find (\<lambda>q. eq_ignore_ascii_case s (fst q)) variants = Some p"
    by (simp add: eq_ignore_ascii_case_def eq_commute)
  then show ?thesis using p by (simp add: enum_from_str_def)
qed

lemma enum_from_str_Inr:
  assumes "variants_ok variants" and "enum_from_str variants enum_type s = Inr v"
  shows "eq_ignore_ascii_case s (enum_to_string variants v)"
proof -
  from assms(2) obtain p where p: "find (\<lambda>q. eq_ignore_ascii_case s (fst q)) variants = Some p"
    and v: "v = snd p"
    by (auto simp: enum_from_str_def split: option.splits)
  from p have "p \<in> set variants" and s: "eq_ignore_ascii_case s (fst p)"
    by (auto dest: find_SomeD)
  then have "find (\<lambda>q. snd q = v) variants = Some p"
    using find_variant [of snd variants p] assms(1) v by (simp add: variants_ok_def)
  then show ?thesis using s by (simp add: enum_to_string_def)
qed

text \<open>What the macro promises of the enumerations it makes, and what follows for their users.\<close>

locale string_enum =
  fixes variants :: "(string \<times> 'v) list"
  assumes variants: "variants_ok variants"
    and complete: "v \<in> snd ` set variants"
begin

lemma parse_iff:
  "enum_from_str variants enum_type s = Inr v \<longleftrightarrow> eq_ignore_ascii_case s (enum_to_string variants v)"
  using enum_roundtrip [OF variants complete] enum_from_str_Inr [OF variants] by blast

lemma parse_print: "enum_from_str variants enum_type (enum_to_string variants v) = Inr v"
  by (simp add: parse_iff eq_ignore_ascii_case_def)

lemma parse_error:
  "enum_from_str variants enum_type s = Inl e \<Longrightarrow>
     e = \<lparr>epe_message = ''Could not parse value'', epe_value = s, epe_enum_type = enum_type\<rparr>"
  by (simp add: enum_from_str_def split: option.splits)

lemma load_iff: "enum_from_sql variants s = Some v \<longleftrightarrow> s = enum_to_string variants v"
proof
  assume "enum_from_sql variants s = Some v"
  then obtain p where p: "find (\<lambda>p. s = fst p) variants = Some p" "v = snd p"
    by (auto simp: enum_from_sql_def)
  then have "find (\<lambda>q. snd q = snd p) variants = Some p"
    using find_variant [of snd variants p] variants by (auto simp: variants_ok_def dest: find_SomeD)
  then show "s = enum_to_string variants v" using p by (auto simp: enum_to_string_def dest: find_SomeD)
next
  assume s: "s = enum_to_string variants v"
  obtain p where p: "p \<in> set variants" "snd p = v" using complete [of v] by auto
  then have "find (\<lambda>q. snd q = v) variants = Some p"
    using find_variant [of snd variants p] variants by (simp add: variants_ok_def)
  then have "s = fst p" by (simp add: s enum_to_string_def)
  moreover have "distinct (map fst variants)"
    using variants by (auto simp: variants_ok_def distinct_map inj_on_def)
  moreover have "find (\<lambda>q. s = fst q) variants = find (\<lambda>q. fst q = s) variants"
    by (rule find_cong) auto
  ultimately show "enum_from_sql variants s = Some v"
    using find_variant [of fst variants p] p by (simp add: enum_from_sql_def)
qed

lemma print_inj: "enum_to_string variants v = enum_to_string variants w \<longleftrightarrow> v = w"
  by (metis load_iff option.inject)

end

text \<open>All names that the macro is called with.\<close>

lemmas variants_defs = 
  event_override_status_variants_def
  asset_status_variants_def code_types_variants_def communication_channel_type_variants_def
  domain_event_types_variants_def domain_action_types_variants_def domain_action_status_variants_def
  event_status_variants_def hold_types_variants_def order_status_variants_def
  order_item_types_variants_def order_types_variants_def payment_methods_variants_def
  payment_status_variants_def roles_variants_def tables_variants_def
  ticket_instance_status_variants_def ticket_pricing_status_variants_def ticket_type_status_variants_def

interpretation asset_status_enum: string_enum asset_status_variants
  by (unfold_locales, code_simp, case_tac v) (simp_all add: variants_defs)

interpretation code_types_enum: string_enum code_types_variants
  by (unfold_locales, code_simp, case_tac v) (simp_all add: variants_defs)

interpretation communication_channel_type_enum: string_enum communication_channel_type_variants
  by (unfold_locales, code_simp, case_tac v) (simp_all add: variants_defs)

interpretation domain_event_types_enum: string_enum domain_event_types_variants
  by (unfold_locales, code_simp, case_tac v) (simp_all add: variants_defs)

interpretation domain_action_types_enum: string_enum domain_action_types_variants
  by (unfold_locales, code_simp, case_tac v) (simp_all add: variants_defs)

interpretation domain_action_status_enum: string_enum domain_action_status_variants
  by (unfold_locales, code_simp, case_tac v) (simp_all add: variants_defs)

interpretation event_status_enum: string_enum event_status_variants
  by (unfold_locales, code_simp, case_tac v) (simp_all add: variants_defs)

interpretation event_override_status_enum: string_enum event_override_status_variants
  by (unfold_locales, code_simp, case_tac v) (simp_all add: variants_defs)

interpretation hold_types_enum: string_enum hold_types_variants
  by (unfold_locales, code_simp, case_tac v) (simp_all add: variants_defs)

interpretation order_status_enum: string_enum order_status_variants
  by (unfold_locales, code_simp, case_tac v) (simp_all add: variants_defs)

interpretation order_item_types_enum: string_enum order_item_types_variants
  by (unfold_locales, code_simp, case_tac v) (simp_all add: variants_defs)

interpretation order_types_enum: string_enum order_types_variants
  by (unfold_locales, code_simp, case_tac v) (simp_all add: variants_defs)

interpretation payment_methods_enum: string_enum payment_methods_variants
  by (unfold_locales, code_simp, case_tac v) (simp_all add: variants_defs)

interpretation payment_status_enum: string_enum payment_status_variants
  by (unfold_locales, code_simp, case_tac v) (simp_all add: variants_defs)

interpretation roles_enum: string_enum roles_variants
  by (unfold_locales, code_simp, case_tac v) (simp_all add: variants_defs)

interpretation tables_enum: string_enum tables_variants
  by (unfold_locales, code_simp, case_tac v) (simp_all add: variants_defs)

interpretation ticket_instance_status_enum: string_enum ticket_instance_status_variants
  by (unfold_locales, code_simp, case_tac v) (simp_all add: variants_defs)

interpretation ticket_pricing_status_enum: string_enum ticket_pricing_status_variants
  by (unfold_locales, code_simp, case_tac v) (simp_all add: variants_defs)

interpretation ticket_type_status_enum: string_enum ticket_type_status_variants
  by (unfold_locales, code_simp, case_tac v) (simp_all add: variants_defs)

section \<open>Properties\<close>

text \<open>the enumerations of the database columns print and parse faithfully: the text of an
  order status, an order item type, a ticket status or a role parses back to it whatever its
  case, nothing else parses to it, and the column loads back only from the exact text it was
  stored as.\<close>

theorem stored_enums_roundtrip:
  "(enum_from_str order_status_variants ty s = Inr os \<longleftrightarrow>
      eq_ignore_ascii_case s (enum_to_string order_status_variants os)) \<and>
   (enum_from_sql order_status_variants s = Some os \<longleftrightarrow> s = enum_to_string order_status_variants os) \<and>
   (enum_from_str order_item_types_variants ty s = Inr it \<longleftrightarrow>
      eq_ignore_ascii_case s (enum_to_string order_item_types_variants it)) \<and>
   (enum_from_sql order_item_types_variants s = Some it \<longleftrightarrow>
      s = enum_to_string order_item_types_variants it) \<and>
   (enum_from_str ticket_instance_status_variants ty s = Inr ts \<longleftrightarrow>
      eq_ignore_ascii_case s (enum_to_string ticket_instance_status_variants ts)) \<and>
   (enum_from_sql ticket_instance_status_variants s = Some ts \<longleftrightarrow>
      s = enum_to_string ticket_instance_status_variants ts) \<and>
   (enum_from_str roles_variants ty s = Inr r \<longleftrightarrow>
      eq_ignore_ascii_case s (enum_to_string roles_variants r)) \<and>
   (enum_from_sql roles_variants s = Some r \<longleftrightarrow> s = enum_to_string roles_variants r)"
  by (intro conjI order_status_enum.parse_iff order_item_types_enum.parse_iff roles_enum.parse_iff
    ticket_instance_status_enum.parse_iff order_status_enum.load_iff order_item_types_enum.load_iff
    ticket_instance_status_enum.load_iff roles_enum.load_iff)

end
