(* ===== verification/Scopes.thy ===== *)
theory Scopes imports Enums begin

text \<open>
  The permission scopes of \<open>db/src/models/scopes.rs\<close>: their order, their printed names, and the
  scopes each role grants, directly and through the roles it includes.
\<close>

text \<open>The source spells two scopes like roles; a scope is written with its type's name.\<close>

datatype scopes =
    ArtistWrite
  | BoxOfficeTicketRead
  | BoxOfficeTicketWrite
  | CodeRead
  | CodeWrite
  | CompRead
  | CompWrite
  | DashboardRead
  | EventFinancialReports
  | EventInterest
  | EventReports
  | EventScan
  | EventViewGuests
  | EventWrite
  | HoldRead
  | HoldWrite
  | OrderMakeExternalPayment
  | OrderRead
  | OrderReadOwn
  | OrderRefund
  | OrgAdmin
  | OrgAdminUsers
  | OrgFans
  | OrgFinancialReports
  | OrgRead
  | OrgReports
  | OrgUsers
  | OrgWrite
  | RedeemTicket
  | RegionWrite
  | TicketAdmin
  | TicketRead
  | TicketTransfer
  | UserRead
  | VenueWrite

text \<open>The derived order is the order of declaration.\<close>

fun scope_index :: "scopes \<Rightarrow> nat" where
  "scope_index scopes.ArtistWrite = 0"
| "scope_index scopes.BoxOfficeTicketRead = 1"
| "scope_index scopes.BoxOfficeTicketWrite = 2"
| "scope_index scopes.CodeRead = 3"
| "scope_index scopes.CodeWrite = 4"
| "scope_index scopes.CompRead = 5"
| "scope_index scopes.CompWrite = 6"
| "scope_index scopes.DashboardRead = 7"
| "scope_index scopes.EventFinancialReports = 8"
| "scope_index scopes.EventInterest = 9"
| "scope_index scopes.EventReports = 10"
| "scope_index scopes.EventScan = 11"
| "scope_index scopes.EventViewGuests = 12"
| "scope_index scopes.EventWrite = 13"
| "scope_index scopes.HoldRead = 14"
| "scope_index scopes.HoldWrite = 15"
| "scope_index scopes.OrderMakeExternalPayment = 16"
| "scope_index scopes.OrderRead = 17"
| "scope_index scopes.OrderReadOwn = 18"
| "scope_index scopes.OrderRefund = 19"
| "scope_index scopes.OrgAdmin = 20"
| "scope_index scopes.OrgAdminUsers = 21"
| "scope_index scopes.OrgFans = 22"
| "scope_index scopes.OrgFinancialReports = 23"
| "scope_index scopes.OrgRead = 24"
| "scope_index scopes.OrgReports = 25"
| "scope_index scopes.OrgUsers = 26"
| "scope_index scopes.OrgWrite = 27"
| "scope_index scopes.RedeemTicket = 28"
| "scope_index scopes.RegionWrite = 29"
| "scope_index scopes.TicketAdmin = 30"
| "scope_index scopes.TicketRead = 31"
| "scope_index scopes.TicketTransfer = 32"
| "scope_index scopes.UserRead = 33"
| "scope_index scopes.VenueWrite = 34"

lemma scope_index_inject [simp]: "scope_index a = scope_index b \<longleftrightarrow> a = b"
  by (cases a; cases b) simp_all

instantiation scopes :: linorder
begin

definition less_eq_scopes :: "scopes \<Rightarrow> scopes \<Rightarrow> bool" where
  "less_eq_scopes a b \<longleftrightarrow> scope_index a \<le> scope_index b"

definition less_scopes :: "scopes \<Rightarrow> scopes \<Rightarrow> bool" where
  "less_scopes a b \<longleftrightarrow> scope_index a < scope_index b"

instance
  by standard (auto simp: less_eq_scopes_def less_scopes_def)

end

fun scope_to_string :: "scopes \<Rightarrow> string" where
  "scope_to_string scopes.ArtistWrite = ''artist:write''"
| "scope_to_string scopes.BoxOfficeTicketRead = ''box-office-ticket:read''"
| "scope_to_string scopes.BoxOfficeTicketWrite = ''box-office-ticket:write''"
| "scope_to_string scopes.CodeRead = ''code:read''"
| "scope_to_string scopes.CodeWrite = ''code:write''"
| "scope_to_string scopes.CompRead = ''comp:read''"
| "scope_to_string scopes.CompWrite = ''comp:write''"
| "scope_to_string scopes.DashboardRead = ''dashboard:read''"
| "scope_to_string scopes.EventWrite = ''event:write''"
| "scope_to_string scopes.EventFinancialReports = ''event:financial-reports''"
| "scope_to_string scopes.EventInterest = ''event:interest''"
| "scope_to_string scopes.EventReports = ''event:reports''"
| "scope_to_string scopes.EventScan = ''event:scan''"
| "scope_to_string scopes.EventViewGuests = ''event:view-guests''"
| "scope_to_string scopes.HoldRead = ''hold:read''"
| "scope_to_string scopes.HoldWrite = ''hold:write''"
| "scope_to_string scopes.OrderRead = ''order:read''"
| "scope_to_string scopes.OrderMakeExternalPayment = ''order:make-external-payment''"
| "scope_to_string scopes.OrderReadOwn = ''order:read-own''"
| "scope_to_string scopes.OrderRefund = ''order:refund''"
| "scope_to_string scopes.OrgAdmin = ''org:admin''"
| "scope_to_string scopes.OrgRead = ''org:read''"
| "scope_to_string scopes.OrgReports = ''org:reports''"
| "scope_to_string scopes.OrgFans = ''org:fans''"
| "scope_to_string scopes.OrgFinancialReports = ''org:financial-reports''"
| "scope_to_string scopes.OrgWrite = ''org:write''"
| "scope_to_string scopes.OrgAdminUsers = ''org:admin-users''"
| "scope_to_string scopes.OrgUsers = ''org:users''"
| "scope_to_string scopes.RedeemTicket = ''redeem:ticket''"
| "scope_to_string scopes.RegionWrite = ''region:write''"
| "scope_to_string scopes.UserRead = ''user:read''"
| "scope_to_string scopes.VenueWrite = ''venue:write''"
| "scope_to_string scopes.TicketAdmin = ''ticket:admin''"
| "scope_to_string scopes.TicketRead = ''ticket:read''"
| "scope_to_string scopes.TicketTransfer = ''ticket:transfer''"

definition scope_from_str :: "string \<Rightarrow> enum_parse_error + scopes" where
  "scope_from_str s =
    (if s = ''artist:write'' then Inr scopes.ArtistWrite
     else if s = ''box-office-ticket:read'' then Inr scopes.BoxOfficeTicketRead
     else if s = ''box-office-ticket:write'' then Inr scopes.BoxOfficeTicketWrite
     else if s = ''code:read'' then Inr scopes.CodeRead
     else if s = ''code:write'' then Inr scopes.CodeWrite
     else if s = ''comp:read'' then Inr scopes.CompRead
     else if s = ''comp:write'' then Inr scopes.CompWrite
     else if s = ''dashboard:read'' then Inr scopes.DashboardRead
     else if s = ''event:write'' then Inr scopes.EventWrite
     else if s = ''event:financial-reports'' then Inr scopes.EventFinancialReports
     else if s = ''event:interest'' then Inr scopes.EventInterest
     else if s = ''event:reports'' then Inr scopes.EventReports
     else if s = ''event:scan'' then Inr scopes.EventScan
     else if s = ''event:view-guests'' then Inr scopes.EventViewGuests
     else if s = ''hold:read'' then Inr scopes.HoldRead
     else if s = ''hold:write'' then Inr scopes.HoldWrite
     else if s = ''order:read'' then Inr scopes.OrderRead
     else if s = ''order:make-external-payment'' then Inr scopes.OrderMakeExternalPayment
     else if s = ''order:read-own'' then Inr scopes.OrderReadOwn
     else if s = ''order:refund'' then Inr scopes.OrderRefund
     else if s = ''org:admin'' then Inr scopes.OrgAdmin
     else if s = ''org:read'' then Inr scopes.OrgRead
     else if s = ''org:reports'' then Inr scopes.OrgReports
     else if s = ''org:fans'' then Inr scopes.OrgFans
     else if s = ''org:financial-reports'' then Inr scopes.OrgFinancialReports
     else if s = ''org:write'' then Inr scopes.OrgWrite
     else if s = ''org:admin-users'' then Inr scopes.OrgAdminUsers
     else if s = ''org:users'' then Inr scopes.OrgUsers
     else if s = ''redeem:ticket'' then Inr scopes.RedeemTicket
     else if s = ''region:write'' then Inr scopes.RegionWrite
     else if s = ''user:read'' then Inr scopes.UserRead
     else if s = ''venue:write'' then Inr scopes.VenueWrite
     else if s = ''ticket:admin'' then Inr scopes.TicketAdmin
     else if s = ''ticket:read'' then Inr scopes.TicketRead
     else if s = ''ticket:transfer'' then Inr scopes.TicketTransfer
     else Inl \<lparr>epe_message = ''Could not parse value'', epe_value = s, epe_enum_type = ''Scopes''\<rparr>)"

section \<open>Roles\<close>

text \<open>How deep a role's includes go; the recursion of \<open>get_scopes_for_role\<close> descends in it.\<close>

fun role_rank :: "roles \<Rightarrow> nat" where
  "role_rank roles.User = 0"
| "role_rank roles.DoorPerson = 0"
| "role_rank roles.OrgBoxOffice = 1"
| "role_rank roles.OrgMember = 1"
| "role_rank roles.OrgAdmin = 2"
| "role_rank roles.OrgOwner = 3"
| "role_rank roles.Admin = 4"

function get_scopes_for_role :: "roles \<Rightarrow> scopes list" where
  "get_scopes_for_role roles.User = remdups_adj (sort (
        [scopes.EventInterest, scopes.OrderReadOwn, scopes.TicketTransfer]))"
| "get_scopes_for_role roles.DoorPerson = remdups_adj (sort (
        [scopes.RedeemTicket, scopes.HoldRead, scopes.EventScan, scopes.TicketRead]))"
| "get_scopes_for_role roles.OrgBoxOffice = remdups_adj (sort (
        [scopes.DashboardRead, scopes.EventViewGuests, scopes.OrderMakeExternalPayment,
        scopes.BoxOfficeTicketRead]
        @ get_scopes_for_role roles.DoorPerson))"
| "get_scopes_for_role roles.OrgMember = remdups_adj (sort (
        [scopes.ArtistWrite, scopes.BoxOfficeTicketRead, scopes.BoxOfficeTicketWrite,
        scopes.CodeRead, scopes.CodeWrite, scopes.CompRead, scopes.CompWrite,
        scopes.DashboardRead, scopes.EventScan, scopes.EventViewGuests, scopes.EventWrite,
        scopes.HoldRead, scopes.HoldWrite, scopes.OrderRead, scopes.OrderRefund, scopes.OrgRead,
        scopes.OrgFans, scopes.RedeemTicket, scopes.TicketAdmin, scopes.TicketRead,
        scopes.VenueWrite]
        @ get_scopes_for_role roles.User))"
| "get_scopes_for_role roles.OrgAdmin = remdups_adj (sort (
        [scopes.OrgWrite, scopes.UserRead, scopes.OrgUsers, scopes.EventFinancialReports,
        scopes.EventReports, scopes.OrgReports]
        @ get_scopes_for_role roles.OrgMember
        @ get_scopes_for_role roles.OrgBoxOffice))"
| "get_scopes_for_role roles.OrgOwner = remdups_adj (sort (
        [scopes.OrgAdminUsers]
        @ get_scopes_for_role roles.OrgAdmin))"
| "get_scopes_for_role roles.Admin = remdups_adj (sort (
        [scopes.OrgAdmin, scopes.RegionWrite, scopes.OrgFinancialReports]
        @ get_scopes_for_role roles.OrgOwner))"
  by (case_tac x) auto
termination
  by (relation "measure role_rank") auto

declare get_scopes_for_role.simps [simp del]

definition get_scopes :: "roles list \<Rightarrow> scopes list" where
  "get_scopes rs = remdups_adj (sort (concat (map get_scopes_for_role rs)))"

lemma sorted_distinct_dedup:
  fixes xs :: "'a::linorder list"
  shows "sorted (remdups_adj (sort xs)) \<and> distinct (remdups_adj (sort xs))"
proof -
  have "sorted ys \<Longrightarrow> sorted (remdups_adj ys) \<and> distinct (remdups_adj ys)" for ys :: "'a list"
    by (induction ys rule: remdups_adj.induct) (auto simp: order_antisym)
  then show ?thesis by simp
qed

text \<open>The scopes of a role, as a set: its own and those of the roles it includes.\<close>

lemma set_get_scopes_for_role:
  shows "set (get_scopes_for_role roles.User) = {scopes.EventInterest, scopes.OrderReadOwn, scopes.TicketTransfer}"
  and "set (get_scopes_for_role roles.DoorPerson) = {scopes.RedeemTicket, scopes.HoldRead, scopes.EventScan, scopes.TicketRead}"
  and "set (get_scopes_for_role roles.OrgBoxOffice) = {scopes.DashboardRead, scopes.EventViewGuests, scopes.OrderMakeExternalPayment,
     scopes.BoxOfficeTicketRead} \<union> set (get_scopes_for_role roles.DoorPerson)"
  and "set (get_scopes_for_role roles.OrgMember) = {scopes.ArtistWrite, scopes.BoxOfficeTicketRead, scopes.BoxOfficeTicketWrite,
     scopes.CodeRead, scopes.CodeWrite, scopes.CompRead, scopes.CompWrite,
     scopes.DashboardRead, scopes.EventScan, scopes.EventViewGuests, scopes.EventWrite,
     scopes.HoldRead, scopes.HoldWrite, scopes.OrderRead, scopes.OrderRefund, scopes.OrgRead,
     scopes.OrgFans, scopes.RedeemTicket, scopes.TicketAdmin, scopes.TicketRead,
     scopes.VenueWrite} \<union> set (get_scopes_for_role roles.User)"
  and "set (get_scopes_for_role roles.OrgAdmin) = {scopes.OrgWrite, scopes.UserRead, scopes.OrgUsers, scopes.EventFinancialReports,
     scopes.EventReports, scopes.OrgReports} \<union> set (get_scopes_for_role roles.OrgMember) \<union> set (get_scopes_for_role roles.OrgBoxOffice)"
  and "set (get_scopes_for_role roles.OrgOwner) = {scopes.OrgAdminUsers} \<union> set (get_scopes_for_role roles.OrgAdmin)"
  and "set (get_scopes_for_role roles.Admin) = {scopes.OrgAdmin, scopes.RegionWrite, scopes.OrgFinancialReports} \<union> set (get_scopes_for_role roles.OrgOwner)"
  by (simp_all only: get_scopes_for_role.simps remdups_adj_set set_sort set_append list.set
    Un_assoc)

section \<open>Properties\<close>

text \<open>printing and parsing scopes are inverse: a string parses to a scope exactly when it is
  that scope's printed form.\<close>

theorem scope_roundtrip: "scope_from_str t = Inr s \<longleftrightarrow> t = scope_to_string s"
proof
  show "scope_from_str t = Inr s \<Longrightarrow> t = scope_to_string s"
    by (auto simp: scope_from_str_def split: if_splits)
  show "t = scope_to_string s \<Longrightarrow> scope_from_str t = Inr s"
    by (cases s) (simp_all add: scope_from_str_def)
qed

text \<open>the scopes computed for a user's roles are sorted without repetition and are exactly
  those some role grants; the grants follow the role hierarchy; the platform scopes belong to
  administrators alone, managing an organization's users to its owner and above, and refunds to
  members and above.\<close>

theorem scopes_of_roles:
  "sorted (get_scopes rs) \<and> distinct (get_scopes rs) \<and>
   (s \<in> set (get_scopes rs) \<longleftrightarrow> (\<exists>r. r \<in> set rs \<and> s \<in> set (get_scopes_for_role r))) \<and>
   set (get_scopes_for_role roles.User) \<subseteq> set (get_scopes_for_role roles.OrgMember) \<and>
   set (get_scopes_for_role roles.DoorPerson) \<subseteq> set (get_scopes_for_role roles.OrgBoxOffice) \<and>
   set (get_scopes_for_role roles.OrgMember) \<union> set (get_scopes_for_role roles.OrgBoxOffice)
     \<subseteq> set (get_scopes_for_role roles.OrgAdmin) \<and>
   set (get_scopes_for_role roles.OrgAdmin) \<subseteq> set (get_scopes_for_role roles.OrgOwner) \<and>
   set (get_scopes_for_role roles.OrgOwner) \<subseteq> set (get_scopes_for_role roles.Admin) \<and>
   (scopes.RegionWrite \<in> set (get_scopes_for_role r) \<longleftrightarrow> r = roles.Admin) \<and>
   (scopes.OrgAdmin \<in> set (get_scopes_for_role r) \<longleftrightarrow> r = roles.Admin) \<and>
   (scopes.OrgFinancialReports \<in> set (get_scopes_for_role r) \<longleftrightarrow> r = roles.Admin) \<and>
   (scopes.OrgAdminUsers \<in> set (get_scopes_for_role r) \<longleftrightarrow> r \<in> {roles.OrgOwner, roles.Admin}) \<and>
   (scopes.OrderRefund \<in> set (get_scopes_for_role r) \<longleftrightarrow>
      r \<in> {roles.OrgMember, roles.OrgAdmin, roles.OrgOwner, roles.Admin})"
proof (intro conjI)
  show "sorted (get_scopes rs)" "distinct (get_scopes rs)"
    using sorted_distinct_dedup by (auto simp: get_scopes_def)
  show "s \<in> set (get_scopes rs) \<longleftrightarrow> (\<exists>r. r \<in> set rs \<and> s \<in> set (get_scopes_for_role r))"
    by (auto simp: get_scopes_def)
qed ((simp only: set_get_scopes_for_role, blast)+, (cases r; simp add: set_get_scopes_for_role)+)

end
