(* ===== verification/Database.thy ===== *)
theory Database imports Scopes begin

text \<open>
  The database as the code sees it: one record per row type, with the columns of the struct that
  the code loads the row into, one list of rows per table, and the statements the query builder
  issues (select, first, insert, update, delete) as operations. Beside the tables the state holds
  what a statement takes from outside: the transaction's clock, the process's clock, the source
  of fresh identifiers, the random source, the ticket rows other transactions have locked, the
  place of a text in the database's collation, and the validator crate's test of e-mail addresses.
\<close>

section \<open>Rows\<close>

text \<open>The values of \<open>serde_json::Value\<close> that rows carry; numbers are the integers the code puts there.\<close>

datatype json = JNull | JBool bool | JNumber int | JString string | JUuid uuid | JArray "json list"
  | JObject "(string \<times> json) list"

record order_row =
  o_id :: uuid
  o_user_id :: uuid
  o_status :: order_status
  o_order_type :: order_types
  o_order_date :: timestamp
  o_expires_at :: "timestamp option"
  o_version :: int
  o_note :: "string option"
  o_on_behalf_of_user_id :: "uuid option"
  o_created_at :: timestamp
  o_updated_at :: timestamp
  o_paid_at :: "timestamp option"
  o_box_office_pricing :: bool

record order_item =
  oi_id :: uuid
  oi_order_id :: uuid
  oi_item_type :: order_item_types
  oi_ticket_type_id :: "uuid option"
  oi_event_id :: "uuid option"
  oi_quantity :: int
  oi_unit_price_in_cents :: int
  oi_created_at :: timestamp
  oi_updated_at :: timestamp
  oi_ticket_pricing_id :: "uuid option"
  oi_fee_schedule_range_id :: "uuid option"
  oi_parent_id :: "uuid option"
  oi_hold_id :: "uuid option"
  oi_code_id :: "uuid option"
  oi_company_fee_in_cents :: int
  oi_client_fee_in_cents :: int
  oi_refunded_quantity :: int

record ticket_instance =
  ti_id :: uuid
  ti_asset_id :: uuid
  ti_token_id :: int
  ti_hold_id :: "uuid option"
  ti_order_item_id :: "uuid option"
  ti_wallet_id :: uuid
  ti_reserved_until :: "timestamp option"
  ti_redeem_key :: "string option"
  ti_transfer_key :: "uuid option"
  ti_transfer_expiry_date :: "timestamp option"
  ti_status :: ticket_instance_status
  ti_created_at :: timestamp
  ti_updated_at :: timestamp

record asset =
  a_id :: uuid
  a_ticket_type_id :: uuid
  a_blockchain_name :: string
  a_blockchain_asset_id :: "string option"
  a_status :: asset_status
  a_created_at :: timestamp
  a_updated_at :: timestamp

record ticket_type =
  tt_id :: uuid
  tt_event_id :: uuid
  tt_name :: string
  tt_description :: "string option"
  tt_status :: ticket_type_status
  tt_start_date :: timestamp
  tt_end_date :: timestamp
  tt_increment :: int
  tt_limit_per_person :: int
  tt_created_at :: timestamp
  tt_updated_at :: timestamp
  tt_price_in_cents :: int
  tt_cancelled_at :: "timestamp option"

record ticket_pricing =
  tp_id :: uuid
  tp_ticket_type_id :: uuid
  tp_name :: string
  tp_status :: ticket_pricing_status
  tp_price_in_cents :: int
  tp_start_date :: timestamp
  tp_end_date :: timestamp
  tp_is_box_office_only :: bool
  tp_created_at :: timestamp
  tp_updated_at :: timestamp

record fee_schedule =
  fs_id :: uuid
  fs_name :: string
  fs_version :: int
  fs_created_at :: timestamp
  fs_updated_at :: timestamp

record fee_schedule_range =
  fsr_id :: uuid
  fsr_fee_schedule_id :: uuid
  fsr_min_price_in_cents :: int
  fsr_fee_in_cents :: int
  fsr_created_at :: timestamp
  fsr_updated_at :: timestamp
  fsr_company_fee_in_cents :: int
  fsr_client_fee_in_cents :: int

record hold =
  h_id :: uuid
  h_name :: string
  h_parent_hold_id :: "uuid option"
  h_event_id :: uuid
  h_redemption_code :: string
  h_discount_in_cents :: "int option"
  h_end_at :: "timestamp option"
  h_max_per_order :: "int option"
  h_hold_type :: hold_types
  h_ticket_type_id :: uuid
  h_email :: "string option"
  h_phone :: "string option"
  h_created_at :: timestamp
  h_updated_at :: timestamp

record code_row =
  c_id :: uuid
  c_name :: string
  c_event_id :: uuid
  c_code_type :: code_types
  c_redemption_code :: string
  c_max_uses :: int
  c_discount_in_cents :: "int option"
  c_start_date :: timestamp
  c_end_date :: timestamp
  c_max_tickets_per_user :: "int option"
  c_created_at :: timestamp
  c_updated_at :: timestamp

record payment =
  p_id :: uuid
  p_order_id :: uuid
  p_created_by :: uuid
  p_status :: payment_status
  p_payment_method :: payment_methods
  p_amount :: int
  p_provider :: string
  p_external_reference :: "string option"
  p_raw_data :: "json option"
  p_created_at :: timestamp
  p_updated_at :: timestamp

record refunded_ticket =
  rt_id :: uuid
  rt_order_item_id :: uuid
  rt_ticket_instance_id :: uuid
  rt_fee_refunded_at :: "timestamp option"
  rt_ticket_refunded_at :: "timestamp option"
  rt_created_at :: timestamp
  rt_updated_at :: timestamp

record wallet =
  w_id :: uuid
  w_user_id :: "uuid option"
  w_organization_id :: "uuid option"
  w_name :: string
  w_secret_key :: string
  w_public_key :: string
  w_default_flag :: bool
  w_created_at :: timestamp
  w_updated_at :: timestamp

record domain_event =
  de_id :: uuid
  de_event_type :: domain_event_types
  de_display_text :: string
  de_event_data :: "json option"
  de_main_table :: tables
  de_main_id :: "uuid option"
  de_published_at :: "timestamp option"
  de_created_at :: timestamp
  de_updated_at :: timestamp
  de_user_id :: "uuid option"

record domain_action =
  da_id :: uuid
  da_domain_event_id :: "uuid option"
  da_domain_action_type :: domain_action_types
  da_communication_channel_type :: "communication_channel_type option"
  da_payload :: string
  da_main_table :: string
  da_main_table_id :: uuid
  da_scheduled_at :: timestamp
  da_expires_at :: timestamp
  da_last_attempted_at :: "timestamp option"
  da_attempt_count :: int
  da_max_attempt_count :: int
  da_status :: domain_action_status
  da_last_failure_reason :: "string option"
  da_blocked_until :: timestamp
  da_created_at :: timestamp
  da_updated_at :: timestamp

record event_row =
  e_id :: uuid
  e_name :: string
  e_organization_id :: uuid
  e_venue_id :: "uuid option"
  e_created_at :: timestamp
  e_event_start :: "timestamp option"
  e_door_time :: "timestamp option"
  e_status :: event_status
  e_publish_date :: "timestamp option"
  e_redeem_date :: "timestamp option"
  e_fee_in_cents :: int
  e_promo_image_url :: "string option"
  e_additional_info :: "string option"
  e_age_limit :: "int option"
  e_top_line_info :: "string option"
  e_cancelled_at :: "timestamp option"
  e_updated_at :: timestamp
  e_min_ticket_price :: "int option"
  e_max_ticket_price :: "int option"
  e_video_url :: "string option"
  e_is_external :: bool
  e_external_url :: "string option"
  e_override_status :: "event_override_status option"
  e_client_fee_in_cents :: int
  e_company_fee_in_cents :: int
  e_settlement_amount_in_cents :: "int option"
  e_event_end :: "timestamp option"
  e_sendgrid_list_id :: "int option"

record organization =
  org_id :: uuid
  org_name :: string
  org_address :: "string option"
  org_city :: "string option"
  org_state :: "string option"
  org_country :: "string option"
  org_postal_code :: "string option"
  org_phone :: "string option"
  org_event_fee_in_cents :: int
  org_sendgrid_api_key :: "string option"
  org_google_ga_key :: "string option"
  org_facebook_pixel_key :: "string option"
  org_created_at :: timestamp
  org_updated_at :: timestamp
  org_fee_schedule_id :: uuid
  org_client_event_fee_in_cents :: int
  org_company_event_fee_in_cents :: int

record ticket_type_code =
  ttc_id :: uuid
  ttc_ticket_type_id :: uuid
  ttc_code_id :: uuid
  ttc_created_at :: timestamp
  ttc_updated_at :: timestamp

record user_row =
  u_id :: uuid
  u_first_name :: "string option"
  u_last_name :: "string option"
  u_email :: "string option"
  u_phone :: "string option"
  u_profile_pic_url :: "string option"
  u_thumb_profile_pic_url :: "string option"
  u_cover_photo_url :: "string option"
  u_hashed_pw :: string
  u_password_modified_at :: timestamp
  u_created_at :: timestamp
  u_last_used :: "timestamp option"
  u_active :: bool
  u_role :: "roles list"
  u_password_reset_token :: "uuid option"
  u_password_reset_requested_at :: "timestamp option"
  u_updated_at :: timestamp
  u_last_cart_id :: "uuid option"
  u_accepted_terms_date :: "timestamp option"
  u_invited_at :: "timestamp option"

text \<open>A 64 bit float is its bit pattern.\<close>

type_synonym f64 = "64 word"

record organization_user =
  ou_id :: uuid
  ou_organization_id :: uuid
  ou_user_id :: uuid
  ou_created_at :: timestamp
  ou_updated_at :: timestamp
  ou_role :: "roles list"

record organization_invite =
  inv_id :: uuid
  inv_organization_id :: uuid
  inv_inviter_id :: uuid
  inv_user_email :: string
  inv_created_at :: timestamp
  inv_security_token :: "uuid option"
  inv_user_id :: "uuid option"
  inv_accepted :: "int option"
  inv_updated_at :: timestamp
  inv_sent_invite :: bool
  inv_roles :: "roles list"

record external_login =
  el_id :: uuid
  el_user_id :: uuid
  el_created_at :: timestamp
  el_site :: string
  el_access_token :: string
  el_external_user_id :: string
  el_updated_at :: timestamp

record event_interest =
  ei_id :: uuid
  ei_event_id :: uuid
  ei_user_id :: uuid
  ei_created_at :: timestamp
  ei_updated_at :: timestamp

record payment_method =
  pm_id :: uuid
  pm_user_id :: uuid
  pm_name :: string
  pm_is_default :: bool
  pm_provider :: string
  pm_provider_data :: json
  pm_created_at :: timestamp
  pm_updated_at :: timestamp

record push_notification_token =
  pnt_id :: uuid
  pnt_user_id :: uuid
  pnt_token_source :: string
  pnt_token :: string
  pnt_last_notification_at :: "timestamp option"
  pnt_created_at :: timestamp

record venue =
  v_id :: uuid
  v_region_id :: uuid
  v_organization_id :: "uuid option"
  v_is_private :: bool
  v_name :: string
  v_address :: string
  v_city :: string
  v_state :: string
  v_country :: string
  v_postal_code :: string
  v_phone :: "string option"
  v_promo_image_url :: "string option"
  v_created_at :: timestamp
  v_updated_at :: timestamp
  v_google_place_id :: "string option"
  v_latitude :: "f64 option"
  v_longitude :: "f64 option"
  v_timezone :: "string option"

record region =
  reg_id :: uuid
  reg_name :: string
  reg_created_at :: timestamp
  reg_updated_at :: timestamp

record stage =
  st_id :: uuid
  st_venue_id :: uuid
  st_name :: string
  st_description :: "string option"
  st_capacity :: "int option"
  st_created_at :: timestamp
  st_updated_at :: timestamp

record artist =
  art_id :: uuid
  art_organization_id :: "uuid option"
  art_is_private :: bool
  art_name :: string
  art_bio :: string
  art_image_url :: "string option"
  art_thumb_image_url :: "string option"
  art_website_url :: "string option"
  art_youtube_video_urls :: "string list"
  art_facebook_username :: "string option"
  art_instagram_username :: "string option"
  art_snapchat_username :: "string option"
  art_soundcloud_username :: "string option"
  art_bandcamp_username :: "string option"
  art_spotify_id :: "string option"
  art_created_at :: timestamp
  art_updated_at :: timestamp
  art_other_image_urls :: "string list option"

record event_artist =
  ea_id :: uuid
  ea_event_id :: uuid
  ea_artist_id :: uuid
  ea_rank :: int
  ea_set_time :: "timestamp option"
  ea_created_at :: timestamp
  ea_updated_at :: timestamp
  ea_importance :: int
  ea_stage_id :: "uuid option"

section \<open>The state\<close>

record db =
  db_orders :: "order_row list"
  db_order_items :: "order_item list"
  db_ticket_instances :: "ticket_instance list"
  db_assets :: "asset list"
  db_ticket_types :: "ticket_type list"
  db_ticket_pricing :: "ticket_pricing list"
  db_fee_schedules :: "fee_schedule list"
  db_fee_schedule_ranges :: "fee_schedule_range list"
  db_holds :: "hold list"
  db_codes :: "code_row list"
  db_ticket_type_codes :: "ticket_type_code list"
  db_payments :: "payment list"
  db_refunded_tickets :: "refunded_ticket list"
  db_wallets :: "wallet list"
  db_domain_events :: "domain_event list"
  db_domain_actions :: "domain_action list"
  db_events :: "event_row list"
  db_organizations :: "organization list"
  db_users :: "user_row list"
  db_organization_users :: "organization_user list"
  db_organization_invites :: "organization_invite list"
  db_external_logins :: "external_login list"
  db_event_interest :: "event_interest list"
  db_payment_methods :: "payment_method list"
  db_push_notification_tokens :: "push_notification_token list"
  db_venues :: "venue list"
  db_regions :: "region list"
  db_stages :: "stage list"
  db_artists :: "artist list"
  db_event_artists :: "event_artist list"
  now :: timestamp
  utc_now :: timestamp
  uuid_source :: "nat \<Rightarrow> uuid"
  uuids_drawn :: nat
  rng_source :: "nat \<Rightarrow> nat \<Rightarrow> nat"
  rng_drawn :: nat
  keypair_source :: "nat \<Rightarrow> string \<times> string"
  keypairs_drawn :: nat
  locked_tickets :: "uuid list"
  collate :: "string \<Rightarrow> int"
  valid_email :: "string \<Rightarrow> bool"

type_synonym 'a dbop = "(db, db_error, 'a) op"

text \<open>Drawing an identifier (\<open>gen_random_uuid()\<close>, \<open>Uuid::new_v4()\<close>) and a random index below
  \<open>n\<close> (\<open>gen_range(0, n)\<close>); both sources are parameters in the state.\<close>

definition draw_uuid :: "uuid dbop" where
  "draw_uuid = (\<lambda>s. (Inr (uuid_source s (uuids_drawn s)), s\<lparr>uuids_drawn := Suc (uuids_drawn s)\<rparr>))"

definition gen_range :: "nat \<Rightarrow> nat dbop" where
  "gen_range n = (\<lambda>s. (Inr (rng_source s (rng_drawn s) n), s\<lparr>rng_drawn := Suc (rng_drawn s)\<rparr>))"

definition draw_keypair :: "(string \<times> string) dbop" where
  "draw_keypair = (\<lambda>s.
     (Inr (keypair_source s (keypairs_drawn s)), s\<lparr>keypairs_drawn := Suc (keypairs_drawn s)\<rparr>))"

section \<open>Statements\<close>

text \<open>A table is read by \<open>get\<close> and replaced by \<open>put\<close>.\<close>

definition select_where :: "('s \<Rightarrow> 'r list) \<Rightarrow> ('r \<Rightarrow> bool) \<Rightarrow> ('s, db_error, 'r list) op" where
  "select_where get P = gets (\<lambda>s. filter P (get s))"

text \<open>\<open>.first(conn)\<close>, with the driver's error for no row.\<close>

definition first_where ::
  "('s \<Rightarrow> 'r list) \<Rightarrow> ('r \<Rightarrow> bool) \<Rightarrow> error_code \<Rightarrow> string \<Rightarrow> ('s, db_error, 'r) op" where
  "first_where get P code message = (\<lambda>s.
     (wrap code message (case find P (get s) of Some r \<Rightarrow> Inr r | None \<Rightarrow> Inl NotFound), s))"

definition insert_row :: "('s \<Rightarrow> 'r list) \<Rightarrow> ('r list \<Rightarrow> 's \<Rightarrow> 's) \<Rightarrow> 'r \<Rightarrow> ('s, db_error, 'r) op" where
  "insert_row get put r = (\<lambda>s. (Inr r, put (get s @ [r]) s))"

text \<open>\<open>UPDATE .. WHERE\<close>, returning the rows it changed, as changed.\<close>

definition update_rows ::
  "('s \<Rightarrow> 'r list) \<Rightarrow> ('r list \<Rightarrow> 's \<Rightarrow> 's) \<Rightarrow> ('r \<Rightarrow> bool) \<Rightarrow> ('r \<Rightarrow> 'r) \<Rightarrow> ('s, db_error, 'r list) op"
where
  "update_rows get put P f = (\<lambda>s.
     (Inr (map f (filter P (get s))), put (update_where P f (get s)) s))"

text \<open>The same with \<open>.get_result(conn)\<close>: the first row changed, or the driver's error for none.\<close>

definition update_first ::
  "('s \<Rightarrow> 'r list) \<Rightarrow> ('r list \<Rightarrow> 's \<Rightarrow> 's) \<Rightarrow> ('r \<Rightarrow> bool) \<Rightarrow> ('r \<Rightarrow> 'r) \<Rightarrow> error_code \<Rightarrow> string \<Rightarrow>
   ('s, db_error, 'r) op"
where
  "update_first get put P f code message =
     bindo (update_rows get put P f)
       (\<lambda>rows. lift_result (wrap code message
          (case rows of r # _ \<Rightarrow> Inr r | [] \<Rightarrow> Inl NotFound)))"

text \<open>Statements on a table with constraints: \<open>violation\<close> says which constraint of the schema, if any,
  the new row breaks; then the statement fails and changes nothing.\<close>

definition insert_checked ::
  "('s \<Rightarrow> 'r list) \<Rightarrow> ('r list \<Rightarrow> 's \<Rightarrow> 's) \<Rightarrow> ('s \<Rightarrow> 'r \<Rightarrow> db_error_kind option) \<Rightarrow> 'r \<Rightarrow>
   error_code \<Rightarrow> string \<Rightarrow> ('s, db_error, 'r) op"
where
  "insert_checked get put violation r code message = (\<lambda>s.
     case violation s r of
       None \<Rightarrow> insert_row get put r s
     | Some k \<Rightarrow> (wrap code message (Inl (DatabaseFailure k)), s))"

definition update_checked ::
  "('s \<Rightarrow> 'r list) \<Rightarrow> ('r list \<Rightarrow> 's \<Rightarrow> 's) \<Rightarrow> ('s \<Rightarrow> 'r \<Rightarrow> db_error_kind option) \<Rightarrow> ('r \<Rightarrow> bool) \<Rightarrow>
   ('r \<Rightarrow> 'r) \<Rightarrow> error_code \<Rightarrow> string \<Rightarrow> ('s, db_error, 'r) op"
where
  "update_checked get put violation P f code message = (\<lambda>s.
     case filter (\<lambda>k. k \<noteq> None) (map (\<lambda>r. violation s (f r)) (filter P (get s))) of
       Some k # _ \<Rightarrow> (wrap code message (Inl (DatabaseFailure k)), s)
     | _ \<Rightarrow> update_first get put P f code message s)"

text \<open>\<open>.execute(conn)\<close> of an update: the number of rows changed, none being no error.\<close>

definition execute_update ::
  "('s \<Rightarrow> 'r list) \<Rightarrow> ('r list \<Rightarrow> 's \<Rightarrow> 's) \<Rightarrow> ('r \<Rightarrow> bool) \<Rightarrow> ('r \<Rightarrow> 'r) \<Rightarrow> ('s, db_error, nat) op"
where
  "execute_update get put P f = bindo (update_rows get put P f) (\<lambda>rows. ret (length rows))"

definition execute_checked ::
  "('s \<Rightarrow> 'r list) \<Rightarrow> ('r list \<Rightarrow> 's \<Rightarrow> 's) \<Rightarrow> ('s \<Rightarrow> 'r \<Rightarrow> db_error_kind option) \<Rightarrow> ('r \<Rightarrow> bool) \<Rightarrow>
   ('r \<Rightarrow> 'r) \<Rightarrow> error_code \<Rightarrow> string \<Rightarrow> ('s, db_error, nat) op"
where
  "execute_checked get put violation P f code message = (\<lambda>s.
     case filter (\<lambda>k. k \<noteq> None) (map (\<lambda>r. violation s (f r)) (filter P (get s))) of
       Some k # _ \<Rightarrow> (wrap code message (Inl (DatabaseFailure k)), s)
     | _ \<Rightarrow> execute_update get put P f s)"

definition delete_where ::
  "('s \<Rightarrow> 'r list) \<Rightarrow> ('r list \<Rightarrow> 's \<Rightarrow> 's) \<Rightarrow> ('r \<Rightarrow> bool) \<Rightarrow> ('s, db_error, nat) op"
where
  "delete_where get put P = (\<lambda>s.
     (Inr (length (filter P (get s))), put (filter (\<lambda>r. \<not> P r) (get s)) s))"

text \<open>A delete that the schema refuses while other rows refer to the row.\<close>

definition delete_checked ::
  "('s \<Rightarrow> 'r list) \<Rightarrow> ('r list \<Rightarrow> 's \<Rightarrow> 's) \<Rightarrow> ('s \<Rightarrow> 'r \<Rightarrow> bool) \<Rightarrow> ('r \<Rightarrow> bool) \<Rightarrow>
   error_code \<Rightarrow> string \<Rightarrow> ('s, db_error, nat) op"
where
  "delete_checked get put referenced P code message = (\<lambda>s.
     if list_ex (\<lambda>r. P r \<and> referenced s r) (get s)
     then (wrap code message (Inl (DatabaseFailure ForeignKeyViolation)), s)
     else delete_where get put P s)"

lemma select_where_run [simp, op_simps]: "select_where get P s = (Inr (filter P (get s)), s)"
  by (simp add: select_where_def)

lemma first_where_run [op_simps]:
  "first_where get P code message s =
     (case find P (get s) of
        Some r \<Rightarrow> (Inr r, s)
      | None \<Rightarrow> (Inl (database_error_new NoResults (Some (WithDriverText message NotFound))), s))"
  by (simp add: first_where_def wrap_def split: option.splits)

lemma insert_row_run [simp, op_simps]: "insert_row get put r s = (Inr r, put (get s @ [r]) s)"
  by (simp add: insert_row_def)

lemma update_rows_run [simp, op_simps]:
  "update_rows get put P f s = (Inr (map f (filter P (get s))), put (update_where P f (get s)) s)"
  by (simp add: update_rows_def)

lemma update_first_run [op_simps]:
  "update_first get put P f code message s =
     (case filter P (get s) of
        r # _ \<Rightarrow> (Inr (f r), put (update_where P f (get s)) s)
      | [] \<Rightarrow> (Inl (database_error_new NoResults (Some (WithDriverText message NotFound))),
          put (update_where P f (get s)) s))"
  by (simp add: update_first_def bindo_run lift_result_run wrap_def split: list.splits)

lemma delete_where_run [simp, op_simps]:
  "delete_where get put P s =
     (Inr (length (filter P (get s))), put (filter (\<lambda>r. \<not> P r) (get s)) s)"
  by (simp add: delete_where_def)

lemma delete_checked_run [op_simps]:
  "delete_checked get put referenced P code message s =
     (if list_ex (\<lambda>r. P r \<and> referenced s r) (get s)
      then (Inl (database_error_new ForeignKeyError
             (Some (WithDriverText message (DatabaseFailure ForeignKeyViolation)))), s)
      else (Inr (length (filter P (get s))), put (filter (\<lambda>r. \<not> P r) (get s)) s))"
  by (simp add: delete_checked_def wrap_def)

lemma execute_update_run [simp, op_simps]:
  "execute_update get put P f s = (Inr (length (filter P (get s))), put (update_where P f (get s)) s)"
  by (simp add: execute_update_def bindo_run ret_run)

lemma execute_checked_cases:
  assumes "execute_checked get put violation P f code message s = (r, t)"
  obtains (ok) "r = Inr (length (filter P (get s)))" and "t = put (update_where P f (get s)) s"
      and "\<And>x. x \<in> set (get s) \<Longrightarrow> P x \<Longrightarrow> violation s (f x) = None"
    | (err) k where "r = wrap code message (Inl (DatabaseFailure k))" and "t = s"
proof (cases "filter (\<lambda>k. k \<noteq> None) (map (\<lambda>r. violation s (f r)) (filter P (get s)))")
  case Nil
  then have "violation s (f x) = None" if "x \<in> set (get s)" "P x" for x
    using that by (auto simp: filter_empty_conv)
  moreover have "r = Inr (length (filter P (get s)))" "t = put (update_where P f (get s)) s"
    using assms Nil by (auto simp: execute_checked_def)
  ultimately show thesis by (rule ok [rotated 2])
next
  case (Cons k ks)
  then have "k \<in> set (filter (\<lambda>k. k \<noteq> None) (map (\<lambda>r. violation s (f r)) (filter P (get s))))" by simp
  then obtain v where "k = Some v" by auto
  then show thesis using assms Cons err [of v] by (simp add: execute_checked_def)
qed

lemma draw_uuid_run [simp, op_simps]:
  "draw_uuid s = (Inr (uuid_source s (uuids_drawn s)), s\<lparr>uuids_drawn := Suc (uuids_drawn s)\<rparr>)"
  by (simp add: draw_uuid_def)

lemma gen_range_run [simp, op_simps]:
  "gen_range n s = (Inr (rng_source s (rng_drawn s) n), s\<lparr>rng_drawn := Suc (rng_drawn s)\<rparr>)"
  by (simp add: gen_range_def)

lemma draw_keypair_run [simp, op_simps]:
  "draw_keypair s = (Inr (keypair_source s (keypairs_drawn s)),
     s\<lparr>keypairs_drawn := Suc (keypairs_drawn s)\<rparr>)"
  by (simp add: draw_keypair_def)

lemma first_where_Inr_iff:
  "first_where get P code message s = (Inr r, t) \<longleftrightarrow> find P (get s) = Some r \<and> t = s"
  by (auto simp: first_where_run split: option.splits)

lemma snd_first_where [simp]: "snd (first_where get P code message s) = s"
  by (simp add: first_where_run split: option.splits)

lemma snd_update_first [simp]:
  "snd (update_first get put P f code message s) = put (update_where P f (get s)) s"
  by (simp add: update_first_run split: list.splits)

lemma wrap_failure_neq [simp]: "wrap code message (Inl d) \<noteq> Inr x" "Inr x \<noteq> wrap code message (Inl d)"
  by (simp_all add: wrap_def split: diesel_error.splits db_error_kind.splits)

lemma insert_checked_Inr_iff:
  "insert_checked get put violation r code message s = (Inr r', t) \<longleftrightarrow>
     violation s r = None \<and> r' = r \<and> t = put (get s @ [r]) s"
  by (auto simp: insert_checked_def split: option.splits)

lemma insert_checked_run [op_simps]:
  "insert_checked get put violation r code message s =
     (case violation s r of None \<Rightarrow> (Inr r, put (get s @ [r]) s)
      | Some k \<Rightarrow> (wrap code message (Inl (DatabaseFailure k)), s))"
  by (simp add: insert_checked_def split: option.splits)

lemma update_checked_Inr:
  assumes "update_checked get put violation P f code message s = (Inr r, t)"
  shows "t = put (update_where P f (get s)) s \<and> (\<exists>x \<in> set (get s). P x \<and> r = f x \<and> violation s r = None)"
proof (cases "filter P (get s)")
  case Nil
  with assms show ?thesis
    by (auto simp: update_checked_def update_first_run split: option.splits list.splits)
next
  case (Cons x xs)
  then have "x \<in> set (get s) \<and> P x" using filter_eq_ConsD [of P "get s" x xs] by auto
  with assms Cons show ?thesis
    by (auto simp: update_checked_def update_first_run split: option.splits list.splits if_splits)
qed

lemmas update_checked_state = update_checked_Inr [THEN conjunct1]

lemma update_checked_Inr_iff:
  assumes "find P (get s) = Some r" and "\<And>x. x \<in> set (get s) \<Longrightarrow> P x \<Longrightarrow> x = r"
  shows "update_checked get put violation P f code message s = (Inr r', t) \<longleftrightarrow>
    violation s (f r) = None \<and> r' = f r \<and> t = put (update_where P f (get s)) s"
proof -
  obtain rest where rows: "filter P (get s) = r # rest"
    using assms(1) by (cases "filter P (get s)") (auto dest: find_Some_filter simp: find_None_filter [symmetric])
  have "set rest \<subseteq> set (filter P (get s))" by (simp add: rows subset_insertI)
  then have "set rest \<subseteq> {r}" using assms(2) by auto
  then have none: "violation s (f r) = None \<Longrightarrow> filter (\<lambda>k. k \<noteq> None) (map (\<lambda>r. violation s (f r)) rest) = []"
    by (auto simp: filter_empty_conv)
  show ?thesis
    using rows none by (auto simp: update_checked_def update_first_run)
qed

text \<open>The statements' laws rest on three laws of the access to a table.\<close>

locale db_table =
  fixes get :: "'s \<Rightarrow> 'r list"
    and put :: "'r list \<Rightarrow> 's \<Rightarrow> 's"
  assumes get_put: "get (put rs s) = rs"
    and put_get: "put (get s) s = s"
    and put_put: "put rs (put rs' s) = put rs s"
begin

lemma get_update_rows: "get (snd (update_rows get put P f s)) = update_where P f (get s)"
  by (simp add: get_put)

lemma get_insert_row: "get (snd (insert_row get put r s)) = get s @ [r]"
  by (simp add: get_put)

lemma get_delete_where: "get (snd (delete_where get put P s)) = filter (\<lambda>r. \<not> P r) (get s)"
  by (simp add: get_put)

text \<open>An update that finds no row changes nothing.\<close>

lemma update_rows_none:
  assumes "\<And>r. r \<in> set (get s) \<Longrightarrow> \<not> P r"
  shows "update_rows get put P f s = (Inr [], s)"
  using assms by (simp add: update_where_none put_get filter_empty_conv)

lemma delete_where_none:
  assumes "\<And>r. r \<in> set (get s) \<Longrightarrow> \<not> P r"
  shows "delete_where get put P s = (Inr 0, s)"
proof -
  have "filter (\<lambda>r. \<not> P r) (get s) = get s" using assms by (simp add: filter_id_conv)
  moreover have "filter P (get s) = []" using assms by (simp add: filter_empty_conv)
  ultimately show ?thesis by (simp add: put_get)
qed

text \<open>A checked update either changes the rows, all of them within the constraints, or nothing.\<close>

lemma update_checked_cases:
  assumes "update_checked get put violation P f code message s = (r, t)"
  obtains (ok) x where "r = Inr (f x)" and "x \<in> set (get s)" and "P x"
      and "t = put (update_where P f (get s)) s"
      and "\<And>y. y \<in> set (get s) \<Longrightarrow> P y \<Longrightarrow> violation s (f y) = None"
    | (err) e where "r = Inl e" and "t = s"
proof (cases "filter (\<lambda>k. k \<noteq> None) (map (\<lambda>r. violation s (f r)) (filter P (get s)))")
  case Nil
  then have none: "violation s (f y) = None" if "y \<in> set (get s)" "P y" for y
    using that by (auto simp: filter_empty_conv)
  show thesis
  proof (cases "filter P (get s)")
    case Nil
    then have "update_where P f (get s) = get s" by (intro update_where_none) (auto simp: filter_empty_conv)
    then show thesis using assms Nil err by (auto simp: update_checked_def update_first_run put_get)
  next
    case (Cons x xs)
    then have "x \<in> set (get s) \<and> P x" using filter_eq_ConsD [of P "get s" x xs] by auto
    moreover have "r = Inr (f x)" "t = put (update_where P f (get s)) s"
      using assms Cons \<open>filter (\<lambda>k. k \<noteq> None) _ = []\<close>
      by (auto simp: update_checked_def update_first_run split: list.splits)
    ultimately show thesis using ok none by blast
  qed
next
  case (Cons k ks)
  then have "k \<in> set (filter (\<lambda>k. k \<noteq> None) (map (\<lambda>r. violation s (f r)) (filter P (get s))))" by simp
  then obtain v where "k = Some v" by auto
  moreover obtain e where "wrap code message (Inl (DatabaseFailure v) :: diesel_error + 'r) = Inl e"
    by (cases "wrap code message (Inl (DatabaseFailure v) :: diesel_error + 'r)") simp_all
  ultimately have "update_checked get put violation P f code message s = (Inl e, s)"
    using Cons by (simp add: update_checked_def)
  then show thesis using assms err by simp
qed

lemma update_checked_stale:
  assumes "\<And>x. x \<in> set (get s) \<Longrightarrow> \<not> P x"
  shows "update_checked get put violation P f code message s =
    (Inl (database_error_new NoResults (Some (WithDriverText message NotFound))), s)"
proof -
  have "filter P (get s) = []" using assms by (simp add: filter_empty_conv)
  then show ?thesis using assms by (simp add: update_checked_def update_first_run update_where_none put_get)
qed

text \<open>Deleting what was just inserted restores the state.\<close>

lemma delete_after_insert:
  assumes "\<And>x. x \<in> set (get s) \<Longrightarrow> \<not> P x" and "P r"
  shows "snd (delete_where get put P (snd (insert_row get put r s))) = s"
proof -
  have "filter (\<lambda>x. \<not> P x) (get s) = get s" using assms(1) by (simp add: filter_id_conv)
  then show ?thesis using assms(2) by (simp add: get_put put_put put_get)
qed

end

interpretation tbl_orders: db_table db_orders "\<lambda>rs s. s\<lparr>db_orders := rs\<rparr>"
  by unfold_locales simp_all

interpretation tbl_order_items: db_table db_order_items "\<lambda>rs s. s\<lparr>db_order_items := rs\<rparr>"
  by unfold_locales simp_all

interpretation tbl_tickets: db_table db_ticket_instances "\<lambda>rs s. s\<lparr>db_ticket_instances := rs\<rparr>"
  by unfold_locales simp_all

interpretation tbl_ticket_types: db_table db_ticket_types "\<lambda>rs s. s\<lparr>db_ticket_types := rs\<rparr>"
  by unfold_locales simp_all

interpretation tbl_pricing: db_table db_ticket_pricing "\<lambda>rs s. s\<lparr>db_ticket_pricing := rs\<rparr>"
  by unfold_locales simp_all

interpretation tbl_holds: db_table db_holds "\<lambda>rs s. s\<lparr>db_holds := rs\<rparr>"
  by unfold_locales simp_all

interpretation tbl_codes: db_table db_codes "\<lambda>rs s. s\<lparr>db_codes := rs\<rparr>"
  by unfold_locales simp_all

interpretation tbl_payments: db_table db_payments "\<lambda>rs s. s\<lparr>db_payments := rs\<rparr>"
  by unfold_locales simp_all

interpretation tbl_refunded: db_table db_refunded_tickets "\<lambda>rs s. s\<lparr>db_refunded_tickets := rs\<rparr>"
  by unfold_locales simp_all

interpretation tbl_actions: db_table db_domain_actions "\<lambda>rs s. s\<lparr>db_domain_actions := rs\<rparr>"
  by unfold_locales simp_all

interpretation tbl_users: db_table db_users "\<lambda>rs s. s\<lparr>db_users := rs\<rparr>"
  by unfold_locales simp_all

section \<open>Concrete states\<close>

text \<open>An empty database and rows to fill it with, for evaluating the model.\<close>

definition blank_db :: db where
  "blank_db = \<lparr>db_orders = [], db_order_items = [], db_ticket_instances = [], db_assets = [],
     db_ticket_types = [], db_ticket_pricing = [], db_fee_schedules = [],
     db_fee_schedule_ranges = [], db_holds = [], db_codes = [], db_ticket_type_codes = [],
     db_payments = [],
     db_refunded_tickets = [], db_wallets = [], db_domain_events = [], db_domain_actions = [],
     db_events = [], db_organizations = [], db_users = [], db_organization_users = [],
     db_organization_invites = [], db_external_logins = [], db_event_interest = [],
     db_payment_methods = [], db_push_notification_tokens = [], db_venues = [], db_regions = [],
     db_stages = [], db_artists = [], db_event_artists = [], now = 1000, utc_now = 1000,
     uuid_source = (\<lambda>n. 1000 + n), uuids_drawn = 0, rng_source = (\<lambda>_ _. 0), rng_drawn = 0,
     keypair_source = (\<lambda>n. (''s'', ''p'')), keypairs_drawn = 0,
     locked_tickets = [], collate = (\<lambda>_. 0),
     valid_email = (\<lambda>_. True)\<rparr>"

definition blank_ticket :: "uuid \<Rightarrow> uuid \<Rightarrow> ticket_instance" where
  "blank_ticket i a = \<lparr>ti_id = i, ti_asset_id = a, ti_token_id = 0, ti_hold_id = None,
     ti_order_item_id = None, ti_wallet_id = 1, ti_reserved_until = None, ti_redeem_key = None,
     ti_transfer_key = None, ti_transfer_expiry_date = None,
     ti_status = ticket_instance_status.Available, ti_created_at = 0, ti_updated_at = 0\<rparr>"

definition blank_asset :: "uuid \<Rightarrow> uuid \<Rightarrow> asset" where
  "blank_asset i tt = \<lparr>a_id = i, a_ticket_type_id = tt, a_blockchain_name = ''asset'',
     a_blockchain_asset_id = Some ''asset'', a_status = asset_status.Unsynced, a_created_at = 0,
     a_updated_at = 0\<rparr>"

definition blank_item :: "uuid \<Rightarrow> uuid \<Rightarrow> order_item_types \<Rightarrow> int \<Rightarrow> int \<Rightarrow> order_item" where
  "blank_item i ord ty q price = \<lparr>oi_id = i, oi_order_id = ord, oi_item_type = ty,
     oi_ticket_type_id = None, oi_event_id = None, oi_quantity = q, oi_unit_price_in_cents = price,
     oi_created_at = 0, oi_updated_at = 0, oi_ticket_pricing_id = None,
     oi_fee_schedule_range_id = None, oi_parent_id = None, oi_hold_id = None, oi_code_id = None,
     oi_company_fee_in_cents = 0, oi_client_fee_in_cents = 0, oi_refunded_quantity = 0\<rparr>"

definition blank_order :: "uuid \<Rightarrow> uuid \<Rightarrow> order_status \<Rightarrow> order_row" where
  "blank_order i u st = \<lparr>o_id = i, o_user_id = u, o_status = st, o_order_type = order_types.Cart,
     o_order_date = 0, o_expires_at = Some 2000, o_version = 0, o_note = None,
     o_on_behalf_of_user_id = None, o_created_at = 0, o_updated_at = 0, o_paid_at = None,
     o_box_office_pricing = False\<rparr>"

definition blank_wallet :: "uuid \<Rightarrow> uuid option \<Rightarrow> wallet" where
  "blank_wallet i u = \<lparr>w_id = i, w_user_id = u, w_organization_id = None, w_name = ''Default'',
     w_secret_key = ''s'', w_public_key = ''p'', w_default_flag = True, w_created_at = 0,
     w_updated_at = 0\<rparr>"

definition blank_ticket_type :: "uuid \<Rightarrow> uuid \<Rightarrow> ticket_type" where
  "blank_ticket_type i e = \<lparr>tt_id = i, tt_event_id = e, tt_name = ''General'', tt_description = None,
     tt_status = ticket_type_status.Published, tt_start_date = 0, tt_end_date = 5000,
     tt_increment = 1, tt_limit_per_person = 0, tt_created_at = 0, tt_updated_at = 0,
     tt_price_in_cents = 100, tt_cancelled_at = None\<rparr>"

definition blank_price ::
  "uuid \<Rightarrow> uuid \<Rightarrow> ticket_pricing_status \<Rightarrow> int \<Rightarrow> timestamp \<Rightarrow> timestamp \<Rightarrow> ticket_pricing" where
  "blank_price i tt st price a b = \<lparr>tp_id = i, tp_ticket_type_id = tt, tp_name = ''Price'',
     tp_status = st, tp_price_in_cents = price, tp_start_date = a, tp_end_date = b,
     tp_is_box_office_only = False, tp_created_at = 0, tp_updated_at = 0\<rparr>"

definition blank_event :: "uuid \<Rightarrow> uuid \<Rightarrow> event_row" where
  "blank_event i org = \<lparr>e_id = i, e_name = ''Event'', e_organization_id = org, e_venue_id = None,
     e_created_at = 0, e_event_start = None, e_door_time = None, e_status = event_status.Published,
     e_publish_date = None, e_redeem_date = None, e_fee_in_cents = 0, e_promo_image_url = None,
     e_additional_info = None, e_age_limit = None, e_top_line_info = None, e_cancelled_at = None,
     e_updated_at = 0, e_min_ticket_price = None, e_max_ticket_price = None, e_video_url = None,
     e_is_external = False, e_external_url = None, e_override_status = None,
     e_client_fee_in_cents = 0, e_company_fee_in_cents = 0, e_settlement_amount_in_cents = None,
     e_event_end = None, e_sendgrid_list_id = None\<rparr>"

definition blank_organization :: "uuid \<Rightarrow> uuid \<Rightarrow> organization" where
  "blank_organization i fs = \<lparr>org_id = i, org_name = ''Organization'', org_address = None,
     org_city = None, org_state = None, org_country = None, org_postal_code = None,
     org_phone = None, org_event_fee_in_cents = 0, org_sendgrid_api_key = None,
     org_google_ga_key = None, org_facebook_pixel_key = None, org_created_at = 0,
     org_updated_at = 0, org_fee_schedule_id = fs, org_client_event_fee_in_cents = 0,
     org_company_event_fee_in_cents = 0\<rparr>"

definition blank_user :: "uuid \<Rightarrow> user_row" where
  "blank_user i = \<lparr>u_id = i, u_first_name = None, u_last_name = None, u_email = None,
     u_phone = None, u_profile_pic_url = None, u_thumb_profile_pic_url = None,
     u_cover_photo_url = None, u_hashed_pw = [], u_password_modified_at = 0, u_created_at = 0,
     u_last_used = None, u_active = True, u_role = [roles.User], u_password_reset_token = None,
     u_password_reset_requested_at = None, u_updated_at = 0, u_last_cart_id = None,
     u_accepted_terms_date = None, u_invited_at = None\<rparr>"

lemmas blank_defs = blank_ticket_type_def blank_price_def blank_event_def blank_organization_def
  blank_user_def blank_db_def blank_ticket_def blank_asset_def blank_item_def blank_order_def
  blank_wallet_def

end
