(* ===== verification/Tickets.thy ===== *)
theory Tickets imports Database begin

text \<open>
  Ticket instances (\<open>db/src/models/ticket_instances.rs\<close> and its queries under \<open>db/src/queries\<close>):
  the inventory that carts, holds, purchases and refunds move tickets through. The last sections
  give the life cycle of one ticket as a step relation, show that every operation only takes
  steps of it, and state what reserving and releasing do to the pool of free tickets.
\<close>

section \<open>Conditions of the queries\<close>

text \<open>\<open>column < now()\<close>, which is not true of a NULL column.\<close>

definition before :: "timestamp option \<Rightarrow> timestamp \<Rightarrow> bool" where
  "before c n = (case c of None \<Rightarrow> False | Some t \<Rightarrow> t < n)"

definition dummy_guid :: uuid where
  "dummy_guid = 0xa0eebc999c0b4ef8bb6d6bb9bd380a11"

definition coalesce_hold :: "uuid option \<Rightarrow> uuid" where
  "coalesce_hold h = (case h of None \<Rightarrow> dummy_guid | Some i \<Rightarrow> i)"

text \<open>The join with \<open>assets\<close>: the ticket has an asset, and the asset is of the ticket type.\<close>

definition has_asset :: "db \<Rightarrow> ticket_instance \<Rightarrow> bool" where
  "has_asset s t = list_ex (\<lambda>a. a_id a = ti_asset_id t) (db_assets s)"

definition of_ticket_type :: "db \<Rightarrow> uuid \<Rightarrow> ticket_instance \<Rightarrow> bool" where
  "of_ticket_type s ticket_type_id t =
     list_ex (\<lambda>a. a_id a = ti_asset_id t \<and> a_ticket_type_id a = ticket_type_id) (db_assets s)"

definition unclaimed :: "timestamp \<Rightarrow> ticket_instance \<Rightarrow> bool" where
  "unclaimed n t \<longleftrightarrow>
     ti_order_item_id t = None \<or>
     (before (ti_reserved_until t) n \<and> ti_status t \<noteq> ticket_instance_status.Purchased)"

text \<open>The condition that \<open>reserve_tickets.sql\<close> and \<open>add_tickets_to_hold.sql\<close> share.\<close>

definition in_pool :: "db \<Rightarrow> uuid \<Rightarrow> uuid option \<Rightarrow> ticket_instance \<Rightarrow> bool" where
  "in_pool s ticket_type_id hold_id t \<longleftrightarrow>
     unclaimed (now s) t \<and> of_ticket_type s ticket_type_id t \<and>
     coalesce_hold hold_id = coalesce_hold (ti_hold_id t)"

text \<open>\<open>UPDATE .. WHERE id IN (SELECT .. LIMIT n FOR UPDATE SKIP LOCKED) RETURNING ..\<close>.\<close>

definition selectable :: "(db \<Rightarrow> ticket_instance \<Rightarrow> bool) \<Rightarrow> db \<Rightarrow> ticket_instance \<Rightarrow> bool" where
  "selectable cond s t \<longleftrightarrow> cond s t \<and> ti_id t \<notin> set (locked_tickets s)"

definition update_tickets_limited ::
  "(db \<Rightarrow> ticket_instance \<Rightarrow> bool) \<Rightarrow> (db \<Rightarrow> ticket_instance \<Rightarrow> ticket_instance) \<Rightarrow> nat \<Rightarrow>
   ticket_instance list dbop"
where
  "update_tickets_limited cond f n = (\<lambda>s.
     let ids = limited_ids ti_id (selectable cond s) n (db_ticket_instances s)
     in update_rows db_ticket_instances (\<lambda>rs s. s\<lparr>db_ticket_instances := rs\<rparr>)
          (\<lambda>t. ti_id t \<in> set ids) (f s) s)"

definition update_tickets ::
  "(ticket_instance \<Rightarrow> bool) \<Rightarrow> (db \<Rightarrow> ticket_instance \<Rightarrow> ticket_instance) \<Rightarrow> ticket_instance list dbop"
where
  "update_tickets P f = (\<lambda>s.
     update_rows db_ticket_instances (\<lambda>rs s. s\<lparr>db_ticket_instances := rs\<rparr>) P (f s) s)"

section \<open>Operations\<close>

definition find_ticket :: "uuid \<Rightarrow> ticket_instance dbop" where
  "find_ticket id' =
     first_where db_ticket_instances (\<lambda>t. ti_id t = id') QueryError ''Unable to load ticket''"

text \<open>\<open>release_tickets.sql\<close>: \<open>wanted\<close> is the status, \<open>only\<close> the one ticket to release, if given.\<close>

definition release_query ::
  "uuid option \<Rightarrow> nat \<Rightarrow> ticket_instance_status \<Rightarrow> uuid option \<Rightarrow> ticket_instance list dbop"
where
  "release_query order_item_id n wanted only =
     update_tickets_limited
       (\<lambda>s t. has_asset s t \<and> order_item_id \<noteq> None \<and> ti_order_item_id t = order_item_id \<and>
          ti_status t = wanted \<and> ti_id t = (case only of None \<Rightarrow> ti_id t | Some i \<Rightarrow> i))
       (\<lambda>s t. t\<lparr>ti_order_item_id := None, ti_reserved_until := None, ti_redeem_key := None,
          ti_transfer_key := None, ti_transfer_expiry_date := None,
          ti_status := ticket_instance_status.Available, ti_updated_at := now s\<rparr>)
       n"

definition release :: "ticket_instance \<Rightarrow> unit dbop" where
  "release self =
     bindo (release_query (ti_order_item_id self) 1 ticket_instance_status.Purchased (Some (ti_id self)))
       (\<lambda>tickets.
          if length tickets \<noteq> 1
          then validation_error_op ''quantity'' ''Could not release the ticket''
          else ret ())"

text \<open>The result column is NULL, and loading it fails, when the wallet belongs to an organization
  or the item's order is missing.\<close>

definition was_transferred :: "ticket_instance \<Rightarrow> bool dbop" where
  "was_transferred self = (\<lambda>s.
     (wrap QueryError ''Unable to check if ticket instance was transferred''
       (case find (\<lambda>t. ti_id t = ti_id self) (db_ticket_instances s) of
          None \<Rightarrow> Inl NotFound
        | Some t \<Rightarrow>
            (case find (\<lambda>w. w_id w = ti_wallet_id t) (db_wallets s) of
               None \<Rightarrow> Inl NotFound
             | Some w \<Rightarrow>
                 (case find (\<lambda>oi. ti_order_item_id t = Some (oi_id oi)) (db_order_items s) of
                    None \<Rightarrow> Inr True
                  | Some oi \<Rightarrow>
                      (case (find (\<lambda>o'. o_id o' = oi_order_id oi) (db_orders s), w_user_id w) of
                         (Some o', Some user) \<Rightarrow> Inr (o_user_id o' \<noteq> user)
                       | _ \<Rightarrow> Inl OtherFailure)))), s))"

definition find_tickets_for_user :: "uuid \<Rightarrow> ticket_instance list dbop" where
  "find_tickets_for_user user_id = (\<lambda>s.
     select_where db_ticket_instances
       (\<lambda>t. list_ex (\<lambda>w. w_id w = ti_wallet_id t \<and> w_user_id w = Some user_id) (db_wallets s)) s)"

text \<open>New rows are buffered and written out after every index divisible by 1000, the first
  included; what is left is written at the end.\<close>

record new_ticket_instance =
  nti_asset_id :: uuid
  nti_token_id :: int
  nti_wallet_id :: uuid

definition insert_ticket :: "new_ticket_instance \<Rightarrow> unit dbop" where
  "insert_ticket r =
     bindo draw_uuid (\<lambda>id'.
     bindo (gets now) (\<lambda>n.
     bindo (insert_row db_ticket_instances (\<lambda>rs s. s\<lparr>db_ticket_instances := rs\<rparr>)
       \<lparr>ti_id = id', ti_asset_id = nti_asset_id r, ti_token_id = nti_token_id r,
        ti_hold_id = None, ti_order_item_id = None, ti_wallet_id = nti_wallet_id r,
        ti_reserved_until = None, ti_redeem_key = None, ti_transfer_key = None,
        ti_transfer_expiry_date = None, ti_status = ticket_instance_status.Available,
        ti_created_at = n, ti_updated_at = n\<rparr>) (\<lambda>_. ret ())))"

definition create_multiple :: "uuid \<Rightarrow> u32 \<Rightarrow> u32 \<Rightarrow> uuid \<Rightarrow> unit dbop" where
  "create_multiple asset_id starting_tari_id quantity wallet_id =
     bindo
       (fold_op (\<lambda>x new_rows.
          let new_rows = new_rows @
                [\<lparr>nti_asset_id = asset_id, nti_token_id = sint (starting_tari_id + of_nat x),
                  nti_wallet_id = wallet_id\<rparr>]
          in if x mod 1000 = 0
             then bindo (for_each insert_ticket new_rows) (\<lambda>_. ret [])
             else ret new_rows)
          [0..<unat quantity] [])
       (\<lambda>new_rows. if new_rows \<noteq> [] then for_each insert_ticket new_rows else ret ())"

definition reserve_tickets ::
  "order_item \<Rightarrow> timestamp option \<Rightarrow> uuid \<Rightarrow> uuid option \<Rightarrow> u32 \<Rightarrow> ticket_instance list dbop"
where
  "reserve_tickets order_item expires_at ticket_type_id ticket_holding_id quantity =
     (case expires_at of
        None \<Rightarrow> business_process_error
          ''Expiration date was not set on cart prior to reserving tickets''
      | Some order_expires_at \<Rightarrow>
          bindo
            (update_tickets_limited (\<lambda>s. in_pool s ticket_type_id ticket_holding_id)
               (\<lambda>s t. t\<lparr>ti_order_item_id := Some (oi_id order_item),
                  ti_reserved_until := Some order_expires_at,
                  ti_status := ticket_instance_status.Reserved, ti_updated_at := now s\<rparr>)
               (unat quantity))
            (\<lambda>tickets.
               if of_nat (length tickets) \<noteq> quantity
               then validation_error_op ''quantity'' ''Could not reserve the correct amount of tickets''
               else ret tickets))"

definition release_tickets :: "order_item \<Rightarrow> u32 \<Rightarrow> ticket_instance list dbop" where
  "release_tickets order_item quantity =
     bindo (release_query (Some (oi_id order_item)) (unat quantity) ticket_instance_status.Reserved None)
       (\<lambda>tickets.
          if of_nat (length tickets) \<noteq> quantity
          then validation_error_op ''quantity'' ''Could not release the correct amount of tickets''
          else ret tickets)"

definition add_to_hold :: "uuid \<Rightarrow> uuid \<Rightarrow> u32 \<Rightarrow> uuid option \<Rightarrow> ticket_instance list dbop" where
  "add_to_hold hold_id ticket_type_id quantity from_hold_id =
     bindo
       (update_tickets_limited (\<lambda>s. in_pool s ticket_type_id from_hold_id)
          (\<lambda>s t. t\<lparr>ti_hold_id := Some hold_id, ti_updated_at := now s\<rparr>) (unat quantity))
       (\<lambda>tickets.
          if of_nat (length tickets) \<noteq> quantity
          then validation_error_op ''quantity'' ''Could not reserve the correct amount of tickets''
          else ret tickets)"

definition release_from_hold :: "uuid \<Rightarrow> uuid \<Rightarrow> u32 \<Rightarrow> ticket_instance list dbop" where
  "release_from_hold hold_id ticket_type_id quantity =
     bindo
       (update_tickets_limited
          (\<lambda>s t. ti_hold_id t = Some hold_id \<and> of_ticket_type s ticket_type_id t \<and>
             (ti_status t = ticket_instance_status.Available \<or> before (ti_reserved_until t) (now s)) \<and>
             ti_status t \<noteq> ticket_instance_status.Purchased)
          (\<lambda>s t. t\<lparr>ti_hold_id := None, ti_updated_at := now s\<rparr>) (unat quantity))
       (\<lambda>tickets.
          if of_nat (length tickets) \<noteq> quantity
          then validation_error_op ''quantity'' ''Could not release the correct amount of tickets''
          else ret tickets)"

text \<open>The aggregate query returns one row, so the branch for no row is never taken.\<close>

definition count_for_hold :: "uuid \<Rightarrow> uuid \<Rightarrow> (u32 \<times> u32) dbop" where
  "count_for_hold hold_id ticket_type_id = gets (\<lambda>s.
     let rows = filter (\<lambda>t. ti_hold_id t = Some hold_id \<and> of_ticket_type s ticket_type_id t)
                  (db_ticket_instances s)
     in (of_nat (length (remdups (map ti_id rows))),
         of_nat (length (filter (\<lambda>t. ti_status t \<in>
           {ticket_instance_status.Available, ticket_instance_status.Reserved}) rows))))"

definition find_for_order_item :: "uuid \<Rightarrow> ticket_instance list dbop" where
  "find_for_order_item order_item_id =
     select_where db_ticket_instances (\<lambda>t. ti_order_item_id t = Some order_item_id)"

definition update_reserved_time :: "order_item \<Rightarrow> timestamp \<Rightarrow> unit dbop" where
  "update_reserved_time order_item reserved_time =
     bindo (update_tickets (\<lambda>t. ti_order_item_id t = Some (oi_id order_item))
       (\<lambda>s t. t\<lparr>ti_reserved_until := Some reserved_time, ti_updated_at := now s\<rparr>)) (\<lambda>_. ret ())"

definition set_wallet :: "ticket_instance \<Rightarrow> wallet \<Rightarrow> unit dbop" where
  "set_wallet self wallet =
     bindo (update_tickets (\<lambda>t. ti_id t = ti_id self)
       (\<lambda>s t. t\<lparr>ti_wallet_id := w_id wallet, ti_updated_at := now s\<rparr>)) (\<lambda>_. ret ())"

definition hash_char_list :: "char list" where
  "hash_char_list = ''23456789ABCDEFGHIJKMNPQRSTUVWXYZ''"

fun generate_redeem_key :: "nat \<Rightarrow> string dbop" where
  "generate_redeem_key 0 = ret []"
| "generate_redeem_key (Suc len) =
     bindo (gen_range (length hash_char_list)) (\<lambda>i.
     bindo (generate_redeem_key len) (\<lambda>cs. ret (hash_char_list ! i # cs)))"

definition find_wallets_for_user :: "uuid \<Rightarrow> wallet list dbop" where
  "find_wallets_for_user user_id = select_where db_wallets (\<lambda>w. w_user_id w = Some user_id)"

definition write_redeem_key :: "ticket_instance \<Rightarrow> unit dbop" where
  "write_redeem_key t =
     bindo (generate_redeem_key 9) (\<lambda>key.
     bindo (update_tickets (\<lambda>u. ti_id u = ti_id t) (\<lambda>_ u. u\<lparr>ti_redeem_key := Some key\<rparr>)) (\<lambda>_. ret ()))"

definition mark_as_purchased :: "order_item \<Rightarrow> uuid \<Rightarrow> unit dbop" where
  "mark_as_purchased order_item user_id =
     bindo (find_wallets_for_user user_id) (\<lambda>wallets.
       case wallets of
         [] \<Rightarrow> fail (database_error_new InternalError
                 (Some (Text ''User does not have a wallet associated with them'')))
       | wallet # _ \<Rightarrow>
           bindo (update_tickets (\<lambda>t. ti_order_item_id t = Some (oi_id order_item))
             (\<lambda>s t. t\<lparr>ti_wallet_id := w_id wallet, ti_status := ticket_instance_status.Purchased,
                ti_updated_at := now s\<rparr>))
             (\<lambda>tickets. for_each write_redeem_key tickets))"

datatype redeem_results = TicketRedeemSuccess | TicketAlreadyRedeemed | TicketInvalid

definition redeem_ticket :: "uuid \<Rightarrow> string \<Rightarrow> redeem_results dbop" where
  "redeem_ticket ticket_id redeem_key =
     bindo (find_ticket ticket_id) (\<lambda>ticket.
       if ti_status ticket = ticket_instance_status.Purchased \<and> ti_redeem_key ticket = Some redeem_key
       then bindo (update_tickets (\<lambda>t. ti_id t = ticket_id)
              (\<lambda>_ t. t\<lparr>ti_status := ticket_instance_status.Redeemed\<rparr>)) (\<lambda>_. ret TicketRedeemSuccess)
       else if ti_status ticket = ticket_instance_status.Redeemed then ret TicketAlreadyRedeemed
       else ret TicketInvalid)"

definition nullify_tickets :: "uuid \<Rightarrow> u32 \<Rightarrow> ticket_instance list dbop" where
  "nullify_tickets asset_id quantity =
     update_tickets_limited
       (\<lambda>s t. ti_asset_id t = asset_id \<and> ti_status t = ticket_instance_status.Available \<and>
          ti_hold_id t = None)
       (\<lambda>_ t. t\<lparr>ti_status := ticket_instance_status.Nullified\<rparr>) (unat quantity)"

section \<open>Running the limited update\<close>

abbreviation ticket_ids_distinct :: "db \<Rightarrow> bool" where
  "ticket_ids_distinct s \<equiv> distinct (map ti_id (db_ticket_instances s))"

abbreviation picked :: "(db \<Rightarrow> ticket_instance \<Rightarrow> bool) \<Rightarrow> nat \<Rightarrow> db \<Rightarrow> ticket_instance list" where
  "picked cond n s \<equiv> take n (filter (selectable cond s) (db_ticket_instances s))"

lemma update_tickets_run [op_simps]:
  "update_tickets P f s =
     (Inr (map (f s) (filter P (db_ticket_instances s))),
      s\<lparr>db_ticket_instances := update_where P (f s) (db_ticket_instances s)\<rparr>)"
  by (simp add: update_tickets_def)

lemma update_tickets_limited_run [op_simps]:
  "update_tickets_limited cond f n s =
     (Inr (map (f s) (filter (\<lambda>t. ti_id t \<in> set (limited_ids ti_id (selectable cond s) n
        (db_ticket_instances s))) (db_ticket_instances s))),
      s\<lparr>db_ticket_instances := update_where (\<lambda>t. ti_id t \<in> set (limited_ids ti_id (selectable cond s) n
        (db_ticket_instances s))) (f s) (db_ticket_instances s)\<rparr>)"
  by (simp add: update_tickets_limited_def Let_def)

text \<open>With distinct ids the rows changed are the first \<open>n\<close> that qualify.\<close>

lemma update_tickets_limited_picked:
  assumes "ticket_ids_distinct s"
  shows "update_tickets_limited cond f n s =
     (Inr (map (f s) (picked cond n s)),
      s\<lparr>db_ticket_instances :=
        update_where (\<lambda>t. t \<in> set (picked cond n s)) (f s) (db_ticket_instances s)\<rparr>)"
proof -
  let ?rs = "db_ticket_instances s"
  let ?ids = "limited_ids ti_id (selectable cond s) n ?rs"
  have rows: "filter (\<lambda>t. ti_id t \<in> set ?ids) ?rs = picked cond n s"
    by (rule filter_limited_ids [OF assms])
  have "ti_id t \<in> set ?ids \<longleftrightarrow> t \<in> set (picked cond n s)" if "t \<in> set ?rs" for t
    using that arg_cong [OF rows, of set] by auto
  then have "update_where (\<lambda>t. ti_id t \<in> set ?ids) (f s) ?rs =
      update_where (\<lambda>t. t \<in> set (picked cond n s)) (f s) ?rs"
    by (simp add: update_where_def)
  with rows show ?thesis by (simp add: update_tickets_limited_run)
qed

lemma length_picked:
  "length (picked cond n s) = min n (length (filter (selectable cond s) (db_ticket_instances s)))"
  by simp

lemma in_picked: "t \<in> set (picked cond n s) \<Longrightarrow> t \<in> set (db_ticket_instances s) \<and> selectable cond s t"
  by (auto dest: in_set_takeD)

text \<open>A count of rows that fits below the limit is compared exactly by the \<open>u32\<close> test.\<close>

lemma u32_count_eq:
  fixes q :: u32
  assumes "k \<le> unat q"
  shows "of_nat k = q \<longleftrightarrow> k = unat q"
proof -
  have "unat q < 2 ^ LENGTH(32)" by (rule unsigned_less)
  with assms have "k < 2 ^ LENGTH(32)" by simp
  then show ?thesis
    by (simp add: word_unat_eq_iff unsigned_of_nat take_bit_nat_eq_self)
qed

section \<open>The life cycle of a ticket\<close>

text \<open>What may happen to one ticket at transaction time \<open>n\<close>.\<close>

inductive ticket_step :: "timestamp \<Rightarrow> ticket_instance \<Rightarrow> ticket_instance \<Rightarrow> bool" for n where
  ts_reserve: "unclaimed n t \<Longrightarrow>
     ticket_step n t (t\<lparr>ti_order_item_id := Some i, ti_reserved_until := Some e,
       ti_status := ticket_instance_status.Reserved, ti_updated_at := n\<rparr>)"
| ts_release: "ti_order_item_id t \<noteq> None \<Longrightarrow>
     ti_status t \<in> {ticket_instance_status.Reserved, ticket_instance_status.Purchased} \<Longrightarrow>
     ticket_step n t (t\<lparr>ti_order_item_id := None, ti_reserved_until := None, ti_redeem_key := None,
       ti_transfer_key := None, ti_transfer_expiry_date := None,
       ti_status := ticket_instance_status.Available, ti_updated_at := n\<rparr>)"
| ts_hold: "unclaimed n t \<Longrightarrow> ticket_step n t (t\<lparr>ti_hold_id := Some h, ti_updated_at := n\<rparr>)"
| ts_unhold: "ti_status t \<noteq> ticket_instance_status.Purchased \<Longrightarrow>
     ti_status t = ticket_instance_status.Available \<or> before (ti_reserved_until t) n \<Longrightarrow>
     ticket_step n t (t\<lparr>ti_hold_id := None, ti_updated_at := n\<rparr>)"
| ts_extend: "ti_order_item_id t \<noteq> None \<Longrightarrow>
     ticket_step n t (t\<lparr>ti_reserved_until := Some e, ti_updated_at := n\<rparr>)"
| ts_purchase: "ti_order_item_id t \<noteq> None \<Longrightarrow>
     ticket_step n t (t\<lparr>ti_wallet_id := w, ti_status := ticket_instance_status.Purchased,
       ti_updated_at := n\<rparr>)"
| ts_key: "ticket_step n t (t\<lparr>ti_redeem_key := Some k\<rparr>)"
| ts_redeem: "ti_status t = ticket_instance_status.Purchased \<Longrightarrow>
     ticket_step n t (t\<lparr>ti_status := ticket_instance_status.Redeemed\<rparr>)"
| ts_nullify: "ti_status t = ticket_instance_status.Available \<Longrightarrow> ti_hold_id t = None \<Longrightarrow>
     ticket_step n t (t\<lparr>ti_status := ticket_instance_status.Nullified\<rparr>)"
| ts_wallet: "ticket_step n t (t\<lparr>ti_wallet_id := w, ti_updated_at := n\<rparr>)"
| ts_transfer_start: "ticket_step n t (t\<lparr>ti_transfer_key := Some k, ti_transfer_expiry_date := Some e,
       ti_updated_at := n\<rparr>)"
| ts_transfer_end: "ticket_step n t (t\<lparr>ti_transfer_key := None, ti_transfer_expiry_date := None,
       ti_wallet_id := w, ti_updated_at := n\<rparr>)"

abbreviation lifecycle :: "timestamp \<Rightarrow> ticket_instance \<Rightarrow> ticket_instance \<Rightarrow> bool" where
  "lifecycle n \<equiv> (ticket_step n)\<^sup>*\<^sup>*"

lemma ticket_step_ids:
  "ticket_step n t u \<Longrightarrow> ti_id u = ti_id t \<and> ti_asset_id u = ti_asset_id t \<and> ti_token_id u = ti_token_id t"
  by (erule ticket_step.cases) simp_all

lemma lifecycle_ids:
  "lifecycle n t u \<Longrightarrow> ti_id u = ti_id t \<and> ti_asset_id u = ti_asset_id t \<and> ti_token_id u = ti_token_id t"
  by (induction rule: rtranclp_induct) (auto dest: ticket_step_ids)

text \<open>The whole table evolves by life-cycle steps at the transaction's time.\<close>

definition tickets_evolve :: "db \<Rightarrow> db \<Rightarrow> bool" where
  "tickets_evolve s t \<longleftrightarrow> now t = now s \<and>
     (ticket_ids_distinct s \<longrightarrow>
        list_all2 (lifecycle (now s)) (db_ticket_instances s) (db_ticket_instances t))"

lemma lifecycle_map_ids:
  "list_all2 (lifecycle n) ts us \<Longrightarrow> map ti_id us = map ti_id ts"
  by (induction rule: list_all2_induct) (auto dest: lifecycle_ids)

interpretation evolve: step_relation tickets_evolve
proof
  fix s t u
  show "tickets_evolve s s"
    by (simp add: tickets_evolve_def list.rel_refl)
  assume st: "tickets_evolve s t" and tu: "tickets_evolve t u"
  have "list_all2 (lifecycle (now s)) (db_ticket_instances s) (db_ticket_instances u)"
    if "ticket_ids_distinct s"
  proof -
    from st that have 1: "list_all2 (lifecycle (now s)) (db_ticket_instances s) (db_ticket_instances t)"
      by (simp add: tickets_evolve_def)
    with that have "ticket_ids_distinct t" by (simp add: lifecycle_map_ids)
    with st tu have 2: "list_all2 (lifecycle (now s)) (db_ticket_instances t) (db_ticket_instances u)"
      by (simp add: tickets_evolve_def)
    show ?thesis by (rule list_all2_trans [OF _ 1 2]) (rule rtranclp_trans)
  qed
  with st tu show "tickets_evolve s u" by (simp add: tickets_evolve_def)
qed

lemmas evolve_control = evolve.steps_control evolve.steps_errors evolve.steps_optional_op

text \<open>Operations on other tables.\<close>

lemma evolve_other:
  "(\<And>s. db_ticket_instances (snd (m s)) = db_ticket_instances s \<and> now (snd (m s)) = now s) \<Longrightarrow>
   steps tickets_evolve m"
  by (simp add: steps_def tickets_evolve_def list.rel_refl)

lemma evolve_update_tickets:
  assumes "\<And>s t. P t \<Longrightarrow> ticket_step (now s) t (f s t)"
  shows "steps tickets_evolve (update_tickets P f)"
  using assms unfolding steps_def tickets_evolve_def
  by (auto simp: update_tickets_run intro!: list_all2_update_where)

lemma evolve_update_tickets_limited:
  assumes "\<And>s t. cond s t \<Longrightarrow> ticket_step (now s) t (f s t)"
  shows "steps tickets_evolve (update_tickets_limited cond f n)"
proof (rule stepsI)
  fix s
  show "tickets_evolve s (snd (update_tickets_limited cond f n s))"
  proof (cases "ticket_ids_distinct s")
    case True
    have "ticket_step (now s) t (f s t)" if "t \<in> set (picked cond n s)" for t
      using in_picked [OF that] assms by (simp add: selectable_def)
    then have "list_all2 (lifecycle (now s)) (db_ticket_instances s)
        (update_where (\<lambda>t. t \<in> set (picked cond n s)) (f s) (db_ticket_instances s))"
      by (intro list_all2_update_where) blast+
    with True show ?thesis
      by (simp add: update_tickets_limited_picked tickets_evolve_def)
  next
    case False
    then show ?thesis by (simp add: update_tickets_limited_run tickets_evolve_def)
  qed
qed

section \<open>Every ticket operation takes life-cycle steps\<close>

lemma evolve_reads [op_steps]:
  "steps tickets_evolve (find_ticket i)" "steps tickets_evolve (was_transferred t)"
  "steps tickets_evolve (find_tickets_for_user u)" "steps tickets_evolve (find_wallets_for_user u)"
  "steps tickets_evolve (count_for_hold h tt)" "steps tickets_evolve (find_for_order_item i)"
  "steps tickets_evolve (gen_range k)" "steps tickets_evolve draw_uuid"
  by (rule evolve_other; simp add: find_ticket_def was_transferred_def find_tickets_for_user_def
    find_wallets_for_user_def count_for_hold_def find_for_order_item_def)+

lemma evolve_release_query [op_steps]:
  assumes "wanted \<in> {ticket_instance_status.Reserved, ticket_instance_status.Purchased}"
  shows "steps tickets_evolve (release_query i n wanted only)"
  unfolding release_query_def using assms
  by (intro evolve_update_tickets_limited ts_release) auto

lemma evolve_release [op_steps]: "steps tickets_evolve (release t)"
  unfolding release_def by (intro evolve_control op_steps conjI) (auto intro: evolve_control)

lemma evolve_release_tickets [op_steps]: "steps tickets_evolve (release_tickets oi q)"
  unfolding release_tickets_def by (intro evolve_control op_steps) (auto intro: evolve_control)

lemma evolve_reserve_tickets [op_steps]: "steps tickets_evolve (reserve_tickets oi e tt h q)"
  unfolding reserve_tickets_def
  by (auto intro!: evolve_control evolve_update_tickets_limited ts_reserve simp: in_pool_def
      split: option.splits)

lemma evolve_add_to_hold [op_steps]: "steps tickets_evolve (add_to_hold h tt q f)"
  unfolding add_to_hold_def
  by (auto intro!: evolve_control evolve_update_tickets_limited ts_hold simp: in_pool_def)

lemma evolve_release_from_hold [op_steps]: "steps tickets_evolve (release_from_hold h tt q)"
  unfolding release_from_hold_def
  by (auto intro!: evolve_control evolve_update_tickets_limited ts_unhold)

lemma evolve_update_reserved_time [op_steps]: "steps tickets_evolve (update_reserved_time oi e)"
  unfolding update_reserved_time_def
  by (auto intro!: evolve_control evolve_update_tickets ts_extend)

lemma evolve_set_wallet [op_steps]: "steps tickets_evolve (set_wallet t w)"
  unfolding set_wallet_def by (auto intro!: evolve_control evolve_update_tickets ts_wallet)

lemma evolve_generate_redeem_key [op_steps]: "steps tickets_evolve (generate_redeem_key n)"
  by (induction n) (auto intro!: evolve_control op_steps)

lemma evolve_write_redeem_key [op_steps]: "steps tickets_evolve (write_redeem_key t)"
  unfolding write_redeem_key_def
  by (auto intro!: evolve_control op_steps evolve_update_tickets ts_key)

lemma evolve_mark_as_purchased [op_steps]: "steps tickets_evolve (mark_as_purchased oi u)"
  unfolding mark_as_purchased_def
  by (auto intro!: evolve_control op_steps evolve_update_tickets ts_purchase split: list.splits)

lemma evolve_nullify_tickets [op_steps]: "steps tickets_evolve (nullify_tickets a q)"
  unfolding nullify_tickets_def by (auto intro!: evolve_update_tickets_limited ts_nullify)

text \<open>Redeeming checks the status of the row it finds and then updates by id: with distinct ids
  that is the same row.\<close>

lemma evolve_redeem_ticket [op_steps]: "steps tickets_evolve (redeem_ticket i key)"
proof (rule stepsI)
  fix s
  show "tickets_evolve s (snd (redeem_ticket i key s))"
  proof (cases "find (\<lambda>t. ti_id t = i) (db_ticket_instances s)")
    case None
    then show ?thesis
      by (simp add: redeem_ticket_def find_ticket_def op_simps evolve.step_refl)
  next
    case (Some t)
    have same: "u = t" if "ticket_ids_distinct s" "u \<in> set (db_ticket_instances s)" "ti_id u = i" for u
      using Some find_distinct [OF that(1,2)] that(3) by simp
    show ?thesis
    proof (cases "ti_status t = ticket_instance_status.Purchased \<and> ti_redeem_key t = Some key")
      case True
      have "list_all2 (lifecycle (now s)) (db_ticket_instances s)
          (update_where (\<lambda>t. ti_id t = i) (\<lambda>t. t\<lparr>ti_status := ticket_instance_status.Redeemed\<rparr>)
            (db_ticket_instances s))" if "ticket_ids_distinct s"
        using same [OF that] True
        by (intro list_all2_update_where) (auto intro!: ts_redeem r_into_rtranclp)
      with Some True show ?thesis
        by (simp add: redeem_ticket_def find_ticket_def op_simps tickets_evolve_def)
    next
      case False
      with Some show ?thesis
        by (auto simp: redeem_ticket_def find_ticket_def op_simps evolve.step_refl)
    qed
  qed
qed

section \<open>What reserving and releasing do to the pool\<close>

text \<open>The tickets a request can get: in the pool and not locked by another transaction.\<close>

definition free_tickets :: "db \<Rightarrow> uuid \<Rightarrow> uuid option \<Rightarrow> ticket_instance list" where
  "free_tickets s tt h = filter (selectable (\<lambda>s. in_pool s tt h) s) (db_ticket_instances s)"

definition reserve_row :: "db \<Rightarrow> order_item \<Rightarrow> timestamp \<Rightarrow> ticket_instance \<Rightarrow> ticket_instance" where
  "reserve_row s oi e t = t\<lparr>ti_order_item_id := Some (oi_id oi), ti_reserved_until := Some e,
     ti_status := ticket_instance_status.Reserved, ti_updated_at := now s\<rparr>"

definition release_row :: "db \<Rightarrow> ticket_instance \<Rightarrow> ticket_instance" where
  "release_row s t = t\<lparr>ti_order_item_id := None, ti_reserved_until := None, ti_redeem_key := None,
     ti_transfer_key := None, ti_transfer_expiry_date := None,
     ti_status := ticket_instance_status.Available, ti_updated_at := now s\<rparr>"

lemma reserve_tickets_run:
  assumes "ticket_ids_distinct s"
  shows "reserve_tickets oi (Some e) tt h q s =
    (let P = take (unat q) (free_tickets s tt h);
         s' = s\<lparr>db_ticket_instances :=
                update_where (\<lambda>t. t \<in> set P) (reserve_row s oi e) (db_ticket_instances s)\<rparr>
     in if length P = unat q then (Inr (map (reserve_row s oi e) P), s')
        else (fst (validation_error_op ''quantity''
                ''Could not reserve the correct amount of tickets'' s'), s'))"
proof -
  have "of_nat (length (take (unat q) xs)) = q \<longleftrightarrow> length (take (unat q) xs) = unat q"
    for xs :: "ticket_instance list"
    by (rule u32_count_eq) simp
  then show ?thesis
    using update_tickets_limited_picked [OF assms]
    by (simp add: reserve_tickets_def bindo_run free_tickets_def reserve_row_def [abs_def] Let_def
        ret_run error_op_run)
qed

lemma release_tickets_run:
  assumes "ticket_ids_distinct s"
  shows "release_tickets oi q s =
    (let P = take (unat q) (filter (selectable (\<lambda>s t. has_asset s t \<and> ti_order_item_id t = Some (oi_id oi)
               \<and> ti_status t = ticket_instance_status.Reserved) s) (db_ticket_instances s));
         s' = s\<lparr>db_ticket_instances :=
                update_where (\<lambda>t. t \<in> set P) (release_row s) (db_ticket_instances s)\<rparr>
     in if length P = unat q then (Inr (map (release_row s) P), s')
        else (fst (validation_error_op ''quantity''
                ''Could not release the correct amount of tickets'' s'), s'))"
proof -
  have "of_nat (length (take (unat q) xs)) = q \<longleftrightarrow> length (take (unat q) xs) = unat q"
    for xs :: "ticket_instance list"
    by (rule u32_count_eq) simp
  then show ?thesis
    using update_tickets_limited_picked [OF assms]
    by (simp add: release_tickets_def release_query_def bindo_run release_row_def [abs_def] Let_def
        ret_run error_op_run)
qed

text \<open>A ticket just reserved past the present is out of the pool, one just released is back.\<close>

lemma reserve_row_not_unclaimed: "now s \<le> e \<Longrightarrow> \<not> unclaimed (now s) (reserve_row s oi e t)"
  by (simp add: unclaimed_def reserve_row_def before_def)

lemma release_row_unclaimed: "unclaimed n (release_row s t)"
  by (simp add: unclaimed_def release_row_def)

lemma of_ticket_type_has_asset: "of_ticket_type s tt t \<Longrightarrow> has_asset s t"
  by (auto simp: of_ticket_type_def has_asset_def list_ex_iff)

text \<open>The conditions read no ticket row but the one they are asked about.\<close>

lemma conditions_frame [simp]:
  "of_ticket_type (s\<lparr>db_ticket_instances := x\<rparr>) tt t = of_ticket_type s tt t"
  "has_asset (s\<lparr>db_ticket_instances := x\<rparr>) t = has_asset s t"
  "in_pool (s\<lparr>db_ticket_instances := x\<rparr>) tt h t = in_pool s tt h t"
  "selectable (\<lambda>s. in_pool s tt h) (s\<lparr>db_ticket_instances := x\<rparr>) = selectable (\<lambda>s. in_pool s tt h) s"
  by (simp_all add: of_ticket_type_def has_asset_def in_pool_def selectable_def fun_eq_iff)

lemma of_ticket_type_rows [simp]:
  "of_ticket_type s tt (reserve_row s' oi e t) = of_ticket_type s tt t"
  "of_ticket_type s tt (release_row s' t) = of_ticket_type s tt t"
  "has_asset s (reserve_row s' oi e t) = has_asset s t"
  "ti_id (reserve_row s' oi e t) = ti_id t" "ti_id (release_row s' t) = ti_id t"
  "ti_hold_id (reserve_row s' oi e t) = ti_hold_id t" "ti_hold_id (release_row s' t) = ti_hold_id t"
  by (simp_all add: of_ticket_type_def has_asset_def reserve_row_def release_row_def)

lemma free_after_reserve:
  assumes "ticket_ids_distinct s" and "now s \<le> e"
  shows "free_tickets (s\<lparr>db_ticket_instances := update_where
      (\<lambda>t. t \<in> set (take n (free_tickets s tt h))) (reserve_row s oi e) (db_ticket_instances s)\<rparr>) tt h =
    drop n (free_tickets s tt h)"
proof -
  have "distinct (db_ticket_instances s)" using assms(1) by (simp add: distinct_map)
  moreover have "\<not> selectable (\<lambda>s. in_pool s tt h) s (reserve_row s oi e t)" for t
    using reserve_row_not_unclaimed [OF assms(2)] by (simp add: selectable_def in_pool_def)
  ultimately show ?thesis
    unfolding free_tickets_def by (simp add: filter_update_first)
qed

section \<open>Properties\<close>

text \<open>C1: reserving \<open>q\<close> tickets succeeds exactly when the cart has an expiry and the pool has
  \<open>q\<close> free tickets; then exactly \<open>q\<close> free tickets become Reserved for the order item until the
  expiry, no other ticket and nothing else changes (no ticket that is claimed, purchased or
  locked), and the pool has \<open>q\<close> tickets less.\<close>

theorem reserve_tickets_exact:
  assumes "ticket_ids_distinct s" and "\<And>t. e = Some t \<Longrightarrow> now s \<le> t"
  shows "((\<exists>ts. fst (reserve_tickets oi e tt h q s) = Inr ts) \<longleftrightarrow>
           e \<noteq> None \<and> unat q \<le> length (free_tickets s tt h)) \<and>
    (\<forall>ts s'. reserve_tickets oi e tt h q s = (Inr ts, s') \<longrightarrow>
       length ts = unat q \<and>
       ts = map (reserve_row s oi (the e)) (take (unat q) (free_tickets s tt h)) \<and>
       s' = s\<lparr>db_ticket_instances :=
              map (\<lambda>t. if t \<in> set (take (unat q) (free_tickets s tt h))
                       then reserve_row s oi (the e) t else t) (db_ticket_instances s)\<rparr> \<and>
       (\<forall>t. t \<in> set (db_ticket_instances s) \<and>
            (\<not> unclaimed (now s) t \<or> ti_id t \<in> set (locked_tickets s)) \<longrightarrow>
              t \<in> set (db_ticket_instances s')) \<and>
       length (free_tickets s' tt h) + unat q = length (free_tickets s tt h))"
proof (cases e)
  case None
  then show ?thesis by (simp add: reserve_tickets_def error_op_run)
next
  case (Some x)
  let ?P = "take (unat q) (free_tickets s tt h)"
  let ?u = "update_where (\<lambda>t. t \<in> set ?P) (reserve_row s oi x) (db_ticket_instances s)"
  have now: "now s \<le> x" using assms(2) [OF Some] .
  have frame: "t \<in> set ?u" if "t \<in> set (db_ticket_instances s)"
    "\<not> unclaimed (now s) t \<or> ti_id t \<in> set (locked_tickets s)" for t
  proof -
    have "t \<notin> set ?P"
      using that(2) by (auto dest!: in_set_takeD simp: free_tickets_def selectable_def in_pool_def)
    with that(1) show ?thesis by (auto simp: set_update_where)
  qed
  have "length (free_tickets (s\<lparr>db_ticket_instances := ?u\<rparr>) tt h) =
      length (free_tickets s tt h) - unat q"
    using free_after_reserve [OF assms(1) now] by simp
  then show ?thesis
    using frame reserve_tickets_run [OF assms(1)]
    by (auto simp: Some Let_def update_where_def error_op_run split: if_splits)
qed

definition sample_pool :: db where
  "sample_pool = blank_db\<lparr>db_ticket_instances := [blank_ticket 1 7, blank_ticket 2 7, blank_ticket 3 7],
     db_assets := [blank_asset 7 9], db_wallets := [blank_wallet 1 None, blank_wallet 2 (Some 20)]\<rparr>"

lemma sample_pool_free [simp]:
  "free_tickets sample_pool 9 None = [blank_ticket 1 7, blank_ticket 2 7, blank_ticket 3 7]"
  "ticket_ids_distinct sample_pool" "now sample_pool = 1000"
  by (simp_all add: sample_pool_def free_tickets_def selectable_def in_pool_def unclaimed_def
      of_ticket_type_def blank_defs)

theorem reserve_tickets_exact_witness:
  "ticket_ids_distinct sample_pool \<and>
   (\<exists>ts. fst (reserve_tickets (blank_item 5 6 order_item_types.Tickets 2 100) (Some 2000) 9 None 2
      sample_pool) = Inr ts) \<and>
   \<not> (\<exists>ts. fst (reserve_tickets (blank_item 5 6 order_item_types.Tickets 4 100) (Some 2000) 9 None 4
      sample_pool) = Inr ts)"
  using reserve_tickets_exact [of sample_pool "Some 2000" "blank_item 5 6 order_item_types.Tickets 2 100" 9 None 2]
    reserve_tickets_exact [of sample_pool "Some 2000" "blank_item 5 6 order_item_types.Tickets 4 100" 9 None 4]
  by simp

text \<open>C2: reserving tickets for an order item that has none and releasing the same number again
  always succeeds, gives back exactly those tickets as Available, leaves every other ticket as it
  was, and the pool is as large as before.\<close>

theorem reserve_release_roundtrip:
  assumes distinct: "ticket_ids_distinct s" and now: "now s \<le> e"
    and new: "\<And>t. t \<in> set (db_ticket_instances s) \<Longrightarrow> ti_order_item_id t \<noteq> Some (oi_id oi)"
    and run: "reserve_tickets oi (Some e) tt h q s = (Inr ts, s1)"
  shows "\<exists>us s2. release_tickets oi q s1 = (Inr us, s2) \<and> map ti_id us = map ti_id ts \<and>
    db_ticket_instances s2 =
      map (\<lambda>t. if ti_id t \<in> ti_id ` set ts then release_row s t else t) (db_ticket_instances s) \<and>
    length (free_tickets s2 tt h) = length (free_tickets s tt h)"
proof -
  let ?rs = "db_ticket_instances s"
  let ?P = "take (unat q) (free_tickets s tt h)"
  let ?K = "\<lambda>t. ti_id t \<in> ti_id ` set ?P"
  let ?f = "reserve_row s oi e"
  let ?ours = "selectable (\<lambda>s t. has_asset s t \<and> ti_order_item_id t = Some (oi_id oi) \<and>
    ti_status t = ticket_instance_status.Reserved)"
  have P: "set ?P \<subseteq> set ?rs" by (auto simp: free_tickets_def dest: in_set_takeD)
  have PK: "filter ?K ?rs = ?P"
    unfolding free_tickets_def by (rule filter_key_in_take [OF distinct])
  have picked: "t \<in> set ?P" if "t \<in> set ?rs" "?K t" for t
  proof -
    have "t \<in> set (filter ?K ?rs)" using that by simp
    then show ?thesis by (simp only: PK)
  qed
  have len: "length ?P = unat q" and ts: "ts = map ?f ?P"
    and s1: "s1 = s\<lparr>db_ticket_instances := update_where ?K ?f ?rs\<rparr>"
    using run reserve_tickets_run [OF distinct, of oi e tt h q] update_where_by_key [OF distinct P]
    by (auto simp: Let_def error_op_run split: if_splits)
  have d1: "ticket_ids_distinct s1" using distinct by (simp add: s1 map_update_where)
  have sel: "has_asset s t \<and> ti_id t \<notin> set (locked_tickets s)" if "t \<in> set ?rs" "?K t" for t
  proof -
    have "t \<in> set ?P" using picked that by blast
    then show ?thesis
      by (auto dest!: in_set_takeD of_ticket_type_has_asset
          simp: free_tickets_def selectable_def in_pool_def)
  qed
  have "filter (?ours s1) (update_where ?K ?f ?rs) = map ?f (filter ?K ?rs)"
    using new sel by (intro filter_updated) (auto simp: s1 selectable_def reserve_row_def has_asset_def)
  then have ours: "filter (?ours s1) (db_ticket_instances s1) = map ?f ?P"
    using PK by (simp add: s1)
  have "set (map ?f ?P) \<subseteq> set (update_where ?K ?f ?rs)"
    using P by (auto simp: set_update_where)
  from update_where_by_key [OF _ this, of ti_id "release_row s1"] d1
  have "update_where (\<lambda>t. t \<in> set (map ?f ?P)) (release_row s1) (db_ticket_instances s1) =
      update_where ?K (release_row s1) (update_where ?K ?f ?rs)"
    by (simp add: s1 image_image)
  also have "\<dots> = update_where ?K (release_row s) ?rs"
    by (simp add: update_where_twice) (simp add: s1 release_row_def reserve_row_def update_where_def)
  finally have rel: "release_tickets oi q s1 = (Inr (map (release_row s1) (map ?f ?P)),
      s1\<lparr>db_ticket_instances := update_where ?K (release_row s) ?rs\<rparr>)"
    using release_tickets_run [OF d1, of oi q] len by (simp add: ours Let_def)
  have "length (filter (selectable (\<lambda>s. in_pool s tt h) s) (update_where ?K (release_row s) xs)) =
      length (filter (selectable (\<lambda>s. in_pool s tt h) s) xs)" if "set xs \<subseteq> set ?rs" for xs
  proof -
    have "selectable (\<lambda>s. in_pool s tt h) s (release_row s t) = selectable (\<lambda>s. in_pool s tt h) s t"
      if "t \<in> set ?rs" "?K t" for t
    proof -
      have "t \<in> set ?P" using picked that by blast
      then have "selectable (\<lambda>s. in_pool s tt h) s t"
        by (auto dest!: in_set_takeD simp: free_tickets_def)
      then show ?thesis using release_row_unclaimed by (simp add: selectable_def in_pool_def)
    qed
    with that show ?thesis by (induction xs) (auto simp: update_where_def)
  qed
  from this [OF order_refl] have free: "length (free_tickets (s1\<lparr>db_ticket_instances :=
      update_where ?K (release_row s) ?rs\<rparr>) tt h) = length (free_tickets s tt h)"
    by (simp only: free_tickets_def s1) simp
  have ids: "map ti_id (map (release_row s1) (map ?f ?P)) = map ti_id ts"
    and keys: "ti_id ` set ts = ti_id ` set ?P" by (simp_all add: ts image_image)
  have "db_ticket_instances (s1\<lparr>db_ticket_instances := update_where ?K (release_row s) ?rs\<rparr>) =
      map (\<lambda>t. if ti_id t \<in> ti_id ` set ts then release_row s t else t) ?rs"
    by (simp add: update_where_def keys)
  with rel ids free show ?thesis by blast
qed

theorem reserve_release_roundtrip_witness:
  "\<exists>ts s1 us s2. reserve_tickets (blank_item 5 6 order_item_types.Tickets 2 100) (Some 2000) 9 None 2
      sample_pool = (Inr ts, s1) \<and>
    release_tickets (blank_item 5 6 order_item_types.Tickets 2 100) 2 s1 = (Inr us, s2) \<and>
    length (free_tickets s2 9 None) = 3"
proof -
  let ?oi = "blank_item 5 6 order_item_types.Tickets 2 100"
  obtain ts s1 where run: "reserve_tickets ?oi (Some 2000) 9 None 2 sample_pool = (Inr ts, s1)"
    by (simp add: reserve_tickets_run Let_def)
  have none: "ti_order_item_id t \<noteq> Some (oi_id ?oi)" if "t \<in> set (db_ticket_instances sample_pool)" for t
    using that by (auto simp: sample_pool_def blank_defs)
  obtain us s2 where "release_tickets ?oi 2 s1 = (Inr us, s2)"
    "length (free_tickets s2 9 None) = length (free_tickets sample_pool 9 None)"
    using reserve_release_roundtrip [OF sample_pool_free(2) _ none run] by auto
  then have "release_tickets ?oi 2 s1 = (Inr us, s2) \<and> length (free_tickets s2 9 None) = 3" by simp
  with run show ?thesis by blast
qed

section \<open>Creating, purchasing and redeeming\<close>

lemma insert_tickets_run:
  "\<exists>new k. for_each insert_ticket rows s =
      (Inr (), s\<lparr>db_ticket_instances := db_ticket_instances s @ new, uuids_drawn := k\<rparr>) \<and>
    map ti_token_id new = map nti_token_id rows \<and>
    map ti_asset_id new = map nti_asset_id rows \<and> map ti_wallet_id new = map nti_wallet_id rows \<and>
    (\<forall>t \<in> set new. ti_status t = ticket_instance_status.Available \<and> ti_order_item_id t = None \<and>
      ti_hold_id t = None \<and> ti_redeem_key t = None)"
proof (induction rows arbitrary: s)
  case Nil
  show ?case by (simp add: ret_run) (rule exI [of _ "uuids_drawn s"], simp)
next
  case (Cons r rows)
  obtain t k where first: "insert_ticket r s =
      (Inr (), s\<lparr>db_ticket_instances := db_ticket_instances s @ [t], uuids_drawn := k\<rparr>)"
    and t: "ti_token_id t = nti_token_id r" "ti_asset_id t = nti_asset_id r"
      "ti_wallet_id t = nti_wallet_id r" "ti_status t = ticket_instance_status.Available"
      "ti_order_item_id t = None" "ti_hold_id t = None" "ti_redeem_key t = None"
    by (rule that [of "Suc (uuids_drawn s)" "\<lparr>ti_id = uuid_source s (uuids_drawn s), ti_asset_id = nti_asset_id r,
        ti_token_id = nti_token_id r, ti_hold_id = None, ti_order_item_id = None,
        ti_wallet_id = nti_wallet_id r, ti_reserved_until = None, ti_redeem_key = None,
        ti_transfer_key = None, ti_transfer_expiry_date = None,
        ti_status = ticket_instance_status.Available, ti_created_at = now s, ti_updated_at = now s\<rparr>"]) (simp_all add: insert_ticket_def op_simps)
  from Cons.IH [of "s\<lparr>db_ticket_instances := db_ticket_instances s @ [t], uuids_drawn := k\<rparr>"]
  obtain new k' where rest: "for_each insert_ticket rows
      (s\<lparr>db_ticket_instances := db_ticket_instances s @ [t], uuids_drawn := k\<rparr>) =
      (Inr (), s\<lparr>db_ticket_instances := db_ticket_instances s @ [t] @ new, uuids_drawn := k'\<rparr>)"
    and new: "map ti_token_id new = map nti_token_id rows"
      "map ti_asset_id new = map nti_asset_id rows" "map ti_wallet_id new = map nti_wallet_id rows"
      "\<forall>t \<in> set new. ti_status t = ticket_instance_status.Available \<and> ti_order_item_id t = None \<and>
        ti_hold_id t = None \<and> ti_redeem_key t = None"
    by auto
  show ?case
    by (rule exI [of _ "t # new"], rule exI [of _ k']) (use first rest new t in \<open>simp add: bindo_run\<close>)
qed

lemma for_each_append:
  "for_each f (xs @ ys) = bindo (for_each f xs) (\<lambda>_. for_each f ys)"
proof (induction xs)
  case (Cons x xs)
  then show ?case by (auto simp: fun_eq_iff bindo_def split: prod.splits sum.splits)
qed simp

text \<open>Buffering the rows and writing them in batches writes what writing them one by one does.\<close>

abbreviation numbered_row :: "uuid \<Rightarrow> u32 \<Rightarrow> uuid \<Rightarrow> nat \<Rightarrow> new_ticket_instance" where
  "numbered_row a start w x \<equiv>
     \<lparr>nti_asset_id = a, nti_token_id = sint (start + of_nat x), nti_wallet_id = w\<rparr>"

lemma batches_written:
  "bindo (fold_op (\<lambda>x new_rows.
      let new_rows = new_rows @ [numbered_row a start w x]
      in if x mod 1000 = 0
         then bindo (for_each insert_ticket new_rows) (\<lambda>_. ret [])
         else ret new_rows) xs buf)
     (\<lambda>new_rows. if new_rows \<noteq> [] then for_each insert_ticket new_rows else ret ()) s =
   for_each insert_ticket (buf @ map (numbered_row a start w) xs) s"
proof (induction xs arbitrary: buf s)
  case Nil
  show ?case by simp
next
  case (Cons x xs)
  show ?case
  proof (cases "x mod 1000 = 0")
    case True
    obtain t where run: "for_each insert_ticket (buf @ [numbered_row a start w x]) s = (Inr (), t)"
      using insert_tickets_run by blast
    have "for_each insert_ticket (buf @ map (numbered_row a start w) (x # xs)) s =
        for_each insert_ticket (map (numbered_row a start w) xs) t"
      using run for_each_append [of insert_ticket "buf @ [numbered_row a start w x]"
          "map (numbered_row a start w) xs"]
      by (simp add: bindo_run)
    then show ?thesis using True run Cons.IH [of "[]" t] by (simp add: bindo_run ret_run Let_def)
  next
    case False
    then show ?thesis
      using Cons.IH [of "buf @ [numbered_row a start w x]" s] by (simp add: bindo_run ret_run Let_def)
  qed
qed

text \<open>creating \<open>q\<close> tickets for an asset never fails and appends exactly \<open>q\<close> rows, numbered
  upwards from the starting token id (wrapping like the code's \<open>u32\<close>, read as \<open>i32\<close>), each
  Available, unclaimed, outside every hold, without a redeem key and in the given wallet; the
  batching by a thousand loses and repeats none.\<close>

theorem create_multiple_exact:
  "\<exists>new s'. create_multiple a start q w s = (Inr (), s') \<and>
     db_ticket_instances s' = db_ticket_instances s @ new \<and> length new = unat q \<and>
     map ti_token_id new = map (\<lambda>x. sint (start + of_nat x)) [0..<unat q] \<and>
     new = filter (\<lambda>t. ti_asset_id t = a \<and> ti_wallet_id t = w \<and> ti_order_item_id t = None \<and>
       ti_status t = ticket_instance_status.Available \<and> ti_hold_id t = None \<and> ti_redeem_key t = None) new"
proof -
  let ?rows = "map (numbered_row a start w) [0..<unat q]"
  obtain new k where run: "for_each insert_ticket ?rows s =
      (Inr (), s\<lparr>db_ticket_instances := db_ticket_instances s @ new, uuids_drawn := k\<rparr>)"
    and cols: "map ti_token_id new = map nti_token_id ?rows" "map ti_asset_id new = map nti_asset_id ?rows"
      "map ti_wallet_id new = map nti_wallet_id ?rows"
    and free: "\<forall>t \<in> set new. ti_status t = ticket_instance_status.Available \<and>
      ti_order_item_id t = None \<and> ti_hold_id t = None \<and> ti_redeem_key t = None"
    using insert_tickets_run by blast
  have "length new = unat q" using arg_cong [OF cols(1), of length] by simp
  moreover have "ti_asset_id t = a \<and> ti_wallet_id t = w" if "t \<in> set new" for t
    using that arg_cong [OF cols(2), of set] arg_cong [OF cols(3), of set] by auto
  ultimately show ?thesis
    using run cols(1) free batches_written [of a start w "[0..<unat q]" "[]" s]
    by (auto simp: create_multiple_def filter_id_conv comp_def)
qed

lemma generate_redeem_key_run:
  assumes "\<And>k n. 0 < n \<Longrightarrow> rng_source s k n < n"
  shows "\<exists>key. generate_redeem_key len s = (Inr key, s\<lparr>rng_drawn := rng_drawn s + len\<rparr>) \<and>
    length key = len \<and> set key \<subseteq> set hash_char_list"
  using assms
proof (induction len arbitrary: s)
  case 0
  show ?case by (simp add: ret_run)
next
  case (Suc len)
  let ?i = "rng_source s (rng_drawn s) (length hash_char_list)"
  obtain key where "generate_redeem_key len (s\<lparr>rng_drawn := Suc (rng_drawn s)\<rparr>) =
      (Inr key, s\<lparr>rng_drawn := rng_drawn s + Suc len\<rparr>)" "length key = len" "set key \<subseteq> set hash_char_list"
    using Suc.IH [of "s\<lparr>rng_drawn := Suc (rng_drawn s)\<rparr>"] Suc.prems by auto
  moreover have "hash_char_list ! ?i \<in> set hash_char_list"
    by (intro nth_mem Suc.prems) (simp add: hash_char_list_def)
  ultimately show ?case by (simp add: op_simps)
qed

abbreviation redeem_key_ok :: "string \<Rightarrow> bool" where
  "redeem_key_ok key \<equiv> length key = 9 \<and> set key \<subseteq> set hash_char_list"

definition set_key :: "uuid set \<Rightarrow> ticket_instance \<Rightarrow> ticket_instance \<Rightarrow> bool" where
  "set_key K t u \<longleftrightarrow> (if ti_id t \<in> K
     then \<exists>key. u = t\<lparr>ti_redeem_key := Some key\<rparr> \<and> redeem_key_ok key
     else u = t)"

lemma set_key_compose: "set_key A t u \<Longrightarrow> set_key B u v \<Longrightarrow> set_key (A \<union> B) t v"
  unfolding set_key_def by (cases "ti_id t \<in> A"; cases "ti_id t \<in> B") auto

lemma write_redeem_keys_run:
  assumes "\<And>k n. 0 < n \<Longrightarrow> rng_source s k n < n"
  shows "\<exists>rs k. for_each write_redeem_key ts s =
      (Inr (), s\<lparr>db_ticket_instances := rs, rng_drawn := k\<rparr>) \<and>
    list_all2 (set_key (ti_id ` set ts)) (db_ticket_instances s) rs"
  using assms
proof (induction ts arbitrary: s)
  case Nil
  have "list_all2 (set_key {}) (db_ticket_instances s) (db_ticket_instances s)"
    by (simp add: set_key_def list.rel_refl)
  then show ?case
    by (intro exI [of _ "db_ticket_instances s"] exI [of _ "rng_drawn s"]) (simp add: ret_run)
next
  case (Cons t ts)
  obtain key where key: "generate_redeem_key 9 s = (Inr key, s\<lparr>rng_drawn := rng_drawn s + 9\<rparr>)"
    "length key = 9" "set key \<subseteq> set hash_char_list"
    using generate_redeem_key_run [of s 9] Cons.prems by blast
  let ?rs = "update_where (\<lambda>u. ti_id u = ti_id t) (\<lambda>u. u\<lparr>ti_redeem_key := Some key\<rparr>)
    (db_ticket_instances s)"
  let ?s = "s\<lparr>rng_drawn := rng_drawn s + 9, db_ticket_instances := ?rs\<rparr>"
  have one: "write_redeem_key t s = (Inr (), ?s)"
    by (simp add: write_redeem_key_def bindo_run key update_tickets_run ret_run)
  have first: "list_all2 (set_key {ti_id t}) (db_ticket_instances s) ?rs"
    unfolding update_where_def list.rel_map
    by (rule list.rel_refl_strong) (use key in \<open>auto simp: set_key_def\<close>)
  obtain rs k where rest: "for_each write_redeem_key ts ?s =
      (Inr (), ?s\<lparr>db_ticket_instances := rs, rng_drawn := k\<rparr>)"
    and second: "list_all2 (set_key (ti_id ` set ts)) ?rs rs"
    using Cons.IH [of ?s] Cons.prems by auto
  have all: "list_all2 (set_key ({ti_id t} \<union> ti_id ` set ts)) (db_ticket_instances s) rs"
    by (rule list_all2_trans [OF _ first second]) (rule set_key_compose)
  have "for_each write_redeem_key (t # ts) s = (Inr (), s\<lparr>db_ticket_instances := rs, rng_drawn := k\<rparr>)"
    using one rest by (simp add: bindo_run)
  with all show ?case by (intro exI [of _ rs] exI [of _ k]) simp
qed

text \<open>C3: marking an order item's tickets as purchased needs a wallet of the buyer, and changes
  nothing without one; with one it makes every ticket of the item Purchased, in the buyer's first
  wallet, with a fresh redeem key of nine characters of the alphabet without look-alikes, and
  leaves every other ticket alone.\<close>

theorem mark_as_purchased_exact:
  assumes distinct: "ticket_ids_distinct s"
    and rng: "\<And>k n. 0 < n \<Longrightarrow> rng_source s k n < n"
  shows "case find (\<lambda>w. w_user_id w = Some user) (db_wallets s) of
      None \<Rightarrow> mark_as_purchased oi user s = (Inl (database_error_new InternalError
         (Some (Text ''User does not have a wallet associated with them''))), s)
    | Some w \<Rightarrow> (\<exists>s'. mark_as_purchased oi user s = (Inr (), s') \<and>
        list_all2 (\<lambda>t u. if ti_order_item_id t = Some (oi_id oi)
            then \<exists>key. u = t\<lparr>ti_wallet_id := w_id w, ti_status := ticket_instance_status.Purchased,
                 ti_updated_at := now s, ti_redeem_key := Some key\<rparr> \<and> redeem_key_ok key
            else u = t) (db_ticket_instances s) (db_ticket_instances s'))"
proof (cases "filter (\<lambda>w. w_user_id w = Some user) (db_wallets s)")
  case Nil
  then have "find (\<lambda>w. w_user_id w = Some user) (db_wallets s) = None"
    by (auto simp: find_None_iff filter_empty_conv)
  then show ?thesis using Nil
    by (simp add: mark_as_purchased_def find_wallets_for_user_def bindo_run fail_run)
next
  case (Cons w ws)
  let ?ours = "\<lambda>t. ti_order_item_id t = Some (oi_id oi)"
  let ?f = "\<lambda>t. t\<lparr>ti_wallet_id := w_id w, ti_status := ticket_instance_status.Purchased,
    ti_updated_at := now s\<rparr>"
  let ?s = "s\<lparr>db_ticket_instances := update_where ?ours ?f (db_ticket_instances s)\<rparr>"
  let ?ts = "map ?f (filter ?ours (db_ticket_instances s))"
  have found: "find (\<lambda>w. w_user_id w = Some user) (db_wallets s) = Some w"
    using Cons by (simp add: find_Some_filter)
  obtain rs k where run: "for_each write_redeem_key ?ts ?s =
      (Inr (), ?s\<lparr>db_ticket_instances := rs, rng_drawn := k\<rparr>)"
    and keys: "list_all2 (set_key (ti_id ` set ?ts)) (db_ticket_instances ?s) rs"
    using write_redeem_keys_run [of ?s ?ts] rng by auto
  have ids: "ti_id t \<in> ti_id ` set ?ts \<longleftrightarrow> ?ours t" if "t \<in> set (db_ticket_instances s)" for t
    using that distinct by (auto simp: distinct_map image_image dest: inj_onD)
  from keys have "list_all2 (\<lambda>t. set_key (ti_id ` set ?ts) (if ?ours t then ?f t else t))
      (db_ticket_instances s) rs"
    by (simp add: update_where_def list.rel_map)
  then have "list_all2 (\<lambda>t u. if ?ours t then \<exists>key. u = (?f t)\<lparr>ti_redeem_key := Some key\<rparr> \<and> redeem_key_ok key
      else u = t) (db_ticket_instances s) rs"
  proof (rule list.rel_mono_strong)
    fix t u
    assume t: "t \<in> set (db_ticket_instances s)"
      and "set_key (ti_id ` set ?ts) (if ?ours t then ?f t else t) u"
    then show "if ?ours t then \<exists>key. u = (?f t)\<lparr>ti_redeem_key := Some key\<rparr> \<and> redeem_key_ok key
        else u = t"
      using ids [OF t] unfolding set_key_def by (cases "?ours t") (simp_all del: set_map)
  qed
  then show ?thesis using found run Cons
    by (simp add: mark_as_purchased_def find_wallets_for_user_def bindo_run update_tickets_run)
qed

definition sample_sold :: db where
  "sample_sold = sample_pool\<lparr>db_ticket_instances :=
     [(blank_ticket 1 7)\<lparr>ti_order_item_id := Some 5, ti_status := ticket_instance_status.Purchased,
        ti_reserved_until := Some 900, ti_redeem_key := Some ''ABCDEFGH2''\<rparr>,
      (blank_ticket 2 7)\<lparr>ti_order_item_id := Some 5, ti_status := ticket_instance_status.Reserved,
        ti_reserved_until := Some 2000\<rparr>]\<rparr>"

theorem mark_as_purchased_exact_witness:
  "\<exists>s'. mark_as_purchased (blank_item 5 6 order_item_types.Tickets 2 100) 20 sample_sold = (Inr (), s') \<and>
     length (db_ticket_instances s') = 2"
proof -
  have found: "find (\<lambda>w. w_user_id w = Some 20) (db_wallets sample_sold) = Some (blank_wallet 2 (Some 20))"
    and distinct: "ticket_ids_distinct sample_sold" and two: "length (db_ticket_instances sample_sold) = 2"
    and rng: "\<And>k n. 0 < n \<Longrightarrow> rng_source sample_sold k n < n"
    by (simp_all add: sample_sold_def sample_pool_def blank_defs)
  show ?thesis
    using mark_as_purchased_exact [where s = sample_sold and user = 20 and
        oi = "blank_item 5 6 order_item_types.Tickets 2 100", OF distinct rng]
    unfolding found option.case by (auto dest: list_all2_lengthD simp: two)
qed

text \<open>Presenting keys for one ticket one after the other.\<close>

fun present_keys :: "uuid \<Rightarrow> string list \<Rightarrow> redeem_results list dbop" where
  "present_keys i [] = ret []"
| "present_keys i (key # keys) =
     bindo (redeem_ticket i key) (\<lambda>r. bindo (present_keys i keys) (\<lambda>rs. ret (r # rs)))"

lemma find_ticket_after_redeem:
  assumes "find (\<lambda>t. ti_id t = i) rs = Some t"
  shows "find (\<lambda>t. ti_id t = i) (update_where (\<lambda>t. ti_id t = i)
    (\<lambda>t. t\<lparr>ti_status := ticket_instance_status.Redeemed\<rparr>) rs) =
    Some (t\<lparr>ti_status := ticket_instance_status.Redeemed\<rparr>)"
  using assms by (induction rs) (auto simp: update_where_def split: if_splits)

lemma present_keys_redeemed:
  assumes "find (\<lambda>t. ti_id t = i) (db_ticket_instances s) = Some t"
    and "ti_status t = ticket_instance_status.Redeemed"
  shows "present_keys i keys s = (Inr (map (\<lambda>_. TicketAlreadyRedeemed) keys), s)"
  using assms by (induction keys) (simp_all add: redeem_ticket_def find_ticket_def op_simps)

text \<open>C4: a purchased ticket is redeemed at most once, and only with its key: whatever keys are
  presented one after the other, those before the right one are turned away as invalid, the first
  right one redeems the ticket, and everything after it, right or wrong, is answered with already
  redeemed.\<close>

theorem redeemed_once:
  assumes "find (\<lambda>t. ti_id t = i) (db_ticket_instances s) = Some t"
    and "ti_status t = ticket_instance_status.Purchased" and "ti_redeem_key t = Some key"
  shows "fst (present_keys i keys s) = Inr (map (\<lambda>_. TicketInvalid) (takeWhile (\<lambda>k. k \<noteq> key) keys) @
    (case dropWhile (\<lambda>k. k \<noteq> key) keys of [] \<Rightarrow> []
     | _ # later \<Rightarrow> TicketRedeemSuccess # map (\<lambda>_. TicketAlreadyRedeemed) later))"
proof (induction keys)
  case Nil
  show ?case by (simp add: ret_run)
next
  case (Cons k keys)
  show ?case
  proof (cases "k = key")
    case True
    let ?s = "s\<lparr>db_ticket_instances := update_where (\<lambda>t. ti_id t = i)
      (\<lambda>t. t\<lparr>ti_status := ticket_instance_status.Redeemed\<rparr>) (db_ticket_instances s)\<rparr>"
    have "redeem_ticket i k s = (Inr TicketRedeemSuccess, ?s)"
      using assms True by (simp add: redeem_ticket_def find_ticket_def op_simps)
    moreover have "present_keys i keys ?s = (Inr (map (\<lambda>_. TicketAlreadyRedeemed) keys), ?s)"
      using find_ticket_after_redeem [OF assms(1)]
      by (intro present_keys_redeemed [where t = "t\<lparr>ti_status := ticket_instance_status.Redeemed\<rparr>"]) simp_all
    ultimately show ?thesis using True by (simp add: op_simps)
  next
    case False
    then have "redeem_ticket i k s = (Inr TicketInvalid, s)"
      using assms by (simp add: redeem_ticket_def find_ticket_def op_simps)
    then show ?thesis using False Cons.IH by (auto simp: op_simps split: sum.splits prod.splits)
  qed
qed

theorem redeemed_once_witness:
  "fst (present_keys 1 [''wrong'', ''ABCDEFGH2'', ''ABCDEFGH2''] sample_sold) =
     Inr [TicketInvalid, TicketRedeemSuccess, TicketAlreadyRedeemed]"
  using redeemed_once [of 1 sample_sold "hd (db_ticket_instances sample_sold)" "''ABCDEFGH2''"
      "[''wrong'', ''ABCDEFGH2'', ''ABCDEFGH2'']"]
  by (simp add: sample_sold_def blank_defs)

section \<open>Tickets that stay in the pool\<close>

text \<open>The pool condition excludes Purchased tickets only. A redeemed ticket keeps the reservation
  time of its cart, so once that has passed the ticket can be reserved for another order; a
  nullified ticket, which has no order item, can be reserved straight away.\<close>

definition sample_used :: db where
  "sample_used = sample_pool\<lparr>db_ticket_instances :=
     [(blank_ticket 1 7)\<lparr>ti_order_item_id := Some 5, ti_status := ticket_instance_status.Redeemed,
        ti_reserved_until := Some 900\<rparr>,
      (blank_ticket 2 7)\<lparr>ti_status := ticket_instance_status.Nullified\<rparr>]\<rparr>"

lemma used_tickets_reservable:
  "map ti_status (db_ticket_instances sample_used) =
     [ticket_instance_status.Redeemed, ticket_instance_status.Nullified] \<and>
   (\<exists>ts. fst (reserve_tickets (blank_item 8 9 order_item_types.Tickets 2 100) (Some 2000) 9 None 2
      sample_used) = Inr ts \<and> map ti_id ts = [1, 2] \<and> map ti_order_item_id ts = [Some 8, Some 8])"
proof -
  have free: "free_tickets sample_used 9 None = db_ticket_instances sample_used"
    and d: "ticket_ids_distinct sample_used"
    by (simp_all add: sample_used_def sample_pool_def free_tickets_def selectable_def in_pool_def
        unclaimed_def before_def of_ticket_type_def coalesce_hold_def blank_defs)
  show ?thesis
    by (simp add: reserve_tickets_run [OF d] free Let_def)
      (simp add: sample_used_def reserve_row_def blank_defs)
qed

end
