(* ===== verification/Domain_Events.thy ===== *)
theory Domain_Events imports Database begin

text \<open>
  Assets and domain events (\<open>db/src/models/assets.rs\<close>, \<open>db/src/models/domain_events.rs\<close>): the
  asset that stands for a ticket type on the chain, and the log of what happened, from which the
  publisher takes the unpublished entries, oldest first.
\<close>

section \<open>Assets\<close>

text \<open>The schema allows one asset per ticket type, chain id and chain name.\<close>

definition asset_violation :: "db \<Rightarrow> asset \<Rightarrow> db_error_kind option" where
  "asset_violation s a =
     (if list_ex (\<lambda>b. a_id b \<noteq> a_id a \<and>
           (a_ticket_type_id b = a_ticket_type_id a \<or> a_blockchain_name b = a_blockchain_name a \<or>
            (a_blockchain_asset_id a \<noteq> None \<and> a_blockchain_asset_id b = a_blockchain_asset_id a)))
         (db_assets s)
      then Some UniqueViolation
      else if \<not> list_ex (\<lambda>t. tt_id t = a_ticket_type_id a) (db_ticket_types s)
      then Some ForeignKeyViolation else None)"

record new_asset =
  na_blockchain_name :: string
  na_status :: asset_status
  na_ticket_type_id :: uuid

definition asset_create :: "uuid \<Rightarrow> string \<Rightarrow> new_asset" where
  "asset_create ticket_type_id blockchain_name =
     \<lparr>na_blockchain_name = blockchain_name, na_status = asset_status.Unsynced,
      na_ticket_type_id = ticket_type_id\<rparr>"

definition asset_commit :: "new_asset \<Rightarrow> asset dbop" where
  "asset_commit self =
     bindo draw_uuid (\<lambda>id'.
     bindo (gets now) (\<lambda>n.
       insert_checked db_assets (\<lambda>rs s. s\<lparr>db_assets := rs\<rparr>) asset_violation
         \<lparr>a_id = id', a_ticket_type_id = na_ticket_type_id self,
          a_blockchain_name = na_blockchain_name self, a_blockchain_asset_id = None,
          a_status = na_status self, a_created_at = n, a_updated_at = n\<rparr>
         InsertError ''Could not create asset''))"

definition asset_find_by_ticket_type :: "uuid \<Rightarrow> asset dbop" where
  "asset_find_by_ticket_type ticket_type_id =
     first_where db_assets (\<lambda>a. a_ticket_type_id a = ticket_type_id) QueryError ''Error loading asset''"

definition asset_find :: "uuid \<Rightarrow> asset dbop" where
  "asset_find id' = first_where db_assets (\<lambda>a. a_id a = id') QueryError ''Error loading asset''"

definition update_blockchain_id :: "asset \<Rightarrow> string \<Rightarrow> asset dbop" where
  "update_blockchain_id self chain_id =
     bindo (gets now) (\<lambda>n.
       update_checked db_assets (\<lambda>rs s. s\<lparr>db_assets := rs\<rparr>) asset_violation
         (\<lambda>a. a_id a = a_id self)
         (\<lambda>a. a\<lparr>a_blockchain_asset_id := Some chain_id, a_updated_at := n\<rparr>)
         UpdateError ''Could not update asset blockchain id'')"

section \<open>Domain events\<close>

record new_domain_event =
  nde_event_type :: domain_event_types
  nde_display_text :: string
  nde_event_data :: "json option"
  nde_main_table :: tables
  nde_main_id :: "uuid option"
  nde_user_id :: "uuid option"

definition domain_event_create ::
  "domain_event_types \<Rightarrow> string \<Rightarrow> tables \<Rightarrow> uuid option \<Rightarrow> uuid option \<Rightarrow> json option \<Rightarrow> new_domain_event"
where
  "domain_event_create event_type display_text main_table main_id user_id event_data =
     \<lparr>nde_event_type = event_type, nde_display_text = display_text, nde_event_data = event_data,
      nde_main_table = main_table, nde_main_id = main_id, nde_user_id = user_id\<rparr>"

definition domain_event_commit :: "new_domain_event \<Rightarrow> domain_event dbop" where
  "domain_event_commit self =
     bindo draw_uuid (\<lambda>id'.
     bindo (gets now) (\<lambda>n.
       insert_row db_domain_events (\<lambda>rs s. s\<lparr>db_domain_events := rs\<rparr>)
         \<lparr>de_id = id', de_event_type = nde_event_type self, de_display_text = nde_display_text self,
          de_event_data = nde_event_data self, de_main_table = nde_main_table self,
          de_main_id = nde_main_id self, de_published_at = None, de_created_at = n,
          de_updated_at = n, de_user_id = nde_user_id self\<rparr>))"

text \<open>\<open>main_id = NULL\<close> holds of no row.\<close>

definition domain_event_find ::
  "tables \<Rightarrow> uuid option \<Rightarrow> domain_event_types option \<Rightarrow> domain_event list dbop" where
  "domain_event_find main_table main_id event_type = gets (\<lambda>s.
     sort_key de_created_at (filter (\<lambda>e. de_main_table e = main_table \<and>
       main_id \<noteq> None \<and> de_main_id e = main_id \<and>
       (case event_type of None \<Rightarrow> True | Some ty \<Rightarrow> de_event_type e = ty)) (db_domain_events s)))"

definition domain_event_find_unpublished :: "u32 \<Rightarrow> domain_event list dbop" where
  "domain_event_find_unpublished limit = gets (\<lambda>s.
     take (unat limit) (sort_key de_created_at
       (filter (\<lambda>e. de_published_at e = None) (db_domain_events s))))"

definition mark_as_published :: "domain_event \<Rightarrow> domain_event dbop" where
  "mark_as_published self =
     bindo (gets now) (\<lambda>n.
       update_first db_domain_events (\<lambda>rs s. s\<lparr>db_domain_events := rs\<rparr>) (\<lambda>e. de_id e = de_id self)
         (\<lambda>e. e\<lparr>de_published_at := Some n\<rparr>) UpdateError ''Could not mark domain event as published'')"

lemma domain_event_commit_run:
  "\<exists>e. domain_event_commit d s = (Inr e, s\<lparr>db_domain_events := db_domain_events s @ [e],
       uuids_drawn := Suc (uuids_drawn s)\<rparr>) \<and>
     de_event_type e = nde_event_type d \<and> de_main_table e = nde_main_table d \<and>
     de_main_id e = nde_main_id d \<and> de_published_at e = None"
  by (simp add: domain_event_commit_def op_simps)

text \<open>Publishing one after the other the unpublished events a worker fetched.\<close>

fun publish_all :: "domain_event list \<Rightarrow> unit dbop" where
  "publish_all [] = ret ()"
| "publish_all (e # es) = bindo (mark_as_published e) (\<lambda>_. publish_all es)"

end
