(* ===== verification/Pricing.thy ===== *)
theory Pricing imports Tickets Domain_Events begin

text \<open>
  Ticket types and their prices (\<open>db/src/models/ticket_types.rs\<close>, \<open>ticket_pricing.rs\<close>, the
  validators they use, and the SQL function behind the overlap check). The last sections show what
  the overlap check decides, that a validated ticket type always has a determined price, and that
  a ticket type keeps exactly one default price.
\<close>

section \<open>Validators\<close>

text \<open>The parameters that the validators attach to an error, for display only, are left out.\<close>

definition start_date_valid :: "timestamp \<Rightarrow> timestamp \<Rightarrow> validation_error + unit" where
  "start_date_valid start_date end_date =
     (if start_date \<ge> end_date
      then Inl (create_validation_error ''start_date_must_be_before_end_date''
             ''Start date must be before end date'')
      else Inr ())"

definition n_date_valid ::
  "timestamp option \<Rightarrow> timestamp option \<Rightarrow> string \<Rightarrow> string \<Rightarrow> validation_error + unit" where
  "n_date_valid before_date after_date code message =
     (case (before_date, after_date) of
        (Some b, Some a) \<Rightarrow> if b \<ge> a then Inl (create_validation_error code message) else Inr ()
      | _ \<Rightarrow> Inr ())"

definition validate_greater_than :: "int \<Rightarrow> int \<Rightarrow> string \<Rightarrow> string \<Rightarrow> validation_error + unit" where
  "validate_greater_than a b code msg =
     (if a < b then Inl (create_validation_error code msg) else Inr ())"

lemma validators_Inr_iff [simp]:
  "start_date_valid a b = Inr u \<longleftrightarrow> a < b"
  "validate_greater_than x y c m = Inr u \<longleftrightarrow> y \<le> x"
  by (auto simp: start_date_valid_def validate_greater_than_def)

section \<open>Ticket pricing\<close>

record ticket_pricing_attributes =
  tpa_name :: "string option"
  tpa_price_in_cents :: "int option"
  tpa_start_date :: "timestamp option"
  tpa_end_date :: "timestamp option"
  tpa_is_box_office_only :: "bool option"

record new_ticket_pricing =
  ntp_ticket_type_id :: uuid
  ntp_name :: string
  ntp_status :: ticket_pricing_status
  ntp_price_in_cents :: int
  ntp_is_box_office_only :: bool
  ntp_start_date :: timestamp
  ntp_end_date :: timestamp

definition ticket_pricing_create ::
  "uuid \<Rightarrow> string \<Rightarrow> timestamp \<Rightarrow> timestamp \<Rightarrow> int \<Rightarrow> bool \<Rightarrow> ticket_pricing_status option \<Rightarrow>
   new_ticket_pricing"
where
  "ticket_pricing_create ticket_type_id name start_date end_date price_in_cents box_office status =
     \<lparr>ntp_ticket_type_id = ticket_type_id, ntp_name = name,
      ntp_status = unwrap_or status ticket_pricing_status.Published,
      ntp_price_in_cents = price_in_cents, ntp_is_box_office_only = box_office,
      ntp_start_date = start_date, ntp_end_date = end_date\<rparr>"

definition pricing_validate_record ::
  "ticket_pricing \<Rightarrow> ticket_pricing_attributes \<Rightarrow> unit dbop" where
  "pricing_validate_record self attributes =
     check_validation (append_validation_error (Inr ()) ''ticket_pricing.start_date''
       (start_date_valid (unwrap_or (tpa_start_date attributes) (tp_start_date self))
          (unwrap_or (tpa_end_date attributes) (tp_end_date self))))"

text \<open>The row's check on its dates.\<close>

definition pricing_violation :: "db \<Rightarrow> ticket_pricing \<Rightarrow> db_error_kind option" where
  "pricing_violation s p =
     (if \<not> tp_start_date p < tp_end_date p then Some OtherViolation
      else if \<not> list_ex (\<lambda>t. tt_id t = tp_ticket_type_id p) (db_ticket_types s)
      then Some ForeignKeyViolation else None)"

definition pricing_update ::
  "ticket_pricing \<Rightarrow> ticket_pricing_attributes \<Rightarrow> ticket_pricing dbop" where
  "pricing_update self attributes =
     bindo (pricing_validate_record self attributes) (\<lambda>_.
     bindo (gets now) (\<lambda>n.
       update_checked db_ticket_pricing (\<lambda>rs s. s\<lparr>db_ticket_pricing := rs\<rparr>) pricing_violation
         (\<lambda>p. tp_id p = tp_id self)
         (\<lambda>p. p\<lparr>tp_name := unwrap_or (tpa_name attributes) (tp_name p),
            tp_price_in_cents := unwrap_or (tpa_price_in_cents attributes) (tp_price_in_cents p),
            tp_start_date := unwrap_or (tpa_start_date attributes) (tp_start_date p),
            tp_end_date := unwrap_or (tpa_end_date attributes) (tp_end_date p),
            tp_is_box_office_only := unwrap_or (tpa_is_box_office_only attributes) (tp_is_box_office_only p),
            tp_updated_at := n\<rparr>)
         UpdateError ''Could not update ticket_pricing''))"

definition not_before_ticket_type :: "ticket_type \<Rightarrow> timestamp \<Rightarrow> validation_error + unit" where
  "not_before_ticket_type ticket_type start_date =
     (if tt_start_date ticket_type > start_date
      then Inl (create_validation_error ''ticket_pricing_overlapping_ticket_type_start_date''
             ''Ticket pricing dates overlap ticket type start date'')
      else Inr ())"

definition not_after_ticket_type :: "ticket_type \<Rightarrow> timestamp \<Rightarrow> validation_error + unit" where
  "not_after_ticket_type ticket_type end_date =
     (if tt_end_date ticket_type < end_date
      then Inl (create_validation_error ''ticket_pricing_overlapping_ticket_type_end_date''
             ''Ticket pricing dates overlap ticket type end date'')
      else Inr ())"

text \<open>The SQL function \<open>ticket_pricing_no_overlapping_periods\<close>.\<close>

definition no_overlapping_periods_sql ::
  "db \<Rightarrow> uuid \<Rightarrow> uuid \<Rightarrow> timestamp \<Rightarrow> timestamp \<Rightarrow> bool \<Rightarrow> bool \<Rightarrow> bool" where
  "no_overlapping_periods_sql s id' ticket_type_id start_date end_date box_office is_default \<longleftrightarrow>
     box_office \<or> is_default \<or>
     \<not> list_ex (\<lambda>p. tp_id p \<noteq> id' \<and> tp_is_box_office_only p = False \<and>
            tp_status p = ticket_pricing_status.Published \<and> tp_ticket_type_id p = ticket_type_id \<and>
            ((tp_start_date p \<le> start_date \<and> tp_end_date p > start_date) \<or>
             (tp_start_date p < end_date \<and> tp_end_date p \<ge> end_date) \<or>
             (tp_start_date p \<ge> start_date \<and> tp_end_date p \<le> end_date)))
        (db_ticket_pricing s)"

definition ticket_pricing_no_overlapping_periods ::
  "uuid \<Rightarrow> uuid \<Rightarrow> timestamp \<Rightarrow> timestamp \<Rightarrow> bool \<Rightarrow> ticket_pricing_status \<Rightarrow>
   (validation_error + unit) dbop"
where
  "ticket_pricing_no_overlapping_periods id' ticket_type_id start_date end_date box_office status =
     gets (\<lambda>s.
       if \<not> no_overlapping_periods_sql s id' ticket_type_id start_date end_date box_office
            (status = ticket_pricing_status.Default)
       then Inl (create_validation_error ''ticket_pricing_overlapping_periods''
              ''Ticket pricing dates overlap another ticket pricing period'')
       else Inr ())"

definition pricing_destroy :: "ticket_pricing \<Rightarrow> nat dbop" where
  "pricing_destroy self =
     bindo (gets (\<lambda>s. length (filter (\<lambda>oi. oi_ticket_pricing_id oi = Some (tp_id self)) (db_order_items s))))
       (\<lambda>affected_order_count.
          if affected_order_count = 0
          then delete_where db_ticket_pricing (\<lambda>rs s. s\<lparr>db_ticket_pricing := rs\<rparr>)
                 (\<lambda>p. tp_id p = tp_id self)
          else bindo (gets now) (\<lambda>n.
               bindo (update_rows db_ticket_pricing (\<lambda>rs s. s\<lparr>db_ticket_pricing := rs\<rparr>)
                 (\<lambda>p. tp_id p = tp_id self)
                 (\<lambda>p. p\<lparr>tp_status := ticket_pricing_status.Deleted, tp_updated_at := n\<rparr>)) (\<lambda>_. ret 0)))"

definition pricing_get_default :: "uuid \<Rightarrow> ticket_pricing dbop" where
  "pricing_get_default ticket_type_id =
     first_where db_ticket_pricing
       (\<lambda>p. tp_ticket_type_id p = ticket_type_id \<and> tp_status p = ticket_pricing_status.Default)
       QueryError ''Error loading default pricing''"

definition pricing_find :: "uuid \<Rightarrow> ticket_pricing dbop" where
  "pricing_find id' =
     first_where db_ticket_pricing (\<lambda>p. tp_id p = id') QueryError ''Error loading ticket pricing''"

text \<open>The price points of one status that apply now. For the box office its own price comes first
  and only one row is taken.\<close>

definition current_price_points :: "db \<Rightarrow> uuid \<Rightarrow> bool \<Rightarrow> ticket_pricing_status \<Rightarrow> ticket_pricing list" where
  "current_price_points s ticket_type_id box_office_pricing status =
     (let rows = filter (\<lambda>p. tp_ticket_type_id p = ticket_type_id \<and> tp_status p = status \<and>
            tp_start_date p \<le> now s \<and> tp_end_date p > now s) (db_ticket_pricing s)
      in if box_office_pricing
         then take 1 (sort_key (\<lambda>p. if tp_is_box_office_only p then 0 else (1::nat)) rows)
         else filter (\<lambda>p. tp_is_box_office_only p = False) rows)"

function get_current_ticket_pricing :: "uuid \<Rightarrow> bool \<Rightarrow> bool \<Rightarrow> ticket_pricing dbop" where
  "get_current_ticket_pricing ticket_type_id box_office_pricing get_default_pricing =
     bindo (gets (\<lambda>s. current_price_points s ticket_type_id box_office_pricing
         (if get_default_pricing then ticket_pricing_status.Default else ticket_pricing_status.Published)))
       (\<lambda>price_points.
          if length price_points > 1
          then fail (database_error_new MultipleResultsWhenOneExpected
                 (Some (Text ''Expected a single ticket pricing period but multiple were found'')))
          else if length price_points = 0
          then (if get_default_pricing = False \<and> box_office_pricing = False
                then get_current_ticket_pricing ticket_type_id box_office_pricing True
                else fail (database_error_new NoResults (Some (Text ''No ticket pricing found''))))
          else (case rev price_points of
                  p # _ \<Rightarrow> ret p
                | [] \<Rightarrow> fail (database_error_new NoResults (Some (Text ''No ticket pricing found'')))))"
  by pat_completeness auto
termination
  by (relation "measure (\<lambda>(tt, b, d). if d then 0 else 1)") auto

declare get_current_ticket_pricing.simps [simp del]

definition new_pricing_validate_record :: "new_ticket_pricing \<Rightarrow> unit dbop" where
  "new_pricing_validate_record self =
     (let validation_errors = append_validation_error (Inr ()) ''ticket_pricing.start_date''
            (start_date_valid (ntp_start_date self) (ntp_end_date self));
          validation_errors = append_validation_error validation_errors ''ticket_pricing.price_in_cents''
            (validate_greater_than (ntp_price_in_cents self) 0 ''number_must_be_positive''
               ''Ticket price must be positive'')
      in check_validation validation_errors)"

definition pricing_commit :: "new_ticket_pricing \<Rightarrow> ticket_pricing dbop" where
  "pricing_commit self =
     bindo (new_pricing_validate_record self) (\<lambda>_.
     bindo draw_uuid (\<lambda>id'.
     bindo (gets now) (\<lambda>n.
       insert_checked db_ticket_pricing (\<lambda>rs s. s\<lparr>db_ticket_pricing := rs\<rparr>) pricing_violation
         \<lparr>tp_id = id', tp_ticket_type_id = ntp_ticket_type_id self, tp_name = ntp_name self,
          tp_status = ntp_status self, tp_price_in_cents = ntp_price_in_cents self,
          tp_start_date = ntp_start_date self, tp_end_date = ntp_end_date self,
          tp_is_box_office_only = ntp_is_box_office_only self, tp_created_at = n, tp_updated_at = n\<rparr>
         InsertError ''Could not create ticket pricing'')))"

section \<open>Ticket types\<close>

record ticket_type_attributes =
  tta_name :: "string option"
  tta_description :: "string option option"
  tta_start_date :: "timestamp option"
  tta_end_date :: "timestamp option"
  tta_increment :: "int option"
  tta_limit_per_person :: "int option"
  tta_price_in_cents :: "int option"

record new_ticket_type =
  ntt_event_id :: uuid
  ntt_name :: string
  ntt_description :: "string option"
  ntt_status :: ticket_type_status
  ntt_start_date :: timestamp
  ntt_end_date :: timestamp
  ntt_increment :: "int option"
  ntt_limit_per_person :: int
  ntt_price_in_cents :: int

definition ticket_type_fee_schedule :: "ticket_type \<Rightarrow> fee_schedule dbop" where
  "ticket_type_fee_schedule self = (\<lambda>s.
     (wrap QueryError ''Could not retrieve fee schedule for ticket type''
        (case [fs. t \<leftarrow> db_ticket_types s, e \<leftarrow> db_events s, g \<leftarrow> db_organizations s,
                   fs \<leftarrow> db_fee_schedules s,
                   tt_id t = tt_id self \<and> e_id e = tt_event_id t \<and> org_id g = e_organization_id e \<and>
                   fs_id fs = org_fee_schedule_id g] of
           fs # _ \<Rightarrow> Inr fs
         | [] \<Rightarrow> Inl NotFound), s))"

definition ticket_type_create ::
  "uuid \<Rightarrow> string \<Rightarrow> string option \<Rightarrow> timestamp \<Rightarrow> timestamp \<Rightarrow> int option \<Rightarrow> int \<Rightarrow> int \<Rightarrow> new_ticket_type"
where
  "ticket_type_create event_id name description start_date end_date increment limit_per_person
     price_in_cents =
     \<lparr>ntt_event_id = event_id, ntt_name = name, ntt_description = description,
      ntt_status = ticket_type_status.Published, ntt_start_date = start_date,
      ntt_end_date = end_date, ntt_increment = increment,
      ntt_limit_per_person = limit_per_person, ntt_price_in_cents = price_in_cents\<rparr>"

text \<open>The schema's check, unique index and reference.\<close>

definition ticket_type_violation :: "db \<Rightarrow> ticket_type \<Rightarrow> db_error_kind option" where
  "ticket_type_violation s t =
     (if \<not> tt_start_date t < tt_end_date t then Some OtherViolation
      else if list_ex (\<lambda>u. tt_id u \<noteq> tt_id t \<and> tt_event_id u = tt_event_id t \<and> tt_name u = tt_name t)
        (db_ticket_types s) then Some UniqueViolation
      else if \<not> list_ex (\<lambda>e. e_id e = tt_event_id t) (db_events s)
      then Some ForeignKeyViolation else None)"

definition ticket_type_validate_record :: "ticket_type \<Rightarrow> ticket_type_attributes \<Rightarrow> unit dbop" where
  "ticket_type_validate_record self attributes =
     check_validation (append_validation_error (Inr ()) ''start_date''
       (start_date_valid (unwrap_or (tta_start_date attributes) (tt_start_date self))
          (unwrap_or (tta_end_date attributes) (tt_end_date self))))"

definition add_ticket_pricing ::
  "ticket_type \<Rightarrow> string \<Rightarrow> timestamp \<Rightarrow> timestamp \<Rightarrow> int \<Rightarrow> bool \<Rightarrow> ticket_pricing_status option \<Rightarrow>
   ticket_pricing dbop"
where
  "add_ticket_pricing self name start_date end_date price_in_cents box_office status =
     pricing_commit (ticket_pricing_create (tt_id self) name start_date end_date price_in_cents
       box_office status)"

text \<open>The second half of \<open>update\<close>: the old default price goes, a new one comes.\<close>

definition renew_default_pricing :: "ticket_type \<Rightarrow> ticket_type \<Rightarrow> ticket_pricing dbop" where
  "renew_default_pricing self result =
     bindo (attempt (pricing_get_default (tt_id self))) (\<lambda>pricing.
     bindo (case pricing of
              Inr tp \<Rightarrow> bindo (pricing_destroy tp) (\<lambda>_. ret ())
            | Inl e \<Rightarrow> ret ()) (\<lambda>_.
     add_ticket_pricing self (tt_name result) (tt_start_date result) (tt_end_date result)
       (tt_price_in_cents result) False (Some ticket_pricing_status.Default)))"

definition ticket_type_update :: "ticket_type \<Rightarrow> ticket_type_attributes \<Rightarrow> ticket_type dbop" where
  "ticket_type_update self attributes =
     bindo (ticket_type_validate_record self attributes) (\<lambda>_.
     bindo (gets now) (\<lambda>n.
     bindo (update_checked db_ticket_types (\<lambda>rs s. s\<lparr>db_ticket_types := rs\<rparr>) ticket_type_violation
       (\<lambda>t. tt_id t = tt_id self)
       (\<lambda>t. t\<lparr>tt_name := unwrap_or (tta_name attributes) (tt_name t),
          tt_description := unwrap_or (tta_description attributes) (tt_description t),
          tt_start_date := unwrap_or (tta_start_date attributes) (tt_start_date t),
          tt_end_date := unwrap_or (tta_end_date attributes) (tt_end_date t),
          tt_increment := unwrap_or (tta_increment attributes) (tt_increment t),
          tt_limit_per_person := unwrap_or (tta_limit_per_person attributes) (tt_limit_per_person t),
          tt_price_in_cents := unwrap_or (tta_price_in_cents attributes) (tt_price_in_cents t),
          tt_updated_at := n\<rparr>)
       UpdateError ''Could not update ticket_types'') (\<lambda>result.
     bindo (renew_default_pricing self result) (\<lambda>_.
     ret result))))"

definition ticket_type_cancel :: "ticket_type \<Rightarrow> ticket_type dbop" where
  "ticket_type_cancel self =
     bindo (gets now) (\<lambda>n.
       update_first db_ticket_types (\<lambda>rs s. s\<lparr>db_ticket_types := rs\<rparr>) (\<lambda>t. tt_id t = tt_id self)
         (\<lambda>t. t\<lparr>tt_status := ticket_type_status.Cancelled, tt_cancelled_at := Some n,
            tt_updated_at := n\<rparr>)
         UpdateError ''Could not update ticket_types'')"

definition ticket_type_find_for_code :: "uuid \<Rightarrow> ticket_type list dbop" where
  "ticket_type_find_for_code code_id = gets (\<lambda>s.
     [t. t \<leftarrow> db_ticket_types s, c \<leftarrow> db_ticket_type_codes s,
         ttc_ticket_type_id c = tt_id t \<and> ttc_code_id c = code_id])"

definition ticket_type_find :: "uuid \<Rightarrow> ticket_type dbop" where
  "ticket_type_find id' =
     first_where db_ticket_types (\<lambda>t. tt_id t = id') QueryError ''Could not find ticket type''"

definition published_ticket_pricing :: "ticket_type \<Rightarrow> ticket_pricing list dbop" where
  "published_ticket_pricing self = gets (\<lambda>s.
     sort_key (\<lambda>p. collate s (tp_name p))
       (filter (\<lambda>p. tp_ticket_type_id p = tt_id self \<and> tp_status p = ticket_pricing_status.Published)
          (db_ticket_pricing s)))"

definition check_ticket_pricing ::
  "ticket_type \<Rightarrow> ticket_pricing \<Rightarrow> validation_errors + unit \<Rightarrow> (validation_errors + unit) dbop" where
  "check_ticket_pricing self p validation_errors =
     bindo (ticket_pricing_no_overlapping_periods (tp_id p) (tt_id self) (tp_start_date p)
       (tp_end_date p) (tp_is_box_office_only p) (tp_status p)) (\<lambda>overlap.
     ret (append_validation_error (append_validation_error
       (append_validation_error validation_errors ''ticket_pricing'' overlap)
       ''ticket_pricing.start_date'' (not_before_ticket_type self (tp_start_date p)))
       ''ticket_pricing.end_date'' (not_after_ticket_type self (tp_end_date p))))"

definition validate_ticket_pricing :: "ticket_type \<Rightarrow> unit dbop" where
  "validate_ticket_pricing self =
     bindo (published_ticket_pricing self) (\<lambda>pricings.
     bindo (fold_op (check_ticket_pricing self) pricings (Inr ())) check_validation)"

definition ticket_type_find_by_event_id :: "uuid \<Rightarrow> ticket_type list dbop" where
  "ticket_type_find_by_event_id event_id = gets (\<lambda>s.
     sort_key (\<lambda>t. collate s (tt_name t)) (filter (\<lambda>t. tt_event_id t = event_id) (db_ticket_types s)))"

definition count_tickets :: "(db \<Rightarrow> ticket_instance \<Rightarrow> bool) \<Rightarrow> uuid \<Rightarrow> u32 dbop" where
  "count_tickets P ticket_type_id = gets (\<lambda>s.
     as_u32 (int (length (filter (\<lambda>t. of_ticket_type s ticket_type_id t \<and> P s t)
       (db_ticket_instances s)))))"

definition ticket_count :: "ticket_type \<Rightarrow> u32 dbop" where
  "ticket_count self = count_tickets (\<lambda>_ _. True) (tt_id self)"

definition remaining_ticket_count :: "ticket_type \<Rightarrow> u32 dbop" where
  "remaining_ticket_count self =
     count_tickets (\<lambda>s t. before (ti_reserved_until t) (now s) \<or> ti_reserved_until t = None) (tt_id self)"

definition valid_ticket_count :: "ticket_type \<Rightarrow> u32 dbop" where
  "valid_ticket_count self =
     count_tickets (\<lambda>_ t. ti_status t \<noteq> ticket_instance_status.Nullified) (tt_id self)"

definition current_ticket_pricing :: "ticket_type \<Rightarrow> bool \<Rightarrow> ticket_pricing dbop" where
  "current_ticket_pricing self box_office_pricing =
     get_current_ticket_pricing (tt_id self) box_office_pricing False"

definition is_event_not_draft :: "uuid \<Rightarrow> bool dbop" where
  "is_event_not_draft ticket_type_id = gets (\<lambda>s.
     let valid_ticket_count = length [t. t \<leftarrow> db_ticket_types s, e \<leftarrow> db_events s,
           e_id e = tt_event_id t \<and> tt_id t = ticket_type_id \<and> e_status e \<noteq> event_status.Draft]
     in if int valid_ticket_count \<le> 0 then False else True)"

definition valid_ticket_pricing :: "ticket_type \<Rightarrow> bool \<Rightarrow> ticket_pricing list dbop" where
  "valid_ticket_pricing self include_default = gets (\<lambda>s.
     sort_key (\<lambda>p. collate s (tp_name p))
       (filter (\<lambda>p. tp_ticket_type_id p = tt_id self \<and> tp_status p \<noteq> ticket_pricing_status.Deleted \<and>
          (\<not> include_default \<longrightarrow> tp_status p \<noteq> ticket_pricing_status.Default)) (db_ticket_pricing s)))"

definition ticket_capacity :: "ticket_type \<Rightarrow> u32 dbop" where
  "ticket_capacity self = count_tickets (\<lambda>_ _. True) (tt_id self)"

definition new_ticket_type_validate_record :: "new_ticket_type \<Rightarrow> unit dbop" where
  "new_ticket_type_validate_record self =
     check_validation (append_validation_error (Inr ()) ''start_date''
       (start_date_valid (ntt_start_date self) (ntt_end_date self)))"

definition ticket_type_commit :: "new_ticket_type \<Rightarrow> ticket_type dbop" where
  "ticket_type_commit self =
     bindo (new_ticket_type_validate_record self) (\<lambda>_.
     bindo draw_uuid (\<lambda>id'.
     bindo (gets now) (\<lambda>n.
     bindo (insert_checked db_ticket_types (\<lambda>rs s. s\<lparr>db_ticket_types := rs\<rparr>) ticket_type_violation
         \<lparr>tt_id = id', tt_event_id = ntt_event_id self, tt_name = ntt_name self,
          tt_description = ntt_description self, tt_status = ntt_status self,
          tt_start_date = ntt_start_date self, tt_end_date = ntt_end_date self,
          tt_increment = unwrap_or (ntt_increment self) 1,
          tt_limit_per_person = ntt_limit_per_person self, tt_created_at = n, tt_updated_at = n,
          tt_price_in_cents = ntt_price_in_cents self, tt_cancelled_at = None\<rparr>
         InsertError ''Could not create ticket type'') (\<lambda>result.
     bindo (add_ticket_pricing result ''Default Pricing'' (tt_start_date result) (tt_end_date result)
       (tt_price_in_cents result) False (Some ticket_pricing_status.Default)) (\<lambda>_.
     ret result)))))"

section \<open>What the overlap check decides\<close>

text \<open>The price point \<open>p\<close> applies at time \<open>x\<close>; a price period is half open.\<close>

definition applies_at :: "timestamp \<Rightarrow> ticket_pricing \<Rightarrow> bool" where
  "applies_at x p \<longleftrightarrow> tp_start_date p \<le> x \<and> x < tp_end_date p"

abbreviation regular_price :: "uuid \<Rightarrow> ticket_pricing_status \<Rightarrow> ticket_pricing \<Rightarrow> bool" where
  "regular_price tt st p \<equiv>
     tp_ticket_type_id p = tt \<and> tp_status p = st \<and> tp_is_box_office_only p = False"

abbreviation periods_proper :: "db \<Rightarrow> bool" where
  "periods_proper s \<equiv> \<forall>p \<in> set (db_ticket_pricing s). tp_start_date p < tp_end_date p"

text \<open>The three cases of the SQL condition are together the intersection of two proper periods.\<close>

lemma overlap_cases:
  fixes a b c d :: int
  assumes "a < b" and "c < d"
  shows "(c \<le> a \<and> d > a) \<or> (c < b \<and> d \<ge> b) \<or> (c \<ge> a \<and> d \<le> b) \<longleftrightarrow> (\<exists>x. a \<le> x \<and> x < b \<and> c \<le> x \<and> x < d)"
proof
  assume "(c \<le> a \<and> d > a) \<or> (c < b \<and> d \<ge> b) \<or> (c \<ge> a \<and> d \<le> b)"
  with assms have "a \<le> max a c \<and> max a c < b \<and> c \<le> max a c \<and> max a c < d" by auto
  then show "\<exists>x. a \<le> x \<and> x < b \<and> c \<le> x \<and> x < d" by blast
next
  assume "\<exists>x. a \<le> x \<and> x < b \<and> c \<le> x \<and> x < d"
  with assms show "(c \<le> a \<and> d > a) \<or> (c < b \<and> d \<ge> b) \<or> (c \<ge> a \<and> d \<le> b)" by auto
qed

lemma overlap_check_iff:
  assumes "a < b" and "periods_proper s"
  shows "no_overlapping_periods_sql s i tt a b box dflt \<longleftrightarrow> box \<or> dflt \<or>
    \<not> (\<exists>p x. p \<in> set (db_ticket_pricing s) \<and> tp_id p \<noteq> i \<and>
      regular_price tt ticket_pricing_status.Published p \<and> applies_at x p \<and> a \<le> x \<and> x < b)"
proof -
  have "(tp_start_date p \<le> a \<and> tp_end_date p > a) \<or> (tp_start_date p < b \<and> tp_end_date p \<ge> b) \<or>
      (tp_start_date p \<ge> a \<and> tp_end_date p \<le> b) \<longleftrightarrow> (\<exists>x. applies_at x p \<and> a \<le> x \<and> x < b)"
    if "p \<in> set (db_ticket_pricing s)" for p
    unfolding applies_at_def using overlap_cases [of a b "tp_start_date p" "tp_end_date p"] assms that
    by blast
  then show ?thesis
    unfolding no_overlapping_periods_sql_def list_ex_iff by blast
qed

text \<open>A price of a ticket type as it should be: inside the type's dates and, unless it is for the
  box office, apart from the other regular prices.\<close>

definition price_in_order :: "db \<Rightarrow> ticket_type \<Rightarrow> ticket_pricing \<Rightarrow> bool" where
  "price_in_order s self p \<longleftrightarrow>
     tt_start_date self \<le> tp_start_date p \<and> tp_end_date p \<le> tt_end_date self \<and>
     no_overlapping_periods_sql s (tp_id p) (tt_id self) (tp_start_date p) (tp_end_date p)
       (tp_is_box_office_only p) (tp_status p = ticket_pricing_status.Default)"

lemma check_ticket_pricing_run:
  "\<exists>r. check_ticket_pricing self p v s = (Inr r, s) \<and>
     (r = Inr () \<longleftrightarrow> v = Inr () \<and> price_in_order s self p)"
  by (auto simp: check_ticket_pricing_def ticket_pricing_no_overlapping_periods_def bindo_run ret_run
      price_in_order_def not_before_ticket_type_def not_after_ticket_type_def
      append_validation_error_Inr_iff split: if_splits)

lemma check_all_pricing_run:
  "\<exists>r. fold_op (check_ticket_pricing self) ps v s = (Inr r, s) \<and>
     (r = Inr () \<longleftrightarrow> v = Inr () \<and> (\<forall>p \<in> set ps. price_in_order s self p))"
proof (induction ps arbitrary: v)
  case Nil
  show ?case by (simp add: ret_run)
next
  case (Cons p ps)
  obtain w where "check_ticket_pricing self p v s = (Inr w, s)"
    "w = Inr () \<longleftrightarrow> v = Inr () \<and> price_in_order s self p"
    using check_ticket_pricing_run by blast
  moreover obtain r where "fold_op (check_ticket_pricing self) ps w s = (Inr r, s)"
    "r = Inr () \<longleftrightarrow> w = Inr () \<and> (\<forall>p \<in> set ps. price_in_order s self p)"
    using Cons.IH by blast
  ultimately show ?case by (auto simp: bindo_run)
qed

lemma validate_ticket_pricing_run:
  "snd (validate_ticket_pricing self s) = s \<and>
   (fst (validate_ticket_pricing self s) = Inr () \<longleftrightarrow>
     (\<forall>p \<in> set (db_ticket_pricing s). tp_ticket_type_id p = tt_id self \<and>
        tp_status p = ticket_pricing_status.Published \<longrightarrow> price_in_order s self p))"
proof -
  let ?ps = "sort_key (\<lambda>p. collate s (tp_name p)) (filter (\<lambda>p. tp_ticket_type_id p = tt_id self \<and>
    tp_status p = ticket_pricing_status.Published) (db_ticket_pricing s))"
  obtain r where "fold_op (check_ticket_pricing self) ?ps (Inr ()) s = (Inr r, s)"
    "r = Inr () \<longleftrightarrow> (\<forall>p \<in> set ?ps. price_in_order s self p)"
    using check_all_pricing_run [of self ?ps "Inr ()" s] by blast
  then show ?thesis
    by (cases r) (auto simp: validate_ticket_pricing_def published_ticket_pricing_def bindo_run
        check_validation_run)
qed

text \<open>C7: where every price ends after it starts, validating the prices of a ticket type succeeds exactly when every
  published price of it, for the box office or not, lies within the type's dates and no two published
  regular prices ever apply at the same moment; it changes nothing.\<close>

theorem validate_ticket_pricing_decides:
  assumes "periods_proper s"
  shows "snd (validate_ticket_pricing self s) = s \<and>
   (fst (validate_ticket_pricing self s) = Inr () \<longleftrightarrow>
     (\<forall>p \<in> set (db_ticket_pricing s).
        tp_ticket_type_id p = tt_id self \<and> tp_status p = ticket_pricing_status.Published \<longrightarrow>
        tt_start_date self \<le> tp_start_date p \<and> tp_end_date p \<le> tt_end_date self) \<and>
     (\<forall>p \<in> set (db_ticket_pricing s). \<forall>q \<in> set (db_ticket_pricing s). \<forall>x.
        regular_price (tt_id self) ticket_pricing_status.Published p \<and>
        regular_price (tt_id self) ticket_pricing_status.Published q \<and>
        applies_at x p \<and> applies_at x q \<longrightarrow> tp_id p = tp_id q))"
proof -
  let ?R = "set (db_ticket_pricing s)"
  let ?apart = "\<lambda>p. \<forall>q \<in> ?R. \<forall>x. regular_price (tt_id self) ticket_pricing_status.Published q \<and>
    applies_at x p \<and> applies_at x q \<longrightarrow> tp_id p = tp_id q"
  have order: "price_in_order s self p \<longleftrightarrow> tt_start_date self \<le> tp_start_date p \<and>
      tp_end_date p \<le> tt_end_date self \<and> (tp_is_box_office_only p \<or> ?apart p)"
    if "p \<in> ?R" "tp_status p = ticket_pricing_status.Published" for p
    using overlap_check_iff [of "tp_start_date p" "tp_end_date p" s] assms that
    by (auto simp: price_in_order_def applies_at_def)
  have "(\<forall>p \<in> ?R. tp_ticket_type_id p = tt_id self \<and> tp_status p = ticket_pricing_status.Published \<longrightarrow>
      price_in_order s self p) \<longleftrightarrow>
    (\<forall>p \<in> ?R. tp_ticket_type_id p = tt_id self \<and> tp_status p = ticket_pricing_status.Published \<longrightarrow>
        tt_start_date self \<le> tp_start_date p \<and> tp_end_date p \<le> tt_end_date self) \<and>
    (\<forall>p \<in> ?R. regular_price (tt_id self) ticket_pricing_status.Published p \<longrightarrow> ?apart p)"
    using order by blast
  also have "(\<forall>p \<in> ?R. regular_price (tt_id self) ticket_pricing_status.Published p \<longrightarrow> ?apart p) \<longleftrightarrow>
    (\<forall>p \<in> ?R. \<forall>q \<in> ?R. \<forall>x. regular_price (tt_id self) ticket_pricing_status.Published p \<and>
        regular_price (tt_id self) ticket_pricing_status.Published q \<and>
        applies_at x p \<and> applies_at x q \<longrightarrow> tp_id p = tp_id q)"
    by blast
  finally show ?thesis using validate_ticket_pricing_run [of self s] by (simp only: simp_thms)
qed

section \<open>The current price\<close>

lemma current_price_points_regular:
  "current_price_points s tt False st =
     filter (\<lambda>p. regular_price tt st p \<and> applies_at (now s) p) (db_ticket_pricing s)"
  by (auto simp: current_price_points_def applies_at_def Let_def intro!: filter_cong)

abbreviation no_price :: db_error where
  "no_price \<equiv> database_error_new NoResults (Some (Text ''No ticket pricing found''))"

abbreviation many_prices :: db_error where
  "many_prices \<equiv> database_error_new MultipleResultsWhenOneExpected
     (Some (Text ''Expected a single ticket pricing period but multiple were found''))"

lemma get_current_run:
  "get_current_ticket_pricing tt box True s =
     (case current_price_points s tt box ticket_pricing_status.Default of
        [] \<Rightarrow> (Inl no_price, s) | [p] \<Rightarrow> (Inr p, s) | _ \<Rightarrow> (Inl many_prices, s))"
  "get_current_ticket_pricing tt box False s =
     (case current_price_points s tt box ticket_pricing_status.Published of
        [] \<Rightarrow> if box then (Inl no_price, s) else get_current_ticket_pricing tt box True s
      | [p] \<Rightarrow> (Inr p, s) | _ \<Rightarrow> (Inl many_prices, s))"
  by (subst get_current_ticket_pricing.simps,
      auto simp: bindo_run ret_run fail_run split: list.splits)+

lemma distinct_all_equal:
  assumes "distinct xs" and "\<And>x y. x \<in> set xs \<Longrightarrow> y \<in> set xs \<Longrightarrow> x = y"
  shows "xs = [] \<or> (\<exists>x. xs = [x])"
  using assms by (cases xs) (auto, metis list.set_intros list.exhaust)

text \<open>the price of a ticket type is determined. When its published prices are valid and it has
  one default price, the price outside the box office is the published regular price that applies
  now, or, when there is none, the default price if that applies; several prices are never found,
  and not finding one means that none applies.\<close>

theorem current_price_determined:
  assumes "periods_proper s" and ids: "distinct (map tp_id (db_ticket_pricing s))"
    and valid: "fst (validate_ticket_pricing self s) = Inr ()"
    and one: "\<And>p q. p \<in> set (db_ticket_pricing s) \<Longrightarrow> q \<in> set (db_ticket_pricing s) \<Longrightarrow>
      regular_price (tt_id self) ticket_pricing_status.Default p \<Longrightarrow>
      regular_price (tt_id self) ticket_pricing_status.Default q \<Longrightarrow> p = q"
  shows "(fst (current_ticket_pricing self False s) = Inr p \<longleftrightarrow>
      p \<in> set (db_ticket_pricing s) \<and> applies_at (now s) p \<and>
      (regular_price (tt_id self) ticket_pricing_status.Published p \<or>
       regular_price (tt_id self) ticket_pricing_status.Default p \<and>
       \<not> (\<exists>q \<in> set (db_ticket_pricing s). applies_at (now s) q \<and>
            regular_price (tt_id self) ticket_pricing_status.Published q))) \<and>
    (fst (current_ticket_pricing self False s) = Inl e \<longrightarrow> e = no_price)"
proof -
  let ?R = "db_ticket_pricing s"
  define P where "P = (\<lambda>st. filter (\<lambda>p. regular_price (tt_id self) st p \<and> applies_at (now s) p) ?R)"
  have points: "current_price_points s (tt_id self) False st = P st" for st
    by (simp add: P_def current_price_points_regular)
  have mem: "x \<in> set (P st) \<longleftrightarrow> x \<in> set ?R \<and> regular_price (tt_id self) st x \<and> applies_at (now s) x"
    for x st by (auto simp: P_def)
  have d: "distinct (P st)" for st using ids by (simp add: P_def distinct_map)
  have "x = y" if "x \<in> set (P ticket_pricing_status.Published)"
    "y \<in> set (P ticket_pricing_status.Published)" for x y
  proof -
    have "no_overlapping_periods_sql s (tp_id x) (tt_id self) (tp_start_date x) (tp_end_date x) False False"
    proof -
      have "price_in_order s self x" using that valid validate_ticket_pricing_run [of self s] by (auto simp: mem)
      then show ?thesis using that by (simp add: price_in_order_def mem)
    qed
    moreover have "tp_start_date x < tp_end_date x" using that by (simp add: applies_at_def mem)
    ultimately have "\<not> (tp_id y \<noteq> tp_id x)"
      using that overlap_check_iff [OF _ assms(1), of "tp_start_date x" "tp_end_date x" "tp_id x" "tt_id self" False False]
      by (auto simp: applies_at_def mem)
    then have "tp_id x = tp_id y" by simp
    then show ?thesis using that ids by (auto simp: mem distinct_map dest: inj_onD)
  qed
  from distinct_all_equal [OF d this]
  have pub: "P ticket_pricing_status.Published = [] \<or> (\<exists>x. P ticket_pricing_status.Published = [x])" .
  have def: "P ticket_pricing_status.Default = [] \<or> (\<exists>x. P ticket_pricing_status.Default = [x])"
    by (rule distinct_all_equal [OF d]) (auto simp: mem intro: one)
  have "(fst (current_ticket_pricing self False s) = Inr p \<longleftrightarrow>
      p \<in> set (P ticket_pricing_status.Published) \<or>
      P ticket_pricing_status.Published = [] \<and> p \<in> set (P ticket_pricing_status.Default)) \<and>
    (fst (current_ticket_pricing self False s) = Inl e \<longrightarrow> e = no_price)"
    using pub def by (auto simp: current_ticket_pricing_def get_current_run points)
  moreover have "P ticket_pricing_status.Published = [] \<longleftrightarrow> \<not> (\<exists>q \<in> set ?R. applies_at (now s) q \<and>
      regular_price (tt_id self) ticket_pricing_status.Published q)"
    by (auto simp: P_def filter_empty_conv)
  ultimately show ?thesis unfolding mem by blast
qed

text \<open>at the box office the price is always determined: it is a published price that applies
  now, the box-office price whenever one applies and a regular one only otherwise; the default
  price is never used, and not finding a price means that no published price applies.\<close>

theorem box_office_price:
  "(\<forall>p. fst (current_ticket_pricing self True s) = Inr p \<longrightarrow>
      p \<in> set (db_ticket_pricing s) \<and> tp_ticket_type_id p = tt_id self \<and>
      tp_status p = ticket_pricing_status.Published \<and> applies_at (now s) p \<and>
      (tp_is_box_office_only p \<longleftrightarrow> (\<exists>q \<in> set (db_ticket_pricing s). tp_is_box_office_only q \<and>
         tp_ticket_type_id q = tt_id self \<and> tp_status q = ticket_pricing_status.Published \<and>
         applies_at (now s) q))) \<and>
   (\<forall>e. fst (current_ticket_pricing self True s) = Inl e \<longrightarrow> e = no_price \<and>
      \<not> (\<exists>q \<in> set (db_ticket_pricing s). tp_ticket_type_id q = tt_id self \<and>
           tp_status q = ticket_pricing_status.Published \<and> applies_at (now s) q))"
proof -
  define key where "key = (\<lambda>p::ticket_pricing. if tp_is_box_office_only p then 0 else (1::nat))"
  define rows where "rows = filter (\<lambda>p. tp_ticket_type_id p = tt_id self \<and>
    tp_status p = ticket_pricing_status.Published \<and> tp_start_date p \<le> now s \<and> tp_end_date p > now s)
    (db_ticket_pricing s)"
  have points: "current_price_points s (tt_id self) True ticket_pricing_status.Published =
      take 1 (sort_key key rows)"
    by (simp add: current_price_points_def rows_def key_def)
  have mem: "x \<in> set rows \<longleftrightarrow> x \<in> set (db_ticket_pricing s) \<and> tp_ticket_type_id x = tt_id self \<and>
      tp_status x = ticket_pricing_status.Published \<and> applies_at (now s) x" for x
    by (auto simp: rows_def applies_at_def)
  show ?thesis
  proof (cases "sort_key key rows")
    case Nil
    then have "rows = []" using set_sort [of key rows] by simp
    then show ?thesis using mem points Nil
      by (auto simp: current_ticket_pricing_def get_current_run)
  next
    case (Cons p rest)
    have result: "fst (current_ticket_pricing self True s) = Inr p"
      by (simp add: current_ticket_pricing_def get_current_run points Cons)
    have "p \<in> set rows" using set_sort [of key rows] Cons by auto
    moreover have "key p \<le> key q" if "q \<in> set rows" for q
      using that sorted_sort_key [of key rows] set_sort [of key rows] Cons by auto
    then have "tp_is_box_office_only q \<Longrightarrow> tp_is_box_office_only p" if "q \<in> set rows" for q
      using that by (force simp: key_def split: if_splits)
    ultimately show ?thesis using result mem by auto
  qed
qed

section \<open>One default price\<close>

abbreviation default_prices :: "db \<Rightarrow> uuid \<Rightarrow> ticket_pricing list" where
  "default_prices s tt \<equiv> filter (\<lambda>p. tp_ticket_type_id p = tt \<and>
     tp_status p = ticket_pricing_status.Default) (db_ticket_pricing s)"

lemma pricing_commit_Inr:
  assumes "pricing_commit np s = (Inr p, t)"
  shows "db_ticket_pricing t = db_ticket_pricing s @ [p] \<and> tp_ticket_type_id p = ntp_ticket_type_id np \<and>
    tp_status p = ntp_status np \<and> tp_price_in_cents p = ntp_price_in_cents np \<and>
    tp_start_date p = ntp_start_date np \<and> tp_end_date p = ntp_end_date np \<and>
    tp_is_box_office_only p = ntp_is_box_office_only np \<and>
    ntp_start_date np < ntp_end_date np \<and> 0 \<le> ntp_price_in_cents np"
  using assms
  by (auto simp: pricing_commit_def new_pricing_validate_record_def Let_def bindo_run check_validation_run
      insert_checked_run append_validation_error_Inr_iff split: sum.splits option.splits)

lemma pricing_destroy_run:
  "\<exists>n. pricing_destroy p s = (Inr n, s\<lparr>db_ticket_pricing :=
     (if list_ex (\<lambda>oi. oi_ticket_pricing_id oi = Some (tp_id p)) (db_order_items s)
      then update_where (\<lambda>q. tp_id q = tp_id p)
        (\<lambda>q. q\<lparr>tp_status := ticket_pricing_status.Deleted, tp_updated_at := now s\<rparr>) (db_ticket_pricing s)
      else filter (\<lambda>q. tp_id q \<noteq> tp_id p) (db_ticket_pricing s))\<rparr>)"
  by (auto simp: pricing_destroy_def bindo_run ret_run list_ex_iff filter_empty_conv)

lemma no_default_after_destroy:
  assumes "\<And>q. q \<in> set rs \<Longrightarrow> tp_ticket_type_id q = tt \<Longrightarrow> tp_status q = ticket_pricing_status.Default \<Longrightarrow>
    tp_id q = i"
  shows "filter (\<lambda>q. tp_ticket_type_id q = tt \<and> tp_status q = ticket_pricing_status.Default)
    (if b then update_where (\<lambda>q. tp_id q = i)
        (\<lambda>q. q\<lparr>tp_status := ticket_pricing_status.Deleted, tp_updated_at := n\<rparr>) rs
     else filter (\<lambda>q. tp_id q \<noteq> i) rs) = []"
  using assms by (auto simp: filter_empty_conv set_update_where)

text \<open>changing a ticket type that has at most one default price leaves it with exactly one: a
  regular price with the new price and the new dates of the type, and every price that an order
  item refers to is still there with its amount.\<close>

theorem update_renews_default_price:
  assumes run: "ticket_type_update self attrs s = (Inr r, s')"
    and one: "length (default_prices s (tt_id self)) \<le> 1"
  shows "(\<exists>p. default_prices s' (tt_id self) = [p] \<and> tp_is_box_office_only p = False \<and>
      tp_price_in_cents p = tt_price_in_cents r \<and> tp_start_date p = tt_start_date r \<and>
      tp_end_date p = tt_end_date r) \<and>
    (\<forall>p \<in> set (db_ticket_pricing s). \<forall>oi \<in> set (db_order_items s).
       oi_ticket_pricing_id oi = Some (tp_id p) \<longrightarrow>
       (\<exists>p' \<in> set (db_ticket_pricing s'). tp_id p' = tp_id p \<and>
          tp_price_in_cents p' = tp_price_in_cents p))"
proof -
  have "\<exists>ts p. renew_default_pricing self r (s\<lparr>db_ticket_types := ts\<rparr>) = (Inr p, s')"
    using run unfolding ticket_type_update_def ticket_type_validate_record_def bindo_Inr_iff
    by (auto simp: ret_run check_validation_run dest!: update_checked_state split: sum.splits)
  then obtain ts p0 where rest: "renew_default_pricing self r (s\<lparr>db_ticket_types := ts\<rparr>) = (Inr p0, s')"
    by blast
  define s1 where "s1 = s\<lparr>db_ticket_types := ts\<rparr>"
  have upd: "db_ticket_pricing s1 = db_ticket_pricing s" "db_order_items s1 = db_order_items s"
    by (simp_all add: s1_def)
  note rest = rest [folded s1_def]
  obtain s2 p where clean: "default_prices s2 (tt_id self) = []"
    and kept: "\<forall>p \<in> set (db_ticket_pricing s). \<forall>oi \<in> set (db_order_items s).
       oi_ticket_pricing_id oi = Some (tp_id p) \<longrightarrow> (\<exists>p' \<in> set (db_ticket_pricing s2).
         tp_id p' = tp_id p \<and> tp_price_in_cents p' = tp_price_in_cents p)"
    and add: "add_ticket_pricing self (tt_name r) (tt_start_date r) (tt_end_date r)
         (tt_price_in_cents r) False (Some ticket_pricing_status.Default) s2 = (Inr p, s')"
  proof (cases "default_prices s (tt_id self)")
    case Nil
    then have "find (\<lambda>p. tp_ticket_type_id p = tt_id self \<and> tp_status p = ticket_pricing_status.Default)
        (db_ticket_pricing s1) = None" by (simp add: find_None_filter upd)
    then show ?thesis using that [of s1] rest Nil upd
      by (auto simp: renew_default_pricing_def bindo_run attempt_run pricing_get_default_def
          first_where_run ret_run)
  next
    case (Cons d ds)
    then have only: "default_prices s (tt_id self) = [d]" using one by simp
    have "tp_id q = tp_id d" if "q \<in> set (db_ticket_pricing s1)" "tp_ticket_type_id q = tt_id self"
      "tp_status q = ticket_pricing_status.Default" for q
    proof -
      have "q \<in> set (default_prices s (tt_id self))" using that by (simp add: upd)
      then show ?thesis by (simp only: only) simp
    qed
    note gone = no_default_after_destroy [of "db_ticket_pricing s1" "tt_id self" "tp_id d", OF this]
    have found: "find (\<lambda>p. tp_ticket_type_id p = tt_id self \<and> tp_status p = ticket_pricing_status.Default)
        (db_ticket_pricing s1) = Some d" using only by (simp add: find_Some_filter upd)
    obtain n where destroyed: "pricing_destroy d s1 = (Inr n, s1\<lparr>db_ticket_pricing :=
     (if list_ex (\<lambda>oi. oi_ticket_pricing_id oi = Some (tp_id d)) (db_order_items s1)
      then update_where (\<lambda>q. tp_id q = tp_id d)
        (\<lambda>q. q\<lparr>tp_status := ticket_pricing_status.Deleted, tp_updated_at := now s1\<rparr>) (db_ticket_pricing s1)
      else filter (\<lambda>q. tp_id q \<noteq> tp_id d) (db_ticket_pricing s1))\<rparr>)" (is "_ = (Inr n, ?s2)")
      using pricing_destroy_run by blast
    have "default_prices ?s2 (tt_id self) = []" by (simp add: gone split del: if_split)
    moreover obtain p where "add_ticket_pricing self (tt_name r) (tt_start_date r) (tt_end_date r)
         (tt_price_in_cents r) False (Some ticket_pricing_status.Default) ?s2 = (Inr p, s')"
      using rest found destroyed
      by (auto simp: renew_default_pricing_def bindo_run attempt_run pricing_get_default_def
          first_where_run ret_run)
    moreover have "\<exists>p' \<in> set (db_ticket_pricing ?s2). tp_id p' = tp_id p \<and>
        tp_price_in_cents p' = tp_price_in_cents p"
      if "p \<in> set (db_ticket_pricing s)" "oi \<in> set (db_order_items s)" "oi_ticket_pricing_id oi = Some (tp_id p)"
      for p oi
    proof -
      have "(if tp_id p = tp_id d then p\<lparr>tp_status := ticket_pricing_status.Deleted,
          tp_updated_at := now s1\<rparr> else p) \<in> set (db_ticket_pricing ?s2)"
        using that by (cases "tp_id p = tp_id d") (auto simp: upd set_update_where list_ex_iff)
      then show ?thesis by (rule rev_bexI) simp
    qed
    ultimately show ?thesis using that [of ?s2] by blast
  qed
  from add have new: "db_ticket_pricing s' = db_ticket_pricing s2 @ [p]" "tp_ticket_type_id p = tt_id self"
    "tp_status p = ticket_pricing_status.Default" "tp_price_in_cents p = tt_price_in_cents r"
    "tp_start_date p = tt_start_date r" "tp_end_date p = tt_end_date r" "tp_is_box_office_only p = False"
    by (auto simp: add_ticket_pricing_def ticket_pricing_create_def dest: pricing_commit_Inr)
  show ?thesis using new clean kept by auto
qed

section \<open>Concrete prices\<close>

definition sample_prices :: db where
  "sample_prices = blank_db\<lparr>db_events := [blank_event 3 4], db_ticket_types := [blank_ticket_type 9 3],
     db_ticket_pricing :=
       [blank_price 31 9 ticket_pricing_status.Default 100 0 5000,
        blank_price 32 9 ticket_pricing_status.Published 200 0 1500,
        blank_price 33 9 ticket_pricing_status.Published 300 1500 5000]\<rparr>"

lemma sample_prices_simps [simp]:
  "db_ticket_pricing sample_prices =
       [blank_price 31 9 ticket_pricing_status.Default 100 0 5000,
        blank_price 32 9 ticket_pricing_status.Published 200 0 1500,
        blank_price 33 9 ticket_pricing_status.Published 300 1500 5000]"
  "now sample_prices = 1000"
  by (simp_all add: sample_prices_def blank_db_def)

lemma sample_prices_valid: "fst (validate_ticket_pricing (blank_ticket_type 9 3) sample_prices) = Inr ()"
  using validate_ticket_pricing_run [of "blank_ticket_type 9 3" sample_prices]
  by (simp add: price_in_order_def no_overlapping_periods_sql_def blank_defs)

theorem validate_ticket_pricing_decides_witness:
  "fst (validate_ticket_pricing (blank_ticket_type 9 3) sample_prices) = Inr () \<and>
   fst (validate_ticket_pricing (blank_ticket_type 9 3) (sample_prices\<lparr>db_ticket_pricing :=
     [blank_price 32 9 ticket_pricing_status.Published 200 0 1500,
      blank_price 33 9 ticket_pricing_status.Published 300 1499 5000]\<rparr>)) \<noteq> Inr ()"
proof -
  have "applies_at 1499 (blank_price 32 9 ticket_pricing_status.Published 200 0 1500)"
    "applies_at 1499 (blank_price 33 9 ticket_pricing_status.Published 300 1499 5000)"
    by (simp_all add: applies_at_def blank_defs)
  then show ?thesis
    using sample_prices_valid
      validate_ticket_pricing_decides [of "sample_prices\<lparr>db_ticket_pricing :=
       [blank_price 32 9 ticket_pricing_status.Published 200 0 1500,
        blank_price 33 9 ticket_pricing_status.Published 300 1499 5000]\<rparr>" "blank_ticket_type 9 3"]
    by (auto simp: blank_defs)
qed

theorem current_price_determined_witness:
  "fst (current_ticket_pricing (blank_ticket_type 9 3) False sample_prices) =
     Inr (blank_price 32 9 ticket_pricing_status.Published 200 0 1500)"
proof -
  let ?tt = "blank_ticket_type 9 3"
  have proper: "periods_proper sample_prices"
    and ids: "distinct (map tp_id (db_ticket_pricing sample_prices))"
    by (simp_all add: blank_price_def)
  have one: "p = q" if "p \<in> set (db_ticket_pricing sample_prices)"
    "q \<in> set (db_ticket_pricing sample_prices)"
    "regular_price (tt_id ?tt) ticket_pricing_status.Default p"
    "regular_price (tt_id ?tt) ticket_pricing_status.Default q" for p q
    using that by (elim conjE) (simp, elim disjE, simp_all add: blank_price_def)
  show ?thesis
    by (rule current_price_determined [OF proper ids sample_prices_valid one, THEN conjunct1, THEN iffD2])
      (simp_all add: applies_at_def blank_price_def blank_ticket_type_def)
qed

theorem box_office_price_witness:
  "\<exists>p. fst (current_ticket_pricing (blank_ticket_type 9 3) True sample_prices) = Inr p \<and>
     tp_status p = ticket_pricing_status.Published \<and> \<not> tp_is_box_office_only p"
proof -
  have "\<exists>q \<in> set (db_ticket_pricing sample_prices). tp_ticket_type_id q = 9 \<and>
      tp_status q = ticket_pricing_status.Published \<and> applies_at 1000 q"
    by (simp add: applies_at_def blank_price_def)
  moreover have "\<not> (\<exists>q \<in> set (db_ticket_pricing sample_prices). tp_is_box_office_only q)"
    by (simp add: blank_price_def)
  moreover have "tt_id (blank_ticket_type 9 3) = 9" by (simp add: blank_ticket_type_def)
  ultimately show ?thesis
    using box_office_price [of "blank_ticket_type 9 3" sample_prices]
    unfolding sample_prices_simps(2)
    by (cases "fst (current_ticket_pricing (blank_ticket_type 9 3) True sample_prices)") metis+
qed

theorem update_renews_default_price_witness:
  "\<exists>r s' p. ticket_type_update (blank_ticket_type 9 3) \<lparr>tta_name = None, tta_description = None,
       tta_start_date = None, tta_end_date = Some 6000, tta_increment = None,
       tta_limit_per_person = None, tta_price_in_cents = Some 150\<rparr> sample_prices = (Inr r, s') \<and>
     default_prices s' 9 = [p] \<and> tp_price_in_cents p = 150 \<and> tp_end_date p = 6000"
proof -
  let ?a = "\<lparr>tta_name = None, tta_description = None,
       tta_start_date = None, tta_end_date = Some 6000, tta_increment = None,
       tta_limit_per_person = None, tta_price_in_cents = Some 150\<rparr>"
  obtain r s' where run: "ticket_type_update (blank_ticket_type 9 3) ?a sample_prices = (Inr r, s')"
    and r: "tt_price_in_cents r = 150" "tt_end_date r = 6000"
    by (simp add: ticket_type_update_def ticket_type_validate_record_def bindo_run check_validation_run
        start_date_valid_def update_checked_def update_first_run ticket_type_violation_def
        renew_default_pricing_def attempt_run pricing_get_default_def first_where_run
        pricing_destroy_def add_ticket_pricing_def ticket_pricing_create_def pricing_commit_def
        new_pricing_validate_record_def validate_greater_than_def Let_def ret_run insert_checked_run
        pricing_violation_def update_where_def sample_prices_def blank_defs)
  show ?thesis
    using update_renews_default_price [OF run] run r by (auto simp: blank_defs)
qed

end
