(* ===== verification/Paging.thy ===== *)
theory Paging imports Database begin

text \<open>
  Small tools that the models share: pages of rows (\<open>db/src/models/paging.rs\<close>), limiting a value
  (\<open>db/src/utils/math.rs\<close>), control characters of a text (\<open>db/src/utils/text.rs\<close>) and the patterns
  of SQL's \<open>ILIKE\<close> that searches use.
\<close>

unbundle bit_operations_syntax

section \<open>Pages\<close>

datatype sorting_dir = Asc | Desc

record paging =
  pg_page :: u32
  pg_limit :: u32
  pg_sort :: string
  pg_dir :: sorting_dir
  pg_total :: nat
  pg_tags :: "string \<rightharpoonup> json"

record paging_parameters =
  pp_page :: "u32 option"
  pp_limit :: "u32 option"
  pp_sort :: "string option"
  pp_dir :: "sorting_dir option"
  pp_tags :: "string \<rightharpoonup> json"

record 'a payload =
  pl_data :: "'a list"
  pl_paging :: paging

definition paging_new :: "u32 \<Rightarrow> u32 \<Rightarrow> paging" where
  "paging_new page limit =
     \<lparr>pg_page = page, pg_limit = limit, pg_sort = [], pg_dir = Asc, pg_total = 0, pg_tags = Map.empty\<rparr>"

definition paging_of_parameters :: "paging_parameters \<Rightarrow> paging" where
  "paging_of_parameters received =
     (let default_page = (case pp_page received of Some i \<Rightarrow> i | None \<Rightarrow> 0);
          default_limit = (case pp_limit received of Some i \<Rightarrow> i | None \<Rightarrow> 100);
          default_sort = (case pp_sort received of Some i \<Rightarrow> i | None \<Rightarrow> []);
          default_dir = (case pp_dir received of Some i \<Rightarrow> i | None \<Rightarrow> Asc)
      in \<lparr>pg_page = default_page, pg_limit = default_limit, pg_sort = default_sort, pg_dir = default_dir,
          pg_total = 0, pg_tags = pp_tags received\<rparr>)"

definition payload_new :: "'a list \<Rightarrow> paging \<Rightarrow> 'a payload" where
  "payload_new data paging_query = \<lparr>pl_data = data, pl_paging = paging_query\<rparr>"

definition payload_from_data :: "'a list \<Rightarrow> u32 \<Rightarrow> u32 \<Rightarrow> 'a payload" where
  "payload_from_data data page limit =
     \<lparr>pl_data = data, pl_paging = (paging_new page limit)\<lparr>pg_total := length data\<rparr>\<rparr>"

definition payload_empty :: "paging \<Rightarrow> 'a payload" where
  "payload_empty p = \<lparr>pl_data = [], pl_paging = p\<lparr>pg_total := 0\<rparr>\<rparr>"

definition payload_is_empty :: "'a payload \<Rightarrow> bool" where
  "payload_is_empty self \<longleftrightarrow> length (pl_data self) = 0"

text \<open>\<open>payload.paging.total = ..\<close>\<close>

definition with_total :: "nat \<Rightarrow> 'a payload \<Rightarrow> 'a payload" where
  "with_total n p = p\<lparr>pl_paging := (pl_paging p)\<lparr>pg_total := n\<rparr>\<rparr>"

definition parameters_page :: "paging_parameters \<Rightarrow> u32" where
  "parameters_page self = unwrap_or (pp_page self) 0"

definition parameters_limit :: "paging_parameters \<Rightarrow> u32" where
  "parameters_limit self = unwrap_or (pp_limit self) 100"

definition parameters_dir :: "paging_parameters \<Rightarrow> sorting_dir" where
  "parameters_dir self = unwrap_or (pp_dir self) Asc"

definition get_tag :: "paging_parameters \<Rightarrow> string \<Rightarrow> string option" where
  "get_tag self tag =
     map_option (\<lambda>v. case v of JString t \<Rightarrow> t | _ \<Rightarrow> []) (pp_tags self tag)"

definition clamp :: "int \<Rightarrow> int \<Rightarrow> int \<Rightarrow> int" where
  "clamp i low high = (if i < low then low else if i > high then high else i)"

lemma clamp_within: "low \<le> high \<Longrightarrow> low \<le> clamp i low high \<and> clamp i low high \<le> high"
  by (simp add: clamp_def)

lemma clamp_is_median: "low \<le> high \<Longrightarrow> clamp i low high = max low (min i high)"
  by (simp add: clamp_def)

section \<open>Control characters\<close>

text \<open>Texts are lists of code points here: the source looks at a character's lowest byte.\<close>

definition lower_control_char_range :: "8 word" where
  "lower_control_char_range = 0x00"

definition upper_control_char_range :: "8 word" where
  "upper_control_char_range = 0x1F"

definition additional_escape_set :: "8 word list" where
  "additional_escape_set = [127]"

fun find_byte_from :: "nat \<Rightarrow> 8 word list \<Rightarrow> 8 word \<Rightarrow> nat option" where
  "find_byte_from i [] b = None"
| "find_byte_from i (c # s) b = (if c = b then Some i else find_byte_from (Suc i) s b)"

definition find_byte :: "8 word list \<Rightarrow> 8 word \<Rightarrow> nat option" where
  "find_byte s b = find_byte_from 0 s b"

definition with_control_chars :: "(nat \<Rightarrow> nat list) \<Rightarrow> nat list \<Rightarrow> nat list" where
  "with_control_chars transform s = concat (map (\<lambda>c.
     let b = of_nat c :: 8 word in
     if b \<ge> lower_control_char_range \<and> b \<le> upper_control_char_range \<or>
        find_byte additional_escape_set b \<noteq> None
     then transform c else [c]) s)"

text \<open>\<open>char::escape_unicode\<close>: the code point in lower-case hexadecimal between braces.\<close>

fun hexadecimal :: "nat \<Rightarrow> nat list" where
  "hexadecimal n =
     (let d = n mod 16; digit = (if d < 10 then 48 + d else 87 + d) in
      if n < 16 then [digit] else hexadecimal (n div 16) @ [digit])"

declare hexadecimal.simps [simp del]

definition escape_unicode :: "nat \<Rightarrow> nat list" where
  "escape_unicode c = [92, 117, 123] @ hexadecimal c @ [125]"

definition escape_control_chars :: "nat list \<Rightarrow> nat list" where
  "escape_control_chars s = with_control_chars escape_unicode s"

definition replace_control_chars :: "nat list \<Rightarrow> nat list \<Rightarrow> nat list" where
  "replace_control_chars s replacement = with_control_chars (\<lambda>_. replacement) s"

lemma find_byte_None_iff: "find_byte s b = None \<longleftrightarrow> b \<notin> set s"
proof -
  have "find_byte_from i s b = None \<longleftrightarrow> b \<notin> set s" for i
    by (induction s arbitrary: i) auto
  then show ?thesis
    by (simp add: find_byte_def)
qed

text \<open>Characters the source takes for control characters: the lowest byte decides.\<close>

definition taken_for_control :: "nat \<Rightarrow> bool" where
  "taken_for_control c \<longleftrightarrow> c mod 256 \<le> 31 \<or> c mod 256 = 127"

lemma taken_for_control_iff:
  "(of_nat c :: 8 word) \<ge> lower_control_char_range \<and> (of_nat c :: 8 word) \<le> upper_control_char_range \<or>
     find_byte additional_escape_set (of_nat c) \<noteq> None \<longleftrightarrow> taken_for_control c"
  by (simp add: find_byte_None_iff additional_escape_set_def lower_control_char_range_def
      upper_control_char_range_def taken_for_control_def word_le_nat_alt unat_of_nat
      word_unat_eq_iff)

lemma with_control_chars_run:
  "with_control_chars f s = concat (map (\<lambda>c. if taken_for_control c then f c else [c]) s)"
  unfolding with_control_chars_def Let_def taken_for_control_iff ..

lemma hexadecimal_digits: "d \<in> set (hexadecimal n) \<Longrightarrow> 48 \<le> d \<and> d \<le> 57 \<or> 97 \<le> d \<and> d \<le> 102"
proof (induction n rule: hexadecimal.induct)
  case (1 n)
  have "n mod 16 < 16"
    by simp
  with 1 show ?case
    by (subst (asm) hexadecimal.simps) (auto simp: Let_def split: if_splits)
qed

lemma escaped_plain: "c \<in> set (escape_unicode d) \<Longrightarrow> \<not> taken_for_control c"
  unfolding escape_unicode_def taken_for_control_def using hexadecimal_digits [of c d] by auto

lemma escaped_text_plain: "c \<in> set (escape_control_chars s) \<Longrightarrow> \<not> taken_for_control c"
  unfolding escape_control_chars_def with_control_chars_run
  by (auto split: if_splits dest: escaped_plain)

lemma plain_text_unchanged: "(\<And>c. c \<in> set s \<Longrightarrow> \<not> taken_for_control c) \<Longrightarrow> with_control_chars f s = s"
  unfolding with_control_chars_run by (induction s) auto

lemma escape_idempotent: "escape_control_chars (escape_control_chars s) = escape_control_chars s"
  unfolding escape_control_chars_def [of "escape_control_chars s"]
  by (rule plain_text_unchanged) (rule escaped_text_plain)

text \<open>A letter beyond the first 256 whose lowest byte is small is escaped too: \<open>U+0100\<close>, a capital A with
  a macron.\<close>

lemma letter_escaped: "escape_control_chars [256] = [92, 117, 123, 49, 48, 48, 125]"
  unfolding escape_control_chars_def with_control_chars_run escape_unicode_def taken_for_control_def
  by (simp add: hexadecimal.simps)

definition escape_text :: "string \<Rightarrow> string" where
  "escape_text t = map char_of (escape_control_chars (map of_char t))"

section \<open>Patterns\<close>

text \<open>SQL's \<open>LIKE\<close>: \<open>%\<close> stands for any text, \<open>_\<close> for any character, a backslash takes the next character
  literally. \<open>ILIKE\<close> ignores case.\<close>

function like :: "string \<Rightarrow> string \<Rightarrow> bool" where
  "like [] t = (t = [])"
| "like (p # ps) t =
     (if p = CHR ''%'' then like ps t \<or> (case t of [] \<Rightarrow> False | _ # t' \<Rightarrow> like (p # ps) t')
      else case t of [] \<Rightarrow> False | c # t' \<Rightarrow>
        if p = CHR ''_'' then like ps t'
        else if p = CHR 0x5C then (case ps of [] \<Rightarrow> False | q # qs \<Rightarrow> q = c \<and> like qs t')
        else p = c \<and> like ps t')"
  by pat_completeness auto

termination
  by (relation "measure (\<lambda>(p, t). length p + length t)") auto

definition ilike :: "string \<Rightarrow> string \<Rightarrow> bool" where
  "ilike t pattern = like (map ascii_lower pattern) (map ascii_lower t)"

lemma like_any: "like ''%'' t"
  by (induction t) auto

lemma ilike_any: "ilike t ''%''"
  unfolding ilike_def by (simp add: ascii_lower_def like_any del: like.simps)

end
