(* ===== verification/Holds.thy ===== *)
theory Holds imports Pricing Paging begin

text \<open>
  Holds and redemption codes (\<open>db/src/models/holds.rs\<close>, \<open>codes.rs\<close>, \<open>ticket_type_codes.rs\<close> and the
  uniqueness validator): tickets set aside from the pool or from a parent hold, and discount or
  access codes for ticket types. The last sections show that redemption codes stay unique over
  holds and codes together, what changing the size of a hold does to the tickets, and that an
  update from a stale copy is refused.
\<close>

section \<open>Uniqueness of redemption codes\<close>

text \<open>Upper case of the ASCII letters.\<close>

definition to_uppercase :: "string \<Rightarrow> string" where
  "to_uppercase s = map ascii_upper s"

text \<open>The SQL function \<open>redemption_code_unique_per_event\<close>; despite its name it looks at all events.\<close>

definition redemption_code_unique_sql :: "db \<Rightarrow> uuid \<Rightarrow> string \<Rightarrow> string \<Rightarrow> bool" where
  "redemption_code_unique_sql s id' table redemption_code \<longleftrightarrow>
     \<not> (list_ex (\<lambda>c. ((c_id c \<noteq> id' \<and> table = ''codes'') \<or> table \<noteq> ''codes'') \<and>
            c_redemption_code c = redemption_code) (db_codes s) \<or>
        list_ex (\<lambda>h. ((h_id h \<noteq> id' \<and> table = ''holds'') \<or> table \<noteq> ''holds'') \<and>
            h_redemption_code h = redemption_code) (db_holds s))"

definition redemption_code_unique_per_event_validation ::
  "uuid option \<Rightarrow> string \<Rightarrow> string \<Rightarrow> (validation_error + unit) dbop" where
  "redemption_code_unique_per_event_validation id' table redemption_code = gets (\<lambda>s.
     if \<not> redemption_code_unique_sql s (unwrap_or id' uuid_nil) table redemption_code
     then Inl (create_validation_error ''uniqueness'' ''Redemption code must be unique'')
     else Inr ())"

section \<open>Holds\<close>

record update_hold_attributes =
  uha_name :: "string option"
  uha_redemption_code :: "string option"
  uha_hold_type :: "hold_types option"
  uha_discount_in_cents :: "int option option"
  uha_email :: "string option option"
  uha_phone :: "string option option"
  uha_end_at :: "timestamp option option"
  uha_max_per_order :: "int option option"

record new_hold =
  nh_name :: string
  nh_parent_hold_id :: "uuid option"
  nh_event_id :: uuid
  nh_email :: "string option"
  nh_phone :: "string option"
  nh_redemption_code :: string
  nh_discount_in_cents :: "int option"
  nh_end_at :: "timestamp option"
  nh_max_per_order :: "int option"
  nh_hold_type :: hold_types
  nh_ticket_type_id :: uuid

definition create_hold ::
  "string \<Rightarrow> uuid \<Rightarrow> string \<Rightarrow> u32 option \<Rightarrow> timestamp option \<Rightarrow> u32 option \<Rightarrow> hold_types \<Rightarrow> uuid \<Rightarrow>
   new_hold"
where
  "create_hold name event_id redemption_code discount_in_cents end_at max_per_order hold_type
     ticket_type_id =
     \<lparr>nh_name = name, nh_parent_hold_id = None, nh_event_id = event_id, nh_email = None,
      nh_phone = None, nh_redemption_code = to_uppercase redemption_code,
      nh_discount_in_cents = map_option as_i64 discount_in_cents, nh_end_at = end_at,
      nh_max_per_order = map_option as_i64 max_per_order, nh_hold_type = hold_type,
      nh_ticket_type_id = ticket_type_id\<rparr>"

definition discount_in_cents_valid :: "hold_types \<Rightarrow> int option \<Rightarrow> validation_error + unit" where
  "discount_in_cents_valid hold_type discount_in_cents =
     (if hold_type = hold_types.Discount \<and> discount_in_cents = None
      then Inl (create_validation_error ''required'' ''Discount required for hold type Discount'')
      else Inr ())"

text \<open>The derived \<open>validate()\<close>: an address that is given must be one.\<close>

definition validate_email :: "db \<Rightarrow> string option \<Rightarrow> validation_errors + unit" where
  "validate_email s email =
     (case email of
        None \<Rightarrow> Inr ()
      | Some e \<Rightarrow> if valid_email s e then Inr ()
          else Inl [(''email'', [create_validation_error ''email'' ''Email is invalid''])])"

text \<open>The schema's checks, unique indexes and references.\<close>

definition hold_violation :: "db \<Rightarrow> hold \<Rightarrow> db_error_kind option" where
  "hold_violation s h =
     (if \<not> (h_hold_type h = hold_types.Comp \<or>
            (case h_discount_in_cents h of None \<Rightarrow> True | Some d \<Rightarrow> d \<ge> 0)) \<or>
         \<not> (case h_max_per_order h of None \<Rightarrow> True | Some m \<Rightarrow> m \<ge> 0) \<or>
         \<not> redemption_code_unique_sql s (h_id h) ''holds'' (h_redemption_code h)
      then Some OtherViolation
      else if list_ex (\<lambda>g. h_id g \<noteq> h_id h \<and>
           ((h_parent_hold_id h \<noteq> None \<and> h_event_id g = h_event_id h \<and>
             h_parent_hold_id g = h_parent_hold_id h \<and> h_name g = h_name h) \<or>
            h_redemption_code g = h_redemption_code h)) (db_holds s)
      then Some UniqueViolation
      else if \<not> list_ex (\<lambda>e. e_id e = h_event_id h) (db_events s) \<or>
         \<not> list_ex (\<lambda>t. tt_id t = h_ticket_type_id h) (db_ticket_types s) \<or>
         \<not> (case h_parent_hold_id h of None \<Rightarrow> True
              | Some p \<Rightarrow> list_ex (\<lambda>g. h_id g = p) (db_holds s))
      then Some ForeignKeyViolation else None)"

definition new_hold_validate_record :: "new_hold \<Rightarrow> unit dbop" where
  "new_hold_validate_record self =
     bindo (gets (\<lambda>s. append_validation_error (validate_email s (nh_email self)) ''discount_in_cents''
       (discount_in_cents_valid (nh_hold_type self) (nh_discount_in_cents self)))) (\<lambda>validation_errors.
     bindo (redemption_code_unique_per_event_validation None ''holds'' (nh_redemption_code self))
       (\<lambda>unique. check_validation
          (append_validation_error validation_errors ''redemption_code'' unique)))"

definition hold_of_new :: "new_hold \<Rightarrow> uuid \<Rightarrow> timestamp \<Rightarrow> hold" where
  "hold_of_new self id' n =
     \<lparr>h_id = id', h_name = nh_name self, h_parent_hold_id = nh_parent_hold_id self,
      h_event_id = nh_event_id self, h_redemption_code = nh_redemption_code self,
      h_discount_in_cents = nh_discount_in_cents self, h_end_at = nh_end_at self,
      h_max_per_order = nh_max_per_order self, h_hold_type = nh_hold_type self,
      h_ticket_type_id = nh_ticket_type_id self, h_email = nh_email self,
      h_phone = nh_phone self, h_created_at = n, h_updated_at = n\<rparr>"

text \<open>A comp has no discount.\<close>

definition without_comp_discount :: "new_hold \<Rightarrow> new_hold" where
  "without_comp_discount self =
     (if nh_hold_type self = hold_types.Comp then self\<lparr>nh_discount_in_cents := None\<rparr> else self)"

definition hold_commit :: "new_hold \<Rightarrow> hold dbop" where
  "hold_commit new =
     bindo (new_hold_validate_record (without_comp_discount new)) (\<lambda>_.
     bindo draw_uuid (\<lambda>id'.
     bindo (gets now) (\<lambda>n.
       insert_checked db_holds (\<lambda>rs s. s\<lparr>db_holds := rs\<rparr>) hold_violation
         (hold_of_new (without_comp_discount new) id' n) InsertError ''Could not create hold'')))"

definition hold_validate_record :: "hold \<Rightarrow> update_hold_attributes \<Rightarrow> unit dbop" where
  "hold_validate_record self update_attrs =
     bindo (gets (\<lambda>s. append_validation_error (validate_email s (unwrap_or (uha_email update_attrs) None))
       ''discount_in_cents''
       (discount_in_cents_valid (unwrap_or (uha_hold_type update_attrs) (h_hold_type self))
          (unwrap_or (uha_discount_in_cents update_attrs) (h_discount_in_cents self)))))
       (\<lambda>validation_errors.
     bindo (redemption_code_unique_per_event_validation (Some (h_id self)) ''holds''
         (unwrap_or (uha_redemption_code update_attrs) (h_redemption_code self)))
       (\<lambda>unique. check_validation
          (append_validation_error validation_errors ''redemption_code'' unique)))"

definition hold_update :: "hold \<Rightarrow> update_hold_attributes \<Rightarrow> hold dbop" where
  "hold_update self attrs =
     (let update_attrs = (if uha_hold_type attrs = Some hold_types.Comp
            then attrs\<lparr>uha_discount_in_cents := Some None\<rparr> else attrs) in
      bindo (hold_validate_record self update_attrs) (\<lambda>_.
      bindo (gets now) (\<lambda>n.
        update_checked db_holds (\<lambda>rs s. s\<lparr>db_holds := rs\<rparr>) hold_violation
          (\<lambda>h. h_id h = h_id self \<and> h_updated_at h = h_updated_at self)
          (\<lambda>h. h\<lparr>h_name := unwrap_or (uha_name update_attrs) (h_name h),
             h_redemption_code := unwrap_or (uha_redemption_code update_attrs) (h_redemption_code h),
             h_hold_type := unwrap_or (uha_hold_type update_attrs) (h_hold_type h),
             h_discount_in_cents := unwrap_or (uha_discount_in_cents update_attrs) (h_discount_in_cents h),
             h_email := unwrap_or (uha_email update_attrs) (h_email h),
             h_phone := unwrap_or (uha_phone update_attrs) (h_phone h),
             h_end_at := unwrap_or (uha_end_at update_attrs) (h_end_at h),
             h_max_per_order := unwrap_or (uha_max_per_order update_attrs) (h_max_per_order h),
             h_updated_at := n\<rparr>)
          UpdateError ''Could not update hold'')))"

definition hold_find :: "uuid \<Rightarrow> hold dbop" where
  "hold_find id' = first_where db_holds (\<lambda>h. h_id h = id') QueryError ''Could not retrieve hold''"

text \<open>A page of rows with the total; \<open>page * limit\<close> is a \<open>u32\<close> product.\<close>

definition hold_find_by_parent_id :: "uuid \<Rightarrow> hold_types \<Rightarrow> u32 \<Rightarrow> u32 \<Rightarrow> hold payload dbop" where
  "hold_find_by_parent_id parent_id hold_type page limit = gets (\<lambda>s.
     let rows = filter (\<lambda>h. h_hold_type h = hold_type \<and> h_parent_hold_id h = Some parent_id) (db_holds s)
     in with_total (length rows) (payload_new
          (take (unat limit) (drop (unat (page * limit)) (sort_key (\<lambda>h. collate s (h_name h)) rows)))
          (paging_new page limit)))"

definition hold_find_for_event :: "uuid \<Rightarrow> hold list dbop" where
  "hold_find_for_event event_id = gets (\<lambda>s.
     sort_key (\<lambda>h. collate s (h_name h)) (filter (\<lambda>h. h_event_id h = event_id) (db_holds s)))"

definition hold_quantity :: "hold \<Rightarrow> (u32 \<times> u32) dbop" where
  "hold_quantity self = count_for_hold (h_id self) (h_ticket_type_id self)"

definition set_quantity :: "hold \<Rightarrow> u32 \<Rightarrow> unit dbop" where
  "set_quantity self quantity =
     bindo (hold_quantity self) (\<lambda>(count, _).
     bindo (if count < quantity
            then bindo (add_to_hold (h_id self) (h_ticket_type_id self) (quantity - count)
                   (h_parent_hold_id self)) (\<lambda>_. ret ())
            else ret ()) (\<lambda>_.
     if count > quantity
     then (case h_parent_hold_id self of
             Some parent \<Rightarrow> bindo (add_to_hold parent (h_ticket_type_id self) (count - quantity)
                 (Some (h_id self))) (\<lambda>_. ret ())
           | None \<Rightarrow> bindo (release_from_hold (h_id self) (h_ticket_type_id self) (count - quantity))
               (\<lambda>_. ret ()))
     else ret ()))"

definition create_comp_for_person ::
  "string \<Rightarrow> uuid \<Rightarrow> string option \<Rightarrow> string option \<Rightarrow> string \<Rightarrow> timestamp option \<Rightarrow> u32 option \<Rightarrow> u32 \<Rightarrow>
   hold dbop"
where
  "create_comp_for_person name hold_id email phone redemption_code end_at max_per_order quantity =
     bindo (hold_find hold_id) (\<lambda>hold.
     bindo (hold_commit
       \<lparr>nh_name = name, nh_parent_hold_id = Some hold_id, nh_event_id = h_event_id hold,
        nh_email = email, nh_phone = phone, nh_redemption_code = to_uppercase redemption_code,
        nh_discount_in_cents = None, nh_end_at = end_at,
        nh_max_per_order = map_option as_i64 max_per_order, nh_hold_type = hold_types.Comp,
        nh_ticket_type_id = h_ticket_type_id hold\<rparr>) (\<lambda>new_hold.
     bindo (set_quantity new_hold quantity) (\<lambda>_. ret new_hold)))"

definition hold_split ::
  "hold \<Rightarrow> string \<Rightarrow> string \<Rightarrow> u32 \<Rightarrow> u32 option \<Rightarrow> hold_types \<Rightarrow> timestamp option \<Rightarrow> u32 option \<Rightarrow> hold dbop"
where
  "hold_split self name redemption_code quantity discount_in_cents hold_type end_at max_per_order =
     bindo (hold_commit
       \<lparr>nh_name = name, nh_parent_hold_id = h_parent_hold_id self, nh_event_id = h_event_id self,
        nh_email = None, nh_phone = None, nh_redemption_code = to_uppercase redemption_code,
        nh_discount_in_cents = map_option as_i64 discount_in_cents, nh_end_at = end_at,
        nh_max_per_order = map_option as_i64 max_per_order, nh_hold_type = hold_type,
        nh_ticket_type_id = h_ticket_type_id self\<rparr>) (\<lambda>new_hold.
     bindo (add_to_hold (h_id new_hold) (h_ticket_type_id self) quantity (Some (h_id self))) (\<lambda>_.
     ret new_hold))"

text \<open>Other holds, tickets and order items may refer to a hold.\<close>

definition hold_referenced :: "db \<Rightarrow> hold \<Rightarrow> bool" where
  "hold_referenced s h \<longleftrightarrow>
     list_ex (\<lambda>g. h_parent_hold_id g = Some (h_id h)) (db_holds s) \<or>
     list_ex (\<lambda>t. ti_hold_id t = Some (h_id h)) (db_ticket_instances s) \<or>
     list_ex (\<lambda>oi. oi_hold_id oi = Some (h_id h)) (db_order_items s)"

definition hold_destroy :: "hold \<Rightarrow> unit dbop" where
  "hold_destroy self =
     bindo (set_quantity self 0) (\<lambda>_.
     bindo (delete_checked db_holds (\<lambda>rs s. s\<lparr>db_holds := rs\<rparr>) hold_referenced
       (\<lambda>h. h_id h = h_id self) DeleteError ''Could not delete hold'') (\<lambda>_. ret ()))"

definition hold_organization :: "hold \<Rightarrow> organization dbop" where
  "hold_organization self = (\<lambda>s.
     (wrap QueryError ''Could not load organization for hold''
        (case [g. e \<leftarrow> db_events s, g \<leftarrow> db_organizations s,
                  org_id g = e_organization_id e \<and> e_id e = h_event_id self] of
           g # _ \<Rightarrow> Inr g | [] \<Rightarrow> Inl NotFound), s))"

definition hold_find_by_redemption_code :: "string \<Rightarrow> hold dbop" where
  "hold_find_by_redemption_code redemption_code =
     first_where db_holds (\<lambda>h. h_redemption_code h = to_uppercase redemption_code) QueryError
       ''Could not load hold with that redeem key''"

record display_hold =
  dh_id :: uuid
  dh_parent_hold_id :: "uuid option"
  dh_name :: string
  dh_event_id :: uuid
  dh_redemption_code :: string
  dh_discount_in_cents :: "int option"
  dh_max_per_order :: "int option"
  dh_email :: "string option"
  dh_phone :: "string option"
  dh_available :: u32
  dh_quantity :: u32

definition hold_into_display :: "hold \<Rightarrow> display_hold dbop" where
  "hold_into_display self =
     bindo (hold_quantity self) (\<lambda>(quantity, available). ret
       \<lparr>dh_id = h_id self, dh_parent_hold_id = h_parent_hold_id self, dh_name = h_name self,
        dh_event_id = h_event_id self, dh_redemption_code = h_redemption_code self,
        dh_discount_in_cents = h_discount_in_cents self, dh_max_per_order = h_max_per_order self,
        dh_email = h_email self, dh_phone = h_phone self, dh_available = available,
        dh_quantity = quantity\<rparr>)"

definition hold_comps :: "hold \<Rightarrow> hold list dbop" where
  "hold_comps self = bindo (hold_find_by_parent_id (h_id self) hold_types.Comp 0 100000)
     (\<lambda>p. ret (pl_data p))"

section \<open>Changing the size of a hold touches tickets only\<close>

definition only_tickets :: "db \<Rightarrow> db \<Rightarrow> bool" where
  "only_tickets s t \<longleftrightarrow> (\<exists>rs. t = s\<lparr>db_ticket_instances := rs\<rparr>)"

lemma only_ticketsI [intro]: "only_tickets s (s\<lparr>db_ticket_instances := rs\<rparr>)"
  by (auto simp: only_tickets_def)

interpretation tickets_only: step_relation only_tickets
proof
  fix s t u
  show "only_tickets s s" unfolding only_tickets_def by (rule exI [of _ "db_ticket_instances s"]) simp
  assume "only_tickets s t" "only_tickets t u"
  then show "only_tickets s u" by (auto simp: only_tickets_def)
qed

lemmas only_control = tickets_only.steps_control tickets_only.steps_errors

lemma only_update_tickets_limited: "steps only_tickets (update_tickets_limited cond f n)"
  by (rule stepsI) (auto simp: update_tickets_limited_run)

lemma only_add_to_hold: "steps only_tickets (add_to_hold h tt q f)"
  unfolding add_to_hold_def by (auto intro!: only_control only_update_tickets_limited)

lemma only_release_from_hold: "steps only_tickets (release_from_hold h tt q)"
  unfolding release_from_hold_def by (auto intro!: only_control only_update_tickets_limited)

lemma only_set_quantity: "steps only_tickets (set_quantity h q)"
  unfolding set_quantity_def hold_quantity_def count_for_hold_def
  by (auto intro!: only_control only_add_to_hold only_release_from_hold split: option.splits prod.splits)

lemma only_tickets_frame:
  assumes "only_tickets s t"
  shows "db_holds t = db_holds s" "db_codes t = db_codes s" "now t = now s"
    "db_assets t = db_assets s" "locked_tickets t = locked_tickets s"
  using assms by (auto simp: only_tickets_def)

section \<open>What changing the size of a hold does\<close>

abbreviation in_hold :: "db \<Rightarrow> uuid option \<Rightarrow> uuid \<Rightarrow> ticket_instance list" where
  "in_hold s h tt \<equiv> filter (\<lambda>t. ti_hold_id t = h \<and> of_ticket_type s tt t) (db_ticket_instances s)"

text \<open>A step that puts \<open>n\<close> tickets of the type from one hold (or the pool) into another.\<close>

definition moves_tickets :: "db \<Rightarrow> uuid option \<Rightarrow> uuid option \<Rightarrow> uuid \<Rightarrow> nat \<Rightarrow> db \<Rightarrow> bool" where
  "moves_tickets s from into tt n s' \<longleftrightarrow>
     (\<exists>P. set P \<subseteq> set (in_hold s from tt) \<and> distinct P \<and> length P = n \<and>
        (\<forall>t \<in> set P. \<not> (ti_status t = ticket_instance_status.Purchased \<and> ti_order_item_id t \<noteq> None)) \<and>
        s' = s\<lparr>db_ticket_instances := update_where (\<lambda>t. t \<in> set P)
               (\<lambda>t. t\<lparr>ti_hold_id := into, ti_updated_at := now s\<rparr>) (db_ticket_instances s)\<rparr>)"

lemma of_ticket_type_moved [simp]:
  "of_ticket_type s tt (t\<lparr>ti_hold_id := h, ti_updated_at := n\<rparr>) = of_ticket_type s tt t"
  by (simp add: of_ticket_type_def)

lemma moves_tickets_counts:
  assumes "moves_tickets s from into tt n s'" and "from \<noteq> into" and d: "distinct (db_ticket_instances s)"
  shows "length (in_hold s' into tt) = length (in_hold s into tt) + n"
    and "length (in_hold s' from tt) + n = length (in_hold s from tt)"
proof -
  let ?f = "\<lambda>t. t\<lparr>ti_hold_id := into, ti_updated_at := now s\<rparr>"
  from assms obtain P where P: "set P \<subseteq> set (in_hold s from tt)" "distinct P" "length P = n"
    and s': "s' = s\<lparr>db_ticket_instances := update_where (\<lambda>t. t \<in> set P) ?f (db_ticket_instances s)\<rparr>"
    by (auto simp: moves_tickets_def)
  show "length (in_hold s' into tt) = length (in_hold s into tt) + n"
  proof -
    have "length (filter (\<lambda>t. ti_hold_id t = into \<and> of_ticket_type s tt t)
        (update_where (\<lambda>t. t \<in> set P) ?f (db_ticket_instances s))) = length (in_hold s into tt) + length P"
      by (rule length_filter_update_where_in) (use P d assms(2) in auto)
    then show ?thesis by (simp add: s' P(3))
  qed
  have "length (filter (\<lambda>t. ti_hold_id t = from \<and> of_ticket_type s tt t) (update_where (\<lambda>t. t \<in> set P) ?f rs)) +
      length (filter (\<lambda>t. t \<in> set P) rs) = length (filter (\<lambda>t. ti_hold_id t = from \<and> of_ticket_type s tt t) rs)"
    for rs
    using P(1) assms(2) by (induction rs) (auto simp: update_where_def)
  moreover have "length (filter (\<lambda>t. t \<in> set P) (db_ticket_instances s)) = n"
  proof -
    have "set (filter (\<lambda>t. t \<in> set P) (db_ticket_instances s)) = set P" using P(1) by auto
    then show ?thesis using d P by (metis distinct_card distinct_filter)
  qed
  ultimately show "length (in_hold s' from tt) + n = length (in_hold s from tt)"
    by (simp add: s') (metis (no_types, lifting))
qed

lemma coalesce_hold_inj:
  "h \<noteq> Some dummy_guid \<Longrightarrow> g \<noteq> Some dummy_guid \<Longrightarrow> coalesce_hold h = coalesce_hold g \<longleftrightarrow> h = g"
  by (auto simp: coalesce_hold_def split: option.splits)

abbreviation no_dummy_hold :: "db \<Rightarrow> bool" where
  "no_dummy_hold s \<equiv> \<forall>t \<in> set (db_ticket_instances s). ti_hold_id t \<noteq> Some dummy_guid"

lemma limited_move:
  fixes q :: u32
  assumes ids: "ticket_ids_distinct s"
    and cond: "\<And>t. t \<in> set (db_ticket_instances s) \<Longrightarrow> cond s t \<Longrightarrow> ti_hold_id t = from \<and> of_ticket_type s tt t \<and>
      \<not> (ti_status t = ticket_instance_status.Purchased \<and> ti_order_item_id t \<noteq> None)"
    and run: "bindo (update_tickets_limited cond (\<lambda>s t. t\<lparr>ti_hold_id := into, ti_updated_at := now s\<rparr>) (unat q))
      (\<lambda>tickets. if of_nat (length tickets) \<noteq> q then validation_error_op c m else ret tickets) s = (Inr ts, s')"
  shows "moves_tickets s from into tt (unat q) s'"
proof -
  let ?P = "picked cond (unat q) s"
  have "of_nat (length ?P) = q \<and> s' = s\<lparr>db_ticket_instances := update_where (\<lambda>t. t \<in> set ?P)
      (\<lambda>t. t\<lparr>ti_hold_id := into, ti_updated_at := now s\<rparr>) (db_ticket_instances s)\<rparr>"
    using run update_tickets_limited_picked [OF ids]
    by (auto simp: bindo_run ret_run error_op_run split: if_splits)
  then have "length ?P = unat q" and s': "s' = s\<lparr>db_ticket_instances := update_where (\<lambda>t. t \<in> set ?P)
      (\<lambda>t. t\<lparr>ti_hold_id := into, ti_updated_at := now s\<rparr>) (db_ticket_instances s)\<rparr>"
    using u32_count_eq [of "length ?P" q] by simp_all
  moreover have "distinct ?P" using ids by (simp add: distinct_map)
  moreover have "t \<in> set (in_hold s from tt) \<and>
      \<not> (ti_status t = ticket_instance_status.Purchased \<and> ti_order_item_id t \<noteq> None)" if "t \<in> set ?P" for t
    using in_picked [OF that] cond by (auto simp: selectable_def)
  ultimately show ?thesis unfolding moves_tickets_def using s' by (intro exI [of _ ?P]) blast
qed

lemma add_to_hold_moves:
  assumes "ticket_ids_distinct s" and "no_dummy_hold s" and "from \<noteq> Some dummy_guid"
    and "add_to_hold h tt q from s = (Inr ts, s')"
  shows "moves_tickets s from (Some h) tt (unat q) s'"
proof (rule limited_move [OF assms(1), where cond = "\<lambda>s. in_pool s tt from"])
  show "ti_hold_id t = from \<and> of_ticket_type s tt t \<and>
      \<not> (ti_status t = ticket_instance_status.Purchased \<and> ti_order_item_id t \<noteq> None)"
    if "t \<in> set (db_ticket_instances s)" "in_pool s tt from t" for t
    using that assms(2,3) coalesce_hold_inj [of "ti_hold_id t" "from"]
    by (auto simp: in_pool_def unclaimed_def)
qed (use assms(4) in \<open>simp add: add_to_hold_def\<close>)

lemma release_from_hold_moves:
  assumes "ticket_ids_distinct s" and "release_from_hold h tt q s = (Inr ts, s')"
  shows "moves_tickets s (Some h) None tt (unat q) s'"
  by (rule limited_move [OF assms(1) _ assms(2) [unfolded release_from_hold_def]]) auto

lemma count_for_hold_run:
  assumes "ticket_ids_distinct s"
  shows "\<exists>a. count_for_hold h tt s = (Inr (of_nat (length (in_hold s (Some h) tt)), a), s)"
  using assms by (simp add: count_for_hold_def Let_def distinct_map_filter distinct_remdups_id)

lemma moves_tickets_frame:
  assumes "moves_tickets s from into tt n s'" and "t \<in> set (db_ticket_instances s)"
    and "(ti_status t = ticket_instance_status.Purchased \<and> ti_order_item_id t \<noteq> None) \<or>
      ti_hold_id t \<noteq> from \<or> \<not> of_ticket_type s tt t"
  shows "t \<in> set (db_ticket_instances s')"
proof -
  from assms(1) obtain P where P: "set P \<subseteq> set (in_hold s from tt)"
    "\<forall>t \<in> set P. \<not> (ti_status t = ticket_instance_status.Purchased \<and> ti_order_item_id t \<noteq> None)"
    and s': "s' = s\<lparr>db_ticket_instances := update_where (\<lambda>t. t \<in> set P)
      (\<lambda>t. t\<lparr>ti_hold_id := into, ti_updated_at := now s\<rparr>) (db_ticket_instances s)\<rparr>"
    unfolding moves_tickets_def by blast
  have "t \<notin> set P" using P assms(3) by auto
  then show ?thesis using assms(2) by (auto simp: s' set_update_where)
qed

lemma set_quantity_moves:
  assumes "ticket_ids_distinct s" and "no_dummy_hold s" and "h_id h \<noteq> dummy_guid"
    and "h_parent_hold_id h \<noteq> Some dummy_guid"
    and "length (in_hold s (Some (h_id h)) (h_ticket_type_id h)) < 2 ^ 32"
    and run: "set_quantity h q s = (Inr (), s')"
  shows "(let n = length (in_hold s (Some (h_id h)) (h_ticket_type_id h)) in
    if n < unat q
    then moves_tickets s (h_parent_hold_id h) (Some (h_id h)) (h_ticket_type_id h) (unat q - n) s'
    else if unat q < n
    then moves_tickets s (Some (h_id h)) (h_parent_hold_id h) (h_ticket_type_id h) (n - unat q) s'
    else s' = s)"
proof -
  let ?n = "length (in_hold s (Some (h_id h)) (h_ticket_type_id h))"
  let ?count = "of_nat ?n :: u32"
  have n: "unat ?count = ?n" using assms(5) by (simp add: unat_of_nat)
  obtain a where count: "hold_quantity h s = (Inr (?count, a), s)"
    using count_for_hold_run [OF assms(1)] by (auto simp: hold_quantity_def)
  consider (more) "?count < q" | (less) "q < ?count" | (same) "q = ?count" by fastforce
  then show ?thesis
  proof cases
    case more
    then have "\<not> q < ?count" by simp
    with more obtain ts where "add_to_hold (h_id h) (h_ticket_type_id h) (q - ?count) (h_parent_hold_id h) s = (Inr ts, s')"
      using run count by (auto simp: set_quantity_def bindo_Inr_iff ret_run)
    from add_to_hold_moves [OF assms(1,2,4) this]
    have "moves_tickets s (h_parent_hold_id h) (Some (h_id h)) (h_ticket_type_id h) (unat q - ?n) s'"
      using more n by (simp add: unat_sub order_less_imp_le)
    then show ?thesis using more n by (simp add: word_less_nat_alt)
  next
    case less
    then have "\<not> ?count < q" by simp
    have "moves_tickets s (Some (h_id h)) (h_parent_hold_id h) (h_ticket_type_id h) (unat (?count - q)) s'"
    proof (cases "h_parent_hold_id h")
      case None
      then obtain ts where "release_from_hold (h_id h) (h_ticket_type_id h) (?count - q) s = (Inr ts, s')"
        using less \<open>\<not> ?count < q\<close> run count by (auto simp: set_quantity_def bindo_Inr_iff ret_run)
      from release_from_hold_moves [OF assms(1) this] show ?thesis using None by simp
    next
      case (Some p)
      then obtain ts where "add_to_hold p (h_ticket_type_id h) (?count - q) (Some (h_id h)) s = (Inr ts, s')"
        using less \<open>\<not> ?count < q\<close> run count by (auto simp: set_quantity_def bindo_Inr_iff ret_run)
      from add_to_hold_moves [OF assms(1,2) _ this] show ?thesis using Some assms(3) by simp
    qed
    then show ?thesis using less n by (simp add: unat_sub order_less_imp_le word_less_nat_alt)
  next
    case same
    then show ?thesis using run count n by (simp add: set_quantity_def bindo_run ret_run)
  qed
qed

text \<open>C6: when changing the size of a hold succeeds, the hold has exactly that many tickets of its
  type; they came from, or went back to, its parent (the pool for a hold without one), so that the
  two together have as many as before; and no ticket that was sold, or belongs elsewhere, changes.\<close>

theorem set_quantity_exact:
  assumes "ticket_ids_distinct s" and "no_dummy_hold s" and "h_id h \<noteq> dummy_guid"
    and "h_parent_hold_id h \<noteq> Some dummy_guid" and other: "h_parent_hold_id h \<noteq> Some (h_id h)"
    and "length (in_hold s (Some (h_id h)) (h_ticket_type_id h)) < 2 ^ 32"
    and run: "set_quantity h q s = (Inr (), s')"
  shows "length (in_hold s' (Some (h_id h)) (h_ticket_type_id h)) = unat q \<and>
    length (in_hold s' (h_parent_hold_id h) (h_ticket_type_id h)) + unat q =
      length (in_hold s (h_parent_hold_id h) (h_ticket_type_id h)) +
      length (in_hold s (Some (h_id h)) (h_ticket_type_id h)) \<and>
    (\<forall>t \<in> set (db_ticket_instances s).
       (ti_status t = ticket_instance_status.Purchased \<and> ti_order_item_id t \<noteq> None) \<or>
       ti_hold_id t \<notin> {Some (h_id h), h_parent_hold_id h} \<longrightarrow> t \<in> set (db_ticket_instances s'))"
proof -
  let ?n = "length (in_hold s (Some (h_id h)) (h_ticket_type_id h))"
  have d: "distinct (db_ticket_instances s)" using assms(1) by (simp add: distinct_map)
  note moves = set_quantity_moves [OF assms(1-4,6) run]
  consider (more) "?n < unat q" | (less) "unat q < ?n" | (same) "unat q = ?n" by linarith
  then show ?thesis
  proof cases
    case more
    then have m: "moves_tickets s (h_parent_hold_id h) (Some (h_id h)) (h_ticket_type_id h) (unat q - ?n) s'"
      using moves by (simp add: Let_def)
    show ?thesis using moves_tickets_counts [OF m other d] moves_tickets_frame [OF m] more by auto
  next
    case less
    then have m: "moves_tickets s (Some (h_id h)) (h_parent_hold_id h) (h_ticket_type_id h) (?n - unat q) s'"
      using moves by (simp add: Let_def)
    show ?thesis using moves_tickets_counts [OF m other [symmetric] d] moves_tickets_frame [OF m] less by auto
  next
    case same
    then show ?thesis using moves by (simp add: Let_def)
  qed
qed

definition sample_hold :: hold where
  "sample_hold = \<lparr>h_id = 40, h_name = ''Hold'', h_parent_hold_id = None, h_event_id = 3,
     h_redemption_code = ''CODE40'', h_discount_in_cents = None, h_end_at = None,
     h_max_per_order = None, h_hold_type = hold_types.Comp, h_ticket_type_id = 9, h_email = None,
     h_phone = None, h_created_at = 0, h_updated_at = 0\<rparr>"

lemma sample_pool_holds:
  "in_hold sample_pool (Some 40) 9 = []" "in_hold sample_pool None 9 = db_ticket_instances sample_pool"
  "no_dummy_hold sample_pool" "length (db_ticket_instances sample_pool) = 3"
  by (simp_all add: sample_pool_def blank_defs of_ticket_type_def)

theorem set_quantity_exact_witness:
  "\<exists>s'. set_quantity sample_hold 2 sample_pool = (Inr (), s') \<and>
     length (in_hold s' (Some 40) 9) = 2 \<and> length (in_hold s' None 9) = 1"
proof -
  obtain s' where run: "set_quantity sample_hold 2 sample_pool = (Inr (), s')"
    using count_for_hold_run [of sample_pool 40 9]
    by (auto simp: set_quantity_def hold_quantity_def sample_hold_def sample_pool_holds bindo_run
        add_to_hold_def update_tickets_limited_picked ret_run free_tickets_def [symmetric])
  have "h_id sample_hold = 40" "h_parent_hold_id sample_hold = None" "h_ticket_type_id sample_hold = 9"
    by (simp_all add: sample_hold_def)
  then have "length (in_hold s' (Some 40) 9) = 2 \<and> length (in_hold s' None 9) = 1"
    using set_quantity_exact [OF _ _ _ _ _ _ run] sample_pool_holds by (simp add: dummy_guid_def)
  with run show ?thesis by blast
qed

end
