(* ===== verification/Codes.thy ===== *)
theory Codes imports Holds begin

text \<open>
  Discount and access codes (\<open>db/src/models/codes.rs\<close>, \<open>ticket_type_codes.rs\<close>): the codes, the
  ticket types each opens, and the uniqueness of redemption codes over codes and holds.
\<close>

section \<open>Codes\<close>

record update_code_attributes =
  uca_name :: "string option"
  uca_redemption_code :: "string option"
  uca_max_uses :: "int option"
  uca_discount_in_cents :: "int option option"
  uca_start_date :: "timestamp option"
  uca_end_date :: "timestamp option"
  uca_max_tickets_per_user :: "int option option"

record new_code =
  nc_name :: string
  nc_event_id :: uuid
  nc_code_type :: code_types
  nc_redemption_code :: string
  nc_max_uses :: int
  nc_discount_in_cents :: "int option"
  nc_start_date :: timestamp
  nc_end_date :: timestamp
  nc_max_tickets_per_user :: "int option"

definition code_create ::
  "string \<Rightarrow> uuid \<Rightarrow> code_types \<Rightarrow> string \<Rightarrow> u32 \<Rightarrow> u32 option \<Rightarrow> timestamp \<Rightarrow> timestamp \<Rightarrow> u32 option \<Rightarrow>
   new_code"
where
  "code_create name event_id code_type redemption_code max_uses discount_in_cents start_date end_date
     max_tickets_per_user =
     \<lparr>nc_name = name, nc_event_id = event_id, nc_code_type = code_type,
      nc_redemption_code = redemption_code, nc_max_uses = as_i64 max_uses,
      nc_discount_in_cents = map_option as_i64 discount_in_cents, nc_start_date = start_date,
      nc_end_date = end_date, nc_max_tickets_per_user = map_option as_i64 max_tickets_per_user\<rparr>"

definition discount_present_for_discount_type :: "code_types \<Rightarrow> int option \<Rightarrow> validation_error + unit" where
  "discount_present_for_discount_type code_type discount_in_cents =
     (if code_type = code_types.Discount \<and> discount_in_cents = None
      then Inl (create_validation_error ''required'' ''Discount required for Discount code type'')
      else Inr ())"

text \<open>The derived \<open>validate()\<close>: a redemption code that is given has at least six characters.\<close>

definition validate_redemption_code :: "string option \<Rightarrow> validation_errors + unit" where
  "validate_redemption_code redemption_code =
     (case redemption_code of
        None \<Rightarrow> Inr ()
      | Some c \<Rightarrow> if length c \<ge> 6 then Inr ()
          else Inl [(''redemption_code'', [create_validation_error ''length''
            ''Redemption code must be at least 6 characters long''])])"

text \<open>The schema's checks, unique index and reference.\<close>

definition code_violation :: "db \<Rightarrow> code_row \<Rightarrow> db_error_kind option" where
  "code_violation s c =
     (if length (c_redemption_code c) < 6 \<or> \<not> c_max_uses c > 0 \<or>
         \<not> (c_code_type c \<noteq> code_types.Discount \<or>
            (case c_discount_in_cents c of None \<Rightarrow> True | Some d \<Rightarrow> d > 0)) \<or>
         \<not> c_start_date c < c_end_date c \<or>
         \<not> (case c_max_tickets_per_user c of None \<Rightarrow> True | Some m \<Rightarrow> m \<ge> 0) \<or>
         \<not> redemption_code_unique_sql s (c_id c) ''codes'' (c_redemption_code c)
      then Some OtherViolation
      else if list_ex (\<lambda>d. c_id d \<noteq> c_id c \<and> c_redemption_code d = c_redemption_code c) (db_codes s)
      then Some UniqueViolation
      else if \<not> list_ex (\<lambda>e. e_id e = c_event_id c) (db_events s)
      then Some ForeignKeyViolation else None)"

definition new_code_validate_record :: "new_code \<Rightarrow> unit dbop" where
  "new_code_validate_record self =
     (let validation_errors = validate_redemption_code (Some (nc_redemption_code self));
          validation_errors = append_validation_error validation_errors ''discount_in_cents''
            (discount_present_for_discount_type (nc_code_type self) (nc_discount_in_cents self));
          validation_errors = append_validation_error validation_errors ''start_date''
            (start_date_valid (nc_start_date self) (nc_end_date self))
      in bindo (redemption_code_unique_per_event_validation None ''codes'' (nc_redemption_code self))
           (\<lambda>unique. check_validation
              (append_validation_error validation_errors ''redemption_code'' unique)))"

definition code_commit :: "new_code \<Rightarrow> code_row dbop" where
  "code_commit self =
     bindo (new_code_validate_record self) (\<lambda>_.
     bindo draw_uuid (\<lambda>id'.
     bindo (gets now) (\<lambda>n.
       insert_checked db_codes (\<lambda>rs s. s\<lparr>db_codes := rs\<rparr>) code_violation
         \<lparr>c_id = id', c_name = nc_name self, c_event_id = nc_event_id self,
          c_code_type = nc_code_type self, c_redemption_code = nc_redemption_code self,
          c_max_uses = nc_max_uses self, c_discount_in_cents = nc_discount_in_cents self,
          c_start_date = nc_start_date self, c_end_date = nc_end_date self,
          c_max_tickets_per_user = nc_max_tickets_per_user self, c_created_at = n, c_updated_at = n\<rparr>
         InsertError ''Could not create code'')))"

definition code_validate_record :: "code_row \<Rightarrow> update_code_attributes \<Rightarrow> unit dbop" where
  "code_validate_record self update_attrs =
     (let validation_errors = validate_redemption_code (uca_redemption_code update_attrs);
          validation_errors = append_validation_error validation_errors ''start_date''
            (start_date_valid (unwrap_or (uca_start_date update_attrs) (c_start_date self))
               (unwrap_or (uca_end_date update_attrs) (c_end_date self)));
          validation_errors = append_validation_error validation_errors ''discount_in_cents''
            (discount_present_for_discount_type (c_code_type self)
               (unwrap_or (uca_discount_in_cents update_attrs) (c_discount_in_cents self)))
      in bindo (redemption_code_unique_per_event_validation (Some (c_id self)) ''codes''
             (unwrap_or (uca_redemption_code update_attrs) (c_redemption_code self)))
           (\<lambda>unique. check_validation
              (append_validation_error validation_errors ''redemption_code'' unique)))"

definition code_update :: "code_row \<Rightarrow> update_code_attributes \<Rightarrow> code_row dbop" where
  "code_update self update_attrs =
     bindo (code_validate_record self update_attrs) (\<lambda>_.
     bindo (gets now) (\<lambda>n.
       update_checked db_codes (\<lambda>rs s. s\<lparr>db_codes := rs\<rparr>) code_violation
         (\<lambda>c. c_id c = c_id self \<and> c_updated_at c = c_updated_at self)
         (\<lambda>c. c\<lparr>c_name := unwrap_or (uca_name update_attrs) (c_name c),
            c_redemption_code := unwrap_or (uca_redemption_code update_attrs) (c_redemption_code c),
            c_max_uses := unwrap_or (uca_max_uses update_attrs) (c_max_uses c),
            c_discount_in_cents := unwrap_or (uca_discount_in_cents update_attrs) (c_discount_in_cents c),
            c_start_date := unwrap_or (uca_start_date update_attrs) (c_start_date c),
            c_end_date := unwrap_or (uca_end_date update_attrs) (c_end_date c),
            c_max_tickets_per_user :=
              unwrap_or (uca_max_tickets_per_user update_attrs) (c_max_tickets_per_user c),
            c_updated_at := n\<rparr>)
         UpdateError ''Could not update code''))"

definition code_find :: "uuid \<Rightarrow> code_row dbop" where
  "code_find id' = first_where db_codes (\<lambda>c. c_id c = id') QueryError ''Could not retrieve code''"

definition code_find_by_redemption_code :: "string \<Rightarrow> code_row dbop" where
  "code_find_by_redemption_code redemption_code =
     first_where db_codes (\<lambda>c. c_redemption_code c = to_uppercase redemption_code) QueryError
       ''Could not load code with that redeem code''"

text \<open>Order items may refer to a code; its links to ticket types go with it.\<close>

definition code_destroy :: "code_row \<Rightarrow> nat dbop" where
  "code_destroy self =
     bindo (delete_checked db_codes (\<lambda>rs s. s\<lparr>db_codes := rs\<rparr>)
       (\<lambda>s c. list_ex (\<lambda>oi. oi_code_id oi = Some (c_id c)) (db_order_items s))
       (\<lambda>c. c_id c = c_id self) DeleteError ''Could not remove code'') (\<lambda>n.
     bindo (delete_where db_ticket_type_codes (\<lambda>rs s. s\<lparr>db_ticket_type_codes := rs\<rparr>)
       (\<lambda>l. ttc_code_id l = c_id self)) (\<lambda>_. ret n))"

definition code_organization :: "code_row \<Rightarrow> organization dbop" where
  "code_organization self = (\<lambda>s.
     (wrap QueryError ''Could not load organization for code''
        (case [g. e \<leftarrow> db_events s, g \<leftarrow> db_organizations s,
                  org_id g = e_organization_id e \<and> e_id e = c_event_id self] of
           g # _ \<Rightarrow> Inr g | [] \<Rightarrow> Inl NotFound), s))"

record display_code =
  dc_code :: code_row
  dc_ticket_type_ids :: "uuid list"

definition code_for_display :: "code_row \<Rightarrow> display_code dbop" where
  "code_for_display self =
     bindo (ticket_type_find_for_code (c_id self)) (\<lambda>tts.
     ret \<lparr>dc_code = self, dc_ticket_type_ids = map tt_id tts\<rparr>)"

definition code_find_for_event :: "uuid \<Rightarrow> code_types option \<Rightarrow> display_code list dbop" where
  "code_find_for_event event_id code_type = gets (\<lambda>s.
     map (\<lambda>c. \<lparr>dc_code = c, dc_ticket_type_ids =
            map ttc_ticket_type_id (filter (\<lambda>l. ttc_code_id l = c_id c) (db_ticket_type_codes s))\<rparr>)
       (sort_key (\<lambda>c. collate s (c_name c))
          (filter (\<lambda>c. c_event_id c = event_id \<and>
             (case code_type of None \<Rightarrow> True | Some ty \<Rightarrow> c_code_type c = ty)) (db_codes s))))"

section \<open>The ticket types of a code\<close>

record new_ticket_type_code =
  nttc_ticket_type_id :: uuid
  nttc_code_id :: uuid

definition ticket_type_code_create :: "uuid \<Rightarrow> uuid \<Rightarrow> new_ticket_type_code" where
  "ticket_type_code_create ticket_type_id code_id =
     \<lparr>nttc_ticket_type_id = ticket_type_id, nttc_code_id = code_id\<rparr>"

text \<open>The SQL function: the ticket type and the code are of the same event.\<close>

definition ticket_type_code_valid_sql :: "db \<Rightarrow> uuid \<Rightarrow> uuid \<Rightarrow> bool" where
  "ticket_type_code_valid_sql s code_id ticket_type_id \<longleftrightarrow>
     list_ex (\<lambda>t. tt_id t = ticket_type_id \<and>
       list_ex (\<lambda>e. tt_event_id t = e_id e \<and>
         list_ex (\<lambda>d. c_event_id d = e_id e \<and> c_id d = code_id) (db_codes s)) (db_events s))
       (db_ticket_types s)"

definition ticket_type_code_ticket_type_id_valid :: "uuid \<Rightarrow> uuid \<Rightarrow> (validation_error + unit) dbop" where
  "ticket_type_code_ticket_type_id_valid code_id ticket_type_id = gets (\<lambda>s.
     if \<not> ticket_type_code_valid_sql s code_id ticket_type_id
     then Inl (create_validation_error ''invalid''
            ''Ticket type not valid for code as it does not belong to same event'')
     else Inr ())"

definition ticket_type_code_violation :: "db \<Rightarrow> ticket_type_code \<Rightarrow> db_error_kind option" where
  "ticket_type_code_violation s l =
     (if \<not> ticket_type_code_valid_sql s (ttc_code_id l) (ttc_ticket_type_id l) then Some OtherViolation
      else if list_ex (\<lambda>m. ttc_ticket_type_id m = ttc_ticket_type_id l \<and> ttc_code_id m = ttc_code_id l)
        (db_ticket_type_codes s)
      then Some UniqueViolation else None)"

definition ticket_type_code_commit :: "new_ticket_type_code \<Rightarrow> ticket_type_code dbop" where
  "ticket_type_code_commit self =
     bindo (ticket_type_code_ticket_type_id_valid (nttc_code_id self) (nttc_ticket_type_id self)) (\<lambda>valid.
     bindo (check_validation (append_validation_error (Inr ()) ''ticket_type_id'' valid)) (\<lambda>_.
     bindo draw_uuid (\<lambda>id'.
     bindo (gets now) (\<lambda>n.
       insert_checked db_ticket_type_codes (\<lambda>rs s. s\<lparr>db_ticket_type_codes := rs\<rparr>)
         ticket_type_code_violation
         \<lparr>ttc_id = id', ttc_ticket_type_id = nttc_ticket_type_id self,
          ttc_code_id = nttc_code_id self, ttc_created_at = n, ttc_updated_at = n\<rparr>
         InsertError ''Could not add code to ticket_type''))))"

definition ticket_type_code_destroy_multiple :: "uuid \<Rightarrow> uuid list \<Rightarrow> nat dbop" where
  "ticket_type_code_destroy_multiple code_id ticket_type_ids =
     delete_where db_ticket_type_codes (\<lambda>rs s. s\<lparr>db_ticket_type_codes := rs\<rparr>)
       (\<lambda>l. ttc_code_id l = code_id \<and> ttc_ticket_type_id l \<in> set ticket_type_ids)"

definition update_ticket_types :: "code_row \<Rightarrow> uuid list \<Rightarrow> unit dbop" where
  "update_ticket_types self ticket_type_ids =
     bindo (ticket_type_find_for_code (c_id self)) (\<lambda>tts.
     let existing_ticket_type_ids = map tt_id tts;
         pending_deletion = filter (\<lambda>i. i \<notin> set ticket_type_ids) existing_ticket_type_ids;
         pending_addition = filter (\<lambda>i. i \<notin> set existing_ticket_type_ids) ticket_type_ids in
     bindo (ticket_type_code_destroy_multiple (c_id self) pending_deletion) (\<lambda>_.
     for_each (\<lambda>ticket_type_id.
       bindo (ticket_type_code_commit (ticket_type_code_create ticket_type_id (c_id self)))
         (\<lambda>_. ret ())) pending_addition))"

section \<open>Redemption codes stay unique\<close>

text \<open>Both tables as lists of ids with codes: ids distinct in each, codes over both.\<close>

definition codes_ok :: "(uuid \<times> string) list \<Rightarrow> (uuid \<times> string) list \<Rightarrow> bool" where
  "codes_ok xs ys \<longleftrightarrow> distinct (map fst xs) \<and> distinct (map fst ys) \<and> distinct (map snd xs @ map snd ys)"

definition code_free :: "uuid \<Rightarrow> string \<Rightarrow> (uuid \<times> string) list \<Rightarrow> (uuid \<times> string) list \<Rightarrow> bool" where
  "code_free i code xs ys \<longleftrightarrow> code \<notin> snd ` set ys \<and> (\<forall>x \<in> set xs. fst x \<noteq> i \<longrightarrow> snd x \<noteq> code)"

lemma codes_ok_commute: "codes_ok xs ys = codes_ok ys xs"
  by (auto simp: codes_ok_def)

lemma codes_ok_add:
  assumes "codes_ok xs ys" and "i \<notin> fst ` set xs" and "code_free i code xs ys"
  shows "codes_ok (xs @ [(i, code)]) ys"
proof -
  have "code \<notin> snd ` set xs" using assms(2,3) by (force simp: code_free_def)
  then show ?thesis using assms by (auto simp: codes_ok_def code_free_def)
qed

lemma codes_ok_change:
  assumes ok: "codes_ok xs ys" and ids: "map fst xs' = map fst xs"
    and step: "\<And>k. k < length xs \<Longrightarrow> xs' ! k = xs ! k \<or> (fst (xs ! k) = i \<and> code_free i (snd (xs' ! k)) xs ys)"
  shows "codes_ok xs' ys"
proof -
  have len: "length xs' = length xs" using arg_cong [OF ids, of length] by simp
  have apart: "fst (xs ! k) \<noteq> fst (xs ! l)" "snd (xs ! k) \<noteq> snd (xs ! l)"
    if "k < length xs" "l < length xs" "k \<noteq> l" for k l
  proof -
    have "distinct (map fst xs)" "distinct (map snd xs)" using ok by (simp_all add: codes_ok_def)
    then show "fst (xs ! k) \<noteq> fst (xs ! l)" "snd (xs ! k) \<noteq> snd (xs ! l)"
      using that by (simp_all add: distinct_conv_nth)
  qed
  have "snd (xs' ! k) \<noteq> snd (xs' ! l)" if "k < length xs" "l < length xs" "k \<noteq> l" for k l
    using step [OF that(1)] step [OF that(2)] apart [OF that] that nth_mem [OF that(1)] nth_mem [OF that(2)]
    unfolding code_free_def by metis
  then have "distinct (map snd xs')" using len by (simp add: distinct_conv_nth)
  moreover have "snd (xs' ! k) \<notin> snd ` set ys" if "k < length xs" for k
  proof -
    have "snd ` set xs \<inter> snd ` set ys = {}" using ok by (simp add: codes_ok_def)
    moreover have "snd (xs ! k) \<in> snd ` set xs" using that by simp
    ultimately have "snd (xs ! k) \<notin> snd ` set ys" by blast
    with step [OF that] show ?thesis by (elim disjE conjE) (simp_all add: code_free_def)
  qed
  then have "snd x \<notin> snd ` set ys" if "x \<in> set xs'" for x
    using that len by (metis in_set_conv_nth)
  then have "snd ` set xs' \<inter> snd ` set ys = {}" by blast
  ultimately show ?thesis using ok ids by (simp add: codes_ok_def)
qed

abbreviation hold_codes :: "db \<Rightarrow> (uuid \<times> string) list" where
  "hold_codes s \<equiv> map (\<lambda>h. (h_id h, h_redemption_code h)) (db_holds s)"

abbreviation code_codes :: "db \<Rightarrow> (uuid \<times> string) list" where
  "code_codes s \<equiv> map (\<lambda>c. (c_id c, c_redemption_code c)) (db_codes s)"

definition unique_codes :: "db \<Rightarrow> bool" where
  "unique_codes s \<longleftrightarrow> codes_ok (hold_codes s) (code_codes s)"

lemma unique_sql_free:
  "redemption_code_unique_sql s i ''holds'' code = code_free i code (hold_codes s) (code_codes s)"
  "redemption_code_unique_sql s i ''codes'' code = code_free i code (code_codes s) (hold_codes s)"
  by (auto simp: redemption_code_unique_sql_def list_ex_iff code_free_def image_image)

lemma hold_violation_unique:
  "hold_violation s h = None \<Longrightarrow> redemption_code_unique_sql s (h_id h) ''holds'' (h_redemption_code h)"
  by (auto simp: hold_violation_def split: if_splits)

lemma code_violation_unique:
  "code_violation s c = None \<Longrightarrow> redemption_code_unique_sql s (c_id c) ''codes'' (c_redemption_code c)"
  by (auto simp: code_violation_def split: if_splits)

lemma hold_commit_cases:
  obtains (ok) h where "hold_commit nh s = (Inr h, s\<lparr>uuids_drawn := Suc (uuids_drawn s),
      db_holds := db_holds s @ [h]\<rparr>)" and "h_id h = uuid_source s (uuids_drawn s)"
    and "redemption_code_unique_sql s (h_id h) ''holds'' (h_redemption_code h)"
    and "h_redemption_code h = nh_redemption_code nh" and "h_event_id h = nh_event_id nh"
    and "h_ticket_type_id h = nh_ticket_type_id nh" and "h_parent_hold_id h = nh_parent_hold_id nh"
  | (err) e t where "hold_commit nh s = (Inl e, t)" and "t = s \<or> t = s\<lparr>uuids_drawn := Suc (uuids_drawn s)\<rparr>"
proof -
  let ?self = "without_comp_discount nh"
  have same: "nh_redemption_code ?self = nh_redemption_code nh" "nh_event_id ?self = nh_event_id nh"
    "nh_ticket_type_id ?self = nh_ticket_type_id nh" "nh_parent_hold_id ?self = nh_parent_hold_id nh"
    by (simp_all add: without_comp_discount_def)
  have "snd (new_hold_validate_record ?self s) = s"
    by (simp add: new_hold_validate_record_def bindo_run check_validation_run
        redemption_code_unique_per_event_validation_def split: sum.splits)
  then obtain v where valid: "new_hold_validate_record ?self s = (v, s)"
    by (cases "new_hold_validate_record ?self s") simp
  show thesis
  proof (cases v)
    case (Inl e)
    with valid have "hold_commit nh s = (Inl e, s)" by (simp add: hold_commit_def bindo_run)
    then show thesis by (rule err) (rule disjI1, rule refl)
  next
    case (Inr u)
    let ?s = "s\<lparr>uuids_drawn := Suc (uuids_drawn s)\<rparr>"
    define h where "h = hold_of_new ?self (uuid_source s (uuids_drawn s)) (now s)"
    have cols: "h_id h = uuid_source s (uuids_drawn s)" "h_redemption_code h = nh_redemption_code nh"
      "h_event_id h = nh_event_id nh" "h_ticket_type_id h = nh_ticket_type_id nh"
      "h_parent_hold_id h = nh_parent_hold_id nh"
      by (simp_all add: h_def hold_of_new_def same)
    have run: "hold_commit nh s = insert_checked db_holds (\<lambda>rs s. s\<lparr>db_holds := rs\<rparr>) hold_violation h
          InsertError ''Could not create hold'' ?s"
      using valid Inr by (simp add: hold_commit_def bindo_run h_def)
    show thesis
    proof (cases "hold_violation ?s h")
      case None
      from hold_violation_unique [OF this]
      have "redemption_code_unique_sql s (h_id h) ''holds'' (h_redemption_code h)"
        by (simp add: redemption_code_unique_sql_def)
      moreover have "hold_commit nh s = (Inr h, s\<lparr>uuids_drawn := Suc (uuids_drawn s),
          db_holds := db_holds s @ [h]\<rparr>)"
        using None run by (simp add: insert_checked_run)
      ultimately show thesis using cols by (intro ok)
    next
      case (Some k)
      obtain e where "wrap InsertError ''Could not create hold'' (Inl (DatabaseFailure k) :: diesel_error + hold) = Inl e"
        by (cases "wrap InsertError ''Could not create hold'' (Inl (DatabaseFailure k) :: diesel_error + hold)") simp_all
      with Some run have "hold_commit nh s = (Inl e, ?s)" by (simp add: insert_checked_run)
      then show thesis by (rule err) (rule disjI2, rule refl)
    qed
  qed
qed

text \<open>Rows that a checked update changes.\<close>

lemma codes_ok_update_where:
  assumes ok: "codes_ok (map row rs) ys" and ids: "\<And>r. fst (row (f r)) = fst (row r)"
    and P: "\<And>r. r \<in> set rs \<Longrightarrow> P r \<Longrightarrow> fst (row r) = i \<and> code_free i (snd (row (f r))) (map row rs) ys"
  shows "codes_ok (map row (update_where P f rs)) ys"
  by (rule codes_ok_change [OF ok, where i = i])
    (use ids P in \<open>auto simp: update_where_def split: if_splits\<close>)

lemma hold_commit_unique:
  assumes "unique_codes s" and "uuid_source s (uuids_drawn s) \<notin> h_id ` set (db_holds s)"
  shows "unique_codes (snd (hold_commit nh s))"
proof (cases rule: hold_commit_cases [of nh s])
  case (ok h)
  have "codes_ok (hold_codes s @ [(h_id h, h_redemption_code h)]) (code_codes s)"
    using assms ok(2,3) by (intro codes_ok_add) (auto simp: unique_codes_def unique_sql_free image_image)
  then show ?thesis using ok(1) by (simp add: unique_codes_def)
next
  case (err e t)
  then show ?thesis using assms(1) by (auto simp: unique_codes_def)
qed

lemma validate_record_state:
  "snd (hold_validate_record h a s) = s" "snd (code_validate_record c b s) = s"
  "snd (new_code_validate_record nc s) = s"
  by (simp_all add: hold_validate_record_def code_validate_record_def new_code_validate_record_def
      bindo_run check_validation_run Let_def redemption_code_unique_per_event_validation_def
      split: sum.splits)

lemma update_holds_unique:
  assumes "unique_codes s" and "\<And>h. h_id (f h) = h_id h" and "\<And>h. P h \<Longrightarrow> h_id h = i"
  shows "unique_codes (snd (update_checked db_holds (\<lambda>rs s. s\<lparr>db_holds := rs\<rparr>) hold_violation P f c m s))"
proof -
  obtain r t where upd: "update_checked db_holds (\<lambda>rs s. s\<lparr>db_holds := rs\<rparr>) hold_violation P f c m s = (r, t)"
    by fastforce
  have "unique_codes t"
  proof (cases rule: tbl_holds.update_checked_cases [OF upd])
    case (1 x)
    have "codes_ok (map (\<lambda>h. (h_id h, h_redemption_code h)) (update_where P f (db_holds s))) (code_codes s)"
      using assms hold_violation_unique [OF 1(5)]
      by (intro codes_ok_update_where [where i = i]) (auto simp: unique_codes_def unique_sql_free)
    then show ?thesis by (simp add: 1(4) unique_codes_def)
  next
    case (2 e)
    then show ?thesis using assms by simp
  qed
  then show ?thesis by (simp add: upd)
qed

lemma update_codes_unique:
  assumes "unique_codes s" and "\<And>c. c_id (f c) = c_id c" and "\<And>c. P c \<Longrightarrow> c_id c = i"
  shows "unique_codes (snd (update_checked db_codes (\<lambda>rs s. s\<lparr>db_codes := rs\<rparr>) code_violation P f e m s))"
proof -
  obtain r t where upd: "update_checked db_codes (\<lambda>rs s. s\<lparr>db_codes := rs\<rparr>) code_violation P f e m s = (r, t)"
    by fastforce
  have "unique_codes t"
  proof (cases rule: tbl_codes.update_checked_cases [OF upd])
    case (1 x)
    have "codes_ok (map (\<lambda>c. (c_id c, c_redemption_code c)) (update_where P f (db_codes s))) (hold_codes s)"
      using assms code_violation_unique [OF 1(5)]
      by (intro codes_ok_update_where [where i = i])
        (auto simp: unique_codes_def unique_sql_free codes_ok_commute)
    then show ?thesis by (simp add: 1(4) unique_codes_def codes_ok_commute)
  next
    case (2 e)
    then show ?thesis using assms by simp
  qed
  then show ?thesis by (simp add: upd)
qed

lemma hold_update_unique:
  assumes "unique_codes s"
  shows "unique_codes (snd (hold_update h a s))"
  unfolding hold_update_def Let_def
  by (rule after_check [where I = unique_codes], rule validate_record_state, rule assms, unfold bindo_gets,
      rule update_holds_unique [OF assms, where i = "h_id h"]) simp_all

lemma code_update_unique:
  assumes "unique_codes s"
  shows "unique_codes (snd (code_update c a s))"
  unfolding code_update_def
  by (rule after_check [where I = unique_codes], rule validate_record_state, rule assms, unfold bindo_gets,
      rule update_codes_unique [OF assms, where i = "c_id c"]) simp_all

lemma code_commit_unique:
  assumes "unique_codes s" and fresh: "uuid_source s (uuids_drawn s) \<notin> c_id ` set (db_codes s)"
  shows "unique_codes (snd (code_commit nc s))"
  unfolding code_commit_def
proof (rule after_check [where I = unique_codes], rule validate_record_state, rule assms)
  have "unique_codes (snd (insert_checked db_codes (\<lambda>rs s. s\<lparr>db_codes := rs\<rparr>) code_violation c e m
      (s\<lparr>uuids_drawn := k\<rparr>)))" if c: "c_id c = uuid_source s (uuids_drawn s)" for c e m k
  proof (cases "code_violation (s\<lparr>uuids_drawn := k\<rparr>) c")
    case None
    from code_violation_unique [OF this]
    have "codes_ok (code_codes s @ [(c_id c, c_redemption_code c)]) (hold_codes s)"
      using assms(1) fresh c
      by (intro codes_ok_add) (auto simp: unique_codes_def unique_sql_free image_image codes_ok_commute)
    then show ?thesis
      using None codes_ok_commute by (simp add: insert_checked_run unique_codes_def)
  qed (use assms(1) in \<open>simp add: insert_checked_run unique_codes_def\<close>)
  then show "unique_codes (snd (bindo draw_uuid (\<lambda>id'. bindo (gets now) (\<lambda>n.
       insert_checked db_codes (\<lambda>rs s. s\<lparr>db_codes := rs\<rparr>) code_violation
         \<lparr>c_id = id', c_name = nc_name nc, c_event_id = nc_event_id nc,
          c_code_type = nc_code_type nc, c_redemption_code = nc_redemption_code nc,
          c_max_uses = nc_max_uses nc, c_discount_in_cents = nc_discount_in_cents nc,
          c_start_date = nc_start_date nc, c_end_date = nc_end_date nc,
          c_max_tickets_per_user = nc_max_tickets_per_user nc, c_created_at = n, c_updated_at = n\<rparr>
         InsertError ''Could not create code'')) s))" for x
    by (simp add: bindo_run)
qed

lemma codes_ok_filter:
  "codes_ok xs ys \<Longrightarrow> codes_ok (filter P xs) ys" "codes_ok ys xs \<Longrightarrow> codes_ok ys (filter P xs)"
  by (auto simp: codes_ok_def distinct_map_filter)

lemma unique_codes_tickets: "only_tickets s t \<Longrightarrow> unique_codes t = unique_codes s"
  by (simp add: unique_codes_def only_tickets_frame)

lemma keeps_unique_tickets: "steps only_tickets m \<Longrightarrow> keeps unique_codes m"
  by (rule keepsI) (metis stepsD unique_codes_tickets)

lemma then_keeps:
  assumes "I (snd (m s))" and "\<And>x. keeps I (f x)"
  shows "I (snd (bindo m f s))"
  using assms by (cases "m s") (auto simp: bindo_def keeps_def split: sum.splits)

lemma hold_split_unique:
  assumes "unique_codes s" and "uuid_source s (uuids_drawn s) \<notin> h_id ` set (db_holds s)"
  shows "unique_codes (snd (hold_split h name code q d ty e m s))"
  unfolding hold_split_def
  by (rule then_keeps [where I = unique_codes], rule hold_commit_unique [OF assms])
    (intro keeps_bindo keeps_unique_tickets only_add_to_hold keeps_ret)

lemma create_comp_unique:
  assumes "unique_codes s" and "uuid_source s (uuids_drawn s) \<notin> h_id ` set (db_holds s)"
  shows "unique_codes (snd (create_comp_for_person name i em ph code e m q s))"
  unfolding create_comp_for_person_def
  by (rule after_check [where I = unique_codes], simp add: hold_find_def, rule assms,
      rule then_keeps [where I = unique_codes], rule hold_commit_unique [OF assms])
    (intro keeps_bindo keeps_unique_tickets only_set_quantity keeps_ret)

lemma keeps_unique_destroy: "keeps unique_codes (hold_destroy h)" "keeps unique_codes (code_destroy c)"
proof -
  have filter_map: "map row (filter P rs) = filter (\<lambda>x. fst x \<noteq> i) (map row rs)"
    if "\<And>r. fst (row r) \<noteq> i \<longleftrightarrow> P r" for row :: "'r \<Rightarrow> uuid \<times> string" and P rs i
    using that by (simp add: filter_map comp_def)
  have "keeps unique_codes (delete_checked db_holds (\<lambda>rs s. s\<lparr>db_holds := rs\<rparr>) hold_referenced
      (\<lambda>g. h_id g = h_id h) e m)" for e m
    by (auto simp: keeps_def delete_checked_run unique_codes_def filter_map [of _ "h_id h"]
        intro!: codes_ok_filter)
  then show "keeps unique_codes (hold_destroy h)"
    unfolding hold_destroy_def
    by (intro keeps_bindo [OF keeps_unique_tickets [OF only_set_quantity]] keeps_bindo keeps_ret)
  have "keeps unique_codes (delete_checked db_codes (\<lambda>rs s. s\<lparr>db_codes := rs\<rparr>)
      (\<lambda>s c. list_ex (\<lambda>oi. oi_code_id oi = Some (c_id c)) (db_order_items s)) (\<lambda>d. c_id d = c_id c) e m)" for e m
    by (auto simp: keeps_def delete_checked_run unique_codes_def filter_map [of _ "c_id c"]
        intro!: codes_ok_filter)
  moreover have "keeps unique_codes (delete_where db_ticket_type_codes
      (\<lambda>rs s. s\<lparr>db_ticket_type_codes := rs\<rparr>) P)" for P
    by (simp add: keeps_def unique_codes_def)
  ultimately show "keeps unique_codes (code_destroy c)"
    unfolding code_destroy_def by (intro keeps_bindo keeps_ret)
qed

text \<open>C5: redemption codes stay unique over holds and codes together: whatever creating, updating,
  splitting or removing a hold or a code returns, afterwards no two of them share a redemption
  code, if none did before and the identifier drawn for a new row is fresh.\<close>

theorem redemption_codes_stay_unique:
  assumes "unique_codes s"
    and "uuid_source s (uuids_drawn s) \<notin> h_id ` set (db_holds s) \<union> c_id ` set (db_codes s)"
  shows "unique_codes (snd (hold_commit nh s)) \<and> unique_codes (snd (hold_update h ha s)) \<and>
    unique_codes (snd (hold_split h name code q d ty e m s)) \<and>
    unique_codes (snd (create_comp_for_person name i em ph code e m q s)) \<and>
    unique_codes (snd (hold_destroy h s)) \<and> unique_codes (snd (set_quantity h q s)) \<and>
    unique_codes (snd (code_commit nc s)) \<and> unique_codes (snd (code_update c ca s)) \<and>
    unique_codes (snd (code_destroy c s))"
  using assms hold_commit_unique hold_update_unique hold_split_unique create_comp_unique
    code_commit_unique code_update_unique keepsD [OF keeps_unique_destroy(1)]
    keepsD [OF keeps_unique_destroy(2)] keepsD [OF keeps_unique_tickets [OF only_set_quantity]]
  by simp

definition sample_codes :: db where
  "sample_codes = blank_db\<lparr>db_events := [blank_event 3 4], db_ticket_types := [blank_ticket_type 9 3],
     db_holds := [sample_hold]\<rparr>"

theorem redemption_codes_stay_unique_witness:
  "unique_codes sample_codes \<and>
   (\<forall>nh nc. unique_codes (snd (hold_commit nh sample_codes)) \<and> unique_codes (snd (code_commit nc sample_codes)))"
proof -
  have "unique_codes sample_codes" and "uuid_source sample_codes (uuids_drawn sample_codes) \<notin>
      h_id ` set (db_holds sample_codes) \<union> c_id ` set (db_codes sample_codes)"
    by (simp_all add: sample_codes_def unique_codes_def codes_ok_def sample_hold_def blank_db_def)
  then show ?thesis using redemption_codes_stay_unique [of sample_codes] by blast
qed

section \<open>Finding by redemption code\<close>

lemma ascii_upper_idem [simp]: "ascii_upper (ascii_upper c) = ascii_upper c"
proof (cases "97 \<le> (of_char c :: nat) \<and> (of_char c :: nat) \<le> 122")
  case True
  then have "((of_char c :: nat) - 32) mod 256 = of_char c - 32" by (intro mod_less) linarith
  then have "(of_char (char_of ((of_char c :: nat) - 32) :: char) :: nat) = of_char c - 32"
    by (simp add: of_char_of)
  then show ?thesis using True by (auto simp: ascii_upper_def)
next
  case False
  then have "ascii_upper c = c" by (auto simp: ascii_upper_def)
  then show ?thesis by simp
qed

lemma to_uppercase_idem [simp]: "to_uppercase (to_uppercase s) = to_uppercase s"
  by (simp add: to_uppercase_def)

lemma found_code_upper:
  "fst (code_find_by_redemption_code q t) = Inr c \<Longrightarrow> to_uppercase (c_redemption_code c) = c_redemption_code c"
  "fst (hold_find_by_redemption_code q t) = Inr g \<Longrightarrow> to_uppercase (h_redemption_code g) = h_redemption_code g"
  by (auto simp: code_find_by_redemption_code_def hold_find_by_redemption_code_def first_where_run
      dest!: find_SomeD split: option.splits)

lemma find_append_new: "(\<And>x. x \<in> set xs \<Longrightarrow> \<not> P x) \<Longrightarrow> P y \<Longrightarrow> find P (xs @ [y]) = Some y"
  by (induction xs) auto

text \<open>a hold that was just created is found by its redemption code, typed in any case, when the
  identifier drawn for it is fresh; a lookup finds only rows whose stored code is in upper
  case, so a code stored with a lower-case letter, which creating a code and updating a code or
  hold allow, is never found by any text.\<close>

theorem hold_found_by_code:
  assumes fresh: "uuid_source s (uuids_drawn s) \<notin> h_id ` set (db_holds s)"
    and run: "hold_commit (create_hold name ev code d e m ty tt) s = (Inr h, s')"
    and typed: "to_uppercase typed = to_uppercase code"
  shows "fst (hold_find_by_redemption_code typed s') = Inr h \<and>
    (\<forall>c q t. to_uppercase (c_redemption_code c) \<noteq> c_redemption_code c \<longrightarrow>
       fst (code_find_by_redemption_code q t) \<noteq> Inr c) \<and>
    (\<forall>g q t. to_uppercase (h_redemption_code g) \<noteq> h_redemption_code g \<longrightarrow>
       fst (hold_find_by_redemption_code q t) \<noteq> Inr g)"
proof -
  have "fst (hold_find_by_redemption_code typed s') = Inr h"
  proof (cases rule: hold_commit_cases [of "create_hold name ev code d e m ty tt" s])
    case (ok g)
    then have s': "s' = s\<lparr>uuids_drawn := Suc (uuids_drawn s), db_holds := db_holds s @ [h]\<rparr>" and "g = h"
      using run by simp_all
    then have code: "h_redemption_code h = to_uppercase code" using ok by (simp add: create_hold_def)
    have "h_redemption_code x \<noteq> to_uppercase code" if "x \<in> set (db_holds s)" for x
      using that ok(2,3) fresh code \<open>g = h\<close> by (force simp: redemption_code_unique_sql_def list_ex_iff)
    then have "find (\<lambda>x. h_redemption_code x = to_uppercase code) (db_holds s @ [h]) = Some h"
      using code by (intro find_append_new) auto
    then show ?thesis using typed
      by (simp add: s' hold_find_by_redemption_code_def first_where_run)
  next
    case (err e t)
    then show ?thesis using run by simp
  qed
  then show ?thesis using found_code_upper by blast
qed

lemma sample_hold_commit:
  "fst (hold_commit (create_hold ''Door'' 3 ''door22'' None None None hold_types.Comp 9) sample_codes) =
     Inr (hold_of_new (create_hold ''Door'' 3 ''door22'' None None None hold_types.Comp 9) 1000 1000)"
  by code_simp

theorem hold_found_by_code_witness:
  "\<exists>h s'. fst (hold_find_by_redemption_code ''DooR22'' s') = Inr h \<and>
     fst (hold_commit (create_hold ''Door'' 3 ''door22'' None None None hold_types.Comp 9) sample_codes) = Inr h"
proof -
  obtain h s' where run: "hold_commit (create_hold ''Door'' 3 ''door22'' None None None hold_types.Comp 9) sample_codes =
      (Inr h, s')"
    using sample_hold_commit by (metis prod.collapse)
  have "uuid_source sample_codes (uuids_drawn sample_codes) \<notin> h_id ` set (db_holds sample_codes)"
    by (simp add: sample_codes_def sample_hold_def blank_db_def)
  moreover have "to_uppercase ''DooR22'' = to_uppercase ''door22''" by code_simp
  ultimately show ?thesis using hold_found_by_code [OF _ run, of "''DooR22''"] run by auto
qed

end
