(* ===== verification/Fees.thy ===== *)
theory Fees imports Domain_Events begin

text \<open>
  Fee schedules (\<open>db/src/models/fee_schedules.rs\<close>, \<open>fee_schedule_ranges.rs\<close>): versions of a named
  list of price ranges, and the search for the range that a price falls in.
\<close>

section \<open>Operations\<close>

record new_fee_schedule_range =
  nfsr_min_price_in_cents :: int
  nfsr_company_fee_in_cents :: int
  nfsr_client_fee_in_cents :: int

record new_fee_schedule =
  nfs_name :: string
  nfs_ranges :: "new_fee_schedule_range list"

definition fee_schedule_create :: "string \<Rightarrow> new_fee_schedule_range list \<Rightarrow> new_fee_schedule" where
  "fee_schedule_create name ranges = \<lparr>nfs_name = name, nfs_ranges = ranges\<rparr>"

definition fee_schedule_ranges :: "fee_schedule \<Rightarrow> fee_schedule_range list dbop" where
  "fee_schedule_ranges self = gets (\<lambda>s.
     sort_key fsr_min_price_in_cents
       (filter (\<lambda>r. fsr_fee_schedule_id r = fs_id self) (db_fee_schedule_ranges s)))"

definition fee_schedule_find :: "uuid \<Rightarrow> fee_schedule dbop" where
  "fee_schedule_find id' =
     first_where db_fee_schedules (\<lambda>f. fs_id f = id') QueryError ''Error loading Fee Schedule''"

definition fee_schedule_range_find :: "uuid \<Rightarrow> fee_schedule_range dbop" where
  "fee_schedule_range_find id' =
     first_where db_fee_schedule_ranges (\<lambda>r. fsr_id r = id') QueryError
       ''Error loading fee schedule range''"

text \<open>The loop over the ranges in ascending order, left at the first range above the price.\<close>

fun last_range_up_to :: "int \<Rightarrow> fee_schedule_range list \<Rightarrow> fee_schedule_range option \<Rightarrow>
    fee_schedule_range option" where
  "last_range_up_to price [] found_range = found_range"
| "last_range_up_to price (r # ranges) found_range =
     (if fsr_min_price_in_cents r > price then found_range
      else last_range_up_to price ranges (Some r))"

definition get_range :: "fee_schedule \<Rightarrow> int \<Rightarrow> fee_schedule_range dbop" where
  "get_range self price =
     bindo (fee_schedule_ranges self) (\<lambda>ranges.
       case last_range_up_to price ranges None of
         Some f \<Rightarrow> ret f
       | None \<Rightarrow> no_results ''Could not find a valid fee for this price'')"

text \<open>\<open>i16\<close> arithmetic.\<close>

definition as_i16 :: "int \<Rightarrow> int" where
  "as_i16 x = (x + 2 ^ 15) mod 2 ^ 16 - 2 ^ 15"

text \<open>The unique indexes on the name and version, and on the schedule and minimum price.\<close>

definition fee_schedule_violation :: "db \<Rightarrow> fee_schedule \<Rightarrow> db_error_kind option" where
  "fee_schedule_violation s f =
     (if list_ex (\<lambda>g. fs_name g = fs_name f \<and> fs_version g = fs_version f) (db_fee_schedules s)
      then Some UniqueViolation else None)"

definition fee_range_row ::
  "uuid \<Rightarrow> timestamp \<Rightarrow> uuid \<Rightarrow> new_fee_schedule_range \<Rightarrow> fee_schedule_range" where
  "fee_range_row schedule_id n id' r =
     \<lparr>fsr_id = id', fsr_fee_schedule_id = schedule_id,
      fsr_min_price_in_cents = nfsr_min_price_in_cents r,
      fsr_fee_in_cents = nfsr_company_fee_in_cents r + nfsr_client_fee_in_cents r,
      fsr_created_at = n, fsr_updated_at = n,
      fsr_company_fee_in_cents = nfsr_company_fee_in_cents r,
      fsr_client_fee_in_cents = nfsr_client_fee_in_cents r\<rparr>"

fun fee_range_rows ::
  "uuid \<Rightarrow> timestamp \<Rightarrow> new_fee_schedule_range list \<Rightarrow> fee_schedule_range list dbop" where
  "fee_range_rows schedule_id n [] = ret []"
| "fee_range_rows schedule_id n (r # rs) =
     bindo draw_uuid (\<lambda>id'.
     bindo (fee_range_rows schedule_id n rs) (\<lambda>rows.
     ret (fee_range_row schedule_id n id' r # rows)))"

text \<open>One statement inserts all rows or none.\<close>

definition insert_fee_ranges :: "fee_schedule_range list \<Rightarrow> unit dbop" where
  "insert_fee_ranges rows = (\<lambda>s.
     if distinct (map (\<lambda>r. (fsr_fee_schedule_id r, fsr_min_price_in_cents r))
          (db_fee_schedule_ranges s @ rows))
     then (Inr (), s\<lparr>db_fee_schedule_ranges := db_fee_schedule_ranges s @ rows\<rparr>)
     else (wrap InsertError ''Could not create fee schedule range''
             (Inl (DatabaseFailure UniqueViolation)), s))"

text \<open>The second half of \<open>commit\<close>: the ranges of the new schedule, and the event.\<close>

definition commit_fee_ranges ::
  "fee_schedule \<Rightarrow> new_fee_schedule_range list \<Rightarrow> uuid \<Rightarrow> domain_event dbop" where
  "commit_fee_ranges result ranges created_by_user_id =
     bindo (gets now) (\<lambda>n.
     bindo (fee_range_rows (fs_id result) n ranges) (\<lambda>rows.
     bindo (insert_fee_ranges rows) (\<lambda>_.
     domain_event_commit (domain_event_create domain_event_types.FeeScheduleCreated
       ''Fee schedule created'' tables.FeeSchedules (Some (fs_id result)) (Some created_by_user_id) None))))"

definition fee_schedule_commit :: "new_fee_schedule \<Rightarrow> uuid \<Rightarrow> fee_schedule dbop" where
  "fee_schedule_commit self created_by_user_id =
     bindo (gets (\<lambda>s. rev (sort_key fs_version
         (filter (\<lambda>f. fs_name f = nfs_name self) (db_fee_schedules s))))) (\<lambda>versions.
     let next_version = (case versions of [] \<Rightarrow> 0 | pv # _ \<Rightarrow> as_i16 (fs_version pv + 1)) in
     bindo draw_uuid (\<lambda>id'.
     bindo (gets now) (\<lambda>n.
     bindo (insert_checked db_fee_schedules (\<lambda>rs s. s\<lparr>db_fee_schedules := rs\<rparr>) fee_schedule_violation
       \<lparr>fs_id = id', fs_name = nfs_name self, fs_version = next_version, fs_created_at = n,
        fs_updated_at = n\<rparr> InsertError ''Could not create fee schedule'') (\<lambda>result.
     bindo (commit_fee_ranges result (nfs_ranges self) created_by_user_id) (\<lambda>_.
     ret result)))))"

section \<open>The range of a price\<close>

lemma last_range_up_to_sorted:
  assumes "sorted (map fsr_min_price_in_cents ranges)"
    and "\<And>f r. found = Some f \<Longrightarrow> r \<in> set ranges \<Longrightarrow> fsr_min_price_in_cents f \<le> fsr_min_price_in_cents r"
    and "\<And>f. found = Some f \<Longrightarrow> fsr_min_price_in_cents f \<le> price"
  shows "case last_range_up_to price ranges found of
      None \<Rightarrow> found = None \<and> (\<forall>r \<in> set ranges. price < fsr_min_price_in_cents r)
    | Some f \<Rightarrow> (f \<in> set ranges \<or> found = Some f) \<and> fsr_min_price_in_cents f \<le> price \<and>
        (\<forall>r \<in> set ranges. fsr_min_price_in_cents r \<le> price \<longrightarrow>
           fsr_min_price_in_cents r \<le> fsr_min_price_in_cents f)"
  using assms
proof (induction ranges arbitrary: found)
  case Nil
  then show ?case by (simp split: option.splits)
next
  case (Cons r ranges)
  show ?case
  proof (cases "fsr_min_price_in_cents r > price")
    case True
    then have "price < fsr_min_price_in_cents q" if "q \<in> set (r # ranges)" for q
      using that Cons.prems(1) by auto
    then show ?thesis using True Cons.prems(3) by (fastforce split: option.splits)
  next
    case False
    have "case last_range_up_to price ranges (Some r) of
        None \<Rightarrow> Some r = None \<and> (\<forall>q \<in> set ranges. price < fsr_min_price_in_cents q)
      | Some f \<Rightarrow> (f \<in> set ranges \<or> Some r = Some f) \<and> fsr_min_price_in_cents f \<le> price \<and>
          (\<forall>q \<in> set ranges. fsr_min_price_in_cents q \<le> price \<longrightarrow>
             fsr_min_price_in_cents q \<le> fsr_min_price_in_cents f)"
      by (rule Cons.IH) (use Cons.prems(1) False in auto)
    moreover have "fsr_min_price_in_cents r \<le> fsr_min_price_in_cents f" if "f \<in> set ranges" for f
      using that Cons.prems(1) by simp
    ultimately show ?thesis using False by (auto split: option.splits)
  qed
qed

lemma get_range_facts:
  "snd (get_range self price s) = s \<and>
   (\<forall>r. fst (get_range self price s) = Inr r \<longrightarrow>
      r \<in> set (db_fee_schedule_ranges s) \<and> fsr_fee_schedule_id r = fs_id self \<and>
      fsr_min_price_in_cents r \<le> price \<and>
      (\<forall>q \<in> set (db_fee_schedule_ranges s). fsr_fee_schedule_id q = fs_id self \<and>
         fsr_min_price_in_cents q \<le> price \<longrightarrow> fsr_min_price_in_cents q \<le> fsr_min_price_in_cents r)) \<and>
   (\<forall>e. fst (get_range self price s) = Inl e \<longrightarrow> err_error_code e = NoResults) \<and>
   ((\<exists>e. fst (get_range self price s) = Inl e) \<longleftrightarrow>
      (\<forall>q \<in> set (db_fee_schedule_ranges s). fsr_fee_schedule_id q = fs_id self \<longrightarrow>
         price < fsr_min_price_in_cents q))"
proof -
  let ?ranges = "sort_key fsr_min_price_in_cents
    (filter (\<lambda>r. fsr_fee_schedule_id r = fs_id self) (db_fee_schedule_ranges s))"
  have "sorted (map fsr_min_price_in_cents ?ranges)" by (rule sorted_sort_key)
  from last_range_up_to_sorted [OF this, of None price] show ?thesis
    by (cases "last_range_up_to price ?ranges None")
      (auto simp: get_range_def fee_schedule_ranges_def bindo_run ret_run error_op_run not_less not_le
        dest: leD)
qed

text \<open>the fee for a price comes from the range with the highest minimum that the price reaches;
  the lookup fails, with no results and nothing else, exactly when the price is below every range
  of the schedule; and it changes nothing.\<close>

theorem get_range_is_highest_reached:
  "snd (get_range self price s) = s \<and>
   (\<forall>r. fst (get_range self price s) = Inr r \<longrightarrow>
      r \<in> set (db_fee_schedule_ranges s) \<and> fsr_fee_schedule_id r = fs_id self \<and>
      fsr_min_price_in_cents r \<le> price \<and>
      (\<forall>q \<in> set (db_fee_schedule_ranges s). fsr_fee_schedule_id q = fs_id self \<and>
         fsr_min_price_in_cents q \<le> price \<longrightarrow> fsr_min_price_in_cents q \<le> fsr_min_price_in_cents r)) \<and>
   (\<forall>e. fst (get_range self price s) = Inl e \<longrightarrow> err_error_code e = NoResults) \<and>
   ((\<exists>e. fst (get_range self price s) = Inl e) \<longleftrightarrow>
      (\<forall>q \<in> set (db_fee_schedule_ranges s). fsr_fee_schedule_id q = fs_id self \<longrightarrow>
         price < fsr_min_price_in_cents q))"
  by (rule get_range_facts)

section \<open>Creating a schedule\<close>

definition range_matches :: "uuid \<Rightarrow> new_fee_schedule_range \<Rightarrow> fee_schedule_range \<Rightarrow> bool" where
  "range_matches i nr r \<longleftrightarrow> fsr_fee_schedule_id r = i \<and>
     fsr_min_price_in_cents r = nfsr_min_price_in_cents nr \<and>
     fsr_company_fee_in_cents r = nfsr_company_fee_in_cents nr \<and>
     fsr_client_fee_in_cents r = nfsr_client_fee_in_cents nr \<and>
     fsr_fee_in_cents r = nfsr_company_fee_in_cents nr + nfsr_client_fee_in_cents nr"

lemma fee_range_rows_run:
  "\<exists>rows k. fee_range_rows i n nrs s = (Inr rows, s\<lparr>uuids_drawn := k\<rparr>) \<and>
     list_all2 (range_matches i) nrs rows"
proof (induction nrs arbitrary: s)
  case Nil
  show ?case by (simp add: ret_run) (rule exI [of _ "uuids_drawn s"], simp)
next
  case (Cons nr nrs)
  obtain rows k where "list_all2 (range_matches i) nrs rows" and
    "fee_range_rows i n nrs (s\<lparr>uuids_drawn := Suc (uuids_drawn s)\<rparr>) = (Inr rows, s\<lparr>uuids_drawn := k\<rparr>)"
    using Cons.IH [of "s\<lparr>uuids_drawn := Suc (uuids_drawn s)\<rparr>"] by auto
  then show ?case
    by (intro exI [of _ "fee_range_row i n (uuid_source s (uuids_drawn s)) nr # rows"] exI [of _ k])
      (simp add: bindo_run ret_run, simp add: range_matches_def fee_range_row_def)
qed

lemma insert_fee_ranges_Inr:
  "insert_fee_ranges rows t = (Inr u, t') \<Longrightarrow>
     t' = t\<lparr>db_fee_schedule_ranges := db_fee_schedule_ranges t @ rows\<rparr> \<and>
     distinct (map (\<lambda>r. (fsr_fee_schedule_id r, fsr_min_price_in_cents r)) (db_fee_schedule_ranges t'))"
  by (auto simp: insert_fee_ranges_def split: if_splits)

lemma commit_fee_ranges_Inr:
  assumes "commit_fee_ranges f nrs user s = (Inr e, s')"
  shows "\<exists>rows. db_fee_schedule_ranges s' = db_fee_schedule_ranges s @ rows \<and>
    list_all2 (range_matches (fs_id f)) nrs rows \<and>
    distinct (map (\<lambda>r. (fsr_fee_schedule_id r, fsr_min_price_in_cents r)) (db_fee_schedule_ranges s')) \<and>
    db_fee_schedules s' = db_fee_schedules s \<and> db_domain_events s' = db_domain_events s @ [e] \<and>
    de_event_type e = domain_event_types.FeeScheduleCreated \<and> de_main_id e = Some (fs_id f)"
proof -
  obtain rows k where rows: "fee_range_rows (fs_id f) (now s) nrs s = (Inr rows, s\<lparr>uuids_drawn := k\<rparr>)"
    and matches: "list_all2 (range_matches (fs_id f)) nrs rows"
    using fee_range_rows_run by blast
  from assms obtain t where ins: "insert_fee_ranges rows (s\<lparr>uuids_drawn := k\<rparr>) = (Inr (), t)"
    and ev: "domain_event_commit (domain_event_create domain_event_types.FeeScheduleCreated
       ''Fee schedule created'' tables.FeeSchedules (Some (fs_id f)) (Some user) None) t = (Inr e, s')"
    by (auto simp: commit_fee_ranges_def bindo_Inr_iff rows)
  show ?thesis
    using insert_fee_ranges_Inr [OF ins] ev matches
    by (auto simp: domain_event_commit_def domain_event_create_def op_simps)
qed

lemma fee_schedule_commit_Inr:
  assumes "fee_schedule_commit self user s = (Inr f, s')"
  shows "\<exists>rows e. db_fee_schedule_ranges s' = db_fee_schedule_ranges s @ rows \<and>
    list_all2 (range_matches (fs_id f)) (nfs_ranges self) rows \<and>
    distinct (map (\<lambda>r. (fsr_fee_schedule_id r, fsr_min_price_in_cents r)) (db_fee_schedule_ranges s')) \<and>
    fs_name f = nfs_name self \<and>
    \<not> list_ex (\<lambda>g. fs_name g = fs_name f \<and> fs_version g = fs_version f) (db_fee_schedules s) \<and>
    db_domain_events s' = db_domain_events s @ [e] \<and>
    de_event_type e = domain_event_types.FeeScheduleCreated \<and> de_main_id e = Some (fs_id f)"
proof -
  from assms have "\<exists>k e. commit_fee_ranges f (nfs_ranges self) user
      (s\<lparr>uuids_drawn := k, db_fee_schedules := db_fee_schedules s @ [f]\<rparr>) = (Inr e, s') \<and>
      fs_name f = nfs_name self \<and> fee_schedule_violation (s\<lparr>uuids_drawn := k\<rparr>) f = None"
    unfolding fee_schedule_commit_def Let_def bindo_Inr_iff insert_checked_Inr_iff by (auto simp: ret_run)
  then obtain k e where "commit_fee_ranges f (nfs_ranges self) user
      (s\<lparr>uuids_drawn := k, db_fee_schedules := db_fee_schedules s @ [f]\<rparr>) = (Inr e, s')"
    and "fs_name f = nfs_name self" "fee_schedule_violation (s\<lparr>uuids_drawn := k\<rparr>) f = None" by blast
  from commit_fee_ranges_Inr [OF this(1)] this(2-) show ?thesis
    by (auto simp: fee_schedule_violation_def split: if_splits)
qed

text \<open>The version after the highest of a name, \<open>0\<close> for a new name; it is an \<open>i16\<close>.\<close>

definition version_after :: "string \<Rightarrow> db \<Rightarrow> int" where
  "version_after name s =
     (let versions = fs_version ` {g \<in> set (db_fee_schedules s). fs_name g = name}
      in if versions = {} then 0 else as_i16 (Max versions + 1))"

lemma first_of_rev_sort:
  fixes key :: "'a \<Rightarrow> int"
  assumes "rev (sort_key key xs) = x # ys"
  shows "key x = Max (key ` set xs)"
proof -
  have sorted: "sorted (map key (rev (x # ys)))"
    using assms sorted_sort_key [of key xs] by (metis rev_rev_ident)
  have set: "set xs = set (x # ys)"
    using assms by (metis set_rev set_sort)
  have "key y \<le> key x" if "y \<in> set (x # ys)" for y
    using sorted that by (auto simp: sorted_append)
  then show ?thesis unfolding set by (intro Max_eqI [symmetric]) auto
qed

lemma fee_schedule_commit_version:
  assumes "fee_schedule_commit self user s = (Inr f, s')"
  shows "fs_version f = version_after (nfs_name self) s"
proof -
  let ?same = "filter (\<lambda>g. fs_name g = nfs_name self) (db_fee_schedules s)"
  have f: "fs_version f = (case rev (sort_key fs_version ?same) of [] \<Rightarrow> 0 | pv # _ \<Rightarrow> as_i16 (fs_version pv + 1))"
    using assms unfolding fee_schedule_commit_def Let_def bindo_Inr_iff insert_checked_Inr_iff
    by (auto simp: ret_run)
  show ?thesis
  proof (cases "rev (sort_key fs_version ?same)")
    case Nil
    then have "?same = []" by (metis rev_is_Nil_conv length_0_conv length_sort)
    then have "{g \<in> set (db_fee_schedules s). fs_name g = nfs_name self} = {}" by (auto simp: filter_empty_conv)
    then show ?thesis using f Nil unfolding version_after_def Let_def by simp
  next
    case (Cons x ys)
    then have "fs_version x = Max (fs_version ` {g \<in> set (db_fee_schedules s). fs_name g = nfs_name self})"
      using first_of_rev_sort [of fs_version ?same] by simp
    moreover have "?same \<noteq> []" using Cons by (metis rev.simps(1) sort_key_simps(1) list.distinct(1))
    then have "{g \<in> set (db_fee_schedules s). fs_name g = nfs_name self} \<noteq> {}" by (auto simp: filter_empty_conv)
    ultimately show ?thesis using f Cons by (auto simp: version_after_def Let_def)
  qed
qed
text \<open>C8: a fee schedule that was created has the version after the highest of its name, is logged, and
  charges what was asked for: looking up the minimum price of any of the given ranges finds that range, with
  its company and client fees and their sum as the fee, and every lookup in it finds one of the
  given ranges. No version of the name had its number before.\<close>

theorem fee_schedule_charges_as_created:
  assumes run: "fee_schedule_commit self user s = (Inr f, s')"
    and fresh: "\<And>r. r \<in> set (db_fee_schedule_ranges s) \<Longrightarrow> fsr_fee_schedule_id r \<noteq> fs_id f"
  shows "(\<forall>nr \<in> set (nfs_ranges self). \<exists>r.
      fst (get_range f (nfsr_min_price_in_cents nr) s') = Inr r \<and> range_matches (fs_id f) nr r) \<and>
    (\<forall>price r. fst (get_range f price s') = Inr r \<longrightarrow>
      (\<exists>nr \<in> set (nfs_ranges self). range_matches (fs_id f) nr r)) \<and>
    fs_name f = nfs_name self \<and> fs_version f = version_after (nfs_name self) s \<and>
    (\<forall>g \<in> set (db_fee_schedules s). fs_name g = nfs_name self \<longrightarrow> fs_version g \<noteq> fs_version f) \<and>
    (\<exists>e. db_domain_events s' = db_domain_events s @ [e] \<and>
      de_event_type e = domain_event_types.FeeScheduleCreated \<and> de_main_id e = Some (fs_id f))"
proof -
  obtain rows e where rows: "db_fee_schedule_ranges s' = db_fee_schedule_ranges s @ rows"
    and matches: "list_all2 (range_matches (fs_id f)) (nfs_ranges self) rows"
    and dist: "distinct (map (\<lambda>r. (fsr_fee_schedule_id r, fsr_min_price_in_cents r)) (db_fee_schedule_ranges s'))"
    and rest: "fs_name f = nfs_name self"
      "\<not> list_ex (\<lambda>g. fs_name g = fs_name f \<and> fs_version g = fs_version f) (db_fee_schedules s)"
      "db_domain_events s' = db_domain_events s @ [e]"
      "de_event_type e = domain_event_types.FeeScheduleCreated" "de_main_id e = Some (fs_id f)"
    using fee_schedule_commit_Inr [OF run] by blast
  note lookup = get_range_facts [of f _ s']
  have ours: "r \<in> set (db_fee_schedule_ranges s') \<and> fsr_fee_schedule_id r = fs_id f \<longleftrightarrow> r \<in> set rows" for r
    using rows fresh list_all2_right [OF matches] by (auto simp: range_matches_def)
  have "\<exists>nr \<in> set (nfs_ranges self). range_matches (fs_id f) nr r" if "r \<in> set rows" for r
    using that list_all2_right [OF matches] by blast
  then have some: "\<exists>nr \<in> set (nfs_ranges self). range_matches (fs_id f) nr r"
    if "fst (get_range f price s') = Inr r" for price r
    using lookup [of price] that ours by blast
  have "\<exists>r. fst (get_range f (nfsr_min_price_in_cents nr) s') = Inr r \<and> range_matches (fs_id f) nr r"
    if nr: "nr \<in> set (nfs_ranges self)" for nr
  proof -
    let ?min = "nfsr_min_price_in_cents nr"
    obtain r where r: "r \<in> set rows" "range_matches (fs_id f) nr r"
      using that list_all2_left [OF matches nr] by blast
    then have min: "fsr_min_price_in_cents r = ?min" by (simp add: range_matches_def)
    have in_db: "r \<in> set (db_fee_schedule_ranges s')" "fsr_fee_schedule_id r = fs_id f"
      using ours [of r] r(1) by blast+
    have "\<not> (\<exists>e. fst (get_range f ?min s') = Inl e)" using lookup [of ?min] in_db min by force
    then obtain q where q: "fst (get_range f ?min s') = Inr q"
      by (cases "fst (get_range f ?min s')") blast+
    then have q_row: "q \<in> set (db_fee_schedule_ranges s')" "fsr_fee_schedule_id q = fs_id f"
      "fsr_min_price_in_cents q \<le> ?min" "fsr_min_price_in_cents r \<le> fsr_min_price_in_cents q"
      using lookup [of ?min] in_db min by auto
    have "inj_on (\<lambda>r. (fsr_fee_schedule_id r, fsr_min_price_in_cents r))
        (set (db_fee_schedule_ranges s'))" using dist by (simp add: distinct_map)
    from inj_onD [OF this, of q r] have "q = r" using in_db min q_row by simp
    with q r show ?thesis by blast
  qed
  with some rest fee_schedule_commit_version [OF run] show ?thesis by (auto simp: list_ex_iff)
qed

section \<open>A concrete schedule\<close>

definition sample_fees :: new_fee_schedule where
  "sample_fees = fee_schedule_create ''Standard''
     [\<lparr>nfsr_min_price_in_cents = 0, nfsr_company_fee_in_cents = 10, nfsr_client_fee_in_cents = 5\<rparr>,
      \<lparr>nfsr_min_price_in_cents = 1000, nfsr_company_fee_in_cents = 50, nfsr_client_fee_in_cents = 25\<rparr>]"

definition sample_ranges :: db where
  "sample_ranges = blank_db\<lparr>db_fee_schedule_ranges :=
     [fee_range_row 7 0 72 \<lparr>nfsr_min_price_in_cents = 1000, nfsr_company_fee_in_cents = 50,
        nfsr_client_fee_in_cents = 25\<rparr>,
      fee_range_row 7 0 71 \<lparr>nfsr_min_price_in_cents = 100, nfsr_company_fee_in_cents = 10,
        nfsr_client_fee_in_cents = 5\<rparr>]\<rparr>"

definition sample_schedule :: fee_schedule where
  "sample_schedule = \<lparr>fs_id = 7, fs_name = ''Standard'', fs_version = 0, fs_created_at = 0, fs_updated_at = 0\<rparr>"

theorem get_range_is_highest_reached_witness:
  "(\<exists>e. fst (get_range sample_schedule 99 sample_ranges) = Inl e \<and> err_error_code e = NoResults) \<and>
   (\<exists>r. fst (get_range sample_schedule 1500 sample_ranges) = Inr r \<and> fsr_min_price_in_cents r = 1000)"
  using get_range_is_highest_reached [of sample_schedule 99 sample_ranges]
    get_range_is_highest_reached [of sample_schedule 1500 sample_ranges]
  by (cases "fst (get_range sample_schedule 1500 sample_ranges)")
    (auto simp: sample_ranges_def sample_schedule_def fee_range_row_def blank_db_def)

theorem fee_schedule_charges_as_created_witness:
  "\<exists>f s' r. fee_schedule_commit sample_fees 20 blank_db = (Inr f, s') \<and>
     fst (get_range f 1000 s') = Inr r \<and> fsr_fee_in_cents r = 75"
proof -
  obtain f s' where run: "fee_schedule_commit sample_fees 20 blank_db = (Inr f, s')"
    by (simp add: fee_schedule_commit_def commit_fee_ranges_def sample_fees_def fee_schedule_create_def
        bindo_run ret_run insert_checked_run fee_schedule_violation_def insert_fee_ranges_def
        fee_range_row_def domain_event_commit_def blank_db_def)
  have "\<exists>r. fst (get_range f 1000 s') = Inr r \<and> fsr_fee_in_cents r = 75"
    using fee_schedule_charges_as_created [OF run]
    by (force simp: sample_fees_def fee_schedule_create_def range_matches_def blank_db_def)
  with run show ?thesis by blast
qed

end
