(* ===== verification/Order_Items.thy ===== *)
theory Order_Items imports Codes Fees begin

text \<open>
  Order items (\<open>db/src/models/order_items.rs\<close>): the constraints on them, as the SQL functions state
  them and as the code checks them before a statement, the fee item of a ticket item, and the
  refund of one unit. A method on \<open>&mut self\<close> whose caller drops the item returns its value only.
\<close>

section \<open>The constraints\<close>

text \<open>An SQL condition may be null, and evaluating it may fail.\<close>

type_synonym sql_bool = "diesel_error + bool option"

text \<open>A check constraint accepts null; \<open>get_result::<bool>\<close> cannot read it.\<close>

definition check_rejects :: "sql_bool \<Rightarrow> bool" where
  "check_rejects r = (case r of Inl e \<Rightarrow> True | Inr b \<Rightarrow> b = Some False)"

definition select_bool :: "sql_bool \<Rightarrow> error_code \<Rightarrow> string \<Rightarrow> bool dbop" where
  "select_bool r code message =
     lift_result (wrap code message
       (case r of Inl e \<Rightarrow> Inl e | Inr None \<Rightarrow> Inl OtherFailure | Inr (Some b) \<Rightarrow> Inr b))"

definition quantity_in_increments_sql ::
  "db \<Rightarrow> order_item_types \<Rightarrow> int \<Rightarrow> uuid option \<Rightarrow> sql_bool" where
  "quantity_in_increments_sql s item_type quantity ticket_pricing_id =
     (case [tt. tp \<leftarrow> db_ticket_pricing s, tt \<leftarrow> db_ticket_types s,
               Some (tp_id tp) = ticket_pricing_id \<and> tp_ticket_type_id tp = tt_id tt] of
        [] \<Rightarrow> Inr None
      | tt # _ \<Rightarrow>
          if item_type \<noteq> order_item_types.Tickets then Inr (Some True)
          else if tt_increment tt = 0 then Inl (DatabaseFailure OtherViolation)
          else Inr (Some (quantity mod tt_increment tt = 0)))"

text \<open>The subquery counts per other order that uses the code; more than one row is an error.\<close>

definition code_id_max_uses_sql :: "db \<Rightarrow> uuid \<Rightarrow> uuid option \<Rightarrow> sql_bool" where
  "code_id_max_uses_sql s order_id code_id =
     (case filter (\<lambda>n. n > 0) (map (\<lambda>o'. int (length (filter
             (\<lambda>oi. oi_order_id oi = o_id o' \<and> code_id \<noteq> None \<and> oi_code_id oi = code_id)
             (db_order_items s))))
           (filter (\<lambda>o'. o_id o' \<noteq> order_id) (db_orders s))) of
        [] \<Rightarrow> Inr None
      | [n] \<Rightarrow> Inr (map_option (\<lambda>c. c_max_uses c > n)
                 (find (\<lambda>c. Some (c_id c) = code_id) (db_codes s)))
      | _ \<Rightarrow> Inl (DatabaseFailure OtherViolation))"

definition code_id_max_tickets_per_user_sql ::
  "db \<Rightarrow> uuid \<Rightarrow> uuid \<Rightarrow> uuid option \<Rightarrow> int \<Rightarrow> sql_bool" where
  "code_id_max_tickets_per_user_sql s item_id order_id code_id quantity =
     Inr (map_option (\<lambda>c.
        unwrap_or (c_max_tickets_per_user c) (2 ^ 63 - 1) \<ge>
        sum_list [oi_quantity oi. oi \<leftarrow> db_order_items s, o' \<leftarrow> db_orders s, p \<leftarrow> db_orders s,
          o_id o' = oi_order_id oi \<and> oi_id oi \<noteq> item_id \<and> oi_code_id oi = code_id \<and>
          o_id p = order_id \<and> o_user_id o' = o_user_id p] + quantity)
       (find (\<lambda>c. Some (c_id c) = code_id) (db_codes s)))"

text \<open>A column that refers to another table is null or names a row.\<close>

definition refers :: "uuid option \<Rightarrow> ('r \<Rightarrow> uuid) \<Rightarrow> 'r list \<Rightarrow> bool" where
  "refers x key rs = (case x of None \<Rightarrow> True | Some i \<Rightarrow> list_ex (\<lambda>r. key r = i) rs)"

definition order_item_violation :: "db \<Rightarrow> order_item \<Rightarrow> db_error_kind option" where
  "order_item_violation s oi =
     (if (oi_ticket_type_id oi = None \<and> oi_item_type oi = order_item_types.Tickets) \<or>
         check_rejects (quantity_in_increments_sql s (oi_item_type oi) (oi_quantity oi)
           (oi_ticket_pricing_id oi)) \<or>
         check_rejects (code_id_max_uses_sql s (oi_order_id oi) (oi_code_id oi)) \<or>
         check_rejects (code_id_max_tickets_per_user_sql s (oi_id oi) (oi_order_id oi) (oi_code_id oi)
           (oi_quantity oi))
      then Some OtherViolation
      else if refers (Some (oi_order_id oi)) o_id (db_orders s) \<and>
         refers (oi_ticket_type_id oi) tt_id (db_ticket_types s) \<and>
         refers (oi_event_id oi) e_id (db_events s) \<and>
         refers (oi_ticket_pricing_id oi) tp_id (db_ticket_pricing s) \<and>
         refers (oi_fee_schedule_range_id oi) fsr_id (db_fee_schedule_ranges s) \<and>
         refers (oi_parent_id oi) oi_id (oi # db_order_items s) \<and>
         refers (oi_hold_id oi) h_id (db_holds s) \<and>
         refers (oi_code_id oi) c_id (db_codes s)
      then None else Some ForeignKeyViolation)"

section \<open>Finding items\<close>

definition find_fee_item :: "order_item \<Rightarrow> order_item option dbop" where
  "find_fee_item self = gets (\<lambda>s.
     find (\<lambda>oi. oi_parent_id oi = Some (oi_id self) \<and> oi_item_type oi = order_item_types.PerUnitFees)
       (db_order_items s))"

definition order_find :: "uuid \<Rightarrow> order_row dbop" where
  "order_find id' = first_where db_orders (\<lambda>o'. o_id o' = id') QueryError ''Could not find order''"

definition order_of :: "order_item \<Rightarrow> order_row dbop" where
  "order_of self = order_find (oi_order_id self)"

definition calculate_quantity :: "order_item \<Rightarrow> int dbop" where
  "calculate_quantity self = gets (\<lambda>s.
     int (length (filter (\<lambda>t. ti_order_item_id t = Some (oi_id self)) (db_ticket_instances s))))"

text \<open>The item types in the order of their texts; a null event comes last.\<close>

definition item_type_rank :: "order_item_types \<Rightarrow> nat" where
  "item_type_rank t = (case t of order_item_types.EventFees \<Rightarrow> 0 | order_item_types.PerUnitFees \<Rightarrow> 1
     | order_item_types.Tickets \<Rightarrow> 2)"

definition item_order :: "order_item \<Rightarrow> nat \<times> uuid \<times> nat" where
  "item_order oi = (case oi_event_id oi of None \<Rightarrow> (1, 0, item_type_rank (oi_item_type oi))
     | Some e \<Rightarrow> (0, e, item_type_rank (oi_item_type oi)))"

definition find_for_order :: "uuid \<Rightarrow> order_item list dbop" where
  "find_for_order order_id =
     gets (\<lambda>s. sort_key item_order (filter (\<lambda>oi. oi_order_id oi = order_id) (db_order_items s)))"

definition order_item_find :: "uuid \<Rightarrow> order_item dbop" where
  "order_item_find order_item_id =
     first_where db_order_items (\<lambda>oi. oi_id oi = order_item_id) QueryError ''Could not retrieve order item''"

definition find_in_order :: "uuid \<Rightarrow> uuid \<Rightarrow> order_item dbop" where
  "find_in_order order_id order_item_id =
     first_where db_order_items (\<lambda>oi. oi_order_id oi = order_id \<and> oi_id oi = order_item_id \<and>
       oi_item_type oi = order_item_types.Tickets) QueryError ''Could not retrieve order item''"

record display_order_item =
  doi_id :: uuid
  doi_parent_id :: "uuid option"
  doi_ticket_type_id :: "uuid option"
  doi_ticket_pricing_id :: "uuid option"
  doi_quantity :: int
  doi_refunded_quantity :: int
  doi_unit_price_in_cents :: int
  doi_item_type :: order_item_types
  doi_description :: string
  doi_redemption_code :: "string option"

text \<open>The joins of the display query; a missing name makes the description null, which cannot be
  read.\<close>

definition display_pricing :: "db \<Rightarrow> order_item \<Rightarrow> (ticket_pricing \<times> ticket_type) option" where
  "display_pricing s oi =
     (case [(tp, tt). tp \<leftarrow> db_ticket_pricing s, tt \<leftarrow> db_ticket_types s,
              tp_ticket_type_id tp = tt_id tt \<and> oi_ticket_pricing_id oi = Some (tp_id tp)] of
        [] \<Rightarrow> None | p # _ \<Rightarrow> Some p)"

definition item_description :: "db \<Rightarrow> order_item \<Rightarrow> string option" where
  "item_description s oi =
     (let event_name = map_option e_name (find (\<lambda>e. oi_event_id oi = Some (e_id e)) (db_events s));
          type_name = map_option (\<lambda>p. tt_name (snd p)) (display_pricing s oi) in
      case oi_item_type oi of
        order_item_types.PerUnitFees \<Rightarrow> Some ''Ticket Fees''
      | order_item_types.EventFees \<Rightarrow> map_option (\<lambda>n. ''Event Fees - '' @ n) event_name
      | order_item_types.Tickets \<Rightarrow>
          (case (event_name, type_name) of
             (Some n, Some t) \<Rightarrow> Some (n @ '' - '' @ t)
           | _ \<Rightarrow> None))"

definition display_row :: "db \<Rightarrow> order_item \<Rightarrow> string \<Rightarrow> display_order_item" where
  "display_row s oi description =
     \<lparr>doi_id = oi_id oi, doi_parent_id = oi_parent_id oi,
      doi_ticket_type_id = map_option (\<lambda>p. tt_id (snd p)) (display_pricing s oi),
      doi_ticket_pricing_id = map_option (\<lambda>p. tp_id (fst p)) (display_pricing s oi),
      doi_quantity = oi_quantity oi, doi_refunded_quantity = oi_refunded_quantity oi,
      doi_unit_price_in_cents = oi_unit_price_in_cents oi, doi_item_type = oi_item_type oi,
      doi_description = description,
      doi_redemption_code = map_option h_redemption_code
        (find (\<lambda>h. oi_hold_id oi = Some (h_id h)) (db_holds s))\<rparr>"

definition item_find_for_display :: "uuid \<Rightarrow> display_order_item list dbop" where
  "item_find_for_display order_id = (\<lambda>s.
     let items = rev (sort_key (\<lambda>oi. item_type_rank (oi_item_type oi))
           (filter (\<lambda>oi. oi_order_id oi = order_id) (db_order_items s))) in
     if list_ex (\<lambda>oi. item_description s oi = None) items
     then (wrap QueryError ''Could not load order items'' (Inl OtherFailure), s)
     else (Inr (map (\<lambda>oi. display_row s oi (the (item_description s oi))) items), s))"

section \<open>Validation before a statement\<close>

definition quantity_valid_increment ::
  "bool \<Rightarrow> order_item_types \<Rightarrow> int \<Rightarrow> uuid option \<Rightarrow> (validation_error + unit) dbop" where
  "quantity_valid_increment new_record item_type quantity ticket_pricing_id =
     (if item_type \<noteq> order_item_types.Tickets then ret (Inr ())
      else
        bindo (\<lambda>s. select_bool (quantity_in_increments_sql s item_type quantity ticket_pricing_id)
          (if new_record then InsertError else UpdateError)
          ''Could not confirm quantity increment valid'' s) (\<lambda>result.
        if \<not> result
        then ret (Inl (create_validation_error ''quantity_invalid_increment''
               ''Order item quantity invalid for ticket pricing increment''))
        else ret (Inr ())))"

definition code_id_max_tickets_per_user_valid ::
  "uuid option \<Rightarrow> uuid \<Rightarrow> uuid option \<Rightarrow> int \<Rightarrow> (validation_error + unit) dbop" where
  "code_id_max_tickets_per_user_valid id' order_id code_id quantity =
     (case code_id of
        None \<Rightarrow> ret (Inr ())
      | Some _ \<Rightarrow>
          bindo (\<lambda>s. select_bool (code_id_max_tickets_per_user_sql s (unwrap_or id' uuid_nil) order_id
              code_id quantity)
            (if id' = None then InsertError else UpdateError)
            ''Could not confirm code_id valid for max tickets per user'' s) (\<lambda>result.
          if \<not> result
          then ret (Inl (create_validation_error ''max_tickets_per_user_reached''
                 ''Redemption code maximum tickets limit exceeded''))
          else ret (Inr ())))"

definition code_id_max_uses_valid :: "uuid \<Rightarrow> uuid option \<Rightarrow> (validation_error + unit) dbop" where
  "code_id_max_uses_valid order_id code_id =
     (case code_id of
        None \<Rightarrow> ret (Inr ())
      | Some _ \<Rightarrow>
          bindo (\<lambda>s. select_bool (code_id_max_uses_sql s order_id code_id) InsertError
            ''Could not confirm code_id valid for max uses'' s) (\<lambda>result.
          if \<not> result
          then ret (Inl (create_validation_error ''max_uses_reached''
                 ''Redemption code maximum uses limit exceeded''))
          else ret (Inr ())))"

definition item_validate_record :: "order_item \<Rightarrow> unit dbop" where
  "item_validate_record self =
     bindo (quantity_valid_increment False (oi_item_type self) (oi_quantity self)
       (oi_ticket_pricing_id self)) (\<lambda>increment.
     bindo (code_id_max_tickets_per_user_valid (Some (oi_id self)) (oi_order_id self) (oi_code_id self)
       (oi_quantity self)) (\<lambda>per_user.
     check_validation (append_validation_error
       (append_validation_error (Inr ()) ''quantity'' increment) ''quantity'' per_user)))"

section \<open>Writing items\<close>

definition update_items ::
  "(order_item \<Rightarrow> bool) \<Rightarrow> (order_item \<Rightarrow> order_item) \<Rightarrow> string \<Rightarrow> nat dbop" where
  "update_items P f message =
     execute_checked db_order_items (\<lambda>rs s. s\<lparr>db_order_items := rs\<rparr>) order_item_violation P f
       UpdateError message"

text \<open>\<open>OrderItem::update\<close> writes the quantity and the unit price.\<close>

definition item_update :: "order_item \<Rightarrow> unit dbop" where
  "item_update self =
     bindo (item_validate_record self) (\<lambda>_.
     bindo (gets now) (\<lambda>n.
     bindo (update_items (\<lambda>oi. oi_id oi = oi_id self)
       (\<lambda>oi. oi\<lparr>oi_quantity := oi_quantity self, oi_unit_price_in_cents := oi_unit_price_in_cents self,
          oi_updated_at := n\<rparr>) ''Could not update order item'') (\<lambda>_. ret ())))"

record new_tickets_order_item =
  nto_order_id :: uuid
  nto_item_type :: order_item_types
  nto_event_id :: "uuid option"
  nto_quantity :: int
  nto_unit_price_in_cents :: int
  nto_ticket_type_id :: uuid
  nto_ticket_pricing_id :: uuid
  nto_hold_id :: "uuid option"
  nto_code_id :: "uuid option"

record new_fees_order_item =
  nfo_order_id :: uuid
  nfo_item_type :: order_item_types
  nfo_event_id :: "uuid option"
  nfo_quantity :: int
  nfo_fee_schedule_range_id :: "uuid option"
  nfo_unit_price_in_cents :: int
  nfo_company_fee_in_cents :: int
  nfo_client_fee_in_cents :: int
  nfo_parent_id :: "uuid option"

definition new_tickets_item_validate_record :: "new_tickets_order_item \<Rightarrow> unit dbop" where
  "new_tickets_item_validate_record self =
     bindo (quantity_valid_increment True (nto_item_type self) (nto_quantity self)
       (Some (nto_ticket_pricing_id self))) (\<lambda>increment.
     bindo (code_id_max_tickets_per_user_valid None (nto_order_id self) (nto_code_id self)
       (nto_quantity self)) (\<lambda>per_user.
     bindo (code_id_max_uses_valid (nto_order_id self) (nto_code_id self)) (\<lambda>uses.
     check_validation (append_validation_error (append_validation_error
       (append_validation_error (Inr ()) ''quantity'' increment) ''quantity'' per_user)
       ''code_id'' uses))))"

definition insert_item :: "order_item \<Rightarrow> order_item dbop" where
  "insert_item oi =
     insert_checked db_order_items (\<lambda>rs s. s\<lparr>db_order_items := rs\<rparr>) order_item_violation oi
       InsertError ''Could not create order item''"

definition tickets_item_row :: "new_tickets_order_item \<Rightarrow> uuid \<Rightarrow> timestamp \<Rightarrow> order_item" where
  "tickets_item_row self id' n =
     \<lparr>oi_id = id', oi_order_id = nto_order_id self, oi_item_type = nto_item_type self,
      oi_ticket_type_id = Some (nto_ticket_type_id self), oi_event_id = nto_event_id self,
      oi_quantity = nto_quantity self, oi_unit_price_in_cents = nto_unit_price_in_cents self,
      oi_created_at = n, oi_updated_at = n,
      oi_ticket_pricing_id = Some (nto_ticket_pricing_id self), oi_fee_schedule_range_id = None,
      oi_parent_id = None, oi_hold_id = nto_hold_id self, oi_code_id = nto_code_id self,
      oi_company_fee_in_cents = 0, oi_client_fee_in_cents = 0, oi_refunded_quantity = 0\<rparr>"

definition fees_item_row :: "new_fees_order_item \<Rightarrow> uuid \<Rightarrow> timestamp \<Rightarrow> order_item" where
  "fees_item_row self id' n =
     \<lparr>oi_id = id', oi_order_id = nfo_order_id self, oi_item_type = nfo_item_type self,
      oi_ticket_type_id = None, oi_event_id = nfo_event_id self, oi_quantity = nfo_quantity self,
      oi_unit_price_in_cents = nfo_unit_price_in_cents self, oi_created_at = n, oi_updated_at = n,
      oi_ticket_pricing_id = None, oi_fee_schedule_range_id = nfo_fee_schedule_range_id self,
      oi_parent_id = nfo_parent_id self, oi_hold_id = None, oi_code_id = None,
      oi_company_fee_in_cents = nfo_company_fee_in_cents self,
      oi_client_fee_in_cents = nfo_client_fee_in_cents self, oi_refunded_quantity = 0\<rparr>"

definition tickets_item_commit :: "new_tickets_order_item \<Rightarrow> order_item dbop" where
  "tickets_item_commit self =
     bindo (new_tickets_item_validate_record self) (\<lambda>_.
     bindo draw_uuid (\<lambda>id'.
     bindo (gets now) (\<lambda>n. insert_item (tickets_item_row self id' n))))"

definition fees_item_commit :: "new_fees_order_item \<Rightarrow> order_item dbop" where
  "fees_item_commit self =
     bindo draw_uuid (\<lambda>id'. bindo (gets now) (\<lambda>n. insert_item (fees_item_row self id' n)))"

text \<open>\<open>Order::destroy_item\<close>: the children go first. Tickets, refunds and child items may refer to
  an item.\<close>

definition item_referenced :: "(order_item \<Rightarrow> bool) \<Rightarrow> db \<Rightarrow> order_item \<Rightarrow> bool" where
  "item_referenced P s oi \<longleftrightarrow>
     list_ex (\<lambda>t. ti_order_item_id t = Some (oi_id oi)) (db_ticket_instances s) \<or>
     list_ex (\<lambda>r. rt_order_item_id r = oi_id oi) (db_refunded_tickets s) \<or>
     list_ex (\<lambda>c. oi_parent_id c = Some (oi_id oi) \<and> \<not> P c) (db_order_items s)"

definition delete_items :: "(order_item \<Rightarrow> bool) \<Rightarrow> string \<Rightarrow> nat dbop" where
  "delete_items P message =
     delete_checked db_order_items (\<lambda>rs s. s\<lparr>db_order_items := rs\<rparr>) (item_referenced P) P
       DeleteError message"

definition destroy_item :: "order_row \<Rightarrow> uuid \<Rightarrow> unit dbop" where
  "destroy_item self item_id =
     (if o_status self \<noteq> order_status.Draft
      then business_process_error ''Cannot delete an order item for an order that is not in draft''
      else
        bindo (delete_items (\<lambda>oi. oi_parent_id oi = Some item_id) ''Could not delete child order item'') (\<lambda>_.
        bindo (delete_items (\<lambda>oi. oi_id oi = item_id) ''Could not delete order item'') (\<lambda>_. ret ())))"

section \<open>Fees of an item\<close>

text \<open>The match on the fee item: it follows the item's quantity, or is created.\<close>

definition put_fee_item :: "order_item \<Rightarrow> order_item option \<Rightarrow> fee_schedule_range \<Rightarrow> unit dbop" where
  "put_fee_item self fee_item fee_range =
     (case fee_item of
        Some f \<Rightarrow>
          item_update (f\<lparr>oi_quantity := oi_quantity self,
            oi_unit_price_in_cents := fsr_fee_in_cents fee_range,
            oi_company_fee_in_cents := fsr_company_fee_in_cents fee_range,
            oi_client_fee_in_cents := fsr_client_fee_in_cents fee_range\<rparr>)
      | None \<Rightarrow>
          bindo (fees_item_commit \<lparr>nfo_order_id = oi_order_id self,
            nfo_item_type = order_item_types.PerUnitFees, nfo_event_id = oi_event_id self,
            nfo_quantity = oi_quantity self, nfo_fee_schedule_range_id = Some (fsr_id fee_range),
            nfo_unit_price_in_cents = fsr_fee_in_cents fee_range,
            nfo_company_fee_in_cents = fsr_company_fee_in_cents fee_range,
            nfo_client_fee_in_cents = fsr_client_fee_in_cents fee_range,
            nfo_parent_id = Some (oi_id self)\<rparr>) (\<lambda>_. ret ()))"

definition destroy_fee_item :: "order_row \<Rightarrow> order_item option \<Rightarrow> unit dbop" where
  "destroy_fee_item order fee_item =
     (case fee_item of Some f \<Rightarrow> destroy_item order (oi_id f) | None \<Rightarrow> ret ())"

definition is_comp :: "uuid option \<Rightarrow> bool dbop" where
  "is_comp hold_id =
     (case hold_id of
        None \<Rightarrow> ret False
      | Some h \<Rightarrow> bindo (hold_find h) (\<lambda>hold. ret (h_hold_type hold = hold_types.Comp)))"

definition item_update_fees :: "order_item \<Rightarrow> order_row \<Rightarrow> unit dbop" where
  "item_update_fees self order =
     (if oi_item_type self = order_item_types.PerUnitFees \<or> oi_item_type self = order_item_types.EventFees
      then ret ()
      else
        bindo (find_fee_item self) (\<lambda>fee_item.
        bindo (case oi_ticket_type_id self of
                 Some ticket_type_id \<Rightarrow> ticket_type_find ticket_type_id
               | None \<Rightarrow> no_results ''Order item does not have a valid ticket type'') (\<lambda>ticket_type.
        bindo (ticket_type_fee_schedule ticket_type) (\<lambda>schedule.
        bindo (fee_schedule_ranges schedule) (\<lambda>ranges.
        if (case ranges of [] \<Rightarrow> False
            | r # _ \<Rightarrow> oi_unit_price_in_cents self \<ge> fsr_min_price_in_cents r)
        then
          bindo (ticket_type_fee_schedule ticket_type) (\<lambda>schedule.
          bindo (get_range schedule (oi_unit_price_in_cents self)) (\<lambda>fee_range.
          bindo (is_comp (oi_hold_id self)) (\<lambda>comp.
          if comp then destroy_fee_item order fee_item
          else put_fee_item self fee_item fee_range)))
        else destroy_fee_item order fee_item)))))"

section \<open>Refunding a unit\<close>

text \<open>The body of \<open>refund_one_unit\<close>, with the recursive call on the fee item as a parameter. The
  query for the fee item finds items of type \<open>PerUnitFees\<close> only, which have no fee item of their
  own, so the recursion is one level deep: \<open>refund_one_unit\<close> is a fixed point of its body
  (\<open>refund_one_unit_recursion\<close>).\<close>

definition unit_refund_amount ::
  "(order_item \<Rightarrow> bool \<Rightarrow> u32 dbop) \<Rightarrow> order_item \<Rightarrow> bool \<Rightarrow> int dbop" where
  "unit_refund_amount rec self refund_fees =
     (if refund_fees \<and> oi_item_type self = order_item_types.Tickets
      then
        bindo (find_fee_item self) (\<lambda>fee_item.
          case fee_item of
            Some f \<Rightarrow> bindo (rec f True) (\<lambda>fee. ret (oi_unit_price_in_cents self + as_i64 fee))
          | None \<Rightarrow> ret (oi_unit_price_in_cents self))
      else ret (oi_unit_price_in_cents self))"

text \<open>The update of the item, which writes the incremented count of the copy.\<close>

definition store_refunded_unit :: "order_item \<Rightarrow> int \<Rightarrow> u32 dbop" where
  "store_refunded_unit self refund_amount_in_cents =
     bindo (gets now) (\<lambda>n.
     bindo (update_items (\<lambda>oi. oi_id oi = oi_id self)
       (\<lambda>oi. oi\<lparr>oi_updated_at := n, oi_refunded_quantity := oi_refunded_quantity self + 1\<rparr>)
       ''Could not refund ticket instance'') (\<lambda>_.
     ret (as_u32 refund_amount_in_cents)))"

definition refund_body ::
  "(order_item \<Rightarrow> bool \<Rightarrow> u32 dbop) \<Rightarrow> order_item \<Rightarrow> bool \<Rightarrow> u32 dbop" where
  "refund_body rec self refund_fees =
     bindo (order_of self) (\<lambda>order.
     if o_status order \<notin> {order_status.Paid, order_status.PartiallyPaid}
     then business_process_error ''Order item must have associated paid order to refund unit''
     else if oi_refunded_quantity self = oi_quantity self
     then business_process_error
       ''Order item refund failed as requested refund quantity exceeds remaining quantity''
     else
       bindo (unit_refund_amount rec self refund_fees) (store_refunded_unit self))"

definition refund_fee_unit :: "order_item \<Rightarrow> bool \<Rightarrow> u32 dbop" where
  "refund_fee_unit = refund_body (\<lambda>_ _. ret 0)"

definition refund_one_unit :: "order_item \<Rightarrow> bool \<Rightarrow> u32 dbop" where
  "refund_one_unit = refund_body refund_fee_unit"

end
