(* ===== verification/Payments.thy ===== *)
theory Payments imports Order_Items begin

text \<open>
  Payments (\<open>db/src/models/payments.rs\<close>), the records of refunded tickets
  (\<open>db/src/models/refunded_tickets.rs\<close>) and wallets (\<open>db/src/models/wallets.rs\<close>). Completing a
  payment completes its order and is in theory \<open>Orders\<close>.
\<close>

section \<open>Payments\<close>

record new_payment =
  np_order_id :: uuid
  np_created_by :: uuid
  np_status :: payment_status
  np_payment_method :: payment_methods
  np_external_reference :: "string option"
  np_amount :: int
  np_provider :: string
  np_raw_data :: "json option"

definition payment_create ::
  "uuid \<Rightarrow> uuid \<Rightarrow> payment_status \<Rightarrow> payment_methods \<Rightarrow> string \<Rightarrow> string option \<Rightarrow> int \<Rightarrow>
   json option \<Rightarrow> new_payment"
where
  "payment_create order_id created_by status payment_method provider external_reference amount raw_data =
     \<lparr>np_order_id = order_id, np_created_by = created_by, np_status = status,
      np_payment_method = payment_method, np_external_reference = external_reference,
      np_amount = amount, np_provider = provider, np_raw_data = raw_data\<rparr>"

text \<open>The schema asks for a reference of an external payment.\<close>

definition payment_violation :: "db \<Rightarrow> payment \<Rightarrow> db_error_kind option" where
  "payment_violation s p =
     (if p_external_reference p = None \<and> p_payment_method p = payment_methods.External
      then Some OtherViolation
      else if refers (Some (p_order_id p)) o_id (db_orders s) \<and>
        refers (Some (p_created_by p)) u_id (db_users s)
      then None else Some ForeignKeyViolation)"

definition payment_row :: "new_payment \<Rightarrow> uuid \<Rightarrow> timestamp \<Rightarrow> payment" where
  "payment_row self id' n =
     \<lparr>p_id = id', p_order_id = np_order_id self, p_created_by = np_created_by self,
      p_status = np_status self, p_payment_method = np_payment_method self,
      p_amount = np_amount self, p_provider = np_provider self,
      p_external_reference = np_external_reference self, p_raw_data = np_raw_data self,
      p_created_at = n, p_updated_at = n\<rparr>"

definition payment_commit :: "new_payment \<Rightarrow> uuid \<Rightarrow> payment dbop" where
  "payment_commit self current_user_id =
     bindo draw_uuid (\<lambda>id'.
     bindo (gets now) (\<lambda>n.
     bindo (insert_checked db_payments (\<lambda>rs s. s\<lparr>db_payments := rs\<rparr>) payment_violation
       (payment_row self id' n) InsertError ''Could not create payment'') (\<lambda>res.
     bindo (domain_event_commit (domain_event_create domain_event_types.PaymentCreated
       ''Payment created'' tables.Payments (Some (p_id res)) (Some current_user_id)
       (np_raw_data self))) (\<lambda>_.
     ret res))))"

definition log_refund :: "payment \<Rightarrow> uuid \<Rightarrow> u32 \<Rightarrow> json option \<Rightarrow> unit dbop" where
  "log_refund self current_user_id refund_amount refund_data =
     bindo (payment_commit (payment_create (p_order_id self) (p_created_by self) payment_status.Refunded
       (p_payment_method self) (p_provider self) (p_external_reference self)
       (- as_i64 refund_amount) refund_data) current_user_id) (\<lambda>_.
     bindo (domain_event_commit (domain_event_create domain_event_types.PaymentRefund
       ''Payment was refunded'' tables.Payments (Some (p_id self)) (Some current_user_id)
       refund_data)) (\<lambda>_. ret ()))"

section \<open>Refunded tickets\<close>

record new_refunded_ticket =
  nrt_order_item_id :: uuid
  nrt_ticket_instance_id :: uuid

definition refunded_ticket_create :: "uuid \<Rightarrow> uuid \<Rightarrow> new_refunded_ticket" where
  "refunded_ticket_create order_item_id ticket_instance_id =
     \<lparr>nrt_order_item_id = order_item_id, nrt_ticket_instance_id = ticket_instance_id\<rparr>"

definition refunded_ticket_violation :: "db \<Rightarrow> refunded_ticket \<Rightarrow> db_error_kind option" where
  "refunded_ticket_violation s r =
     (if refers (Some (rt_order_item_id r)) oi_id (db_order_items s) \<and>
        refers (Some (rt_ticket_instance_id r)) ti_id (db_ticket_instances s)
      then None else Some ForeignKeyViolation)"

definition refunded_ticket_commit :: "new_refunded_ticket \<Rightarrow> refunded_ticket dbop" where
  "refunded_ticket_commit self =
     bindo draw_uuid (\<lambda>id'.
     bindo (gets now) (\<lambda>n.
       insert_checked db_refunded_tickets (\<lambda>rs s. s\<lparr>db_refunded_tickets := rs\<rparr>)
         refunded_ticket_violation
         \<lparr>rt_id = id', rt_order_item_id = nrt_order_item_id self,
          rt_ticket_instance_id = nrt_ticket_instance_id self, rt_fee_refunded_at = None,
          rt_ticket_refunded_at = None, rt_created_at = n, rt_updated_at = n\<rparr>
         InsertError ''Could not insert refunded ticket''))"

definition find_by_ticket_instance_ids :: "uuid list \<Rightarrow> refunded_ticket list dbop" where
  "find_by_ticket_instance_ids ticket_instance_ids =
     select_where db_refunded_tickets (\<lambda>r. rt_ticket_instance_id r \<in> set ticket_instance_ids)"

text \<open>The argument of \<open>unwrap_or\<close> is evaluated first, so a row is created in every case.\<close>

definition find_or_create_by_ticket_instance :: "ticket_instance \<Rightarrow> refunded_ticket dbop" where
  "find_or_create_by_ticket_instance ticket_instance =
     (case ti_order_item_id ticket_instance of
        Some order_item_id \<Rightarrow>
          bindo (gets (\<lambda>s. find (\<lambda>r. rt_ticket_instance_id r = ti_id ticket_instance)
            (db_refunded_tickets s))) (\<lambda>refunded_ticket.
          bindo (refunded_ticket_commit (refunded_ticket_create order_item_id (ti_id ticket_instance)))
            (\<lambda>created. ret (unwrap_or refunded_ticket created)))
      | None \<Rightarrow> business_process_error ''Ticket must have an associated order item id to be refunded'')"

definition mark_refunded :: "refunded_ticket \<Rightarrow> bool \<Rightarrow> refunded_ticket dbop" where
  "mark_refunded self just_fee =
     bindo (gets utc_now) (\<lambda>updated_at.
     let ticket_refunded_at = (if \<not> just_fee \<and> rt_ticket_refunded_at self = None then Some updated_at
           else rt_ticket_refunded_at self);
         fee_refunded_at = (if rt_fee_refunded_at self = None then Some updated_at
           else rt_fee_refunded_at self) in
     bindo (execute_update db_refunded_tickets (\<lambda>rs s. s\<lparr>db_refunded_tickets := rs\<rparr>)
       (\<lambda>r. rt_id r = rt_id self)
       (\<lambda>r. r\<lparr>rt_updated_at := updated_at, rt_fee_refunded_at := fee_refunded_at,
          rt_ticket_refunded_at := ticket_refunded_at\<rparr>)) (\<lambda>_.
     ret (self\<lparr>rt_updated_at := updated_at, rt_fee_refunded_at := fee_refunded_at,
          rt_ticket_refunded_at := ticket_refunded_at\<rparr>)))"

section \<open>Wallets\<close>

record new_wallet =
  nw_user_id :: "uuid option"
  nw_organization_id :: "uuid option"
  nw_name :: string
  nw_secret_key :: string
  nw_public_key :: string
  nw_default_flag :: bool

text \<open>The unique index on user, organization and name never applies, since one of the two is null.\<close>

definition wallet_violation :: "db \<Rightarrow> wallet \<Rightarrow> db_error_kind option" where
  "wallet_violation s w =
     (if w_user_id w = None \<and> w_organization_id w = None then Some OtherViolation
      else if list_ex (\<lambda>v. w_user_id w \<noteq> None \<and> w_organization_id w \<noteq> None \<and>
           w_user_id v = w_user_id w \<and> w_organization_id v = w_organization_id w \<and>
           w_name v = w_name w) (db_wallets s) then Some UniqueViolation
      else if refers (w_user_id w) u_id (db_users s) \<and>
        refers (w_organization_id w) org_id (db_organizations s)
      then None else Some ForeignKeyViolation)"

definition wallet_row :: "new_wallet \<Rightarrow> uuid \<Rightarrow> timestamp \<Rightarrow> wallet" where
  "wallet_row self id' n =
     \<lparr>w_id = id', w_user_id = nw_user_id self, w_organization_id = nw_organization_id self,
      w_name = nw_name self, w_secret_key = nw_secret_key self, w_public_key = nw_public_key self,
      w_default_flag = nw_default_flag self, w_created_at = n, w_updated_at = n\<rparr>"

definition wallet_commit :: "new_wallet \<Rightarrow> wallet dbop" where
  "wallet_commit self =
     bindo draw_uuid (\<lambda>id'.
     bindo (gets now) (\<lambda>n.
       insert_checked db_wallets (\<lambda>rs s. s\<lparr>db_wallets := rs\<rparr>) wallet_violation
         (wallet_row self id' n) InsertError ''Could not create wallet''))"

definition wallet_find :: "uuid \<Rightarrow> wallet dbop" where
  "wallet_find id' = first_where db_wallets (\<lambda>w. w_id w = id') QueryError ''Could not find wallet''"

definition find_wallets_for_organization :: "uuid \<Rightarrow> wallet list dbop" where
  "find_wallets_for_organization organization_id =
     select_where db_wallets (\<lambda>w. w_organization_id w = Some organization_id)"

definition create_wallet_for_user :: "uuid \<Rightarrow> string \<Rightarrow> bool \<Rightarrow> wallet dbop" where
  "create_wallet_for_user user_id name force =
     bindo draw_keypair (\<lambda>(secret_key, public_key).
     bindo (if \<not> force
            then bindo (find_wallets_for_user user_id) (\<lambda>wallets. ret (length wallets = 0))
            else ret True) (\<lambda>default_flag.
     wallet_commit \<lparr>nw_user_id = Some user_id, nw_organization_id = None, nw_name = name,
       nw_secret_key = secret_key, nw_public_key = public_key, nw_default_flag = default_flag\<rparr>))"

definition create_wallet_for_organization :: "uuid \<Rightarrow> string \<Rightarrow> wallet dbop" where
  "create_wallet_for_organization organization_id name =
     bindo draw_keypair (\<lambda>(secret_key, public_key).
     bindo (find_wallets_for_organization organization_id) (\<lambda>wallets.
     wallet_commit \<lparr>nw_user_id = None, nw_organization_id = Some organization_id, nw_name = name,
       nw_secret_key = secret_key, nw_public_key = public_key,
       nw_default_flag = (length wallets = 0)\<rparr>))"

text \<open>The loop for the default wallet: the first one flagged, or the first one.\<close>

definition default_or_first :: "wallet \<Rightarrow> wallet list \<Rightarrow> wallet" where
  "default_or_first w ws = (case find w_default_flag (w # ws) of Some d \<Rightarrow> d | None \<Rightarrow> w)"

definition find_default_for_user :: "uuid \<Rightarrow> wallet dbop" where
  "find_default_for_user user_id =
     bindo (find_wallets_for_user user_id) (\<lambda>wallets.
       case wallets of
         w # ws \<Rightarrow> ret (default_or_first w ws)
       | [] \<Rightarrow> create_wallet_for_user user_id ''Default'' True)"

definition find_default_for_organization :: "uuid \<Rightarrow> wallet dbop" where
  "find_default_for_organization organization_id =
     bindo (find_wallets_for_organization organization_id) (\<lambda>wallets.
       case wallets of
         w # ws \<Rightarrow> ret (default_or_first w ws)
       | [] \<Rightarrow> create_wallet_for_organization organization_id ''Default'')"

end
