(* ===== verification/Orders.thy ===== *)
theory Orders imports Payments begin

text \<open>
  Orders (\<open>db/src/models/orders.rs\<close>): carts and their expiry, the optimistic lock on the version,
  the quantities of a cart, fees, totals, payments and the completion of an order, refunds. A method
  on \<open>&mut self\<close> returns the updated order beside its value. Also the one method of a user that
  carts need (\<open>update_last_cart\<close> of \<open>users.rs\<close>) and the completion of a payment
  (\<open>payments.rs\<close>).
\<close>

section \<open>The cart of a user\<close>

definition update_users :: "(user_row \<Rightarrow> bool) \<Rightarrow> (user_row \<Rightarrow> user_row) \<Rightarrow> nat dbop" where
  "update_users P f = execute_update db_users (\<lambda>rs s. s\<lparr>db_users := rs\<rparr>) P f"

definition update_last_cart :: "user_row \<Rightarrow> uuid option \<Rightarrow> unit dbop" where
  "update_last_cart self new_cart_id =
     bindo (gets now) (\<lambda>n.
     bindo (update_users
       (\<lambda>u. u_id u = u_id self \<and> u_updated_at u = u_updated_at self \<and> u_last_cart_id u = u_last_cart_id self)
       (\<lambda>u. u\<lparr>u_last_cart_id := new_cart_id, u_updated_at := n\<rparr>)) (\<lambda>rows_affected.
     if rows_affected = 1 then ret ()
     else concurrency_error
       ''Could not update last cart on user because the row has been changed by another source''))"

definition clear_cart_user :: "order_row \<Rightarrow> unit dbop" where
  "clear_cart_user self =
     bindo (gets (\<lambda>s. find (\<lambda>u. u_last_cart_id u = Some (o_id self)) (db_users s))) (\<lambda>cart_user.
       case cart_user of
         Some user \<Rightarrow> update_last_cart user None
       | None \<Rightarrow> ret ())"

definition update_orders :: "(order_row \<Rightarrow> bool) \<Rightarrow> (order_row \<Rightarrow> order_row) \<Rightarrow> nat dbop" where
  "update_orders P f = execute_update db_orders (\<lambda>rs s. s\<lparr>db_orders := rs\<rparr>) P f"

record new_order =
  no_user_id :: uuid
  no_status :: order_status
  no_expires_at :: "timestamp option"
  no_order_type :: order_types

definition order_violation :: "db \<Rightarrow> order_row \<Rightarrow> db_error_kind option" where
  "order_violation s o' =
     (if refers (Some (o_user_id o')) u_id (db_users s) \<and>
        refers (o_on_behalf_of_user_id o') u_id (db_users s)
      then None else Some ForeignKeyViolation)"

definition order_row_of :: "new_order \<Rightarrow> uuid \<Rightarrow> timestamp \<Rightarrow> order_row" where
  "order_row_of self id' n =
     \<lparr>o_id = id', o_user_id = no_user_id self, o_status = no_status self,
      o_order_type = no_order_type self, o_order_date = n, o_expires_at = no_expires_at self,
      o_version = 0, o_note = None, o_on_behalf_of_user_id = None, o_created_at = n,
      o_updated_at = n, o_paid_at = None, o_box_office_pricing = False\<rparr>"

definition order_commit :: "new_order \<Rightarrow> order_row dbop" where
  "order_commit self =
     bindo draw_uuid (\<lambda>id'.
     bindo (gets now) (\<lambda>n.
       insert_checked db_orders (\<lambda>rs s. s\<lparr>db_orders := rs\<rparr>) order_violation (order_row_of self id' n)
         InsertError ''Could not create new order''))"

definition find_cart_for_user :: "uuid \<Rightarrow> order_row option dbop" where
  "find_cart_for_user user_id = gets (\<lambda>s.
     case [o'. u \<leftarrow> db_users s, o' \<leftarrow> db_orders s,
             u_last_cart_id u = Some (o_id o') \<and> u_id u = user_id \<and> o_user_id o' = user_id \<and>
             o_status o' = order_status.Draft \<and> o_order_type o' = order_types.Cart \<and>
             (case o_expires_at o' of None \<Rightarrow> True | Some e \<Rightarrow> e \<ge> now s)] of
       [] \<Rightarrow> None | o' # _ \<Rightarrow> Some o')"

text \<open>The insert that does nothing when another cart of the user is alive.\<close>

definition insert_cart :: "uuid \<Rightarrow> uuid list dbop" where
  "insert_cart user_id = (\<lambda>s.
     if list_ex (\<lambda>o'. o_user_id o' = user_id \<and> o_status o' = order_status.Draft \<and>
          o_order_type o' = order_types.Cart \<and>
          (case o_expires_at o' of None \<Rightarrow> False | Some e \<Rightarrow> e > now s)) (db_orders s)
     then (Inr [], s)
     else bindo draw_uuid (\<lambda>id'.
       bindo (gets now) (\<lambda>n.
       bindo (insert_checked db_orders (\<lambda>rs s. s\<lparr>db_orders := rs\<rparr>) order_violation
         (order_row_of \<lparr>no_user_id = user_id, no_status = order_status.Draft, no_expires_at = None,
            no_order_type = order_types.Cart\<rparr> id' n)
         QueryError ''Could not find or create cart'') (\<lambda>o'. ret [o_id o']))) s)"

definition find_or_create_cart :: "user_row \<Rightarrow> order_row dbop" where
  "find_or_create_cart user =
     bindo (find_cart_for_user (u_id user)) (\<lambda>cart.
       case cart of
         Some cart \<Rightarrow> ret cart
       | None \<Rightarrow>
           bindo (insert_cart (u_id user)) (\<lambda>cart_id.
             case cart_id of
               [c] \<Rightarrow> bindo (update_last_cart user (Some c)) (\<lambda>_. order_find c)
             | _ \<Rightarrow> concurrency_error
                 ''Possible race condition when creating a cart for a user. Number of carts returned: 0''))"

text \<open>Deleting an order deletes its items, unless something else refers to them or to it.\<close>

definition order_referenced :: "db \<Rightarrow> order_row \<Rightarrow> bool" where
  "order_referenced s o' \<longleftrightarrow>
     list_ex (\<lambda>p. p_order_id p = o_id o') (db_payments s) \<or>
     list_ex (\<lambda>u. u_last_cart_id u = Some (o_id o')) (db_users s) \<or>
     list_ex (\<lambda>oi. oi_order_id oi = o_id o' \<and>
       item_referenced (\<lambda>c. oi_order_id c = o_id o') s oi) (db_order_items s)"

definition order_destroy :: "order_row \<Rightarrow> nat dbop" where
  "order_destroy self =
     bindo (clear_cart_user self) (\<lambda>_.
     bindo (delete_checked db_orders (\<lambda>rs s. s\<lparr>db_orders := rs\<rparr>) order_referenced
       (\<lambda>o'. o_id o' = o_id self) DeleteError ''Failed to delete order record'') (\<lambda>n.
     bindo (delete_where db_order_items (\<lambda>rs s. s\<lparr>db_order_items := rs\<rparr>)
       (\<lambda>oi. oi_order_id oi = o_id self)) (\<lambda>_. ret n)))"

section \<open>Expiry and the version\<close>

definition cart_expiry_time_minutes :: int where
  "cart_expiry_time_minutes = 15"

definition set_expiry :: "order_row \<Rightarrow> order_row dbop" where
  "set_expiry self =
     bindo (gets utc_now) (\<lambda>utc.
     let expires_at = Some (utc + minutes cart_expiry_time_minutes) in
     bindo (update_orders
       (\<lambda>o'. o_id o' = o_id self \<and> o_version o' = o_version self \<and> o_expires_at o' = None)
       (\<lambda>o'. o'\<lparr>o_expires_at := expires_at, o_updated_at := utc\<rparr>)) (\<lambda>affected_rows.
     if affected_rows \<noteq> 1 then concurrency_error ''Could not update expiry time.''
     else ret (self\<lparr>o_expires_at := expires_at, o_updated_at := utc\<rparr>)))"

definition remove_expiry :: "order_row \<Rightarrow> order_row dbop" where
  "remove_expiry self =
     bindo (gets utc_now) (\<lambda>utc.
     bindo (update_orders
       (\<lambda>o'. o_id o' = o_id self \<and> o_version o' = o_version self \<and>
          (case o_expires_at o' of None \<Rightarrow> True | Some e \<Rightarrow> e > utc))
       (\<lambda>o'. o'\<lparr>o_expires_at := None, o_updated_at := utc\<rparr>)) (\<lambda>affected_rows.
     if affected_rows \<noteq> 1 then concurrency_error ''Could not update expiry time.''
     else ret (self\<lparr>o_expires_at := None, o_updated_at := utc\<rparr>)))"

definition lock_version :: "order_row \<Rightarrow> order_row dbop" where
  "lock_version self =
     bindo (gets now) (\<lambda>n.
     bindo (update_orders (\<lambda>o'. o_id o' = o_id self \<and> o_version o' = o_version self)
       (\<lambda>o'. o'\<lparr>o_version := o_version self + 1, o_updated_at := n\<rparr>)) (\<lambda>rows_affected.
     if rows_affected = 0
     then concurrency_error ''Could not lock order, another process has updated it''
     else ret (self\<lparr>o_version := o_version self + 1\<rparr>)))"

section \<open>Reading an order\<close>

fun hex_string :: "nat \<Rightarrow> nat \<Rightarrow> string" where
  "hex_string 0 n = []"
| "hex_string (Suc w) n = hex_string w (n div 16) @ [''0123456789abcdef'' ! (n mod 16)]"

definition uuid_to_string :: "uuid \<Rightarrow> string" where
  "uuid_to_string i =
     hex_string 8 (i div 2 ^ 96) @ ''-'' @ hex_string 4 (i div 2 ^ 80) @ ''-'' @
     hex_string 4 (i div 2 ^ 64) @ ''-'' @ hex_string 4 (i div 2 ^ 48) @ ''-'' @ hex_string 12 i"

definition parse_order_number :: "uuid \<Rightarrow> string" where
  "parse_order_number i = drop (length (uuid_to_string i) - 8) (uuid_to_string i)"

definition order_number :: "order_row \<Rightarrow> string" where
  "order_number self = parse_order_number (o_id self)"

definition order_items :: "order_row \<Rightarrow> order_item list dbop" where
  "order_items self = find_for_order (o_id self)"

definition has_items :: "order_row \<Rightarrow> bool dbop" where
  "has_items self = gets (\<lambda>s. list_ex (\<lambda>oi. oi_order_id oi = o_id self) (db_order_items s))"

definition order_payments :: "order_row \<Rightarrow> payment list dbop" where
  "order_payments self = select_where db_payments (\<lambda>p. p_order_id p = o_id self)"

definition order_organizations :: "order_row \<Rightarrow> organization list dbop" where
  "order_organizations self = gets (\<lambda>s.
     sort_key (\<lambda>g. collate s (org_name g)) (remdups
       [g. g \<leftarrow> db_organizations s, e \<leftarrow> db_events s, oi \<leftarrow> db_order_items s,
         e_organization_id e = org_id g \<and> oi_event_id oi = Some (e_id e) \<and>
         oi_order_id oi = o_id self]))"

definition order_tickets :: "order_row \<Rightarrow> uuid \<Rightarrow> ticket_instance list dbop" where
  "order_tickets self ticket_type_id =
     bindo (order_items self) (\<lambda>items.
       fold_op (\<lambda>t result. bindo (find_for_order_item (oi_id t)) (\<lambda>instances. ret (result @ instances)))
         (filter (\<lambda>ci. oi_item_type ci = order_item_types.Tickets \<and>
            oi_ticket_type_id ci = Some ticket_type_id) items) [])"

definition find_item :: "order_row \<Rightarrow> uuid \<Rightarrow> order_item dbop" where
  "find_item self cart_item_id = find_in_order (o_id self) cart_item_id"

definition find_item_by_type :: "order_row \<Rightarrow> uuid \<Rightarrow> order_item_types \<Rightarrow> order_item dbop" where
  "find_item_by_type self ticket_type_id item_type =
     bindo (order_items self) (\<lambda>items.
       case rev (filter (\<lambda>i. oi_ticket_type_id i = Some ticket_type_id \<and> oi_item_type i = item_type) items) of
         o' # _ \<Rightarrow> ret o'
       | [] \<Rightarrow> fail (database_error_new NoResults (Some (Text ''Could not find item''))))"

definition item_total :: "order_item list \<Rightarrow> int" where
  "item_total items =
     fold (\<lambda>item total. total + oi_unit_price_in_cents item * (oi_quantity item - oi_refunded_quantity item))
       items 0"

definition calculate_total :: "order_row \<Rightarrow> int dbop" where
  "calculate_total self = bindo (order_items self) (\<lambda>items. ret (item_total items))"

definition total_paid :: "order_row \<Rightarrow> int dbop" where
  "total_paid self = gets (\<lambda>s. sum_list (map p_amount
     (filter (\<lambda>p. p_order_id p = o_id self \<and> p_status p = payment_status.Completed) (db_payments s))))"

text \<open>\<open>quantity_of_tickets_per_user_per_event.sql\<close>: only tickets whose reservation lasts count.\<close>

definition limited_tickets :: "db \<Rightarrow> uuid \<Rightarrow> uuid \<Rightarrow> uuid list" where
  "limited_tickets s user_id event_id =
     [tt. o' \<leftarrow> db_orders s, oi \<leftarrow> db_order_items s, t \<leftarrow> db_ticket_instances s,
        tt \<leftarrow> (case oi_ticket_type_id oi of None \<Rightarrow> [] | Some i \<Rightarrow> [i]),
        oi_order_id oi = o_id o' \<and> ti_order_item_id t = Some (oi_id oi) \<and>
        ((o_user_id o' = user_id \<and> o_on_behalf_of_user_id o' = None) \<or>
          o_on_behalf_of_user_id o' = Some user_id) \<and>
        oi_event_id oi = Some event_id \<and>
        (case ti_reserved_until t of None \<Rightarrow> False | Some r \<Rightarrow> r > now s)]"

definition quantity_for_user_for_event :: "uuid \<Rightarrow> uuid \<Rightarrow> (uuid \<times> int) list dbop" where
  "quantity_for_user_for_event user_id event_id = gets (\<lambda>s.
     map (\<lambda>tt. (tt, int (count_list (limited_tickets s user_id event_id) tt)))
       (remdups (limited_tickets s user_id event_id)))"

section \<open>The quantities of a cart\<close>

definition clear_line :: "order_row \<Rightarrow> order_item \<Rightarrow> unit dbop" where
  "clear_line self current_line =
     (if oi_item_type current_line \<noteq> order_item_types.Tickets then ret ()
      else
        bindo (release_tickets current_line (as_u32 (oi_quantity current_line))) (\<lambda>_.
        destroy_item self (oi_id current_line)))"

definition clear_cart :: "order_row \<Rightarrow> unit dbop" where
  "clear_cart self = bindo (order_items self) (for_each (clear_line self))"

definition update_box_office_pricing :: "order_row \<Rightarrow> bool \<Rightarrow> order_row dbop" where
  "update_box_office_pricing self box_office_pricing =
     bindo (gets now) (\<lambda>n.
     bindo (update_orders (\<lambda>o'. o_id o' = o_id self)
       (\<lambda>o'. o'\<lparr>o_box_office_pricing := box_office_pricing, o_updated_at := n\<rparr>)) (\<lambda>_.
     ret (self\<lparr>o_box_office_pricing := box_office_pricing\<rparr>)))"

record update_order_item =
  uoi_ticket_type_id :: uuid
  uoi_quantity :: u32
  uoi_redemption_code :: "string option"

record limit_check =
  lc_ticket_type_id :: uuid
  lc_event_id :: uuid
  lc_limit_per_person :: int

text \<open>A requested line with its index, which is dropped once an item of the cart has matched it.\<close>

type_synonym mapped_line = "nat option \<times> uuid option \<times> hold option \<times> update_order_item"

fun map_lines :: "nat \<Rightarrow> update_order_item list \<Rightarrow> mapped_line list dbop" where
  "map_lines index [] = ret []"
| "map_lines index (item # items) =
     bindo (case uoi_redemption_code item of
              Some r \<Rightarrow>
                bindo (optional_op (hold_find_by_redemption_code r)) (\<lambda>hold.
                  case hold of
                    Some h \<Rightarrow> ret (Some index, Some (h_id h), Some h, item)
                  | None \<Rightarrow> validation_error_op ''redemption_code'' ''Redemption code is not valid'')
            | None \<Rightarrow> ret (Some index, None, None, item)) (\<lambda>line.
     bindo (map_lines (Suc index) items) (\<lambda>lines. ret (line # lines)))"

definition line_matches :: "order_item \<Rightarrow> mapped_line \<Rightarrow> bool" where
  "line_matches current_line = (\<lambda>(index, hold_id, _, item).
     index \<noteq> None \<and> Some (uoi_ticket_type_id item) = oi_ticket_type_id current_line \<and>
     hold_id = oi_hold_id current_line)"

definition price_under_hold :: "hold option \<Rightarrow> int \<Rightarrow> int" where
  "price_under_hold hold price_in_cents =
     (case hold of
        None \<Rightarrow> price_in_cents
      | Some h \<Rightarrow>
          (case h_hold_type h of
             hold_types.Discount \<Rightarrow> max 0 (price_in_cents - unwrap_or (h_discount_in_cents h) 0)
           | hold_types.Comp \<Rightarrow> 0))"

definition new_line_item ::
  "order_row \<Rightarrow> ticket_type \<Rightarrow> ticket_pricing \<Rightarrow> uuid option \<Rightarrow> hold option \<Rightarrow> u32 \<Rightarrow>
   new_tickets_order_item"
where
  "new_line_item self ticket_type ticket_pricing hold_id hold quantity =
     \<lparr>nto_order_id = o_id self, nto_item_type = order_item_types.Tickets,
      nto_event_id = Some (tt_event_id ticket_type), nto_quantity = as_i64 quantity,
      nto_unit_price_in_cents = price_under_hold hold (tp_price_in_cents ticket_pricing),
      nto_ticket_type_id = tt_id ticket_type, nto_ticket_pricing_id = tp_id ticket_pricing,
      nto_hold_id = hold_id, nto_code_id = None\<rparr>"

definition limit_check_of :: "ticket_type \<Rightarrow> limit_check" where
  "limit_check_of ticket_type =
     \<lparr>lc_ticket_type_id = tt_id ticket_type, lc_event_id = tt_event_id ticket_type,
      lc_limit_per_person = tt_limit_per_person ticket_type\<rparr>"

definition reduce_line :: "order_row \<Rightarrow> order_item \<Rightarrow> u32 \<Rightarrow> unit dbop" where
  "reduce_line self current_line quantity =
     bindo (release_tickets current_line (as_u32 (oi_quantity current_line) - quantity)) (\<lambda>_.
     bindo (item_update (current_line\<lparr>oi_quantity := as_i64 quantity\<rparr>)) (\<lambda>_.
     if as_i64 quantity = 0 then destroy_item self (oi_id current_line) else ret ()))"

definition increase_line ::
  "order_row \<Rightarrow> bool \<Rightarrow> order_item \<Rightarrow> uuid \<Rightarrow> uuid option \<Rightarrow> hold option \<Rightarrow> u32 \<Rightarrow>
   limit_check list \<Rightarrow> limit_check list dbop"
where
  "increase_line self box_office_pricing current_line ticket_type_id hold_id hold quantity checks =
     bindo (get_current_ticket_pricing ticket_type_id box_office_pricing False) (\<lambda>ticket_pricing.
     bindo (ticket_type_find ticket_type_id) (\<lambda>ticket_type.
     let added = quantity - as_u32 (oi_quantity current_line) in
     bindo (if Some (tp_id ticket_pricing) \<noteq> oi_ticket_pricing_id current_line
            then
              bindo (tickets_item_commit
                (new_line_item self ticket_type ticket_pricing hold_id hold quantity)) (\<lambda>order_item.
              bindo (reserve_tickets order_item (o_expires_at self) ticket_type_id hold_id added)
                (\<lambda>_. ret ()))
            else
              bindo (reserve_tickets current_line (o_expires_at self) ticket_type_id hold_id added)
                (\<lambda>_. item_update (current_line\<lparr>oi_quantity := as_i64 quantity\<rparr>))) (\<lambda>_.
     ret (checks @ [limit_check_of ticket_type]))))"

definition update_line ::
  "order_row \<Rightarrow> bool \<Rightarrow> order_item \<Rightarrow> mapped_line \<Rightarrow> limit_check list \<Rightarrow> limit_check list dbop"
where
  "update_line self box_office_pricing current_line line checks =
     (case line of (index, hold_id, hold, item) \<Rightarrow>
        if as_u32 (oi_quantity current_line) > uoi_quantity item
        then bindo (reduce_line self current_line (uoi_quantity item)) (\<lambda>_. ret checks)
        else if as_u32 (oi_quantity current_line) < uoi_quantity item
        then increase_line self box_office_pricing current_line (uoi_ticket_type_id item) hold_id hold
               (uoi_quantity item) checks
        else ret checks)"

definition drop_index :: "mapped_line \<Rightarrow> mapped_line list \<Rightarrow> mapped_line list" where
  "drop_index line mapped =
     (case fst line of
        Some i \<Rightarrow> mapped[i := (None, snd (mapped ! i))]
      | None \<Rightarrow> mapped)"

definition process_line ::
  "order_row \<Rightarrow> bool \<Rightarrow> bool \<Rightarrow> order_item \<Rightarrow> mapped_line list \<times> limit_check list \<Rightarrow>
   (mapped_line list \<times> limit_check list) dbop"
where
  "process_line self box_office_pricing remove_others current_line = (\<lambda>(mapped, checks).
     if oi_item_type current_line \<noteq> order_item_types.Tickets then ret (mapped, checks)
     else
       (case find (line_matches current_line) mapped of
          Some line \<Rightarrow>
            bindo (update_line self box_office_pricing current_line line checks) (\<lambda>checks.
            ret (drop_index line mapped, checks))
        | None \<Rightarrow>
            if remove_others
            then bindo (clear_line self current_line) (\<lambda>_. ret (mapped, checks))
            else ret (mapped, checks)))"

definition add_line ::
  "order_row \<Rightarrow> bool \<Rightarrow> mapped_line \<Rightarrow> limit_check list \<Rightarrow> limit_check list dbop"
where
  "add_line self box_office_pricing = (\<lambda>(index, hold_id, hold, new_line) checks.
     if uoi_quantity new_line = 0 \<or> index = None then ret checks
     else
       bindo (get_current_ticket_pricing (uoi_ticket_type_id new_line) box_office_pricing False)
         (\<lambda>ticket_pricing.
       bindo (ticket_type_find (uoi_ticket_type_id new_line)) (\<lambda>ticket_type.
       bindo (tickets_item_commit
         (new_line_item self ticket_type ticket_pricing hold_id hold (uoi_quantity new_line))) (\<lambda>order_item.
       bindo (reserve_tickets order_item (o_expires_at self) (uoi_ticket_type_id new_line) hold_id
         (uoi_quantity new_line)) (\<lambda>_.
       ret (checks @ [limit_check_of ticket_type]))))))"

definition check_limit :: "order_row \<Rightarrow> limit_check \<Rightarrow> unit dbop" where
  "check_limit self check =
     bindo (quantity_for_user_for_event (o_user_id self) (lc_event_id check)) (\<lambda>quantities_ordered.
       case map_of quantities_ordered (lc_ticket_type_id check) of
         Some ordered_quantity \<Rightarrow>
           if lc_limit_per_person check > 0 \<and> ordered_quantity > lc_limit_per_person check
           then fail (from_validation_errors
             [(''quantity'', [create_validation_error ''limit_per_person_exceeded''
                ''Exceeded limit per person per event''])])
           else ret ()
       | None \<Rightarrow> ret ())"

section \<open>Fees of a cart\<close>

text \<open>\<open>group_by\<close> of itertools: runs of equal keys.\<close>

fun group_by :: "('a \<Rightarrow> 'k) \<Rightarrow> 'a list \<Rightarrow> ('k \<times> 'a list) list" where
  "group_by key [] = []"
| "group_by key (x # xs) =
     (case group_by key xs of
        [] \<Rightarrow> [(key x, [x])]
      | (k, ys) # rest \<Rightarrow>
          if k = key x then (k, x # ys) # rest else (key x, [x]) # (k, ys) # rest)"

definition event_find :: "uuid \<Rightarrow> event_row dbop" where
  "event_find id' = first_where db_events (\<lambda>e. e_id e = id') QueryError ''Error loading event''"

definition update_group_fees :: "order_row \<Rightarrow> uuid \<Rightarrow> order_item list \<Rightarrow> unit dbop" where
  "update_group_fees self event_id items =
     bindo (event_find event_id) (\<lambda>event.
     bindo (fold_op (\<lambda>o' all_zero_price.
         if oi_item_type o' = order_item_types.Tickets
         then bindo (item_update_fees o' self) (\<lambda>_.
           ret (if oi_unit_price_in_cents o' > 0 then False else all_zero_price))
         else ret all_zero_price) items True) (\<lambda>all_zero_price.
     if \<not> all_zero_price \<and> e_fee_in_cents event > 0
     then
       bindo (fees_item_commit \<lparr>nfo_order_id = o_id self, nfo_item_type = order_item_types.EventFees,
         nfo_event_id = Some (e_id event), nfo_quantity = 1, nfo_fee_schedule_range_id = None,
         nfo_unit_price_in_cents = e_client_fee_in_cents event + e_company_fee_in_cents event,
         nfo_company_fee_in_cents = e_company_fee_in_cents event,
         nfo_client_fee_in_cents = e_client_fee_in_cents event, nfo_parent_id = None\<rparr>) (\<lambda>_. ret ())
     else ret ()))"

definition update_fees_group ::
  "order_row \<Rightarrow> (uuid option \<times> uuid option) \<times> order_item list \<Rightarrow> unit dbop" where
  "update_fees_group self = (\<lambda>((event_id, hold_id), items).
     case event_id of
       None \<Rightarrow> ret ()
     | Some e \<Rightarrow>
         bindo (is_comp hold_id) (\<lambda>comp.
         if comp then ret () else update_group_fees self e items))"

definition update_fees :: "order_row \<Rightarrow> unit dbop" where
  "update_fees self =
     bindo (order_items self) (\<lambda>items.
     bindo (for_each (\<lambda>o'. if oi_item_type o' = order_item_types.EventFees
        then destroy_item self (oi_id o') else ret ()) items) (\<lambda>_.
     bindo (order_items self) (\<lambda>items.
     for_each (update_fees_group self)
       (group_by (\<lambda>i. (oi_event_id i, oi_hold_id i))
         (filter (\<lambda>i. oi_event_id i \<noteq> None) items)))))"

text \<open>\<open>update_quantities\<close> in two parts: the lines of the cart, and what follows them.\<close>

definition update_lines ::
  "order_row \<Rightarrow> update_order_item list \<Rightarrow> bool \<Rightarrow> bool \<Rightarrow> (mapped_line list \<times> limit_check list) dbop"
where
  "update_lines self items box_office_pricing remove_others =
     bindo (order_items self) (\<lambda>current_items.
     bindo (map_lines 0 items) (\<lambda>mapped.
     fold_op (process_line self box_office_pricing remove_others) current_items (mapped, [])))"

definition finish_quantities ::
  "order_row \<Rightarrow> bool \<Rightarrow> mapped_line list \<Rightarrow> limit_check list \<Rightarrow> order_row dbop"
where
  "finish_quantities self box_office_pricing mapped checks =
     bindo (if o_expires_at self = None then set_expiry self else ret self) (\<lambda>self.
     bindo (fold_op (add_line self box_office_pricing) mapped checks) (\<lambda>checks.
     bindo (order_items self) (\<lambda>items.
     bindo (if length items = 0 then remove_expiry self else ret self) (\<lambda>self.
     bindo (for_each (check_limit self) checks) (\<lambda>_.
     bindo (update_fees self) (\<lambda>_. ret self))))))"

definition update_quantities ::
  "order_row \<Rightarrow> update_order_item list \<Rightarrow> bool \<Rightarrow> bool \<Rightarrow> order_row dbop"
where
  "update_quantities self items box_office_pricing remove_others =
     bindo (lock_version self) (\<lambda>self.
     bindo (if box_office_pricing \<noteq> o_box_office_pricing self
            then bindo (clear_cart self) (\<lambda>_. update_box_office_pricing self box_office_pricing)
            else ret self) (\<lambda>self.
     bindo (update_lines self items box_office_pricing remove_others) (\<lambda>(mapped, checks).
     finish_quantities self box_office_pricing mapped checks)))"

section \<open>Payments and completion\<close>

definition update_status :: "order_row \<Rightarrow> order_status \<Rightarrow> order_row dbop" where
  "update_status self status =
     bindo (gets now) (\<lambda>n.
     if status = order_status.Paid
     then
       bindo (gets utc_now) (\<lambda>utc.
       bindo (update_orders (\<lambda>o'. o_id o' = o_id self)
         (\<lambda>o'. o'\<lparr>o_paid_at := Some utc, o_status := status, o_updated_at := n\<rparr>)) (\<lambda>_.
       ret (self\<lparr>o_status := status, o_paid_at := Some utc\<rparr>)))
     else
       bindo (update_orders (\<lambda>o'. o_id o' = o_id self)
         (\<lambda>o'. o'\<lparr>o_status := status, o_updated_at := n\<rparr>)) (\<lambda>_.
       ret (self\<lparr>o_status := status\<rparr>)))"

definition complete_if_fully_paid :: "order_row \<Rightarrow> order_row dbop" where
  "complete_if_fully_paid self =
     bindo (total_paid self) (\<lambda>paid.
     bindo (calculate_total self) (\<lambda>total.
     if paid \<ge> total
     then
       bindo (update_status self order_status.Paid) (\<lambda>self.
       bindo (find_for_order (o_id self)) (\<lambda>items.
       bindo (for_each (\<lambda>item. mark_as_purchased item (o_user_id self)) items) (\<lambda>_.
       bindo (clear_cart_user self) (\<lambda>_. ret self))))
     else ret self))"

definition mark_partially_paid :: "order_row \<Rightarrow> order_row dbop" where
  "mark_partially_paid self =
     bindo (gets utc_now) (\<lambda>utc.
     bindo (gets now) (\<lambda>n.
     let now_plus_one_day = utc + days 1 in
     bindo (update_orders
       (\<lambda>o'. o_id o' = o_id self \<and> o_version o' = o_version self \<and>
          (case o_expires_at o' of None \<Rightarrow> False | Some e \<Rightarrow> e \<ge> utc))
       (\<lambda>o'. o'\<lparr>o_status := order_status.PartiallyPaid, o_expires_at := Some now_plus_one_day,
          o_updated_at := n\<rparr>)) (\<lambda>result.
     bindo (order_find (o_id self)) (\<lambda>db_record.
     if result = 0
     then
       (if o_version db_record \<noteq> o_version self
        then concurrency_error ''Could not update order because it has been updated by another process''
        else business_process_error ''Could not update order because it has expired'')
     else
       bindo (find_for_order (o_id db_record)) (\<lambda>items.
       bindo (for_each (\<lambda>item. update_reserved_time item now_plus_one_day) items) (\<lambda>_.
       ret (self\<lparr>o_updated_at := o_updated_at db_record, o_status := o_status db_record\<rparr>)))))))"

definition add_payment :: "order_row \<Rightarrow> new_payment \<Rightarrow> uuid \<Rightarrow> (payment \<times> order_row) dbop" where
  "add_payment self payment current_user_id =
     bindo (case o_status self of
              order_status.Paid \<Rightarrow> business_process_error ''This order has already been paid''
            | order_status.Draft \<Rightarrow> mark_partially_paid self
            | order_status.PartiallyPaid \<Rightarrow> ret self
            | _ \<Rightarrow> business_process_error
                (''Order was in unexpected state when trying to make a payment: '' @
                  enum_to_string order_status_variants (o_status self))) (\<lambda>self.
     bindo (payment_commit payment current_user_id) (\<lambda>p.
     bindo (complete_if_fully_paid self) (\<lambda>self. ret (p, self))))"

definition add_external_payment ::
  "order_row \<Rightarrow> string option \<Rightarrow> uuid \<Rightarrow> int \<Rightarrow> (payment \<times> order_row) dbop"
where
  "add_external_payment self external_reference current_user_id amount =
     add_payment self (payment_create (o_id self) current_user_id payment_status.Completed
       payment_methods.External ''External'' external_reference amount None) current_user_id"

definition add_credit_card_payment ::
  "order_row \<Rightarrow> uuid \<Rightarrow> int \<Rightarrow> string \<Rightarrow> string \<Rightarrow> payment_status \<Rightarrow> json \<Rightarrow>
   (payment \<times> order_row) dbop"
where
  "add_credit_card_payment self current_user_id amount provider external_reference status provider_data =
     add_payment self (payment_create (o_id self) current_user_id status payment_methods.CreditCard
       provider (Some external_reference) amount (Some provider_data)) current_user_id"

text \<open>\<open>Payment::mark_complete\<close>: the update is guarded by the time stamp the payment was read with,
  but the number of rows it changed is not looked at.\<close>

definition payment_order :: "payment \<Rightarrow> order_row dbop" where
  "payment_order self =
     first_where db_orders (\<lambda>o'. o_id o' = p_order_id self) QueryError ''Could not retrieve order''"

definition mark_complete :: "payment \<Rightarrow> json \<Rightarrow> uuid \<Rightarrow> unit dbop" where
  "mark_complete self raw_data current_user_id =
     bindo (gets now) (\<lambda>n.
     bindo (execute_update db_payments (\<lambda>rs s. s\<lparr>db_payments := rs\<rparr>)
       (\<lambda>p. p_id p = p_id self \<and> p_updated_at p = p_updated_at self)
       (\<lambda>p. p\<lparr>p_status := payment_status.Completed, p_updated_at := n\<rparr>)) (\<lambda>_.
     bindo (domain_event_commit (domain_event_create domain_event_types.PaymentCompleted
       ''Payment was completed'' tables.Payments (Some (p_id self)) (Some current_user_id)
       (Some raw_data))) (\<lambda>_.
     bindo (payment_order self) (\<lambda>order.
     bindo (complete_if_fully_paid order) (\<lambda>_. ret ())))))"

definition set_behalf_of_user :: "order_row \<Rightarrow> user_row \<Rightarrow> uuid \<Rightarrow> order_row dbop" where
  "set_behalf_of_user self user current_user_id =
     (if o_status self \<noteq> order_status.Draft
      then validation_error_op ''status''
        ''Cannot change the order user unless the order is in draft status''
      else
        bindo (lock_version self) (\<lambda>self.
        bindo (gets now) (\<lambda>n.
        bindo (execute_checked db_orders (\<lambda>rs s. s\<lparr>db_orders := rs\<rparr>) order_violation
          (\<lambda>o'. o_id o' = o_id self)
          (\<lambda>o'. o'\<lparr>o_on_behalf_of_user_id := Some (u_id user), o_updated_at := n\<rparr>)
          UpdateError ''Could not change the behalf of  user for this order'') (\<lambda>_.
        bindo (domain_event_commit (domain_event_create domain_event_types.OrderBehalfOfUserChanged
          ''Behalf of user on order was changed'' tables.Orders (Some (o_id self))
          (Some current_user_id)
          (Some (JObject
            [(''old_user'', (case o_on_behalf_of_user_id self of None \<Rightarrow> JNull | Some u \<Rightarrow> JUuid u)),
             (''new_user'', JUuid (u_id user))])))) (\<lambda>_.
        ret (self\<lparr>o_on_behalf_of_user_id := Some (u_id user)\<rparr>))))))"

record update_order_attributes =
  uoa_note :: "string option option"

definition order_update :: "order_row \<Rightarrow> update_order_attributes \<Rightarrow> order_row dbop" where
  "order_update self attrs =
     bindo (gets now) (\<lambda>n.
     bindo (update_orders (\<lambda>o'. o_id o' = o_id self)
       (\<lambda>o'. o'\<lparr>o_note := unwrap_or (uoa_note attrs) (o_note o'), o_updated_at := n\<rparr>)) (\<lambda>_.
     order_find (o_id self)))"

section \<open>Refunds\<close>

record refund_item =
  ri_order_item_id :: uuid
  ri_ticket_instance_id :: "uuid option"

definition refund_ticket_item :: "order_item \<Rightarrow> ticket_instance \<Rightarrow> u32 dbop" where
  "refund_ticket_item order_item ticket_instance =
     bindo (find_or_create_by_ticket_instance ticket_instance) (\<lambda>refunded_ticket.
     if rt_ticket_refunded_at refunded_ticket \<noteq> None \<or>
        (rt_fee_refunded_at refunded_ticket \<noteq> None \<and>
         oi_item_type order_item = order_item_types.PerUnitFees)
     then business_process_error ''Already refunded''
     else
       bindo (was_transferred ticket_instance) (\<lambda>transferred.
       if transferred
       then business_process_error ''Ticket was transferred so ineligible for refund''
       else
         bindo (mark_refunded refunded_ticket
           (oi_item_type order_item = order_item_types.PerUnitFees)) (\<lambda>_.
         bindo (if ti_status ticket_instance \<noteq> ticket_instance_status.Redeemed
                then release ticket_instance else ret ()) (\<lambda>_.
         refund_one_unit order_item (rt_fee_refunded_at refunded_ticket = None)))))"

definition refund_line :: "order_row \<Rightarrow> refund_item \<Rightarrow> u32 \<Rightarrow> u32 dbop" where
  "refund_line self refund_item refunded =
     bindo (order_item_find (ri_order_item_id refund_item)) (\<lambda>order_item.
     if oi_order_id order_item \<noteq> o_id self
     then business_process_error ''Order item id does not belong to this order''
     else
       bindo (case ri_ticket_instance_id refund_item of
                Some i \<Rightarrow> bindo (find_ticket i) (\<lambda>t. ret (Some t))
              | None \<Rightarrow> ret None) (\<lambda>ticket_instance.
       bindo (if oi_item_type order_item \<in> {order_item_types.Tickets, order_item_types.PerUnitFees}
              then
                (case ticket_instance of
                   None \<Rightarrow> business_process_error
                     ''Ticket id required when refunding ticket related order item''
                 | Some t \<Rightarrow> refund_ticket_item order_item t)
              else refund_one_unit order_item True) (\<lambda>amount.
       ret (refunded + amount))))"

text \<open>Event fees of which no other item of the event in the order is left to refund.\<close>

definition event_fee_items_with_no_associated_items :: "order_row \<Rightarrow> order_item list dbop" where
  "event_fee_items_with_no_associated_items self = gets (\<lambda>s.
     filter (\<lambda>oi. oi_refunded_quantity oi \<noteq> oi_quantity oi \<and> oi_order_id oi = o_id self \<and>
         oi_item_type oi = order_item_types.EventFees \<and>
         \<not> list_ex (\<lambda>oi2. oi_order_id oi2 = oi_order_id oi \<and> oi_event_id oi \<noteq> None \<and>
             oi_event_id oi2 = oi_event_id oi \<and> oi_item_type oi2 \<noteq> order_item_types.EventFees \<and>
             oi_refunded_quantity oi2 \<noteq> oi_quantity oi2) (db_order_items s))
       (db_order_items s))"

definition refund :: "order_row \<Rightarrow> refund_item list \<Rightarrow> u32 dbop" where
  "refund self refund_items =
     bindo (fold_op (refund_line self) refund_items 0) (\<lambda>total.
     bindo (event_fee_items_with_no_associated_items self) (\<lambda>fee_items.
     fold_op (\<lambda>item total. bindo (refund_one_unit item True) (\<lambda>amount. ret (total + amount)))
       fee_items total))"

section \<open>Showing an order\<close>

record tickets_remaining =
  tr_ticket_type_id :: uuid
  tr_tickets_remaining :: int

record display_order =
  do_id :: uuid
  do_date :: timestamp
  do_expires_at :: "timestamp option"
  do_seconds_until_expiry :: "u32 option"
  do_status :: order_status
  do_items :: "display_order_item list"
  do_limited_tickets_remaining :: "tickets_remaining list"
  do_total_in_cents :: int
  do_user_id :: uuid
  do_note :: "string option"
  do_order_number :: string
  do_paid_at :: "timestamp option"

definition seconds_until :: "timestamp \<Rightarrow> timestamp \<Rightarrow> u32" where
  "seconds_until n expires_at =
     (if expires_at \<ge> n then as_u32 ((expires_at - n) div 1000000) else 0)"

definition remaining_for_event :: "order_row \<Rightarrow> uuid \<Rightarrow> tickets_remaining list \<Rightarrow> tickets_remaining list dbop" where
  "remaining_for_event self e result =
     bindo (quantity_for_user_for_event (o_user_id self) e) (\<lambda>tickets_bought.
       fold_op (\<lambda>(tt_id', num) result.
         bindo (ticket_type_find tt_id') (\<lambda>tt.
           ret (if tt_limit_per_person tt > 0
                then result @ [\<lparr>tr_ticket_type_id = tt_id',
                  tr_tickets_remaining = tt_limit_per_person tt - num\<rparr>]
                else result))) tickets_bought result)"

definition for_display :: "order_row \<Rightarrow> display_order dbop" where
  "for_display self =
     bindo (gets utc_now) (\<lambda>n.
     bindo (order_items self) (\<lambda>items.
     bindo (fold_op (remaining_for_event self)
       (remdups (sort (concat (map (\<lambda>i. case oi_event_id i of None \<Rightarrow> [] | Some e \<Rightarrow> [e]) items)))) [])
       (\<lambda>limited_tickets_remaining.
     bindo (item_find_for_display (o_id self)) (\<lambda>display_items.
     bindo (calculate_total self) (\<lambda>total.
     ret \<lparr>do_id = o_id self, do_date = o_order_date self, do_expires_at = o_expires_at self,
        do_seconds_until_expiry = map_option (seconds_until n) (o_expires_at self),
        do_status = o_status self, do_items = display_items,
        do_limited_tickets_remaining = limited_tickets_remaining, do_total_in_cents = total,
        do_user_id = o_user_id self, do_note = o_note self, do_order_number = order_number self,
        do_paid_at = o_paid_at self\<rparr>)))))"

definition find_for_user_for_display :: "uuid \<Rightarrow> display_order list dbop" where
  "find_for_user_for_display user_id =
     bindo (gets (\<lambda>s. sort_key (\<lambda>o'. - o_order_date o')
       (filter (\<lambda>o'. (o_user_id o' = user_id \<or> o_on_behalf_of_user_id o' = Some user_id) \<and>
          o_status o' \<noteq> order_status.Draft) (db_orders s)))) (\<lambda>orders.
     fold_op (\<lambda>o' r. bindo (for_display o') (\<lambda>d. ret (r @ [d]))) orders [])"

end
