(* ===== verification/Locks.thy ===== *)
theory Locks imports Orders begin

text \<open>
  Optimistic locking. Orders carry a version, holds, codes and users the time of their last update;
  an operation that writes a row first compares the copy it was given with the row. The locale says
  what such a write promises, and what follows for two writers that read the same copy.
\<close>

section \<open>Rows written under a stamp\<close>

locale stamped_write =
  fixes table :: "'s \<Rightarrow> 'r list"
    and key :: "'r \<Rightarrow> uuid"
    and stamp :: "'r \<Rightarrow> 'v"
    and store :: "'c \<Rightarrow> 'r \<Rightarrow> ('s, 'e, 'a) op"
    and restamps :: "'s \<Rightarrow> 'r \<Rightarrow> bool"
  assumes store_stale:
      "(\<And>r. r \<in> set (table s) \<Longrightarrow> \<not> (key r = key self \<and> stamp r = stamp self)) \<Longrightarrow>
         \<exists>e. store c self s = (Inl e, s)"
    and store_done:
      "store c self s = (Inr x, t) \<Longrightarrow> restamps s self \<Longrightarrow> r \<in> set (table t) \<Longrightarrow>
         \<not> (key r = key self \<and> stamp r = stamp self)"
begin

lemma write_needs_current:
  assumes "store c self s = (Inr x, t)"
  shows "\<exists>r \<in> set (table s). key r = key self \<and> stamp r = stamp self"
  using store_stale [of s self c] assms by fastforce

text \<open>The second of two writers with the same copy loses, whatever it wants to write.\<close>

lemma second_write_refused:
  assumes "store c self s = (Inr x, t)" and "restamps s self"
  shows "\<exists>e. store d self t = (Inl e, t)"
  using store_done [OF assms] by (rule store_stale)

end

lemma lock_version_run:
  "lock_version self s =
     (let current = (\<lambda>o'. o_id o' = o_id self \<and> o_version o' = o_version self) in
      (if filter current (db_orders s) = []
       then Inl (database_error_new ConcurrencyError
         (Some (Text ''Could not lock order, another process has updated it'')))
       else Inr (self\<lparr>o_version := o_version self + 1\<rparr>),
       s\<lparr>db_orders := update_where current
         (\<lambda>o'. o'\<lparr>o_version := o_version self + 1, o_updated_at := now s\<rparr>) (db_orders s)\<rparr>))"
  by (simp add: lock_version_def update_orders_def bindo_run op_simps Let_def)

lemma lock_version_stale:
  assumes "\<And>o'. o' \<in> set (db_orders s) \<Longrightarrow> \<not> (o_id o' = o_id self \<and> o_version o' = o_version self)"
  shows "lock_version self s = (Inl (database_error_new ConcurrencyError
    (Some (Text ''Could not lock order, another process has updated it''))), s)"
proof -
  have "filter (\<lambda>o'. o_id o' = o_id self \<and> o_version o' = o_version self) (db_orders s) = []"
    using assms by (auto simp: filter_empty_conv)
  moreover have "update_where (\<lambda>o'. o_id o' = o_id self \<and> o_version o' = o_version self) f (db_orders s) =
      db_orders s" for f
    using assms by (intro update_where_none) auto
  ultimately show ?thesis by (simp add: lock_version_run Let_def)
qed

interpretation order_lock: stamped_write db_orders o_id o_version "\<lambda>_ :: unit. lock_version" "\<lambda>_ _. True"
proof unfold_locales
  show "\<exists>e. lock_version self s = (Inl e, s)"
    if "\<And>r. r \<in> set (db_orders s) \<Longrightarrow> \<not> (o_id r = o_id self \<and> o_version r = o_version self)" for s self
    using lock_version_stale [OF that] by blast
next
  fix x self r and s t :: db
  assume "lock_version self s = (Inr x, t)" and "r \<in> set (db_orders t)"
  then show "\<not> (o_id r = o_id self \<and> o_version r = o_version self)"
    by (auto simp: lock_version_run Let_def set_update_where split: if_splits)
qed

interpretation user_lock: stamped_write db_users u_id "\<lambda>u. (u_updated_at u, u_last_cart_id u)"
  "\<lambda>c u. update_last_cart u c" "\<lambda>s u. now s \<noteq> u_updated_at u"
proof unfold_locales
  fix c and s :: db and self :: user_row
  assume stale: "\<And>r. r \<in> set (db_users s) \<Longrightarrow> \<not> (u_id r = u_id self \<and>
    (u_updated_at r, u_last_cart_id r) = (u_updated_at self, u_last_cart_id self))"
  let ?P = "\<lambda>u. u_id u = u_id self \<and> u_updated_at u = u_updated_at self \<and> u_last_cart_id u = u_last_cart_id self"
  have "filter ?P (db_users s) = []" using stale by (auto simp: filter_empty_conv)
  moreover have "update_where ?P f (db_users s) = db_users s" for f
    using stale by (intro update_where_none) auto
  ultimately show "\<exists>e. update_last_cart self c s = (Inl e, s)"
    by (simp add: update_last_cart_def update_users_def bindo_run op_simps)
next
  fix c x r and s t :: db and self :: user_row
  assume "update_last_cart self c s = (Inr x, t)" "now s \<noteq> u_updated_at self" "r \<in> set (db_users t)"
  then show "\<not> (u_id r = u_id self \<and>
      (u_updated_at r, u_last_cart_id r) = (u_updated_at self, u_last_cart_id self))"
    by (auto simp: update_last_cart_def update_users_def bindo_run op_simps set_update_where
        split: if_splits)
qed

lemma hold_update_cases:
  obtains (err) e where "hold_update self attrs s = (Inl e, s)"
  | (upd) f where "hold_update self attrs s = update_checked db_holds (\<lambda>rs s. s\<lparr>db_holds := rs\<rparr>)
        hold_violation (\<lambda>h. h_id h = h_id self \<and> h_updated_at h = h_updated_at self) f
        UpdateError ''Could not update hold'' s"
      and "\<And>h. h_updated_at (f h) = now s"
proof (cases "hold_validate_record self (if uha_hold_type attrs = Some hold_types.Comp
    then attrs\<lparr>uha_discount_in_cents := Some None\<rparr> else attrs) s")
  case (Pair r t)
  then have "t = s" using validate_record_state(1) by (metis snd_conv)
  show thesis
  proof (cases r)
    case (Inl e)
    then have "hold_update self attrs s = (Inl e, s)"
      using Pair \<open>t = s\<close> by (simp add: hold_update_def bindo_run Let_def)
    then show thesis by (rule err)
  next
    case (Inr u)
    with Pair \<open>t = s\<close> show thesis
      by (intro upd, simp add: hold_update_def bindo_run Let_def split del: if_split, simp)
  qed
qed

lemma code_update_cases:
  obtains (err) e where "code_update self attrs s = (Inl e, s)"
  | (upd) f where "code_update self attrs s = update_checked db_codes (\<lambda>rs s. s\<lparr>db_codes := rs\<rparr>)
        code_violation (\<lambda>c. c_id c = c_id self \<and> c_updated_at c = c_updated_at self) f
        UpdateError ''Could not update code'' s"
      and "\<And>c. c_updated_at (f c) = now s"
proof (cases "code_validate_record self attrs s")
  case (Pair r t)
  then have "t = s" using validate_record_state(2) by (metis snd_conv)
  show thesis
  proof (cases r)
    case (Inl e)
    then have "code_update self attrs s = (Inl e, s)"
      using Pair \<open>t = s\<close> by (simp add: code_update_def bindo_run)
    then show thesis by (rule err)
  next
    case (Inr u)
    with Pair \<open>t = s\<close> show thesis
      by (intro upd, simp add: code_update_def bindo_run split del: if_split, simp)
  qed
qed

interpretation hold_lock: stamped_write db_holds h_id h_updated_at "\<lambda>a h. hold_update h a"
  "\<lambda>s h. now s \<noteq> h_updated_at h"
proof unfold_locales
  fix c and s :: db and self :: hold
  assume "\<And>r. r \<in> set (db_holds s) \<Longrightarrow> \<not> (h_id r = h_id self \<and> h_updated_at r = h_updated_at self)"
  note stale = tbl_holds.update_checked_stale [where s = s and
    P = "\<lambda>h. h_id h = h_id self \<and> h_updated_at h = h_updated_at self", OF this]
  show "\<exists>e. hold_update self c s = (Inl e, s)"
    by (rule hold_update_cases [of self c s]) (auto simp: stale)
next
  fix c x r and s t :: db and self :: hold
  assume run: "hold_update self c s = (Inr x, t)" and moved: "now s \<noteq> h_updated_at self"
    and r: "r \<in> set (db_holds t)"
  show "\<not> (h_id r = h_id self \<and> h_updated_at r = h_updated_at self)"
    by (rule hold_update_cases [of self c s])
      (use run moved r in \<open>auto simp: set_update_where dest!: update_checked_state [OF sym]\<close>)
qed

interpretation code_lock: stamped_write db_codes c_id c_updated_at "\<lambda>a c. code_update c a"
  "\<lambda>s c. now s \<noteq> c_updated_at c"
proof unfold_locales
  fix a and s :: db and self :: code_row
  assume "\<And>r. r \<in> set (db_codes s) \<Longrightarrow> \<not> (c_id r = c_id self \<and> c_updated_at r = c_updated_at self)"
  note stale = tbl_codes.update_checked_stale [where s = s and
    P = "\<lambda>c. c_id c = c_id self \<and> c_updated_at c = c_updated_at self", OF this]
  show "\<exists>e. code_update self a s = (Inl e, s)"
    by (rule code_update_cases [of self a s]) (auto simp: stale)
next
  fix a x r and s t :: db and self :: code_row
  assume run: "code_update self a s = (Inr x, t)" and moved: "now s \<noteq> c_updated_at self"
    and r: "r \<in> set (db_codes t)"
  show "\<not> (c_id r = c_id self \<and> c_updated_at r = c_updated_at self)"
    by (rule code_update_cases [of self a s])
      (use run moved r in \<open>auto simp: set_update_where dest!: update_checked_state [OF sym]\<close>)
qed

section \<open>Properties\<close>



definition sample_locks :: db where
  "sample_locks = blank_db\<lparr>db_users := [blank_user 1],
     db_orders := [blank_order 7 1 order_status.Draft]\<rparr>"

definition sample_code :: code_row where
  "sample_code = \<lparr>c_id = 50, c_name = ''Code'', c_event_id = 3, c_code_type = code_types.Access,
     c_redemption_code = ''ACCESS1'', c_max_uses = 10, c_discount_in_cents = None, c_start_date = 0,
     c_end_date = 5000, c_max_tickets_per_user = None, c_created_at = 0, c_updated_at = 0\<rparr>"



end
