(* ===== verification/Refunds.thy ===== *)
theory Refunds imports Orders begin

text \<open>
  What a refund does (\<open>Order::refund\<close>, \<open>OrderItem::refund_one_unit\<close>): the recursion ends, only the
  refunded quantities of order items move, within their bounds, and the amount returned is what the
  total of the order loses.
\<close>

section \<open>The recursion\<close>

lemma find_fee_item_type:
  assumes "find_fee_item self s = (Inr (Some f), t)"
  shows "t = s \<and> f \<in> set (db_order_items s) \<and> oi_parent_id f = Some (oi_id self) \<and>
    oi_item_type f = order_item_types.PerUnitFees"
  using assms find_SomeD [of _ "db_order_items s" f] by (auto simp: find_fee_item_def)

lemma unit_refund_amount_cong:
  assumes "\<And>f. oi_item_type f = order_item_types.PerUnitFees \<Longrightarrow> rec f True = rec' f True"
  shows "unit_refund_amount rec self rf = unit_refund_amount rec' self rf"
proof (rule ext)
  fix s
  show "unit_refund_amount rec self rf s = unit_refund_amount rec' self rf s"
    using find_fee_item_type [of self s] assms
    by (auto simp: unit_refund_amount_def bindo_def split: prod.splits sum.splits option.splits)
qed

lemma refund_body_cong:
  assumes "\<And>f. oi_item_type f = order_item_types.PerUnitFees \<Longrightarrow> rec f True = rec' f True"
  shows "refund_body rec self rf = refund_body rec' self rf"
proof -
  have "unit_refund_amount rec self rf = unit_refund_amount rec' self rf"
    using assms by (rule unit_refund_amount_cong)
  then show ?thesis by (simp only: refund_body_def)
qed

lemma refund_body_no_fee:
  assumes "oi_item_type self \<noteq> order_item_types.Tickets"
  shows "refund_body rec self rf = refund_body rec' self rf"
proof -
  have "unit_refund_amount rec self rf = unit_refund_amount rec' self rf"
    using assms by (intro ext) (simp add: unit_refund_amount_def)
  then show ?thesis by (simp only: refund_body_def)
qed

text \<open>C11: \<open>refund_one_unit\<close> is what its recursive source says: it satisfies the recursion equation,
  in which the fee item is refunded by \<open>refund_one_unit\<close> itself, so the recursion always ends, and
  it ends at the fee item, on which both levels agree.\<close>

theorem refund_one_unit_recursion:
  "refund_one_unit = refund_body refund_one_unit \<and>
   refund_one_unit (fee\<lparr>oi_item_type := order_item_types.PerUnitFees\<rparr>) rf =
     refund_fee_unit (fee\<lparr>oi_item_type := order_item_types.PerUnitFees\<rparr>) rf"
proof
  have level: "refund_one_unit f b = refund_fee_unit f b"
    if "oi_item_type f = order_item_types.PerUnitFees" for f b
    unfolding refund_one_unit_def refund_fee_unit_def using that by (intro refund_body_no_fee) simp
  show "refund_one_unit = refund_body refund_one_unit"
  proof (intro ext)
    fix self b s
    have "refund_body refund_fee_unit self b = refund_body refund_one_unit self b"
      by (rule refund_body_cong) (simp add: level)
    then show "refund_one_unit self b s = refund_body refund_one_unit self b s"
      by (simp add: refund_one_unit_def [THEN fun_cong, THEN fun_cong])
  qed
  show "refund_one_unit (fee\<lparr>oi_item_type := order_item_types.PerUnitFees\<rparr>) rf =
      refund_fee_unit (fee\<lparr>oi_item_type := order_item_types.PerUnitFees\<rparr>) rf"
    by (rule level) simp
qed

section \<open>The effect on the items\<close>

abbreviation bump :: "timestamp \<Rightarrow> order_item \<Rightarrow> order_item" where
  "bump n oi \<equiv> oi\<lparr>oi_updated_at := n, oi_refunded_quantity := oi_refunded_quantity oi + 1\<rparr>"

definition bumped :: "uuid set \<Rightarrow> db \<Rightarrow> db" where
  "bumped I s = s\<lparr>db_order_items := update_where (\<lambda>oi. oi_id oi \<in> I) (bump (now s)) (db_order_items s)\<rparr>"

definition left_over :: "uuid set \<Rightarrow> db \<Rightarrow> bool" where
  "left_over I s \<longleftrightarrow> (\<forall>oi \<in> set (db_order_items s). oi_id oi \<in> I \<longrightarrow> oi_refunded_quantity oi \<noteq> oi_quantity oi)"

abbreviation distinct_items :: "db \<Rightarrow> bool" where
  "distinct_items s \<equiv> distinct (map oi_id (db_order_items s))"

definition price_of :: "uuid set \<Rightarrow> db \<Rightarrow> int" where
  "price_of I s = sum_list (map oi_unit_price_in_cents (filter (\<lambda>oi. oi_id oi \<in> I) (db_order_items s)))"

lemma bumped_none [simp]: "bumped {} s = s"
  by (simp add: bumped_def update_where_def)

lemma bumped_frame [simp]:
  "db_orders (bumped I s) = db_orders s" "now (bumped I s) = now s"
  "map oi_id (db_order_items (bumped I s)) = map oi_id (db_order_items s)"
  by (simp_all add: bumped_def map_update_where)

lemma bumped_bumped:
  assumes "I \<inter> J = {}"
  shows "bumped I (bumped J s) = bumped (I \<union> J) s"
proof -
  have "update_where (\<lambda>oi. oi_id oi \<in> I) (bump n) (update_where (\<lambda>oi. oi_id oi \<in> J) (bump n) xs) =
      update_where (\<lambda>oi. oi_id oi \<in> I \<union> J) (bump n) xs" for n and xs :: "order_item list"
    unfolding update_where_def map_map
  proof (rule map_cong [OF refl])
    fix x :: order_item
    have "oi_id x \<in> J \<Longrightarrow> oi_id x \<notin> I" using assms by blast
    then show "((\<lambda>oi. if oi_id oi \<in> I then bump n oi else oi) \<circ>
        (\<lambda>oi. if oi_id oi \<in> J then bump n oi else oi)) x = (if oi_id x \<in> I \<union> J then bump n x else x)"
      by (cases "oi_id x \<in> J"; cases "oi_id x \<in> I") simp_all
  qed
  then show ?thesis by (simp add: bumped_def)
qed

lemma filter_id_distinct:
  assumes "distinct (map key rs)" and "r \<in> set rs"
  shows "filter (\<lambda>x. key x = key r) rs = [r]"
  using assms by (induction rs) (auto simp: filter_empty_conv rev_image_eqI)

lemma item_by_id:
  assumes "distinct_items s" and "a \<in> set (db_order_items s)" and "b \<in> set (db_order_items s)"
    and "oi_id a = oi_id b"
  shows "a = b"
  using assms(1) inj_onD [of oi_id "set (db_order_items s)" a b] assms(2-4) by (simp add: distinct_map)

lemma price_of_single:
  assumes "distinct_items s" and "self \<in> set (db_order_items s)"
  shows "price_of {oi_id self} s = oi_unit_price_in_cents self"
  using filter_id_distinct [OF assms] by (simp add: price_of_def)

lemma price_of_pair:
  assumes "distinct_items s" and "a \<in> set (db_order_items s)" and "b \<in> set (db_order_items s)"
    and "oi_id a \<noteq> oi_id b"
  shows "price_of {oi_id a, oi_id b} s = oi_unit_price_in_cents a + oi_unit_price_in_cents b"
proof -
  have "sum_list (map oi_unit_price_in_cents (filter (\<lambda>oi. oi_id oi = i \<or> oi_id oi = j) xs)) =
      sum_list (map oi_unit_price_in_cents (filter (\<lambda>oi. oi_id oi = i) xs)) +
      sum_list (map oi_unit_price_in_cents (filter (\<lambda>oi. oi_id oi = j) xs))" if "i \<noteq> j" for i j xs
    using that by (induction xs) auto
  from this [OF assms(4), of "db_order_items s"] show ?thesis
    using filter_id_distinct [OF assms(1,2)] filter_id_distinct [OF assms(1,3)]
    by (simp add: price_of_def)
qed

text \<open>The update at the end of \<open>refund_one_unit\<close>, on a copy that is still the row.\<close>

lemma bump_row_cases:
  assumes "distinct_items s" and "self \<in> set (db_order_items s)"
    and "update_items (\<lambda>oi. oi_id oi = oi_id self)
      (\<lambda>oi. oi\<lparr>oi_updated_at := now s, oi_refunded_quantity := oi_refunded_quantity self + 1\<rparr>) m s = (r, t)"
  obtains (ok) "r = Inr 1" and "t = bumped {oi_id self} s" | (err) e where "r = Inl e" and "t = s"
proof -
  let ?f = "\<lambda>oi. oi\<lparr>oi_updated_at := now s, oi_refunded_quantity := oi_refunded_quantity self + 1\<rparr>"
  have only: "x = self" if "x \<in> set (db_order_items s)" "oi_id x = oi_id self" for x
    using that assms(1,2) by (auto simp: distinct_map dest: inj_onD)
  have same: "update_where (\<lambda>oi. oi_id oi = oi_id self) ?f (db_order_items s) =
      update_where (\<lambda>oi. oi_id oi \<in> {oi_id self}) (bump (now s)) (db_order_items s)"
    unfolding update_where_def by (rule map_cong [OF refl]) (auto dest: only)
  show thesis
    using assms(3) filter_id_distinct [OF assms(1,2)]
    unfolding update_items_def
    by (cases rule: execute_checked_cases [case_names run bad, consumes 1])
      (auto simp: bumped_def same wrap_def intro: ok err split: db_error_kind.splits)
qed

definition paid_order :: "db \<Rightarrow> uuid \<Rightarrow> bool" where
  "paid_order s i \<longleftrightarrow> (\<exists>o' \<in> set (db_orders s). o_id o' = i \<and>
     o_status o' \<in> {order_status.Paid, order_status.PartiallyPaid})"

definition fee_item_of :: "order_item \<Rightarrow> db \<Rightarrow> order_item \<Rightarrow> bool" where
  "fee_item_of self s f \<longleftrightarrow> f \<in> set (db_order_items s) \<and> oi_parent_id f = Some (oi_id self) \<and>
     oi_item_type f = order_item_types.PerUnitFees \<and> oi_item_type self = order_item_types.Tickets"

text \<open>Whatever it returns, a refund moves the refunded quantity of the item and its fee item only, by
  one, and only where something is left; if it succeeds the amount is the price of the items it
  moved.\<close>

definition refund_effect :: "order_item \<Rightarrow> db \<Rightarrow> db_error + u32 \<Rightarrow> db \<Rightarrow> bool" where
  "refund_effect self s r t \<longleftrightarrow> (\<exists>I. t = bumped I s \<and> left_over I s \<and>
     (\<forall>i \<in> I. i = oi_id self \<or> (\<exists>f. fee_item_of self s f \<and> oi_id f = i)) \<and>
     (\<forall>a. r = Inr a \<longrightarrow> oi_id self \<in> I \<and> a = as_u32 (price_of I s) \<and> paid_order s (oi_order_id self)))"

lemma refund_effect_err: "refund_effect self s (Inl e) s"
  unfolding refund_effect_def by (intro exI [of _ "{}"]) (simp add: left_over_def)

lemma order_of_run:
  "order_of self s = (case find (\<lambda>o'. o_id o' = oi_order_id self) (db_orders s) of
     Some o' \<Rightarrow> (Inr o', s)
   | None \<Rightarrow> (Inl (database_error_new NoResults (Some (WithDriverText ''Could not find order'' NotFound))), s))"
  by (simp add: order_of_def order_find_def first_where_run)

text \<open>What happens before the update of the item itself.\<close>

definition fee_effect :: "order_item \<Rightarrow> db \<Rightarrow> db_error + int \<Rightarrow> db \<Rightarrow> bool" where
  "fee_effect self s r t \<longleftrightarrow>
     (t = s \<and> (\<forall>x. r = Inr x \<longrightarrow> x = oi_unit_price_in_cents self)) \<or>
     (\<exists>f. fee_item_of self s f \<and> t = bumped {oi_id f} s \<and>
        oi_refunded_quantity f \<noteq> oi_quantity f \<and>
        (\<forall>x. r = Inr x \<longrightarrow> as_u32 x = as_u32 (oi_unit_price_in_cents self + oi_unit_price_in_cents f)))"

lemma left_over_single:
  "distinct_items s \<Longrightarrow> f \<in> set (db_order_items s) \<Longrightarrow> oi_refunded_quantity f \<noteq> oi_quantity f \<Longrightarrow>
   left_over {oi_id f} s"
  by (auto simp: left_over_def distinct_map dest: inj_onD)

lemma store_unit_cases:
  assumes "distinct_items s" and "self \<in> set (db_order_items s)" and run: "store_refunded_unit self x s = (r, t)"
  obtains (ok) "r = Inr (as_u32 x)" and "t = bumped {oi_id self} s" | (err) e where "r = Inl e" and "t = s"
proof (cases "update_items (\<lambda>oi. oi_id oi = oi_id self) (\<lambda>oi. oi\<lparr>oi_updated_at := now s,
    oi_refunded_quantity := oi_refunded_quantity self + 1\<rparr>) ''Could not refund ticket instance'' s")
  case (Pair k v)
  from assms(1,2) Pair show thesis
  proof (cases rule: bump_row_cases)
    case ok
    then show thesis using run Pair that(1) by (simp add: store_refunded_unit_def bindo_run ret_run)
  next
    case (err e)
    then show thesis using run Pair by (intro that(2) [of e]) (auto simp: store_refunded_unit_def bindo_run)
  qed
qed

lemma refund_plain_effect:
  assumes "distinct_items s" and "self \<in> set (db_order_items s)"
    and "paid_order s (oi_order_id self)" and "left_over {oi_id self} s"
    and "store_refunded_unit self (oi_unit_price_in_cents self) s = (r, t)"
  shows "refund_effect self s r t"
  using assms(1,2,5)
proof (cases rule: store_unit_cases)
  case ok
  then show ?thesis using assms(3,4) price_of_single [OF assms(1,2)]
    unfolding refund_effect_def by (intro exI [of _ "{oi_id self}"]) simp
next
  case (err e)
  then show ?thesis using refund_effect_err by simp
qed

lemma refund_only_fee_effect:
  assumes "distinct_items s" and "fee_item_of self s f" and "oi_refunded_quantity f \<noteq> oi_quantity f"
  shows "refund_effect self s (Inl e) (bumped {oi_id f} s)"
proof -
  have "left_over {oi_id f} s"
    using assms by (intro left_over_single) (auto simp: fee_item_of_def)
  then show ?thesis using assms(2)
    unfolding refund_effect_def by (intro exI [of _ "{oi_id f}"]) auto
qed

lemma refund_fee_then_effect:
  assumes dist: "distinct_items s" and self: "self \<in> set (db_order_items s)"
    and paid: "paid_order s (oi_order_id self)" and left: "left_over {oi_id self} s"
    and fee: "fee_item_of self s f" "oi_refunded_quantity f \<noteq> oi_quantity f"
    and x: "as_u32 x = as_u32 (oi_unit_price_in_cents self + oi_unit_price_in_cents f)"
    and run: "store_refunded_unit self x (bumped {oi_id f} s) = (r, t)"
  shows "refund_effect self s r t"
proof -
  have f: "f \<in> set (db_order_items s)" and "f \<noteq> self"
    using fee(1) by (auto simp: fee_item_of_def)
  then have other: "oi_id f \<noteq> oi_id self" using item_by_id [OF dist _ self] by blast
  have "distinct_items (bumped {oi_id f} s)" using dist by (simp add: insert_commute)
  moreover have "self \<in> set (db_order_items (bumped {oi_id f} s))"
    using self other by (simp add: bumped_def set_update_where)
  ultimately show ?thesis using run
  proof (cases rule: store_unit_cases)
    case ok
    have "t = bumped {oi_id self, oi_id f} s"
      using ok(2) other bumped_bumped [of "{oi_id self}" "{oi_id f}" s] by (simp add: insert_commute)
    moreover have "left_over {oi_id self, oi_id f} s"
      using left left_over_single [OF dist f fee(2)] by (auto simp: left_over_def)
    moreover have "as_u32 x = as_u32 (price_of {oi_id self, oi_id f} s)"
      using x price_of_pair [OF dist self f] other by simp
    moreover have "\<forall>i \<in> {oi_id self, oi_id f}. i = oi_id self \<or> (\<exists>f. fee_item_of self s f \<and> oi_id f = i)"
      using fee(1) by blast
    ultimately show ?thesis using paid ok(1)
      unfolding refund_effect_def by (intro exI [of _ "{oi_id self, oi_id f}"]) simp
  next
    case (err e)
    then show ?thesis using refund_only_fee_effect [OF dist fee] by simp
  qed
qed

lemma refund_body_cases:
  assumes run: "refund_body rec self rf s = (r, t)"
  obtains (err) e where "r = Inl e" and "t = s"
  | (go) "paid_order s (oi_order_id self)" and "oi_refunded_quantity self \<noteq> oi_quantity self"
      and "bindo (unit_refund_amount rec self rf) (store_refunded_unit self) s = (r, t)"
proof (cases "find (\<lambda>o'. o_id o' = oi_order_id self) (db_orders s)")
  case None
  then show thesis using run err by (auto simp: refund_body_def bindo_run order_of_run)
next
  case (Some ord)
  then have ord: "ord \<in> set (db_orders s)" "o_id ord = oi_order_id self" by (auto dest: find_SomeD)
  show thesis
  proof (cases "o_status ord \<in> {order_status.Paid, order_status.PartiallyPaid} \<and>
      oi_refunded_quantity self \<noteq> oi_quantity self")
    case False
    then show thesis
      using run Some err by (auto simp: refund_body_def bindo_run order_of_run op_simps split: if_splits)
  next
    case True
    have "paid_order s (oi_order_id self)" using ord True by (auto simp: paid_order_def)
    moreover have "bindo (unit_refund_amount rec self rf) (store_refunded_unit self) s = (r, t)"
      using run Some True by (auto simp: refund_body_def bindo_run order_of_run)
    ultimately show thesis using True go by blast
  qed
qed

lemma refund_body_effect:
  assumes dist: "distinct_items s" and self: "self \<in> set (db_order_items s)"
    and run: "refund_body rec self rf s = (r, t)"
    and amount: "\<And>q u. unit_refund_amount rec self rf s = (q, u) \<Longrightarrow> fee_effect self s q u"
  shows "refund_effect self s r t"
  using run
proof (cases rule: refund_body_cases)
  case (err e)
  then show ?thesis using refund_effect_err by simp
next
  case go
  obtain q u where am: "unit_refund_amount rec self rf s = (q, u)" by fastforce
  have left: "left_over {oi_id self} s" using dist self go(2) by (rule left_over_single)
  consider (plain) "u = s" "\<And>x. q = Inr x \<Longrightarrow> x = oi_unit_price_in_cents self"
    | (fee) f where "fee_item_of self s f" "u = bumped {oi_id f} s" "oi_refunded_quantity f \<noteq> oi_quantity f"
      "\<And>x. q = Inr x \<Longrightarrow> as_u32 x = as_u32 (oi_unit_price_in_cents self + oi_unit_price_in_cents f)"
    using amount [OF am] unfolding fee_effect_def by blast
  then show ?thesis
  proof cases
    case plain
    show ?thesis
    proof (cases q)
      case (Inl e)
      then show ?thesis using go(3) am plain(1) refund_effect_err by (auto simp: bindo_run)
    next
      case (Inr x)
      then show ?thesis using go(3) am plain refund_plain_effect [OF dist self go(1) left] by (simp add: bindo_run)
    qed
  next
    case (fee f)
    show ?thesis
    proof (cases q)
      case (Inl e)
      then show ?thesis using go(3) am fee(2) refund_only_fee_effect [OF dist fee(1,3)]
        by (auto simp: bindo_run)
    next
      case (Inr x)
      then show ?thesis
        using go(3) am fee(2) refund_fee_then_effect [OF dist self go(1) left fee(1,3) fee(4) [OF Inr]]
        by (simp add: bindo_run)
    qed
  qed
qed

lemma fee_effect_none: "unit_refund_amount rec self rf s = (q, u) \<Longrightarrow>
    oi_item_type self \<noteq> order_item_types.Tickets \<Longrightarrow> fee_effect self s q u"
  by (auto simp: unit_refund_amount_def ret_run fee_effect_def)

lemma refund_fee_unit_effect:
  assumes "distinct_items s" and "self \<in> set (db_order_items s)"
    and "oi_item_type self = order_item_types.PerUnitFees" and "refund_fee_unit self rf s = (r, t)"
  shows "refund_effect self s r t"
proof -
  have "oi_item_type self \<noteq> order_item_types.Tickets" using assms(3) by simp
  then show ?thesis
    by (intro refund_body_effect [OF assms(1,2) assms(4) [unfolded refund_fee_unit_def]]) (rule fee_effect_none)
qed

lemma refund_one_unit_effect:
  assumes dist: "distinct_items s" and self: "self \<in> set (db_order_items s)"
    and run: "refund_one_unit self rf s = (r, t)"
  shows "refund_effect self s r t"
proof (rule refund_body_effect [OF dist self run [unfolded refund_one_unit_def]])
  fix q u
  assume am: "unit_refund_amount refund_fee_unit self rf s = (q, u)"
  show "fee_effect self s q u"
  proof (cases "rf \<and> oi_item_type self = order_item_types.Tickets")
    case False
    then show ?thesis using am by (auto simp: unit_refund_amount_def ret_run fee_effect_def)
  next
    case True
    obtain fee where fee: "find_fee_item self s = (Inr fee, s)" by (simp add: find_fee_item_def)
    show ?thesis
    proof (cases fee)
      case None
      then show ?thesis using am True fee by (auto simp: unit_refund_amount_def bindo_run ret_run fee_effect_def)
    next
      case (Some f)
      have f: "fee_item_of self s f" "oi_item_type f = order_item_types.PerUnitFees" "f \<in> set (db_order_items s)"
        using find_fee_item_type [of self s f s] fee Some True by (auto simp: fee_item_of_def)
      obtain q' u' where rec: "refund_fee_unit f True s = (q', u')" by fastforce
      have "refund_effect f s q' u'" using refund_fee_unit_effect [OF dist f(3,2) rec] .
      then obtain I where I: "u' = bumped I s" "left_over I s" "I \<subseteq> {oi_id f}"
          "\<And>a. q' = Inr a \<Longrightarrow> oi_id f \<in> I \<and> a = as_u32 (price_of I s)"
        using f(2) by (auto simp: refund_effect_def fee_item_of_def)
      have amount: "(q, u) = (case q' of Inl e \<Rightarrow> (Inl e, u') |
          Inr fee \<Rightarrow> (Inr (oi_unit_price_in_cents self + as_i64 fee), u'))"
        using am True fee Some rec by (auto simp: unit_refund_amount_def bindo_run ret_run split: sum.splits)
      show ?thesis
      proof (cases "oi_id f \<in> I")
        case True
        then have "I = {oi_id f}" using I(3) by blast
        moreover have "oi_refunded_quantity f \<noteq> oi_quantity f"
          using I(2) f(3) True by (auto simp: left_over_def)
        ultimately show ?thesis
          using amount I f(1) price_of_single [OF dist f(3)]
          by (auto simp: fee_effect_def as_u32_add split: sum.splits intro!: disjI2 exI [of _ f])
      next
        case False
        then have "I = {}" using I(3) by blast
        then show ?thesis using amount I False by (auto simp: fee_effect_def split: sum.splits)
      qed
    qed
  qed
qed

section \<open>The whole refund\<close>

definition item_refunded :: "order_item \<Rightarrow> order_item \<Rightarrow> bool" where
  "item_refunded a b \<longleftrightarrow> (\<exists>u k. 0 \<le> k \<and>
     b = a\<lparr>oi_updated_at := u, oi_refunded_quantity := oi_refunded_quantity a + k\<rparr> \<and>
     (oi_refunded_quantity a \<le> oi_quantity a \<longrightarrow> oi_refunded_quantity a + k \<le> oi_quantity a))"

definition refunds_only :: "db \<Rightarrow> db \<Rightarrow> bool" where
  "refunds_only s t \<longleftrightarrow> db_orders t = db_orders s \<and> now t = now s \<and>
     list_all2 item_refunded (db_order_items s) (db_order_items t)"

definition same_items :: "db \<Rightarrow> db \<Rightarrow> bool" where
  "same_items s t \<longleftrightarrow> db_orders t = db_orders s \<and> now t = now s \<and> db_order_items t = db_order_items s"

lemma item_refunded_refl [simp]: "item_refunded a a"
  unfolding item_refunded_def by (intro exI [of _ "oi_updated_at a"] exI [of _ 0]) simp

lemma item_refunded_cols:
  assumes "item_refunded a b"
  shows "oi_id b = oi_id a" "oi_order_id b = oi_order_id a" "oi_parent_id b = oi_parent_id a"
    "oi_quantity b = oi_quantity a" "oi_refunded_quantity a \<le> oi_refunded_quantity b"
    "oi_refunded_quantity a \<le> oi_quantity a \<Longrightarrow> oi_refunded_quantity b \<le> oi_quantity b"
  using assms by (auto simp: item_refunded_def)

lemma item_refunded_trans:
  assumes "item_refunded a b" and "item_refunded b c"
  shows "item_refunded a c"
proof -
  obtain u k where b: "0 \<le> k" "b = a\<lparr>oi_updated_at := u, oi_refunded_quantity := oi_refunded_quantity a + k\<rparr>"
    "oi_refunded_quantity a \<le> oi_quantity a \<longrightarrow> oi_refunded_quantity a + k \<le> oi_quantity a"
    using assms(1) unfolding item_refunded_def by blast
  obtain v j where c: "0 \<le> j" "c = b\<lparr>oi_updated_at := v, oi_refunded_quantity := oi_refunded_quantity b + j\<rparr>"
    "oi_refunded_quantity b \<le> oi_quantity b \<longrightarrow> oi_refunded_quantity b + j \<le> oi_quantity b"
    using assms(2) unfolding item_refunded_def by blast
  show ?thesis unfolding item_refunded_def
    using b c by (intro exI [of _ v] exI [of _ "k + j"]) (simp add: algebra_simps)
qed

lemma refunds_only_refl: "refunds_only s s"
  by (simp add: refunds_only_def list_all2_refl)

lemma refunds_only_trans: "refunds_only s t \<Longrightarrow> refunds_only t u \<Longrightarrow> refunds_only s u"
  unfolding refunds_only_def using list_all2_trans [OF item_refunded_trans] by (auto simp: )

lemma same_items_refunds: "same_items s t \<Longrightarrow> refunds_only s t"
  by (simp add: same_items_def refunds_only_def list_all2_refl)

interpretation items_same: step_relation same_items
  by unfold_locales (auto simp: same_items_def)

text \<open>Items have distinct ids, and a fee item is in the order of its item.\<close>

definition items_ok :: "db \<Rightarrow> bool" where
  "items_ok s \<longleftrightarrow> distinct_items s \<and> (\<forall>f \<in> set (db_order_items s). \<forall>p \<in> set (db_order_items s).
     oi_parent_id f = Some (oi_id p) \<longrightarrow> oi_order_id f = oi_order_id p)"

lemma items_ok_refunds:
  assumes "refunds_only s t" and "items_ok s"
  shows "items_ok t"
proof -
  have all: "list_all2 item_refunded (db_order_items s) (db_order_items t)"
    using assms(1) by (simp add: refunds_only_def)
  then have "map oi_id (db_order_items t) = map oi_id (db_order_items s)"
    by (induction rule: list_all2_induct) (auto dest: item_refunded_cols(1))
  moreover have "oi_order_id f = oi_order_id p" if fp: "f \<in> set (db_order_items t)" "p \<in> set (db_order_items t)"
      "oi_parent_id f = Some (oi_id p)" for f p
  proof -
    obtain f' p' where "f' \<in> set (db_order_items s)" "item_refunded f' f"
        "p' \<in> set (db_order_items s)" "item_refunded p' p"
      using list_all2_right [OF all fp(1)] list_all2_right [OF all fp(2)] by blast
    then show ?thesis using assms(2) fp(3) by (simp add: items_ok_def item_refunded_cols)
  qed
  ultimately show ?thesis using assms(2) by (simp add: items_ok_def)
qed

definition order_total :: "order_row \<Rightarrow> db \<Rightarrow> int" where
  "order_total ord s = sum_list (map (\<lambda>oi. oi_unit_price_in_cents oi * (oi_quantity oi - oi_refunded_quantity oi))
     (filter (\<lambda>oi. oi_order_id oi = o_id ord) (db_order_items s)))"

lemma item_total_sum:
  "item_total items = sum_list (map (\<lambda>oi. oi_unit_price_in_cents oi * (oi_quantity oi - oi_refunded_quantity oi)) items)"
proof -
  have "fold (\<lambda>oi total. total + g oi) items (a :: int) = a + sum_list (map g items)" for g and a
    by (induction items arbitrary: a) auto
  then show ?thesis by (simp add: item_total_def)
qed

lemma calculate_total_run: "calculate_total ord s = (Inr (order_total ord s), s)"
proof -
  have insert: "sum_list (map g (insort_key k x xs)) = g x + sum_list (map g xs)"
    for g :: "order_item \<Rightarrow> int" and k :: "order_item \<Rightarrow> nat \<times> uuid \<times> nat" and x xs
    by (induction xs) auto
  have "sum_list (map g (sort_key k xs)) = sum_list (map g xs)"
    for g :: "order_item \<Rightarrow> int" and k :: "order_item \<Rightarrow> nat \<times> uuid \<times> nat" and xs
    by (induction xs) (simp_all add: insert)
  then show ?thesis
    by (simp add: calculate_total_def bindo_run ret_run order_items_def find_for_order_def
        item_total_sum order_total_def)
qed

text \<open>Going from \<open>s\<close> to \<open>t\<close> with \<open>acc\<close> refunded before and \<open>r\<close> as the outcome.\<close>

definition pays_back :: "order_row \<Rightarrow> u32 \<Rightarrow> db \<Rightarrow> db_error + u32 \<Rightarrow> db \<Rightarrow> bool" where
  "pays_back ord acc s r t \<longleftrightarrow> refunds_only s t \<and>
     (\<forall>a. r = Inr a \<longrightarrow> as_u32 (order_total ord s) + acc = as_u32 (order_total ord t) + a)"

lemma order_total_bumped:
  assumes "\<And>oi. oi \<in> set (db_order_items s) \<Longrightarrow> oi_id oi \<in> I \<Longrightarrow> oi_order_id oi = o_id ord"
  shows "order_total ord s = order_total ord (bumped I s) + price_of I s"
proof -
  have "sum_list (map (\<lambda>oi. oi_unit_price_in_cents oi * (oi_quantity oi - oi_refunded_quantity oi))
      (filter (\<lambda>oi. oi_order_id oi = o_id ord) xs)) =
    sum_list (map (\<lambda>oi. oi_unit_price_in_cents oi * (oi_quantity oi - oi_refunded_quantity oi))
      (filter (\<lambda>oi. oi_order_id oi = o_id ord) (update_where (\<lambda>oi. oi_id oi \<in> I) (bump n) xs))) +
    sum_list (map oi_unit_price_in_cents (filter (\<lambda>oi. oi_id oi \<in> I) xs))"
    if "\<And>oi. oi \<in> set xs \<Longrightarrow> oi_id oi \<in> I \<Longrightarrow> oi_order_id oi = o_id ord" for xs n
    using that
  proof (induction xs)
    case Nil
    then show ?case by (simp add: update_where_def)
  next
    case (Cons x xs)
    then show ?case
      by (cases "oi_id x \<in> I") (simp_all add: update_where_def algebra_simps)
  qed
  then show ?thesis using assms by (simp add: order_total_def bumped_def price_of_def)
qed

lemma bumped_refunds:
  assumes "left_over I s"
  shows "refunds_only s (bumped I s)"
proof -
  have "item_refunded oi (bump n oi)" if "oi_refunded_quantity oi \<noteq> oi_quantity oi" for oi n
    unfolding item_refunded_def using that by (intro exI [of _ n] exI [of _ 1]) auto
  then show ?thesis using assms
    by (simp add: refunds_only_def bumped_def list_all2_update_where left_over_def)
qed

lemma refund_effect_pays:
  assumes ok: "items_ok s" and self: "self \<in> set (db_order_items s)" "oi_order_id self = o_id ord"
    and effect: "refund_effect self s r t"
  shows "pays_back ord acc s (map_sum id (\<lambda>a. acc + a) r) t"
proof -
  obtain I where I: "t = bumped I s" "left_over I s"
      "\<And>i. i \<in> I \<Longrightarrow> i = oi_id self \<or> (\<exists>f. fee_item_of self s f \<and> oi_id f = i)"
      "\<And>a. r = Inr a \<Longrightarrow> a = as_u32 (price_of I s)"
    using effect unfolding refund_effect_def by blast
  have "oi_order_id oi = o_id ord" if oi: "oi \<in> set (db_order_items s)" "oi_id oi \<in> I" for oi
  proof -
    consider "oi_id oi = oi_id self" | f where "fee_item_of self s f" "oi_id f = oi_id oi"
      using I(3) [OF oi(2)] by blast
    then show ?thesis
    proof cases
      case 1
      then have "oi = self" using ok oi(1) self(1) by (intro item_by_id) (auto simp: items_ok_def)
      then show ?thesis using self(2) by simp
    next
      case 2
      then have "oi = f" "oi_parent_id f = Some (oi_id self)"
        using ok oi(1) by (auto simp: items_ok_def fee_item_of_def intro: item_by_id)
      then show ?thesis using ok self oi(1) unfolding items_ok_def by metis
    qed
  qed
  then have "order_total ord s = order_total ord t + price_of I s"
    unfolding I(1) by (rule order_total_bumped)
  then show ?thesis using bumped_refunds [OF I(2)] I(4)
    by (cases r) (auto simp: pays_back_def I(1) as_u32_add algebra_simps)
qed

lemma pays_back_err: "refunds_only s t \<Longrightarrow> pays_back ord acc s (Inl e) t"
  by (simp add: pays_back_def)

lemma pays_back_after:
  assumes "same_items s t" and "pays_back ord acc t r u"
  shows "pays_back ord acc s r u"
  using assms by (auto simp: pays_back_def same_items_def refunds_only_def order_total_def)

text \<open>Steps that leave the items alone, before the refund of the unit.\<close>

lemma pays_back_bindo:
  assumes "steps same_items m" and "bindo m f s = (r, u)"
    and "\<And>x t. same_items s t \<Longrightarrow> f x t = (r, u) \<Longrightarrow> pays_back ord acc t r u"
  shows "pays_back ord acc s r u"
proof (cases "m s")
  case (Pair q t)
  have same: "same_items s t" using assms(1) Pair by (rule stepsD_run)
  show ?thesis
  proof (cases q)
    case (Inl e)
    then show ?thesis using assms(2) Pair same by (auto simp: bindo_run intro: pays_back_err same_items_refunds)
  next
    case (Inr x)
    then show ?thesis using assms(2,3) Pair same by (auto simp: bindo_run intro: pays_back_after)
  qed
qed

lemma only_tickets_same_items: "only_tickets s t \<Longrightarrow> same_items s t"
  by (auto simp: only_tickets_def same_items_def)

lemma same_items_steps:
  "steps same_items (order_item_find i)" "steps same_items (find_ticket i)"
  "steps same_items (was_transferred t)" "steps same_items (refunded_ticket_commit nr)"
  "steps same_items (find_or_create_by_ticket_instance t)" "steps same_items (mark_refunded rt b)"
  "steps same_items (release t)"
proof -
  show commit: "steps same_items (refunded_ticket_commit nr)" for nr
    by (simp add: steps_def same_items_def refunded_ticket_commit_def bindo_run insert_checked_run
        split: option.splits sum.splits)
  show "steps same_items (find_or_create_by_ticket_instance t)"
    unfolding find_or_create_by_ticket_instance_def
    by (auto split: option.split intro!: items_same.steps_control items_same.steps_errors commit)
  show "steps same_items (mark_refunded rt b)"
    by (simp add: steps_def same_items_def mark_refunded_def bindo_run ret_run Let_def)
  have "steps only_tickets (release t)"
    unfolding release_def release_query_def
    by (auto intro!: tickets_only.steps_control tickets_only.steps_errors only_update_tickets_limited)
  then show "steps same_items (release t)"
    by (auto simp: steps_def intro: only_tickets_same_items)
qed (simp_all add: steps_def same_items_def order_item_find_def find_ticket_def was_transferred_def)

lemma map_sum_add: "map_sum id (\<lambda>a. acc + a) r = Inr b \<longleftrightarrow> (\<exists>a. r = Inr a \<and> b = acc + a)"
  by (cases r) auto

lemma refund_one_unit_pays:
  assumes "items_ok s" and "self \<in> set (db_order_items s)" and "oi_order_id self = o_id ord"
    and "refund_one_unit self rf s = (r, t)"
  shows "pays_back ord acc s (map_sum id (\<lambda>a. acc + a) r) t"
proof -
  have "refund_effect self s r t"
    using assms by (intro refund_one_unit_effect) (auto simp: items_ok_def)
  then show ?thesis using assms by (intro refund_effect_pays)
qed

text \<open>Operations that pay back, from states with good items.\<close>

definition pays_op :: "(db \<Rightarrow> bool) \<Rightarrow> order_row \<Rightarrow> u32 \<Rightarrow> u32 dbop \<Rightarrow> bool" where
  "pays_op Pre ord acc m \<longleftrightarrow> (\<forall>s. Pre s \<longrightarrow> pays_back ord acc s (fst (m s)) (snd (m s)))"

lemma pays_op_bindo:
  assumes "steps same_items m" and "\<And>s t. Pre s \<Longrightarrow> same_items s t \<Longrightarrow> Pre t"
    and "\<And>x. pays_op Pre ord acc (f x)"
  shows "pays_op Pre ord acc (bindo m f)"
  unfolding pays_op_def
proof (intro allI impI)
  fix s
  assume "Pre s"
  show "pays_back ord acc s (fst (bindo m f s)) (snd (bindo m f s))"
    by (rule pays_back_bindo [OF assms(1), of f s])
      (use assms(2,3) \<open>Pre s\<close> in \<open>auto simp: pays_op_def dest: spec\<close>, metis fst_conv snd_conv)
qed

lemma pays_op_errors: "pays_op Pre ord acc (business_process_error m)"
  by (simp add: pays_op_def op_simps pays_back_err refunds_only_refl)

lemma pays_op_if:
  "pays_op Pre ord acc m \<Longrightarrow> pays_op Pre ord acc n \<Longrightarrow> pays_op Pre ord acc (if c then m else n)"
  by simp

lemma bindo_assoc: "bindo (bindo m f) g = bindo m (\<lambda>x. bindo (f x) g)"
  by (rule ext) (auto simp: bindo_def split: prod.splits sum.splits)

lemma bindo_if: "bindo (if c then m else n) g = (if c then bindo m g else bindo n g)"
  by simp

lemma bindo_error: "bindo (business_process_error m) g = business_process_error m"
  by (simp add: business_process_error_def)

abbreviation refundable :: "order_row \<Rightarrow> order_item \<Rightarrow> db \<Rightarrow> bool" where
  "refundable ord self s \<equiv> items_ok s \<and> self \<in> set (db_order_items s) \<and> oi_order_id self = o_id ord"

lemma refundable_same: "refundable ord self s \<Longrightarrow> same_items s t \<Longrightarrow> refundable ord self t"
  by (simp add: same_items_def items_ok_def)

lemma pays_op_unit:
  "pays_op (refundable ord self) ord acc (bindo (refund_one_unit self rf) (\<lambda>a. ret (acc + a)))"
  unfolding pays_op_def
proof (intro allI impI)
  fix s
  assume pre: "refundable ord self s"
  obtain r t where run: "refund_one_unit self rf s = (r, t)" by fastforce
  then have "pays_back ord acc s (map_sum id (\<lambda>a. acc + a) r) t"
    using pre by (intro refund_one_unit_pays) auto
  moreover have "bindo (refund_one_unit self rf) (\<lambda>a. ret (acc + a)) s = (map_sum id (\<lambda>a. acc + a) r, t)"
    using run by (cases r) (auto simp: bindo_run ret_run)
  ultimately show "pays_back ord acc s (fst (bindo (refund_one_unit self rf) (\<lambda>a. ret (acc + a)) s))
      (snd (bindo (refund_one_unit self rf) (\<lambda>a. ret (acc + a)) s))" by simp
qed

lemma pays_op_ticket_item:
  "pays_op (refundable ord self) ord acc (bindo (refund_ticket_item self t) (\<lambda>a. ret (acc + a)))"
  unfolding refund_ticket_item_def bindo_assoc bindo_if bindo_error
  by (intro pays_op_bindo [OF _ refundable_same] pays_op_if pays_op_errors pays_op_unit
      same_items_steps items_same.steps_ret)

text \<open>The next item is read from the database, so it is the row.\<close>

lemma pays_op_refund_line: "pays_op items_ok ord acc (refund_line ord ri acc)"
proof -
  have rest: "pays_op (refundable ord item) ord acc
     (bindo (case ri_ticket_instance_id ri of
          Some i \<Rightarrow> bindo (find_ticket i) (\<lambda>t. ret (Some t)) | None \<Rightarrow> ret None) (\<lambda>ticket.
      bindo (if oi_item_type item \<in> {order_item_types.Tickets, order_item_types.PerUnitFees}
             then (case ticket of
               None \<Rightarrow> business_process_error ''Ticket id required when refunding ticket related order item''
             | Some t \<Rightarrow> refund_ticket_item item t)
             else refund_one_unit item True) (\<lambda>amount. ret (acc + amount))))" for item
  proof (rule pays_op_bindo [OF _ refundable_same])
    show "steps same_items (case ri_ticket_instance_id ri of
        Some i \<Rightarrow> bindo (find_ticket i) (\<lambda>t. ret (Some t)) | None \<Rightarrow> ret None)"
      by (auto split: option.split intro!: items_same.steps_control same_items_steps)
    show "pays_op (refundable ord item) ord acc
       (bindo (if oi_item_type item \<in> {order_item_types.Tickets, order_item_types.PerUnitFees}
             then (case ticket of
               None \<Rightarrow> business_process_error ''Ticket id required when refunding ticket related order item''
             | Some t \<Rightarrow> refund_ticket_item item t)
             else refund_one_unit item True) (\<lambda>amount. ret (acc + amount)))" for ticket
      unfolding bindo_if
      by (cases ticket) (simp_all add: bindo_error pays_op_errors pays_op_unit pays_op_ticket_item)
  qed
  show ?thesis
    unfolding pays_op_def
  proof (intro allI impI)
    fix s
    assume ok: "items_ok s"
    show "pays_back ord acc s (fst (refund_line ord ri acc s)) (snd (refund_line ord ri acc s))"
    proof (cases "find (\<lambda>oi. oi_id oi = ri_order_item_id ri) (db_order_items s)")
      case None
      then show ?thesis
        by (simp add: refund_line_def bindo_run order_item_find_def first_where_run pays_back_err refunds_only_refl)
    next
      case (Some item)
      show ?thesis
      proof (cases "oi_order_id item = o_id ord")
        case False
        then show ?thesis using Some
          by (simp add: refund_line_def bindo_run order_item_find_def first_where_run op_simps
              pays_back_err refunds_only_refl)
      next
        case True
        have "refundable ord item s" using ok True find_SomeD [OF Some] by simp
        then show ?thesis using rest [of item] Some True
          by (simp add: refund_line_def bindo_run order_item_find_def first_where_run pays_op_def)
      qed
    qed
  qed
qed

text \<open>Two steps that pay back, one after the other.\<close>

lemma pays_back_then:
  assumes "pays_back ord acc s (Inr a) t" and "pays_back ord a t r u"
  shows "pays_back ord acc s r u"
proof -
  have "refunds_only s u" using assms refunds_only_trans by (auto simp: pays_back_def)
  moreover have "as_u32 (order_total ord s) + acc = as_u32 (order_total ord u) + b" if "r = Inr b" for b
    using assms that by (simp add: pays_back_def)
  ultimately show ?thesis by (simp add: pays_back_def)
qed

lemma pays_op_fold:
  assumes "\<And>x acc. pays_op items_ok ord acc (f x acc)"
  shows "pays_op items_ok ord acc (fold_op f xs acc)"
proof (induction xs arbitrary: acc)
  case Nil
  then show ?case by (simp add: pays_op_def ret_run pays_back_def refunds_only_refl)
next
  case (Cons x xs)
  show ?case
    unfolding pays_op_def
  proof (intro allI impI)
    fix s
    assume ok: "items_ok s"
    obtain r t where run: "f x acc s = (r, t)" by fastforce
    have pays: "pays_back ord acc s r t" using assms [of acc x] ok run by (metis pays_op_def fst_conv snd_conv)
    then have "items_ok t" using ok items_ok_refunds by (auto simp: pays_back_def)
    then show "pays_back ord acc s (fst (fold_op f (x # xs) acc s)) (snd (fold_op f (x # xs) acc s))"
      using run pays pays_back_then Cons.IH by (cases r) (auto simp: bindo_run pays_op_def)
  qed
qed

text \<open>The event fees: the list is read before the loop, and refunding one of them leaves the others
  as they were read.\<close>

lemma fee_loop_pays:
  assumes "items_ok s" and "set fees \<subseteq> set (db_order_items s)" and "distinct (map oi_id fees)"
    and "\<And>f. f \<in> set fees \<Longrightarrow> oi_item_type f = order_item_types.EventFees \<and> oi_order_id f = o_id ord"
  shows "pays_back ord acc s
    (fst (fold_op (\<lambda>item total. bindo (refund_one_unit item True) (\<lambda>amount. ret (total + amount))) fees acc s))
    (snd (fold_op (\<lambda>item total. bindo (refund_one_unit item True) (\<lambda>amount. ret (total + amount))) fees acc s))"
  using assms
proof (induction fees arbitrary: acc s)
  case Nil
  then show ?case by (simp add: ret_run pays_back_def refunds_only_refl)
next
  case (Cons f fees)
  obtain r t where run: "refund_one_unit f True s = (r, t)" by fastforce
  have f: "f \<in> set (db_order_items s)" "oi_item_type f = order_item_types.EventFees" "oi_order_id f = o_id ord"
    using Cons.prems by auto
  have pays: "pays_back ord acc s (map_sum id (\<lambda>a. acc + a) r) t"
    using Cons.prems(1) f run by (intro refund_one_unit_pays) auto
  then have ok: "items_ok t" using Cons.prems(1) items_ok_refunds by (auto simp: pays_back_def)
  have "refund_effect f s r t"
    using Cons.prems(1) f(1) run by (intro refund_one_unit_effect) (auto simp: items_ok_def)
  then obtain I where I: "t = bumped I s" "I \<subseteq> {oi_id f}"
    using f(2) by (auto simp: refund_effect_def fee_item_of_def)
  have "set fees \<subseteq> set (db_order_items t)"
  proof
    fix x
    assume x: "x \<in> set fees"
    then have "oi_id x \<noteq> oi_id f" using Cons.prems(3) by (auto simp: rev_image_eqI)
    then show "x \<in> set (db_order_items t)"
      using x Cons.prems(2) I(2) by (auto simp: I(1) bumped_def set_update_where)
  qed
  note rest = Cons.IH [OF ok this]
  show ?case
  proof (cases r)
    case (Inl e)
    then show ?thesis using pays run by (simp add: bindo_run)
  next
    case (Inr a)
    then show ?thesis
      using pays run rest [of "acc + a"] Cons.prems(3,4) pays_back_then
      by (simp add: bindo_run ret_run)
  qed
qed

lemma refund_pays:
  assumes ok: "items_ok s"
  shows "pays_back ord 0 s (fst (refund ord ris s)) (snd (refund ord ris s))"
proof -
  obtain r t where run: "fold_op (refund_line ord) ris 0 s = (r, t)" by fastforce
  have pays: "pays_back ord 0 s r t"
  proof -
    have "pays_op items_ok ord 0 (fold_op (refund_line ord) ris 0)"
      by (rule pays_op_fold) (rule pays_op_refund_line)
    then show ?thesis using ok run by (metis pays_op_def fst_conv snd_conv)
  qed
  show ?thesis
  proof (cases r)
    case (Inl e)
    then show ?thesis using run pays by (simp add: refund_def bindo_run)
  next
    case (Inr a)
    have ok_t: "items_ok t" using pays ok items_ok_refunds by (auto simp: pays_back_def)
    define fees where "fees = filter (\<lambda>oi. oi_refunded_quantity oi \<noteq> oi_quantity oi \<and> oi_order_id oi = o_id ord \<and>
         oi_item_type oi = order_item_types.EventFees \<and>
         \<not> list_ex (\<lambda>oi2. oi_order_id oi2 = oi_order_id oi \<and> oi_event_id oi \<noteq> None \<and>
             oi_event_id oi2 = oi_event_id oi \<and> oi_item_type oi2 \<noteq> order_item_types.EventFees \<and>
             oi_refunded_quantity oi2 \<noteq> oi_quantity oi2) (db_order_items t)) (db_order_items t)"
    have fees: "event_fee_items_with_no_associated_items ord t = (Inr fees, t)"
      by (simp add: event_fee_items_with_no_associated_items_def fees_def)
    have sub: "set fees \<subseteq> set (db_order_items t)" by (auto simp: fees_def)
    have dist: "distinct (map oi_id fees)"
      using ok_t unfolding fees_def items_ok_def by (intro distinct_map_filter) simp
    have types: "oi_item_type f = order_item_types.EventFees \<and> oi_order_id f = o_id ord" if "f \<in> set fees" for f
      using that by (simp add: fees_def)
    show ?thesis
      using pays_back_then [OF pays [unfolded Inr] fee_loop_pays [OF ok_t sub dist types]] run Inr fees
      by (simp add: refund_def bindo_run)
  qed
qed

section \<open>The refunded ticket\<close>

lemma refund_ticket_item_Inr:
  assumes "refund_ticket_item self t s = (Inr a, u)"
  obtains rt s1 s2 s3 where "find_or_create_by_ticket_instance t s = (Inr rt, s1)"
    and "rt_ticket_refunded_at rt = None"
    and "was_transferred t s1 = (Inr False, s1)"
    and "snd (mark_refunded rt (oi_item_type self = order_item_types.PerUnitFees) s1) = s2"
    and "ti_status t \<noteq> ticket_instance_status.Redeemed \<Longrightarrow> release t s2 = (Inr (), s3)"
    and "ti_status t = ticket_instance_status.Redeemed \<Longrightarrow> s3 = s2"
    and "refund_one_unit self (rt_fee_refunded_at rt = None) s3 = (Inr a, u)"
proof -
  obtain rt s1 where one: "find_or_create_by_ticket_instance t s = (Inr rt, s1)"
    and rest: "(if rt_ticket_refunded_at rt \<noteq> None \<or>
        (rt_fee_refunded_at rt \<noteq> None \<and> oi_item_type self = order_item_types.PerUnitFees)
      then business_process_error ''Already refunded''
      else bindo (was_transferred t) (\<lambda>transferred.
        if transferred then business_process_error ''Ticket was transferred so ineligible for refund''
        else bindo (mark_refunded rt (oi_item_type self = order_item_types.PerUnitFees)) (\<lambda>_.
          bindo (if ti_status t \<noteq> ticket_instance_status.Redeemed then release t else ret ()) (\<lambda>_.
          refund_one_unit self (rt_fee_refunded_at rt = None))))) s1 = (Inr a, u)"
    using assms unfolding refund_ticket_item_def bindo_Inr_iff by blast
  from rest have none: "rt_ticket_refunded_at rt = None"
    by (cases "rt_ticket_refunded_at rt") (auto simp: op_simps)
  have trans: "snd (was_transferred t s1) = s1" by (simp add: was_transferred_def)
  from rest have "bindo (was_transferred t) (\<lambda>transferred.
        if transferred then business_process_error ''Ticket was transferred so ineligible for refund''
        else bindo (mark_refunded rt (oi_item_type self = order_item_types.PerUnitFees)) (\<lambda>_.
          bindo (if ti_status t \<noteq> ticket_instance_status.Redeemed then release t else ret ()) (\<lambda>_.
          refund_one_unit self (rt_fee_refunded_at rt = None)))) s1 = (Inr a, u)"
    by (simp add: op_simps del: bindo_Inr_iff split: if_splits)
  then obtain b v where two: "was_transferred t s1 = (Inr b, v)"
    and rest: "(if b then business_process_error ''Ticket was transferred so ineligible for refund''
        else bindo (mark_refunded rt (oi_item_type self = order_item_types.PerUnitFees)) (\<lambda>_.
          bindo (if ti_status t \<noteq> ticket_instance_status.Redeemed then release t else ret ()) (\<lambda>_.
          refund_one_unit self (rt_fee_refunded_at rt = None)))) v = (Inr a, u)"
    unfolding bindo_Inr_iff by blast
  have v: "v = s1" using two trans by simp
  have "\<not> b" using rest by (cases b) (auto simp: op_simps)
  with rest v obtain x s2 y s3 where three: "mark_refunded rt (oi_item_type self = order_item_types.PerUnitFees) s1 = (Inr x, s2)"
    "(if ti_status t \<noteq> ticket_instance_status.Redeemed then release t else ret ()) s2 = (Inr y, s3)"
    "refund_one_unit self (rt_fee_refunded_at rt = None) s3 = (Inr a, u)"
    by (auto simp: bindo_Inr_iff)
  show thesis
  proof (rule that [OF one none _ _ _ _ three(3)])
    show "was_transferred t s1 = (Inr False, s1)" using two v \<open>\<not> b\<close> by simp
    show "snd (mark_refunded rt (oi_item_type self = order_item_types.PerUnitFees) s1) = s2"
      using three(1) by simp
    show "release t s2 = (Inr (), s3)" if "ti_status t \<noteq> ticket_instance_status.Redeemed"
      using three(2) that by simp
    show "s3 = s2" if "ti_status t = ticket_instance_status.Redeemed"
      using three(2) that by (simp add: ret_run)
  qed
qed

lemma refund_line_Inr:
  assumes "refund_line ord ri acc s = (Inr b, t)"
  obtains item a where "find (\<lambda>oi. oi_id oi = ri_order_item_id ri) (db_order_items s) = Some item"
    and "oi_order_id item = o_id ord" and "b = acc + a"
    and "oi_item_type item \<noteq> order_item_types.EventFees \<Longrightarrow> \<exists>i tk. ri_ticket_instance_id ri = Some i \<and>
      find_ticket i s = (Inr tk, s) \<and> refund_ticket_item item tk s = (Inr a, t)"
    and "oi_item_type item = order_item_types.EventFees \<Longrightarrow> refund_one_unit item True s = (Inr a, t)"
proof -
  obtain item where item: "find (\<lambda>oi. oi_id oi = ri_order_item_id ri) (db_order_items s) = Some item"
    and rest: "(if oi_order_id item \<noteq> o_id ord
      then business_process_error ''Order item id does not belong to this order''
      else bindo (case ri_ticket_instance_id ri of
              Some i \<Rightarrow> bindo (find_ticket i) (\<lambda>t. ret (Some t)) | None \<Rightarrow> ret None) (\<lambda>ticket_instance.
        bindo (if oi_item_type item \<in> {order_item_types.Tickets, order_item_types.PerUnitFees}
               then (case ticket_instance of
                   None \<Rightarrow> business_process_error ''Ticket id required when refunding ticket related order item''
                 | Some t \<Rightarrow> refund_ticket_item item t)
               else refund_one_unit item True) (\<lambda>amount. ret (acc + amount)))) s = (Inr b, t)"
    using assms unfolding refund_line_def bindo_Inr_iff order_item_find_def first_where_Inr_iff by blast
  from rest have same: "oi_order_id item = o_id ord" by (auto simp: op_simps split: if_splits)
  with rest obtain tk v a where tk: "(case ri_ticket_instance_id ri of
        Some i \<Rightarrow> bindo (find_ticket i) (\<lambda>t. ret (Some t)) | None \<Rightarrow> ret None) s = (Inr tk, v)"
    and amount: "(if oi_item_type item \<in> {order_item_types.Tickets, order_item_types.PerUnitFees}
               then (case tk of
                   None \<Rightarrow> business_process_error ''Ticket id required when refunding ticket related order item''
                 | Some t \<Rightarrow> refund_ticket_item item t)
               else refund_one_unit item True) v = (Inr a, t)" and b: "b = acc + a"
    by (auto simp: bindo_Inr_iff ret_run)
  have v: "v = s" and tk_read: "case tk of None \<Rightarrow> True | Some x \<Rightarrow> \<exists>i. ri_ticket_instance_id ri = Some i \<and>
      find_ticket i s = (Inr x, s)"
    using tk by (auto simp: bindo_Inr_iff ret_run find_ticket_def first_where_Inr_iff split: option.splits)
  show thesis
  proof (rule that [OF item same b])
    assume "oi_item_type item \<noteq> order_item_types.EventFees"
    then have "oi_item_type item \<in> {order_item_types.Tickets, order_item_types.PerUnitFees}"
      by (cases "oi_item_type item") simp_all
    then show "\<exists>i tk. ri_ticket_instance_id ri = Some i \<and>
        find_ticket i s = (Inr tk, s) \<and> refund_ticket_item item tk s = (Inr a, t)"
      using amount tk_read v by (cases tk) (auto simp: op_simps)
  next
    assume "oi_item_type item = order_item_types.EventFees"
    then show "refund_one_unit item True s = (Inr a, t)" using amount v by simp
  qed
qed

text \<open>Refunding units touches no ticket and no record of a refunded ticket.\<close>

definition same_tickets :: "db \<Rightarrow> db \<Rightarrow> bool" where
  "same_tickets s t \<longleftrightarrow> db_ticket_instances t = db_ticket_instances s \<and>
     db_refunded_tickets t = db_refunded_tickets s"

interpretation tickets_same: step_relation same_tickets
  by unfold_locales (auto simp: same_tickets_def)

lemma same_tickets_update_items: "steps same_tickets (update_items P f m)"
proof (rule stepsI)
  fix s
  obtain r t where run: "update_items P f m s = (r, t)" by fastforce
  from run [unfolded update_items_def] have "same_tickets s t"
    by (cases rule: execute_checked_cases) (auto simp: same_tickets_def)
  then show "same_tickets s (snd (update_items P f m s))" by (simp add: run)
qed

lemma same_tickets_body:
  assumes "\<And>f. steps same_tickets (rec f True)"
  shows "steps same_tickets (refund_body rec self rf)"
proof -
  have "steps same_tickets (find_fee_item self)"
    unfolding find_fee_item_def by (rule tickets_same.steps_gets)
  then have "steps same_tickets (unit_refund_amount rec self rf)"
    unfolding unit_refund_amount_def using assms
    by (auto split: option.split intro!: tickets_same.steps_control)
  moreover have "steps same_tickets (order_of self)"
    by (simp add: steps_def order_of_def order_find_def tickets_same.step_refl)
  ultimately show ?thesis
    unfolding refund_body_def store_refunded_unit_def
    by (auto intro!: tickets_same.steps_control tickets_same.steps_errors same_tickets_update_items)
qed

lemma same_tickets_unit: "steps same_tickets (refund_one_unit self rf)"
  unfolding refund_one_unit_def refund_fee_unit_def
  by (intro same_tickets_body) (rule tickets_same.steps_ret)

lemma same_tickets_event_fees:
  "steps same_tickets (bindo (event_fee_items_with_no_associated_items ord) (\<lambda>fee_items.
     fold_op (\<lambda>item total. bindo (refund_one_unit item True) (\<lambda>amount. ret (total + amount))) fee_items acc))"
  unfolding event_fee_items_with_no_associated_items_def
  by (intro tickets_same.steps_bindo tickets_same.steps_fold_op same_tickets_unit tickets_same.steps_gets
      tickets_same.steps_ret)

section \<open>Properties\<close>

text \<open>C9: a refund pays back what the order loses: when refunding items of an order succeeds, its total
  falls by the amount the refund returns (as 32 bit numbers, in which the code adds up the amount), so
  the amount is exactly the difference of the totals as long as that fits.\<close>

theorem refund_conserves_money:
  assumes "items_ok s" and "refund ord ris s = (Inr amount, t)"
    and "calculate_total ord s = (Inr before_total, s)" and "calculate_total ord t = (Inr after_total, t)"
  shows "as_u32 before_total = as_u32 after_total + amount \<and>
    (0 \<le> before_total - after_total \<longrightarrow> before_total - after_total < 2 ^ 32 \<longrightarrow>
       as_i64 amount = before_total - after_total)"
proof -
  have totals: "before_total = order_total ord s" "after_total = order_total ord t"
    using assms(3,4) by (simp_all add: calculate_total_run)
  have "pays_back ord 0 s (Inr amount) t" using refund_pays [OF assms(1), of ord ris] assms(2) by simp
  then have sum: "as_u32 before_total = as_u32 after_total + amount"
    by (simp add: pays_back_def totals)
  moreover have "as_u32 (before_total - after_total) = as_u32 before_total - as_u32 after_total"
    by (simp add: as_u32_def)
  ultimately have "amount = as_u32 (before_total - after_total)" by simp
  then show ?thesis using sum by (auto simp: as_i64_as_u32)
qed

text \<open>C10: whatever a refund returns, and wherever it stops, no item is refunded more often than it
  was sold, no refunded quantity falls, and nothing else of any item moves but its time stamp.\<close>

theorem refund_keeps_bounds:
  assumes "items_ok s"
    and "list_all (\<lambda>oi. 0 \<le> oi_refunded_quantity oi \<and> oi_refunded_quantity oi \<le> oi_quantity oi) (db_order_items s)"
  shows "list_all (\<lambda>oi. 0 \<le> oi_refunded_quantity oi \<and> oi_refunded_quantity oi \<le> oi_quantity oi)
      (db_order_items (snd (refund ord ris s))) \<and>
    list_all2 (\<lambda>a b. oi_refunded_quantity a \<le> oi_refunded_quantity b \<and>
        b = a\<lparr>oi_updated_at := oi_updated_at b, oi_refunded_quantity := oi_refunded_quantity b\<rparr>)
      (db_order_items s) (db_order_items (snd (refund ord ris s)))"
proof -
  have all: "list_all2 item_refunded (db_order_items s) (db_order_items (snd (refund ord ris s)))"
    using refund_pays [OF assms(1)] by (simp add: pays_back_def refunds_only_def)
  have bounds: "list_all (\<lambda>oi. 0 \<le> oi_refunded_quantity oi \<and> oi_refunded_quantity oi \<le> oi_quantity oi) xs \<Longrightarrow>
      list_all (\<lambda>oi. 0 \<le> oi_refunded_quantity oi \<and> oi_refunded_quantity oi \<le> oi_quantity oi) ys"
    if "list_all2 item_refunded xs ys" for xs ys
    using that
  proof (induction rule: list_all2_induct)
    case (Cons x xs y ys)
    then show ?case
      using item_refunded_cols(4,5) [OF Cons.hyps(1)] item_refunded_cols(6) [OF Cons.hyps(1)] by auto
  qed simp
  have "b = a\<lparr>oi_updated_at := oi_updated_at b, oi_refunded_quantity := oi_refunded_quantity b\<rparr>"
    if "item_refunded a b" for a b
    using that by (auto simp: item_refunded_def)
  then have "list_all2 (\<lambda>a b. oi_refunded_quantity a \<le> oi_refunded_quantity b \<and>
        b = a\<lparr>oi_updated_at := oi_updated_at b, oi_refunded_quantity := oi_refunded_quantity b\<rparr>)
      (db_order_items s) (db_order_items (snd (refund ord ris s)))"
    using item_refunded_cols(5) by (intro list_all2_mono [OF all] conjI)
  with bounds [OF all assms(2)] show ?thesis by (rule conjI)
qed

definition sample_refund :: db where
  "sample_refund = blank_db\<lparr>
     db_users := [blank_user 1], db_wallets := [blank_wallet 20 (Some 1)],
     db_events := [blank_event 3 4], db_ticket_types := [blank_ticket_type 9 3],
     db_orders := [blank_order 7 1 order_status.Paid],
     db_order_items :=
       [(blank_item 30 7 order_item_types.Tickets 2 100)\<lparr>oi_ticket_type_id := Some 9, oi_event_id := Some 3\<rparr>,
        (blank_item 31 7 order_item_types.PerUnitFees 2 10)\<lparr>oi_parent_id := Some 30, oi_event_id := Some 3\<rparr>,
        (blank_item 32 7 order_item_types.EventFees 1 5)\<lparr>oi_event_id := Some 3\<rparr>],
     db_assets := [blank_asset 60 9],
     db_ticket_instances :=
       [(blank_ticket 40 60)\<lparr>ti_order_item_id := Some 30, ti_wallet_id := 20,
          ti_status := ticket_instance_status.Purchased\<rparr>,
        (blank_ticket 41 60)\<lparr>ti_order_item_id := Some 30, ti_wallet_id := 20,
          ti_status := ticket_instance_status.Redeemed\<rparr>]\<rparr>"

abbreviation refund_of :: "uuid \<Rightarrow> uuid \<Rightarrow> refund_item" where
  "refund_of item ticket \<equiv> \<lparr>ri_order_item_id = item, ri_ticket_instance_id = Some ticket\<rparr>"

lemma sample_refund_runs:
  "fst (refund (blank_order 7 1 order_status.Paid) [refund_of 30 40] sample_refund) = Inr 110"
  by code_simp

lemma sample_refund_all_runs:
  "fst (refund (blank_order 7 1 order_status.Paid) [refund_of 30 40, refund_of 30 41] sample_refund) = Inr 225"
  by code_simp

theorem refund_conserves_money_witness:
  "\<exists>t. refund (blank_order 7 1 order_status.Paid) [refund_of 30 40] sample_refund = (Inr 110, t) \<and>
     calculate_total (blank_order 7 1 order_status.Paid) sample_refund = (Inr 225, sample_refund) \<and>
     calculate_total (blank_order 7 1 order_status.Paid) t = (Inr 115, t)"
proof -
  define t where "t = snd (refund (blank_order 7 1 order_status.Paid) [refund_of 30 40] sample_refund)"
  have ok: "items_ok sample_refund" by code_simp
  have run: "refund (blank_order 7 1 order_status.Paid) [refund_of 30 40] sample_refund = (Inr 110, t)"
    using sample_refund_runs by (simp add: t_def prod_eq_iff)
  have before_value: "order_total (blank_order 7 1 order_status.Paid) sample_refund = 225" by code_simp
  have before_sum: "calculate_total (blank_order 7 1 order_status.Paid) sample_refund = (Inr 225, sample_refund)"
    using calculate_total_run [of "blank_order 7 1 order_status.Paid" sample_refund] before_value by simp
  have after_sum: "calculate_total (blank_order 7 1 order_status.Paid) t =
      (Inr (order_total (blank_order 7 1 order_status.Paid) t), t)"
    by (rule calculate_total_run)
  have "order_total (blank_order 7 1 order_status.Paid) t = 115"
    unfolding t_def by code_simp
  with after_sum have after': "calculate_total (blank_order 7 1 order_status.Paid) t = (Inr 115, t)" by simp
  show ?thesis
    using refund_conserves_money [OF ok run before_sum after'] run before_sum after' by blast
qed

theorem refund_keeps_bounds_witness:
  "list_all (\<lambda>oi. 0 \<le> oi_refunded_quantity oi \<and> oi_refunded_quantity oi \<le> oi_quantity oi)
     (db_order_items (snd (refund (blank_order 7 1 order_status.Paid) [refund_of 30 40, refund_of 30 41]
       sample_refund)))"
proof -
  have ok: "items_ok sample_refund" by code_simp
  have "list_all (\<lambda>oi. 0 \<le> oi_refunded_quantity oi \<and> oi_refunded_quantity oi \<le> oi_quantity oi)
      (db_order_items sample_refund)"
    by code_simp
  from refund_keeps_bounds [OF ok this] show ?thesis by (rule conjunct1)
qed

end
