(* ===== verification/Footprints.thy ===== *)
theory Footprints imports Refunds begin

text \<open>
  Footprints: which tables an operation may write. \<open>writes W s t\<close> says that the states differ in the
  tables of \<open>W\<close> only (and in how many identifiers and random numbers were drawn); one lemma per
  operation gives its tables, whether it returns or fails, and every proof that needs to know what an
  operation leaves alone takes it from there.
\<close>

named_theorems footprints "the tables an operation may write"

datatype table_id
  = OrdersT | OrderItemsT | TicketInstancesT | AssetsT
  | TicketTypesT | TicketPricingT | FeeSchedulesT | FeeScheduleRangesT
  | HoldsT | CodesT | TicketTypeCodesT | PaymentsT
  | RefundedTicketsT | WalletsT | DomainEventsT | DomainActionsT
  | EventsT | OrganizationsT | UsersT | OrganizationUsersT
  | OrganizationInvitesT | ExternalLoginsT | EventInterestT | PaymentMethodsT
  | PushNotificationTokensT | VenuesT | RegionsT | StagesT
  | ArtistsT | EventArtistsT

fun same_table :: "table_id \<Rightarrow> db \<Rightarrow> db \<Rightarrow> bool" where
  "same_table OrdersT s t \<longleftrightarrow> db_orders t = db_orders s"
| "same_table OrderItemsT s t \<longleftrightarrow> db_order_items t = db_order_items s"
| "same_table TicketInstancesT s t \<longleftrightarrow> db_ticket_instances t = db_ticket_instances s"
| "same_table AssetsT s t \<longleftrightarrow> db_assets t = db_assets s"
| "same_table TicketTypesT s t \<longleftrightarrow> db_ticket_types t = db_ticket_types s"
| "same_table TicketPricingT s t \<longleftrightarrow> db_ticket_pricing t = db_ticket_pricing s"
| "same_table FeeSchedulesT s t \<longleftrightarrow> db_fee_schedules t = db_fee_schedules s"
| "same_table FeeScheduleRangesT s t \<longleftrightarrow> db_fee_schedule_ranges t = db_fee_schedule_ranges s"
| "same_table HoldsT s t \<longleftrightarrow> db_holds t = db_holds s"
| "same_table CodesT s t \<longleftrightarrow> db_codes t = db_codes s"
| "same_table TicketTypeCodesT s t \<longleftrightarrow> db_ticket_type_codes t = db_ticket_type_codes s"
| "same_table PaymentsT s t \<longleftrightarrow> db_payments t = db_payments s"
| "same_table RefundedTicketsT s t \<longleftrightarrow> db_refunded_tickets t = db_refunded_tickets s"
| "same_table WalletsT s t \<longleftrightarrow> db_wallets t = db_wallets s"
| "same_table DomainEventsT s t \<longleftrightarrow> db_domain_events t = db_domain_events s"
| "same_table DomainActionsT s t \<longleftrightarrow> db_domain_actions t = db_domain_actions s"
| "same_table EventsT s t \<longleftrightarrow> db_events t = db_events s"
| "same_table OrganizationsT s t \<longleftrightarrow> db_organizations t = db_organizations s"
| "same_table UsersT s t \<longleftrightarrow> db_users t = db_users s"
| "same_table OrganizationUsersT s t \<longleftrightarrow> db_organization_users t = db_organization_users s"
| "same_table OrganizationInvitesT s t \<longleftrightarrow> db_organization_invites t = db_organization_invites s"
| "same_table ExternalLoginsT s t \<longleftrightarrow> db_external_logins t = db_external_logins s"
| "same_table EventInterestT s t \<longleftrightarrow> db_event_interest t = db_event_interest s"
| "same_table PaymentMethodsT s t \<longleftrightarrow> db_payment_methods t = db_payment_methods s"
| "same_table PushNotificationTokensT s t \<longleftrightarrow> db_push_notification_tokens t = db_push_notification_tokens s"
| "same_table VenuesT s t \<longleftrightarrow> db_venues t = db_venues s"
| "same_table RegionsT s t \<longleftrightarrow> db_regions t = db_regions s"
| "same_table StagesT s t \<longleftrightarrow> db_stages t = db_stages s"
| "same_table ArtistsT s t \<longleftrightarrow> db_artists t = db_artists s"
| "same_table EventArtistsT s t \<longleftrightarrow> db_event_artists t = db_event_artists s"

definition same_environment :: "db \<Rightarrow> db \<Rightarrow> bool" where
  "same_environment s t \<longleftrightarrow> now t = now s \<and> utc_now t = utc_now s \<and> uuid_source t = uuid_source s \<and>
     rng_source t = rng_source s \<and> keypair_source t = keypair_source s \<and>
     locked_tickets t = locked_tickets s \<and> collate t = collate s \<and> valid_email t = valid_email s"

definition writes :: "table_id set \<Rightarrow> db \<Rightarrow> db \<Rightarrow> bool" where
  "writes W s t \<longleftrightarrow> same_environment s t \<and> (\<forall>T. T \<notin> W \<longrightarrow> same_table T s t)"

lemma same_table_refl [simp]: "same_table T s s"
  by (cases T) simp_all

lemma same_table_trans: "same_table T s t \<Longrightarrow> same_table T t u \<Longrightarrow> same_table T s u"
  by (cases T) simp_all

interpretation footprint: step_relation "writes W" for W
proof unfold_locales
  fix s t u :: db
  show "writes W s s" by (simp add: writes_def same_environment_def)
  assume "writes W s t" "writes W t u"
  then show "writes W s u"
    unfolding writes_def by (auto simp: same_environment_def intro: same_table_trans)
qed

declare footprint.steps_control [footprints]

lemma writes_mono: "writes V s t \<Longrightarrow> V \<subseteq> W \<Longrightarrow> writes W s t"
  by (auto simp: writes_def)

lemma steps_writes_mono: "steps (writes V) m \<Longrightarrow> V \<subseteq> W \<Longrightarrow> steps (writes W) m"
  by (auto simp: steps_def intro: writes_mono)

lemma writes_environment:
  assumes "writes W s t"
  shows "now t = now s" "utc_now t = utc_now s" "valid_email t = valid_email s" "collate t = collate s"
    "locked_tickets t = locked_tickets s"
  using assms by (simp_all add: writes_def same_environment_def)

lemma writes_same: "writes W s t \<Longrightarrow> T \<notin> W \<Longrightarrow> same_table T s t"
  by (simp add: writes_def)

text \<open>One case analysis for all tables.\<close>

lemma all_tables: "(\<forall>T. P T) \<longleftrightarrow>
     P OrdersT \<and> P OrderItemsT \<and> P TicketInstancesT \<and> P AssetsT \<and>
     P TicketTypesT \<and> P TicketPricingT \<and> P FeeSchedulesT \<and> P FeeScheduleRangesT \<and>
     P HoldsT \<and> P CodesT \<and> P TicketTypeCodesT \<and> P PaymentsT \<and>
     P RefundedTicketsT \<and> P WalletsT \<and> P DomainEventsT \<and> P DomainActionsT \<and>
     P EventsT \<and> P OrganizationsT \<and> P UsersT \<and> P OrganizationUsersT \<and>
     P OrganizationInvitesT \<and> P ExternalLoginsT \<and> P EventInterestT \<and> P PaymentMethodsT \<and>
     P PushNotificationTokensT \<and> P VenuesT \<and> P RegionsT \<and> P StagesT \<and>
     P ArtistsT \<and> P EventArtistsT"
proof (intro iffI allI)
  fix T
  assume "P OrdersT \<and> P OrderItemsT \<and> P TicketInstancesT \<and> P AssetsT \<and>
     P TicketTypesT \<and> P TicketPricingT \<and> P FeeSchedulesT \<and> P FeeScheduleRangesT \<and>
     P HoldsT \<and> P CodesT \<and> P TicketTypeCodesT \<and> P PaymentsT \<and>
     P RefundedTicketsT \<and> P WalletsT \<and> P DomainEventsT \<and> P DomainActionsT \<and>
     P EventsT \<and> P OrganizationsT \<and> P UsersT \<and> P OrganizationUsersT \<and>
     P OrganizationInvitesT \<and> P ExternalLoginsT \<and> P EventInterestT \<and> P PaymentMethodsT \<and>
     P PushNotificationTokensT \<and> P VenuesT \<and> P RegionsT \<and> P StagesT \<and>
     P ArtistsT \<and> P EventArtistsT"
  then show "P T" by (cases T) simp_all
qed simp

lemma writes_pure: "(\<And>s. snd (m s) = s) \<Longrightarrow> steps (writes W) m"
  by (simp add: steps_def footprint.step_refl)

lemma writes_put [footprints]:
  "OrdersT \<in> W \<Longrightarrow> writes W s (s\<lparr>db_orders := rs1\<rparr>)"
  "OrderItemsT \<in> W \<Longrightarrow> writes W s (s\<lparr>db_order_items := rs2\<rparr>)"
  "TicketInstancesT \<in> W \<Longrightarrow> writes W s (s\<lparr>db_ticket_instances := rs3\<rparr>)"
  "AssetsT \<in> W \<Longrightarrow> writes W s (s\<lparr>db_assets := rs4\<rparr>)"
  "TicketTypesT \<in> W \<Longrightarrow> writes W s (s\<lparr>db_ticket_types := rs5\<rparr>)"
  "TicketPricingT \<in> W \<Longrightarrow> writes W s (s\<lparr>db_ticket_pricing := rs6\<rparr>)"
  "FeeSchedulesT \<in> W \<Longrightarrow> writes W s (s\<lparr>db_fee_schedules := rs7\<rparr>)"
  "FeeScheduleRangesT \<in> W \<Longrightarrow> writes W s (s\<lparr>db_fee_schedule_ranges := rs8\<rparr>)"
  "HoldsT \<in> W \<Longrightarrow> writes W s (s\<lparr>db_holds := rs9\<rparr>)"
  "CodesT \<in> W \<Longrightarrow> writes W s (s\<lparr>db_codes := rs10\<rparr>)"
  "TicketTypeCodesT \<in> W \<Longrightarrow> writes W s (s\<lparr>db_ticket_type_codes := rs11\<rparr>)"
  "PaymentsT \<in> W \<Longrightarrow> writes W s (s\<lparr>db_payments := rs12\<rparr>)"
  "RefundedTicketsT \<in> W \<Longrightarrow> writes W s (s\<lparr>db_refunded_tickets := rs13\<rparr>)"
  "WalletsT \<in> W \<Longrightarrow> writes W s (s\<lparr>db_wallets := rs14\<rparr>)"
  "DomainEventsT \<in> W \<Longrightarrow> writes W s (s\<lparr>db_domain_events := rs15\<rparr>)"
  "DomainActionsT \<in> W \<Longrightarrow> writes W s (s\<lparr>db_domain_actions := rs16\<rparr>)"
  "EventsT \<in> W \<Longrightarrow> writes W s (s\<lparr>db_events := rs17\<rparr>)"
  "OrganizationsT \<in> W \<Longrightarrow> writes W s (s\<lparr>db_organizations := rs18\<rparr>)"
  "UsersT \<in> W \<Longrightarrow> writes W s (s\<lparr>db_users := rs19\<rparr>)"
  "OrganizationUsersT \<in> W \<Longrightarrow> writes W s (s\<lparr>db_organization_users := rs20\<rparr>)"
  "OrganizationInvitesT \<in> W \<Longrightarrow> writes W s (s\<lparr>db_organization_invites := rs21\<rparr>)"
  "ExternalLoginsT \<in> W \<Longrightarrow> writes W s (s\<lparr>db_external_logins := rs22\<rparr>)"
  "EventInterestT \<in> W \<Longrightarrow> writes W s (s\<lparr>db_event_interest := rs23\<rparr>)"
  "PaymentMethodsT \<in> W \<Longrightarrow> writes W s (s\<lparr>db_payment_methods := rs24\<rparr>)"
  "PushNotificationTokensT \<in> W \<Longrightarrow> writes W s (s\<lparr>db_push_notification_tokens := rs25\<rparr>)"
  "VenuesT \<in> W \<Longrightarrow> writes W s (s\<lparr>db_venues := rs26\<rparr>)"
  "RegionsT \<in> W \<Longrightarrow> writes W s (s\<lparr>db_regions := rs27\<rparr>)"
  "StagesT \<in> W \<Longrightarrow> writes W s (s\<lparr>db_stages := rs28\<rparr>)"
  "ArtistsT \<in> W \<Longrightarrow> writes W s (s\<lparr>db_artists := rs29\<rparr>)"
  "EventArtistsT \<in> W \<Longrightarrow> writes W s (s\<lparr>db_event_artists := rs30\<rparr>)"
  by (simp_all add: writes_def same_environment_def all_tables)

lemma writes_branches [footprints]:
  "steps (writes W) m \<Longrightarrow> steps (writes W) m' \<Longrightarrow> steps (writes W) (if c then m else m')"
  "steps (writes W) m \<Longrightarrow> (\<And>y. steps (writes W) (f y)) \<Longrightarrow>
     steps (writes W) (case x of None \<Rightarrow> m | Some y \<Rightarrow> f y)"
  by (simp_all split: option.split)

lemma writes_draw [footprints]:
  "steps (writes W) draw_uuid" "steps (writes W) (gen_range n)" "steps (writes W) draw_keypair"
  by (simp_all add: steps_def writes_def same_environment_def all_tables)

lemma writes_reads [footprints]:
  "steps (writes W) (first_where get P code message)" "steps (writes W) (select_where get P)"
  by (rule writes_pure, simp)+

text \<open>The statements of the query builder, for a table whose replacement is a write.\<close>

lemma writes_statements [footprints]:
  assumes "\<And>s rs. writes W s (put rs s)"
  shows "steps (writes W) (insert_row get put r)"
    and "steps (writes W) (update_rows get put P f)"
    and "steps (writes W) (update_first get put P f code message)"
    and "steps (writes W) (insert_checked get put violation r code message)"
    and "steps (writes W) (update_checked get put violation P f code message)"
    and "steps (writes W) (execute_update get put P f)"
    and "steps (writes W) (execute_checked get put violation P f code message)"
    and "steps (writes W) (delete_where get put P)"
    and "steps (writes W) (delete_checked get put referenced P code message)"
  using assms
  by (auto simp: steps_def footprint.step_refl insert_checked_run update_checked_def execute_checked_def
      delete_checked_def split: option.split list.split)

section \<open>Tickets\<close>

lemma writes_tickets [footprints]:
  assumes "TicketInstancesT \<in> W"
  shows "steps (writes W) (update_tickets P f)"
    and "steps (writes W) (update_tickets_limited cond f n)"
  using assms by (auto simp: steps_def op_simps intro: footprints)

lemma writes_ticket_reads [footprints]:
  "steps (writes W) (find_ticket i)" "steps (writes W) (was_transferred t)"
  "steps (writes W) (count_for_hold h tt)" "steps (writes W) (find_for_order_item i)"
  "steps (writes W) (find_wallets_for_user i)" "steps (writes W) (find_tickets_for_user i)"
  by (rule writes_pure, simp add: find_ticket_def was_transferred_def count_for_hold_def
      find_for_order_item_def find_wallets_for_user_def find_tickets_for_user_def)+

lemma writes_errors [footprints]:
  "steps (writes W) (business_process_error m)" "steps (writes W) (validation_error_op f m)"
  "steps (writes W) (concurrency_error m)" "steps (writes W) (no_results m)"
  "steps (writes W) (check_validation r)" "steps (writes W) (lift_result x)"
  by (rule writes_pure, simp add: op_simps split: sum.split)+

lemma writes_optional [footprints]: "steps (writes W) m \<Longrightarrow> steps (writes W) (optional_op m)"
  by (simp add: steps_def optional_op_run)

lemma writes_redeem_key [footprints]: "steps (writes W) (generate_redeem_key n)"
  by (induction n) (auto intro!: footprints)

lemma writes_ticket_operations [footprints]:
  assumes "TicketInstancesT \<in> W"
  shows "steps (writes W) (release t)" and "steps (writes W) (reserve_tickets oi e tt ho q)"
    and "steps (writes W) (release_tickets oi q)" and "steps (writes W) (add_to_hold h tt q from_hold)"
    and "steps (writes W) (release_from_hold h tt q)" and "steps (writes W) (update_reserved_time oi until)"
    and "steps (writes W) (set_wallet t w)" and "steps (writes W) (mark_as_purchased oi u)"
    and "steps (writes W) (redeem_ticket i key)" and "steps (writes W) (nullify_tickets a q)"
  unfolding release_def reserve_tickets_def release_tickets_def add_to_hold_def release_from_hold_def
    update_reserved_time_def set_wallet_def mark_as_purchased_def write_redeem_key_def redeem_ticket_def
    nullify_tickets_def release_query_def
  using assms by (auto intro!: footprints split: option.split list.split)

section \<open>Prices, fees, holds\<close>

lemma writes_current_pricing [footprints]: "steps (writes W) (get_current_ticket_pricing tt b d)"
proof (induction tt b d rule: get_current_ticket_pricing.induct)
  case (1 tt b d)
  then show ?case
    by (subst get_current_ticket_pricing.simps) (auto intro!: footprints split: list.split)
qed

lemma writes_catalog_reads [footprints]:
  "steps (writes W) (ticket_type_find i)" "steps (writes W) (event_find i)"
  "steps (writes W) (fee_schedule_ranges fs)" "steps (writes W) (fee_schedule_find i)"
  "steps (writes W) (hold_find i)" "steps (writes W) (hold_find_by_redemption_code c)"
  "steps (writes W) (order_find i)" "steps (writes W) (order_item_find i)"
  "steps (writes W) (find_for_order i)" "steps (writes W) (find_fee_item oi)"
  "steps (writes W) (order_of oi)" "steps (writes W) (order_items ord)"
  "steps (writes W) (total_paid ord)" "steps (writes W) (quantity_for_user_for_event u e)"
  "steps (writes W) (ticket_type_fee_schedule tt)"
  by (rule writes_pure, simp add: ticket_type_find_def event_find_def fee_schedule_ranges_def fee_schedule_find_def
      hold_find_def hold_find_by_redemption_code_def order_find_def order_item_find_def find_for_order_def
      find_fee_item_def order_of_def order_items_def total_paid_def quantity_for_user_for_event_def
      ticket_type_fee_schedule_def)+

lemma writes_fee_reads [footprints]:
  "steps (writes W) (get_range fs price)"
  "steps (writes W) (is_comp h)" "steps (writes W) (calculate_total ord)"
  unfolding get_range_def is_comp_def calculate_total_def
  by (auto intro!: footprints split: option.split)

section \<open>Order items\<close>

lemma writes_select_bool [footprints]: "steps (writes W) (\<lambda>s. select_bool (g s) code m s)"
  by (rule writes_pure) (simp add: select_bool_def lift_result_run)

lemma writes_item_checks [footprints]:
  "steps (writes W) (quantity_valid_increment b ty q p)"
  "steps (writes W) (code_id_max_tickets_per_user_valid i ord c q)"
  "steps (writes W) (code_id_max_uses_valid ord c)"
  unfolding quantity_valid_increment_def code_id_max_tickets_per_user_valid_def code_id_max_uses_valid_def
  by (intro footprints)+

lemma writes_items [footprints]:
  assumes "OrderItemsT \<in> W"
  shows "steps (writes W) (update_items P f m)" and "steps (writes W) (insert_item oi)"
    and "steps (writes W) (delete_items P m)"
  unfolding update_items_def insert_item_def delete_items_def using assms by (auto intro!: footprints)

lemma writes_item_operations [footprints]:
  assumes "OrderItemsT \<in> W"
  shows "steps (writes W) (item_update oi)" and "steps (writes W) (tickets_item_commit nt)"
    and "steps (writes W) (fees_item_commit nf)" and "steps (writes W) (destroy_item ord i)"
  unfolding item_update_def item_validate_record_def tickets_item_commit_def fees_item_commit_def
    destroy_item_def new_tickets_item_validate_record_def
  using assms by (auto intro!: footprints)

lemma writes_fee_items [footprints]:
  assumes "OrderItemsT \<in> W"
  shows "steps (writes W) (destroy_fee_item ord fee)" and "steps (writes W) (put_fee_item oi fee r)"
  unfolding destroy_fee_item_def put_fee_item_def
  using assms by (auto intro!: footprints split: option.split)

lemma writes_item_fees [footprints]:
  assumes "OrderItemsT \<in> W"
  shows "steps (writes W) (item_update_fees oi ord)"
  unfolding item_update_fees_def using assms by (intro footprints)

lemma writes_store_unit [footprints]:
  assumes "OrderItemsT \<in> W"
  shows "steps (writes W) (store_refunded_unit oi amount)"
  unfolding store_refunded_unit_def using assms by (auto intro!: footprints)

lemma writes_refund_unit [footprints]:
  assumes "OrderItemsT \<in> W"
  shows "steps (writes W) (refund_one_unit oi rf)"
proof -
  have body: "steps (writes W) (refund_body rec oi rf)" if "\<And>f b. steps (writes W) (rec f b)" for rec oi rf
    unfolding refund_body_def unit_refund_amount_def
    using assms that by (auto intro!: footprints split: option.split)
  show ?thesis unfolding refund_one_unit_def refund_fee_unit_def
    by (intro body footprint.steps_ret)
qed

section \<open>Payments, refunded tickets, wallets\<close>

lemma writes_domain_event [footprints]: "DomainEventsT \<in> W \<Longrightarrow> steps (writes W) (domain_event_commit e)"
  unfolding domain_event_commit_def by (auto intro!: footprints)

lemma writes_payment [footprints]:
  assumes "PaymentsT \<in> W" and "DomainEventsT \<in> W"
  shows "steps (writes W) (payment_commit p u)" and "steps (writes W) (log_refund pay u amount data)"
  unfolding log_refund_def payment_commit_def using assms by (auto intro!: footprints simp: Let_def)

lemma writes_refunded_tickets [footprints]:
  assumes "RefundedTicketsT \<in> W"
  shows "steps (writes W) (find_or_create_by_ticket_instance t)" and "steps (writes W) (mark_refunded rt b)"
  unfolding find_or_create_by_ticket_instance_def refunded_ticket_commit_def mark_refunded_def Let_def
  using assms by (auto intro!: footprints split: option.split)

lemma writes_wallets [footprints]:
  assumes "WalletsT \<in> W"
  shows "steps (writes W) (create_wallet_for_user u name force)"
    and "steps (writes W) (create_wallet_for_organization g name)"
    and "steps (writes W) (find_default_for_user u)" and "steps (writes W) (find_default_for_organization g)"
  unfolding find_default_for_user_def find_default_for_organization_def create_wallet_for_user_def
    create_wallet_for_organization_def wallet_commit_def find_wallets_for_organization_def
  using assms by (auto intro!: footprints split: list.split prod.split)

section \<open>Orders\<close>

lemma writes_update_orders [footprints]: "OrdersT \<in> W \<Longrightarrow> steps (writes W) (update_orders P f)"
  unfolding update_orders_def by (auto intro!: footprints)

lemma writes_cart_user [footprints]:
  assumes "UsersT \<in> W"
  shows "steps (writes W) (update_last_cart u i)" and "steps (writes W) (clear_cart_user ord)"
  unfolding clear_cart_user_def update_last_cart_def update_users_def
  using assms by (auto intro!: footprints split: option.split)

lemma writes_expiry [footprints]:
  assumes "OrdersT \<in> W"
  shows "steps (writes W) (set_expiry ord)" and "steps (writes W) (remove_expiry ord)"
    and "steps (writes W) (lock_version ord)" and "steps (writes W) (update_box_office_pricing ord b)"
    and "steps (writes W) (update_status ord st)"
  unfolding set_expiry_def remove_expiry_def lock_version_def update_box_office_pricing_def update_status_def
    Let_def
  using assms by (auto intro!: footprints)

lemma writes_map_lines [footprints]: "steps (writes W) (map_lines i items)"
  by (induction items arbitrary: i) (auto intro!: footprints split: option.split)

lemma writes_lines [footprints]:
  assumes "OrderItemsT \<in> W" and "TicketInstancesT \<in> W"
  shows "steps (writes W) (clear_cart ord)" and "steps (writes W) (clear_line ord oi)"
    and "steps (writes W) (process_line ord b rm oi state)" and "steps (writes W) (add_line ord b line checks)"
  unfolding clear_cart_def clear_line_def process_line_def update_line_def reduce_line_def
    increase_line_def add_line_def Let_def
  using assms by (auto intro!: footprints split: option.split prod.split)

lemma writes_update_fees [footprints]:
  assumes "OrderItemsT \<in> W"
  shows "steps (writes W) (update_fees ord)"
  unfolding update_fees_def update_fees_group_def update_group_fees_def
  using assms by (auto intro!: footprints split: option.split prod.split)

lemma writes_check_limit [footprints]: "steps (writes W) (check_limit ord c)"
  unfolding check_limit_def by (auto intro!: footprints split: option.split)

lemma writes_update_quantities [footprints]:
  assumes "OrdersT \<in> W" and "OrderItemsT \<in> W" and "TicketInstancesT \<in> W"
  shows "steps (writes W) (update_quantities ord items b rm)"
  unfolding update_quantities_def finish_quantities_def update_lines_def
  using assms by (auto intro!: footprints split: prod.split)

lemma writes_completion [footprints]:
  assumes "OrdersT \<in> W" and "TicketInstancesT \<in> W" and "UsersT \<in> W"
  shows "steps (writes W) (complete_if_fully_paid ord)" and "steps (writes W) (mark_partially_paid ord)"
  unfolding complete_if_fully_paid_def mark_partially_paid_def Let_def
  using assms by (auto intro!: footprints)

lemma writes_payments_of_order [footprints]:
  assumes "OrdersT \<in> W" and "TicketInstancesT \<in> W" and "UsersT \<in> W" and "PaymentsT \<in> W"
    and "DomainEventsT \<in> W"
  shows "steps (writes W) (add_payment ord np u)" and "steps (writes W) (mark_complete p raw u)"
  unfolding add_payment_def mark_complete_def payment_order_def
  using assms by (auto intro!: footprints split: order_status.split)

lemma writes_refund [footprints]:
  assumes "OrderItemsT \<in> W" and "TicketInstancesT \<in> W" and "RefundedTicketsT \<in> W"
  shows "steps (writes W) (refund ord items)"
  unfolding refund_def refund_line_def refund_ticket_item_def event_fee_items_with_no_associated_items_def
  using assms by (auto intro!: footprints split: option.split)

end
