(* ===== verification/Domain_Actions.thy ===== *)
theory Domain_Actions imports Footprints "HOL-Library.Sublist" begin

text \<open>
  The queue of work (\<open>db/src/models/domain_actions.rs\<close>), the monitor that runs it
  (\<open>api/src/domain_events/domain_action_monitor.rs\<close>, \<open>executor_future.rs\<close>, \<open>routing.rs\<close>) and the publisher
  that turns domain events into actions (\<open>db/src/services/domain_event_publisher.rs\<close>). What an executor
  does is a parameter: from the action and the state it gives an error text or the new state, and
  its writes are seen when its transaction commits. Here every executor comes to its end, so a future is never
  dropped for its 55 seconds; the theory \<open>Monitor\<close> has that step.
\<close>

section \<open>Actions\<close>

record new_domain_action =
  nda_domain_event_id :: "uuid option"
  nda_domain_action_type :: domain_action_types
  nda_communication_channel_type :: "communication_channel_type option"
  nda_payload :: string
  nda_main_table :: string
  nda_main_table_id :: uuid
  nda_scheduled_at :: timestamp
  nda_expires_at :: timestamp
  nda_last_attempted_at :: "timestamp option"
  nda_attempt_count :: int
  nda_max_attempt_count :: int
  nda_status :: domain_action_status

record domain_action_attributes =
  daa_scheduled_at :: "timestamp option"
  daa_last_attempted_at :: "timestamp option"
  daa_attempt_count :: "int option"
  daa_blocked_until :: timestamp

definition action_create ::
  "uuid option \<Rightarrow> domain_action_types \<Rightarrow> communication_channel_type option \<Rightarrow> string \<Rightarrow> string \<Rightarrow> uuid \<Rightarrow>
   timestamp \<Rightarrow> timestamp \<Rightarrow> int \<Rightarrow> new_domain_action"
where
  "action_create domain_event_id domain_action_type communication_channel_type payload main_table
     main_table_id scheduled_at expires_at max_attempt_count =
     \<lparr>nda_domain_event_id = domain_event_id, nda_domain_action_type = domain_action_type,
      nda_communication_channel_type = communication_channel_type, nda_payload = payload,
      nda_main_table = main_table, nda_main_table_id = main_table_id, nda_scheduled_at = scheduled_at,
      nda_expires_at = expires_at, nda_last_attempted_at = None, nda_attempt_count = 0,
      nda_max_attempt_count = max_attempt_count, nda_status = domain_action_status.Pending\<rparr>"

definition action_violation :: "db \<Rightarrow> domain_action \<Rightarrow> db_error_kind option" where
  "action_violation s a =
     (if refers (da_domain_event_id a) de_id (db_domain_events s) then None else Some ForeignKeyViolation)"

definition action_row :: "new_domain_action \<Rightarrow> uuid \<Rightarrow> timestamp \<Rightarrow> domain_action" where
  "action_row self id' n =
     \<lparr>da_id = id', da_domain_event_id = nda_domain_event_id self,
      da_domain_action_type = nda_domain_action_type self,
      da_communication_channel_type = nda_communication_channel_type self, da_payload = nda_payload self,
      da_main_table = nda_main_table self, da_main_table_id = nda_main_table_id self,
      da_scheduled_at = nda_scheduled_at self, da_expires_at = nda_expires_at self,
      da_last_attempted_at = nda_last_attempted_at self, da_attempt_count = nda_attempt_count self,
      da_max_attempt_count = nda_max_attempt_count self, da_status = nda_status self,
      da_last_failure_reason = None, da_blocked_until = n, da_created_at = n, da_updated_at = n\<rparr>"

definition action_commit :: "new_domain_action \<Rightarrow> domain_action dbop" where
  "action_commit self =
     bindo draw_uuid (\<lambda>id'.
     bindo (gets now) (\<lambda>n.
       insert_checked db_domain_actions (\<lambda>rs s. s\<lparr>db_domain_actions := rs\<rparr>) action_violation
         (action_row self id' n) InsertError ''Could not insert domain message''))"

definition pending_action :: "timestamp \<Rightarrow> domain_action \<Rightarrow> bool" where
  "pending_action n a \<longleftrightarrow> da_scheduled_at a \<le> n \<and> da_expires_at a > n \<and> da_blocked_until a \<le> n \<and>
     da_attempt_count a < da_max_attempt_count a \<and> da_status a = domain_action_status.Pending"

definition find_pending :: "domain_action_types option \<Rightarrow> domain_action list dbop" where
  "find_pending action_type = gets (\<lambda>s.
     filter (\<lambda>a. pending_action (now s) a \<and>
       (case action_type of None \<Rightarrow> True | Some ty \<Rightarrow> da_domain_action_type a = ty)) (db_domain_actions s))"

definition has_pending_action :: "domain_action_types \<Rightarrow> string \<Rightarrow> uuid \<Rightarrow> bool dbop" where
  "has_pending_action action_type main_table main_table_id = gets (\<lambda>s.
     length (filter (\<lambda>a. da_domain_action_type a = action_type \<and>
       da_status a = domain_action_status.Pending \<and> da_expires_at a > now s \<and>
       da_main_table a = main_table \<and> da_main_table_id a = main_table_id) (db_domain_actions s)) > 0)"

definition action_find :: "uuid \<Rightarrow> domain_action dbop" where
  "action_find id' =
     first_where db_domain_actions (\<lambda>a. da_id a = id') QueryError ''Error loading domain action''"

definition update_action ::
  "(domain_action \<Rightarrow> bool) \<Rightarrow> (domain_action \<Rightarrow> domain_action) \<Rightarrow> domain_action dbop" where
  "update_action P f = update_first db_domain_actions (\<lambda>rs s. s\<lparr>db_domain_actions := rs\<rparr>) P f
     UpdateError ''Could not update Domain Action''"

text \<open>\<open>set_busy\<close> reads the row and then claims it; another process may run in between.\<close>

definition busy_check :: "domain_action \<Rightarrow> unit dbop" where
  "busy_check self =
     bindo (action_find (da_id self)) (\<lambda>db_blocked.
     bindo (gets utc_now) (\<lambda>utc.
     if da_blocked_until db_blocked > utc
     then concurrency_error ''Another process is busy with this action''
     else ret ()))"

definition busy_claim :: "domain_action \<Rightarrow> timestamp \<Rightarrow> unit dbop" where
  "busy_claim self timeout =
     bindo (gets now) (\<lambda>n.
     bindo (update_action (\<lambda>a. da_id a = da_id self \<and> da_blocked_until a \<le> timeout)
       (\<lambda>a. a\<lparr>da_blocked_until := timeout, da_updated_at := n\<rparr>)) (\<lambda>_. ret ()))"

definition set_busy :: "domain_action \<Rightarrow> int \<Rightarrow> unit dbop" where
  "set_busy self timeout =
     bindo (gets utc_now) (\<lambda>utc.
     let timeout = utc + seconds timeout in
     bindo (busy_check self) (\<lambda>_. busy_claim self timeout))"

definition set_done :: "domain_action \<Rightarrow> domain_action dbop" where
  "set_done self =
     bindo (gets now) (\<lambda>n. update_action (\<lambda>a. da_id a = da_id self)
       (\<lambda>a. a\<lparr>da_status := domain_action_status.Success, da_updated_at := n\<rparr>))"

definition set_failed :: "domain_action \<Rightarrow> string \<Rightarrow> domain_action dbop" where
  "set_failed self reason =
     bindo (gets now) (\<lambda>n.
     if da_max_attempt_count self \<le> da_attempt_count self + 1
     then update_action (\<lambda>a. da_id a = da_id self)
       (\<lambda>a. a\<lparr>da_last_failure_reason := Some reason, da_status := domain_action_status.RetriesExceeded,
          da_attempt_count := da_attempt_count self + 1, da_blocked_until := n, da_updated_at := n\<rparr>)
     else update_action (\<lambda>a. da_id a = da_id self)
       (\<lambda>a. a\<lparr>da_last_failure_reason := Some reason, da_attempt_count := da_attempt_count self + 1,
          da_updated_at := n\<rparr>))"

definition set_errored :: "domain_action \<Rightarrow> string \<Rightarrow> domain_action dbop" where
  "set_errored self reason =
     bindo (gets now) (\<lambda>n. update_action (\<lambda>a. da_id a = da_id self)
       (\<lambda>a. a\<lparr>da_last_failure_reason := Some reason, da_status := domain_action_status.Errored,
          da_blocked_until := n, da_updated_at := n\<rparr>))"

text \<open>A column whose attribute is \<open>None\<close> is left alone.\<close>

definition action_update :: "domain_action \<Rightarrow> domain_action_attributes \<Rightarrow> domain_action dbop" where
  "action_update self attributes =
     bindo (gets now) (\<lambda>n. update_action (\<lambda>a. da_id a = da_id self)
       (\<lambda>a. a\<lparr>da_scheduled_at := unwrap_or (daa_scheduled_at attributes) (da_scheduled_at a),
          da_last_attempted_at := (case daa_last_attempted_at attributes of
             None \<Rightarrow> da_last_attempted_at a | Some t \<Rightarrow> Some t),
          da_attempt_count := unwrap_or (daa_attempt_count attributes) (da_attempt_count a),
          da_blocked_until := daa_blocked_until attributes, da_updated_at := n\<rparr>))"

section \<open>The router\<close>

datatype domain_action_error = Simple string | CausedBy db_error | PoolExhausted

definition add_executor ::
  "domain_action_types \<Rightarrow> 'x \<Rightarrow> (domain_action_types \<rightharpoonup> 'x) \<Rightarrow>
   (domain_action_error + unit) \<times> (domain_action_types \<rightharpoonup> 'x)"
where
  "add_executor action_type executor routes =
     ((case routes action_type of
         Some _ \<Rightarrow> Inl (Simple ''Action type already has an executor'')
       | None \<Rightarrow> Inr ()), routes(action_type \<mapsto> executor))"

definition get_executor_for :: "(domain_action_types \<rightharpoonup> 'x) \<Rightarrow> domain_action_types \<Rightarrow> 'x option" where
  "get_executor_for routes action_type = routes action_type"

text \<open>\<open>expect\<close> panics on an error, which is \<open>None\<close> here.\<close>

definition set_up_executors ::
  "(domain_action_types \<Rightarrow> 'x) \<Rightarrow> (domain_action_types \<rightharpoonup> 'x) \<Rightarrow> (domain_action_types \<rightharpoonup> 'x) option" where
  "set_up_executors find_executor routes =
     (let put = (\<lambda>ty r. case r of
            None \<Rightarrow> None
          | Some routes \<Rightarrow> (case add_executor ty (find_executor ty) routes of
                (Inr _, routes) \<Rightarrow> Some routes | (Inl _, _) \<Rightarrow> None)) in
      put domain_action_types.MarketingContactsBulkEventFanListImport
        (put domain_action_types.MarketingContactsCreateEventList
          (put domain_action_types.Communication (Some routes))))"

section \<open>The monitor\<close>

text \<open>\<open>connections\<close> is how many connections the pool has left; one is taken for the queries and one is
  kept by every future. The loop stops after the index has passed the limit.\<close>

type_synonym executor = "domain_action \<Rightarrow> db \<Rightarrow> string option \<times> db"

type_synonym 'a actop = "(db, domain_action_error, 'a) op"

definition caused_by :: "'a dbop \<Rightarrow> 'a actop" where
  "caused_by m = (\<lambda>s. case m s of (Inl e, t) \<Rightarrow> (Inl (CausedBy e), t) | (Inr x, t) \<Rightarrow> (Inr x, t))"

fun take_actions ::
  "(domain_action_types \<rightharpoonup> executor) \<Rightarrow> nat \<Rightarrow> nat \<Rightarrow> nat \<Rightarrow> domain_action list \<Rightarrow>
   (domain_action \<times> executor) list \<Rightarrow> (domain_action \<times> executor) list actop"
where
  "take_actions router connections limit index [] result = ret result"
| "take_actions router connections limit index (action # actions) result =
     (if limit < index then ret result
      else if connections \<le> 1 + length result then ret result
      else bindo (attempt (set_busy action 60)) (\<lambda>busy.
        case busy of
          Inl e \<Rightarrow>
            if err_error_code e = ConcurrencyError
            then take_actions router connections limit (Suc index) actions result
            else fail (CausedBy e)
        | Inr _ \<Rightarrow>
            (case get_executor_for router (da_domain_action_type action) of
               None \<Rightarrow>
                 bindo (caused_by (set_errored action
                   ''Not executor has been created for this action type'')) (\<lambda>_.
                 fail (Simple (''Could not find executor for this action type:'' @
                   enum_to_string domain_action_types_variants (da_domain_action_type action))))
             | Some command \<Rightarrow>
                 take_actions router connections limit (Suc index) actions (result @ [(action, command)]))))"

definition find_actions ::
  "(domain_action_types \<rightharpoonup> executor) \<Rightarrow> nat \<Rightarrow> nat \<Rightarrow> (domain_action \<times> executor) list actop"
where
  "find_actions router connections limit =
     (if connections = 0 then fail PoolExhausted
      else bindo (caused_by (find_pending None)) (\<lambda>pending_actions.
        if length pending_actions = 0 then ret []
        else take_actions router connections limit 0 pending_actions []))"

text \<open>\<open>ExecutorFuture::poll\<close> when the work has come to an end: the value is the error it ends with.\<close>

definition poll_future :: "domain_action \<times> executor \<Rightarrow> (string + unit) actop" where
  "poll_future f = (\<lambda>s.
     case f of (action, command) \<Rightarrow>
       (case command action s of
          (None, t) \<Rightarrow> bindo (caused_by (set_done action)) (\<lambda>_. ret (Inr ())) t
        | (Some e, _) \<Rightarrow> bindo (caused_by (set_failed action e)) (\<lambda>_. ret (Inl e)) s))"

text \<open>\<open>run_til_empty\<close> blocks on one future after the other; \<open>unwrap\<close> panics when one fails.\<close>

datatype run_end = Empty | Stopped domain_action_error | Panicked

fun run_futures :: "(domain_action \<times> executor) list \<Rightarrow> db \<Rightarrow> bool \<times> db" where
  "run_futures [] s = (True, s)"
| "run_futures (f # fs) s =
     (case poll_future f s of
        (Inr (Inr _), t) \<Rightarrow> run_futures fs t
      | (_, t) \<Rightarrow> (False, t))"

partial_function (option) run_til_empty ::
  "(domain_action_types \<rightharpoonup> executor) \<Rightarrow> nat \<Rightarrow> nat \<Rightarrow> db \<Rightarrow> (run_end \<times> db) option"
where
  "run_til_empty router connections limit s =
     (case find_actions router connections limit s of
        (Inl e, t) \<Rightarrow> Some (Stopped e, t)
      | (Inr futures, t) \<Rightarrow>
          if \<not> fst (run_futures futures t) then Some (Panicked, snd (run_futures futures t))
          else if length futures = 0 then Some (Empty, snd (run_futures futures t))
          else run_til_empty router connections limit (snd (run_futures futures t)))"

section \<open>The publisher\<close>

type_synonym subscriptions = "domain_event_types \<rightharpoonup> (domain_event \<Rightarrow> new_domain_action option) list"

definition add_subscription ::
  "domain_event_types \<Rightarrow> (domain_event \<Rightarrow> new_domain_action option) \<Rightarrow> subscriptions \<Rightarrow> subscriptions" where
  "add_subscription event_type factory subs =
     subs(event_type \<mapsto> (case subs event_type of None \<Rightarrow> [] | Some fs \<Rightarrow> fs) @ [factory])"

definition publish :: "subscriptions \<Rightarrow> domain_event \<Rightarrow> unit dbop" where
  "publish subs event =
     bindo (case subs (de_event_type event) of
              None \<Rightarrow> ret ()
            | Some action_list \<Rightarrow>
                for_each (\<lambda>factory. case factory event of
                    None \<Rightarrow> ret ()
                  | Some action \<Rightarrow> bindo (action_commit action) (\<lambda>_. ret ())) action_list) (\<lambda>_.
     bindo (mark_as_published event) (\<lambda>_. ret ()))"

section \<open>Claiming an action\<close>

lemma update_action_run:
  "update_action P f s =
     (case filter P (db_domain_actions s) of
        a # _ \<Rightarrow> (Inr (f a), s\<lparr>db_domain_actions := update_where P f (db_domain_actions s)\<rparr>)
      | [] \<Rightarrow> (Inl (database_error_new NoResults (Some (WithDriverText ''Could not update Domain Action'' NotFound))),
          s\<lparr>db_domain_actions := update_where P f (db_domain_actions s)\<rparr>))"
  by (simp add: update_action_def update_first_run)

lemma snd_update_action [simp]:
  "snd (update_action P f s) = s\<lparr>db_domain_actions := update_where P f (db_domain_actions s)\<rparr>"
  by (simp add: update_action_def)

lemma busy_check_run:
  "busy_check a s = (case find (\<lambda>r. da_id r = da_id a) (db_domain_actions s) of
      None \<Rightarrow> (Inl (database_error_new NoResults (Some (WithDriverText ''Error loading domain action'' NotFound))), s)
    | Some r \<Rightarrow> if da_blocked_until r > utc_now s
        then (Inl (database_error_new ConcurrencyError (Some (Text ''Another process is busy with this action''))), s)
        else (Inr (), s))"
  by (simp add: busy_check_def action_find_def op_simps split: option.split)

lemma busy_claim_snd: "snd (busy_claim a timeout s) = s\<lparr>db_domain_actions :=
    update_where (\<lambda>r. da_id r = da_id a \<and> da_blocked_until r \<le> timeout)
      (\<lambda>r. r\<lparr>da_blocked_until := timeout, da_updated_at := now s\<rparr>) (db_domain_actions s)\<rparr>"
  by (simp add: busy_claim_def bindo_run ret_run update_action_run split: list.split)

lemma busy_claim_Inr:
  assumes "r \<in> set (db_domain_actions s)" and "da_id r = da_id a" and "da_blocked_until r \<le> timeout"
  shows "fst (busy_claim a timeout s) = Inr ()"
proof -
  have "filter (\<lambda>r. da_id r = da_id a \<and> da_blocked_until r \<le> timeout) (db_domain_actions s) \<noteq> []"
    using assms by (auto simp: filter_empty_conv)
  then show ?thesis by (simp add: busy_claim_def bindo_run ret_run update_action_run split: list.split)
qed

lemma set_busy_Inr:
  assumes "set_busy a k s = (Inr (), t)"
  obtains r where "find (\<lambda>r. da_id r = da_id a) (db_domain_actions s) = Some r"
    and "da_blocked_until r \<le> utc_now s" and "t = snd (busy_claim a (utc_now s + seconds k) s)"
  using assms by (auto simp: set_busy_def Let_def bindo_run busy_check_run split: option.splits if_splits)

section \<open>The publisher writes the subscribed actions\<close>

definition subscribed :: "subscriptions \<Rightarrow> domain_event \<Rightarrow> new_domain_action list" where
  "subscribed subs event =
     List.map_filter (\<lambda>factory. factory event) (case subs (de_event_type event) of None \<Rightarrow> [] | Some fs \<Rightarrow> fs)"

lemma commit_all_Inr:
  assumes "for_each (\<lambda>factory. case factory event of
      None \<Rightarrow> ret () | Some action \<Rightarrow> bindo (action_commit action) (\<lambda>_. ret ())) fs s = (Inr (), t)"
  shows "\<exists>ids k. length ids = length (List.map_filter (\<lambda>f. f event) fs) \<and>
    t = s\<lparr>uuids_drawn := k, db_domain_actions := db_domain_actions s @
      map2 (\<lambda>action i. action_row action i (now s)) (List.map_filter (\<lambda>f. f event) fs) ids\<rparr>"
  using assms
proof (induction fs arbitrary: s)
  case Nil
  then show ?case by (intro exI [of _ "[]"] exI [of _ "uuids_drawn s"]) (simp add: ret_run map_filter_simps)
next
  case (Cons f fs)
  show ?case
  proof (cases "f event")
    case None
    then have "for_each (\<lambda>factory. case factory event of
        None \<Rightarrow> ret () | Some action \<Rightarrow> bindo (action_commit action) (\<lambda>_. ret ())) fs s = (Inr (), t)"
      using Cons.prems by simp
    then show ?thesis using Cons.IH [of s] None by (simp add: map_filter_simps)
  next
    case (Some action)
    let ?i = "uuid_source s (uuids_drawn s)"
    let ?v = "s\<lparr>uuids_drawn := Suc (uuids_drawn s),
      db_domain_actions := db_domain_actions s @ [action_row action ?i (now s)]\<rparr>"
    from Cons.prems Some obtain a v where one: "action_commit action s = (Inr a, v)"
      and rest: "for_each (\<lambda>factory. case factory event of
        None \<Rightarrow> ret () | Some action \<Rightarrow> bindo (action_commit action) (\<lambda>_. ret ())) fs v = (Inr (), t)"
      by (auto simp: bindo_Inr_iff ret_run)
    have "v = ?v" using one by (auto simp: action_commit_def bindo_Inr_iff insert_checked_Inr_iff)
    then obtain ids k where "length ids = length (List.map_filter (\<lambda>f. f event) fs)"
      "t = ?v\<lparr>uuids_drawn := k, db_domain_actions := db_domain_actions ?v @
        map2 (\<lambda>action i. action_row action i (now s)) (List.map_filter (\<lambda>f. f event) fs) ids\<rparr>"
      using Cons.IH [of v] rest by auto
    then show ?thesis using Some
      by (intro exI [of _ "?i # ids"] exI [of _ k]) (simp add: map_filter_simps)
  qed
qed

section \<open>Attempts\<close>

text \<open>Workers that find an action due at some time and fail it, one after the other.\<close>

fun attempts :: "uuid \<Rightarrow> (timestamp \<times> string) list \<Rightarrow> db \<Rightarrow> nat" where
  "attempts i [] s = 0"
| "attempts i ((n, reason) # es) s =
     (case find (\<lambda>a. da_id a = i) (filter (pending_action n) (db_domain_actions s)) of
        None \<Rightarrow> attempts i es (s\<lparr>now := n\<rparr>)
      | Some a \<Rightarrow> Suc (attempts i es (snd (set_failed a reason (s\<lparr>now := n\<rparr>)))))"

lemma set_failed_snd:
  "\<exists>f. snd (set_failed a reason s) =
      s\<lparr>db_domain_actions := update_where (\<lambda>r. da_id r = da_id a) f (db_domain_actions s)\<rparr> \<and>
    (\<forall>r. da_id (f r) = da_id r \<and> da_max_attempt_count (f r) = da_max_attempt_count r \<and>
       da_attempt_count (f r) = da_attempt_count a + 1)"
  by (cases "da_max_attempt_count a \<le> da_attempt_count a + 1") (auto simp: set_failed_def)

lemma attempts_bound:
  assumes "distinct (map da_id (db_domain_actions s))" and "r \<in> set (db_domain_actions s)" and "da_id r = i"
  shows "int (attempts i es s) \<le> max 0 (da_max_attempt_count r - da_attempt_count r)"
  using assms
proof (induction es arbitrary: s r)
  case Nil
  then show ?case by simp
next
  case (Cons e es)
  obtain n reason where e: "e = (n, reason)" by (cases e)
  show ?case
  proof (cases "find (\<lambda>a. da_id a = i) (filter (pending_action n) (db_domain_actions s))")
    case None
    then show ?thesis using Cons.IH [of "s\<lparr>now := n\<rparr>" r] Cons.prems e by simp
  next
    case (Some a)
    then have "a \<in> set (db_domain_actions s)" "pending_action n a" "da_id a = i"
      by (auto dest: find_SomeD)
    then have a: "a = r" using Cons.prems same_row by metis
    obtain f where f: "snd (set_failed a reason (s\<lparr>now := n\<rparr>)) = s\<lparr>now := n, db_domain_actions :=
        update_where (\<lambda>r. da_id r = da_id a) f (db_domain_actions s)\<rparr>"
      and cols: "\<And>r. da_id (f r) = da_id r" "\<And>r. da_max_attempt_count (f r) = da_max_attempt_count r"
        "\<And>r. da_attempt_count (f r) = da_attempt_count a + 1"
      using set_failed_snd [of a reason "s\<lparr>now := n\<rparr>"] by auto
    let ?s = "s\<lparr>now := n, db_domain_actions := update_where (\<lambda>r. da_id r = da_id a) f (db_domain_actions s)\<rparr>"
    have "int (attempts i es ?s) \<le> max 0 (da_max_attempt_count (f r) - da_attempt_count (f r))"
      using Cons.prems a cols by (intro Cons.IH) (auto simp: map_update_where set_update_where)
    moreover have "da_attempt_count r < da_max_attempt_count r"
      using \<open>pending_action n a\<close> a by (simp add: pending_action_def)
    ultimately show ?thesis using Some e f cols a by simp
  qed
qed

section \<open>Settling\<close>

text \<open>Nothing the monitor does makes an action pending again.\<close>

definition settled_row :: "domain_action \<Rightarrow> domain_action \<Rightarrow> bool" where
  "settled_row a b \<longleftrightarrow> da_id b = da_id a \<and> da_domain_action_type b = da_domain_action_type a \<and>
     da_scheduled_at b = da_scheduled_at a \<and>
     (da_status b = da_status a \<or> da_status b \<noteq> domain_action_status.Pending)"

lemma settled_row_refl: "settled_row a a"
  by (simp add: settled_row_def)

lemma settled_row_trans: "settled_row a b \<Longrightarrow> settled_row b c \<Longrightarrow> settled_row a c"
  by (auto simp: settled_row_def)

definition settles :: "db \<Rightarrow> db \<Rightarrow> bool" where
  "settles s t \<longleftrightarrow> now t = now s \<and> utc_now t = utc_now s \<and>
     list_all2 settled_row (db_domain_actions s) (db_domain_actions t)"

interpretation actions_settle: step_relation settles
proof unfold_locales
  fix s t u :: db
  show "settles s s" by (simp add: settles_def list.rel_refl settled_row_refl)
  assume "settles s t" "settles t u"
  then show "settles s u" unfolding settles_def by (auto intro: list_all2_trans [OF settled_row_trans])
qed

lemma settles_update:
  assumes "\<And>r. P r \<Longrightarrow> settled_row r (f r)"
  shows "settles s (s\<lparr>db_domain_actions := update_where P f (db_domain_actions s)\<rparr>)"
  using assms by (auto simp: settles_def settled_row_refl intro!: list_all2_update_where)

lemma settles_done: "steps settles (set_done a)"
  by (rule stepsI) (auto simp: set_done_def settled_row_def intro!: settles_update)

lemma settles_failed: "steps settles (set_failed a reason)"
  by (rule stepsI) (auto simp: set_failed_def settled_row_def intro!: settles_update)

lemma settles_errored: "steps settles (set_errored a reason)"
  by (rule stepsI) (auto simp: set_errored_def settled_row_def intro!: settles_update)

lemma settles_busy: "steps settles (set_busy a k)"
proof -
  have "steps settles (busy_check a)"
    by (rule stepsI) (simp add: busy_check_run actions_settle.step_refl split: option.split)
  moreover have "steps settles (busy_claim a timeout)" for timeout
    by (rule stepsI) (auto simp: busy_claim_snd settled_row_def intro!: settles_update)
  ultimately show ?thesis unfolding set_busy_def Let_def by (intro actions_settle.steps_control)
qed

lemma caused_by_snd: "snd (caused_by m s) = snd (m s)"
  by (simp add: caused_by_def split: prod.split sum.split)

lemma settles_caused_by: "steps settles m \<Longrightarrow> steps settles (caused_by m)"
  by (simp add: steps_def caused_by_snd)

lemma settles_take: "steps settles (take_actions router c l i actions result)"
proof (induction router c l i actions result rule: take_actions.induct)
  case (2 router c l i action actions result)
  have "steps settles (case busy of
          Inl e \<Rightarrow> if err_error_code e = ConcurrencyError
            then take_actions router c l (Suc i) actions result else fail (CausedBy e)
        | Inr _ \<Rightarrow> (case get_executor_for router (da_domain_action_type action) of
               None \<Rightarrow> bindo (caused_by (set_errored action
                   ''Not executor has been created for this action type'')) (\<lambda>_.
                 fail (Simple (''Could not find executor for this action type:'' @
                   enum_to_string domain_action_types_variants (da_domain_action_type action))))
             | Some command \<Rightarrow> take_actions router c l (Suc i) actions (result @ [(action, command)])))"
    if "\<not> l < i" "\<not> c \<le> 1 + length result" for busy
    using 2 that by (auto split: sum.split option.split
        intro!: actions_settle.steps_control settles_caused_by settles_errored)
  then show ?case
    by (auto intro!: actions_settle.steps_control settles_busy)
qed (simp add: actions_settle.steps_ret)

text \<open>The futures are pending actions that were found, each row at most once and in their order, paired with the
  executor of their type.\<close>

lemma take_actions_from:
  assumes "take_actions router c l i actions result s = (Inr fs, t)"
  shows "\<exists>gs. fs = result @ gs \<and> fst ` set gs \<subseteq> set actions \<and> subseq (map fst gs) actions \<and>
    (\<forall>(a, x) \<in> set gs. router (da_domain_action_type a) = Some x)"
  using assms
proof (induction router c l i actions result arbitrary: s rule: take_actions.induct)
  case (2 router c l i action actions result)
  show ?case
  proof (cases "l < i \<or> c \<le> 1 + length result")
    case True
    then show ?thesis using "2.prems" by (auto simp: ret_run split: if_splits)
  next
    case False
    obtain busy v where busy: "set_busy action 60 s = (busy, v)" by (cases "set_busy action 60 s")
    show ?thesis
    proof (cases busy)
      case (Inl e)
      then have "err_error_code e = ConcurrencyError \<and>
          take_actions router c l (Suc i) actions result v = (Inr fs, t)"
        using "2.prems" False busy by (simp add: bindo_run attempt_run fail_run split: if_splits)
      then show ?thesis using "2.IH"(1) [of e v] False by auto
    next
      case (Inr u)
      have rest: "(case get_executor_for router (da_domain_action_type action) of
               None \<Rightarrow> bindo (caused_by (set_errored action
                   ''Not executor has been created for this action type'')) (\<lambda>_.
                 fail (Simple (''Could not find executor for this action type:'' @
                   enum_to_string domain_action_types_variants (da_domain_action_type action))))
             | Some command \<Rightarrow> take_actions router c l (Suc i) actions (result @ [(action, command)])) v = (Inr fs, t)"
        using "2.prems" False busy Inr by (simp add: bindo_run attempt_run)
      then obtain command where command: "get_executor_for router (da_domain_action_type action) = Some command"
        and "take_actions router c l (Suc i) actions (result @ [(action, command)]) v = (Inr fs, t)"
        by (cases "get_executor_for router (da_domain_action_type action)") (auto simp: bindo_Inr_iff fail_run)
      then show ?thesis using "2.IH"(2) [OF _ _ command] False by (fastforce simp: get_executor_for_def)
    qed
  qed
qed (simp add: ret_run)

lemma find_actions_Inr:
  assumes "find_actions router c l s = (Inr fs, t)"
  shows "settles s t \<and> fst ` set fs \<subseteq> set (filter (pending_action (now s)) (db_domain_actions s)) \<and>
    subseq (map fst fs) (filter (pending_action (now s)) (db_domain_actions s)) \<and>
    (\<forall>(a, x) \<in> set fs. router (da_domain_action_type a) = Some x)"
proof -
  let ?pending = "filter (pending_action (now s)) (db_domain_actions s)"
  have run: "caused_by (find_pending None) s = (Inr ?pending, s)"
    by (simp add: caused_by_def find_pending_def)
  show ?thesis
  proof (cases "?pending = []")
    case True
    then show ?thesis using assms run
      by (auto simp: find_actions_def bindo_run ret_run fail_run actions_settle.step_refl split: if_splits)
  next
    case False
    then have "take_actions router c l 0 ?pending [] s = (Inr fs, t)"
      using assms run by (auto simp: find_actions_def bindo_run fail_run split: if_splits)
    then show ?thesis
      using take_actions_from [of router c l 0 ?pending "[]" s fs t]
        stepsD [OF settles_take, of s router c l 0 ?pending "[]"] by auto
  qed
qed

section \<open>Properties\<close>

text \<open>C17: an action that was claimed is taken: until the time it was claimed for has come, on both
  clocks, no other worker can claim it, and a monitor does not even find it.\<close>

theorem busy_action_is_taken:
  assumes "distinct (map da_id (db_domain_actions s))" and "set_busy a k s = (Inr (), t)"
    and "x < utc_now s + seconds k" and "n < utc_now s + seconds k" and "da_id b = da_id a"
    and "0 \<le> k"
  shows "(\<exists>e. err_error_code e = ConcurrencyError \<and>
      set_busy b j (t\<lparr>now := n, utc_now := x\<rparr>) = (Inl e, t\<lparr>now := n, utc_now := x\<rparr>)) \<and>
    (\<forall>c \<in> set (db_domain_actions t). da_id c \<noteq> da_id a \<or> \<not> pending_action n c)"
proof -
  let ?timeout = "utc_now s + seconds k"
  obtain r where r: "find (\<lambda>r. da_id r = da_id a) (db_domain_actions s) = Some r"
    "da_blocked_until r \<le> utc_now s" and t: "t = snd (busy_claim a ?timeout s)"
    by (rule set_busy_Inr [OF assms(2)])
  have free: "da_blocked_until r \<le> ?timeout" using r(2) assms(6) by (simp add: seconds_def)
  have blocked: "da_blocked_until c = ?timeout"
    if "c \<in> set (db_domain_actions t)" "da_id c = da_id a" for c
  proof -
    have "c \<in> (\<lambda>d. if da_id d = da_id a \<and> da_blocked_until d \<le> ?timeout
        then d\<lparr>da_blocked_until := ?timeout, da_updated_at := now s\<rparr> else d) ` set (db_domain_actions s)"
      using that(1) by (simp add: t busy_claim_snd update_where_def)
    then obtain d where d: "d \<in> set (db_domain_actions s)" "c = (if da_id d = da_id a \<and> da_blocked_until d \<le> ?timeout
        then d\<lparr>da_blocked_until := ?timeout, da_updated_at := now s\<rparr> else d)"
      by blast
    then have "da_id d = da_id r" using that(2) find_SomeD [OF r(1)] by (auto split: if_splits)
    then have "d = r" using same_row [OF assms(1) d(1)] find_SomeD [OF r(1)] by simp
    then show ?thesis using d(2) free find_SomeD [OF r(1)] by simp
  qed
  obtain c where c: "find (\<lambda>r. da_id r = da_id a) (db_domain_actions t) = Some c"
    using r(1) by (auto simp: t busy_claim_snd find_update_where)
  have "da_blocked_until c = ?timeout" using blocked find_SomeD [OF c] by blast
  then have "set_busy b j (t\<lparr>now := n, utc_now := x\<rparr>) = (Inl (database_error_new ConcurrencyError
      (Some (Text ''Another process is busy with this action''))), t\<lparr>now := n, utc_now := x\<rparr>)"
    using c assms(3,5) by (simp add: set_busy_def Let_def bindo_run busy_check_run)
  moreover have "\<not> pending_action n c" if "c \<in> set (db_domain_actions t)" "da_id c = da_id a" for c
    using blocked [OF that] assms(4) by (simp add: pending_action_def)
  ultimately show ?thesis by auto
qed

text \<open>C18: claiming is not atomic: when a second worker checks the action before the first has claimed
  it, both claims succeed, since the second update only asks that the action is not blocked for longer
  than the claim lasts.\<close>

theorem busy_claim_race:
  assumes "find (\<lambda>r. da_id r = da_id a) (db_domain_actions s) = Some r" and "da_blocked_until r \<le> utc_now s"
    and "0 \<le> j" and "j \<le> k"
  shows "\<exists>t. bindo (busy_check a) (\<lambda>_. bindo (busy_check a) (\<lambda>_.
      bindo (busy_claim a (utc_now s + seconds j)) (\<lambda>_. busy_claim a (utc_now s + seconds k)))) s = (Inr (), t)"
proof -
  let ?j = "utc_now s + seconds j" and ?k = "utc_now s + seconds k"
  have r: "r \<in> set (db_domain_actions s)" "da_id r = da_id a" using find_SomeD [OF assms(1)] by auto
  have jk: "da_blocked_until r \<le> ?j" "?j \<le> ?k" using assms(2-4) by (simp_all add: seconds_def)
  have check: "busy_check a s = (Inr (), s)" using assms(1,2) by (simp add: busy_check_run)
  obtain v where one: "busy_claim a ?j s = (Inr (), v)"
    using busy_claim_Inr [OF r jk(1)] by (metis prod.collapse)
  have v: "v = snd (busy_claim a ?j s)" by (simp add: one)
  have mem: "r\<lparr>da_blocked_until := ?j, da_updated_at := now s\<rparr> \<in> set (db_domain_actions v)"
    using r jk(1) by (simp add: v busy_claim_snd set_update_where)
  have "fst (busy_claim a ?k v) = Inr ()"
    using r(2) jk(2) by (intro busy_claim_Inr [OF mem]) simp_all
  then obtain u where "busy_claim a ?k v = (Inr (), u)" by (metis prod.collapse)
  then show ?thesis using check one by (simp add: bindo_run)
qed

text \<open>retries are bounded: however many workers find an action due, at whatever times, and fail it,
  it is attempted at most as often as its maximum allows.\<close>

theorem retries_bounded:
  assumes "distinct (map da_id (db_domain_actions s))" and "r \<in> set (db_domain_actions s)"
  shows "int (attempts (da_id r) es s) \<le> max 0 (da_max_attempt_count r - da_attempt_count r)"
  using attempts_bound [OF assms refl] .

text \<open>publishing an event appends exactly the actions that the subscriptions to its type ask for, in
  their order, and marks the event as published, so that it is not found as unpublished again.\<close>

theorem publish_writes_subscribed:
  assumes "publish subs event s = (Inr (), t)" and "distinct (map de_id (db_domain_events s))"
  shows "(\<exists>ids. length ids = length (subscribed subs event) \<and> db_domain_actions t = db_domain_actions s @
      map2 (\<lambda>action i. action_row action i (now s)) (subscribed subs event) ids) \<and>
    (\<forall>limit e. e \<in> set (case fst (domain_event_find_unpublished limit t) of Inr es \<Rightarrow> es | Inl _ \<Rightarrow> []) \<longrightarrow>
       de_id e \<noteq> de_id event)"
proof -
  let ?fs = "case subs (de_event_type event) of None \<Rightarrow> [] | Some fs \<Rightarrow> fs"
  let ?run = "for_each (\<lambda>factory. case factory event of
      None \<Rightarrow> ret () | Some action \<Rightarrow> bindo (action_commit action) (\<lambda>_. ret ()))"
  have "(case subs (de_event_type event) of None \<Rightarrow> ret () | Some fs \<Rightarrow> ?run fs) = ?run ?fs"
    by (simp split: option.split)
  then obtain v where run: "?run ?fs s = (Inr (), v)" and mark: "bindo (mark_as_published event) (\<lambda>_. ret ()) v = (Inr (), t)"
    using assms(1) unfolding publish_def bindo_Inr_iff by auto
  obtain ids k where ids: "length ids = length (subscribed subs event)"
    and v: "v = s\<lparr>uuids_drawn := k, db_domain_actions := db_domain_actions s @
      map2 (\<lambda>action i. action_row action i (now s)) (subscribed subs event) ids\<rparr>"
    using commit_all_Inr [OF run] unfolding subscribed_def by auto
  have t: "t = v\<lparr>db_domain_events := update_where (\<lambda>e. de_id e = de_id event)
      (\<lambda>e. e\<lparr>de_published_at := Some (now v)\<rparr>) (db_domain_events v)\<rparr>"
    using mark by (auto simp: mark_as_published_def bindo_Inr_iff ret_run update_first_run split: list.splits)
  have "de_id e \<noteq> de_id event" if "e \<in> set (db_domain_events t)" "de_published_at e = None" for e
    using that by (auto simp: t set_update_where)
  then have "\<forall>limit e. e \<in> set (case fst (domain_event_find_unpublished limit t) of Inr es \<Rightarrow> es | Inl _ \<Rightarrow> []) \<longrightarrow>
       de_id e \<noteq> de_id event"
    by (auto simp: domain_event_find_unpublished_def dest: in_set_takeD)
  then show ?thesis using ids by (auto simp: t v)
qed

text \<open>setting up the executors on an empty router succeeds and gives every type of action its
  executor, so no action is turned away for want of one; doing it twice panics.\<close>

theorem every_action_has_executor:
  "\<exists>routes. set_up_executors find_executor Map.empty = Some routes \<and>
     (\<forall>ty. get_executor_for routes ty = Some (find_executor ty)) \<and>
     set_up_executors find_executor routes = None"
proof -
  have "ty \<in> {domain_action_types.Communication, domain_action_types.MarketingContactsCreateEventList,
      domain_action_types.MarketingContactsBulkEventFanListImport}" for ty
    by (cases ty) simp_all
  then show ?thesis
    by (auto simp: set_up_executors_def add_executor_def get_executor_for_def Let_def)
qed

definition sample_action :: domain_action where
  "sample_action = action_row (action_create None domain_action_types.Communication None ''{}'' ''Orders'' 7
     500 5000 3) 80 900"

definition sample_queue :: db where
  "sample_queue = blank_db\<lparr>db_domain_actions := [sample_action]\<rparr>"

lemmas sample_queue_defs = sample_queue_def sample_action_def action_row_def action_create_def blank_db_def

theorem busy_action_is_taken_witness:
  "\<exists>e t. set_busy sample_action 60 sample_queue = (Inr (), t) \<and>
     fst (set_busy sample_action 60 (t\<lparr>now := 2000, utc_now := 2000\<rparr>)) = Inl e"
proof -
  have "fst (set_busy sample_action 60 sample_queue) = Inr ()" by code_simp
  then obtain t where run: "set_busy sample_action 60 sample_queue = (Inr (), t)" by (metis prod.collapse)
  have "distinct (map da_id (db_domain_actions sample_queue))" "2000 < utc_now sample_queue + seconds 60"
    by (simp_all add: sample_queue_defs seconds_def)
  from busy_action_is_taken [OF this(1) run this(2) this(2) refl _, of 60] run show ?thesis by force
qed

theorem busy_claim_race_witness:
  "\<exists>t. bindo (busy_check sample_action) (\<lambda>_. bindo (busy_check sample_action) (\<lambda>_.
      bindo (busy_claim sample_action (utc_now sample_queue + seconds 60)) (\<lambda>_.
        busy_claim sample_action (utc_now sample_queue + seconds 60)))) sample_queue = (Inr (), t)"
  by (rule busy_claim_race [where r = sample_action]) (simp_all add: sample_queue_defs)

theorem retries_bounded_witness:
  "int (attempts 80 [(1000, ''down''), (2000, ''down''), (3000, ''down''), (4000, ''down'')] sample_queue) \<le> 3 \<and>
     attempts 80 [(1000, ''down''), (2000, ''down''), (3000, ''down''), (4000, ''down'')] sample_queue = 3"
proof
  have "distinct (map da_id (db_domain_actions sample_queue))" "sample_action \<in> set (db_domain_actions sample_queue)"
    by (simp_all add: sample_queue_def)
  from retries_bounded [OF this, of "[(1000, ''down''), (2000, ''down''), (3000, ''down''), (4000, ''down'')]"]
  show "int (attempts 80 [(1000, ''down''), (2000, ''down''), (3000, ''down''), (4000, ''down'')] sample_queue) \<le> 3"
    by (simp add: sample_action_def action_row_def action_create_def)
qed code_simp

definition sample_event :: domain_event where
  "sample_event = \<lparr>de_id = 90, de_event_type = domain_event_types.PaymentCreated,
     de_display_text = ''Payment created'', de_event_data = None, de_main_table = tables.Payments,
     de_main_id = Some 70, de_published_at = None, de_created_at = 0, de_updated_at = 0, de_user_id = Some 1\<rparr>"

definition sample_subscriptions :: subscriptions where
  "sample_subscriptions = add_subscription domain_event_types.PaymentCreated (\<lambda>e. Some (action_create
     (Some (de_id e)) domain_action_types.Communication None ''{}'' ''Payments'' 70 500 5000 3)) Map.empty"

theorem publish_writes_subscribed_witness:
  "\<exists>t. publish sample_subscriptions sample_event (blank_db\<lparr>db_domain_events := [sample_event]\<rparr>) = (Inr (), t) \<and>
     length (db_domain_actions t) = 1"
proof -
  let ?s = "blank_db\<lparr>db_domain_events := [sample_event]\<rparr>"
  have "fst (publish sample_subscriptions sample_event ?s) = Inr ()" by code_simp
  then obtain t where run: "publish sample_subscriptions sample_event ?s = (Inr (), t)" by (metis prod.collapse)
  have "distinct (map de_id (db_domain_events ?s))" "db_domain_actions ?s = []"
    "length (subscribed sample_subscriptions sample_event) = 1"
    by (simp, simp add: blank_db_def, simp add: subscribed_def sample_subscriptions_def add_subscription_def
        sample_event_def map_filter_simps)
  then show ?thesis using publish_writes_subscribed [OF run] run by force
qed

end
