(* ===== verification/Order_States.thy ===== *)
theory Order_States imports Footprints Locks begin

text \<open>
  The life of an order (\<open>db/src/models/orders.rs\<close>): the steps its row takes as an inductive relation,
  the proof that every operation on orders only takes such steps, and what completing an order by a
  payment does.
\<close>

section \<open>The life cycle\<close>

text \<open>One step at the times \<open>n\<close> (of the database) and \<open>u\<close> (of the server).\<close>

inductive order_step :: "timestamp \<Rightarrow> timestamp \<Rightarrow> order_row \<Rightarrow> order_row \<Rightarrow> bool" for n u where
  os_lock: "order_step n u ord (ord\<lparr>o_version := o_version ord + 1, o_updated_at := n\<rparr>)"
| os_expires: "o_expires_at ord = None \<Longrightarrow>
    order_step n u ord (ord\<lparr>o_expires_at := Some (u + minutes 15), o_updated_at := u\<rparr>)"
| os_unexpires: "(case o_expires_at ord of None \<Rightarrow> True | Some e \<Rightarrow> e > u) \<Longrightarrow>
    order_step n u ord (ord\<lparr>o_expires_at := None, o_updated_at := u\<rparr>)"
| os_box_office: "order_step n u ord (ord\<lparr>o_box_office_pricing := b, o_updated_at := n\<rparr>)"
| os_behalf: "order_step n u ord (ord\<lparr>o_on_behalf_of_user_id := i, o_updated_at := n\<rparr>)"
| os_note: "order_step n u ord (ord\<lparr>o_note := text, o_updated_at := n\<rparr>)"
| os_part_paid: "o_expires_at ord = Some e \<Longrightarrow> e \<ge> u \<Longrightarrow>
    order_step n u ord (ord\<lparr>o_status := order_status.PartiallyPaid, o_expires_at := Some (u + days 1),
      o_updated_at := n\<rparr>)"
| os_paid: "order_step n u ord (ord\<lparr>o_paid_at := Some u, o_status := order_status.Paid, o_updated_at := n\<rparr>)"

abbreviation order_path :: "timestamp \<Rightarrow> timestamp \<Rightarrow> order_row \<Rightarrow> order_row \<Rightarrow> bool" where
  "order_path n u \<equiv> (order_step n u)\<^sup>*\<^sup>*"

text \<open>What a path fixes, and the statuses it can lead to.\<close>

definition order_kept :: "timestamp \<Rightarrow> order_row \<Rightarrow> order_row \<Rightarrow> bool" where
  "order_kept u ord ord' \<longleftrightarrow>
     o_id ord' = o_id ord \<and> o_user_id ord' = o_user_id ord \<and> o_order_type ord' = o_order_type ord \<and>
     o_order_date ord' = o_order_date ord \<and> o_created_at ord' = o_created_at ord \<and>
     o_version ord \<le> o_version ord' \<and>
     o_status ord' \<in> {o_status ord, order_status.PartiallyPaid, order_status.Paid} \<and>
     (o_paid_at ord' = o_paid_at ord \<or> o_paid_at ord' = Some u) \<and>
     (o_status ord' = order_status.Paid \<and> o_status ord \<noteq> order_status.Paid \<longrightarrow> o_paid_at ord' = Some u)"

lemma order_step_kept: "order_step n u ord ord' \<Longrightarrow> order_kept u ord ord'"
  by (induction rule: order_step.induct) (simp_all add: order_kept_def)

lemma order_kept_trans:
  assumes "order_kept u a b" and "order_kept u b c"
  shows "order_kept u a c"
proof -
  have status: "o_status c \<in> {o_status a, order_status.PartiallyPaid, order_status.Paid}"
    using assms unfolding order_kept_def by (elim conjE insertE emptyE) simp_all
  have paid: "o_paid_at c = o_paid_at a \<or> o_paid_at c = Some u"
    using assms unfolding order_kept_def by metis
  have "o_paid_at c = Some u" if "o_status c = order_status.Paid" "o_status a \<noteq> order_status.Paid"
    using assms that unfolding order_kept_def by (cases "o_status b = order_status.Paid") auto
  with status paid show ?thesis using assms unfolding order_kept_def by simp
qed

lemma order_path_kept: "order_path n u ord ord' \<Longrightarrow> order_kept u ord ord'"
proof (induction rule: rtranclp_induct)
  case base
  then show ?case by (simp add: order_kept_def)
next
  case (step ord' ord'')
  then show ?case using order_kept_trans order_step_kept by blast
qed

section \<open>Operations take steps of the life cycle\<close>

definition orders_evolve :: "db \<Rightarrow> db \<Rightarrow> bool" where
  "orders_evolve s t \<longleftrightarrow> now t = now s \<and> utc_now t = utc_now s \<and>
     list_all2 (order_path (now s) (utc_now s)) (db_orders s) (db_orders t)"

interpretation orders_life: step_relation orders_evolve
proof unfold_locales
  fix s t u :: db
  show "orders_evolve s s" by (simp add: orders_evolve_def list.rel_refl)
  assume "orders_evolve s t" "orders_evolve t u"
  then show "orders_evolve s u"
    by (auto simp: orders_evolve_def intro: list_all2_trans [where ?P1.0 = "order_path (now s) (utc_now s)"
        and ?P2.0 = "order_path (now s) (utc_now s)"] rtranclp_trans)
qed

lemma evolve_writes:
  assumes "steps (writes W) m" and "OrdersT \<notin> W"
  shows "steps orders_evolve m"
proof (rule stepsI)
  fix s
  have w: "writes W s (snd (m s))" using assms(1) by (rule stepsD)
  then have "db_orders (snd (m s)) = db_orders s" using writes_same [OF w assms(2)] by simp
  then show "orders_evolve s (snd (m s))"
    using writes_environment [OF w] by (simp add: orders_evolve_def list.rel_refl)
qed

lemma evolve_footprint: "steps (writes (- {OrdersT})) m \<Longrightarrow> steps orders_evolve m"
  by (erule evolve_writes) simp

lemma evolve_update:
  assumes "\<And>r. r \<in> set (db_orders s) \<Longrightarrow> P r \<Longrightarrow> order_step (now s) (utc_now s) r (f r)"
  shows "orders_evolve s (s\<lparr>db_orders := update_where P f (db_orders s)\<rparr>)"
  using assms by (auto simp: orders_evolve_def intro!: list_all2_update_where)

lemma evolve_update_orders:
  assumes "\<And>r. P r \<Longrightarrow> order_step (now s) (utc_now s) r (f r)"
  shows "orders_evolve s (snd (update_orders P f s))"
  using evolve_update [of s P f] assms by (simp add: update_orders_def)

lemma evolve_branch:
  "steps orders_evolve m \<Longrightarrow> steps orders_evolve m' \<Longrightarrow> steps orders_evolve (if c then m else m')"
  by simp

lemma evolve_lock: "steps orders_evolve (lock_version self)"
proof (rule stepsI)
  fix s :: db
  have "order_step (now s) (utc_now s) r (r\<lparr>o_version := o_version self + 1, o_updated_at := now s\<rparr>)"
    if "o_version r = o_version self" for r
    using os_lock [of "now s" "utc_now s" r] that by simp
  then show "orders_evolve s (snd (lock_version self s))"
    by (auto simp: lock_version_run Let_def intro!: evolve_update)
qed

lemma evolve_statements:
  "steps orders_evolve (set_expiry self)" "steps orders_evolve (remove_expiry self)"
  "steps orders_evolve (update_box_office_pricing self b)"
  "steps orders_evolve (update_status self order_status.Paid)" "steps orders_evolve (order_update self attrs)"
proof -
  show "steps orders_evolve (set_expiry self)"
    by (rule stepsI) (auto simp: set_expiry_def op_simps update_orders_def Let_def cart_expiry_time_minutes_def
        intro!: evolve_update os_expires)
  show "steps orders_evolve (remove_expiry self)"
    by (rule stepsI) (auto simp: remove_expiry_def op_simps update_orders_def Let_def
        intro!: evolve_update os_unexpires)
  show "steps orders_evolve (update_box_office_pricing self b)"
    by (rule stepsI) (auto simp: update_box_office_pricing_def op_simps update_orders_def
        intro!: evolve_update os_box_office)
  show "steps orders_evolve (update_status self order_status.Paid)"
    by (rule stepsI) (auto simp: update_status_def op_simps update_orders_def intro!: evolve_update os_paid)
  show "steps orders_evolve (order_update self attrs)"
    by (rule stepsI) (auto simp: order_update_def order_find_def op_simps update_orders_def
        intro!: evolve_update os_note split: option.split)
qed

lemma evolve_behalf: "steps orders_evolve (set_behalf_of_user self user i)"
proof -
  have stmt: "orders_evolve s (snd (execute_checked db_orders (\<lambda>rs s. s\<lparr>db_orders := rs\<rparr>) order_violation
      (\<lambda>o'. o_id o' = j) (\<lambda>o'. o'\<lparr>o_on_behalf_of_user_id := k, o_updated_at := now s\<rparr>) code m s))" for s j k code m
    by (auto simp: execute_checked_def execute_update_run orders_life.step_refl
        intro!: evolve_update os_behalf split: list.split option.split)
  have event: "steps orders_evolve (domain_event_commit e)" and err: "steps orders_evolve (validation_error_op f m)" for e f m
    by (auto intro!: evolve_footprint footprints)
  have "steps orders_evolve (bindo (gets now) (\<lambda>n. bindo (execute_checked db_orders
      (\<lambda>rs s. s\<lparr>db_orders := rs\<rparr>) order_violation (\<lambda>o'. o_id o' = j)
      (\<lambda>o'. o'\<lparr>o_on_behalf_of_user_id := k, o_updated_at := n\<rparr>) code m) (\<lambda>_. f)))"
    if "steps orders_evolve f" for j k code m and f :: "order_row dbop"
    by (rule stepsI) (simp, rule orders_life.step_bindo_at [OF stmt that])
  note tail = this
  show ?thesis unfolding set_behalf_of_user_def
    by (intro evolve_branch orders_life.steps_bindo evolve_lock event orders_life.steps_ret err tail)
qed

lemmas evolve_steps = evolve_branch orders_life.steps_bindo evolve_lock evolve_statements evolve_behalf
  orders_life.steps_ret orders_life.steps_gets

lemma evolve_update_quantities: "steps orders_evolve (update_quantities ord items b rm)"
proof -
  have others: "steps orders_evolve (order_items ord)" "steps orders_evolve (clear_cart ord)"
    "steps orders_evolve (update_lines ord items b rm)" "steps orders_evolve (fold_op (add_line ord b) mapped checks)"
    "steps orders_evolve (for_each (check_limit ord) checks)" "steps orders_evolve (update_fees ord)"
    for ord mapped checks
    unfolding update_lines_def
    by (auto intro!: evolve_footprint footprints)
  have "steps orders_evolve (case p of (mapped, checks) \<Rightarrow> finish_quantities ord b mapped checks)" for ord p
    unfolding finish_quantities_def
    by (cases p) (auto intro!: evolve_steps others)
  then show ?thesis unfolding update_quantities_def
    by (intro evolve_steps others)
qed

lemma evolve_mark_partially_paid: "steps orders_evolve (mark_partially_paid self)"
proof (rule stepsI)
  fix s :: db
  let ?P = "\<lambda>o'. o_id o' = o_id self \<and> o_version o' = o_version self \<and>
    (case o_expires_at o' of None \<Rightarrow> False | Some e \<Rightarrow> e \<ge> utc_now s)"
  have upd: "orders_evolve s (snd (update_orders ?P (\<lambda>o'. o'\<lparr>o_status := order_status.PartiallyPaid,
      o_expires_at := Some (utc_now s + days 1), o_updated_at := now s\<rparr>) s))"
    unfolding update_orders_def by (auto intro!: evolve_update os_part_paid split: option.splits)
  have read: "steps orders_evolve (order_find i)" "steps orders_evolve (find_for_order i)"
    "steps orders_evolve (for_each (\<lambda>item. update_reserved_time item e) items)"
    "steps orders_evolve (concurrency_error m)" "steps orders_evolve (business_process_error m)" for i e items m
    by (auto intro!: evolve_footprint footprints)
  show "orders_evolve s (snd (mark_partially_paid self s))"
    unfolding mark_partially_paid_def Let_def bindo_gets
    by (rule orders_life.step_bindo_at, rule upd) (intro evolve_steps read)
qed

lemma evolve_complete: "steps orders_evolve (complete_if_fully_paid self)"
proof -
  have others: "steps orders_evolve (total_paid ord)" "steps orders_evolve (calculate_total ord)"
    "steps orders_evolve (find_for_order i)" "steps orders_evolve (for_each (\<lambda>item. mark_as_purchased item u) items)"
    "steps orders_evolve (clear_cart_user ord)" for ord i u items
    by (auto intro!: evolve_footprint footprints)
  show ?thesis unfolding complete_if_fully_paid_def by (intro evolve_steps others)
qed

lemma evolve_payments:
  "steps orders_evolve (add_payment self payment u)" "steps orders_evolve (mark_complete p raw u)"
proof -
  have commit: "steps orders_evolve (payment_commit payment u)" "steps orders_evolve (domain_event_commit e)" for e
    by (auto intro!: evolve_footprint footprints)
  have err: "steps orders_evolve (business_process_error m)" for m
    by (auto intro!: evolve_footprint footprints)
  have "steps orders_evolve (case o_status self of
              order_status.Paid \<Rightarrow> business_process_error m
            | order_status.Draft \<Rightarrow> mark_partially_paid self
            | order_status.PartiallyPaid \<Rightarrow> ret self
            | _ \<Rightarrow> business_process_error m')" for m m'
    by (cases "o_status self") (simp_all add: err evolve_mark_partially_paid orders_life.steps_ret)
  then show "steps orders_evolve (add_payment self payment u)"
    unfolding add_payment_def by (intro evolve_steps commit evolve_complete)
  have wr: "steps orders_evolve (execute_update db_payments (\<lambda>rs s. s\<lparr>db_payments := rs\<rparr>) P f)" for P f
    by (auto intro!: evolve_footprint footprints)
  have read: "steps orders_evolve (payment_order p)"
    unfolding payment_order_def by (auto intro!: evolve_footprint footprints)
  show "steps orders_evolve (mark_complete p raw u)"
    unfolding mark_complete_def by (intro evolve_steps commit wr read evolve_complete)
qed

section \<open>Creating and deleting orders\<close>

definition new_cart :: "uuid \<Rightarrow> new_order" where
  "new_cart user_id = \<lparr>no_user_id = user_id, no_status = order_status.Draft, no_expires_at = None,
     no_order_type = order_types.Cart\<rparr>"

text \<open>At most the one new row is appended, as the insert gives it: at version 0, not paid, created now.\<close>

definition orders_created :: "new_order \<Rightarrow> db \<Rightarrow> db \<Rightarrow> bool" where
  "orders_created new s t \<longleftrightarrow> now t = now s \<and> utc_now t = utc_now s \<and>
     (db_orders t = db_orders s \<or>
      db_orders t = db_orders s @ [order_row_of new (uuid_source s (uuids_drawn s)) (now s)])"

text \<open>At most the one order is deleted, and only without a payment.\<close>

definition orders_destroyed :: "uuid \<Rightarrow> db \<Rightarrow> db \<Rightarrow> bool" where
  "orders_destroyed i s t \<longleftrightarrow> now t = now s \<and> utc_now t = utc_now s \<and>
     (db_orders t = db_orders s \<or>
      db_orders t = filter (\<lambda>r. o_id r \<noteq> i) (db_orders s) \<and> (\<forall>p \<in> set (db_payments s). p_order_id p \<noteq> i))"

lemma created_order: "orders_created new s (snd (order_commit new s))"
  by (auto simp: order_commit_def draw_uuid_run bindo_run insert_checked_run orders_created_def split: option.split)

lemma created_frame:
  assumes "orders_created new s t" and "steps (writes W) m" and "OrdersT \<notin> W"
  shows "orders_created new s (snd (m t))"
proof -
  have w: "writes W t (snd (m t))" using assms(2) by (rule stepsD)
  then show ?thesis
    using assms(1) writes_environment [OF w] writes_same [OF w assms(3)] by (simp add: orders_created_def)
qed

lemma inserted_cart: "orders_created (new_cart i) s (snd (insert_cart i s))"
  by (auto simp: insert_cart_def draw_uuid_run bindo_run insert_checked_run ret_run orders_created_def new_cart_def
      split: option.split sum.split)

lemma created_cart: "orders_created (new_cart (u_id user)) s (snd (find_or_create_cart user s))"
proof -
  have tail: "steps (writes {UsersT}) (case c of [c] \<Rightarrow> bindo (update_last_cart user (Some c)) (\<lambda>_. order_find c)
      | _ \<Rightarrow> concurrency_error m)" for c m
    by (auto intro!: footprints split: list.split)
  obtain r t where ins: "insert_cart (u_id user) s = (r, t)" by fastforce
  have created: "orders_created (new_cart (u_id user)) s t" using inserted_cart [of "u_id user" s] ins by simp
  have same: "orders_created (new_cart (u_id user)) s s" by (simp add: orders_created_def)
  obtain cart where "find_cart_for_user (u_id user) s = (Inr cart, s)" by (simp add: find_cart_for_user_def)
  then show ?thesis
    using same created created_frame [OF created tail [where m = "''Possible race condition when creating a cart for a user. Number of carts returned: 0''"]] ins
    by (cases cart; cases r) (simp_all add: find_or_create_cart_def bindo_run ret_run)
qed

lemma destroyed_order: "orders_destroyed (o_id ord) s (snd (order_destroy ord s))"
proof -
  obtain r t where clear: "clear_cart_user ord s = (r, t)" by fastforce
  have w: "writes {UsersT} s t" using clear stepsD [of "writes {UsersT}" "clear_cart_user ord" s] by (auto intro!: footprints)
  have same: "db_orders t = db_orders s" "db_payments t = db_payments s"
    using writes_same [OF w, of OrdersT] writes_same [OF w, of PaymentsT] by simp_all
  note clocks = writes_environment [OF w]
  show ?thesis
  proof (cases r)
    case (Inl e)
    then show ?thesis using clear same clocks by (simp add: order_destroy_def bindo_run orders_destroyed_def)
  next
    case (Inr x)
    then show ?thesis using clear same clocks
      by (auto simp: order_destroy_def bindo_run delete_checked_run ret_run orders_destroyed_def
          order_referenced_def list_ex_iff filter_id_conv)
  qed
qed

lemma evolve_others:
  "steps orders_evolve (destroy_item ord i)" "steps orders_evolve (clear_cart ord)" "steps orders_evolve (update_fees ord)"
  by (auto intro!: evolve_footprint footprints)

section \<open>Histories\<close>

text \<open>What a request may do to orders, with the copy of the order the handler read, and the passing of
  time between requests.\<close>

datatype order_command =
  ChangeQuantities order_row "update_order_item list" bool bool
| OrderOnBehalf order_row user_row uuid
| SetNote order_row update_order_attributes
| Pay order_row new_payment uuid
| CompletePayment payment json uuid
| Refund order_row "refund_item list"
| NewCart user_row
| NewOrder new_order
| Destroy order_row
| PassTime timestamp timestamp

fun run_command :: "order_command \<Rightarrow> db \<Rightarrow> db" where
  "run_command (ChangeQuantities ord items b rm) s = snd (update_quantities ord items b rm s)"
| "run_command (OrderOnBehalf ord user i) s = snd (set_behalf_of_user ord user i s)"
| "run_command (SetNote ord attrs) s = snd (order_update ord attrs s)"
| "run_command (Pay ord p i) s = snd (add_payment ord p i s)"
| "run_command (CompletePayment p raw i) s = snd (mark_complete p raw i s)"
| "run_command (Refund ord items) s = snd (refund ord items s)"
| "run_command (NewCart user) s = snd (find_or_create_cart user s)"
| "run_command (NewOrder new) s = snd (order_commit new s)"
| "run_command (Destroy ord) s = snd (order_destroy ord s)"
| "run_command (PassTime n u) s = s\<lparr>now := n, utc_now := u\<rparr>"

fun creates :: "order_command \<Rightarrow> new_order \<Rightarrow> bool" where
  "creates (NewCart user) new = (new = new_cart (u_id user))"
| "creates (NewOrder n) new = (new = n)"
| "creates _ _ = False"

fun destroys :: "order_command \<Rightarrow> uuid \<Rightarrow> bool" where
  "destroys (Destroy ord) i = (o_id ord = i)"
| "destroys _ _ = False"

text \<open>What the row of an order keeps along a history: who and what it is, the growing version, that it
  was paid at some time (a later payment may renew the time), and that it can only become partially paid or paid.\<close>

definition order_history :: "order_row \<Rightarrow> order_row \<Rightarrow> bool" where
  "order_history ord ord' \<longleftrightarrow>
     o_id ord' = o_id ord \<and> o_user_id ord' = o_user_id ord \<and> o_order_type ord' = o_order_type ord \<and>
     o_order_date ord' = o_order_date ord \<and> o_created_at ord' = o_created_at ord \<and>
     o_version ord \<le> o_version ord' \<and>
     o_status ord' \<in> {o_status ord, order_status.PartiallyPaid, order_status.Paid} \<and>
     (o_paid_at ord = None \<or> o_paid_at ord' \<noteq> None) \<and>
     (o_status ord' \<noteq> order_status.Paid \<or> o_status ord = order_status.Paid \<or> o_paid_at ord' \<noteq> None)"

lemma order_history_refl: "order_history ord ord"
  by (cases "o_paid_at ord") (simp_all add: order_history_def)

lemma order_history_trans:
  assumes "order_history a b" and "order_history b c"
  shows "order_history a c"
proof -
  have "o_status c \<in> {o_status a, order_status.PartiallyPaid, order_status.Paid}"
    using assms unfolding order_history_def by (elim conjE insertE emptyE) simp_all
  moreover have "o_paid_at a = None \<or> o_paid_at c \<noteq> None"
    using assms unfolding order_history_def by metis
  moreover have "o_status c \<noteq> order_status.Paid \<or> o_status a = order_status.Paid \<or> o_paid_at c \<noteq> None"
    using assms unfolding order_history_def by metis
  ultimately show ?thesis using assms unfolding order_history_def by simp
qed

lemma order_kept_history: "order_kept u ord ord' \<Longrightarrow> order_history ord ord'"
  unfolding order_kept_def order_history_def by (cases "o_paid_at ord") auto

lemma evolve_history:
  "orders_evolve s t \<Longrightarrow> list_all2 order_history (db_orders s) (db_orders t)"
  unfolding orders_evolve_def by (auto elim!: list_all2_mono dest: order_path_kept order_kept_history)

text \<open>Where the orders of a state come from, and what became of those before.\<close>

definition accounted :: "order_command list \<Rightarrow> db \<Rightarrow> db \<Rightarrow> bool" where
  "accounted cs s t \<longleftrightarrow>
     (\<forall>r' \<in> set (db_orders t). (\<exists>r \<in> set (db_orders s). order_history r r') \<or>
        (\<exists>c \<in> set cs. \<exists>new i n. creates c new \<and> order_history (order_row_of new i n) r')) \<and>
     (\<forall>r \<in> set (db_orders s). (\<exists>r' \<in> set (db_orders t). order_history r r') \<or>
        (\<exists>c \<in> set cs. destroys c (o_id r)))"

lemma accounted_history: "list_all2 order_history (db_orders s) (db_orders t) \<Longrightarrow> accounted cs s t"
  unfolding accounted_def by (blast dest: list_all2_left list_all2_right)

lemma accounted_created:
  assumes "orders_created new s t" and "creates c new"
  shows "accounted [c] s t"
  using assms order_history_refl unfolding accounted_def orders_created_def by fastforce

lemma accounted_destroyed:
  assumes "orders_destroyed i s t" and "\<And>j. destroys c j \<longleftrightarrow> i = j"
  shows "accounted [c] s t"
  using assms order_history_refl unfolding accounted_def orders_destroyed_def by fastforce

lemma accounted_command: "accounted [c] s (run_command c s)"
proof (cases c)
  case (Refund ord items)
  have "steps orders_evolve (refund ord items)" by (auto intro!: evolve_footprint footprints)
  then show ?thesis using Refund by (simp add: accounted_history evolve_history stepsD)
next
  case (NewCart user)
  then show ?thesis using accounted_created [OF created_cart] by simp
next
  case (NewOrder new)
  then show ?thesis using accounted_created [OF created_order] by simp
next
  case (Destroy ord)
  then show ?thesis using accounted_destroyed [OF destroyed_order] by simp
qed (simp_all add: accounted_history evolve_history stepsD evolve_update_quantities evolve_behalf evolve_statements
    evolve_payments list.rel_refl order_history_refl)

lemma accounted_trans:
  assumes "accounted [c] s t" and "accounted cs t u"
  shows "accounted (c # cs) s u"
proof -
  have forward: "(\<exists>r' \<in> set (db_orders u). order_history r r') \<or> (\<exists>c \<in> set (c # cs). destroys c (o_id r))"
    if "r \<in> set (db_orders s)" for r
  proof (cases "destroys c (o_id r)")
    case False
    then have "\<exists>q \<in> set (db_orders t). order_history r q"
      using assms(1) that unfolding accounted_def by simp blast
    then obtain q where q: "q \<in> set (db_orders t)" "order_history r q" by blast
    then have "o_id q = o_id r" by (simp add: order_history_def)
    then show ?thesis
      using assms(2) q order_history_trans [OF q(2)] unfolding accounted_def by (metis list.set_intros(2))
  qed simp
  have backward: "(\<exists>r \<in> set (db_orders s). order_history r r') \<or>
      (\<exists>c \<in> set (c # cs). \<exists>new i n. creates c new \<and> order_history (order_row_of new i n) r')"
    if r': "r' \<in> set (db_orders u)" for r'
  proof (cases "\<exists>q \<in> set (db_orders t). order_history q r'")
    case True
    then obtain q where q: "q \<in> set (db_orders t)" "order_history q r'" by blast
    then have "(\<exists>r \<in> set (db_orders s). order_history r q) \<or>
        (\<exists>new i n. creates c new \<and> order_history (order_row_of new i n) q)"
      using assms(1) unfolding accounted_def by simp
    then show ?thesis using order_history_trans q(2) by (meson list.set_intros(1))
  next
    case False
    then show ?thesis using assms(2) r' unfolding accounted_def by (meson list.set_intros(2))
  qed
  show ?thesis unfolding accounted_def using forward backward by blast
qed

lemma accounted_fold: "accounted cs s (fold run_command cs s)"
proof (induction cs arbitrary: s)
  case Nil
  then show ?case by (simp add: accounted_history list.rel_refl order_history_refl)
next
  case (Cons c cs)
  then show ?case using accounted_trans [OF accounted_command] by simp
qed

section \<open>Completing an order\<close>

text \<open>Writing redeem keys changes nothing else of a ticket.\<close>

definition rekeyed :: "ticket_instance \<Rightarrow> ticket_instance \<Rightarrow> bool" where
  "rekeyed a b \<longleftrightarrow> b = a\<lparr>ti_redeem_key := ti_redeem_key b\<rparr>"

lemma rekeyed_refl: "rekeyed a a"
  by (simp add: rekeyed_def)

lemma rekeyed_trans: "rekeyed a b \<Longrightarrow> rekeyed b c \<Longrightarrow> rekeyed a c"
  unfolding rekeyed_def by (metis ticket_instance.surjective ticket_instance.update_convs(8))

lemma rekeyed_cols:
  assumes "rekeyed a b"
  shows "ti_id b = ti_id a" "ti_order_item_id b = ti_order_item_id a" "ti_status b = ti_status a"
  using assms unfolding rekeyed_def
  by (metis ticket_instance.select_convs ticket_instance.surjective ticket_instance.update_convs(8))+

definition keys_only :: "db \<Rightarrow> db \<Rightarrow> bool" where
  "keys_only s t \<longleftrightarrow> list_all2 rekeyed (db_ticket_instances s) (db_ticket_instances t)"

interpretation keys_life: step_relation keys_only
  by unfold_locales (auto simp: keys_only_def list.rel_refl rekeyed_refl
      intro: list_all2_trans [OF rekeyed_trans])

lemma keys_only_write: "steps keys_only (write_redeem_key tk)"
proof -
  have gen: "steps keys_only (generate_redeem_key n)" for n
  proof (rule stepsI)
    fix s
    have "writes {} s (snd (generate_redeem_key n s))" by (rule stepsD) (rule writes_redeem_key)
    then have "db_ticket_instances (snd (generate_redeem_key n s)) = db_ticket_instances s"
      using writes_same [where T = TicketInstancesT] by auto
    then show "keys_only s (snd (generate_redeem_key n s))" by (simp add: keys_only_def list.rel_refl rekeyed_refl)
  qed
  have "steps keys_only (update_tickets P (\<lambda>_ u. u\<lparr>ti_redeem_key := k\<rparr>))" for P k
    by (rule stepsI) (auto simp: update_tickets_run keys_only_def rekeyed_def intro!: list_all2_update_where)
  then show ?thesis
    unfolding write_redeem_key_def by (intro keys_life.steps_control gen)
qed

definition purchased_under :: "uuid set \<Rightarrow> ticket_instance \<Rightarrow> ticket_instance \<Rightarrow> bool" where
  "purchased_under I a b \<longleftrightarrow> ti_id b = ti_id a \<and> ti_order_item_id b = ti_order_item_id a \<and>
     (if ti_order_item_id a \<in> Some ` I then ti_status b = ticket_instance_status.Purchased
      else ti_status b = ti_status a)"

lemma mark_as_purchased_rel:
  assumes "mark_as_purchased item user s = (Inr (), t)"
  shows "list_all2 (purchased_under {oi_id item}) (db_ticket_instances s) (db_ticket_instances t)"
proof -
  let ?P = "\<lambda>tk. ti_order_item_id tk = Some (oi_id item)"
  obtain w :: wallet where run: "for_each write_redeem_key (map (\<lambda>tk. tk\<lparr>ti_wallet_id := w_id w,
        ti_status := ticket_instance_status.Purchased, ti_updated_at := now s\<rparr>)
        (filter ?P (db_ticket_instances s)))
      (s\<lparr>db_ticket_instances := update_where ?P (\<lambda>tk. tk\<lparr>ti_wallet_id := w_id w,
        ti_status := ticket_instance_status.Purchased, ti_updated_at := now s\<rparr>) (db_ticket_instances s)\<rparr>)
      = (Inr (), t)"
    using assms by (auto simp: mark_as_purchased_def find_wallets_for_user_def bindo_run fail_run
        update_tickets_run split: list.splits)
  let ?f = "\<lambda>tk. tk\<lparr>ti_wallet_id := w_id w, ti_status := ticket_instance_status.Purchased,
    ti_updated_at := now s\<rparr>"
  have "keys_only (s\<lparr>db_ticket_instances := update_where ?P ?f (db_ticket_instances s)\<rparr>) t"
    by (rule stepsD_run [where m = "for_each write_redeem_key (map ?f (filter ?P (db_ticket_instances s)))"])
      (intro keys_life.steps_for_each keys_only_write, rule run)
  then have "list_all2 (\<lambda>a b. rekeyed (if ?P a then ?f a else a) b)
      (db_ticket_instances s) (db_ticket_instances t)"
    by (simp add: keys_only_def update_where_def list.rel_map)
  then show ?thesis
    by (rule list_all2_mono) (auto simp: purchased_under_def dest: rekeyed_cols split: if_splits)
qed

lemma mark_all_rel:
  assumes "for_each (\<lambda>item. mark_as_purchased item user) items s = (Inr (), t)"
  shows "list_all2 (purchased_under (oi_id ` set items)) (db_ticket_instances s) (db_ticket_instances t)"
  using assms
proof (induction items arbitrary: s)
  case Nil
  then show ?case by (auto simp: ret_run purchased_under_def list.rel_refl)
next
  case (Cons item items)
  then obtain v where one: "mark_as_purchased item user s = (Inr (), v)"
    and rest: "for_each (\<lambda>item. mark_as_purchased item user) items v = (Inr (), t)"
    by (auto simp: bindo_Inr_iff)
  have compose: "purchased_under (oi_id ` set (item # items)) a c"
    if "purchased_under {oi_id item} a b" "purchased_under (oi_id ` set items) b c" for a b c
    using that by (auto simp: purchased_under_def split: if_splits)
  show ?case by (rule list_all2_trans [OF compose mark_as_purchased_rel [OF one] Cons.IH [OF rest]])
qed

definition paid_sum :: "order_row \<Rightarrow> db \<Rightarrow> int" where
  "paid_sum ord s = sum_list (map p_amount
     (filter (\<lambda>p. p_order_id p = o_id ord \<and> p_status p = payment_status.Completed) (db_payments s)))"

lemma total_paid_run: "total_paid ord s = (Inr (paid_sum ord s), s)"
  by (simp add: total_paid_def paid_sum_def)

definition items_of :: "order_row \<Rightarrow> db \<Rightarrow> uuid set" where
  "items_of ord s = {oi_id oi |oi. oi \<in> set (db_order_items s) \<and> oi_order_id oi = o_id ord}"

lemma complete_Inr:
  assumes "complete_if_fully_paid self s = (Inr self', t)"
  shows "if order_total self s \<le> paid_sum self s
    then self' = self\<lparr>o_status := order_status.Paid, o_paid_at := Some (utc_now s)\<rparr> \<and>
      db_orders t = update_where (\<lambda>o'. o_id o' = o_id self) (\<lambda>o'. o'\<lparr>o_paid_at := Some (utc_now s),
        o_status := order_status.Paid, o_updated_at := now s\<rparr>) (db_orders s) \<and>
      list_all2 (purchased_under (items_of self s)) (db_ticket_instances s) (db_ticket_instances t)
    else self' = self \<and> t = s"
proof (cases "order_total self s \<le> paid_sum self s")
  case False
  then show ?thesis using assms
    by (simp add: complete_if_fully_paid_def bindo_run total_paid_run calculate_total_run ret_run)
next
  case True
  let ?s1 = "s\<lparr>db_orders := update_where (\<lambda>o'. o_id o' = o_id self) (\<lambda>o'. o'\<lparr>o_paid_at := Some (utc_now s),
        o_status := order_status.Paid, o_updated_at := now s\<rparr>) (db_orders s)\<rparr>"
  let ?items = "sort_key item_order (filter (\<lambda>oi. oi_order_id oi = o_id self) (db_order_items s))"
  let ?self = "self\<lparr>o_status := order_status.Paid, o_paid_at := Some (utc_now s)\<rparr>"
  have "bindo (for_each (\<lambda>item. mark_as_purchased item (o_user_id self)) ?items) (\<lambda>_.
      bindo (clear_cart_user ?self) (\<lambda>_. ret ?self)) ?s1 = (Inr self', t)"
    using assms True
    by (simp add: complete_if_fully_paid_def total_paid_run calculate_total_run bindo_run ret_run
        update_status_def update_orders_def find_for_order_def)
  then obtain s2 where marks: "for_each (\<lambda>item. mark_as_purchased item (o_user_id self)) ?items ?s1 = (Inr (), s2)"
    and clear: "clear_cart_user ?self s2 = (Inr (), t)" and self': "self' = ?self"
    by (auto simp: bindo_Inr_iff ret_run)
  have "oi_id ` set ?items = items_of self s" by (auto simp: items_of_def)
  then have rel: "list_all2 (purchased_under (items_of self s)) (db_ticket_instances s) (db_ticket_instances s2)"
    using mark_all_rel [OF marks] by simp
  have "writes {TicketInstancesT} ?s1 s2"
    by (rule stepsD_run [where m = "for_each (\<lambda>item. mark_as_purchased item (o_user_id self)) ?items"])
      (intro footprints, simp, rule marks)
  then have orders: "db_orders s2 = db_orders ?s1" by (auto dest: writes_same [where T = OrdersT])
  have w: "writes {UsersT} s2 t"
    by (rule stepsD_run [where m = "clear_cart_user ?self"]) (intro footprints, simp, rule clear)
  then have "db_orders t = db_orders s2" "db_ticket_instances t = db_ticket_instances s2"
    by (auto dest: writes_same [where T = OrdersT] writes_same [where T = TicketInstancesT])
  then show ?thesis using True self' rel orders by simp
qed

text \<open>What a payment does before it is stored: orders may become partially paid, reservations longer.\<close>

definition part_paid :: "db \<Rightarrow> db \<Rightarrow> bool" where
  "part_paid s t \<longleftrightarrow> utc_now t = utc_now s \<and> db_order_items t = db_order_items s \<and>
     db_payments t = db_payments s \<and>
     list_all2 (\<lambda>a b. o_id b = o_id a \<and> o_status b \<in> {o_status a, order_status.PartiallyPaid})
       (db_orders s) (db_orders t) \<and>
     list_all2 (\<lambda>a b. ti_id b = ti_id a \<and> ti_order_item_id b = ti_order_item_id a \<and> ti_status b = ti_status a)
       (db_ticket_instances s) (db_ticket_instances t)"

interpretation part_paid_life: step_relation part_paid
proof unfold_locales
  fix s t u :: db
  show "part_paid s s" by (simp add: part_paid_def list.rel_refl)
  assume "part_paid s t" "part_paid t u"
  then show "part_paid s u" unfolding part_paid_def
    by (elim conjE, intro conjI) (erule (1) list_all2_trans [rotated 1] | auto)+
qed

lemma part_paid_same:
  assumes "writes W s t" and "W \<inter> {OrdersT, OrderItemsT, PaymentsT, TicketInstancesT} = {}"
  shows "part_paid s t"
proof -
  have "db_orders t = db_orders s" "db_order_items t = db_order_items s" "db_payments t = db_payments s"
    "db_ticket_instances t = db_ticket_instances s"
    using assms writes_same [OF assms(1), of OrdersT] writes_same [OF assms(1), of OrderItemsT]
      writes_same [OF assms(1), of PaymentsT] writes_same [OF assms(1), of TicketInstancesT] by auto
  then show ?thesis using writes_environment [OF assms(1)] by (simp add: part_paid_def list.rel_refl)
qed

lemma part_paid_reads:
  "steps part_paid (order_find i)" "steps part_paid (find_for_order i)"
  "steps part_paid (concurrency_error m)" "steps part_paid (business_process_error m)"
  by (rule stepsI, rule part_paid_same [where W = "{}"], rule stepsD, intro footprints, simp)+

lemma part_paid_mark: "steps part_paid (mark_partially_paid self)"
proof (rule stepsI)
  fix s :: db
  have orders: "part_paid s (snd (update_orders P (\<lambda>o'. o'\<lparr>o_status := order_status.PartiallyPaid,
      o_expires_at := x, o_updated_at := y\<rparr>) s))" for P x y
    by (auto simp: update_orders_def part_paid_def list.rel_refl intro!: list_all2_update_where)
  have reserved: "steps part_paid (update_reserved_time item x)" for item x
    by (rule stepsI) (auto simp: update_reserved_time_def bindo_run update_tickets_run ret_run part_paid_def
        list.rel_refl intro!: list_all2_update_where)
  have rest: "steps part_paid (bindo (order_find (o_id self)) (\<lambda>db_record.
     if result = 0
     then
       (if o_version db_record \<noteq> o_version self
        then concurrency_error m
        else business_process_error m')
     else
       bindo (find_for_order (o_id db_record)) (\<lambda>items.
       bindo (for_each (\<lambda>item. update_reserved_time item e) items) (\<lambda>_.
       ret (self\<lparr>o_updated_at := o_updated_at db_record, o_status := o_status db_record\<rparr>)))))" for result m m' e
    by (auto intro!: part_paid_life.steps_control part_paid_reads reserved)
  show "part_paid s (snd (mark_partially_paid self s))"
    unfolding mark_partially_paid_def Let_def bindo_gets
    by (rule part_paid_life.step_bindo_at, rule orders, rule rest)
qed

lemma mark_partially_paid_id: "mark_partially_paid self s = (Inr self', t) \<Longrightarrow> o_id self' = o_id self"
  unfolding mark_partially_paid_def
  by (auto simp: Let_def bindo_Inr_iff ret_run error_op_run split: if_splits)

lemma payment_commit_Inr:
  assumes "payment_commit np i s = (Inr p, t)"
  shows "\<exists>es k. t = s\<lparr>db_payments := db_payments s @ [p], db_domain_events := es, uuids_drawn := k\<rparr> \<and>
      p_order_id p = np_order_id np \<and> p_amount p = np_amount np \<and> p_status p = np_status np"
proof -
  let ?s = "s\<lparr>uuids_drawn := Suc (uuids_drawn s)\<rparr>"
  let ?p = "payment_row np (uuid_source s (uuids_drawn s)) (now s)"
  let ?s' = "?s\<lparr>db_payments := db_payments s @ [?p]\<rparr>"
  let ?event = "domain_event_create domain_event_types.PaymentCreated ''Payment created'' tables.Payments
    (Some (p_id ?p)) (Some i) (np_raw_data np)"
  obtain e where event: "domain_event_commit ?event ?s' = (Inr e, ?s'\<lparr>db_domain_events :=
      db_domain_events ?s' @ [e], uuids_drawn := Suc (uuids_drawn ?s')\<rparr>)"
    using domain_event_commit_run by blast
  have "payment_violation ?s ?p = None"
    using assms by (cases "payment_violation ?s ?p") (auto simp: payment_commit_def bindo_run insert_checked_run
        split: sum.splits prod.splits)
  then have "p = ?p" "t = snd (domain_event_commit ?event ?s')"
    using assms event by (auto simp: payment_commit_def bindo_run insert_checked_run ret_run)
  then show ?thesis unfolding event by (auto simp: payment_row_def)
qed

lemma add_payment_Inr:
  assumes "add_payment self np i s = (Inr (p, self'), t)"
  obtains self1 s1 s2 es k where "part_paid s s1" and "o_id self1 = o_id self"
    and "s2 = s1\<lparr>db_payments := db_payments s1 @ [p], db_domain_events := es, uuids_drawn := k\<rparr>"
    and "p_order_id p = np_order_id np" and "p_amount p = np_amount np" and "p_status p = np_status np"
    and "complete_if_fully_paid self1 s2 = (Inr self', t)"
    and "o_status self \<in> {order_status.Draft, order_status.PartiallyPaid}"
proof -
  let ?first = "case o_status self of
              order_status.Paid \<Rightarrow> business_process_error ''This order has already been paid''
            | order_status.Draft \<Rightarrow> mark_partially_paid self
            | order_status.PartiallyPaid \<Rightarrow> ret self
            | _ \<Rightarrow> business_process_error
                (''Order was in unexpected state when trying to make a payment: '' @
                  enum_to_string order_status_variants (o_status self))"
  obtain self1 s1 s2 where first: "?first s = (Inr self1, s1)"
    and commit: "payment_commit np i s1 = (Inr p, s2)"
    and complete: "complete_if_fully_paid self1 s2 = (Inr self', t)"
    using assms unfolding add_payment_def bindo_Inr_iff by (auto simp: ret_run)
  have pre: "part_paid s s1 \<and> o_id self1 = o_id self \<and>
      o_status self \<in> {order_status.Draft, order_status.PartiallyPaid}"
  proof (cases "o_status self")
    case Draft
    then have run: "mark_partially_paid self s = (Inr self1, s1)" using first by simp
    then show ?thesis
      using stepsD [OF part_paid_mark, of s self] mark_partially_paid_id [OF run] Draft by simp
  next
    case PartiallyPaid
    then show ?thesis using first by (auto simp: ret_run part_paid_life.step_refl)
  qed (use first in \<open>simp_all add: error_op_run\<close>)
  note stored = payment_commit_Inr [OF commit]
  show thesis using that [OF _ _ _ _ _ _ complete] pre stored by blast
qed

section \<open>Properties\<close>

text \<open>C14: every public operation on orders keeps to their life cycle, whether it returns or fails. Those that
  change orders only take steps of the life cycle, on every row: the version moves on by one at a time, an
  expiry is set to fifteen minutes for a cart that has none or to a day by a payment before it has
  passed, and the status only becomes partially paid or, with the time of payment, paid. Creating an order
  or finding the cart of a user adds at most one row, at version 0 and not paid, and deleting an order
  removes at most that one, and only if it has no payment.\<close>

theorem operations_follow_life_cycle:
  "orders_evolve s (snd (update_quantities ord items b rm s)) \<and>
   orders_evolve s (snd (clear_cart ord s)) \<and>
   orders_evolve s (snd (update_fees ord s)) \<and>
   orders_evolve s (snd (destroy_item ord item s)) \<and>
   orders_evolve s (snd (set_expiry ord s)) \<and>
   orders_evolve s (snd (remove_expiry ord s)) \<and>
   orders_evolve s (snd (lock_version ord s)) \<and>
   orders_evolve s (snd (set_behalf_of_user ord user i s)) \<and>
   orders_evolve s (snd (order_update ord attrs s)) \<and>
   orders_evolve s (snd (add_external_payment ord ext i amount s)) \<and>
   orders_evolve s (snd (add_credit_card_payment ord i amount provider ref' st' data s)) \<and>
   orders_evolve s (snd (mark_complete p raw i s)) \<and>
   orders_evolve s (snd (complete_if_fully_paid ord s)) \<and>
   orders_evolve s (snd (refund ord ris s)) \<and>
   orders_created (new_cart (u_id user)) s (snd (find_or_create_cart user s)) \<and>
   orders_created new s (snd (order_commit new s)) \<and>
   orders_destroyed (o_id ord) s (snd (order_destroy ord s))"
proof -
  have "steps orders_evolve (refund ord ris)" by (auto intro!: evolve_footprint footprints)
  then show ?thesis
    by (simp add: stepsD evolve_update_quantities evolve_behalf evolve_statements evolve_payments evolve_lock
        evolve_complete evolve_others add_external_payment_def add_credit_card_payment_def created_cart
        created_order destroyed_order)
qed

text \<open>C15: along any history of requests, the creation and deletion of orders among them, with whatever copies of
  orders they act on, every order comes from one that was there or from one that a request of the history
  created, and every order that was there is still there unless a request of the history deleted it. It stays
  the order of the same user, its version never falls, an order that was paid stays marked with some time of
  payment, one that becomes paid has one, and no order goes back to draft or becomes cancelled.\<close>

theorem order_histories:
  "let t = fold run_command cs s in
   list_all (\<lambda>r'. (\<exists>r \<in> set (db_orders s). order_history r r') \<or>
      (\<exists>c \<in> set cs. \<exists>new i n. creates c new \<and> order_history (order_row_of new i n) r')) (db_orders t) \<and>
   list_all (\<lambda>r. (\<exists>r' \<in> set (db_orders t). order_history r r') \<or>
      (\<exists>c \<in> set cs. destroys c (o_id r))) (db_orders s)"
  using accounted_fold unfolding accounted_def Let_def list_all_iff by blast


definition sample_cart :: db where
  "sample_cart = blank_db\<lparr>
     db_users := [blank_user 1], db_wallets := [blank_wallet 20 (Some 1)],
     db_orders := [blank_order 7 1 order_status.PartiallyPaid],
     db_order_items := [(blank_item 30 7 order_item_types.Tickets 1 100)\<lparr>oi_ticket_type_id := Some 9\<rparr>],
     db_ticket_types := [blank_ticket_type 9 3], db_events := [blank_event 3 4]\<rparr>"

abbreviation cash :: "int \<Rightarrow> new_payment" where
  "cash amount \<equiv> payment_create 7 1 payment_status.Completed payment_methods.External ''External''
     (Some ''cash'') amount None"

lemma sample_payment_runs:
  "case fst (add_payment (blank_order 7 1 order_status.PartiallyPaid) (cash 100) 1 sample_cart) of
     Inr r \<Rightarrow> o_status (snd r) = order_status.Paid | Inl _ \<Rightarrow> False"
  by code_simp

text \<open>The status is looked at in the copy only and payments do not change the version, so whoever still
  holds the draft pays a paid order a second time.\<close>

definition sample_paid :: db where
  "sample_paid = sample_cart\<lparr>db_orders := [(blank_order 7 1 order_status.Paid)\<lparr>o_paid_at := Some 1000\<rparr>],
     db_payments := [payment_row (cash 100) 70 1000]\<rparr>"

lemma stale_copy_pays_twice:
  "case fst (add_payment (blank_order 7 1 order_status.Draft) (cash 100) 1 sample_paid) of
     Inr r \<Rightarrow> paid_sum (snd r) sample_paid = 100 \<and> order_total (snd r) sample_paid = 100 \<and> p_amount (fst r) = 100
   | Inl _ \<Rightarrow> False"
  by code_simp


end
