(* ===== verification/Carts.thy ===== *)
theory Carts imports Order_States begin

text \<open>
  Carts (\<open>db/src/models/orders.rs\<close>): what finding or creating the cart of a user promises, and the
  number an order is known by.
\<close>

section \<open>The cart of a user\<close>

definition open_cart :: "db \<Rightarrow> uuid \<Rightarrow> order_row \<Rightarrow> bool" where
  "open_cart s user_id ord \<longleftrightarrow> o_user_id ord = user_id \<and> o_status ord = order_status.Draft \<and>
     o_order_type ord = order_types.Cart \<and>
     (case o_expires_at ord of None \<Rightarrow> True | Some e \<Rightarrow> e \<ge> now s)"

definition carts_of :: "db \<Rightarrow> uuid \<Rightarrow> order_row list" where
  "carts_of s user_id = concat (map (\<lambda>u. filter (\<lambda>ord. u_last_cart_id u = Some (o_id ord) \<and>
     u_id u = user_id \<and> open_cart s user_id ord) (db_orders s)) (db_users s))"

lemma concat_singletons: "concat (map (\<lambda>x. if P x then [x] else []) xs) = filter P xs"
  by (induction xs) simp_all

lemma find_cart_run:
  "find_cart_for_user user_id s = (Inr (case carts_of s user_id of [] \<Rightarrow> None | ord # _ \<Rightarrow> Some ord), s)"
  by (simp add: find_cart_for_user_def carts_of_def open_cart_def concat_singletons)

lemma in_carts_of:
  "ord \<in> set (carts_of s user_id) \<longleftrightarrow> ord \<in> set (db_orders s) \<and> open_cart s user_id ord \<and>
     (\<exists>u \<in> set (db_users s). u_id u = user_id \<and> u_last_cart_id u = Some (o_id ord))"
  unfolding carts_of_def by auto

lemma find_cart_Some:
  assumes "find_cart_for_user user_id s = (Inr (Some c), t)"
  shows "t = s \<and> c \<in> set (db_orders s) \<and> open_cart s user_id c"
proof -
  have "t = s" and "(case carts_of s user_id of [] \<Rightarrow> None | ord # _ \<Rightarrow> Some ord) = Some c"
    using assms unfolding find_cart_run by auto
  moreover from this(2) have "c \<in> set (carts_of s user_id)" by (cases "carts_of s user_id") simp_all
  ultimately show ?thesis by (simp add: in_carts_of)
qed

lemma find_cart_only:
  assumes "ord \<in> set (carts_of s user_id)" and "\<And>c. c \<in> set (carts_of s user_id) \<Longrightarrow> c = ord"
  shows "find_cart_for_user user_id s = (Inr (Some ord), s)"
proof (cases "carts_of s user_id")
  case (Cons c cs)
  then have "c = ord" using assms(2) [of c] by simp
  then show ?thesis using Cons by (simp add: find_cart_run)
qed (use assms(1) in simp)

lemma insert_cart_Inr:
  assumes "insert_cart user_id s = (Inr [c], t)"
  shows "c = uuid_source s (uuids_drawn s) \<and>
    t = s\<lparr>uuids_drawn := Suc (uuids_drawn s), db_orders := db_orders s @
      [order_row_of \<lparr>no_user_id = user_id, no_status = order_status.Draft, no_expires_at = None,
         no_order_type = order_types.Cart\<rparr> c (now s)]\<rparr>"
  using assms by (auto simp: insert_cart_def bindo_Inr_iff insert_checked_Inr_iff ret_run order_row_of_def
      split: if_splits)

lemma update_last_cart_Inr:
  assumes "update_last_cart user i s = (Inr (), t)"
  shows "t = s\<lparr>db_users := update_where
      (\<lambda>u. u_id u = u_id user \<and> u_updated_at u = u_updated_at user \<and> u_last_cart_id u = u_last_cart_id user)
      (\<lambda>u. u\<lparr>u_last_cart_id := i, u_updated_at := now s\<rparr>) (db_users s)\<rparr> \<and>
    (\<exists>u \<in> set (db_users s). u_id u = u_id user \<and> u_updated_at u = u_updated_at user \<and>
       u_last_cart_id u = u_last_cart_id user)"
proof -
  let ?P = "\<lambda>u. u_id u = u_id user \<and> u_updated_at u = u_updated_at user \<and> u_last_cart_id u = u_last_cart_id user"
  have "length (filter ?P (db_users s)) = 1" "t = s\<lparr>db_users := update_where ?P
      (\<lambda>u. u\<lparr>u_last_cart_id := i, u_updated_at := now s\<rparr>) (db_users s)\<rparr>"
    using assms by (auto simp: update_last_cart_def update_users_def bindo_run ret_run error_op_run
        split: if_splits)
  moreover from this(1) have "filter ?P (db_users s) \<noteq> []" by auto
  ultimately show ?thesis by (auto simp: filter_empty_conv)
qed

lemma find_skip: "(\<And>x. x \<in> set xs \<Longrightarrow> \<not> P x) \<Longrightarrow> find P (xs @ ys) = find P ys"
  by (induction xs) simp_all

text \<open>A cart just created is the only cart the user's row leads to.\<close>

lemma new_cart_found:
  assumes "insert_cart (u_id user) s = (Inr [c], s1)" and "update_last_cart user (Some c) s1 = (Inr (), t)"
    and users: "distinct (map u_id (db_users s))" and fresh: "c \<notin> o_id ` set (db_orders s)"
  shows "\<exists>ord. order_find c t = (Inr ord, t) \<and> find_cart_for_user (u_id user) t = (Inr (Some ord), t) \<and>
    ord \<in> set (db_orders t) \<and> open_cart t (u_id user) ord"
proof -
  let ?P = "\<lambda>u. u_id u = u_id user \<and> u_updated_at u = u_updated_at user \<and> u_last_cart_id u = u_last_cart_id user"
  let ?ord = "order_row_of \<lparr>no_user_id = u_id user, no_status = order_status.Draft, no_expires_at = None,
     no_order_type = order_types.Cart\<rparr> c (now s)"
  have s1: "s1 = s\<lparr>uuids_drawn := Suc (uuids_drawn s), db_orders := db_orders s @ [?ord]\<rparr>"
    using insert_cart_Inr [OF assms(1)] by simp
  have t: "t = s1\<lparr>db_users := update_where ?P (\<lambda>u. u\<lparr>u_last_cart_id := Some c, u_updated_at := now s1\<rparr>) (db_users s1)\<rparr>"
    and row: "\<exists>u \<in> set (db_users s1). ?P u"
    using update_last_cart_Inr [OF assms(2)] by simp_all
  have id: "o_id ?ord = c" by (simp add: order_row_of_def)
  have opened: "open_cart t (u_id user) ?ord" by (simp add: open_cart_def order_row_of_def)
  have orders: "db_orders t = db_orders s @ [?ord]" by (simp add: t s1)
  have only: "o_id x = c \<Longrightarrow> x \<in> set (db_orders t) \<Longrightarrow> x = ?ord" for x
    using fresh by (auto simp: orders)
  have user_row: "u_last_cart_id u = Some c" if "u \<in> set (db_users t)" "u_id u = u_id user" for u
  proof -
    from row obtain v where v: "v \<in> set (db_users s)" "?P v" by (auto simp: s1)
    from that(1) obtain w where w: "w \<in> set (db_users s)" "u = (if ?P w
        then w\<lparr>u_last_cart_id := Some c, u_updated_at := now s1\<rparr> else w)"
      by (auto simp: t s1 set_update_where)
    then have "u_id w = u_id v" using that(2) v(2) by (auto split: if_splits)
    then have "w = v" using users v(1) w(1) by (auto simp: distinct_map dest: inj_onD)
    then show ?thesis using w(2) v(2) by simp
  qed
  have "\<exists>u \<in> set (db_users t). u_id u = u_id user"
  proof -
    from row obtain v where "v \<in> set (db_users s1)" "?P v" by blast
    then have "v\<lparr>u_last_cart_id := Some c, u_updated_at := now s1\<rparr> \<in> set (db_users t)"
      by (simp add: t set_update_where)
    then show ?thesis using \<open>?P v\<close> by (intro bexI) simp_all
  qed
  then have mem: "?ord \<in> set (carts_of t (u_id user))"
    using user_row opened by (auto simp: in_carts_of orders id)
  have "x = ?ord" if "x \<in> set (carts_of t (u_id user))" for x
    using that user_row only by (auto simp: in_carts_of)
  then have "find_cart_for_user (u_id user) t = (Inr (Some ?ord), t)"
    by (rule find_cart_only [OF mem])
  moreover have "order_find c t = (Inr ?ord, t)"
    using fresh find_skip [of "db_orders s" "\<lambda>o'. o_id o' = c" "[?ord]"]
    by (auto simp: order_find_def first_where_Inr_iff orders id)
  ultimately show ?thesis using opened orders by auto
qed

section \<open>Order numbers\<close>

lemma length_hex_string [simp]: "length (hex_string w n) = w"
  by (induction w arbitrary: n) simp_all

lemma hex_digits_distinct: "i < 16 \<Longrightarrow> j < 16 \<Longrightarrow>
  ''0123456789abcdef'' ! i = ''0123456789abcdef'' ! j \<longleftrightarrow> i = j"
  by (rule nth_eq_iff_index_eq) simp_all

lemma hex_string_eq: "hex_string w n = hex_string w m \<longleftrightarrow> n mod 16 ^ w = m mod 16 ^ w"
proof (induction w arbitrary: n m)
  case (Suc w)
  have parts: "n mod 16 ^ Suc w = 16 * (n div 16 mod 16 ^ w) + n mod 16" for n :: nat
    by (simp add: mod_mult2_eq)
  have digits: "a = b \<and> r = q \<longleftrightarrow> 16 * a + r = 16 * b + q" if "r < 16" "q < 16" for a b r q :: nat
    using that by presburger
  have "hex_string (Suc w) n = hex_string (Suc w) m \<longleftrightarrow>
      n div 16 mod 16 ^ w = m div 16 mod 16 ^ w \<and> n mod 16 = m mod 16"
    by (simp add: Suc.IH hex_digits_distinct)
  also have "\<dots> \<longleftrightarrow> n mod 16 ^ Suc w = m mod 16 ^ Suc w"
    unfolding parts using digits by (metis mod_less_divisor zero_less_numeral)
  finally show ?case .
qed simp

lemma parse_order_number_hex: "parse_order_number i = hex_string 8 i"
proof -
  have tail: "hex_string (k + w) n = hex_string k (n div 16 ^ w) @ hex_string w n" for k w n
  proof (induction w arbitrary: n)
    case (Suc w)
    have "n div 16 div 16 ^ w = n div 16 ^ Suc w" by (simp add: div_mult2_eq)
    then show ?case using Suc.IH [of "n div 16"] by simp
  qed simp
  have "hex_string 12 i = hex_string 4 (i div 16 ^ 8) @ hex_string 8 i" using tail [of 4 8 i] by simp
  then show ?thesis by (simp add: parse_order_number_def uuid_to_string_def)
qed

section \<open>Properties\<close>

text \<open>the cart a user gets is an order of the user in draft that has not expired, and it stays the
  cart: until something else happens, asking again, with whatever copy of the user, returns the same
  order and changes nothing.\<close>

theorem cart_found_again:
  assumes "find_or_create_cart user s = (Inr c, t)" and "u_id copy = u_id user"
    and "distinct (map u_id (db_users s))" and "uuid_source s (uuids_drawn s) \<notin> o_id ` set (db_orders s)"
  shows "c \<in> set (db_orders t) \<and> open_cart t (u_id user) c \<and> find_or_create_cart copy t = (Inr c, t)"
proof -
  obtain cart where first: "find_cart_for_user (u_id user) s = (Inr cart, s)"
    by (simp add: find_cart_run)
  have again: "find_cart_for_user (u_id user) t = (Inr (Some c), t) \<Longrightarrow>
      find_or_create_cart copy t = (Inr c, t)"
    by (simp add: find_or_create_cart_def bindo_run assms(2) ret_run)
  show ?thesis
  proof (cases cart)
    case (Some d)
    then have "t = s" "c = d" using assms(1) first
      by (simp_all add: find_or_create_cart_def bindo_run ret_run)
    then show ?thesis using first Some again find_cart_Some [of "u_id user" s d s] by simp
  next
    case None
    then obtain i s1 where ins: "insert_cart (u_id user) s = (Inr i, s1)"
      using assms(1) first by (auto simp: find_or_create_cart_def bindo_run split: prod.splits sum.splits)
    have rest: "(case i of [c] \<Rightarrow> bindo (update_last_cart user (Some c)) (\<lambda>_. order_find c)
             | _ \<Rightarrow> concurrency_error
                 ''Possible race condition when creating a cart for a user. Number of carts returned: 0'') s1 = (Inr c, t)"
      using assms(1) first ins None by (simp add: find_or_create_cart_def bindo_run)
    then obtain k where i: "i = [k]" by (auto simp: error_op_run split: list.splits)
    with rest obtain s2 where upd: "update_last_cart user (Some k) s1 = (Inr (), s2)"
      and found: "order_find k s2 = (Inr c, t)"
      by (auto simp: bindo_Inr_iff)
    have "k \<notin> o_id ` set (db_orders s)" using insert_cart_Inr [OF ins [unfolded i]] assms(4) by simp
    from new_cart_found [OF ins [unfolded i] upd assms(3) this] obtain ord where
      "order_find k s2 = (Inr ord, s2)" "find_cart_for_user (u_id user) s2 = (Inr (Some ord), s2)"
      "ord \<in> set (db_orders s2)" "open_cart s2 (u_id user) ord" by blast
    then show ?thesis using found again by simp
  qed
qed

text \<open>an order number has eight digits, and two orders have the same number exactly when the last
  32 bits of their identifiers agree, so numbers are not unique.\<close>

theorem order_numbers:
  "length (order_number a) = 8 \<and>
   (order_number a = order_number b \<longleftrightarrow> o_id a mod 2 ^ 32 = o_id b mod 2 ^ 32)"
  by (simp add: order_number_def parse_order_number_hex hex_string_eq)

definition sample_shopper :: db where
  "sample_shopper = blank_db\<lparr>db_users := [blank_user 1]\<rparr>"

theorem cart_found_again_witness:
  "\<exists>c t. find_or_create_cart (blank_user 1) sample_shopper = (Inr c, t) \<and>
     find_or_create_cart (blank_user 1) t = (Inr c, t)"
proof -
  have "case fst (find_or_create_cart (blank_user 1) sample_shopper) of Inr _ \<Rightarrow> True | Inl _ \<Rightarrow> False"
    by code_simp
  then obtain c t where run: "find_or_create_cart (blank_user 1) sample_shopper = (Inr c, t)"
    by (cases "find_or_create_cart (blank_user 1) sample_shopper") (auto split: sum.splits)
  have "distinct (map u_id (db_users sample_shopper))"
    "uuid_source sample_shopper (uuids_drawn sample_shopper) \<notin> o_id ` set (db_orders sample_shopper)"
    by (simp_all add: sample_shopper_def blank_defs)
  then show ?thesis using cart_found_again [OF run, of "blank_user 1"] run by auto
qed

end
