(* ===== verification/Signing.thy ===== *)
theory Signing imports Database begin

text \<open>
  Signed messages (\<open>tari-client/src/cryptographic.rs\<close>, \<open>tari_messages.rs\<close>, \<open>tari_client.rs\<close>,
  \<open>tari_error.rs\<close>): signing and verifying a text with an ECDSA key pair, and the signed requests to the
  asset service. The crates the code calls (\<open>hex\<close>, \<open>crypto\<close>, \<open>secp256k1\<close>, \<open>serde_json\<close>, \<open>reqwest\<close>) are the
  fields of a record that every definition takes; \<open>key_pair_works\<close> states what the code relies on.
\<close>

section \<open>Errors\<close>

record tari_error =
  te_description :: string

definition from_reqwest_error :: "string \<Rightarrow> tari_error" where
  "from_reqwest_error r = \<lparr>te_description = ''Error calling Tari: reqwest error '' @ r\<rparr>"

definition from_secp_error :: "string \<Rightarrow> tari_error" where
  "from_secp_error r = \<lparr>te_description = ''Error calling Tari: secp256k1 error '' @ r\<rparr>"

definition from_serde_error :: "string \<Rightarrow> tari_error" where
  "from_serde_error r = \<lparr>te_description = ''Error deserializing response: '' @ r\<rparr>"

definition tari_error_text :: "tari_error \<Rightarrow> string" where
  "tari_error_text e = ''Error: '' @ te_description e"

definition from_tari_error :: "tari_error \<Rightarrow> db_error" where
  "from_tari_error e = database_error_new InternalError (Some (Text (tari_error_text e)))"

section \<open>What the crates give\<close>

type_synonym byte = "8 word"

text \<open>Opaque values of the crates (messages, keys, signatures) are their bytes; an error of a crate is
  the text it prints.\<close>

record crates =
  hex_decode :: "string \<Rightarrow> byte list option"
  hex_encode :: "byte list \<Rightarrow> string"
  sha256_hex :: "string \<Rightarrow> string"
  ripemd160_hex :: "byte list \<Rightarrow> string"
  secp_message :: "byte list \<Rightarrow> string + byte list"
  secp_secret_key :: "byte list \<Rightarrow> string + byte list"
  secp_public_key :: "byte list \<Rightarrow> string + byte list"
  secp_signature :: "byte list \<Rightarrow> string + byte list"
  secp_sign_der :: "byte list \<Rightarrow> byte list \<Rightarrow> byte list"
  secp_verify :: "byte list \<Rightarrow> byte list \<Rightarrow> byte list \<Rightarrow> bool"
  json_text :: "json \<Rightarrow> string"
  http_post :: "string \<Rightarrow> json \<Rightarrow> string + string"
  parse_rpc_response :: "string \<Rightarrow> string + json"
  parse_success :: "json \<Rightarrow> string + bool"
  parse_success_id :: "json \<Rightarrow> string + (bool \<times> string)"

definition map_error :: "('e \<Rightarrow> 'f) \<Rightarrow> 'e + 'a \<Rightarrow> 'f + 'a" where
  "map_error f r = (case r of Inl e \<Rightarrow> Inl (f e) | Inr x \<Rightarrow> Inr x)"

definition and_then :: "'e + 'a \<Rightarrow> ('a \<Rightarrow> 'e + 'b) \<Rightarrow> 'e + 'b" where
  "and_then r f = (case r of Inl e \<Rightarrow> Inl e | Inr x \<Rightarrow> f x)"

lemma map_error_Inr_iff [simp]: "map_error f r = Inr x \<longleftrightarrow> r = Inr x"
  by (simp add: map_error_def split: sum.splits)

lemma and_then_Inr_iff [simp]: "and_then r f = Inr y \<longleftrightarrow> (\<exists>x. r = Inr x \<and> f x = Inr y)"
  by (simp add: and_then_def split: sum.splits)

section \<open>Signatures\<close>

definition convert_hexstring_to_bytes :: "crates \<Rightarrow> string \<Rightarrow> byte list" where
  "convert_hexstring_to_bytes c input_hexstring =
     (case hex_decode c input_hexstring of Some v \<Rightarrow> v | None \<Rightarrow> [0])"

definition convert_bytes_to_hexstring :: "crates \<Rightarrow> byte list \<Rightarrow> string" where
  "convert_bytes_to_hexstring c input_bytes = hex_encode c input_bytes"

text \<open>Cut, or filled with zeros, to the wanted size.\<close>

definition force_byte_array_size :: "byte list \<Rightarrow> nat \<Rightarrow> byte list" where
  "force_byte_array_size input_bytes desired_byte_count =
     map (\<lambda>i. if i < min (length input_bytes) desired_byte_count then input_bytes ! i else 0)
       [0..<desired_byte_count]"

definition cryptographic_hash :: "crates \<Rightarrow> string \<Rightarrow> byte list" where
  "cryptographic_hash c input_msg =
     (let hash_bytes = convert_hexstring_to_bytes c (sha256_hex c input_msg)
      in convert_hexstring_to_bytes c (ripemd160_hex c hash_bytes))"

definition message_size :: nat where
  "message_size = 32"

definition cryptographic_signature :: "crates \<Rightarrow> string \<Rightarrow> byte list \<Rightarrow> tari_error + byte list" where
  "cryptographic_signature c input_msg secret_key =
     (let msg_hash_bytes = force_byte_array_size (cryptographic_hash c input_msg) message_size in
      and_then (map_error from_secp_error (secp_message c msg_hash_bytes)) (\<lambda>message.
      and_then (map_error from_secp_error (secp_secret_key c secret_key)) (\<lambda>secret.
      Inr (secp_sign_der c message secret))))"

definition cryptographic_verify :: "crates \<Rightarrow> byte list \<Rightarrow> string \<Rightarrow> byte list \<Rightarrow> bool" where
  "cryptographic_verify c data_signature input_msg public_key =
     (let msg_hash_bytes = force_byte_array_size (cryptographic_hash c input_msg) message_size in
      case secp_message c msg_hash_bytes of
        Inl _ \<Rightarrow> False
      | Inr message \<Rightarrow>
          (case secp_signature c data_signature of
             Inl _ \<Rightarrow> False
           | Inr signature \<Rightarrow>
               (case secp_public_key c public_key of
                  Inl _ \<Rightarrow> False
                | Inr public \<Rightarrow> secp_verify c message signature public)))"

text \<open>The random source of the test helper never yields the byte 255.\<close>

fun random_bytes :: "nat \<Rightarrow> byte list dbop" where
  "random_bytes 0 = ret []"
| "random_bytes (Suc n) =
     bindo (gen_range 255) (\<lambda>b. bindo (random_bytes n) (\<lambda>bs. ret (of_nat b # bs)))"

definition random_hash :: "crates \<Rightarrow> string dbop" where
  "random_hash c = bindo (random_bytes 32) (\<lambda>bs. ret (convert_bytes_to_hexstring c bs))"

section \<open>Messages\<close>

record message_header =
  mh_command :: string
  mh_asset_class_id :: string
  mh_version :: string

record message_signature =
  ms_public_key :: string
  ms_data_signature :: string

record message_request =
  mr_header :: message_header
  mr_payload :: json
  mr_signature :: message_signature

record rpc_request =
  rpc_jsonrpc :: string
  rpc_method :: string
  rpc_params :: json
  rpc_id :: int

definition header_json :: "message_header \<Rightarrow> json" where
  "header_json h = JObject [(''command'', JString (mh_command h)),
     (''asset_class_id'', JString (mh_asset_class_id h)), (''version'', JString (mh_version h))]"

definition signature_json :: "message_signature \<Rightarrow> json" where
  "signature_json g = JObject [(''public_key'', JString (ms_public_key g)),
     (''data_signature'', JString (ms_data_signature g))]"

definition request_json :: "message_request \<Rightarrow> json" where
  "request_json r = JObject [(''header'', header_json (mr_header r)), (''payload'', mr_payload r),
     (''signature'', signature_json (mr_signature r))]"

definition rpc_json :: "rpc_request \<Rightarrow> json" where
  "rpc_json r = JObject [(''jsonrpc'', JString (rpc_jsonrpc r)), (''method'', JString (rpc_method r)),
     (''params'', rpc_params r), (''id'', JNumber (rpc_id r))]"

definition message_data_signature ::
  "crates \<Rightarrow> message_header \<Rightarrow> string \<Rightarrow> byte list \<Rightarrow> tari_error + string" where
  "message_data_signature c msg_header msg_payload secret_key =
     (let complete_msg_string = json_text c (header_json msg_header) @ msg_payload in
      and_then (cryptographic_signature c complete_msg_string secret_key)
        (\<lambda>sig. Inr (convert_bytes_to_hexstring c sig)))"

definition message_verification ::
  "crates \<Rightarrow> message_header \<Rightarrow> string \<Rightarrow> message_signature \<Rightarrow> tari_error + bool" where
  "message_verification c msg_header msg_payload msg_signature =
     (let complete_msg_string = json_text c (header_json msg_header) @ msg_payload;
          data_signature = convert_hexstring_to_bytes c (ms_data_signature msg_signature);
          msg_public_key = convert_hexstring_to_bytes c (ms_public_key msg_signature)
      in Inr (cryptographic_verify c data_signature complete_msg_string msg_public_key))"

definition request_message ::
  "crates \<Rightarrow> string \<Rightarrow> json \<Rightarrow> byte list \<Rightarrow> byte list \<Rightarrow> tari_error + message_request" where
  "request_message c header_command msg_payload secret_key public_key =
     (let msg_header = \<lparr>mh_command = header_command, mh_asset_class_id = ''0'', mh_version = ''0.0.1''\<rparr> in
      and_then (message_data_signature c msg_header (json_text c msg_payload) secret_key) (\<lambda>sig.
      Inr \<lparr>mr_header = msg_header, mr_payload = msg_payload,
        mr_signature = \<lparr>ms_public_key = convert_bytes_to_hexstring c public_key, ms_data_signature = sig\<rparr>\<rparr>))"

definition construct_request_message ::
  "crates \<Rightarrow> string \<Rightarrow> json \<Rightarrow> byte list \<Rightarrow> byte list \<Rightarrow> tari_error + json" where
  "construct_request_message c header_command msg_payload secret_key public_key =
     and_then (request_message c header_command msg_payload secret_key public_key)
       (\<lambda>request. Inr (request_json request))"

definition construct_jsonrpc_request ::
  "crates \<Rightarrow> string \<Rightarrow> json \<Rightarrow> byte list \<Rightarrow> byte list \<Rightarrow> tari_error + rpc_request" where
  "construct_jsonrpc_request c header_command msg_payload secret_key public_key =
     and_then (construct_request_message c header_command msg_payload secret_key public_key) (\<lambda>params.
     Inr \<lparr>rpc_jsonrpc = ''2.0'', rpc_method = header_command, rpc_params = params, rpc_id = 1\<rparr>)"

section \<open>The client of the asset service\<close>

fun optional_json :: "('a \<Rightarrow> json) \<Rightarrow> 'a option \<Rightarrow> json" where
  "optional_json f None = JNull"
| "optional_json f (Some x) = f x"

definition numbers_json :: "nat list \<Rightarrow> json" where
  "numbers_json ns = JArray (map (\<lambda>n. JNumber (int n)) ns)"

record create_asset_payload =
  cap_name :: string
  cap_total_supply :: nat
  cap_authorised_signers :: "string list"
  cap_rule_flags :: int
  cap_rule_metadata :: string
  cap_expiry_date :: int

definition create_asset_json :: "create_asset_payload \<Rightarrow> json" where
  "create_asset_json p = JObject [(''name'', JString (cap_name p)),
     (''total_supply'', JNumber (int (cap_total_supply p))),
     (''authorised_signers'', JArray (map JString (cap_authorised_signers p))),
     (''rule_flags'', JNumber (cap_rule_flags p)), (''rule_metadata'', JString (cap_rule_metadata p)),
     (''expiry_date'', JNumber (cap_expiry_date p))]"

record modify_asset_payload =
  map_asset_id :: string
  map_request_type :: int
  map_authorised_signer :: "string option"
  map_token_ids :: "nat list option"
  map_token_metadata :: "nat list option"
  map_new_supply :: "nat option"

definition modify_asset_json :: "modify_asset_payload \<Rightarrow> json" where
  "modify_asset_json p = JObject [(''asset_id'', JString (map_asset_id p)),
     (''request_type'', JNumber (map_request_type p)),
     (''authorised_signer'', optional_json JString (map_authorised_signer p)),
     (''token_ids'', optional_json numbers_json (map_token_ids p)),
     (''token_metadata'', optional_json numbers_json (map_token_metadata p)),
     (''new_supply'', optional_json (\<lambda>n. JNumber (int n)) (map_new_supply p))]"

record transfer_token_payload =
  ttp_asset_id :: string
  ttp_token_ids :: "nat list"
  ttp_new_owner :: string

definition transfer_token_json :: "transfer_token_payload \<Rightarrow> json" where
  "transfer_token_json p = JObject [(''asset_id'', JString (ttp_asset_id p)),
     (''token_ids'', numbers_json (ttp_token_ids p)), (''new_owner'', JString (ttp_new_owner p))]"

text \<open>Every call signs a request, posts it and decodes the result of the answer.\<close>

definition tari_call :: "crates \<Rightarrow> string \<Rightarrow> string \<Rightarrow> string \<Rightarrow> string \<Rightarrow> json \<Rightarrow> tari_error + json" where
  "tari_call c tari_url header_command secret_key public_key msg_payload =
     (let secret_key = convert_hexstring_to_bytes c secret_key;
          public_key = convert_hexstring_to_bytes c public_key in
      and_then (construct_jsonrpc_request c header_command msg_payload secret_key public_key) (\<lambda>request.
      and_then (map_error from_reqwest_error (http_post c tari_url (rpc_json request))) (\<lambda>raw.
      map_error from_serde_error (parse_rpc_response c raw))))"

definition tari_success :: "crates \<Rightarrow> string \<Rightarrow> json \<Rightarrow> tari_error + unit" where
  "tari_success c failure result =
     and_then (map_error from_serde_error (parse_success c result)) (\<lambda>success.
       if success then Inr () else Inl \<lparr>te_description = failure\<rparr>)"

definition create_asset ::
  "crates \<Rightarrow> string \<Rightarrow> string \<Rightarrow> string \<Rightarrow> create_asset_payload \<Rightarrow> tari_error + string" where
  "create_asset c tari_url secret_key public_key asset =
     and_then (tari_call c tari_url ''create_asset'' secret_key public_key (create_asset_json asset)) (\<lambda>result.
     and_then (map_error from_serde_error (parse_success_id c result)) (\<lambda>(success, id').
       if success then Inr id' else Inl \<lparr>te_description = ''Failed to create Asset on Tari''\<rparr>))"

definition modify_asset_increase_supply ::
  "crates \<Rightarrow> string \<Rightarrow> string \<Rightarrow> string \<Rightarrow> string \<Rightarrow> nat \<Rightarrow> tari_error + unit" where
  "modify_asset_increase_supply c tari_url secret_key public_key asset_id new_supply =
     and_then (tari_call c tari_url ''modify_asset'' secret_key public_key
       (modify_asset_json \<lparr>map_asset_id = asset_id, map_request_type = 2, map_authorised_signer = None,
          map_token_ids = None, map_token_metadata = None, map_new_supply = Some new_supply\<rparr>))
       (tari_success c ''Failed to increase token supply on Tari'')"

definition modify_asset_nullify_tokens ::
  "crates \<Rightarrow> string \<Rightarrow> string \<Rightarrow> string \<Rightarrow> string \<Rightarrow> nat list \<Rightarrow> tari_error + unit" where
  "modify_asset_nullify_tokens c tari_url secret_key public_key asset_id token_ids =
     and_then (tari_call c tari_url ''modify_asset'' secret_key public_key
       (modify_asset_json \<lparr>map_asset_id = asset_id, map_request_type = 4, map_authorised_signer = None,
          map_token_ids = Some token_ids, map_token_metadata = None, map_new_supply = None\<rparr>))
       (tari_success c ''Failed to redeem tokens on Tari'')"

definition modify_asset_redeem_token ::
  "crates \<Rightarrow> string \<Rightarrow> string \<Rightarrow> string \<Rightarrow> string \<Rightarrow> nat list \<Rightarrow> tari_error + unit" where
  "modify_asset_redeem_token c tari_url secret_key public_key asset_id token_ids =
     and_then (tari_call c tari_url ''modify_asset'' secret_key public_key
       (modify_asset_json \<lparr>map_asset_id = asset_id, map_request_type = 5, map_authorised_signer = None,
          map_token_ids = Some token_ids, map_token_metadata = None, map_new_supply = None\<rparr>))
       (tari_success c ''Failed to redeem tokens on Tari'')"

definition transfer_tokens ::
  "crates \<Rightarrow> string \<Rightarrow> string \<Rightarrow> string \<Rightarrow> string \<Rightarrow> nat list \<Rightarrow> string \<Rightarrow> tari_error + unit" where
  "transfer_tokens c tari_url secret_key public_key asset_id token_ids new_owner =
     and_then (tari_call c tari_url ''transfer_token'' secret_key public_key
       (transfer_token_json \<lparr>ttp_asset_id = asset_id, ttp_token_ids = token_ids,
          ttp_new_owner = new_owner\<rparr>))
       (tari_success c ''Failed to transfer tokens on Tari'')"

definition get_asset_info :: "crates \<Rightarrow> string \<Rightarrow> string \<Rightarrow> string \<Rightarrow> string \<Rightarrow> tari_error + json" where
  "get_asset_info c tari_url secret_key public_key asset_id =
     tari_call c tari_url ''read_asset'' secret_key public_key
       (JObject [(''request_type'', JNumber 0), (''user'', JNull), (''asset_id'', JString asset_id),
          (''token_ids'', JNull)])"

section \<open>Signing and verifying\<close>

text \<open>What the crates document: encoding in hex loses nothing, and what a key pair's secret key signs
  its public key verifies.\<close>

definition key_pair_works :: "crates \<Rightarrow> byte list \<Rightarrow> byte list \<Rightarrow> bool" where
  "key_pair_works c secret_key public_key \<longleftrightarrow>
     (\<forall>bs. hex_decode c (hex_encode c bs) = Some bs) \<and>
     (\<exists>pk. secp_public_key c public_key = Inr pk \<and>
        (\<forall>h m sk. secp_message c h = Inr m \<longrightarrow> secp_secret_key c secret_key = Inr sk \<longrightarrow>
           (\<exists>g. secp_signature c (secp_sign_der c m sk) = Inr g \<and> secp_verify c m g pk)))"

lemma hex_round_trip [simp]:
  "key_pair_works c sk pk \<Longrightarrow> convert_hexstring_to_bytes c (convert_bytes_to_hexstring c bs) = bs"
  by (simp add: key_pair_works_def convert_hexstring_to_bytes_def convert_bytes_to_hexstring_def)

lemma signature_verifies:
  "key_pair_works c sk pk \<Longrightarrow> cryptographic_signature c msg sk = Inr sig \<Longrightarrow>
   cryptographic_verify c sig msg pk"
  unfolding key_pair_works_def
  by (fastforce simp: cryptographic_signature_def cryptographic_verify_def Let_def)

lemma force_byte_array_size_eq:
  "force_byte_array_size bs n = take n bs @ replicate (n - length bs) 0"
  by (rule nth_equalityI) (auto simp: force_byte_array_size_def nth_append)

lemma request_message_Inr:
  assumes "request_message c command payload sk pk = Inr r"
  shows "\<exists>sig. mr_header r = \<lparr>mh_command = command, mh_asset_class_id = ''0'', mh_version = ''0.0.1''\<rparr> \<and>
    mr_payload r = payload \<and> cryptographic_signature c
      (json_text c (header_json (mr_header r)) @ json_text c payload) sk = Inr sig \<and>
    mr_signature r = \<lparr>ms_public_key = convert_bytes_to_hexstring c pk,
      ms_data_signature = convert_bytes_to_hexstring c sig\<rparr>"
  using assms by (auto simp: request_message_def message_data_signature_def Let_def)

section \<open>Properties\<close>

text \<open>a request built with a working key pair carries a signature that the receiver's check
  accepts, for the header and the payload it carries; the signature is over exactly 32 bytes, the hash cut
  or filled with zeros.\<close>

theorem signed_request_verifies:
  assumes "key_pair_works c sk pk" and "request_message c command payload sk pk = Inr r"
  shows "message_verification c (mr_header r) (json_text c (mr_payload r)) (mr_signature r) = Inr True \<and>
    length (force_byte_array_size bs message_size) = 32 \<and>
    force_byte_array_size bs message_size = take 32 bs @ replicate (32 - length bs) 0"
proof -
  from request_message_Inr [OF assms(2)] obtain sig where
    sig: "cryptographic_signature c (json_text c (header_json (mr_header r)) @ json_text c payload) sk = Inr sig"
      and r: "mr_payload r = payload" "mr_signature r = \<lparr>ms_public_key = convert_bytes_to_hexstring c pk,
        ms_data_signature = convert_bytes_to_hexstring c sig\<rparr>" by blast
  show ?thesis
    using signature_verifies [OF assms(1) sig] assms(1)
    by (simp add: message_verification_def r message_size_def force_byte_array_size_eq)
qed

text \<open>Crates for evaluating the model: a byte is written as the character it codes, a signature is the
  message with the key.\<close>

definition sample_crates :: crates where
  "sample_crates = \<lparr>hex_decode = (\<lambda>t. Some (map (\<lambda>ch. of_nat (of_char ch)) t)),
     hex_encode = map (\<lambda>b. char_of (unat b)), sha256_hex = id, ripemd160_hex = map (\<lambda>b. char_of (unat b)),
     secp_message = (\<lambda>h. if length h = 32 then Inr h else Inl ''length''),
     secp_secret_key = Inr, secp_public_key = Inr, secp_signature = Inr,
     secp_sign_der = (\<lambda>m sk. m @ sk), secp_verify = (\<lambda>m g pk. g = m @ pk),
     json_text = (\<lambda>_. ''json''), http_post = (\<lambda>_ _. Inl ''no network''),
     parse_rpc_response = (\<lambda>_. Inl ''empty''), parse_success = (\<lambda>_. Inr True),
     parse_success_id = (\<lambda>_. Inr (True, ''asset''))\<rparr>"

lemma byte_mod: "unat (b :: byte) mod 256 = unat b"
proof -
  have "unat b < 2 ^ LENGTH(8)" by (rule unsigned_less)
  then show ?thesis by simp
qed

lemma sample_key_pair: "key_pair_works sample_crates sk sk"
  by (simp add: key_pair_works_def sample_crates_def of_char_of byte_mod comp_def)

lemma sample_signature: "\<exists>sig. cryptographic_signature sample_crates msg sk = Inr sig"
  by (simp add: cryptographic_signature_def Let_def force_byte_array_size_def message_size_def
    sample_crates_def)

theorem signed_request_verifies_witness:
  "\<exists>r. request_message sample_crates ''read_asset'' JNull [7] [7] = Inr r \<and>
     message_verification sample_crates (mr_header r) (json_text sample_crates (mr_payload r))
       (mr_signature r) = Inr True"
proof -
  have "\<exists>r. request_message sample_crates ''read_asset'' JNull [7] [7] = Inr r"
    by (simp add: request_message_def message_data_signature_def sample_signature Let_def)
  then obtain r where r: "request_message sample_crates ''read_asset'' JNull [7] [7] = Inr r" by blast
  show ?thesis using signed_request_verifies [OF sample_key_pair r] r by blast
qed

end
