(* ===== verification/Transfers.thy ===== *)
theory Transfers imports Carts Signing begin

text \<open>
  Transferring tickets (\<open>db/src/models/ticket_instances.rs\<close>): the owner signs an authorization that
  names a fresh transfer key, and whoever presents it before it expires gets the tickets.
\<close>

section \<open>Operations\<close>

record transfer_authorization =
  ta_transfer_key :: uuid
  ta_sender_user_id :: uuid
  ta_num_tickets :: u32
  ta_signature :: string

fun decimal :: "nat \<Rightarrow> string" where
  "decimal n = (if n < 10 then [''0123456789'' ! n] else decimal (n div 10) @ [''0123456789'' ! (n mod 10)])"

declare decimal.simps [simp del]

definition authorization_message :: "uuid \<Rightarrow> uuid \<Rightarrow> u32 \<Rightarrow> string" where
  "authorization_message transfer_key user_id num_tickets =
     uuid_to_string transfer_key @ uuid_to_string user_id @ decimal (unat num_tickets)"

text \<open>The loop over the requested tickets: each must be among the user's tickets and purchased. It
  collects the tickets' identifiers with their last updates, and the wallet of the last one.\<close>

fun find_purchased ::
  "ticket_instance list \<Rightarrow> uuid list \<Rightarrow> (uuid \<times> timestamp) list \<Rightarrow> uuid \<Rightarrow>
   ((uuid \<times> timestamp) list \<times> uuid) option"
where
  "find_purchased tickets [] found wallet_id = Some (found, wallet_id)"
| "find_purchased tickets (ti # ticket_ids) found wallet_id =
     (case find (\<lambda>t. ti_id t = ti \<and> ti_status t = ticket_instance_status.Purchased) tickets of
        Some t \<Rightarrow> find_purchased tickets ticket_ids (found @ [(ti, ti_updated_at t)]) (ti_wallet_id t)
      | None \<Rightarrow> None)"

text \<open>Updating the tickets one by one if they have not changed since they were read, and logging
  each, changed or not; the result counts the rows changed.\<close>

definition update_ticket_and_log ::
  "(ticket_instance \<Rightarrow> bool) \<Rightarrow> (timestamp \<Rightarrow> ticket_instance \<Rightarrow> ticket_instance) \<Rightarrow>
   (uuid \<Rightarrow> new_domain_event) \<Rightarrow> uuid \<times> timestamp \<Rightarrow> nat \<Rightarrow> nat dbop"
where
  "update_ticket_and_log cond change event = (\<lambda>(t_id, t_updated_at) update_count.
     bindo (gets now) (\<lambda>n.
     bindo (execute_update db_ticket_instances (\<lambda>rs s. s\<lparr>db_ticket_instances := rs\<rparr>)
       (\<lambda>t. ti_id t = t_id \<and> ti_updated_at t = t_updated_at \<and> cond t) (change n)) (\<lambda>k.
     bindo (domain_event_commit (event t_id)) (\<lambda>_. ret (update_count + k)))))"

definition update_and_log ::
  "(ticket_instance \<Rightarrow> bool) \<Rightarrow> (timestamp \<Rightarrow> ticket_instance \<Rightarrow> ticket_instance) \<Rightarrow>
   (uuid \<Rightarrow> new_domain_event) \<Rightarrow> (uuid \<times> timestamp) list \<Rightarrow> nat dbop"
where
  "update_and_log cond change event found =
     fold_op (update_ticket_and_log cond change event) found 0"

definition authorize_ticket_transfer ::
  "crates \<Rightarrow> uuid \<Rightarrow> uuid list \<Rightarrow> u32 \<Rightarrow> transfer_authorization dbop"
where
  "authorize_ticket_transfer c user_id ticket_ids validity_period_in_seconds =
     bindo (find_tickets_for_user user_id) (\<lambda>tickets.
     case (if length tickets = 0 then None else find_purchased tickets ticket_ids [] uuid_nil) of
       None \<Rightarrow> business_process_error ''User does not own all requested tickets''
     | Some (found, wallet_id) \<Rightarrow>
         bindo draw_uuid (\<lambda>transfer_key.
         bindo (gets utc_now) (\<lambda>utc.
         let transfer_expiry_date = utc + seconds (as_i64 validity_period_in_seconds) in
         bindo (update_and_log (\<lambda>t. ti_wallet_id t = wallet_id)
           (\<lambda>n t. t\<lparr>ti_transfer_key := Some transfer_key,
              ti_transfer_expiry_date := Some transfer_expiry_date, ti_updated_at := n\<rparr>)
           (\<lambda>t_id. domain_event_create TransferTicketStarted ''Transfer ticket started''
              TicketInstances (Some t_id) (Some user_id) None) found) (\<lambda>update_count.
         if update_count \<noteq> length ticket_ids
         then fail (database_error_new UpdateError (Some (Text ''Could not update ticket instances'')))
         else
           bindo (find_default_for_user user_id) (\<lambda>wallet.
           let num_tickets = of_nat (length ticket_ids);
               message = authorization_message transfer_key user_id num_tickets in
           case cryptographic_signature c message (convert_hexstring_to_bytes c (w_secret_key wallet)) of
             Inl e \<Rightarrow> fail (from_tari_error e)
           | Inr sig \<Rightarrow> ret \<lparr>ta_transfer_key = transfer_key, ta_sender_user_id = user_id,
               ta_num_tickets = num_tickets, ta_signature = convert_bytes_to_hexstring c sig\<rparr>)))))"

definition receive_ticket_transfer ::
  "crates \<Rightarrow> transfer_authorization \<Rightarrow> wallet \<Rightarrow> uuid \<Rightarrow> ticket_instance list dbop"
where
  "receive_ticket_transfer c transfer_authorization sender_wallet receiver_wallet_id =
     (let header = authorization_message (ta_transfer_key transfer_authorization)
        (ta_sender_user_id transfer_authorization) (ta_num_tickets transfer_authorization) in
      if \<not> cryptographic_verify c (convert_hexstring_to_bytes c (ta_signature transfer_authorization)) header
           (convert_hexstring_to_bytes c (w_public_key sender_wallet))
      then fail (database_error_new InternalError (Some (Text ''ECDSA Signature is not valid'')))
      else
        bindo (gets (\<lambda>s. filter (\<lambda>t. ti_transfer_key t = Some (ta_transfer_key transfer_authorization) \<and>
          (case ti_transfer_expiry_date t of Some e \<Rightarrow> e > now s | None \<Rightarrow> False)) (db_ticket_instances s)))
          (\<lambda>tickets.
        if list_ex (\<lambda>t. ti_wallet_id t \<noteq> w_id sender_wallet) tickets \<or>
          length tickets \<noteq> unat (ta_num_tickets transfer_authorization)
        then business_process_error ''These tickets have already been transferred.''
        else
          bindo (update_and_log (\<lambda>_. True)
            (\<lambda>n t. t\<lparr>ti_transfer_key := None, ti_transfer_expiry_date := None,
               ti_wallet_id := receiver_wallet_id, ti_updated_at := n\<rparr>)
            (\<lambda>t_id. domain_event_create TransferTicketStarted ''Transfer ticket completed''
               TicketInstances (Some t_id) None
               (Some (JObject [(''receiver_wallet_id'', JUuid receiver_wallet_id)])))
            (map (\<lambda>t. (ti_id t, ti_updated_at t)) tickets)) (\<lambda>update_count.
          if update_count \<noteq> unat (ta_num_tickets transfer_authorization)
          then fail (database_error_new UpdateError (Some (Text ''Could not update ticket instances'')))
          else ret tickets)))"

section \<open>The loop over the tickets\<close>

lemma domain_event_commit_writes:
  "\<exists>e v. domain_event_commit d s = (Inr e, v) \<and> writes {DomainEventsT} s v"
proof -
  obtain e v where run: "domain_event_commit d s = (Inr e, v)"
    using domain_event_commit_run [of d s] by blast
  have "steps (writes {DomainEventsT}) (domain_event_commit d)" by (auto intro!: footprints)
  from stepsD_run [OF this run] run show ?thesis by blast
qed

lemma unchanged_row:
  assumes "distinct (map ti_id ts)" and "x \<in> set ts" and "ti_id x = i" and "ti_updated_at x = u" and "cond x"
  shows "filter (\<lambda>t. ti_id t = i \<and> ti_updated_at t = u \<and> cond t) ts = [x] \<and>
    update_where (\<lambda>t. ti_id t = i \<and> ti_updated_at t = u \<and> cond t) f ts = update_where (\<lambda>t. ti_id t = i) f ts"
proof -
  have only: "(ti_id t = i \<and> ti_updated_at t = u \<and> cond t) = (ti_id t = i)" if "t \<in> set ts" for t
    using same_row [OF assms(1) that assms(2)] assms(3-5) by auto
  then have "filter (\<lambda>t. ti_id t = i \<and> ti_updated_at t = u \<and> cond t) ts = filter (\<lambda>t. ti_id t = i) ts"
    by (intro filter_cong) simp_all
  moreover have "filter (\<lambda>t. ti_id t = i) ts = [x]"
    using assms(1-3) by (induction ts) (auto simp: filter_empty_conv image_iff)
  ultimately show ?thesis using only by (simp add: update_where_def)
qed

text \<open>If every ticket is still as it was read, all of them change and nothing else does.\<close>

lemma update_and_log_all:
  assumes "distinct (map fst found)" and "distinct (map ti_id (db_ticket_instances s))"
    and "\<And>n t. ti_id (change n t) = ti_id t"
    and "\<And>i u. (i, u) \<in> set found \<Longrightarrow>
      \<exists>x \<in> set (db_ticket_instances s). ti_id x = i \<and> ti_updated_at x = u \<and> cond x"
  shows "\<exists>v. update_and_log cond change event found s = (Inr (length found), v) \<and>
    db_ticket_instances v = update_where (\<lambda>t. ti_id t \<in> fst ` set found) (change (now s)) (db_ticket_instances s) \<and>
    writes {TicketInstancesT, DomainEventsT} s v"
proof -
  have "\<exists>v. fold_op (update_ticket_and_log cond change event) found c s =
      (Inr (c + length found), v) \<and>
    db_ticket_instances v = update_where (\<lambda>t. ti_id t \<in> fst ` set found) (change (now s)) (db_ticket_instances s) \<and>
    writes {TicketInstancesT, DomainEventsT} s v" for c
    using assms
  proof (induction found arbitrary: s c)
    case Nil
    then show ?case by (simp add: ret_run update_where_def footprint.step_refl)
  next
    case (Cons p found)
    obtain i u where p: "p = (i, u)" by (cases p)
    let ?ts = "db_ticket_instances s"
    let ?f = "change (now s)"
    obtain x where x: "x \<in> set ?ts" "ti_id x = i" "ti_updated_at x = u" "cond x"
      using Cons.prems(4) [of i u] by (auto simp: p)
    note row = unchanged_row [where cond = cond, OF Cons.prems(2) x]
    let ?s1 = "s\<lparr>db_ticket_instances := update_where (\<lambda>t. ti_id t = i) ?f ?ts\<rparr>"
    obtain e s2 where log: "domain_event_commit (event i) ?s1 = (Inr e, s2)" and w: "writes {DomainEventsT} ?s1 s2"
      using domain_event_commit_writes [of "event i" ?s1] by blast
    have s2: "db_ticket_instances s2 = update_where (\<lambda>t. ti_id t = i) ?f ?ts" "now s2 = now s"
      using writes_same [OF w, of TicketInstancesT] writes_environment [OF w] by simp_all
    have "writes {TicketInstancesT, DomainEventsT} s ?s1" by (auto intro!: footprints)
    then have ws2: "writes {TicketInstancesT, DomainEventsT} s s2"
      using footprint.step_trans writes_mono [OF w, of "{TicketInstancesT, DomainEventsT}"] by blast
    have "map ti_id (db_ticket_instances s2) = map ti_id ?ts"
      unfolding s2 by (rule map_update_where) (simp add: Cons.prems(3))
    moreover have "\<exists>y \<in> set (db_ticket_instances s2). ti_id y = j \<and> ti_updated_at y = w \<and> cond y"
      if jw: "(j, w) \<in> set found" for j w
    proof -
      have "j \<noteq> i" using Cons.prems(1) jw by (force simp: p)
      moreover obtain y where "y \<in> set ?ts" "ti_id y = j" "ti_updated_at y = w" "cond y"
        using Cons.prems(4) [of j w] jw by auto
      ultimately show ?thesis by (intro bexI [of _ y]) (auto simp: s2 set_update_where)
    qed
    ultimately obtain v where run: "fold_op (update_ticket_and_log cond change event) found (c + 1) s2 =
        (Inr (c + 1 + length found), v)"
      and v: "db_ticket_instances v = update_where (\<lambda>t. ti_id t \<in> fst ` set found) (change (now s2)) (db_ticket_instances s2)"
        "writes {TicketInstancesT, DomainEventsT} s2 v"
      using Cons.IH [of s2 "c + 1"] Cons.prems(1-3) by auto
    have "db_ticket_instances v = update_where (\<lambda>t. ti_id t \<in> fst ` set (p # found)) ?f ?ts"
      unfolding v(1) s2 using Cons.prems(1,3) by (auto simp: p update_where_def)
    moreover have "writes {TicketInstancesT, DomainEventsT} s v"
      using footprint.step_trans [OF ws2 v(2)] .
    ultimately show ?case using run log row
      by (simp add: p update_ticket_and_log_def bindo_run ret_run)
  qed
  from this [of 0] show ?thesis by (simp add: update_and_log_def)
qed

text \<open>What the ownership loop finds.\<close>

lemma find_purchased_Some:
  assumes "find_purchased tickets ticket_ids acc w0 = Some (found, w)"
  shows "\<exists>more. found = acc @ more \<and> map fst more = ticket_ids \<and>
    (\<forall>(i, u) \<in> set more. \<exists>x \<in> set tickets. ti_id x = i \<and> ti_updated_at x = u \<and>
       ti_status x = ticket_instance_status.Purchased) \<and>
    (ticket_ids = [] \<or> (\<exists>x \<in> set tickets. ti_id x \<in> set ticket_ids \<and> w = ti_wallet_id x))"
  using assms
proof (induction ticket_ids arbitrary: acc w0)
  case Nil
  then show ?case by simp
next
  case (Cons i ids)
  then obtain x where x: "find (\<lambda>t. ti_id t = i \<and> ti_status t = ticket_instance_status.Purchased) tickets = Some x"
    and rest: "find_purchased tickets ids (acc @ [(i, ti_updated_at x)]) (ti_wallet_id x) = Some (found, w)"
    by (auto split: option.splits)
  note row = find_SomeD [OF x]
  from Cons.IH [OF rest] obtain more where more: "found = (acc @ [(i, ti_updated_at x)]) @ more"
    "map fst more = ids" "\<forall>(i, u) \<in> set more. \<exists>x \<in> set tickets. ti_id x = i \<and> ti_updated_at x = u \<and>
       ti_status x = ticket_instance_status.Purchased"
    and last: "ids = [] \<or> (\<exists>x \<in> set tickets. ti_id x \<in> set ids \<and> w = ti_wallet_id x)" by blast
  have "\<exists>x \<in> set tickets. ti_id x \<in> set (i # ids) \<and> w = ti_wallet_id x"
  proof (cases "ids = []")
    case True
    then have "w = ti_wallet_id x" using rest by simp
    then show ?thesis using row by (intro bexI [of _ x]) simp_all
  qed (use last in auto)
  then show ?case using more row by (intro exI [of _ "(i, ti_updated_at x) # more"]) auto
qed

text \<open>The wallet the code signs with, when the user has one.\<close>

definition default_wallet :: "db \<Rightarrow> uuid \<Rightarrow> wallet option" where
  "default_wallet s user_id =
     (case filter (\<lambda>w. w_user_id w = Some user_id) (db_wallets s) of
        [] \<Rightarrow> None | w # ws \<Rightarrow> Some (default_or_first w ws))"

lemma find_default_for_user_run:
  "default_wallet s user_id = Some w \<Longrightarrow> find_default_for_user user_id s = (Inr w, s)"
  by (auto simp: default_wallet_def find_default_for_user_def find_wallets_for_user_def bindo_run ret_run
    split: list.splits)

section \<open>What authorizing and receiving do\<close>

definition marked :: "uuid \<Rightarrow> timestamp \<Rightarrow> timestamp \<Rightarrow> ticket_instance \<Rightarrow> ticket_instance" where
  "marked k e n x = x\<lparr>ti_transfer_key := Some k, ti_transfer_expiry_date := Some e, ti_updated_at := n\<rparr>"

definition handed_over :: "uuid \<Rightarrow> timestamp \<Rightarrow> ticket_instance \<Rightarrow> ticket_instance" where
  "handed_over r n x =
     x\<lparr>ti_transfer_key := None, ti_transfer_expiry_date := None, ti_wallet_id := r, ti_updated_at := n\<rparr>"

lemma authorize_Inr:
  assumes run: "authorize_ticket_transfer c user_id ids period s = (Inr a, t)"
    and ids: "distinct ids" and rows: "ticket_ids_distinct s" and wallet: "default_wallet s user_id = Some w"
    and owned: "\<And>x. x \<in> set (db_ticket_instances s) \<Longrightarrow> ti_id x \<in> set ids \<Longrightarrow> ti_wallet_id x = w_id w"
  obtains sig where "set ids \<subseteq> ti_id ` set (db_ticket_instances s)"
    and "db_ticket_instances t = update_where (\<lambda>x. ti_id x \<in> set ids)
      (marked (ta_transfer_key a) (utc_now s + seconds (as_i64 period)) (now s)) (db_ticket_instances s)"
    and "a = \<lparr>ta_transfer_key = uuid_source s (uuids_drawn s), ta_sender_user_id = user_id,
      ta_num_tickets = of_nat (length ids), ta_signature = convert_bytes_to_hexstring c sig\<rparr>"
    and "cryptographic_signature c (authorization_message (ta_transfer_key a) user_id (ta_num_tickets a))
      (convert_hexstring_to_bytes c (w_secret_key w)) = Inr sig"
    and "now t = now s"
proof -
  define tickets where "tickets = filter (\<lambda>t. list_ex (\<lambda>w. w_id w = ti_wallet_id t \<and> w_user_id w = Some user_id) (db_wallets s))
    (db_ticket_instances s)"
  let ?k = "uuid_source s (uuids_drawn s)"
  let ?e = "utc_now s + seconds (as_i64 period)"
  let ?s1 = "s\<lparr>uuids_drawn := Suc (uuids_drawn s)\<rparr>"
  let ?event = "\<lambda>i. domain_event_create TransferTicketStarted ''Transfer ticket started''
    TicketInstances (Some i) (Some user_id) None"
  have find: "find_tickets_for_user user_id s = (Inr tickets, s)"
    by (simp add: find_tickets_for_user_def tickets_def)
  with run obtain found wid where found: "find_purchased tickets ids [] uuid_nil = Some (found, wid)"
    and some: "tickets \<noteq> []"
    by (auto simp: authorize_ticket_transfer_def bindo_run error_op_run split: option.splits if_splits)
  obtain more where "found = [] @ more" and fst_more: "map fst more = ids"
    and more: "\<forall>(i, u) \<in> set more. \<exists>x \<in> set tickets. ti_id x = i \<and> ti_updated_at x = u \<and>
       ti_status x = ticket_instance_status.Purchased"
    and last: "ids = [] \<or> (\<exists>x \<in> set tickets. ti_id x \<in> set ids \<and> wid = ti_wallet_id x)"
    using find_purchased_Some [OF found] by blast
  then have fst_found: "map fst found = ids" by simp
  have read: "\<exists>x \<in> set (db_ticket_instances s). ti_id x = i \<and> ti_updated_at x = u"
    if "(i, u) \<in> set found" for i u
    using bspec [OF more, of "(i, u)"] that \<open>found = [] @ more\<close> by (auto simp: tickets_def)
  have wid: "found = [] \<or> wid = w_id w"
    using last owned fst_found by (auto simp: tickets_def)
  have all: "\<exists>x \<in> set (db_ticket_instances ?s1). ti_id x = i \<and> ti_updated_at x = u \<and> ti_wallet_id x = wid"
    if iu: "(i, u) \<in> set found" for i u
  proof -
    obtain x where x: "x \<in> set (db_ticket_instances s)" "ti_id x = i" "ti_updated_at x = u"
      using read [OF iu] by blast
    moreover have "i \<in> set ids" using iu fst_found by force
    ultimately have "ti_wallet_id x = wid" using owned [of x] wid iu by auto
    then show ?thesis using x by auto
  qed
  obtain v where loop: "update_and_log (\<lambda>t. ti_wallet_id t = wid)
      (\<lambda>n t. t\<lparr>ti_transfer_key := Some ?k, ti_transfer_expiry_date := Some ?e, ti_updated_at := n\<rparr>) ?event found ?s1 =
      (Inr (length found), v)"
    and v: "db_ticket_instances v = update_where (\<lambda>x. ti_id x \<in> fst ` set found)
      (marked ?k ?e (now s)) (db_ticket_instances s)"
    and w: "writes {TicketInstancesT, DomainEventsT} ?s1 v"
    using update_and_log_all [of found ?s1 "\<lambda>n t. t\<lparr>ti_transfer_key := Some ?k, ti_transfer_expiry_date := Some ?e,
      ti_updated_at := n\<rparr>" "\<lambda>t. ti_wallet_id t = wid" ?event] ids rows all fst_found
    by (auto simp: marked_def [abs_def])
  have "default_wallet v user_id = Some w"
    using wallet writes_same [OF w, of WalletsT] by (simp add: default_wallet_def)
  note signer = find_default_for_user_run [OF this]
  have count: "length found = length ids" and names: "fst ` set found = set ids"
    using fst_found by (metis length_map, metis list.set_map)
  have "authorize_ticket_transfer c user_id ids period s =
      (case cryptographic_signature c (authorization_message ?k user_id (of_nat (length ids)))
              (convert_hexstring_to_bytes c (w_secret_key w)) of
         Inl e \<Rightarrow> fail (from_tari_error e)
       | Inr sig \<Rightarrow> ret \<lparr>ta_transfer_key = ?k, ta_sender_user_id = user_id,
           ta_num_tickets = of_nat (length ids), ta_signature = convert_bytes_to_hexstring c sig\<rparr>) v"
    unfolding authorize_ticket_transfer_def bindo_run [of "find_tickets_for_user user_id"] find
    by (simp add: found some bindo_run loop signer count Let_def)
  with run obtain sig where "cryptographic_signature c (authorization_message ?k user_id (of_nat (length ids)))
      (convert_hexstring_to_bytes c (w_secret_key w)) = Inr sig"
    and "a = \<lparr>ta_transfer_key = ?k, ta_sender_user_id = user_id, ta_num_tickets = of_nat (length ids),
      ta_signature = convert_bytes_to_hexstring c sig\<rparr>" and "t = v"
    by (auto simp: ret_run fail_run split: sum.splits)
  moreover have "set ids \<subseteq> ti_id ` set (db_ticket_instances s)"
    using read names by (force simp: image_iff)
  ultimately show thesis using that v names writes_environment(1) [OF w] by auto
qed

lemma receive_run:
  assumes verified: "cryptographic_verify c (convert_hexstring_to_bytes c (ta_signature a))
      (authorization_message (ta_transfer_key a) (ta_sender_user_id a) (ta_num_tickets a))
      (convert_hexstring_to_bytes c (w_public_key w))"
    and rows: "ticket_ids_distinct s"
    and tickets: "filter (\<lambda>t. ti_transfer_key t = Some (ta_transfer_key a) \<and>
      (case ti_transfer_expiry_date t of Some e \<Rightarrow> e > now s | None \<Rightarrow> False)) (db_ticket_instances s) = ts"
  shows "list_ex (\<lambda>t. ti_wallet_id t \<noteq> w_id w) ts \<or> length ts \<noteq> unat (ta_num_tickets a) \<Longrightarrow>
      receive_ticket_transfer c a w r s = (Inl (database_error_new BusinessProcessError
        (Some (Text ''These tickets have already been transferred.''))), s)"
    and "\<not> list_ex (\<lambda>t. ti_wallet_id t \<noteq> w_id w) ts \<Longrightarrow> length ts = unat (ta_num_tickets a) \<Longrightarrow>
      \<exists>v. receive_ticket_transfer c a w r s = (Inr ts, v) \<and> now v = now s \<and>
        db_ticket_instances v = update_where (\<lambda>x. ti_id x \<in> ti_id ` set ts) (handed_over r (now s))
          (db_ticket_instances s)"
proof -
  have head: "receive_ticket_transfer c a w r s = (
     if list_ex (\<lambda>t. ti_wallet_id t \<noteq> w_id w) ts \<or> length ts \<noteq> unat (ta_num_tickets a)
     then business_process_error ''These tickets have already been transferred.''
     else bindo (update_and_log (\<lambda>_. True)
            (\<lambda>n t. t\<lparr>ti_transfer_key := None, ti_transfer_expiry_date := None, ti_wallet_id := r, ti_updated_at := n\<rparr>)
            (\<lambda>t_id. domain_event_create TransferTicketStarted ''Transfer ticket completed''
               TicketInstances (Some t_id) None (Some (JObject [(''receiver_wallet_id'', JUuid r)])))
            (map (\<lambda>t. (ti_id t, ti_updated_at t)) ts)) (\<lambda>update_count.
          if update_count \<noteq> unat (ta_num_tickets a)
          then fail (database_error_new UpdateError (Some (Text ''Could not update ticket instances'')))
          else ret ts)) s"
    by (simp only: receive_ticket_transfer_def Let_def verified not_True_eq_False if_False bindo_gets tickets)
  show "receive_ticket_transfer c a w r s = (Inl (database_error_new BusinessProcessError
        (Some (Text ''These tickets have already been transferred.''))), s)"
    if "list_ex (\<lambda>t. ti_wallet_id t \<noteq> w_id w) ts \<or> length ts \<noteq> unat (ta_num_tickets a)"
    using that unfolding head by (auto simp: error_op_run)
  assume ok: "\<not> list_ex (\<lambda>t. ti_wallet_id t \<noteq> w_id w) ts" "length ts = unat (ta_num_tickets a)"
  let ?found = "map (\<lambda>t. (ti_id t, ti_updated_at t)) ts"
  have "distinct (map ti_id ts)" using rows unfolding tickets [symmetric] by (rule distinct_map_filter)
  then have "distinct (map fst ?found)" by (simp add: comp_def)
  moreover have "\<exists>x \<in> set (db_ticket_instances s). ti_id x = i \<and> ti_updated_at x = u \<and> True"
    if "(i, u) \<in> set ?found" for i u
    using that unfolding tickets [symmetric] by auto
  moreover have "fst ` set ?found = ti_id ` set ts" by force
  ultimately show "\<exists>v. receive_ticket_transfer c a w r s = (Inr ts, v) \<and> now v = now s \<and>
        db_ticket_instances v = update_where (\<lambda>x. ti_id x \<in> ti_id ` set ts) (handed_over r (now s))
          (db_ticket_instances s)"
    using update_and_log_all [of ?found s "\<lambda>n t. t\<lparr>ti_transfer_key := None, ti_transfer_expiry_date := None,
      ti_wallet_id := r, ti_updated_at := n\<rparr>" "\<lambda>_. True" "\<lambda>t_id. domain_event_create TransferTicketStarted
        ''Transfer ticket completed'' TicketInstances (Some t_id) None
        (Some (JObject [(''receiver_wallet_id'', JUuid r)]))"] rows ok
    unfolding head by (auto simp: bindo_run ret_run handed_over_def [abs_def] dest: writes_environment(1))
qed

section \<open>Properties\<close>

text \<open>C20: a transfer moves exactly the tickets it names, once. If a user authorizes the transfer of
  tickets in the wallet whose keys sign, the transfer key is new, the validity has not passed and the
  tickets are different ones, then whoever presents the authorization gets exactly those tickets: they
  are in the receiver's wallet with no transfer pending, and no other ticket changes. Presenting the
  authorization again, for whatever wallet, is refused and changes nothing.\<close>

theorem transfer_moves_tickets_once:
  assumes run: "authorize_ticket_transfer c user_id ids period s = (Inr a, t)"
    and keys: "key_pair_works c (convert_hexstring_to_bytes c (w_secret_key w))
      (convert_hexstring_to_bytes c (w_public_key w))"
    and ids: "distinct ids" "ids \<noteq> []" "length ids < 2 ^ 32" and rows: "ticket_ids_distinct s"
    and wallet: "default_wallet s user_id = Some w"
    and owned: "\<forall>x \<in> set (db_ticket_instances s). ti_id x \<in> set ids \<longrightarrow> ti_wallet_id x = w_id w"
    and fresh: "\<forall>x \<in> set (db_ticket_instances s). ti_transfer_key x \<noteq> Some (uuid_source s (uuids_drawn s))"
    and valid: "utc_now s + seconds (as_i64 period) > now s"
  shows "\<exists>ts v. receive_ticket_transfer c a w receiver t = (Inr ts, v) \<and>
    length ts = length ids \<and> ti_id ` set ts = set ids \<and>
    db_ticket_instances v =
      update_where (\<lambda>x. ti_id x \<in> set ids) (handed_over receiver (now s)) (db_ticket_instances s) \<and>
    receive_ticket_transfer c a w other v = (Inl (database_error_new BusinessProcessError
      (Some (Text ''These tickets have already been transferred.''))), v)"
proof -
  let ?k = "ta_transfer_key a"
  let ?e = "utc_now s + seconds (as_i64 period)"
  let ?mine = "filter (\<lambda>x. ti_id x \<in> set ids) (db_ticket_instances s)"
  have own: "ti_wallet_id x = w_id w" if "x \<in> set (db_ticket_instances s)" "ti_id x \<in> set ids" for x
    using owned that by blast
  obtain sig where sub: "set ids \<subseteq> ti_id ` set (db_ticket_instances s)"
    and t: "db_ticket_instances t = update_where (\<lambda>x. ti_id x \<in> set ids) (marked ?k ?e (now s)) (db_ticket_instances s)"
    and a: "a = \<lparr>ta_transfer_key = uuid_source s (uuids_drawn s), ta_sender_user_id = user_id,
      ta_num_tickets = of_nat (length ids), ta_signature = convert_bytes_to_hexstring c sig\<rparr>"
    and sig: "cryptographic_signature c (authorization_message ?k user_id (ta_num_tickets a))
      (convert_hexstring_to_bytes c (w_secret_key w)) = Inr sig"
    and now: "now t = now s"
    using authorize_Inr [OF run ids(1) rows wallet own] by blast
  have verified: "cryptographic_verify c (convert_hexstring_to_bytes c (ta_signature a))
      (authorization_message ?k (ta_sender_user_id a) (ta_num_tickets a))
      (convert_hexstring_to_bytes c (w_public_key w))"
    using signature_verifies [OF keys sig] keys by (simp add: a)
  have num: "unat (ta_num_tickets a) = length ids"
    using ids(3) by (simp add: a unsigned_of_nat take_bit_nat_eq_self)
  have mine: "length ?mine = length ids" "ti_id ` set ?mine = set ids"
    using length_rows_of_keys [OF rows ids(1) sub] sub by auto
  have keys_t: "map ti_id (db_ticket_instances t) = map ti_id (db_ticket_instances s)"
    unfolding t by (rule map_update_where) (simp add: marked_def)
  have pending: "filter (\<lambda>x. ti_transfer_key x = Some ?k \<and>
      (case ti_transfer_expiry_date x of Some e \<Rightarrow> e > now t | None \<Rightarrow> False)) (db_ticket_instances t) =
      map (marked ?k ?e (now s)) ?mine"
    unfolding t by (rule filter_updated) (use fresh valid in \<open>auto simp: a now marked_def\<close>)
  have all_mine: "\<not> list_ex (\<lambda>x. ti_wallet_id x \<noteq> w_id w) (map (marked ?k ?e (now s)) ?mine)"
    using own by (auto simp: list_ex_iff marked_def)
  have dist_t: "ticket_ids_distinct t" using rows keys_t by simp
  have len: "length (map (marked ?k ?e (now s)) ?mine) = unat (ta_num_tickets a)" using mine(1) num by simp
  obtain v where recv: "receive_ticket_transfer c a w receiver t = (Inr (map (marked ?k ?e (now s)) ?mine), v)"
    and v: "now v = now s" "db_ticket_instances v = update_where
      (\<lambda>x. ti_id x \<in> ti_id ` set (map (marked ?k ?e (now s)) ?mine)) (handed_over receiver (now s)) (db_ticket_instances t)"
    using receive_run(2) [OF verified dist_t pending all_mine len] unfolding now by blast
  have ids_marked: "ti_id ` set (map (marked ?k ?e (now s)) ?mine) = set ids"
    using mine(2) by (simp add: image_image marked_def)
  have after: "db_ticket_instances v =
      update_where (\<lambda>x. ti_id x \<in> set ids) (handed_over receiver (now s)) (db_ticket_instances s)"
    unfolding v(2) ids_marked unfolding t by (simp add: update_where_def marked_def handed_over_def)
  have "filter (\<lambda>x. ti_transfer_key x = Some ?k \<and>
      (case ti_transfer_expiry_date x of Some e \<Rightarrow> e > now v | None \<Rightarrow> False)) (db_ticket_instances v) = []"
    unfolding after using fresh by (auto simp: filter_empty_conv set_update_where handed_over_def a)
  from receive_run(1) [OF verified _ this] have "receive_ticket_transfer c a w other v =
      (Inl (database_error_new BusinessProcessError (Some (Text ''These tickets have already been transferred.''))), v)"
    using num ids(2) rows unfolding after by (simp add: map_update_where handed_over_def)
  then show ?thesis using recv mine(1) ids_marked after by simp
qed

text \<open>User 5 owns ticket 10 through wallet 1.\<close>

definition sample_transfer :: db where
  "sample_transfer = blank_db\<lparr>db_wallets := [(blank_wallet 1 (Some 5))\<lparr>w_public_key := ''s''\<rparr>],
     db_ticket_instances := [(blank_ticket 10 20)\<lparr>ti_status := ticket_instance_status.Purchased,
       ti_order_item_id := Some 30\<rparr>]\<rparr>"

theorem transfer_moves_tickets_once_witness:
  "\<exists>a t. authorize_ticket_transfer sample_crates 5 [10] 60 sample_transfer = (Inr a, t) \<and>
     (\<exists>ts v. receive_ticket_transfer sample_crates a (hd (db_wallets sample_transfer)) 2 t = (Inr ts, v) \<and>
        map ti_wallet_id (db_ticket_instances v) = [2])"
proof -
  obtain sig where sig: "cryptographic_signature sample_crates (authorization_message 1000 5 1)
      (convert_hexstring_to_bytes sample_crates ''s'') = Inr sig"
    using sample_signature by blast
  have "\<exists>a t. authorize_ticket_transfer sample_crates 5 [10] 60 sample_transfer = (Inr a, t)"
    by (simp add: authorize_ticket_transfer_def find_tickets_for_user_def update_and_log_def
      update_ticket_and_log_def domain_event_commit_def find_default_for_user_def find_wallets_for_user_def
      default_or_first_def sample_transfer_def blank_defs update_where_def bindo_run ret_run Let_def sig)
  then obtain a t where run: "authorize_ticket_transfer sample_crates 5 [10] 60 sample_transfer = (Inr a, t)"
    by blast
  have "utc_now sample_transfer + seconds (as_i64 60) > now sample_transfer"
    by (simp add: sample_transfer_def blank_defs as_i64_def seconds_def)
  moreover have "default_wallet sample_transfer 5 = Some (hd (db_wallets sample_transfer))"
    by (simp add: default_wallet_def sample_transfer_def blank_defs default_or_first_def)
  ultimately show ?thesis
    using transfer_moves_tickets_once [OF run, of "hd (db_wallets sample_transfer)" 2 2] sample_key_pair run
    by (auto simp: sample_transfer_def blank_defs update_where_def handed_over_def)
qed

end
