(* ===== verification/Secrets.thy ===== *)
theory Secrets imports Signing begin

text \<open>
  Passwords and secret columns (\<open>db/src/utils/passwords.rs\<close>, \<open>encryption.rs\<close>, \<open>rand.rs\<close>): hashing and
  checking passwords, encrypting and decrypting the keys of organizations, random texts. The crates
  \<open>argon2rs\<close> and \<open>ring\<close> are the fields of two records, with what the code relies on stated as
  \<open>argon_works\<close> and \<open>ring_works\<close>. Texts are ASCII, one byte per character.
\<close>

section \<open>Random texts\<close>

text \<open>The crate \<open>rand\<close> gives one of 62 letters and digits for a draw.\<close>

record argon =
  argon_default2i :: "string \<Rightarrow> string \<Rightarrow> string"
  argon_to_text :: "string \<Rightarrow> string"
  argon_from_text :: "string \<Rightarrow> string + string"
  argon_verify :: "string \<Rightarrow> string \<Rightarrow> bool"
  alphanumeric :: "nat \<Rightarrow> char"

fun random_alpha_string :: "argon \<Rightarrow> nat \<Rightarrow> string dbop" where
  "random_alpha_string g 0 = ret []"
| "random_alpha_string g (Suc len) =
     bindo (gen_range 62) (\<lambda>i. bindo (random_alpha_string g len) (\<lambda>cs. ret (alphanumeric g i # cs)))"

section \<open>Passwords\<close>

text \<open>A hash in memory is opaque; \<open>argon_to_text\<close> and \<open>argon_from_text\<close> serialise and parse it.\<close>

definition generate_salt :: "argon \<Rightarrow> string dbop" where
  "generate_salt g = random_alpha_string g 32"

definition password_hash_generate :: "argon \<Rightarrow> string \<Rightarrow> string option \<Rightarrow> string dbop" where
  "password_hash_generate g password salt =
     bindo (case salt of Some s \<Rightarrow> ret s | None \<Rightarrow> generate_salt g) (\<lambda>salty.
     ret (argon_default2i g password salty))"

definition password_hash_from_str :: "argon \<Rightarrow> string \<Rightarrow> db_error + string" where
  "password_hash_from_str g hash_str =
     (case argon_from_text g hash_str of
        Inr hash \<Rightarrow> Inr hash
      | Inl e \<Rightarrow> Inl (database_error_new InvalidInput (Some (Text e))))"

definition password_hash_to_string :: "argon \<Rightarrow> string \<Rightarrow> string" where
  "password_hash_to_string g hash = argon_to_text g hash"

definition password_hash_verify :: "argon \<Rightarrow> string \<Rightarrow> string \<Rightarrow> bool" where
  "password_hash_verify g hash pw = argon_verify g hash pw"

definition argon_works :: "argon \<Rightarrow> bool" where
  "argon_works g \<longleftrightarrow> (\<forall>pw salt.
     argon_from_text g (argon_to_text g (argon_default2i g pw salt)) = Inr (argon_default2i g pw salt) \<and>
     argon_verify g (argon_default2i g pw salt) pw)"

lemma random_alpha_string_run:
  "\<exists>cs k. random_alpha_string g n s = (Inr cs, s\<lparr>rng_drawn := k\<rparr>) \<and> length cs = n"
proof (induction n arbitrary: s)
  case 0
  then show ?case by (auto simp: ret_run intro: exI [of _ "rng_drawn s"])
next
  case (Suc n)
  show ?case
    using Suc.IH [of "s\<lparr>rng_drawn := Suc (rng_drawn s)\<rparr>"] by (auto simp: bindo_run ret_run)
qed

lemma password_hash_generate_run:
  "\<exists>salt k. password_hash_generate g pw None s = (Inr (argon_default2i g pw salt), s\<lparr>rng_drawn := k\<rparr>)"
  using random_alpha_string_run [of g 32 s]
  by (auto simp: password_hash_generate_def generate_salt_def bindo_run ret_run)

section \<open>Encryption\<close>

definition bytes_of_text :: "string \<Rightarrow> byte list" where
  "bytes_of_text t = map (\<lambda>ch. of_nat (of_char ch)) t"

definition text_of_bytes :: "byte list \<Rightarrow> string option" where
  "text_of_bytes bs =
     (if list_all (\<lambda>b. unat b < 128) bs then Some (map (\<lambda>b. char_of (unat b)) bs) else None)"

record ring =
  ring_key :: "byte list \<Rightarrow> byte list option"
  ring_fill :: "nat \<Rightarrow> nat \<Rightarrow> byte list option"
  ring_tag_len :: nat
  ring_seal :: "byte list \<Rightarrow> byte list \<Rightarrow> byte list \<Rightarrow> byte list option"
  ring_open :: "byte list \<Rightarrow> byte list \<Rightarrow> byte list \<Rightarrow> byte list option"

definition encryption_error :: db_error where
  "encryption_error = database_error_new InternalError (Some (Text ''Encryption error''))"

definition encryption_key_bytes :: "string \<Rightarrow> byte list" where
  "encryption_key_bytes encryption_key =
     (let key = take 32 (bytes_of_text encryption_key) in key @ replicate (32 - length key) 0)"

text \<open>\<open>ring\<close> fills the nonce from the system's source of random bytes; which bytes, a draw decides.\<close>

definition ring_result :: "'a option \<Rightarrow> ('s, db_error, 'a) op" where
  "ring_result r = (case r of Some x \<Rightarrow> ret x | None \<Rightarrow> fail encryption_error)"

definition encrypt :: "crates \<Rightarrow> ring \<Rightarrow> string \<Rightarrow> string \<Rightarrow> string dbop" where
  "encrypt c r plaintext encryption_key =
     (let key = encryption_key_bytes encryption_key in
      bindo (ring_result (ring_key r key)) (\<lambda>sealing_key.
      bindo (gen_range (2 ^ 96)) (\<lambda>draw.
      bindo (ring_result (ring_fill r draw 12)) (\<lambda>nonce.
      let in_out = bytes_of_text plaintext @ replicate (ring_tag_len r) 0 in
      bindo (ring_result (ring_seal r sealing_key nonce in_out)) (\<lambda>in_out.
      ret (hex_encode c nonce @ hex_encode c in_out))))))"

text \<open>The code unwraps the result of opening, so a text that was not sealed with this key panics the
  thread: that end is \<open>None\<close>.\<close>

definition decrypt :: "crates \<Rightarrow> ring \<Rightarrow> string \<Rightarrow> string \<Rightarrow> (db_error + string) option" where
  "decrypt c r ciphertext encryption_key =
     (let cannot = database_error_new InternalError (Some (Text ''Cannot decrypt data'')) in
      case ring_key r (encryption_key_bytes encryption_key) of
        None \<Rightarrow> Some (Inl encryption_error)
      | Some opening_key \<Rightarrow>
          if length ciphertext < 24 then Some (Inl cannot)
          else
            (case (hex_decode c (take 24 ciphertext), hex_decode c (drop 24 ciphertext)) of
               (Some nonce, Some data) \<Rightarrow>
                 (case ring_open r opening_key nonce data of
                    None \<Rightarrow> None
                  | Some decrypted_data \<Rightarrow>
                      (case text_of_bytes decrypted_data of
                         None \<Rightarrow> Some (Inl cannot)
                       | Some plaintext \<Rightarrow> Some (Inr plaintext)))
             | _ \<Rightarrow> Some (Inl cannot)))"

definition ring_works :: "crates \<Rightarrow> ring \<Rightarrow> bool" where
  "ring_works c r \<longleftrightarrow>
     (\<forall>bs. hex_decode c (hex_encode c bs) = Some bs \<and> length (hex_encode c bs) = 2 * length bs) \<and>
     (\<forall>draw n bs. ring_fill r draw n = Some bs \<longrightarrow> length bs = n) \<and>
     (\<forall>key nonce plain data. ring_seal r key nonce (plain @ replicate (ring_tag_len r) 0) = Some data \<longrightarrow>
        ring_open r key nonce data = Some plain)"

definition ascii_text :: "string \<Rightarrow> bool" where
  "ascii_text t \<longleftrightarrow> list_all (\<lambda>ch. (of_char ch :: nat) < 128) t"

lemma text_bytes_text:
  assumes "ascii_text t"
  shows "text_of_bytes (bytes_of_text t) = Some t"
proof -
  have byte: "unat (of_nat (of_char ch) :: byte) = of_char ch" for ch
    by (simp add: unsigned_of_nat take_bit_nat_eq_self)
  show ?thesis
    using assms by (simp add: text_of_bytes_def bytes_of_text_def ascii_text_def list_all_iff byte comp_def)
qed

lemma ring_result_Inr_iff [simp]: "ring_result x s = (Inr y, t) \<longleftrightarrow> x = Some y \<and> t = s"
  by (auto simp: ring_result_def ret_run fail_run split: option.splits)

lemma ring_result_state [simp]: "snd (ring_result x s) = s"
  by (simp add: ring_result_def ret_run fail_run split: option.splits)

lemma encrypt_Inr:
  assumes "ring_works c r" and "encrypt c r plaintext key s = (Inr cipher, t)" and "ascii_text plaintext"
  shows "decrypt c r cipher key = Some (Inr plaintext) \<and> t = s\<lparr>rng_drawn := Suc (rng_drawn s)\<rparr>"
proof -
  from assms(2) obtain k nonce data where
    k: "ring_key r (encryption_key_bytes key) = Some k" and
    nonce: "ring_fill r (rng_source s (rng_drawn s) (2 ^ 96)) 12 = Some nonce" and
    data: "ring_seal r k nonce (bytes_of_text plaintext @ replicate (ring_tag_len r) 0) = Some data" and
    cipher: "cipher = hex_encode c nonce @ hex_encode c data" and t: "t = s\<lparr>rng_drawn := Suc (rng_drawn s)\<rparr>"
    by (auto simp: encrypt_def Let_def bindo_Inr_iff ret_run)
  note laws = assms(1) [unfolded ring_works_def]
  have hex: "hex_decode c (hex_encode c bs) = Some bs" "length (hex_encode c bs) = 2 * length bs" for bs
    using laws by simp_all
  have "length nonce = 12" using laws nonce by blast
  moreover have "ring_open r k nonce data = Some (bytes_of_text plaintext)" using laws data by blast
  moreover note hex
  ultimately show ?thesis
    using k assms(3) by (simp add: decrypt_def Let_def cipher t text_bytes_text)
qed

text \<open>Crates for evaluating the model.\<close>

definition sample_argon :: argon where
  "sample_argon = \<lparr>argon_default2i = (\<lambda>pw salt. pw @ salt), argon_to_text = id, argon_from_text = Inr,
     argon_verify = (\<lambda>hash pw. take (length pw) hash = pw), alphanumeric = (\<lambda>_. CHR ''a'')\<rparr>"

lemma sample_argon_works: "argon_works sample_argon"
  by (simp add: argon_works_def sample_argon_def)

end
