(* ===== verification/Users.thy ===== *)
theory Users imports Footprints Secrets begin

text \<open>
  Users (\<open>db/src/models/users.rs\<close>, \<open>concerns/users/password_resetable.rs\<close>) and what hangs on a user:
  external logins (\<open>external_logins.rs\<close>), stored payment methods (\<open>payment_methods.rs\<close>) and the tokens
  of devices (\<open>push_notification_tokens.rs\<close>).
\<close>

section \<open>Rows of users\<close>

definition to_lowercase :: "string \<Rightarrow> string" where
  "to_lowercase s = map ascii_lower s"

record new_user =
  nu_first_name :: "string option"
  nu_last_name :: "string option"
  nu_email :: "string option"
  nu_phone :: "string option"
  nu_hashed_pw :: string
  nu_role :: "roles list"

record display_user =
  du_id :: uuid
  du_first_name :: "string option"
  du_last_name :: "string option"
  du_email :: "string option"
  du_phone :: "string option"
  du_profile_pic_url :: "string option"
  du_thumb_profile_pic_url :: "string option"
  du_cover_photo_url :: "string option"
  du_is_org_owner :: bool

record user_attributes =
  ua_first_name :: "string option option"
  ua_last_name :: "string option option"
  ua_email :: "string option option"
  ua_phone :: "string option option"
  ua_active :: "bool option"
  ua_role :: "roles list option"
  ua_profile_pic_url :: "string option option"
  ua_thumb_profile_pic_url :: "string option option"
  ua_cover_photo_url :: "string option option"

text \<open>The schema: an address belongs to one user.\<close>

definition user_violation :: "db \<Rightarrow> user_row \<Rightarrow> db_error_kind option" where
  "user_violation s u =
     (if u_email u \<noteq> None \<and> list_ex (\<lambda>v. u_id v \<noteq> u_id u \<and> u_email v = u_email u) (db_users s)
      then Some UniqueViolation else None)"

definition user_row_of :: "new_user \<Rightarrow> uuid \<Rightarrow> timestamp \<Rightarrow> user_row" where
  "user_row_of self id' n =
     \<lparr>u_id = id', u_first_name = nu_first_name self, u_last_name = nu_last_name self,
      u_email = nu_email self, u_phone = nu_phone self, u_profile_pic_url = None,
      u_thumb_profile_pic_url = None, u_cover_photo_url = None, u_hashed_pw = nu_hashed_pw self,
      u_password_modified_at = n, u_created_at = n, u_last_used = None, u_active = True,
      u_role = nu_role self, u_password_reset_token = None, u_password_reset_requested_at = None,
      u_updated_at = n, u_last_cart_id = None, u_accepted_terms_date = None, u_invited_at = None\<rparr>"

definition user_commit :: "new_user \<Rightarrow> user_row dbop" where
  "user_commit self =
     bindo (gets (\<lambda>s. validate_email s (nu_email self))) (\<lambda>v.
     bindo (check_validation v) (\<lambda>_.
     bindo draw_uuid (\<lambda>id'.
     bindo (gets now) (\<lambda>n.
     bindo (insert_checked db_users (\<lambda>rs s. s\<lparr>db_users := rs\<rparr>) user_violation (user_row_of self id' n)
       InsertError ''Could not create new user'') (\<lambda>user.
     bindo (create_wallet_for_user (u_id user) ''Default'' True) (\<lambda>_. ret user))))))"

definition user_create ::
  "argon \<Rightarrow> string option \<Rightarrow> string option \<Rightarrow> string option \<Rightarrow> string option \<Rightarrow> string \<Rightarrow> new_user dbop"
where
  "user_create g first_name last_name email phone password =
     bindo (password_hash_generate g password None) (\<lambda>hash.
     ret \<lparr>nu_first_name = first_name, nu_last_name = last_name, nu_email = map_option to_lowercase email,
       nu_phone = phone, nu_hashed_pw = password_hash_to_string g hash, nu_role = [roles.User]\<rparr>)"

definition new_for_invite ::
  "argon \<Rightarrow> string option \<Rightarrow> string option \<Rightarrow> string option \<Rightarrow> new_user dbop"
where
  "new_for_invite g first_name last_name email =
     bindo (random_alpha_string g 16) (\<lambda>rand_password.
       user_create g first_name last_name email None rand_password)"

definition create_stub ::
  "argon \<Rightarrow> string \<Rightarrow> string \<Rightarrow> string option \<Rightarrow> string option \<Rightarrow> user_row dbop"
where
  "create_stub g first_name last_name email phone =
     bindo (password_hash_generate g ''random'' None) (\<lambda>hash.
     user_commit \<lparr>nu_first_name = Some first_name, nu_last_name = Some last_name, nu_email = email,
       nu_phone = phone, nu_hashed_pw = password_hash_to_string g hash, nu_role = [roles.User]\<rparr>)"

definition user_find :: "uuid \<Rightarrow> user_row dbop" where
  "user_find id' = first_where db_users (\<lambda>u. u_id u = id') QueryError ''Error loading user''"

definition find_by_email :: "string \<Rightarrow> user_row dbop" where
  "find_by_email email =
     first_where db_users (\<lambda>u. u_email u = Some (to_lowercase email)) QueryError ''Error loading user''"

definition find_by_phone :: "string \<Rightarrow> user_row dbop" where
  "find_by_phone phone =
     first_where db_users (\<lambda>u. u_phone u = Some phone) QueryError ''Error loading user''"

text \<open>The derived \<open>validate()\<close>: the test of URLs is the validator crate's.\<close>

definition url_check :: "(string \<Rightarrow> bool) \<Rightarrow> string option option \<Rightarrow> string \<Rightarrow> validation_error + unit" where
  "url_check valid_url field message =
     (case field of Some (Some url) \<Rightarrow>
          if valid_url url then Inr () else Inl (create_validation_error ''url'' message)
      | _ \<Rightarrow> Inr ())"

definition user_attributes_validate ::
  "(string \<Rightarrow> bool) \<Rightarrow> db \<Rightarrow> user_attributes \<Rightarrow> validation_errors + unit"
where
  "user_attributes_validate valid_url s attributes =
     append_validation_error
       (append_validation_error
         (append_validation_error
           (validate_email s (case ua_email attributes of Some e \<Rightarrow> e | None \<Rightarrow> None))
           ''profile_pic_url''
           (url_check valid_url (ua_profile_pic_url attributes) ''Profile pic URL is invalid''))
         ''thumb_profile_pic_url''
         (url_check valid_url (ua_thumb_profile_pic_url attributes) ''Thumb profile pic URL is invalid''))
       ''cover_photo_url''
       (url_check valid_url (ua_cover_photo_url attributes) ''Cover photo URL is invalid'')"

definition user_update :: "(string \<Rightarrow> bool) \<Rightarrow> user_row \<Rightarrow> user_attributes \<Rightarrow> user_row dbop" where
  "user_update valid_url self attributes =
     bindo (gets (\<lambda>s. user_attributes_validate valid_url s attributes)) (\<lambda>v.
     bindo (check_validation v) (\<lambda>_.
     let email = map_option (map_option to_lowercase) (ua_email attributes) in
     bindo (gets now) (\<lambda>n.
     update_checked db_users (\<lambda>rs s. s\<lparr>db_users := rs\<rparr>) user_violation (\<lambda>u. u_id u = u_id self)
       (\<lambda>u. u\<lparr>u_first_name := unwrap_or (ua_first_name attributes) (u_first_name u),
          u_last_name := unwrap_or (ua_last_name attributes) (u_last_name u),
          u_email := unwrap_or email (u_email u),
          u_phone := unwrap_or (ua_phone attributes) (u_phone u),
          u_active := unwrap_or (ua_active attributes) (u_active u),
          u_role := unwrap_or (ua_role attributes) (u_role u),
          u_profile_pic_url := unwrap_or (ua_profile_pic_url attributes) (u_profile_pic_url u),
          u_thumb_profile_pic_url :=
            unwrap_or (ua_thumb_profile_pic_url attributes) (u_thumb_profile_pic_url u),
          u_cover_photo_url := unwrap_or (ua_cover_photo_url attributes) (u_cover_photo_url u),
          u_updated_at := n\<rparr>)
       UpdateError ''Error updating user'')))"

definition check_password :: "argon \<Rightarrow> user_row \<Rightarrow> string \<Rightarrow> bool" where
  "check_password g self password =
     (case password_hash_from_str g (u_hashed_pw self) of
        Inr hash \<Rightarrow> password_hash_verify g hash password
      | Inl _ \<Rightarrow> False)"

definition update_user_row ::
  "user_row \<Rightarrow> (user_row \<Rightarrow> user_row) \<Rightarrow> string \<Rightarrow> user_row dbop"
where
  "update_user_row self f message =
     update_first db_users (\<lambda>rs s. s\<lparr>db_users := rs\<rparr>) (\<lambda>u. u_id u = u_id self) f UpdateError message"

definition update_role :: "user_row \<Rightarrow> roles list \<Rightarrow> user_row dbop" where
  "update_role self new_roles =
     bindo (gets now) (\<lambda>n.
     update_user_row self (\<lambda>u. u\<lparr>u_role := new_roles, u_updated_at := n\<rparr>)
       ''Could not update role for user'')"

definition add_role :: "user_row \<Rightarrow> roles \<Rightarrow> user_row dbop" where
  "add_role self r = update_role self (if r \<notin> set (u_role self) then u_role self @ [r] else u_role self)"

definition remove_role :: "user_row \<Rightarrow> roles \<Rightarrow> user_row dbop" where
  "remove_role self r = update_role self (filter (\<lambda>x. x \<noteq> r) (u_role self))"

definition has_role :: "user_row \<Rightarrow> roles \<Rightarrow> bool" where
  "has_role self role \<longleftrightarrow> role \<in> set (u_role self)"

definition is_admin :: "user_row \<Rightarrow> bool" where
  "is_admin self \<longleftrightarrow> has_role self roles.Admin"

definition get_global_scopes :: "user_row \<Rightarrow> scopes list" where
  "get_global_scopes self = get_scopes (u_role self)"

definition full_name :: "user_row \<Rightarrow> string" where
  "full_name self = unwrap_or (u_first_name self) [] @ '' '' @ unwrap_or (u_last_name self) []"

definition display_user_of :: "user_row \<Rightarrow> display_user" where
  "display_user_of user =
     \<lparr>du_id = u_id user, du_first_name = u_first_name user, du_last_name = u_last_name user,
      du_email = u_email user, du_phone = u_phone user, du_profile_pic_url = u_profile_pic_url user,
      du_thumb_profile_pic_url = u_thumb_profile_pic_url user,
      du_cover_photo_url = u_cover_photo_url user, du_is_org_owner = False\<rparr>"

definition user_for_display :: "user_row \<Rightarrow> display_user dbop" where
  "user_for_display self = ret (display_user_of self)"

definition user_wallets :: "user_row \<Rightarrow> wallet list dbop" where
  "user_wallets self = find_wallets_for_user (u_id self)"

section \<open>Resetting a password\<close>

definition password_reset_expiration_period_in_days :: int where
  "password_reset_expiration_period_in_days = 1"

text \<open>Whole days of a duration, towards zero.\<close>

definition num_days :: "int \<Rightarrow> int" where
  "num_days d = (if 0 \<le> d then d div days 1 else - (- d div days 1))"

definition find_by_password_reset_token :: "uuid \<Rightarrow> user_row dbop" where
  "find_by_password_reset_token password_reset_token =
     first_where db_users (\<lambda>u. u_password_reset_token u = Some password_reset_token)
       QueryError ''Error loading user''"

definition has_valid_password_reset_token :: "timestamp \<Rightarrow> user_row \<Rightarrow> bool" where
  "has_valid_password_reset_token utc self =
     (case u_password_reset_requested_at self of
        Some requested_at \<Rightarrow> num_days (utc - requested_at) < password_reset_expiration_period_in_days
      | None \<Rightarrow> False)"

definition create_password_reset_token :: "user_row \<Rightarrow> user_row dbop" where
  "create_password_reset_token self =
     bindo draw_uuid (\<lambda>token.
     bindo (gets utc_now) (\<lambda>utc.
     bindo (gets now) (\<lambda>n.
     update_user_row self (\<lambda>u. u\<lparr>u_password_reset_token := Some token,
         u_password_reset_requested_at := Some utc, u_updated_at := n\<rparr>)
       ''Could not create token for resetting password'')))"

definition consume_password_reset_token :: "argon \<Rightarrow> uuid \<Rightarrow> string \<Rightarrow> user_row dbop" where
  "consume_password_reset_token g token password =
     bindo (find_by_password_reset_token token) (\<lambda>user.
     bindo (gets utc_now) (\<lambda>utc.
     if has_valid_password_reset_token utc user
     then bindo (password_hash_generate g password None) (\<lambda>hash.
       bindo (gets utc_now) (\<lambda>utc.
       bindo (gets now) (\<lambda>n.
       update_user_row user (\<lambda>u. u\<lparr>u_hashed_pw := password_hash_to_string g hash,
           u_password_modified_at := utc, u_updated_at := n, u_password_reset_token := None,
           u_password_reset_requested_at := None\<rparr>)
         ''Could not save new password for user'')))
     else fail (database_error_new InternalError (Some (Text ''Password reset token is expired'')))))"

section \<open>External logins\<close>

definition facebook_site :: string where
  "facebook_site = ''facebook.com''"

record new_external_login =
  nel_user_id :: uuid
  nel_site :: string
  nel_access_token :: string
  nel_external_user_id :: string

definition external_login_violation :: "db \<Rightarrow> external_login \<Rightarrow> db_error_kind option" where
  "external_login_violation s l =
     (if list_ex (\<lambda>m. el_external_user_id m = el_external_user_id l \<and> el_site m = el_site l) (db_external_logins s)
      then Some UniqueViolation
      else if refers (Some (el_user_id l)) u_id (db_users s) then None else Some ForeignKeyViolation)"

definition external_login_create :: "string \<Rightarrow> string \<Rightarrow> uuid \<Rightarrow> string \<Rightarrow> new_external_login" where
  "external_login_create external_user_id site user_id access_token =
     \<lparr>nel_user_id = user_id, nel_site = site, nel_access_token = access_token,
      nel_external_user_id = external_user_id\<rparr>"

definition external_login_commit :: "new_external_login \<Rightarrow> external_login dbop" where
  "external_login_commit self =
     bindo draw_uuid (\<lambda>id'.
     bindo (gets now) (\<lambda>n.
     insert_checked db_external_logins (\<lambda>rs s. s\<lparr>db_external_logins := rs\<rparr>) external_login_violation
       \<lparr>el_id = id', el_user_id = nel_user_id self, el_created_at = n, el_site = nel_site self,
        el_access_token = nel_access_token self, el_external_user_id = nel_external_user_id self,
        el_updated_at = n\<rparr> InsertError ''Could not create new external login''))"

definition find_for_site :: "uuid \<Rightarrow> string \<Rightarrow> external_login option dbop" where
  "find_for_site user_id site = gets (\<lambda>s.
     find (\<lambda>l. el_user_id l = user_id \<and> el_site l = site) (db_external_logins s))"

definition find_login_user :: "string \<Rightarrow> string \<Rightarrow> external_login option dbop" where
  "find_login_user external_user_id site = gets (\<lambda>s.
     find (\<lambda>l. el_external_user_id l = external_user_id \<and> el_site l = site) (db_external_logins s))"

definition find_external_login :: "user_row \<Rightarrow> string \<Rightarrow> external_login option dbop" where
  "find_external_login self site = find_for_site (u_id self) site"

definition add_external_login :: "user_row \<Rightarrow> string \<Rightarrow> string \<Rightarrow> string \<Rightarrow> external_login dbop" where
  "add_external_login self external_user_id site access_token =
     external_login_commit (external_login_create external_user_id site (u_id self) access_token)"

definition create_from_external_login ::
  "argon \<Rightarrow> string \<Rightarrow> string \<Rightarrow> string \<Rightarrow> string \<Rightarrow> string \<Rightarrow> string \<Rightarrow> user_row dbop"
where
  "create_from_external_login g external_user_id first_name last_name email site access_token =
     bindo (random_alpha_string g 16) (\<lambda>rand_password.
     bindo (password_hash_generate g rand_password None) (\<lambda>hash.
     bindo (user_commit \<lparr>nu_first_name = Some first_name, nu_last_name = Some last_name,
         nu_email = Some (to_lowercase email), nu_phone = None,
         nu_hashed_pw = password_hash_to_string g hash, nu_role = [roles.User]\<rparr>) (\<lambda>user.
     bindo (add_external_login user external_user_id site access_token) (\<lambda>_. ret user))))"

section \<open>Payment methods\<close>

record new_payment_method =
  npm_user_id :: uuid
  npm_name :: string
  npm_is_default :: bool
  npm_provider :: string
  npm_provider_data :: json

record payment_method_attributes =
  pma_provider_data :: "json option"

record display_payment_method =
  dpm_name :: string
  dpm_is_default :: bool

definition payment_method_create ::
  "uuid \<Rightarrow> string \<Rightarrow> bool \<Rightarrow> string \<Rightarrow> json \<Rightarrow> new_payment_method"
where
  "payment_method_create user_id name is_default provider data =
     \<lparr>npm_user_id = user_id, npm_name = name, npm_is_default = is_default, npm_provider = provider,
      npm_provider_data = data\<rparr>"

definition payment_method_violation :: "db \<Rightarrow> payment_method \<Rightarrow> db_error_kind option" where
  "payment_method_violation s p =
     (if list_ex (\<lambda>q. pm_id q \<noteq> pm_id p \<and> pm_user_id q = pm_user_id p \<and> pm_name q = pm_name p)
        (db_payment_methods s)
      then Some UniqueViolation
      else if refers (Some (pm_user_id p)) u_id (db_users s) then None else Some ForeignKeyViolation)"

definition payment_method_commit :: "new_payment_method \<Rightarrow> uuid \<Rightarrow> payment_method dbop" where
  "payment_method_commit self current_user_id =
     bindo draw_uuid (\<lambda>id'.
     bindo (gets now) (\<lambda>n.
     bindo (insert_checked db_payment_methods (\<lambda>rs s. s\<lparr>db_payment_methods := rs\<rparr>) payment_method_violation
       \<lparr>pm_id = id', pm_user_id = npm_user_id self, pm_name = npm_name self,
        pm_is_default = npm_is_default self, pm_provider = npm_provider self,
        pm_provider_data = npm_provider_data self, pm_created_at = n, pm_updated_at = n\<rparr>
       InsertError ''Could not create payment method'') (\<lambda>payment_method.
     bindo (domain_event_commit (domain_event_create PaymentMethodCreated ''Payment method was created''
       PaymentMethods (Some (pm_id payment_method)) (Some current_user_id)
       (Some (pm_provider_data payment_method)))) (\<lambda>_. ret payment_method))))"

definition find_default_payment_method :: "uuid \<Rightarrow> payment_method dbop" where
  "find_default_payment_method user_id =
     first_where db_payment_methods (\<lambda>p. pm_user_id p = user_id \<and> pm_is_default p = True)
       QueryError ''Could not load default payment method for user''"

definition find_payment_methods :: "uuid \<Rightarrow> string option \<Rightarrow> payment_method list dbop" where
  "find_payment_methods user_id name = gets (\<lambda>s.
     sort_key (\<lambda>p. collate s (pm_name p)) (filter (\<lambda>p. pm_user_id p = user_id \<and>
       (case name of Some n \<Rightarrow> pm_name p = n | None \<Rightarrow> True)) (db_payment_methods s)))"

definition payment_method_update ::
  "payment_method \<Rightarrow> payment_method_attributes \<Rightarrow> uuid \<Rightarrow> payment_method dbop"
where
  "payment_method_update self attributes current_user_id =
     bindo (domain_event_commit (domain_event_create PaymentMethodUpdated ''Payment method was updated''
       PaymentMethods (Some (pm_id self)) (Some current_user_id) (Some (pm_provider_data self)))) (\<lambda>_.
     bindo (gets now) (\<lambda>n.
     update_first db_payment_methods (\<lambda>rs s. s\<lparr>db_payment_methods := rs\<rparr>) (\<lambda>p. pm_id p = pm_id self)
       (\<lambda>p. p\<lparr>pm_provider_data := unwrap_or (pma_provider_data attributes) (pm_provider_data p),
          pm_updated_at := n\<rparr>)
       UpdateError ''Error updating payment_method''))"

definition display_payment_method_of :: "payment_method \<Rightarrow> display_payment_method" where
  "display_payment_method_of p = \<lparr>dpm_name = pm_name p, dpm_is_default = pm_is_default p\<rparr>"

definition user_payment_methods :: "user_row \<Rightarrow> payment_method list dbop" where
  "user_payment_methods self = find_payment_methods (u_id self) None"

definition default_payment_method :: "user_row \<Rightarrow> payment_method dbop" where
  "default_payment_method self = find_default_payment_method (u_id self)"

definition user_payment_method :: "user_row \<Rightarrow> string \<Rightarrow> payment_method dbop" where
  "user_payment_method self name =
     bindo (find_payment_methods (u_id self) (Some name)) (\<lambda>payment_methods.
     case payment_methods of
       [] \<Rightarrow> fail (database_error_new NoResults (Some (Text ''No payment method found for user'')))
     | p # _ \<Rightarrow> ret p)"

section \<open>Tokens of devices\<close>

record new_push_notification_token =
  npnt_user_id :: uuid
  npnt_token_source :: string
  npnt_token :: string

record display_push_notification_token =
  dpnt_id :: uuid
  dpnt_token_source :: string
  dpnt_token :: string
  dpnt_last_notification_at :: "timestamp option"
  dpnt_created_at :: timestamp

definition push_token_create :: "uuid \<Rightarrow> string \<Rightarrow> string \<Rightarrow> new_push_notification_token" where
  "push_token_create user_id token_source token =
     \<lparr>npnt_user_id = user_id, npnt_token_source = token_source, npnt_token = token\<rparr>"

definition push_token_violation :: "db \<Rightarrow> push_notification_token \<Rightarrow> db_error_kind option" where
  "push_token_violation s t =
     (if refers (Some (pnt_user_id t)) u_id (db_users s) then None else Some ForeignKeyViolation)"

definition push_token_commit :: "new_push_notification_token \<Rightarrow> push_notification_token dbop" where
  "push_token_commit self =
     bindo draw_uuid (\<lambda>id'.
     bindo (gets now) (\<lambda>n.
     insert_checked db_push_notification_tokens (\<lambda>rs s. s\<lparr>db_push_notification_tokens := rs\<rparr>)
       push_token_violation
       \<lparr>pnt_id = id', pnt_user_id = npnt_user_id self, pnt_token_source = npnt_token_source self,
        pnt_token = npnt_token self, pnt_last_notification_at = None, pnt_created_at = n\<rparr>
       InsertError ''Could not create new push_notification_token''))"

definition push_tokens_by_user_id :: "uuid \<Rightarrow> push_notification_token list dbop" where
  "push_tokens_by_user_id user_id = gets (\<lambda>s.
     sort_key pnt_id (filter (\<lambda>t. pnt_user_id t = user_id) (db_push_notification_tokens s)))"

definition push_token_remove :: "uuid \<Rightarrow> uuid \<Rightarrow> nat dbop" where
  "push_token_remove user_id token_id =
     delete_where db_push_notification_tokens (\<lambda>rs s. s\<lparr>db_push_notification_tokens := rs\<rparr>)
       (\<lambda>t. pnt_user_id t = user_id \<and> pnt_id t = token_id)"

definition display_push_token_of :: "push_notification_token \<Rightarrow> display_push_notification_token" where
  "display_push_token_of t =
     \<lparr>dpnt_id = pnt_id t, dpnt_token_source = pnt_token_source t, dpnt_token = pnt_token t,
      dpnt_last_notification_at = pnt_last_notification_at t, dpnt_created_at = pnt_created_at t\<rparr>"

section \<open>A customer's history with an organization\<close>

definition sort_dir :: "sorting_dir \<Rightarrow> ('a \<Rightarrow> int) \<Rightarrow> 'a list \<Rightarrow> 'a list" where
  "sort_dir dir key xs = (case dir of Asc \<Rightarrow> sort_key key xs | Desc \<Rightarrow> sort_key (\<lambda>x. - key x) xs)"

datatype history_item = Purchase (hi_revenue_in_cents: u32) (hi_event_name: string)
  (hi_ticket_sales: u32) (hi_order_id: uuid) (hi_order_date: timestamp)

text \<open>The join of paid order items with their orders and their events of one organization.\<close>

definition sales_of_organization ::
  "db \<Rightarrow> uuid \<Rightarrow> (order_row \<Rightarrow> bool) \<Rightarrow> (order_item \<times> order_row \<times> event_row) list"
where
  "sales_of_organization s organization_id P =
     concat (map (\<lambda>oi. concat (map (\<lambda>ord. map (\<lambda>e. (oi, ord, e))
       (filter (\<lambda>e. oi_event_id oi = Some (e_id e) \<and> e_organization_id e = organization_id) (db_events s)))
       (filter (\<lambda>ord. o_id ord = oi_order_id oi \<and> o_status ord = order_status.Paid \<and> P ord) (db_orders s))))
       (db_order_items s))"

definition tickets_sold :: "(order_item \<times> 'b) list \<Rightarrow> int" where
  "tickets_sold rows = sum_list (map (\<lambda>(oi, _). if oi_item_type oi = order_item_types.Tickets
     then oi_quantity oi - oi_refunded_quantity oi else 0) rows)"

definition revenue_of :: "(order_item \<times> 'b) list \<Rightarrow> int" where
  "revenue_of rows =
     sum_list (map (\<lambda>(oi, _). oi_unit_price_in_cents oi * (oi_quantity oi - oi_refunded_quantity oi)) rows)"

definition get_history_for_organization ::
  "user_row \<Rightarrow> organization \<Rightarrow> u32 \<Rightarrow> u32 \<Rightarrow> sorting_dir \<Rightarrow> history_item payload dbop"
where
  "get_history_for_organization self organization page limit sort_direction = gets (\<lambda>s.
     let sales = sales_of_organization s (org_id organization) (\<lambda>ord. o_user_id ord = u_id self);
         groups = remdups (map (\<lambda>(_, ord, e). (o_id ord, o_order_date ord, e_name e)) sales);
         results = take (unat limit) (drop (unat (limit * page))
           (sort_dir sort_direction (\<lambda>(_, date, _). date) groups))
     in with_total (if results = [] then 0 else length groups) (payload_new (map (\<lambda>k.
             let rows = filter (\<lambda>(_, ord, e). (o_id ord, o_order_date ord, e_name e) = k) sales in
             case k of (order_id, order_date, event_name) \<Rightarrow>
               Purchase (as_u32 (revenue_of rows)) event_name (as_u32 (tickets_sold rows)) order_id order_date)
             results) ((paging_new page limit)\<lparr>pg_dir := sort_direction\<rparr>)))"

record fan_profile =
  fp_first_name :: "string option"
  fp_last_name :: "string option"
  fp_email :: "string option"
  fp_facebook_linked :: bool
  fp_event_count :: u32
  fp_revenue_in_cents :: u32
  fp_ticket_sales :: u32
  fp_profile_pic_url :: "string option"
  fp_thumb_profile_pic_url :: "string option"
  fp_cover_photo_url :: "string option"
  fp_created_at :: timestamp

definition get_profile_for_organization :: "user_row \<Rightarrow> organization \<Rightarrow> fan_profile dbop" where
  "get_profile_for_organization self organization =
     bindo (gets (\<lambda>s. sales_of_organization s (org_id organization) (\<lambda>ord. o_user_id ord = u_id self))) (\<lambda>sales.
     bindo (find_external_login self facebook_site) (\<lambda>login.
     ret \<lparr>fp_first_name = u_first_name self, fp_last_name = u_last_name self, fp_email = u_email self,
       fp_facebook_linked = (login \<noteq> None),
       fp_event_count = as_u32 (int (length (remdups (map (\<lambda>(_, _, e). e_id e) sales)))),
       fp_revenue_in_cents = as_u32 (revenue_of sales), fp_ticket_sales = as_u32 (tickets_sold sales),
       fp_profile_pic_url = u_profile_pic_url self,
       fp_thumb_profile_pic_url = u_thumb_profile_pic_url self,
       fp_cover_photo_url = u_cover_photo_url self, fp_created_at = u_created_at self\<rparr>))"

section \<open>Footprints\<close>

lemma writes_random_text [footprints]: "steps (writes W) (random_alpha_string g n)"
  by (induction n) (auto intro!: footprints)

lemma writes_password_hash [footprints]: "steps (writes W) (password_hash_generate g pw salt)"
  unfolding password_hash_generate_def generate_salt_def by (auto intro!: footprints split: option.split)

lemma writes_user_reads [footprints]:
  "steps (writes W) (user_find i)" "steps (writes W) (find_by_email e)" "steps (writes W) (find_by_phone p)"
  "steps (writes W) (find_by_password_reset_token k)" "steps (writes W) (find_payment_methods u n)"
  "steps (writes W) (user_payment_method self m)"
  unfolding user_find_def find_by_email_def find_by_phone_def find_by_password_reset_token_def
    find_payment_methods_def user_payment_method_def
  by (auto intro!: footprints split: list.split)

lemma writes_wallet_commit [footprints]: "WalletsT \<in> W \<Longrightarrow> steps (writes W) (wallet_commit w)"
  unfolding wallet_commit_def by (auto intro!: footprints)

lemma writes_user_commit [footprints]:
  "UsersT \<in> W \<Longrightarrow> WalletsT \<in> W \<Longrightarrow> steps (writes W) (user_commit n)"
  unfolding user_commit_def by (auto intro!: footprints)

lemma writes_users [footprints]:
  assumes "UsersT \<in> W"
  shows "steps (writes W) (user_update v u a)" and "steps (writes W) (update_role u r)"
    and "steps (writes W) (create_password_reset_token u)"
    and "steps (writes W) (consume_password_reset_token g k pw)"
  unfolding user_update_def update_role_def update_user_row_def create_password_reset_token_def
    consume_password_reset_token_def Let_def
  using assms by (auto intro!: footprints)

lemma writes_create_stub [footprints]:
  "UsersT \<in> W \<Longrightarrow> WalletsT \<in> W \<Longrightarrow> steps (writes W) (create_stub g f l e p)"
  unfolding create_stub_def by (auto intro!: footprints)

lemma writes_payment_methods [footprints]:
  assumes "PaymentMethodsT \<in> W" and "DomainEventsT \<in> W"
  shows "steps (writes W) (payment_method_commit m u)" and "steps (writes W) (payment_method_update pm a u)"
  unfolding payment_method_commit_def payment_method_update_def
  using assms by (auto intro!: footprints)

section \<open>Storing and resetting\<close>

lemma user_commit_Inr:
  assumes "user_commit nu s = (Inr u, t)"
  shows "u = user_row_of nu (uuid_source s (uuids_drawn s)) (now s) \<and> user_violation s u = None \<and>
    validate_email s (nu_email nu) = Inr () \<and> db_users t = db_users s @ [u] \<and> valid_email t = valid_email s"
proof -
  let ?s1 = "s\<lparr>uuids_drawn := Suc (uuids_drawn s)\<rparr>"
  let ?u = "user_row_of nu (uuid_source s (uuids_drawn s)) (now s)"
  let ?s2 = "?s1\<lparr>db_users := db_users s @ [?u]\<rparr>"
  have valid: "validate_email s (nu_email nu) = Inr ()"
    using assms by (cases "validate_email s (nu_email nu)") (auto simp: user_commit_def bindo_run op_simps)
  have parts: "user_violation ?s1 ?u = None \<and> u = ?u \<and>
      (\<exists>w. create_wallet_for_user (u_id ?u) ''Default'' True ?s2 = (Inr w, t))"
    using assms by (auto simp: user_commit_def bindo_Inr_iff insert_checked_Inr_iff check_validation_run ret_run
        split: sum.splits)
  then have ok: "user_violation s ?u = None" by (simp add: user_violation_def split: if_splits)
  from parts obtain w where wallet: "create_wallet_for_user (u_id ?u) ''Default'' True ?s2 = (Inr w, t)"
    and "u = ?u" by blast
  have "steps (writes {WalletsT}) (create_wallet_for_user (u_id ?u) ''Default'' True)"
    by (intro footprints) simp
  from stepsD_run [OF this wallet] have w: "writes {WalletsT} ?s2 t" .
  have "db_users t = db_users s @ [?u]" using writes_same [OF w, of UsersT] by simp
  then show ?thesis using \<open>u = ?u\<close> ok valid writes_environment(3) [OF w] by simp
qed

lemma password_hash_generate_writes:
  "\<exists>salt t. password_hash_generate g pw None s = (Inr (argon_default2i g pw salt), t) \<and> writes {} s t"
proof -
  obtain salt k where run: "password_hash_generate g pw None s =
      (Inr (argon_default2i g pw salt), s\<lparr>rng_drawn := k\<rparr>)"
    using password_hash_generate_run [of g pw s] by blast
  have "steps (writes {}) (password_hash_generate g pw None)" by (intro footprints)
  from stepsD_run [OF this run] run show ?thesis by blast
qed

lemma create_stub_Inr:
  assumes "create_stub g f l e p s = (Inr u, t)"
  obtains i n h where "u = user_row_of \<lparr>nu_first_name = Some f, nu_last_name = Some l, nu_email = e,
      nu_phone = p, nu_hashed_pw = h, nu_role = [roles.User]\<rparr> i n"
    and "i = uuid_source s (uuids_drawn s)" and "user_violation s u = None"
    and "validate_email s e = Inr ()" and "db_users t = db_users s @ [u]" and "valid_email t = valid_email s"
proof -
  obtain salt k where hash: "password_hash_generate g ''random'' None s =
      (Inr (argon_default2i g ''random'' salt), s\<lparr>rng_drawn := k\<rparr>)"
    using password_hash_generate_run by blast
  have run: "user_commit \<lparr>nu_first_name = Some f, nu_last_name = Some l, nu_email = e,
      nu_phone = p, nu_hashed_pw = argon_to_text g (argon_default2i g ''random'' salt),
      nu_role = [roles.User]\<rparr> (s\<lparr>rng_drawn := k\<rparr>) = (Inr u, t)"
    using assms hash by (simp add: create_stub_def bindo_run password_hash_to_string_def)
  have e: "validate_email (s\<lparr>rng_drawn := k\<rparr>) x = validate_email s x"
    "user_violation (s\<lparr>rng_drawn := k\<rparr>) y = user_violation s y" for x y
    by (auto simp: validate_email_def user_violation_def split: option.split)
  show thesis
    by (rule that [where h = "argon_to_text g (argon_default2i g ''random'' salt)" and
          i = "uuid_source s (uuids_drawn s)" and n = "now s"])
      (use user_commit_Inr [OF run] in \<open>auto simp: e\<close>)
qed

lemma update_user_row_run:
  assumes "distinct (map u_id (db_users s))" and "r \<in> set (db_users s)" and "u_id r = u_id self"
  shows "update_user_row self f message s =
    (Inr (f r), s\<lparr>db_users := update_where (\<lambda>u. u_id u = u_id r) f (db_users s)\<rparr>)"
  using filter_by_key [OF assms(1,2)] by (simp add: update_user_row_def update_first_run assms(3) [symmetric])

lemma update_user_row_Inr:
  assumes "update_user_row self f message s = (Inr u, t)"
  obtains r where "r \<in> set (db_users s)" and "u_id r = u_id self"
proof (cases "filter (\<lambda>x. u_id x = u_id self) (db_users s)")
  case Nil
  then show thesis using assms by (simp add: update_user_row_def update_first_run)
next
  case (Cons r rs)
  then have "r \<in> set (filter (\<lambda>x. u_id x = u_id self) (db_users s))" by simp
  then show thesis using that [of r] by simp
qed

text \<open>Consuming the token of one user, in time or late.\<close>

lemma consume_run:
  assumes "filter (\<lambda>u. u_password_reset_token u = Some k) (db_users s) = [r]"
    and "u_password_reset_requested_at r = Some at" and ids: "distinct (map u_id (db_users s))"
  shows "utc_now s - at < days 1 \<Longrightarrow> argon_works g \<Longrightarrow> \<exists>u v. consume_password_reset_token g k pw s = (Inr u, v) \<and>
      u_id u = u_id r \<and> u \<in> set (db_users v) \<and> check_password g u pw \<and>
      filter (\<lambda>u. u_password_reset_token u = Some k) (db_users v) = []"
    and "utc_now s - at \<ge> days 1 \<Longrightarrow> consume_password_reset_token g k pw s =
      (Inl (database_error_new InternalError (Some (Text ''Password reset token is expired''))), s)"
proof -
  have find: "find_by_password_reset_token k s = (Inr r, s)"
    using find_Some_filter [OF assms(1)] by (simp add: find_by_password_reset_token_def first_where_Inr_iff)
  have "r \<in> set (filter (\<lambda>u. u_password_reset_token u = Some k) (db_users s))" using assms(1) by simp
  then have r: "r \<in> set (db_users s)" by simp
  show "consume_password_reset_token g k pw s =
      (Inl (database_error_new InternalError (Some (Text ''Password reset token is expired''))), s)"
    if late: "utc_now s - at \<ge> days 1"
  proof -
    have "0 < days 1" by (simp add: days_def seconds_def)
    with late have "1 \<le> (utc_now s - at) div days 1" using zdiv_mono1 [OF late, of "days 1"] by simp
    with late \<open>0 < days 1\<close> have "\<not> has_valid_password_reset_token (utc_now s) r"
      by (simp add: has_valid_password_reset_token_def assms(2) num_days_def
        password_reset_expiration_period_in_days_def)
    then show ?thesis by (simp add: consume_password_reset_token_def bindo_run find fail_run)
  qed
  assume time: "utc_now s - at < days 1" and works: "argon_works g"
  have valid: "has_valid_password_reset_token (utc_now s) r"
  proof (cases "0 \<le> utc_now s - at")
    case True
    then have "(utc_now s - at) div days 1 = 0" using time by (simp add: div_pos_pos_trivial)
    then show ?thesis using True by (simp add: has_valid_password_reset_token_def assms(2) num_days_def
        password_reset_expiration_period_in_days_def)
  next
    case False
    have "0 < days 1" by (simp add: days_def seconds_def)
    then have "0 \<le> (at - utc_now s) div days 1" using False by (simp add: pos_imp_zdiv_nonneg_iff)
    then show ?thesis using False by (simp add: has_valid_password_reset_token_def assms(2) num_days_def
        password_reset_expiration_period_in_days_def)
  qed
  obtain salt c where hash: "password_hash_generate g pw None s = (Inr (argon_default2i g pw salt), s\<lparr>rng_drawn := c\<rparr>)"
    using password_hash_generate_run by blast
  let ?f = "\<lambda>u. u\<lparr>u_hashed_pw := argon_to_text g (argon_default2i g pw salt), u_password_modified_at := utc_now s,
    u_updated_at := now s, u_password_reset_token := None, u_password_reset_requested_at := None\<rparr>"
  let ?v = "s\<lparr>rng_drawn := c, db_users := update_where (\<lambda>u. u_id u = u_id r) ?f (db_users s)\<rparr>"
  have run: "consume_password_reset_token g k pw s = (Inr (?f r), ?v)"
    using update_user_row_run [of "s\<lparr>rng_drawn := c\<rparr>" r r ?f] ids r valid
    by (simp add: consume_password_reset_token_def bindo_run find hash password_hash_to_string_def)
  moreover have "?f r \<in> set (db_users ?v)" using r by (auto simp: set_update_where)
  moreover have "check_password g (?f r) pw"
    using works by (simp add: check_password_def argon_works_def password_hash_from_str_def password_hash_verify_def)
  moreover have "filter (\<lambda>u. u_password_reset_token u = Some k) (db_users ?v) = []"
  proof -
    have "x = r" if "x \<in> set (db_users s)" "u_password_reset_token x = Some k" for x
    proof -
      have "x \<in> set (filter (\<lambda>u. u_password_reset_token u = Some k) (db_users s))" using that by simp
      then show ?thesis using assms(1) by simp
    qed
    then show ?thesis by (auto simp: filter_empty_conv set_update_where)
  qed
  ultimately show "\<exists>u v. consume_password_reset_token g k pw s = (Inr u, v) \<and>
      u_id u = u_id r \<and> u \<in> set (db_users v) \<and> check_password g u pw \<and>
      filter (\<lambda>u. u_password_reset_token u = Some k) (db_users v) = []"
    by (intro exI [of _ "?f r"] exI [of _ ?v]) simp
qed

section \<open>Properties\<close>

text \<open>a guest of the box office is stored with the address as typed, but the lookup searches in
  lower case. So the next sale finds the guest exactly when the address was typed in lower case, and a
  guest that is not found cannot be stored again either: the address is taken.\<close>

theorem guest_found_iff_lower_case:
  assumes run: "create_stub g f l (Some e) p s = (Inr u, t)"
    and unknown: "\<forall>v \<in> set (db_users s). u_email v \<noteq> Some (to_lowercase e)"
    and fresh: "uuid_source t (uuids_drawn t) \<noteq> u_id u"
  shows "((\<exists>v. find_by_email e t = (Inr v, t)) \<longleftrightarrow> to_lowercase e = e) \<and>
    map_sum err_error_code id (fst (create_stub g f' l' (Some e) p' t)) = Inl DuplicateKeyError"
proof
  from create_stub_Inr [OF run] obtain i n h where u: "u = user_row_of \<lparr>nu_first_name = Some f,
      nu_last_name = Some l, nu_email = Some e, nu_phone = p, nu_hashed_pw = h, nu_role = [roles.User]\<rparr> i n"
    and valid: "validate_email s (Some e) = Inr ()" and users: "db_users t = db_users s @ [u]"
    and env: "valid_email t = valid_email s" by metis
  have email: "u_email u = Some e" by (simp add: u user_row_of_def)
  show "(\<exists>v. find_by_email e t = (Inr v, t)) \<longleftrightarrow> to_lowercase e = e"
    using unknown email by (auto simp: find_by_email_def first_where_Inr_iff users find_new)
  obtain salt k where hash: "password_hash_generate g ''random'' None t =
      (Inr (argon_default2i g ''random'' salt), t\<lparr>rng_drawn := k\<rparr>)"
    using password_hash_generate_run by blast
  have valid_t: "validate_email (t\<lparr>rng_drawn := k\<rparr>) (Some e) = Inr ()"
    using valid by (simp add: validate_email_def env)
  have taken: "user_violation (t\<lparr>rng_drawn := k, uuids_drawn := Suc (uuids_drawn t)\<rparr>) (user_row_of
      \<lparr>nu_first_name = Some f', nu_last_name = Some l', nu_email = Some e, nu_phone = p',
        nu_hashed_pw = argon_to_text g (argon_default2i g ''random'' salt), nu_role = [roles.User]\<rparr>
      (uuid_source t (uuids_drawn t)) (now t)) = Some UniqueViolation"
    using fresh email by (simp add: user_violation_def user_row_of_def users)
  show "map_sum err_error_code id (fst (create_stub g f' l' (Some e) p' t)) = Inl DuplicateKeyError"
    by (simp add: create_stub_def bindo_run hash user_commit_def valid_t check_validation_run
      insert_checked_run taken password_hash_to_string_def wrap_def)
qed


definition sample_guest :: db where
  "sample_guest = blank_db\<lparr>db_users := [(blank_user 1)\<lparr>u_email := Some ''ann@x''\<rparr>]\<rparr>"

theorem guest_found_iff_lower_case_witness:
  "\<exists>u t. create_stub sample_argon ''Bob'' ''B'' (Some ''Bob@x'') None sample_guest = (Inr u, t) \<and>
     (\<nexists>v. find_by_email ''Bob@x'' t = (Inr v, t)) \<and>
     map_sum err_error_code id (fst (create_stub sample_argon ''Bob'' ''B'' (Some ''Bob@x'') None t)) =
       Inl DuplicateKeyError"
proof -
  obtain salt k where hash: "password_hash_generate sample_argon ''random'' None sample_guest =
      (Inr (argon_default2i sample_argon ''random'' salt), sample_guest\<lparr>rng_drawn := k\<rparr>)"
    using password_hash_generate_run by blast
  have "\<exists>u t. create_stub sample_argon ''Bob'' ''B'' (Some ''Bob@x'') None sample_guest = (Inr u, t) \<and>
      uuid_source t (uuids_drawn t) \<noteq> u_id u"
    unfolding create_stub_def bindo_run [of "password_hash_generate sample_argon ''random'' None"] hash
    by (simp add: bindo_run user_commit_def validate_email_def check_validation_run
      insert_checked_run user_violation_def user_row_of_def create_wallet_for_user_def wallet_commit_def
      wallet_violation_def wallet_row_def refers_def sample_guest_def blank_defs ret_run)
  then obtain u t where run: "create_stub sample_argon ''Bob'' ''B'' (Some ''Bob@x'') None sample_guest = (Inr u, t)"
    and fresh: "uuid_source t (uuids_drawn t) \<noteq> u_id u" by blast
  have lower: "to_lowercase ''Bob@x'' = ''bob@x''" by code_simp
  then have "\<forall>v \<in> set (db_users sample_guest). u_email v \<noteq> Some (to_lowercase ''Bob@x'')"
    by (simp add: sample_guest_def blank_defs)
  from guest_found_iff_lower_case [OF run this fresh] run lower show ?thesis by simp
qed


end
