(* ===== verification/Organizations.thy ===== *)
theory Organizations imports Users begin

text \<open>
  Organizations (\<open>db/src/models/organizations.rs\<close>), their members (\<open>organization_users.rs\<close>), the
  invitations to join them (\<open>organization_invites.rs\<close>), and the rights that a membership gives a user
  (\<open>users.rs\<close>). The secret keys of an organization are stored encrypted.
\<close>

section \<open>Members\<close>

record new_organization_user =
  nou_organization_id :: uuid
  nou_user_id :: uuid
  nou_role :: "roles list"

definition member_create :: "uuid \<Rightarrow> uuid \<Rightarrow> roles list \<Rightarrow> new_organization_user" where
  "member_create organization_id user_id role =
     \<lparr>nou_organization_id = organization_id, nou_user_id = user_id, nou_role = role\<rparr>"

definition find_users_by_organization :: "uuid \<Rightarrow> organization_user list dbop" where
  "find_users_by_organization organization_id =
     select_where db_organization_users (\<lambda>m. ou_organization_id m = organization_id)"

definition member_find :: "uuid \<Rightarrow> uuid \<Rightarrow> organization_user dbop" where
  "member_find user_id organization_id =
     first_where db_organization_users (\<lambda>m. ou_user_id m = user_id \<and> ou_organization_id m = organization_id)
       QueryError ''Could not find user for organization''"

definition member_violation :: "db \<Rightarrow> organization_user \<Rightarrow> db_error_kind option" where
  "member_violation s m =
     (if refers (Some (ou_organization_id m)) org_id (db_organizations s) \<and>
        refers (Some (ou_user_id m)) u_id (db_users s)
      then None else Some ForeignKeyViolation)"

text \<open>A user who is a member already gets the new roles instead of a second row.\<close>

definition member_commit :: "new_organization_user \<Rightarrow> organization_user dbop" where
  "member_commit self =
     bindo (optional_op (member_find (nou_user_id self) (nou_organization_id self))) (\<lambda>existing_user.
     case existing_user of
       Some user \<Rightarrow>
         update_first db_organization_users (\<lambda>rs s. s\<lparr>db_organization_users := rs\<rparr>)
           (\<lambda>m. ou_id m = ou_id user) (\<lambda>m. m\<lparr>ou_role := nou_role self\<rparr>)
           UpdateError ''Could not add role to existing organization user''
     | None \<Rightarrow>
         bindo draw_uuid (\<lambda>id'.
         bindo (gets now) (\<lambda>n.
         insert_checked db_organization_users (\<lambda>rs s. s\<lparr>db_organization_users := rs\<rparr>) member_violation
           \<lparr>ou_id = id', ou_organization_id = nou_organization_id self, ou_user_id = nou_user_id self,
            ou_created_at = n, ou_updated_at = n, ou_role = nou_role self\<rparr>
           InsertError ''Could not create new organization user'')))"

section \<open>Organizations\<close>

record new_organization =
  norg_name :: string
  norg_fee_schedule_id :: uuid
  norg_address :: "string option"
  norg_city :: "string option"
  norg_state :: "string option"
  norg_country :: "string option"
  norg_postal_code :: "string option"
  norg_phone :: "string option"
  norg_sendgrid_api_key :: "string option"
  norg_google_ga_key :: "string option"
  norg_facebook_pixel_key :: "string option"
  norg_client_event_fee_in_cents :: "int option"
  norg_company_event_fee_in_cents :: "int option"

record organization_attributes =
  oa_name :: "string option"
  oa_address :: "string option"
  oa_city :: "string option"
  oa_state :: "string option"
  oa_country :: "string option"
  oa_postal_code :: "string option"
  oa_phone :: "string option"
  oa_sendgrid_api_key :: "string option option"
  oa_google_ga_key :: "string option option"
  oa_facebook_pixel_key :: "string option option"
  oa_client_event_fee_in_cents :: "int option"
  oa_company_event_fee_in_cents :: "int option"

record display_organization_link =
  dol_id :: uuid
  dol_name :: string
  dol_role :: "roles list"

record tracking_keys =
  tk_google_ga_key :: "string option"
  tk_facebook_pixel_key :: "string option"

definition organization_create :: "string \<Rightarrow> uuid \<Rightarrow> new_organization" where
  "organization_create name fee_schedule_id =
     \<lparr>norg_name = name, norg_fee_schedule_id = fee_schedule_id, norg_address = None, norg_city = None,
      norg_state = None, norg_country = None, norg_postal_code = None, norg_phone = None,
      norg_sendgrid_api_key = None, norg_google_ga_key = None, norg_facebook_pixel_key = None,
      norg_client_event_fee_in_cents = None, norg_company_event_fee_in_cents = None\<rparr>"

definition organization_violation :: "db \<Rightarrow> organization \<Rightarrow> db_error_kind option" where
  "organization_violation s g =
     (if list_ex (\<lambda>h. org_id h \<noteq> org_id g \<and> org_name h = org_name g) (db_organizations s)
      then Some UniqueViolation
      else if refers (Some (org_fee_schedule_id g)) fs_id (db_fee_schedules s) then None
      else Some ForeignKeyViolation)"

text \<open>Encrypting one column that is present, if there is an encryption key at all.\<close>

definition encrypt_field :: "crates \<Rightarrow> ring \<Rightarrow> string \<Rightarrow> string option \<Rightarrow> string option dbop" where
  "encrypt_field c r encryption_key field =
     (case field of
        Some key \<Rightarrow> if length encryption_key > 0
          then bindo (encrypt c r key encryption_key) (\<lambda>x. ret (Some x)) else ret (Some key)
      | None \<Rightarrow> ret None)"

definition optional_text_json :: "string option \<Rightarrow> json" where
  "optional_text_json t = optional_json JString t"

definition new_organization_json :: "new_organization \<Rightarrow> json" where
  "new_organization_json n = JObject [(''name'', JString (norg_name n)),
     (''fee_schedule_id'', JUuid (norg_fee_schedule_id n)),
     (''address'', optional_text_json (norg_address n)), (''city'', optional_text_json (norg_city n)),
     (''state'', optional_text_json (norg_state n)), (''country'', optional_text_json (norg_country n)),
     (''postal_code'', optional_text_json (norg_postal_code n)),
     (''phone'', optional_text_json (norg_phone n)),
     (''sendgrid_api_key'', optional_text_json (norg_sendgrid_api_key n)),
     (''google_ga_key'', optional_text_json (norg_google_ga_key n)),
     (''facebook_pixel_key'', optional_text_json (norg_facebook_pixel_key n)),
     (''client_event_fee_in_cents'', optional_json JNumber (norg_client_event_fee_in_cents n)),
     (''company_event_fee_in_cents'', optional_json JNumber (norg_company_event_fee_in_cents n))]"

definition organization_row :: "new_organization \<Rightarrow> uuid \<Rightarrow> timestamp \<Rightarrow> organization" where
  "organization_row self id' n =
     \<lparr>org_id = id', org_name = norg_name self, org_address = norg_address self, org_city = norg_city self,
      org_state = norg_state self, org_country = norg_country self,
      org_postal_code = norg_postal_code self, org_phone = norg_phone self,
      org_event_fee_in_cents = unwrap_or (norg_client_event_fee_in_cents self) 0
        + unwrap_or (norg_company_event_fee_in_cents self) 0,
      org_sendgrid_api_key = norg_sendgrid_api_key self, org_google_ga_key = norg_google_ga_key self,
      org_facebook_pixel_key = norg_facebook_pixel_key self, org_created_at = n, org_updated_at = n,
      org_fee_schedule_id = norg_fee_schedule_id self,
      org_client_event_fee_in_cents = unwrap_or (norg_client_event_fee_in_cents self) 0,
      org_company_event_fee_in_cents = unwrap_or (norg_company_event_fee_in_cents self) 0\<rparr>"

definition organization_commit ::
  "crates \<Rightarrow> ring \<Rightarrow> new_organization \<Rightarrow> string \<Rightarrow> uuid \<Rightarrow> organization dbop"
where
  "organization_commit c r self encryption_key current_user_id =
     bindo (encrypt_field c r encryption_key (norg_sendgrid_api_key self)) (\<lambda>sendgrid.
     bindo (encrypt_field c r encryption_key (norg_google_ga_key self)) (\<lambda>google.
     bindo (encrypt_field c r encryption_key (norg_facebook_pixel_key self)) (\<lambda>facebook.
     let updated_organisation = self\<lparr>norg_sendgrid_api_key := sendgrid, norg_google_ga_key := google,
           norg_facebook_pixel_key := facebook\<rparr> in
     bindo draw_uuid (\<lambda>id'.
     bindo (gets now) (\<lambda>n.
     bindo (insert_checked db_organizations (\<lambda>rs s. s\<lparr>db_organizations := rs\<rparr>) organization_violation
       (organization_row updated_organisation id' n) InsertError ''Could not create new organization'') (\<lambda>org.
     bindo (domain_event_commit (domain_event_create OrganizationCreated ''Organization created''
       Organizations (Some (org_id org)) (Some current_user_id)
       (Some (new_organization_json updated_organisation)))) (\<lambda>_. ret org)))))))"

definition encrypt_attribute :: "crates \<Rightarrow> ring \<Rightarrow> string \<Rightarrow> string option option \<Rightarrow> string option option dbop" where
  "encrypt_attribute c r encryption_key attribute =
     (case attribute of
        Some field \<Rightarrow> bindo (encrypt_field c r encryption_key field) (\<lambda>f. ret (Some f))
      | None \<Rightarrow> ret None)"

definition or_else :: "'a option \<Rightarrow> 'a option \<Rightarrow> 'a option" where
  "or_else x y = (case x of Some v \<Rightarrow> Some v | None \<Rightarrow> y)"

definition organization_update ::
  "crates \<Rightarrow> ring \<Rightarrow> organization \<Rightarrow> organization_attributes \<Rightarrow> string \<Rightarrow> organization dbop"
where
  "organization_update c r self attributes encryption_key =
     bindo (encrypt_attribute c r encryption_key (oa_sendgrid_api_key attributes)) (\<lambda>sendgrid.
     bindo (encrypt_attribute c r encryption_key (oa_google_ga_key attributes)) (\<lambda>google.
     bindo (encrypt_attribute c r encryption_key (oa_facebook_pixel_key attributes)) (\<lambda>facebook.
     let event_fee = unwrap_or (oa_client_event_fee_in_cents attributes) (org_client_event_fee_in_cents self)
           + unwrap_or (oa_company_event_fee_in_cents attributes) (org_company_event_fee_in_cents self) in
     bindo (gets now) (\<lambda>n.
     update_checked db_organizations (\<lambda>rs s. s\<lparr>db_organizations := rs\<rparr>) organization_violation
       (\<lambda>g. org_id g = org_id self)
       (\<lambda>g. g\<lparr>org_name := unwrap_or (oa_name attributes) (org_name g),
          org_address := or_else (oa_address attributes) (org_address g),
          org_city := or_else (oa_city attributes) (org_city g),
          org_state := or_else (oa_state attributes) (org_state g),
          org_country := or_else (oa_country attributes) (org_country g),
          org_postal_code := or_else (oa_postal_code attributes) (org_postal_code g),
          org_phone := or_else (oa_phone attributes) (org_phone g),
          org_sendgrid_api_key := unwrap_or sendgrid (org_sendgrid_api_key g),
          org_google_ga_key := unwrap_or google (org_google_ga_key g),
          org_facebook_pixel_key := unwrap_or facebook (org_facebook_pixel_key g),
          org_client_event_fee_in_cents :=
            unwrap_or (oa_client_event_fee_in_cents attributes) (org_client_event_fee_in_cents g),
          org_company_event_fee_in_cents :=
            unwrap_or (oa_company_event_fee_in_cents attributes) (org_company_event_fee_in_cents g),
          org_updated_at := n, org_event_fee_in_cents := event_fee\<rparr>)
       UpdateError ''Could not update organization''))))"

definition organization_find :: "uuid \<Rightarrow> organization dbop" where
  "organization_find id' =
     first_where db_organizations (\<lambda>g. org_id g = id') QueryError ''Error loading organization''"

text \<open>Queries that join organizations with what belongs to them: an organization qualifies once per
  joined row.\<close>

definition organizations_joined :: "(db \<Rightarrow> organization \<Rightarrow> nat) \<Rightarrow> db \<Rightarrow> organization list" where
  "organizations_joined n s = concat (map (\<lambda>g. replicate (n s g) g) (db_organizations s))"

definition ticket_types_of :: "db \<Rightarrow> organization \<Rightarrow> ticket_type list" where
  "ticket_types_of s g = concat (map (\<lambda>e. filter (\<lambda>tt. tt_event_id tt = e_id e) (db_ticket_types s))
     (filter (\<lambda>e. e_organization_id e = org_id g) (db_events s)))"

definition find_by_asset_id :: "uuid \<Rightarrow> organization dbop" where
  "find_by_asset_id asset_id =
     first_where (organizations_joined (\<lambda>s g. length (concat (map (\<lambda>tt.
         filter (\<lambda>a. a_ticket_type_id a = tt_id tt \<and> a_id a = asset_id) (db_assets s)) (ticket_types_of s g)))))
       (\<lambda>_. True) QueryError ''Could not retrieve organization by asset id''"

definition find_by_ticket_type_ids :: "uuid list \<Rightarrow> organization list dbop" where
  "find_by_ticket_type_ids ticket_type_ids = gets (\<lambda>s.
     remdups (filter (\<lambda>g. list_ex (\<lambda>tt. tt_id tt \<in> set ticket_type_ids) (ticket_types_of s g))
       (db_organizations s)))"

definition find_by_order_item_ids :: "uuid list \<Rightarrow> organization list dbop" where
  "find_by_order_item_ids order_item_ids = gets (\<lambda>s.
     sort_key (\<lambda>g. collate s (org_name g)) (remdups (filter (\<lambda>g.
       list_ex (\<lambda>tt. list_ex (\<lambda>oi. oi_ticket_type_id oi = Some (tt_id tt) \<and> oi_id oi \<in> set order_item_ids)
         (db_order_items s)) (ticket_types_of s g)) (db_organizations s))))"

text \<open>Ascending order of a nullable text, nulls last.\<close>

definition nulls_last :: "db \<Rightarrow> string option \<Rightarrow> bool \<times> int" where
  "nulls_last s t = (case t of None \<Rightarrow> (True, 0) | Some x \<Rightarrow> (False, collate s x))"

definition organization_users_sorted :: "organization \<Rightarrow> organization_user list dbop" where
  "organization_users_sorted self = gets (\<lambda>s.
     map fst (sort_key (\<lambda>(_, u). (nulls_last s (u_last_name u), nulls_last s (u_first_name u)))
       (concat (map (\<lambda>m. map (\<lambda>u. (m, u)) (filter (\<lambda>u. u_id u = ou_user_id m) (db_users s)))
         (filter (\<lambda>m. ou_organization_id m = org_id self) (db_organization_users s))))))"

definition organization_members :: "organization \<Rightarrow> (organization_user \<times> user_row) list dbop" where
  "organization_members self =
     bindo (organization_users_sorted self) (\<lambda>users.
     fold_op (\<lambda>m result. bindo (user_find (ou_user_id m)) (\<lambda>user. ret (result @ [(m, user)]))) users [])"

definition organization_events :: "organization \<Rightarrow> event_row list dbop" where
  "organization_events self = gets (\<lambda>s.
     sort_key e_created_at (filter (\<lambda>e. e_organization_id e = org_id self) (db_events s)))"

definition upcoming_events :: "organization \<Rightarrow> event_row list dbop" where
  "upcoming_events self = gets (\<lambda>s.
     sort_key e_created_at (filter (\<lambda>e. e_organization_id e = org_id self \<and>
       e_status e = event_status.Published \<and>
       (case e_event_start e of Some t \<Rightarrow> t \<ge> utc_now s | None \<Rightarrow> False)) (db_events s)))"

definition organization_venues :: "organization \<Rightarrow> venue list dbop" where
  "organization_venues self = gets (\<lambda>s.
     sort_key (\<lambda>v. collate s (v_name v)) (filter (\<lambda>v. v_organization_id v = Some (org_id self)) (db_venues s)))"

definition has_fan :: "organization \<Rightarrow> user_row \<Rightarrow> bool dbop" where
  "has_fan self user = gets (\<lambda>s.
     sales_of_organization s (org_id self) (\<lambda>ord. o_user_id ord = u_id user) \<noteq> [])"

definition organization_find_for_event :: "uuid \<Rightarrow> organization dbop" where
  "organization_find_for_event event_id =
     first_where (\<lambda>s. concat (map (\<lambda>e. filter (\<lambda>g. org_id g = e_organization_id e) (db_organizations s))
         (filter (\<lambda>e. e_id e = event_id) (db_events s)))) (\<lambda>_. True)
       QueryError ''Could not find organization for this event''"

definition organizations_all :: "organization list dbop" where
  "organizations_all = gets (\<lambda>s. sort_key (\<lambda>g. collate s (org_name g)) (db_organizations s))"

definition linked_organizations :: "db \<Rightarrow> uuid \<Rightarrow> organization list" where
  "linked_organizations s user_id =
     sort_key (\<lambda>g. collate s (org_name g)) (concat (map (\<lambda>m.
       filter (\<lambda>g. org_id g = ou_organization_id m) (db_organizations s))
       (filter (\<lambda>m. ou_user_id m = user_id) (db_organization_users s))))"

definition all_linked_to_user :: "uuid \<Rightarrow> organization list dbop" where
  "all_linked_to_user user_id = gets (\<lambda>s. linked_organizations s user_id)"

text \<open>The list with names is sorted in the program, by the bytes of the names.\<close>

fun text_le :: "string \<Rightarrow> string \<Rightarrow> bool" where
  "text_le [] _ = True"
| "text_le (_ # _) [] = False"
| "text_le (a # x) (b # y) = ((of_char a :: nat) < of_char b \<or> (a = b \<and> text_le x y))"

fun insert_by :: "('a \<Rightarrow> 'a \<Rightarrow> bool) \<Rightarrow> 'a \<Rightarrow> 'a list \<Rightarrow> 'a list" where
  "insert_by le x [] = [x]"
| "insert_by le x (y # ys) = (if le x y then x # y # ys else y # insert_by le x ys)"

definition sort_by :: "('a \<Rightarrow> 'a \<Rightarrow> bool) \<Rightarrow> 'a list \<Rightarrow> 'a list" where
  "sort_by le xs = foldr (insert_by le) xs []"

definition all_org_names_linked_to_user :: "uuid \<Rightarrow> display_organization_link list dbop" where
  "all_org_names_linked_to_user user_id =
     bindo (gets (\<lambda>s. filter (\<lambda>m. ou_user_id m = user_id \<and>
       list_ex (\<lambda>g. org_id g = ou_organization_id m) (db_organizations s)) (db_organization_users s)))
       (\<lambda>org_member_list.
     bindo (fold_op (\<lambda>m result_list.
       bindo (organization_find (ou_organization_id m)) (\<lambda>g.
       ret (result_list @ [\<lparr>dol_id = ou_organization_id m, dol_name = org_name g, dol_role = ou_role m\<rparr>])))
       org_member_list []) (\<lambda>result_list.
     ret (sort_by (\<lambda>a b. text_le (dol_name a) (dol_name b)) result_list)))"

definition remove_user :: "organization \<Rightarrow> uuid \<Rightarrow> nat dbop" where
  "remove_user self user_id =
     delete_where db_organization_users (\<lambda>rs s. s\<lparr>db_organization_users := rs\<rparr>)
       (\<lambda>m. ou_user_id m = user_id \<and> ou_organization_id m = org_id self)"

definition add_user :: "organization \<Rightarrow> uuid \<Rightarrow> roles list \<Rightarrow> organization_user dbop" where
  "add_user self user_id role = member_commit (member_create (org_id self) user_id role)"

definition is_member :: "organization \<Rightarrow> user_row \<Rightarrow> bool dbop" where
  "is_member self user = gets (\<lambda>s.
     list_ex (\<lambda>m. ou_user_id m = u_id user \<and> ou_organization_id m = org_id self) (db_organization_users s))"

definition add_fee_schedule :: "organization \<Rightarrow> fee_schedule \<Rightarrow> organization dbop" where
  "add_fee_schedule self fee_schedule =
     bindo (gets now) (\<lambda>n.
     update_checked db_organizations (\<lambda>rs s. s\<lparr>db_organizations := rs\<rparr>) organization_violation
       (\<lambda>g. org_id g = org_id self)
       (\<lambda>g. g\<lparr>org_fee_schedule_id := fs_id fee_schedule, org_updated_at := n\<rparr>)
       UpdateError ''Could not set the fee schedule for this organization'')"

section \<open>Roles and scopes of a user in an organization\<close>

definition get_roles_for_user :: "organization \<Rightarrow> user_row \<Rightarrow> roles list dbop" where
  "get_roles_for_user self user =
     (if is_admin user then ret [OrgOwner]
      else bindo (optional_op (member_find (u_id user) (org_id self))) (\<lambda>org_member.
        case org_member of Some member \<Rightarrow> ret (ou_role member) | None \<Rightarrow> ret []))"

definition get_scopes_for_user :: "organization \<Rightarrow> user_row \<Rightarrow> scopes list dbop" where
  "get_scopes_for_user self user =
     bindo (get_roles_for_user self user) (\<lambda>rs. ret (get_scopes rs))"

definition user_organizations :: "user_row \<Rightarrow> organization list dbop" where
  "user_organizations self =
     (if is_admin self then organizations_all
      else gets (\<lambda>s. sort_key (\<lambda>g. collate s (org_name g)) (organizations_joined (\<lambda>s g.
        length (filter (\<lambda>m. ou_organization_id m = org_id g \<and> ou_user_id m = u_id self)
          (db_organization_users s))) s)))"

definition get_roles_by_organization :: "user_row \<Rightarrow> (uuid \<rightharpoonup> roles list) dbop" where
  "get_roles_by_organization self =
     bindo (user_organizations self) (\<lambda>organizations.
     fold_op (\<lambda>g roles_by_organization.
       bindo (get_roles_for_user g self) (\<lambda>rs. ret (roles_by_organization(org_id g \<mapsto> rs))))
       organizations Map.empty)"

definition get_scopes_by_organization :: "user_row \<Rightarrow> (uuid \<rightharpoonup> scopes list) dbop" where
  "get_scopes_by_organization self =
     bindo (user_organizations self) (\<lambda>organizations.
     fold_op (\<lambda>g scopes_by_organization.
       bindo (get_scopes_for_user g self) (\<lambda>ss. ret (scopes_by_organization(org_id g \<mapsto> ss))))
       organizations Map.empty)"

definition find_events_with_access_to_scan :: "user_row \<Rightarrow> event_row list dbop" where
  "find_events_with_access_to_scan self =
     bindo (gets (\<lambda>s. let event_start = utc_now s - days 1 in
       sort_key (\<lambda>e. unwrap_or (e_event_start e) 0) (filter (\<lambda>e. e_status e = event_status.Published \<and>
         (case e_event_start e of Some t \<Rightarrow> t \<ge> event_start | None \<Rightarrow> False) \<and> \<not> e_is_external e)
         (db_events s)))) (\<lambda>events.
     if is_admin self then ret events
     else bindo (get_scopes_by_organization self) (\<lambda>user_organizations.
       ret (filter (\<lambda>e. case user_organizations (e_organization_id e) of
         Some ss \<Rightarrow> EventScan \<in> set ss | None \<Rightarrow> False) events)))"

section \<open>Reading the secret keys\<close>

text \<open>An operation that may panic has \<open>None\<close> for that end among its errors.\<close>

type_synonym ('s, 'a) panic_op = "('s, db_error option, 'a) op"

definition unpanicked :: "(db_error + 'a) option \<Rightarrow> ('s, 'a) panic_op" where
  "unpanicked r = (\<lambda>s. (case r of None \<Rightarrow> Inl None | Some (Inl e) \<Rightarrow> Inl (Some e) | Some (Inr x) \<Rightarrow> Inr x, s))"

definition decrypt_field :: "crates \<Rightarrow> ring \<Rightarrow> string \<Rightarrow> string option \<Rightarrow> ('s, string option) panic_op" where
  "decrypt_field c r encryption_key field =
     (case field of
        Some key \<Rightarrow> bindo (unpanicked (decrypt c r key encryption_key)) (\<lambda>x. ret (Some x))
      | None \<Rightarrow> ret None)"

text \<open>\<open>decrypt(&mut self)\<close> works on the row in memory, column after column.\<close>

definition organization_decrypt :: "crates \<Rightarrow> ring \<Rightarrow> string \<Rightarrow> (organization, unit) panic_op" where
  "organization_decrypt c r encryption_key =
     (if length encryption_key > 0
      then
        bindo (gets org_sendgrid_api_key) (\<lambda>k. bindo (decrypt_field c r encryption_key k) (\<lambda>x.
        bindo (modify (\<lambda>g. g\<lparr>org_sendgrid_api_key := x\<rparr>)) (\<lambda>_.
        bindo (gets org_google_ga_key) (\<lambda>k. bindo (decrypt_field c r encryption_key k) (\<lambda>x.
        bindo (modify (\<lambda>g. g\<lparr>org_google_ga_key := x\<rparr>)) (\<lambda>_.
        bindo (gets org_facebook_pixel_key) (\<lambda>k. bindo (decrypt_field c r encryption_key k) (\<lambda>x.
        modify (\<lambda>g. g\<lparr>org_facebook_pixel_key := x\<rparr>)))))))))
      else ret ())"

definition tracking_keys_for_ids ::
  "crates \<Rightarrow> ring \<Rightarrow> uuid list \<Rightarrow> string \<Rightarrow> (db, uuid \<rightharpoonup> tracking_keys) panic_op"
where
  "tracking_keys_for_ids c r org_ids encryption_key =
     bindo (gets (\<lambda>s. filter (\<lambda>g. org_id g \<in> set org_ids) (db_organizations s))) (\<lambda>orgs.
     fold_op (\<lambda>org result.
       bindo (decrypt_field c r encryption_key (org_google_ga_key org)) (\<lambda>google_ga_key.
       bindo (decrypt_field c r encryption_key (org_facebook_pixel_key org)) (\<lambda>facebook_pixel_key.
       ret (result(org_id org \<mapsto>
         \<lparr>tk_google_ga_key = google_ga_key, tk_facebook_pixel_key = facebook_pixel_key\<rparr>)))))
       orgs Map.empty)"

section \<open>Invitations\<close>

definition invite_expiration_period_in_days :: int where
  "invite_expiration_period_in_days = 7"

record new_organization_invite =
  ninv_organization_id :: uuid
  ninv_inviter_id :: uuid
  ninv_user_email :: string
  ninv_security_token :: "uuid option"
  ninv_user_id :: "uuid option"
  ninv_roles :: "roles list"

record display_invite =
  di_id :: uuid
  di_organization_name :: string
  di_inviter_name :: string
  di_expires_at :: timestamp

definition invite_create :: "uuid \<Rightarrow> uuid \<Rightarrow> string \<Rightarrow> uuid option \<Rightarrow> roles list \<Rightarrow> new_organization_invite" where
  "invite_create org_id' invitee_id email user_id rs =
     \<lparr>ninv_organization_id = org_id', ninv_inviter_id = invitee_id, ninv_user_email = email,
      ninv_security_token = None, ninv_user_id = user_id, ninv_roles = rs\<rparr>"

definition invite_violation :: "db \<Rightarrow> organization_invite \<Rightarrow> db_error_kind option" where
  "invite_violation s i =
     (if inv_security_token i \<noteq> None \<and>
        list_ex (\<lambda>j. inv_id j \<noteq> inv_id i \<and> inv_security_token j = inv_security_token i) (db_organization_invites s)
      then Some UniqueViolation
      else if refers (Some (inv_organization_id i)) org_id (db_organizations s) \<and>
        refers (Some (inv_inviter_id i)) u_id (db_users s) \<and> refers (inv_user_id i) u_id (db_users s)
      then None else Some ForeignKeyViolation)"

definition validate_user_email :: "db \<Rightarrow> string \<Rightarrow> validation_errors + unit" where
  "validate_user_email s email =
     (if valid_email s email then Inr ()
      else Inl [(''user_email'', [create_validation_error ''email'' ''User email is invalid''])])"

definition invite_commit :: "new_organization_invite \<Rightarrow> organization_invite dbop" where
  "invite_commit self =
     bindo draw_uuid (\<lambda>token.
     bindo (gets (\<lambda>s. validate_user_email s (ninv_user_email self))) (\<lambda>v.
     bindo (check_validation v) (\<lambda>_.
     bindo draw_uuid (\<lambda>id'.
     bindo (gets now) (\<lambda>n.
     insert_checked db_organization_invites (\<lambda>rs s. s\<lparr>db_organization_invites := rs\<rparr>) invite_violation
       \<lparr>inv_id = id', inv_organization_id = ninv_organization_id self,
        inv_inviter_id = ninv_inviter_id self, inv_user_email = ninv_user_email self,
        inv_created_at = n, inv_security_token = Some token, inv_user_id = ninv_user_id self,
        inv_accepted = None, inv_updated_at = n, inv_sent_invite = False, inv_roles = ninv_roles self\<rparr>
       InsertError ''Could not create new invite'')))))"

definition invite_organization :: "organization_invite \<Rightarrow> organization dbop" where
  "invite_organization self = organization_find (inv_organization_id self)"

text \<open>\<open>&mut self\<close>: the changed row in memory is the result.\<close>

definition change_invite_status :: "organization_invite \<Rightarrow> int \<Rightarrow> organization_invite dbop" where
  "change_invite_status self change_status =
     bindo (gets utc_now) (\<lambda>utc.
     let self = self\<lparr>inv_security_token := None, inv_accepted := Some change_status, inv_updated_at := utc\<rparr> in
     bindo (execute_update db_organization_invites (\<lambda>rs s. s\<lparr>db_organization_invites := rs\<rparr>)
       (\<lambda>i. inv_id i = inv_id self)
       (\<lambda>i. i\<lparr>inv_security_token := inv_security_token self, inv_accepted := inv_accepted self,
          inv_updated_at := inv_updated_at self\<rparr>)) (\<lambda>_. ret self))"

definition accept_invite :: "organization_invite \<Rightarrow> organization_invite dbop" where
  "accept_invite self = change_invite_status self 1"

definition decline_invite :: "organization_invite \<Rightarrow> organization_invite dbop" where
  "decline_invite self = change_invite_status self 0"

definition open_invite :: "db \<Rightarrow> uuid \<Rightarrow> organization_invite \<Rightarrow> bool" where
  "open_invite s token i \<longleftrightarrow> inv_accepted i = None \<and> inv_security_token i = Some token \<and>
     inv_created_at i > utc_now s - days invite_expiration_period_in_days"

text \<open>\<open>CONCAT\<close> treats nulls as empty.\<close>

definition display_invites :: "db \<Rightarrow> organization_invite list \<Rightarrow> display_invite list" where
  "display_invites s invites = concat (map (\<lambda>i. concat (map (\<lambda>u.
     map (\<lambda>g. \<lparr>di_id = inv_id i, di_organization_name = org_name g,
         di_inviter_name = unwrap_or (u_first_name u) [] @ '' '' @ unwrap_or (u_last_name u) [],
         di_expires_at = inv_created_at i + days invite_expiration_period_in_days\<rparr>)
       (filter (\<lambda>g. org_id g = inv_organization_id i) (db_organizations s)))
     (filter (\<lambda>u. u_id u = inv_inviter_id i) (db_users s)))) invites)"

definition get_invite_display :: "uuid \<Rightarrow> display_invite dbop" where
  "get_invite_display token =
     first_where (\<lambda>s. display_invites s (filter (open_invite s token) (db_organization_invites s))) (\<lambda>_. True)
       QueryError ''Cannot find organization invite''"

definition find_by_token :: "uuid \<Rightarrow> organization_invite dbop" where
  "find_by_token token = (\<lambda>s.
     first_where db_organization_invites (open_invite s token) AccessError ''No valid token found'' s)"

definition find_active_invite_by_email :: "string \<Rightarrow> organization_invite option dbop" where
  "find_active_invite_by_email email = gets (\<lambda>s.
     find (\<lambda>i. inv_user_email i = email \<and> inv_security_token i \<noteq> None) (db_organization_invites s))"

definition change_sent_status :: "organization_invite \<Rightarrow> bool \<Rightarrow> organization_invite dbop" where
  "change_sent_status self sent_status =
     update_first db_organization_invites (\<lambda>rs s. s\<lparr>db_organization_invites := rs\<rparr>)
       (\<lambda>i. inv_id i = inv_id self) (\<lambda>i. i\<lparr>inv_sent_invite := sent_status\<rparr>)
       UpdateError ''Could not update region''"

definition invite_find :: "uuid \<Rightarrow> organization_invite dbop" where
  "invite_find id' =
     first_where db_organization_invites (\<lambda>i. inv_id i = id') QueryError ''Error loading organization invite''"

definition pending_invites_of :: "db \<Rightarrow> uuid \<Rightarrow> organization_invite list" where
  "pending_invites_of s organization_id =
     sort_key (\<lambda>i. collate s (inv_user_email i)) (filter (\<lambda>i. inv_organization_id i = organization_id \<and>
       inv_accepted i = None) (db_organization_invites s))"

definition find_pending_by_organization_paged :: "uuid \<Rightarrow> u32 \<Rightarrow> u32 \<Rightarrow> display_invite payload dbop" where
  "find_pending_by_organization_paged organization_id page limit = gets (\<lambda>s.
     let invites = pending_invites_of s organization_id in
     with_total (length invites) (payload_new
       (take (unat limit) (drop (unat (page * limit)) (display_invites s invites))) (paging_new page limit)))"

definition invite_destroy :: "organization_invite \<Rightarrow> nat dbop" where
  "invite_destroy self =
     (case inv_accepted self of
        Some accepted \<Rightarrow> business_process_error (''Cannot destroy invite it has already been '' @
          (if accepted = 1 then ''accepted'' else ''declined'') @ ''.'')
      | None \<Rightarrow> delete_where db_organization_invites (\<lambda>rs s. s\<lparr>db_organization_invites := rs\<rparr>)
          (\<lambda>i. inv_id i = inv_id self))"

definition find_pending_by_organization :: "uuid \<Rightarrow> organization_invite list dbop" where
  "find_pending_by_organization organization_id = gets (\<lambda>s. pending_invites_of s organization_id)"

definition pending_invites :: "organization \<Rightarrow> organization_invite list dbop" where
  "pending_invites self = find_pending_by_organization (org_id self)"

section \<open>Memberships\<close>

abbreviation membership :: "organization_user \<Rightarrow> uuid \<times> uuid" where
  "membership m \<equiv> (ou_user_id m, ou_organization_id m)"

definition roles_of :: "db \<Rightarrow> uuid \<times> uuid \<Rightarrow> roles list option" where
  "roles_of s k = map_option ou_role (find (\<lambda>m. membership m = k) (db_organization_users s))"

lemma get_roles_run:
  "\<not> is_admin user \<Longrightarrow> get_roles_for_user g user s =
     (Inr (unwrap_or (roles_of s (u_id user, org_id g)) []), s)"
  by (auto simp: get_roles_for_user_def roles_of_def member_find_def bindo_run optional_op_run first_where_run
      optional_new ret_run unwrap_or_def split: option.splits)

lemma is_member_run: "is_member g user s = (Inr (roles_of s (u_id user, org_id g) \<noteq> None), s)"
  by (auto simp: is_member_def roles_of_def find_None_iff list_ex_iff)

lemma remove_user_run:
  "remove_user g i s = (Inr (length (filter (\<lambda>m. membership m = (i, org_id g)) (db_organization_users s))),
     s\<lparr>db_organization_users := filter (\<lambda>m. membership m \<noteq> (i, org_id g)) (db_organization_users s)\<rparr>)"
  by (simp add: remove_user_def)

lemma find_filter_other: "(\<And>x. P x \<Longrightarrow> Q x) \<Longrightarrow> find P (filter Q xs) = find P xs"
  by (induction xs) auto

lemma find_not_last: "\<not> P y \<Longrightarrow> find P (xs @ [y]) = find P xs"
  by (induction xs) auto

lemma add_user_Inr:
  assumes "add_user g i rs s = (Inr m, t)" and ids: "distinct (map ou_id (db_organization_users s))"
  shows "roles_of t (i, org_id g) = Some rs \<and> (\<forall>k. k \<noteq> (i, org_id g) \<longrightarrow> roles_of t k = roles_of s k)"
proof (cases "find (\<lambda>m. membership m = (i, org_id g)) (db_organization_users s)")
  case None
  have find: "optional_op (member_find i (org_id g)) s = (Inr None, s)"
    using None by (simp add: member_find_def optional_op_run first_where_run optional_new)
  obtain row where t: "db_organization_users t = db_organization_users s @ [row]"
    and row: "membership row = (i, org_id g)" "ou_role row = rs"
    using assms(1) by (auto simp: add_user_def member_commit_def member_create_def bindo_Inr_iff find
        insert_checked_Inr_iff)
  have "roles_of t (i, org_id g) = Some rs"
    using None row by (auto simp: roles_of_def t find_None_iff find_new)
  moreover have "roles_of t k = roles_of s k" if "k \<noteq> (i, org_id g)" for k
    using row that by (simp add: roles_of_def t find_not_last)
  ultimately show ?thesis by blast
next
  case (Some m0)
  have find: "optional_op (member_find i (org_id g)) s = (Inr (Some m0), s)"
    using Some by (simp add: member_find_def optional_op_run first_where_run)
  have t: "db_organization_users t = update_where (\<lambda>m. ou_id m = ou_id m0) (\<lambda>m. m\<lparr>ou_role := rs\<rparr>)
      (db_organization_users s)"
    using assms(1) by (auto simp: add_user_def member_commit_def member_create_def bindo_run find update_first_run
        split: list.splits)
  have new: "find (\<lambda>m. membership m = k) (db_organization_users t) =
      map_option (\<lambda>m. if ou_id m = ou_id m0 then m\<lparr>ou_role := rs\<rparr> else m)
        (find (\<lambda>m. membership m = k) (db_organization_users s))" for k
    unfolding t by (rule find_update_where) simp
  have other: "roles_of t k = roles_of s k" if "k \<noteq> (i, org_id g)" for k
  proof (cases "find (\<lambda>m. membership m = k) (db_organization_users s)")
    case None
    then show ?thesis by (simp only: roles_of_def new option.map)
  next
    case (Some m)
    have "membership m = k" "m \<in> set (db_organization_users s)" using find_SomeD [OF Some] by simp_all
    moreover have "membership m0 = (i, org_id g)" "m0 \<in> set (db_organization_users s)"
      using find_SomeD [OF \<open>find _ _ = Some m0\<close>] by simp_all
    ultimately have "ou_id m \<noteq> ou_id m0" using same_row [OF ids, of m m0] that by auto
    then show ?thesis by (simp only: roles_of_def new Some option.map if_False)
  qed
  have "roles_of t (i, org_id g) = Some rs" by (simp only: roles_of_def new Some option.map if_True) simp
  with other show ?thesis by blast
qed

section \<open>Encrypted columns\<close>

lemma encrypt_field_Inr:
  assumes "ring_works c r" and "encrypt_field c r key f s = (Inr x, t)" and "key \<noteq> []"
    and "\<And>k. f = Some k \<Longrightarrow> ascii_text k"
  shows "decrypt_field c r key x u = (Inr f, u) \<and> (\<exists>d. t = s\<lparr>rng_drawn := d\<rparr>)"
proof (cases f)
  case None
  then show ?thesis using assms(2) by (auto simp: encrypt_field_def decrypt_field_def ret_run intro: exI [of _ "rng_drawn s"])
next
  case (Some k)
  then obtain y where y: "encrypt c r k key s = (Inr y, t)" "x = Some y"
    using assms(2,3) by (auto simp: encrypt_field_def bindo_Inr_iff ret_run)
  from encrypt_Inr [OF assms(1) y(1) assms(4) [OF Some]] show ?thesis
    using y(2) Some by (auto simp: decrypt_field_def bindo_run unpanicked_def ret_run)
qed

text \<open>The keys that trackers use are decrypted whether or not there is an encryption key, so without one
  a key that was stored as typed cannot be read.\<close>

lemma clear_tracking_key_unreadable:
  assumes "db_organizations s = [g]" and "org_google_ga_key g = Some k" and "length k < 24"
    and "ring_key r (encryption_key_bytes []) \<noteq> None"
  shows "tracking_keys_for_ids c r [org_id g] [] s =
    (Inl (Some (database_error_new InternalError (Some (Text ''Cannot decrypt data'')))), s)"
  using assms by (auto simp: tracking_keys_for_ids_def decrypt_field_def decrypt_def bindo_run unpanicked_def Let_def)

section \<open>Properties\<close>

text \<open>adding a user to an organization gives the user exactly the given roles there, whether the
  user was a member or not, with the scopes of those roles, and touches no other membership; removing the
  user takes all roles and scopes away again. An administrator has the rights of an owner throughout.\<close>

theorem membership_gives_roles:
  assumes "add_user g (u_id user) rs s = (Inr m, t)" and "\<not> is_admin user"
    and "distinct (map ou_id (db_organization_users s))"
  shows "get_roles_for_user g user t = (Inr rs, t) \<and> get_scopes_for_user g user t = (Inr (get_scopes rs), t) \<and>
    is_member g user t = (Inr True, t) \<and>
    (\<forall>k. k \<noteq> (u_id user, org_id g) \<longrightarrow> roles_of t k = roles_of s k) \<and>
    (\<exists>n v. remove_user g (u_id user) t = (Inr n, v) \<and> get_roles_for_user g user v = (Inr [], v) \<and>
       get_scopes_for_user g user v = (Inr (get_scopes []), v) \<and> is_member g user v = (Inr False, v) \<and>
       (\<forall>k. k \<noteq> (u_id user, org_id g) \<longrightarrow> roles_of v k = roles_of t k)) \<and>
    (is_admin admin \<longrightarrow> get_roles_for_user g admin t = (Inr [OrgOwner], t))"
proof -
  note added = add_user_Inr [OF assms(1,3)]
  let ?k = "(u_id user, org_id g)"
  let ?v = "t\<lparr>db_organization_users := filter (\<lambda>m. membership m \<noteq> ?k) (db_organization_users t)\<rparr>"
  have gone: "roles_of ?v ?k = None" by (simp add: roles_of_def find_None_iff)
  have others: "roles_of ?v k = roles_of t k" if "k \<noteq> ?k" for k
  proof -
    have "find (\<lambda>m. membership m = k) (filter (\<lambda>m. membership m \<noteq> ?k) (db_organization_users t)) =
        find (\<lambda>m. membership m = k) (db_organization_users t)"
      using that by (intro find_filter_other) auto
    then show ?thesis by (simp add: roles_of_def)
  qed
  have "get_scopes_for_user g user t = (Inr (get_scopes rs), t)" "get_scopes_for_user g user ?v = (Inr (get_scopes []), ?v)"
    using added gone assms(2)
    by (simp_all add: get_scopes_for_user_def bindo_run get_roles_run ret_run unwrap_or_def)
  moreover have "is_admin admin \<longrightarrow> get_roles_for_user g admin t = (Inr [OrgOwner], t)"
    by (simp add: get_roles_for_user_def ret_run)
  moreover have "\<exists>n. remove_user g (u_id user) t = (Inr n, ?v)" by (simp add: remove_user_run)
  ultimately show ?thesis
    using added gone others assms(2) by (auto simp: get_roles_run is_member_run unwrap_or_def)
qed

text \<open>What is stored of a key: with an encryption key the nonce and the sealed text in hexadecimal digits, without
  one the text as typed.\<close>

definition stored_as :: "crates \<Rightarrow> ring \<Rightarrow> string \<Rightarrow> string option \<Rightarrow> string option \<Rightarrow> bool" where
  "stored_as c r encryption_key typed stored \<longleftrightarrow>
     (case typed of
        None \<Rightarrow> stored = None
      | Some x \<Rightarrow>
          if encryption_key = [] then stored = Some x
          else \<exists>key nonce data. ring_key r (encryption_key_bytes encryption_key) = Some key \<and>
            ring_seal r key nonce (bytes_of_text x @ replicate (ring_tag_len r) 0) = Some data \<and>
            stored = Some (hex_encode c nonce @ hex_encode c data))"

lemma encrypt_field_stored:
  assumes "encrypt_field c r key f s = (Inr x, t)"
  shows "stored_as c r key f x"
  using assms
  by (auto simp: encrypt_field_def encrypt_def stored_as_def Let_def bindo_Inr_iff ret_run split: option.splits) blast

text \<open>C22: the secret keys that an organization is created with, texts of ASCII characters, are stored sealed when there
  is an encryption key, and as typed when there is none; either way decrypting the stored row with the same
  encryption key gives back what was typed, and changes nothing else of the row.\<close>

theorem organization_keys_round_trip:
  assumes "ring_works c r" and "organization_commit c r n key user s = (Inr g, t)"
    and "\<forall>k \<in> {norg_sendgrid_api_key n, norg_google_ga_key n, norg_facebook_pixel_key n}.
      case k of Some x \<Rightarrow> ascii_text x | None \<Rightarrow> True"
  shows "stored_as c r key (norg_sendgrid_api_key n) (org_sendgrid_api_key g) \<and>
    stored_as c r key (norg_google_ga_key n) (org_google_ga_key g) \<and>
    stored_as c r key (norg_facebook_pixel_key n) (org_facebook_pixel_key g) \<and>
    (\<exists>h. organization_decrypt c r key g = (Inr (), h) \<and>
    org_sendgrid_api_key h = norg_sendgrid_api_key n \<and> org_google_ga_key h = norg_google_ga_key n \<and>
    org_facebook_pixel_key h = norg_facebook_pixel_key n \<and>
    h = g\<lparr>org_sendgrid_api_key := org_sendgrid_api_key h, org_google_ga_key := org_google_ga_key h,
      org_facebook_pixel_key := org_facebook_pixel_key h\<rparr> \<and>
    g \<in> set (db_organizations t) \<and> org_name h = norg_name n)"
proof -
  obtain x s1 y s2 z s3 where
    x: "encrypt_field c r key (norg_sendgrid_api_key n) s = (Inr x, s1)" and
    y: "encrypt_field c r key (norg_google_ga_key n) s1 = (Inr y, s2)" and
    z: "encrypt_field c r key (norg_facebook_pixel_key n) s2 = (Inr z, s3)" and
    rest: "bindo draw_uuid (\<lambda>id'. bindo (gets now) (\<lambda>m.
       bindo (insert_checked db_organizations (\<lambda>rs s. s\<lparr>db_organizations := rs\<rparr>) organization_violation
         (organization_row (n\<lparr>norg_sendgrid_api_key := x, norg_google_ga_key := y,
           norg_facebook_pixel_key := z\<rparr>) id' m) InsertError ''Could not create new organization'') (\<lambda>org.
       bindo (domain_event_commit (domain_event_create OrganizationCreated ''Organization created''
         Organizations (Some (org_id org)) (Some user)
         (Some (new_organization_json (n\<lparr>norg_sendgrid_api_key := x, norg_google_ga_key := y,
           norg_facebook_pixel_key := z\<rparr>))))) (\<lambda>_. ret org)))) s3 = (Inr g, t)"
    using assms(2) by (auto simp: organization_commit_def bindo_Inr_iff Let_def)
  obtain i m where g: "g = organization_row (n\<lparr>norg_sendgrid_api_key := x, norg_google_ga_key := y,
      norg_facebook_pixel_key := z\<rparr>) i m" and stored: "g \<in> set (db_organizations t)"
    using rest by (auto simp: bindo_Inr_iff insert_checked_Inr_iff ret_run domain_event_commit_def)
  have keys: "org_sendgrid_api_key g = x" "org_google_ga_key g = y" "org_facebook_pixel_key g = z"
    by (simp_all add: g organization_row_def)
  note sealed = encrypt_field_stored [OF x] encrypt_field_stored [OF y] encrypt_field_stored [OF z]
  show ?thesis
  proof (cases "key = []")
    case True
    then have "x = norg_sendgrid_api_key n" "y = norg_google_ga_key n" "z = norg_facebook_pixel_key n"
      using x y z by (auto simp: encrypt_field_def ret_run split: option.splits)
    then show ?thesis using True keys stored sealed
      by (simp add: organization_decrypt_def ret_run) (simp add: g organization_row_def)
  next
    case False
    have fields: "decrypt_field c r key x u = (Inr (norg_sendgrid_api_key n), u)"
      "decrypt_field c r key y u = (Inr (norg_google_ga_key n), u)"
      "decrypt_field c r key z u = (Inr (norg_facebook_pixel_key n), u)" for u :: organization
      using encrypt_field_Inr [OF assms(1) x False, where u = u]
        encrypt_field_Inr [OF assms(1) y False, where u = u]
        encrypt_field_Inr [OF assms(1) z False, where u = u] assms(3) by (auto split: option.splits)
    have "organization_decrypt c r key g = (Inr (), g\<lparr>org_sendgrid_api_key := norg_sendgrid_api_key n,
        org_google_ga_key := norg_google_ga_key n, org_facebook_pixel_key := norg_facebook_pixel_key n\<rparr>)"
      using False by (simp add: organization_decrypt_def bindo_run keys fields)
    then show ?thesis using stored sealed by (simp add: g organization_row_def)
  qed
qed

definition sample_club :: db where
  "sample_club = blank_db\<lparr>db_users := [blank_user 1], db_organizations := [blank_organization 7 8],
     db_fee_schedules := [\<lparr>fs_id = 8, fs_name = ''fees'', fs_version = 0, fs_created_at = 0, fs_updated_at = 0\<rparr>]\<rparr>"

theorem membership_gives_roles_witness:
  "\<exists>m t. add_user (blank_organization 7 8) 1 [OrgMember] sample_club = (Inr m, t) \<and>
     get_roles_for_user (blank_organization 7 8) (blank_user 1) t = (Inr [OrgMember], t)"
proof -
  have "\<exists>m t. add_user (blank_organization 7 8) (u_id (blank_user 1)) [OrgMember] sample_club = (Inr m, t)"
    by (simp add: add_user_def member_commit_def member_create_def member_find_def optional_op_run first_where_run
      optional_new bindo_run insert_checked_run member_violation_def refers_def sample_club_def blank_defs)
  then obtain m t where run: "add_user (blank_organization 7 8) (u_id (blank_user 1)) [OrgMember] sample_club = (Inr m, t)"
    by blast
  have "\<not> is_admin (blank_user 1)" "distinct (map ou_id (db_organization_users sample_club))"
    by (simp_all add: is_admin_def has_role_def sample_club_def blank_defs)
  from membership_gives_roles [OF run this] run show ?thesis by (auto simp: blank_defs)
qed

text \<open>Crates whose hexadecimal text has two characters per byte, and a cipher that hides nothing.\<close>

fun bytes_of_pairs :: "string \<Rightarrow> byte list" where
  "bytes_of_pairs (a # b # rest) = of_nat (16 * of_char a + of_char b) # bytes_of_pairs rest"
| "bytes_of_pairs _ = []"

definition pair_crates :: crates where
  "pair_crates = sample_crates\<lparr>hex_decode := \<lambda>t. Some (bytes_of_pairs t),
     hex_encode := \<lambda>bs. concat (map (\<lambda>b. [char_of (unat b div 16), char_of (unat b mod 16)]) bs)\<rparr>"

definition sample_ring :: ring where
  "sample_ring = \<lparr>ring_key = Some, ring_fill = (\<lambda>_ n. Some (replicate n 0)), ring_tag_len = 0,
     ring_seal = (\<lambda>_ _ bs. Some bs), ring_open = (\<lambda>_ _ bs. Some bs)\<rparr>"

lemma bytes_of_pairs_round_trip:
  "bytes_of_pairs (concat (map (\<lambda>b. [char_of (unat b div 16), char_of (unat b mod 16)]) bs)) = bs"
proof (induction bs)
  case (Cons b bs)
  have "unat b < 256" using byte_mod [of b] by (metis mod_less_divisor zero_less_numeral)
  then have "of_char (char_of (unat b div 16)) = unat b div 16" "of_char (char_of (unat b mod 16)) = unat b mod 16"
    by (simp_all add: of_char_of)
  then show ?case using Cons.IH by simp
qed simp

lemma sample_ring_works: "ring_works pair_crates sample_ring"
proof -
  have "length (concat (map (\<lambda>b. [char_of (unat b div 16), char_of (unat b mod 16)]) bs)) = 2 * length bs"
    for bs :: "byte list"
    by (induction bs) simp_all
  then show ?thesis by (simp add: ring_works_def pair_crates_def sample_ring_def bytes_of_pairs_round_trip)
qed

theorem organization_keys_round_trip_witness:
  "\<exists>g t h. organization_commit pair_crates sample_ring
       ((organization_create ''Club'' 8)\<lparr>norg_google_ga_key := Some ''UA''\<rparr>) ''secret'' 1 sample_club = (Inr g, t) \<and>
     organization_decrypt pair_crates sample_ring ''secret'' g = (Inr (), h) \<and> org_google_ga_key h = Some ''UA''"
proof -
  let ?n = "(organization_create ''Club'' 8)\<lparr>norg_google_ga_key := Some ''UA''\<rparr>"
  have "\<exists>g t. organization_commit pair_crates sample_ring ?n ''secret'' 1 sample_club = (Inr g, t)"
    by (simp add: organization_commit_def organization_create_def encrypt_field_def encrypt_def ring_result_def
      sample_ring_def bindo_run ret_run insert_checked_run organization_violation_def organization_row_def
      refers_def domain_event_commit_def sample_club_def blank_defs Let_def)
  then obtain g t where run: "organization_commit pair_crates sample_ring ?n ''secret'' 1 sample_club = (Inr g, t)"
    by blast
  have "\<forall>k \<in> {norg_sendgrid_api_key ?n, norg_google_ga_key ?n, norg_facebook_pixel_key ?n}.
      case k of Some x \<Rightarrow> ascii_text x | None \<Rightarrow> True"
    by (simp add: organization_create_def ascii_text_def)
  from organization_keys_round_trip [OF sample_ring_works run this] run show ?thesis
    by (auto simp: organization_create_def)
qed

end
