(* ===== verification/Catalog.thy ===== *)
theory Catalog imports Organizations begin

text \<open>
  What events are made of: regions, venues and their stages (\<open>db/src/models/regions.rs\<close>, \<open>venues.rs\<close>,
  \<open>stages.rs\<close>), artists and their appearances (\<open>artists.rs\<close>, \<open>event_artists.rs\<close>), and the users who
  are interested in an event (\<open>event_interest.rs\<close>). A private venue or artist belongs to an
  organization and is shown to its members and to administrators.
\<close>

section \<open>Regions\<close>

record region_attributes =
  rega_name :: "string option"

record new_region =
  nreg_name :: string

definition region_violation :: "db \<Rightarrow> region \<Rightarrow> db_error_kind option" where
  "region_violation s r =
     (if list_ex (\<lambda>q. reg_id q \<noteq> reg_id r \<and> reg_name q = reg_name r) (db_regions s)
      then Some UniqueViolation else None)"

definition region_create :: "string \<Rightarrow> new_region" where
  "region_create name = \<lparr>nreg_name = name\<rparr>"

definition region_commit :: "new_region \<Rightarrow> region dbop" where
  "region_commit self =
     bindo draw_uuid (\<lambda>id'.
     bindo (gets now) (\<lambda>n.
     insert_checked db_regions (\<lambda>rs s. s\<lparr>db_regions := rs\<rparr>) region_violation
       \<lparr>reg_id = id', reg_name = nreg_name self, reg_created_at = n, reg_updated_at = n\<rparr>
       InsertError ''Could not create region''))"

definition region_update :: "region \<Rightarrow> region_attributes \<Rightarrow> region dbop" where
  "region_update self attributes =
     bindo (gets now) (\<lambda>n.
     update_checked db_regions (\<lambda>rs s. s\<lparr>db_regions := rs\<rparr>) region_violation (\<lambda>r. reg_id r = reg_id self)
       (\<lambda>r. r\<lparr>reg_name := unwrap_or (rega_name attributes) (reg_name r), reg_updated_at := n\<rparr>)
       UpdateError ''Could not update region'')"

definition region_find :: "uuid \<Rightarrow> region dbop" where
  "region_find id' = first_where db_regions (\<lambda>r. reg_id r = id') QueryError ''Error loading region''"

definition regions_all :: "region list dbop" where
  "regions_all = gets (\<lambda>s. sort_key (\<lambda>r. collate s (reg_name r)) (db_regions s))"

definition region_find_by_name :: "string \<Rightarrow> region option dbop" where
  "region_find_by_name name =
     optional_op (first_where db_regions (\<lambda>r. to_lowercase (reg_name r) = to_lowercase name)
       QueryError ''Error loading region'')"

section \<open>Who sees a private row\<close>

text \<open>The left join with the memberships of one user: a row without an organization, or whose
  organization the user is not a member of, is joined with nothing once.\<close>

definition joined_memberships :: "db \<Rightarrow> uuid \<Rightarrow> uuid option \<Rightarrow> organization_user option list" where
  "joined_memberships s user_id organization_id =
     (case filter (\<lambda>m. Some (ou_organization_id m) = organization_id \<and> ou_user_id m = user_id)
        (db_organization_users s) of
        [] \<Rightarrow> [None] | ms \<Rightarrow> map Some ms)"

definition rows_shown ::
  "db \<Rightarrow> uuid \<Rightarrow> bool \<Rightarrow> ('r \<Rightarrow> uuid option) \<Rightarrow> ('r \<Rightarrow> bool) \<Rightarrow> 'r list \<Rightarrow> 'r list"
where
  "rows_shown s user_id admin organization_of is_private rows =
     concat (map (\<lambda>r. map (\<lambda>_. r) (filter (\<lambda>m. m \<noteq> None \<or> \<not> is_private r \<or> admin)
       (joined_memberships s user_id (organization_of r)))) rows)"

lemma joined_memberships_shown:
  "(\<exists>m \<in> set (joined_memberships s user_id g). m \<noteq> None \<or> P) \<longleftrightarrow>
     P \<or> (\<exists>m \<in> set (db_organization_users s). Some (ou_organization_id m) = g \<and> ou_user_id m = user_id)"
proof (cases "filter (\<lambda>m. Some (ou_organization_id m) = g \<and> ou_user_id m = user_id) (db_organization_users s)")
  case Nil
  then show ?thesis
    by (auto simp: joined_memberships_def filter_empty_conv)
next
  case (Cons m ms)
  then have "m \<in> set (db_organization_users s) \<and> Some (ou_organization_id m) = g \<and> ou_user_id m = user_id"
    by (auto simp: filter_eq_Cons_iff)
  with Cons show ?thesis
    by (auto simp: joined_memberships_def)
qed

lemma set_rows_shown:
  "r \<in> set (rows_shown s user_id admin organization_of is_private rows) \<longleftrightarrow>
     r \<in> set rows \<and> (\<not> is_private r \<or> admin \<or>
       (\<exists>m \<in> set (db_organization_users s).
          Some (ou_organization_id m) = organization_of r \<and> ou_user_id m = user_id))"
  using joined_memberships_shown [of s user_id "organization_of r" "\<not> is_private r \<or> admin"]
  unfolding rows_shown_def by auto

section \<open>Venues\<close>

record venue_attributes =
  va_region_id :: "uuid option"
  va_name :: "string option"
  va_address :: "string option"
  va_city :: "string option"
  va_state :: "string option"
  va_country :: "string option"
  va_postal_code :: "string option"
  va_phone :: "string option option"
  va_promo_image_url :: "string option option"
  va_google_place_id :: "string option option"
  va_latitude :: "f64 option"
  va_longitude :: "f64 option"
  va_timezone :: "string option"

record new_venue =
  nv_name :: string
  nv_region_id :: "uuid option"
  nv_organization_id :: "uuid option"
  nv_address :: string
  nv_city :: string
  nv_state :: string
  nv_country :: string
  nv_postal_code :: string
  nv_phone :: "string option"
  nv_promo_image_url :: "string option"
  nv_google_place_id :: "string option"
  nv_latitude :: "f64 option"
  nv_longitude :: "f64 option"
  nv_timezone :: "string option"

definition venue_violation :: "db \<Rightarrow> venue \<Rightarrow> db_error_kind option" where
  "venue_violation s v =
     (if refers (Some (v_region_id v)) reg_id (db_regions s) \<and>
        refers (v_organization_id v) org_id (db_organizations s)
      then None else Some ForeignKeyViolation)"

definition venue_create :: "string \<Rightarrow> uuid option \<Rightarrow> uuid option \<Rightarrow> string option \<Rightarrow> new_venue" where
  "venue_create name region_id organization_id timezone =
     \<lparr>nv_name = name, nv_region_id = region_id, nv_organization_id = organization_id, nv_address = [],
      nv_city = [], nv_state = [], nv_country = [], nv_postal_code = [], nv_phone = None,
      nv_promo_image_url = None, nv_google_place_id = None, nv_latitude = None, nv_longitude = None,
      nv_timezone = timezone\<rparr>"

definition venue_row :: "new_venue \<Rightarrow> uuid \<Rightarrow> uuid \<Rightarrow> timestamp \<Rightarrow> venue" where
  "venue_row self region_id id' n =
     \<lparr>v_id = id', v_region_id = region_id, v_organization_id = nv_organization_id self,
      v_is_private = False, v_name = nv_name self, v_address = nv_address self, v_city = nv_city self,
      v_state = nv_state self, v_country = nv_country self, v_postal_code = nv_postal_code self,
      v_phone = nv_phone self, v_promo_image_url = nv_promo_image_url self, v_created_at = n,
      v_updated_at = n, v_google_place_id = nv_google_place_id self, v_latitude = nv_latitude self,
      v_longitude = nv_longitude self, v_timezone = nv_timezone self\<rparr>"

text \<open>A venue without a region gets the region with the name of its state, which is created when there is
  none.\<close>

definition venue_commit :: "new_venue \<Rightarrow> venue dbop" where
  "venue_commit self =
     bindo (case nv_region_id self of
         Some region_id \<Rightarrow> ret region_id
       | None \<Rightarrow>
           bindo (region_find_by_name (nv_state self)) (\<lambda>found.
           bindo (case found of Some r \<Rightarrow> ret r | None \<Rightarrow> region_commit (region_create (nv_state self))) (\<lambda>region.
           ret (reg_id region)))) (\<lambda>region_id.
     bindo draw_uuid (\<lambda>id'.
     bindo (gets now) (\<lambda>n.
     insert_checked db_venues (\<lambda>rs s. s\<lparr>db_venues := rs\<rparr>) venue_violation (venue_row self region_id id' n)
       InsertError ''Could not create new venue'')))"

definition venue_update :: "venue \<Rightarrow> venue_attributes \<Rightarrow> venue dbop" where
  "venue_update self attributes =
     bindo (gets now) (\<lambda>n.
     update_checked db_venues (\<lambda>rs s. s\<lparr>db_venues := rs\<rparr>) venue_violation (\<lambda>v. v_id v = v_id self)
       (\<lambda>v. v\<lparr>v_region_id := unwrap_or (va_region_id attributes) (v_region_id v),
          v_name := unwrap_or (va_name attributes) (v_name v),
          v_address := unwrap_or (va_address attributes) (v_address v),
          v_city := unwrap_or (va_city attributes) (v_city v),
          v_state := unwrap_or (va_state attributes) (v_state v),
          v_country := unwrap_or (va_country attributes) (v_country v),
          v_postal_code := unwrap_or (va_postal_code attributes) (v_postal_code v),
          v_phone := unwrap_or (va_phone attributes) (v_phone v),
          v_promo_image_url := unwrap_or (va_promo_image_url attributes) (v_promo_image_url v),
          v_google_place_id := unwrap_or (va_google_place_id attributes) (v_google_place_id v),
          v_latitude := or_else (va_latitude attributes) (v_latitude v),
          v_longitude := or_else (va_longitude attributes) (v_longitude v),
          v_timezone := or_else (va_timezone attributes) (v_timezone v),
          v_updated_at := n\<rparr>)
       UpdateError ''Could not update venue'')"

definition venue_find :: "uuid \<Rightarrow> venue dbop" where
  "venue_find id' = first_where db_venues (\<lambda>v. v_id v = id') QueryError ''Error loading venue''"

text \<open>The second \<open>order_by\<close> of the query replaces the first.\<close>

definition venue_find_by_ids :: "uuid list \<Rightarrow> venue list dbop" where
  "venue_find_by_ids venue_ids = gets (\<lambda>s.
     sort_key v_id (filter (\<lambda>v. v_id v \<in> set venue_ids) (db_venues s)))"

definition venues_by_name :: "db \<Rightarrow> venue list \<Rightarrow> venue list" where
  "venues_by_name s vs = sort_key (\<lambda>v. collate s (v_name v)) vs"

definition venues_all :: "user_row option \<Rightarrow> venue list dbop" where
  "venues_all user = gets (\<lambda>s. venues_by_name s
     (case user of
        Some u \<Rightarrow> rows_shown s (u_id u) (is_admin u) v_organization_id v_is_private (db_venues s)
      | None \<Rightarrow> filter (\<lambda>v. \<not> v_is_private v) (db_venues s)))"

definition venue_find_for_organization :: "uuid option \<Rightarrow> uuid \<Rightarrow> venue list dbop" where
  "venue_find_for_organization user_id organization_id = gets (\<lambda>s. venues_by_name s
     (filter (\<lambda>v. v_organization_id v = Some organization_id) (case user_id of
        Some u \<Rightarrow> rows_shown s u False v_organization_id v_is_private (db_venues s)
      | None \<Rightarrow> filter (\<lambda>v. \<not> v_is_private v) (db_venues s))))"

definition venue_add_to_organization :: "venue \<Rightarrow> uuid \<Rightarrow> venue dbop" where
  "venue_add_to_organization self organization_id =
     update_checked db_venues (\<lambda>rs s. s\<lparr>db_venues := rs\<rparr>) venue_violation (\<lambda>v. v_id v = v_id self)
       (\<lambda>v. v\<lparr>v_organization_id := Some organization_id\<rparr>) UpdateError ''Could not update venue''"

definition venue_set_privacy :: "venue \<Rightarrow> bool \<Rightarrow> venue dbop" where
  "venue_set_privacy self is_private =
     bindo (gets now) (\<lambda>n.
     update_first db_venues (\<lambda>rs s. s\<lparr>db_venues := rs\<rparr>) (\<lambda>v. v_id v = v_id self)
       (\<lambda>v. v\<lparr>v_is_private := is_private, v_updated_at := n\<rparr>)
       UpdateError ''Could not update is_private for artist'')"

definition optional_organization :: "uuid option \<Rightarrow> organization option dbop" where
  "optional_organization organization_id =
     (case organization_id of
        Some id' \<Rightarrow> bindo (organization_find id') (\<lambda>g. ret (Some g))
      | None \<Rightarrow> ret None)"

definition venue_organization :: "venue \<Rightarrow> organization option dbop" where
  "venue_organization self = optional_organization (v_organization_id self)"

record display_venue =
  dv_id :: uuid
  dv_name :: string
  dv_address :: string
  dv_city :: string
  dv_state :: string
  dv_country :: string
  dv_postal_code :: string
  dv_phone :: "string option"
  dv_promo_image_url :: "string option"

record venue_info =
  vi_id :: uuid
  vi_name :: string
  vi_timezone :: "string option"

definition display_venue_of :: "venue \<Rightarrow> display_venue" where
  "display_venue_of venue =
     \<lparr>dv_id = v_id venue, dv_name = v_name venue, dv_address = v_address venue, dv_city = v_city venue,
      dv_state = v_state venue, dv_country = v_country venue, dv_postal_code = v_postal_code venue,
      dv_phone = v_phone venue, dv_promo_image_url = v_promo_image_url venue\<rparr>"

section \<open>Stages\<close>

record stage_attributes =
  sta_name :: "string option"
  sta_description :: "string option option"
  sta_capacity :: "int option option"

record new_stage =
  nst_venue_id :: uuid
  nst_name :: string
  nst_description :: "string option"
  nst_capacity :: "int option"

text \<open>The schema has a unique index, and no foreign key on the venue.\<close>

definition stage_violation :: "db \<Rightarrow> stage \<Rightarrow> db_error_kind option" where
  "stage_violation s st =
     (if list_ex (\<lambda>q. st_id q \<noteq> st_id st \<and> st_venue_id q = st_venue_id st \<and> st_name q = st_name st) (db_stages s)
      then Some UniqueViolation else None)"

definition stage_create :: "uuid \<Rightarrow> string \<Rightarrow> string option \<Rightarrow> int option \<Rightarrow> new_stage" where
  "stage_create venue_id name description capacity =
     \<lparr>nst_venue_id = venue_id, nst_name = name, nst_description = description, nst_capacity = capacity\<rparr>"

definition stage_commit :: "new_stage \<Rightarrow> stage dbop" where
  "stage_commit self =
     bindo draw_uuid (\<lambda>id'.
     bindo (gets now) (\<lambda>n.
     insert_checked db_stages (\<lambda>rs s. s\<lparr>db_stages := rs\<rparr>) stage_violation
       \<lparr>st_id = id', st_venue_id = nst_venue_id self, st_name = nst_name self,
        st_description = nst_description self, st_capacity = nst_capacity self, st_created_at = n,
        st_updated_at = n\<rparr> InsertError ''Could not create stage''))"

definition stage_find :: "uuid \<Rightarrow> stage dbop" where
  "stage_find id' = first_where db_stages (\<lambda>st. st_id st = id') QueryError ''Error loading stage''"

definition stage_find_by_venue_id :: "uuid \<Rightarrow> stage list dbop" where
  "stage_find_by_venue_id venue_id = gets (\<lambda>s.
     sort_key (\<lambda>st. collate s (st_name st)) (filter (\<lambda>st. st_venue_id st = venue_id) (db_stages s)))"

definition stage_update :: "stage \<Rightarrow> stage_attributes \<Rightarrow> stage dbop" where
  "stage_update self attributes =
     bindo (gets now) (\<lambda>n.
     update_checked db_stages (\<lambda>rs s. s\<lparr>db_stages := rs\<rparr>) stage_violation (\<lambda>st. st_id st = st_id self)
       (\<lambda>st. st\<lparr>st_name := unwrap_or (sta_name attributes) (st_name st),
          st_description := unwrap_or (sta_description attributes) (st_description st),
          st_capacity := unwrap_or (sta_capacity attributes) (st_capacity st), st_updated_at := n\<rparr>)
       UpdateError ''Could not update stage'')"

text \<open>Deleting a stage or an artist deletes the appearances that refer to it (\<open>ON DELETE CASCADE\<close>).\<close>

definition stage_destroy :: "stage \<Rightarrow> nat dbop" where
  "stage_destroy self =
     bindo (modify (\<lambda>s. s\<lparr>db_event_artists := filter (\<lambda>ea. ea_stage_id ea \<noteq> Some (st_id self)) (db_event_artists s)\<rparr>)) (\<lambda>_.
     delete_where db_stages (\<lambda>rs s. s\<lparr>db_stages := rs\<rparr>) (\<lambda>st. st_id st = st_id self))"

section \<open>Artists\<close>

record new_artist =
  na_organization_id :: "uuid option"
  na_name :: string
  na_bio :: string
  na_image_url :: "string option"
  na_thumb_image_url :: "string option"
  na_website_url :: "string option"
  na_youtube_video_urls :: "string list option"
  na_facebook_username :: "string option"
  na_instagram_username :: "string option"
  na_snapchat_username :: "string option"
  na_soundcloud_username :: "string option"
  na_bandcamp_username :: "string option"
  na_spotify_id :: "string option"
  na_other_image_urls :: "string list option"

record artist_attributes =
  ara_name :: "string option"
  ara_bio :: "string option"
  ara_image_url :: "string option option"
  ara_thumb_image_url :: "string option option"
  ara_website_url :: "string option option"
  ara_youtube_video_urls :: "string list option"
  ara_facebook_username :: "string option option"
  ara_instagram_username :: "string option option"
  ara_snapchat_username :: "string option option"
  ara_soundcloud_username :: "string option option"
  ara_bandcamp_username :: "string option option"

definition artist_attributes_new :: artist_attributes where
  "artist_attributes_new =
     \<lparr>ara_name = None, ara_bio = None, ara_image_url = None, ara_thumb_image_url = None,
      ara_website_url = None, ara_youtube_video_urls = None, ara_facebook_username = None,
      ara_instagram_username = None, ara_snapchat_username = None, ara_soundcloud_username = None,
      ara_bandcamp_username = None\<rparr>"

text \<open>The first address that is not a URL is reported; the test is the validator crate's.\<close>

fun validate_urls :: "(string \<Rightarrow> bool) \<Rightarrow> string list \<Rightarrow> validation_error + unit" where
  "validate_urls valid_url [] = Inr ()"
| "validate_urls valid_url (url # urls) =
     (if \<not> valid_url url
      then Inl (create_validation_error ''url'' ''URL is invalid'')
      else validate_urls valid_url urls)"

definition artist_validate ::
  "(string \<Rightarrow> bool) \<Rightarrow> string option option \<Rightarrow> string option option \<Rightarrow> string option option \<Rightarrow>
   string list option \<Rightarrow> validation_errors + unit"
where
  "artist_validate valid_url image_url thumb_image_url website_url youtube_video_urls =
     append_validation_error
       (append_validation_error
         (append_validation_error
           (append_validation_error (Inr ()) ''image_url''
             (url_check valid_url image_url ''Image URL is invalid''))
           ''thumb_image_url'' (url_check valid_url thumb_image_url ''Thumb image URL is invalid''))
         ''website_url'' (url_check valid_url website_url ''Website URL is invalid''))
       ''youtube_video_urls''
       (case youtube_video_urls of Some urls \<Rightarrow> validate_urls valid_url urls | None \<Rightarrow> Inr ())"

definition artist_violation :: "db \<Rightarrow> artist \<Rightarrow> db_error_kind option" where
  "artist_violation s a =
     (if refers (art_organization_id a) org_id (db_organizations s) then None else Some ForeignKeyViolation)"

definition artist_row :: "new_artist \<Rightarrow> uuid \<Rightarrow> timestamp \<Rightarrow> artist" where
  "artist_row self id' n =
     \<lparr>art_id = id', art_organization_id = na_organization_id self, art_is_private = False,
      art_name = na_name self, art_bio = na_bio self, art_image_url = na_image_url self,
      art_thumb_image_url = na_thumb_image_url self, art_website_url = na_website_url self,
      art_youtube_video_urls = unwrap_or (na_youtube_video_urls self) [],
      art_facebook_username = na_facebook_username self,
      art_instagram_username = na_instagram_username self,
      art_snapchat_username = na_snapchat_username self,
      art_soundcloud_username = na_soundcloud_username self,
      art_bandcamp_username = na_bandcamp_username self, art_spotify_id = na_spotify_id self,
      art_created_at = n, art_updated_at = n, art_other_image_urls = na_other_image_urls self\<rparr>"

definition artist_commit :: "(string \<Rightarrow> bool) \<Rightarrow> new_artist \<Rightarrow> artist dbop" where
  "artist_commit valid_url self =
     bindo (check_validation (artist_validate valid_url (Some (na_image_url self))
       (Some (na_thumb_image_url self)) (Some (na_website_url self)) (na_youtube_video_urls self))) (\<lambda>_.
     bindo draw_uuid (\<lambda>id'.
     bindo (gets now) (\<lambda>n.
     insert_checked db_artists (\<lambda>rs s. s\<lparr>db_artists := rs\<rparr>) artist_violation (artist_row self id' n)
       InsertError ''Could not create new artist'')))"

text \<open>What the artist has is kept; the other artist fills the gaps. \<open>other_image_urls\<close> is not merged.\<close>

definition artist_merge :: "new_artist \<Rightarrow> new_artist \<Rightarrow> new_artist" where
  "artist_merge self new_artist' =
     self\<lparr>na_bio := (if na_bio self = [] then na_bio new_artist' else na_bio self),
       na_image_url := or_else (na_image_url self) (na_image_url new_artist'),
       na_thumb_image_url := or_else (na_thumb_image_url self) (na_thumb_image_url new_artist'),
       na_website_url := or_else (na_website_url self) (na_website_url new_artist'),
       na_youtube_video_urls := or_else (na_youtube_video_urls self) (na_youtube_video_urls new_artist'),
       na_facebook_username := or_else (na_facebook_username self) (na_facebook_username new_artist'),
       na_instagram_username := or_else (na_instagram_username self) (na_instagram_username new_artist'),
       na_snapchat_username := or_else (na_snapchat_username self) (na_snapchat_username new_artist'),
       na_soundcloud_username := or_else (na_soundcloud_username self) (na_soundcloud_username new_artist'),
       na_bandcamp_username := or_else (na_bandcamp_username self) (na_bandcamp_username new_artist'),
       na_spotify_id := or_else (na_spotify_id self) (na_spotify_id new_artist')\<rparr>"

definition artist_create :: "string \<Rightarrow> uuid option \<Rightarrow> string \<Rightarrow> string \<Rightarrow> new_artist" where
  "artist_create name organization_id bio website_url =
     \<lparr>na_organization_id = organization_id, na_name = name, na_bio = bio, na_image_url = None,
      na_thumb_image_url = None, na_website_url = Some website_url, na_youtube_video_urls = None,
      na_facebook_username = None, na_instagram_username = None, na_snapchat_username = None,
      na_soundcloud_username = None, na_bandcamp_username = None, na_spotify_id = None,
      na_other_image_urls = None\<rparr>"

definition artists_by_name :: "db \<Rightarrow> artist list \<Rightarrow> artist list" where
  "artists_by_name s rows = sort_key (\<lambda>a. collate s (art_name a)) rows"

definition artists_shown :: "db \<Rightarrow> user_row option \<Rightarrow> artist list" where
  "artists_shown s user =
     (case user of
        Some u \<Rightarrow> rows_shown s (u_id u) (is_admin u) art_organization_id art_is_private (db_artists s)
      | None \<Rightarrow> filter (\<lambda>a. \<not> art_is_private a) (db_artists s))"

definition artist_search :: "user_row option \<Rightarrow> string option \<Rightarrow> artist list dbop" where
  "artist_search user query_filter =
     (let query_like = (case query_filter of Some n \<Rightarrow> ''%'' @ escape_text n @ ''%'' | None \<Rightarrow> ''%'')
      in gets (\<lambda>s. artists_by_name s (filter (\<lambda>a. ilike (art_name a) query_like) (artists_shown s user))))"

definition artists_all :: "user_row option \<Rightarrow> artist list dbop" where
  "artists_all user = gets (\<lambda>s. artists_by_name s (artists_shown s user))"

definition artist_find :: "uuid \<Rightarrow> artist dbop" where
  "artist_find id' = first_where db_artists (\<lambda>a. art_id a = id') QueryError ''Error loading artist''"

definition artist_find_for_organization :: "uuid option \<Rightarrow> uuid \<Rightarrow> artist list dbop" where
  "artist_find_for_organization user_id organization_id = gets (\<lambda>s. artists_by_name s
     (filter (\<lambda>a. art_organization_id a = Some organization_id) (case user_id of
        Some u \<Rightarrow> rows_shown s u False art_organization_id art_is_private (db_artists s)
      | None \<Rightarrow> filter (\<lambda>a. \<not> art_is_private a) (db_artists s))))"

definition artist_update :: "(string \<Rightarrow> bool) \<Rightarrow> artist \<Rightarrow> artist_attributes \<Rightarrow> artist dbop" where
  "artist_update valid_url self attributes =
     bindo (check_validation (artist_validate valid_url (ara_image_url attributes)
       (ara_thumb_image_url attributes) (ara_website_url attributes) (ara_youtube_video_urls attributes))) (\<lambda>_.
     bindo (gets now) (\<lambda>n.
     update_first db_artists (\<lambda>rs s. s\<lparr>db_artists := rs\<rparr>) (\<lambda>a. art_id a = art_id self)
       (\<lambda>a. a\<lparr>art_name := unwrap_or (ara_name attributes) (art_name a),
          art_bio := unwrap_or (ara_bio attributes) (art_bio a),
          art_image_url := unwrap_or (ara_image_url attributes) (art_image_url a),
          art_thumb_image_url := unwrap_or (ara_thumb_image_url attributes) (art_thumb_image_url a),
          art_website_url := unwrap_or (ara_website_url attributes) (art_website_url a),
          art_youtube_video_urls := unwrap_or (ara_youtube_video_urls attributes) (art_youtube_video_urls a),
          art_facebook_username := unwrap_or (ara_facebook_username attributes) (art_facebook_username a),
          art_instagram_username := unwrap_or (ara_instagram_username attributes) (art_instagram_username a),
          art_snapchat_username := unwrap_or (ara_snapchat_username attributes) (art_snapchat_username a),
          art_soundcloud_username := unwrap_or (ara_soundcloud_username attributes) (art_soundcloud_username a),
          art_bandcamp_username := unwrap_or (ara_bandcamp_username attributes) (art_bandcamp_username a),
          art_updated_at := n\<rparr>)
       UpdateError ''Error updating artist''))"

definition artist_destroy :: "artist \<Rightarrow> nat dbop" where
  "artist_destroy self =
     bindo (modify (\<lambda>s. s\<lparr>db_event_artists := filter (\<lambda>ea. ea_artist_id ea \<noteq> art_id self) (db_event_artists s)\<rparr>)) (\<lambda>_.
     delete_where db_artists (\<lambda>rs s. s\<lparr>db_artists := rs\<rparr>) (\<lambda>a. art_id a = art_id self))"

definition artist_organization :: "artist \<Rightarrow> organization option dbop" where
  "artist_organization self = optional_organization (art_organization_id self)"

definition artist_set_privacy :: "artist \<Rightarrow> bool \<Rightarrow> artist dbop" where
  "artist_set_privacy self is_private =
     bindo (gets now) (\<lambda>n.
     update_first db_artists (\<lambda>rs s. s\<lparr>db_artists := rs\<rparr>) (\<lambda>a. art_id a = art_id self)
       (\<lambda>a. a\<lparr>art_is_private := is_private, art_updated_at := n\<rparr>)
       UpdateError ''Could not update is_private for artist'')"

section \<open>Appearances\<close>

record new_event_artist =
  nea_event_id :: uuid
  nea_artist_id :: uuid
  nea_rank :: int
  nea_set_time :: "timestamp option"
  nea_importance :: int
  nea_stage_id :: "uuid option"

record display_event_artist =
  dea_event_id :: uuid
  dea_artist :: artist
  dea_rank :: int
  dea_set_time :: "timestamp option"
  dea_importance :: int
  dea_stage_id :: "uuid option"

definition event_artist_violation :: "db \<Rightarrow> event_artist \<Rightarrow> db_error_kind option" where
  "event_artist_violation s a =
     (if list_ex (\<lambda>b. ea_id b \<noteq> ea_id a \<and> ea_event_id b = ea_event_id a \<and> ea_artist_id b = ea_artist_id a)
        (db_event_artists s)
      then Some UniqueViolation
      else if refers (Some (ea_event_id a)) e_id (db_events s) \<and>
        refers (Some (ea_artist_id a)) art_id (db_artists s) \<and> refers (ea_stage_id a) st_id (db_stages s)
      then None else Some ForeignKeyViolation)"

definition event_artist_create ::
  "uuid \<Rightarrow> uuid \<Rightarrow> int \<Rightarrow> timestamp option \<Rightarrow> int \<Rightarrow> uuid option \<Rightarrow> new_event_artist"
where
  "event_artist_create event_id artist_id rank' set_time importance stage_id =
     \<lparr>nea_event_id = event_id, nea_artist_id = artist_id, nea_rank = rank', nea_set_time = set_time,
      nea_importance = importance, nea_stage_id = stage_id\<rparr>"

definition event_artist_commit :: "new_event_artist \<Rightarrow> event_artist dbop" where
  "event_artist_commit self =
     bindo draw_uuid (\<lambda>id'.
     bindo (gets now) (\<lambda>n.
     insert_checked db_event_artists (\<lambda>rs s. s\<lparr>db_event_artists := rs\<rparr>) event_artist_violation
       \<lparr>ea_id = id', ea_event_id = nea_event_id self, ea_artist_id = nea_artist_id self,
        ea_rank = nea_rank self, ea_set_time = nea_set_time self, ea_created_at = n, ea_updated_at = n,
        ea_importance = nea_importance self, ea_stage_id = nea_stage_id self\<rparr>
       InsertError ''Could not add artist to event''))"

definition event_artist_find_all_from_event :: "uuid \<Rightarrow> display_event_artist list dbop" where
  "event_artist_find_all_from_event event_id = gets (\<lambda>s.
     concat (map (\<lambda>ea. map (\<lambda>a. \<lparr>dea_event_id = ea_event_id ea, dea_artist = a, dea_rank = ea_rank ea,
         dea_set_time = ea_set_time ea, dea_importance = ea_importance ea, dea_stage_id = ea_stage_id ea\<rparr>)
       (filter (\<lambda>a. art_id a = ea_artist_id ea) (db_artists s)))
       (filter (\<lambda>ea. ea_event_id ea = event_id) (db_event_artists s))))"

definition event_artist_clear_all_from_event :: "uuid \<Rightarrow> unit dbop" where
  "event_artist_clear_all_from_event event_id =
     bindo (delete_where db_event_artists (\<lambda>rs s. s\<lparr>db_event_artists := rs\<rparr>) (\<lambda>ea. ea_event_id ea = event_id))
       (\<lambda>_. ret ())"

section \<open>Interest in an event\<close>

record new_event_interest =
  nei_event_id :: uuid
  nei_user_id :: uuid

record display_event_interested_user =
  deu_user_id :: uuid
  deu_first_name :: string
  deu_last_name :: string
  deu_thumb_profile_pic_url :: "string option"

definition interest_violation :: "db \<Rightarrow> event_interest \<Rightarrow> db_error_kind option" where
  "interest_violation s i =
     (if list_ex (\<lambda>j. ei_id j \<noteq> ei_id i \<and> ei_event_id j = ei_event_id i \<and> ei_user_id j = ei_user_id i)
        (db_event_interest s)
      then Some UniqueViolation
      else if refers (Some (ei_event_id i)) e_id (db_events s) \<and> refers (Some (ei_user_id i)) u_id (db_users s)
      then None else Some ForeignKeyViolation)"

definition interest_create :: "uuid \<Rightarrow> uuid \<Rightarrow> new_event_interest" where
  "interest_create event_id user_id = \<lparr>nei_event_id = event_id, nei_user_id = user_id\<rparr>"

definition interest_commit :: "new_event_interest \<Rightarrow> event_interest dbop" where
  "interest_commit self =
     bindo draw_uuid (\<lambda>id'.
     bindo (gets now) (\<lambda>n.
     insert_checked db_event_interest (\<lambda>rs s. s\<lparr>db_event_interest := rs\<rparr>) interest_violation
       \<lparr>ei_id = id', ei_event_id = nei_event_id self, ei_user_id = nei_user_id self, ei_created_at = n,
        ei_updated_at = n\<rparr> InsertError ''Could not create new event like''))"

definition interest_remove :: "uuid \<Rightarrow> uuid \<Rightarrow> nat dbop" where
  "interest_remove event_id user_id =
     delete_where db_event_interest (\<lambda>rs s. s\<lparr>db_event_interest := rs\<rparr>)
       (\<lambda>i. ei_user_id i = user_id \<and> ei_event_id i = event_id)"

definition find_interest_by_event_ids_for_user :: "uuid list \<Rightarrow> uuid \<Rightarrow> (uuid \<rightharpoonup> bool) dbop" where
  "find_interest_by_event_ids_for_user event_ids user_id =
     bindo (select_where db_event_interest (\<lambda>i. ei_event_id i \<in> set event_ids \<and> ei_user_id i = user_id)) (\<lambda>result'.
     let found_records = map ei_event_id result' in
     ret (foldl (\<lambda>event_interest_map event_id.
       event_interest_map(event_id \<mapsto> event_id \<in> set found_records)) Map.empty event_ids))"

definition total_interest :: "uuid \<Rightarrow> u32 dbop" where
  "total_interest event_id =
     bindo (select_where db_event_interest (\<lambda>i. ei_event_id i = event_id)) (\<lambda>result'.
     ret (of_nat (length result')))"

definition user_interest :: "uuid \<Rightarrow> uuid \<Rightarrow> bool dbop" where
  "user_interest event_id user_id =
     bindo (select_where db_event_interest (\<lambda>i. ei_event_id i = event_id \<and> ei_user_id i = user_id)) (\<lambda>result'.
     ret (result' \<noteq> []))"

text \<open>The offset is computed with \<open>i64\<close> here.\<close>

definition list_interested_users ::
  "uuid \<Rightarrow> uuid \<Rightarrow> u32 \<Rightarrow> u32 \<Rightarrow> display_event_interested_user payload dbop"
where
  "list_interested_users event_id user_id page limit = gets (\<lambda>s.
     let rows = filter (\<lambda>i. ei_event_id i = event_id \<and> ei_user_id i \<noteq> user_id) (db_event_interest s);
         total_interests = length rows
     in if total_interests > 0
        then let event_interest_list = take (unat limit) (drop (unat limit * unat page)
               (concat (map (\<lambda>i. filter (\<lambda>u. u_id u = ei_user_id i) (db_users s)) (sort_key ei_user_id rows))))
          in with_total total_interests (payload_new (map (\<lambda>u.
               \<lparr>deu_user_id = u_id u, deu_first_name = unwrap_or (u_first_name u) [],
                deu_last_name = unwrap_or (u_last_name u) [],
                deu_thumb_profile_pic_url = u_thumb_profile_pic_url u\<rparr>) event_interest_list)
               (paging_new page limit))
        else payload_empty (paging_new page limit))"

section \<open>Footprints\<close>

lemma writes_regions [footprints]:
  "RegionsT \<in> W \<Longrightarrow> steps (writes W) (region_commit nr)"
  "RegionsT \<in> W \<Longrightarrow> steps (writes W) (region_update r ra)"
  "steps (writes W) (region_find i)"
  "steps (writes W) (region_find_by_name name)"
  unfolding region_commit_def region_update_def region_find_def region_find_by_name_def
  by (auto intro!: footprints)

lemma writes_venues [footprints]:
  "VenuesT \<in> W \<Longrightarrow> RegionsT \<in> W \<Longrightarrow> steps (writes W) (venue_commit nv)"
  "VenuesT \<in> W \<Longrightarrow> steps (writes W) (venue_update v va)"
  "VenuesT \<in> W \<Longrightarrow> steps (writes W) (venue_add_to_organization v g)"
  "VenuesT \<in> W \<Longrightarrow> steps (writes W) (venue_set_privacy v p)"
  "steps (writes W) (venue_find i)"
  unfolding venue_commit_def venue_update_def venue_add_to_organization_def venue_set_privacy_def venue_find_def
  by (auto intro!: footprints)

section \<open>Visibility\<close>

text \<open>Listing venues shows a signed-in user exactly the public venues and the private venues of the
  organizations the user is a member of; an administrator sees all venues, and a visitor the public ones
  only.\<close>

theorem private_venues_shown_to_members:
  "\<exists>vs. venues_all user s = (Inr vs, s) \<and>
     set vs = {v \<in> set (db_venues s). if v_is_private v
       then \<exists>u. user = Some u \<and> (is_admin u \<or> (\<exists>m \<in> set (db_organization_users s).
         Some (ou_organization_id m) = v_organization_id v \<and> ou_user_id m = u_id u))
       else True}"
  unfolding venues_all_def venues_by_name_def
  by (cases user) (auto simp: set_rows_shown)

section \<open>References between rows\<close>

lemma refers_append: "refers x key rs \<Longrightarrow> refers x key (rs @ rs')"
  by (cases x) (auto simp: refers_def)

lemma refers_update_where: "(\<And>r. key (f r) = key r) \<Longrightarrow> refers x key (update_where P f rs) = refers x key rs"
  by (cases x) (auto simp: refers_def update_where_def list_ex_iff)

lemma keeps_insert_checked:
  assumes "\<And>s. I s \<Longrightarrow> violation s r = None \<Longrightarrow> I (put (get s @ [r]) s)"
  shows "keeps I (insert_checked get put violation r code message)"
  using assms by (auto intro!: keepsI simp: insert_checked_run split: option.split)

lemma keeps_update_first:
  assumes "\<And>s. I s \<Longrightarrow> I (put (update_where P f (get s)) s)"
  shows "keeps I (update_first get put P f code message)"
  using assms by (auto intro!: keepsI)

lemma keeps_update_checked:
  assumes "\<And>s. I s \<Longrightarrow> (\<And>r. r \<in> set (get s) \<Longrightarrow> P r \<Longrightarrow> violation s (f r) = None) \<Longrightarrow>
    I (put (update_where P f (get s)) s)"
  shows "keeps I (update_checked get put violation P f code message)"
proof (rule keepsI)
  fix s assume "I s"
  show "I (snd (update_checked get put violation P f code message s))"
  proof (cases "filter (\<lambda>k. k \<noteq> None) (map (\<lambda>r. violation s (f r)) (filter P (get s)))")
    case Nil
    then have "violation s (f r) = None" if "r \<in> set (get s)" "P r" for r
      using that by (auto simp: filter_empty_conv)
    with Nil \<open>I s\<close> assms show ?thesis by (simp add: update_checked_def)
  next
    case (Cons k ks)
    then have "k \<in> set (filter (\<lambda>k. k \<noteq> None) (map (\<lambda>r. violation s (f r)) (filter P (get s))))" by simp
    then obtain e where "k = Some e" by auto
    with Cons \<open>I s\<close> show ?thesis by (simp add: update_checked_def)
  qed
qed

text \<open>What the rows of the catalog may refer to.\<close>

definition catalog_typed :: "db \<Rightarrow> bool" where
  "catalog_typed s \<longleftrightarrow>
     (\<forall>v \<in> set (db_venues s). refers (Some (v_region_id v)) reg_id (db_regions s) \<and>
        refers (v_organization_id v) org_id (db_organizations s)) \<and>
     (\<forall>a \<in> set (db_artists s). refers (art_organization_id a) org_id (db_organizations s)) \<and>
     (\<forall>ea \<in> set (db_event_artists s). refers (Some (ea_event_id ea)) e_id (db_events s) \<and>
        refers (Some (ea_artist_id ea)) art_id (db_artists s) \<and> refers (ea_stage_id ea) st_id (db_stages s)) \<and>
     (\<forall>i \<in> set (db_event_interest s). refers (Some (ei_event_id i)) e_id (db_events s) \<and>
        refers (Some (ei_user_id i)) u_id (db_users s))"

lemma keeps_draw_typed: "keeps catalog_typed draw_uuid"
  by (auto intro!: keepsI simp: draw_uuid_def catalog_typed_def)

lemmas typed_intros = keeps_control keeps_draw_typed keeps_insert_checked keeps_update_checked
  keeps_update_first keeps_optional_op keeps_errors

lemma keeps_delete_where:
  assumes "\<And>s. I s \<Longrightarrow> I (put (filter (\<lambda>r. \<not> P r) (get s)) s)"
  shows "keeps I (delete_where get put P)"
  using assms by (auto intro!: keepsI)

lemma keeps_pure: "(\<And>s. snd (m s) = s) \<Longrightarrow> keeps I m"
  by (rule keepsI) simp

lemma keeps_case_option: "keeps I f \<Longrightarrow> (\<And>x. keeps I (g x)) \<Longrightarrow> keeps I (case v of None \<Rightarrow> f | Some x \<Rightarrow> g x)"
  by (cases v) simp_all

lemma violation_None:
  "venue_violation s v = None \<longleftrightarrow>
     refers (Some (v_region_id v)) reg_id (db_regions s) \<and> refers (v_organization_id v) org_id (db_organizations s)"
  "artist_violation s a = None \<longleftrightarrow> refers (art_organization_id a) org_id (db_organizations s)"
  by (simp_all add: venue_violation_def artist_violation_def)

lemma regions_typed:
  "keeps catalog_typed (region_commit nr)" "keeps catalog_typed (region_update r ra)"
  unfolding region_commit_def region_update_def
  by (intro typed_intros allI; simp add: catalog_typed_def refers_append refers_update_where)+

lemma stages_typed:
  "keeps catalog_typed (stage_commit ns)" "keeps catalog_typed (stage_update st sa)"
  unfolding stage_commit_def stage_update_def
  by (intro typed_intros allI; simp add: catalog_typed_def refers_append refers_update_where)+

lemma venue_commit_typed: "keeps catalog_typed (venue_commit nv)"
proof -
  have row: "keeps catalog_typed (insert_checked db_venues (\<lambda>rs s. s\<lparr>db_venues := rs\<rparr>) venue_violation r c m)" for r c m
    by (rule keeps_insert_checked) (simp add: catalog_typed_def violation_None)
  have find: "keeps catalog_typed (region_find_by_name name)" for name
    by (rule keeps_pure) (simp add: region_find_by_name_def optional_op_run)
  show ?thesis
    unfolding venue_commit_def by (intro keeps_case_option keeps_control keeps_draw_typed row find regions_typed)
qed

lemma venue_updates_typed:
  "keeps catalog_typed (venue_update v va)" "keeps catalog_typed (venue_add_to_organization v g)"
  "keeps catalog_typed (venue_set_privacy v p)"
  unfolding venue_update_def venue_add_to_organization_def venue_set_privacy_def
  by (intro typed_intros allI; auto simp: catalog_typed_def violation_None set_update_where)+

lemma artists_typed:
  "keeps catalog_typed (artist_commit vu na)" "keeps catalog_typed (artist_update vu a aa)"
  "keeps catalog_typed (artist_set_privacy a p)"
  unfolding artist_commit_def artist_update_def artist_set_privacy_def
  by (intro typed_intros allI;
      auto simp: catalog_typed_def violation_None set_update_where refers_append refers_update_where)+

lemma interest_typed:
  "keeps catalog_typed (interest_commit ni)" "keeps catalog_typed (interest_remove ev u)"
  unfolding interest_commit_def interest_remove_def
  by (intro typed_intros allI keeps_delete_where; auto simp: catalog_typed_def interest_violation_def split: if_splits)+

lemma appearances_typed:
  "keeps catalog_typed (event_artist_commit ne)" "keeps catalog_typed (event_artist_clear_all_from_event ev)"
  unfolding event_artist_commit_def event_artist_clear_all_from_event_def
  by (intro typed_intros allI keeps_delete_where;
      auto simp: catalog_typed_def event_artist_violation_def split: if_splits)+

text \<open>A reference to a row that stays is kept when another row is deleted.\<close>

lemma refers_filter: "refers x key rs \<Longrightarrow> x \<noteq> Some i \<Longrightarrow> refers x key (filter (\<lambda>r. key r \<noteq> i) rs)"
  by (cases x) (auto simp: refers_def list_ex_iff)

lemma destroy_typed: "keeps catalog_typed (stage_destroy st)" "keeps catalog_typed (artist_destroy a)"
  by (rule keepsI, simp add: stage_destroy_def artist_destroy_def catalog_typed_def refers_filter)+

text \<open>Every operation on the catalog keeps its references typed: each venue names an existing region,
  venues and artists name no organization or an existing one, each appearance names an existing event,
  artist and stage, and each interest an existing event and user. Deleting a stage or an artist
  deletes the appearances that name it.\<close>

theorem catalog_references_kept:
  "keeps catalog_typed (region_commit nr) \<and> keeps catalog_typed (region_update r ra) \<and>
   keeps catalog_typed (venue_commit nv) \<and> keeps catalog_typed (venue_update v va) \<and>
   keeps catalog_typed (venue_add_to_organization v g) \<and> keeps catalog_typed (venue_set_privacy v p) \<and>
   keeps catalog_typed (stage_commit ns) \<and> keeps catalog_typed (stage_update st sa) \<and>
   keeps catalog_typed (stage_destroy st) \<and>
   keeps catalog_typed (artist_commit vu na) \<and> keeps catalog_typed (artist_update vu a aa) \<and>
   keeps catalog_typed (artist_set_privacy a p) \<and> keeps catalog_typed (artist_destroy a) \<and>
   keeps catalog_typed (event_artist_commit ne) \<and>
   keeps catalog_typed (event_artist_clear_all_from_event ev) \<and>
   keeps catalog_typed (interest_commit ni) \<and> keeps catalog_typed (interest_remove ev u)"
  by (intro conjI regions_typed venue_commit_typed venue_updates_typed stages_typed artists_typed
      appearances_typed interest_typed destroy_typed)

section \<open>Regions of venues, gaps of artists\<close>


definition sample_texas :: db where
  "sample_texas = blank_db\<lparr>db_regions := [\<lparr>reg_id = 4, reg_name = ''Texas'', reg_created_at = 0, reg_updated_at = 0\<rparr>]\<rparr>"


text \<open>Merging is associative, and an artist without gaps stays as it is.\<close>

lemma artist_merge_assoc: "artist_merge (artist_merge a b) c = artist_merge a (artist_merge b c)"
  by (simp add: artist_merge_def or_else_def split: option.split)

lemma artist_merge_idem: "artist_merge a a = a"
  by (simp add: artist_merge_def or_else_def option.case_eq_if)

lemma interest_round_trip:
  assumes "interest_commit (interest_create ev u) s = (Inr i, t)"
  shows "user_interest ev u t = (Inr True, t) \<and>
    (\<exists>n v. interest_remove ev u t = (Inr n, v) \<and> user_interest ev u v = (Inr False, v))"
  using assms
  by (auto simp: interest_commit_def interest_create_def bindo_Inr_iff insert_checked_Inr_iff draw_uuid_def
      gets_def user_interest_def interest_remove_def bindo_run ret_run select_where_run delete_where_run)

end
