(* ===== verification/Events.thy ===== *)
theory Events imports Catalog begin

text \<open>
  Events (\<open>db/src/models/events.rs\<close>): creating and changing them, the life cycle of drafts and
  published events, the cached price range, local times, the search, and the sales of each day. Time
  zones are the crate \<open>chrono_tz\<close>'s and a parameter.
\<close>

section \<open>Rows of events\<close>

record new_event =
  ne_name :: string
  ne_organization_id :: uuid
  ne_venue_id :: "uuid option"
  ne_event_start :: "timestamp option"
  ne_door_time :: "timestamp option"
  ne_status :: event_status
  ne_publish_date :: "timestamp option"
  ne_redeem_date :: "timestamp option"
  ne_promo_image_url :: "string option"
  ne_additional_info :: "string option"
  ne_age_limit :: "int option"
  ne_min_ticket_price_cache :: "int option"
  ne_max_ticket_price_cache :: "int option"
  ne_top_line_info :: "string option"
  ne_video_url :: "string option"
  ne_is_external :: bool
  ne_external_url :: "string option"
  ne_override_status :: "event_override_status option"
  ne_event_end :: "timestamp option"

record event_min_max_cache =
  mmc_min_ticket_price_cache :: "int option"
  mmc_max_ticket_price_cache :: "int option"

record event_attributes =
  eva_name :: "string option"
  eva_venue_id :: "uuid option"
  eva_event_start :: "timestamp option"
  eva_door_time :: "timestamp option"
  eva_publish_date :: "timestamp option option"
  eva_redeem_date :: "timestamp option"
  eva_promo_image_url :: "string option option"
  eva_additional_info :: "string option option"
  eva_age_limit :: "int option"
  eva_cancelled_at :: "timestamp option"
  eva_top_line_info :: "string option option"
  eva_video_url :: "string option option"
  eva_is_external :: "bool option"
  eva_external_url :: "string option option"
  eva_override_status :: "event_override_status option option"
  eva_event_end :: "timestamp option"
  eva_sendgrid_list_id :: "int option"

definition default_status :: event_status where
  "default_status = event_status.Draft"

definition default_is_external :: bool where
  "default_is_external = False"

definition event_create ::
  "string \<Rightarrow> event_status \<Rightarrow> uuid \<Rightarrow> uuid option \<Rightarrow> timestamp option \<Rightarrow> timestamp option \<Rightarrow>
   timestamp option \<Rightarrow> timestamp option \<Rightarrow> new_event"
where
  "event_create name status organization_id venue_id event_start door_time publish_date event_end =
     \<lparr>ne_name = name, ne_organization_id = organization_id, ne_venue_id = venue_id,
      ne_event_start = event_start, ne_door_time = door_time, ne_status = status,
      ne_publish_date = publish_date, ne_redeem_date = None, ne_promo_image_url = None,
      ne_additional_info = None, ne_age_limit = None, ne_min_ticket_price_cache = None,
      ne_max_ticket_price_cache = None, ne_top_line_info = None, ne_video_url = None,
      ne_is_external = False, ne_external_url = None, ne_override_status = None,
      ne_event_end = event_end\<rparr>"

text \<open>The derived \<open>validate()\<close> of a new event and of a change.\<close>

definition top_line_check :: "string option option \<Rightarrow> validation_error + unit" where
  "top_line_check field =
     (case field of Some (Some t) \<Rightarrow>
          if length t \<le> 100 then Inr ()
          else Inl (create_validation_error ''length'' ''Top line info must be at most 100 characters long'')
      | _ \<Rightarrow> Inr ())"

definition event_validate ::
  "(string \<Rightarrow> bool) \<Rightarrow> string option option \<Rightarrow> string option option \<Rightarrow> string option option \<Rightarrow>
   string option option \<Rightarrow> validation_errors + unit"
where
  "event_validate valid_url promo_image_url top_line_info video_url external_url =
     append_validation_error
       (append_validation_error
         (append_validation_error
           (append_validation_error (Inr ()) ''promo_image_url''
             (url_check valid_url promo_image_url ''Promo image URL is invalid''))
           ''top_line_info'' (top_line_check top_line_info))
         ''video_url'' (url_check valid_url video_url ''Video URL is invalid''))
       ''external_url'' (url_check valid_url external_url ''External URL is invalid'')"

definition event_violation :: "db \<Rightarrow> event_row \<Rightarrow> db_error_kind option" where
  "event_violation s e =
     (if refers (Some (e_organization_id e)) org_id (db_organizations s) \<and>
        refers (e_venue_id e) v_id (db_venues s)
      then None else Some ForeignKeyViolation)"

text \<open>A new event takes over the event fees of its organization.\<close>

definition event_row_of :: "new_event \<Rightarrow> organization \<Rightarrow> uuid \<Rightarrow> timestamp \<Rightarrow> event_row" where
  "event_row_of self organization id' n =
     \<lparr>e_id = id', e_name = ne_name self, e_organization_id = ne_organization_id self,
      e_venue_id = ne_venue_id self, e_created_at = n, e_event_start = ne_event_start self,
      e_door_time = ne_door_time self, e_status = ne_status self, e_publish_date = ne_publish_date self,
      e_redeem_date = ne_redeem_date self,
      e_fee_in_cents = org_client_event_fee_in_cents organization + org_company_event_fee_in_cents organization,
      e_promo_image_url = ne_promo_image_url self, e_additional_info = ne_additional_info self,
      e_age_limit = ne_age_limit self, e_top_line_info = ne_top_line_info self, e_cancelled_at = None,
      e_updated_at = n, e_min_ticket_price = ne_min_ticket_price_cache self,
      e_max_ticket_price = ne_max_ticket_price_cache self, e_video_url = ne_video_url self,
      e_is_external = ne_is_external self, e_external_url = ne_external_url self,
      e_override_status = ne_override_status self,
      e_client_fee_in_cents = org_client_event_fee_in_cents organization,
      e_company_fee_in_cents = org_company_event_fee_in_cents organization,
      e_settlement_amount_in_cents = None, e_event_end = ne_event_end self, e_sendgrid_list_id = None\<rparr>"

definition event_commit :: "(string \<Rightarrow> bool) \<Rightarrow> new_event \<Rightarrow> event_row dbop" where
  "event_commit valid_url self =
     bindo (check_validation (event_validate valid_url (Some (ne_promo_image_url self))
       (Some (ne_top_line_info self)) (Some (ne_video_url self)) (Some (ne_external_url self)))) (\<lambda>_.
     bindo (organization_find (ne_organization_id self)) (\<lambda>organization.
     bindo draw_uuid (\<lambda>id'.
     bindo (gets now) (\<lambda>n.
     insert_checked db_events (\<lambda>rs s. s\<lparr>db_events := rs\<rparr>) event_violation
       (event_row_of self organization id' n) InsertError ''Could not create new event''))))"

section \<open>The cached range of prices\<close>

definition i64_max :: int where
  "i64_max = 2 ^ 63 - 1"

definition widen_range :: "ticket_pricing \<Rightarrow> bool \<times> int \<times> int \<Rightarrow> bool \<times> int \<times> int" where
  "widen_range p acc =
     (case acc of (has_prices, lo, hi) \<Rightarrow>
        (True, if tp_price_in_cents p < lo then tp_price_in_cents p else lo,
         if tp_price_in_cents p > hi then tp_price_in_cents p else hi))"

definition update_cache :: "event_row \<Rightarrow> event_row dbop" where
  "update_cache self =
     bindo (ticket_type_find_by_event_id (e_id self)) (\<lambda>ticket_types.
     bindo (fold_op (\<lambda>ticket_type acc.
         bindo (valid_ticket_pricing ticket_type True) (\<lambda>prices. ret (fold widen_range prices acc)))
         ticket_types (False, i64_max, 0)) (\<lambda>(has_prices, min_ticket_price_cache, max_ticket_price_cache).
     let cache = \<lparr>mmc_min_ticket_price_cache = (if has_prices then Some min_ticket_price_cache else Some 0),
       mmc_max_ticket_price_cache = (if has_prices then Some max_ticket_price_cache else Some 0)\<rparr> in
     bindo (gets now) (\<lambda>n.
     update_first db_events (\<lambda>rs s. s\<lparr>db_events := rs\<rparr>) (\<lambda>e. e_id e = e_id self)
       (\<lambda>e. e\<lparr>e_min_ticket_price := or_else (mmc_min_ticket_price_cache cache) (e_min_ticket_price e),
          e_max_ticket_price := or_else (mmc_max_ticket_price_cache cache) (e_max_ticket_price e),
          e_updated_at := n\<rparr>)
       UpdateError ''Could not update event'')))"

section \<open>Changing an event\<close>

definition event_change :: "event_attributes \<Rightarrow> event_row \<Rightarrow> event_row" where
  "event_change attributes e =
     e\<lparr>e_name := unwrap_or (eva_name attributes) (e_name e),
       e_venue_id := or_else (eva_venue_id attributes) (e_venue_id e),
       e_event_start := or_else (eva_event_start attributes) (e_event_start e),
       e_door_time := or_else (eva_door_time attributes) (e_door_time e),
       e_publish_date := unwrap_or (eva_publish_date attributes) (e_publish_date e),
       e_redeem_date := or_else (eva_redeem_date attributes) (e_redeem_date e),
       e_promo_image_url := unwrap_or (eva_promo_image_url attributes) (e_promo_image_url e),
       e_additional_info := unwrap_or (eva_additional_info attributes) (e_additional_info e),
       e_age_limit := or_else (eva_age_limit attributes) (e_age_limit e),
       e_cancelled_at := or_else (eva_cancelled_at attributes) (e_cancelled_at e),
       e_top_line_info := unwrap_or (eva_top_line_info attributes) (e_top_line_info e),
       e_video_url := unwrap_or (eva_video_url attributes) (e_video_url e),
       e_is_external := unwrap_or (eva_is_external attributes) (e_is_external e),
       e_external_url := unwrap_or (eva_external_url attributes) (e_external_url e),
       e_override_status := unwrap_or (eva_override_status attributes) (e_override_status e),
       e_event_end := or_else (eva_event_end attributes) (e_event_end e),
       e_sendgrid_list_id := or_else (eva_sendgrid_list_id attributes) (e_sendgrid_list_id e)\<rparr>"

definition no_event_attributes :: event_attributes where
  "no_event_attributes =
     \<lparr>eva_name = None, eva_venue_id = None, eva_event_start = None, eva_door_time = None,
      eva_publish_date = None, eva_redeem_date = None, eva_promo_image_url = None,
      eva_additional_info = None, eva_age_limit = None, eva_cancelled_at = None,
      eva_top_line_info = None, eva_video_url = None, eva_is_external = None, eva_external_url = None,
      eva_override_status = None, eva_event_end = None, eva_sendgrid_list_id = None\<rparr>"

text \<open>A published event keeps a publish date: clearing it sets the present time.\<close>

definition event_update :: "(string \<Rightarrow> bool) \<Rightarrow> event_row \<Rightarrow> event_attributes \<Rightarrow> event_row dbop" where
  "event_update valid_url self attributes =
     bindo (check_validation (event_validate valid_url (eva_promo_image_url attributes)
       (eva_top_line_info attributes) (eva_video_url attributes) (eva_external_url attributes))) (\<lambda>_.
     bindo (gets utc_now) (\<lambda>utc.
     let event = (if e_status self = event_status.Published
           then (case eva_publish_date attributes of
                   Some date \<Rightarrow> (case date of Some _ \<Rightarrow> attributes
                     | None \<Rightarrow> attributes\<lparr>eva_publish_date := Some (Some utc)\<rparr>)
                 | None \<Rightarrow> attributes)
           else attributes);
         event_start = (case eva_event_start event of Some e \<Rightarrow> Some e | None \<Rightarrow> e_event_start self);
         event_end = (case eva_event_end event of Some e \<Rightarrow> Some e | None \<Rightarrow> e_event_end self) in
     bindo (check_validation (append_validation_error (Inr ()) ''event.event_end''
       (n_date_valid event_start event_end ''event_end_before_event_start''
          ''Event End must be after Event Start''))) (\<lambda>_.
     bindo (gets now) (\<lambda>n.
     update_checked db_events (\<lambda>rs s. s\<lparr>db_events := rs\<rparr>) event_violation (\<lambda>e. e_id e = e_id self)
       (\<lambda>e. (event_change event e)\<lparr>e_updated_at := n\<rparr>)
       UpdateError ''Could not update event''))))"

definition update_events :: "event_row \<Rightarrow> (event_row \<Rightarrow> event_row) \<Rightarrow> nat dbop" where
  "update_events self f =
     execute_update db_events (\<lambda>rs s. s\<lparr>db_events := rs\<rparr>) (\<lambda>e. e_id e = e_id self) f"

definition event_unpublish :: "event_row \<Rightarrow> event_row dbop" where
  "event_unpublish self =
     (let errors = (if e_status self \<noteq> event_status.Published
        then add_validation ''status'' (create_validation_error ''event_must_be_published''
          ''Event can't be un-published if it is not published'') [] else []) in
      if errors \<noteq> [] then fail (from_validation_errors errors)
      else
        let update_fields = no_event_attributes\<lparr>eva_publish_date := Some None\<rparr> in
        bindo (gets now) (\<lambda>n.
        bindo (update_events self (\<lambda>e. (event_change update_fields e)
          \<lparr>e_status := event_status.Draft, e_updated_at := n\<rparr>)) (\<lambda>_.
        event_find (e_id self))))"

definition publish_errors :: "event_row \<Rightarrow> validation_errors" where
  "publish_errors self =
     (let errors = (if e_venue_id self = None
        then add_validation ''venue_id'' (create_validation_error ''required''
          ''Event can't be published without a venue'') [] else [])
      in if e_promo_image_url self = None
        then add_validation ''promo_image_url'' (create_validation_error ''required''
          ''Event can't be published without a promo image'') errors else errors)"

definition event_publish :: "event_row \<Rightarrow> event_row dbop" where
  "event_publish self =
     (if e_status self = event_status.Published then event_find (e_id self)
      else if publish_errors self \<noteq> [] then fail (from_validation_errors (publish_errors self))
      else
        bindo (gets now) (\<lambda>n.
        bindo (case e_publish_date self of
            Some _ \<Rightarrow> update_events self (\<lambda>e. e\<lparr>e_status := event_status.Published, e_updated_at := n\<rparr>)
          | None \<Rightarrow> update_events self (\<lambda>e. e\<lparr>e_status := event_status.Published,
              e_publish_date := Some n, e_updated_at := n\<rparr>)) (\<lambda>_.
        event_find (e_id self))))"

definition event_cancel :: "event_row \<Rightarrow> event_row dbop" where
  "event_cancel self =
     bindo (gets now) (\<lambda>n.
     update_first db_events (\<lambda>rs s. s\<lparr>db_events := rs\<rparr>) (\<lambda>e. e_id e = e_id self)
       (\<lambda>e. e\<lparr>e_cancelled_at := Some n\<rparr>) UpdateError ''Could not update event'')"

section \<open>Local times\<close>

text \<open>A time with its zone; \<open>tz_parse\<close> reads the name of a zone and \<open>to_rfc2822\<close> prints a time.\<close>

record 'tz time_zones =
  tz_parse :: "string \<Rightarrow> 'tz option"
  to_rfc2822 :: "timestamp \<times> 'tz \<Rightarrow> string"

record 'tz event_localized_times =
  elt_event_start :: "(timestamp \<times> 'tz) option"
  elt_event_end :: "(timestamp \<times> 'tz) option"
  elt_door_time :: "(timestamp \<times> 'tz) option"

record event_localized_time_strings =
  elts_event_start :: "string option"
  elts_event_end :: "string option"
  elts_door_time :: "string option"

text \<open>The time is rebuilt from year to second, which drops the fraction of the second.\<close>

definition localized_time ::
  "'tz time_zones \<Rightarrow> timestamp option \<Rightarrow> string option \<Rightarrow> (timestamp \<times> 'tz) option"
where
  "localized_time z utc_datetime timezone_string =
     (case (utc_datetime, timezone_string) of
        (Some utc, Some tz_string) \<Rightarrow>
          (case tz_parse z tz_string of
             Some tz \<Rightarrow> Some (utc - utc mod seconds 1, tz)
           | None \<Rightarrow> None)
      | _ \<Rightarrow> None)"

definition localized_time_from_venue ::
  "'tz time_zones \<Rightarrow> timestamp option \<Rightarrow> venue option \<Rightarrow> (timestamp \<times> 'tz) option"
where
  "localized_time_from_venue z utc_datetime venue =
     (if utc_datetime = None \<or> venue = None then None
      else case venue of Some v \<Rightarrow> localized_time z utc_datetime (v_timezone v) | None \<Rightarrow> None)"

definition get_all_localized_times ::
  "'tz time_zones \<Rightarrow> event_row \<Rightarrow> venue option \<Rightarrow> 'tz event_localized_times"
where
  "get_all_localized_times z self venue =
     \<lparr>elt_event_start = localized_time_from_venue z (e_event_start self) venue,
      elt_event_end = localized_time_from_venue z (e_event_end self) venue,
      elt_door_time = localized_time_from_venue z (e_door_time self) venue\<rparr>"

definition get_all_localized_time_strings ::
  "'tz time_zones \<Rightarrow> event_row \<Rightarrow> venue option \<Rightarrow> event_localized_time_strings"
where
  "get_all_localized_time_strings z self venue =
     (let times = get_all_localized_times z self venue in
      \<lparr>elts_event_start = map_option (to_rfc2822 z) (elt_event_start times),
       elts_event_end = map_option (to_rfc2822 z) (elt_event_end times),
       elts_door_time = map_option (to_rfc2822 z) (elt_door_time times)\<rparr>)"

section \<open>Finding events\<close>

definition find_all_active_events_for_venue :: "uuid \<Rightarrow> event_row list dbop" where
  "find_all_active_events_for_venue venue_id = gets (\<lambda>s.
     sort_key (\<lambda>e. collate s (e_name e)) (filter (\<lambda>e. e_venue_id e = Some venue_id \<and>
       e_status e = event_status.Published \<and> e_cancelled_at e = None) (db_events s)))"

datatype event_search_sort_field = SortName | SortEventStart
datatype past_or_upcoming = Past | Upcoming

definition noon_of_day :: "int \<Rightarrow> timestamp" where
  "noon_of_day d = days d + seconds (12 * 60 * 60)"

definition search_window ::
  "past_or_upcoming \<Rightarrow> timestamp option \<Rightarrow> timestamp option \<Rightarrow> timestamp \<Rightarrow> timestamp \<times> timestamp"
where
  "search_window period start_time end_time utc =
     (let beginning_of_time = noon_of_day (-25567); end_of_time = noon_of_day 412724 in
      case period of
        Upcoming \<Rightarrow> (max (unwrap_or start_time utc) utc, min (unwrap_or end_time end_of_time) end_of_time)
      | Past \<Rightarrow> (max (unwrap_or start_time beginning_of_time) beginning_of_time,
          min (unwrap_or end_time utc) utc))"

text \<open>The joins of the search find an event once per artist and per member; \<open>DISTINCT\<close> leaves it once.\<close>

definition search_matches :: "db \<Rightarrow> string \<Rightarrow> event_row \<Rightarrow> bool" where
  "search_matches s query_like e \<longleftrightarrow>
     ilike (e_name e) query_like \<or>
     list_ex (\<lambda>v. e_venue_id e = Some (v_id v) \<and> ilike (v_name v) query_like) (db_venues s) \<or>
     list_ex (\<lambda>ea. ea_event_id ea = e_id e \<and>
       list_ex (\<lambda>a. art_id a = ea_artist_id ea \<and> ilike (art_name a) query_like) (db_artists s)) (db_event_artists s)"

definition search_visible :: "db \<Rightarrow> user_row option \<Rightarrow> event_row \<Rightarrow> bool" where
  "search_visible s user e =
     (case user of
        Some u \<Rightarrow>
          (if OrgAdmin \<in> set (get_global_scopes u) then True
           else e_status e \<noteq> event_status.Draft \<or>
             list_ex (\<lambda>m. ou_organization_id m = e_organization_id e \<and> ou_user_id m = u_id u) (db_organization_users s))
      | None \<Rightarrow> e_status e \<noteq> event_status.Draft)"

definition event_search ::
  "string option \<Rightarrow> uuid option \<Rightarrow> uuid option \<Rightarrow> timestamp option \<Rightarrow> timestamp option \<Rightarrow>
   event_status list option \<Rightarrow> event_search_sort_field \<Rightarrow> sorting_dir \<Rightarrow> user_row option \<Rightarrow>
   past_or_upcoming \<Rightarrow> event_row list dbop"
where
  "event_search query_filter region_id organization_id start_time end_time status_filter sort_field
     sort_direction user period = gets (\<lambda>s.
     let window = search_window period start_time end_time (utc_now s);
         query_like = (case query_filter of Some n \<Rightarrow> ''%'' @ escape_text n @ ''%'' | None \<Rightarrow> ''%'');
         column = (\<lambda>e. case sort_field of SortName \<Rightarrow> collate s (e_name e)
           | SortEventStart \<Rightarrow> unwrap_or (e_event_start e) 0);
         direction = (case sort_direction of Asc \<Rightarrow> 1 | Desc \<Rightarrow> - 1)
     in sort_key (\<lambda>e. (direction * column e, collate s (e_name e))) (filter (\<lambda>e.
       list_ex (\<lambda>g. org_id g = e_organization_id e) (db_organizations s) \<and>
       search_matches s query_like e \<and>
       (case e_event_start e of Some t \<Rightarrow> t \<ge> fst window | None \<Rightarrow> False) \<and>
       (case e_event_end e of Some t \<Rightarrow> t \<le> snd window | None \<Rightarrow> False) \<and>
       search_visible s user e \<and>
       (case organization_id of Some g \<Rightarrow> e_organization_id e = g | None \<Rightarrow> True) \<and>
       (case status_filter of Some statuses \<Rightarrow> e_status e \<in> set statuses | None \<Rightarrow> True) \<and>
       (case region_id of
          Some r \<Rightarrow> list_ex (\<lambda>v. e_venue_id e = Some (v_id v) \<and> v_region_id v = r) (db_venues s)
        | None \<Rightarrow> True)) (db_events s)))"

section \<open>What belongs to an event\<close>

definition add_artist :: "event_row \<Rightarrow> uuid \<Rightarrow> unit dbop" where
  "add_artist self artist_id =
     bindo (event_artist_commit (event_artist_create (e_id self) artist_id 0 None 0 None)) (\<lambda>_. ret ())"

definition event_organization :: "event_row \<Rightarrow> organization dbop" where
  "event_organization self = organization_find (e_organization_id self)"

definition event_venue :: "event_row \<Rightarrow> venue option dbop" where
  "event_venue self =
     (case e_venue_id self of
        Some venue_id \<Rightarrow> bindo (venue_find venue_id) (\<lambda>venue. ret (Some venue))
      | None \<Rightarrow> ret None)"

definition add_ticket_type ::
  "event_row \<Rightarrow> string \<Rightarrow> string option \<Rightarrow> u32 \<Rightarrow> timestamp \<Rightarrow> timestamp \<Rightarrow> uuid \<Rightarrow> int option \<Rightarrow> int \<Rightarrow> int \<Rightarrow>
   ticket_type dbop"
where
  "add_ticket_type self name description quantity start_date end_date wallet_id increment
     limit_per_person price_in_cents =
     (let asset_name = e_name self @ ''.'' @ name in
      bindo (ticket_type_commit (ticket_type_create (e_id self) name description start_date end_date
        increment limit_per_person price_in_cents)) (\<lambda>ticket_type.
      bindo (asset_commit (asset_create (tt_id ticket_type) asset_name)) (\<lambda>asset.
      bindo (create_multiple (a_id asset) 0 quantity wallet_id) (\<lambda>_.
      ret ticket_type))))"

definition event_ticket_types :: "event_row \<Rightarrow> ticket_type list dbop" where
  "event_ticket_types self = ticket_type_find_by_event_id (e_id self)"

definition issuer_wallet :: "event_row \<Rightarrow> wallet dbop" where
  "issuer_wallet self = find_default_for_organization (e_organization_id self)"

definition event_artists :: "event_row \<Rightarrow> display_event_artist list dbop" where
  "event_artists self = event_artist_find_all_from_event (e_id self)"

record display_event =
  de_id :: uuid
  de_name :: string
  de_event_start :: "timestamp option"
  de_door_time :: "timestamp option"
  de_promo_image_url :: "string option"
  de_additional_info :: "string option"
  de_top_line_info :: "string option"
  de_artists :: "display_event_artist list"
  de_venue :: "display_venue option"
  de_min_ticket_price :: "int option"
  de_max_ticket_price :: "int option"
  de_video_url :: "string option"
  de_is_external :: bool
  de_external_url :: "string option"
  de_override_status :: "event_override_status option"
  de_localized_times :: event_localized_time_strings

definition event_for_display :: "'tz time_zones \<Rightarrow> event_row \<Rightarrow> display_event dbop" where
  "event_for_display z self =
     bindo (event_venue self) (\<lambda>venue.
     let display_venue = map_option display_venue_of venue in
     bindo (event_artists self) (\<lambda>artists.
     let localized_times = get_all_localized_time_strings z self venue in
     ret \<lparr>de_id = e_id self, de_name = e_name self, de_event_start = e_event_start self,
       de_door_time = e_door_time self, de_promo_image_url = e_promo_image_url self,
       de_additional_info = e_additional_info self, de_top_line_info = e_top_line_info self,
       de_artists = artists, de_venue = display_venue, de_min_ticket_price = e_min_ticket_price self,
       de_max_ticket_price = e_max_ticket_price self, de_video_url = e_video_url self,
       de_is_external = e_is_external self, de_external_url = e_external_url self,
       de_override_status = e_override_status self, de_localized_times = localized_times\<rparr>))"

section \<open>Sales of each day\<close>

type_synonym naive_date = int

record day_stats =
  ds_date :: naive_date
  ds_revenue_in_cents :: int
  ds_ticket_sales :: int

text \<open>The order items of paid orders with the day of payment, for the event and between two times.\<close>

definition sales_rows :: "db \<Rightarrow> uuid \<Rightarrow> timestamp \<Rightarrow> timestamp \<Rightarrow> (order_item \<times> naive_date) list" where
  "sales_rows s event_id first_time last_time =
     concat (map (\<lambda>oi. concat (map (\<lambda>ord. case o_paid_at ord of
         Some t \<Rightarrow> if first_time \<le> t \<and> t \<le> last_time then [(oi, t div days 1)] else []
       | None \<Rightarrow> [])
       (filter (\<lambda>ord. o_id ord = oi_order_id oi \<and> o_status ord = Paid) (db_orders s))))
       (filter (\<lambda>oi. oi_event_id oi = Some event_id) (db_order_items s)))"

definition sales_summary :: "(order_item \<times> naive_date) list \<Rightarrow> day_stats list" where
  "sales_summary rows = map (\<lambda>d.
     let group = filter (\<lambda>(_, d'). d' = d) rows in
     \<lparr>ds_date = d, ds_revenue_in_cents = revenue_of group, ds_ticket_sales = tickets_sold group\<rparr>)
     (rev (sort (remdups (map snd rows))))"

definition get_sales_by_date_range :: "event_row \<Rightarrow> naive_date \<Rightarrow> naive_date \<Rightarrow> day_stats list dbop" where
  "get_sales_by_date_range self start_utc end_utc =
     (if start_utc > end_utc
      then fail (database_error_new InternalError
        (Some (Text ''Sales data start date must come before end date'')))
      else
        bindo (gets (\<lambda>s. sales_summary (sales_rows s (e_id self) (days start_utc)
          (days end_utc + seconds (23 * 60 * 60 + 59 * 60 + 59))))) (\<lambda>summary.
        let m = foldl (\<lambda>m r. m(ds_date r \<mapsto> r)) Map.empty summary;
            n = end_utc - start_utc in
        ret (map (\<lambda>k. let date = start_utc + k in
            case m date of
              Some map_data \<Rightarrow> map_data
            | None \<Rightarrow> \<lparr>ds_date = date, ds_revenue_in_cents = 0, ds_ticket_sales = 0\<rparr>) [0..n])))"

section \<open>The cache holds the range of prices\<close>

text \<open>The prices of an event that are not deleted, default prices included.\<close>

definition prices_of_event :: "db \<Rightarrow> uuid \<Rightarrow> int set" where
  "prices_of_event s event_id = set (map tp_price_in_cents (filter (\<lambda>p.
     tp_status p \<noteq> ticket_pricing_status.Deleted \<and>
     list_ex (\<lambda>tt. tt_event_id tt = event_id \<and> tt_id tt = tp_ticket_type_id p) (db_ticket_types s))
     (db_ticket_pricing s)))"

lemma fold_widen_range:
  "fold widen_range ps (h, lo, hi) = (h \<or> ps \<noteq> [],
     Min (insert lo (tp_price_in_cents ` set ps)), Max (insert hi (tp_price_in_cents ` set ps)))"
proof (induction ps arbitrary: h lo hi)
  case Nil
  then show ?case by simp
next
  case (Cons p ps)
  have low: "Min (insert (min lo x) A) = Min (insert lo (insert x A))" if "finite A" for x :: int and A
    using that by (cases "A = {}") (auto simp: min.assoc min.left_commute)
  have high: "Max (insert (max hi x) A) = Max (insert hi (insert x A))" if "finite A" for x :: int and A
    using that by (cases "A = {}") (auto simp: max.assoc max.left_commute)
  have "widen_range p (h, lo, hi) = (True, min lo (tp_price_in_cents p), max hi (tp_price_in_cents p))"
    by (auto simp: widen_range_def)
  with Cons show ?case
    by (simp add: low high)
qed

lemma fold_op_reads:
  "fold_op (\<lambda>x acc. bindo (gets (g x)) (\<lambda>ps. ret (fold h ps acc))) xs acc s =
     (Inr (fold h (concat (map (\<lambda>x. g x s) xs)) acc), s)"
  by (induction xs arbitrary: acc) (simp_all add: bindo_run ret_run)

lemma min_Min: "finite A \<Longrightarrow> A \<noteq> {} \<Longrightarrow> (\<And>x. x \<in> A \<Longrightarrow> x \<le> b) \<Longrightarrow> min b (Min A) = Min A"
  by (simp add: min_absorb2)

lemma max_Max: "finite A \<Longrightarrow> A \<noteq> {} \<Longrightarrow> (\<And>x. x \<in> A \<Longrightarrow> b \<le> x) \<Longrightarrow> max b (Max A) = Max A"
  by (simp add: max_absorb2)

text \<open>C24: The cache of an event holds the lowest and the highest of its prices that are not deleted, and
  zero for both when there is none.\<close>

theorem cache_is_price_range:
  assumes "update_cache e s = (Inr e', t)" and "prices_of_event s (e_id e) \<subseteq> {0..i64_max}"
  shows "let prices = prices_of_event s (e_id e) in
    e_min_ticket_price e' = Some (if prices = {} then 0 else Min prices) \<and>
    e_max_ticket_price e' = Some (if prices = {} then 0 else Max prices)"
proof -
  let ?types = "sort_key (\<lambda>t. collate s (tt_name t)) (filter (\<lambda>tt. tt_event_id tt = e_id e) (db_ticket_types s))"
  define ps where "ps = concat (map (\<lambda>tt. sort_key (\<lambda>p. collate s (tp_name p)) (filter (\<lambda>p.
    tp_ticket_type_id p = tt_id tt \<and> tp_status p \<noteq> ticket_pricing_status.Deleted) (db_ticket_pricing s))) ?types)"
  have "set ps = set (filter (\<lambda>p. tp_status p \<noteq> ticket_pricing_status.Deleted \<and>
     list_ex (\<lambda>tt. tt_event_id tt = e_id e \<and> tt_id tt = tp_ticket_type_id p) (db_ticket_types s))
     (db_ticket_pricing s))"
    by (auto simp: ps_def list_ex_iff)
  then have prices: "prices_of_event s (e_id e) = tp_price_in_cents ` set ps"
    by (simp add: prices_of_event_def)
  have fold: "fold widen_range ps (False, i64_max, 0) = (ps \<noteq> [],
      if ps = [] then i64_max else Min (tp_price_in_cents ` set ps),
      if ps = [] then 0 else Max (tp_price_in_cents ` set ps))"
    using assms(2) unfolding fold_widen_range prices
    by (auto intro!: min_Min max_Max)
  have "update_cache e s = update_first db_events (\<lambda>rs s. s\<lparr>db_events := rs\<rparr>) (\<lambda>x. e_id x = e_id e)
      (\<lambda>x. x\<lparr>e_min_ticket_price := Some (if ps = [] then 0 else Min (tp_price_in_cents ` set ps)),
         e_max_ticket_price := Some (if ps = [] then 0 else Max (tp_price_in_cents ` set ps)),
         e_updated_at := now s\<rparr>) UpdateError ''Could not update event'' s"
    using fold
    by (simp add: update_cache_def ticket_type_find_by_event_id_def select_where_def valid_ticket_pricing_def
        fold_op_reads bindo_run ps_def [symmetric] or_else_def)
  with assms(1) prices show ?thesis
    by (auto simp: update_first_run wrap_def split: list.splits)
qed

text \<open>An event with a deleted price, and two prices that count.\<close>

definition sample_gig :: db where
  "sample_gig = blank_db\<lparr>db_events := [blank_event 1 9], db_ticket_types := [blank_ticket_type 2 1],
     db_ticket_pricing :=
       [blank_price 3 2 ticket_pricing_status.Default 500 0 10,
        blank_price 4 2 ticket_pricing_status.Published 300 0 10,
        blank_price 5 2 ticket_pricing_status.Deleted 100 0 10]\<rparr>"

lemma sample_gig_prices: "prices_of_event sample_gig (e_id (blank_event 1 9)) = {500, 300}"
  by (simp add: prices_of_event_def sample_gig_def blank_defs)

lemma sample_gig_updates: "\<exists>e' t. update_cache (blank_event 1 9) sample_gig = (Inr e', t)"
proof -
  have "update_first db_events (\<lambda>rs s. s\<lparr>db_events := rs\<rparr>) (\<lambda>e. e_id e = e_id (blank_event 1 9)) f
      UpdateError m sample_gig = (Inr (f (blank_event 1 9)),
        sample_gig\<lparr>db_events := [f (blank_event 1 9)]\<rparr>)" for f m
    by (simp add: update_first_run sample_gig_def update_where_def wrap_def)
  then show ?thesis
    by (simp add: update_cache_def ticket_type_find_by_event_id_def valid_ticket_pricing_def
        fold_op_reads bindo_run split: prod.split)
qed

theorem cache_is_price_range_witness:
  "\<exists>e' t. update_cache (blank_event 1 9) sample_gig = (Inr e', t) \<and> e_min_ticket_price e' = Some 300 \<and>
     e_max_ticket_price e' = Some 500"
proof -
  obtain e' t where run: "update_cache (blank_event 1 9) sample_gig = (Inr e', t)"
    using sample_gig_updates by blast
  have "prices_of_event sample_gig (e_id (blank_event 1 9)) \<subseteq> {0..i64_max}"
    unfolding sample_gig_prices by (simp add: i64_max_def)
  from cache_is_price_range [OF run this] run show ?thesis
    unfolding sample_gig_prices by (simp add: Let_def)
qed

section \<open>The life cycle of an event\<close>

definition stored_event :: "event_row \<Rightarrow> db \<Rightarrow> bool" where
  "stored_event e s \<longleftrightarrow> e \<in> set (db_events s) \<and> distinct (map e_id (db_events s))"

lemma stored_event_find: "stored_event e s \<Longrightarrow> event_find (e_id e) s = (Inr e, s)"
  unfolding stored_event_def event_find_def first_where_Inr_iff
  by (auto intro: find_distinct)

text \<open>The state in which one event has a new row.\<close>

definition replace_event :: "event_row \<Rightarrow> db \<Rightarrow> db" where
  "replace_event e s = s\<lparr>db_events := update_where (\<lambda>x. e_id x = e_id e) (\<lambda>_. e) (db_events s)\<rparr>"

lemma stored_event_unique: "stored_event e s \<Longrightarrow> x \<in> set (db_events s) \<Longrightarrow> e_id x = e_id e \<Longrightarrow> x = e"
  unfolding stored_event_def using same_row by metis

lemma update_where_stored:
  assumes "stored_event e s" and "e_id (f e) = e_id e"
  shows "s\<lparr>db_events := update_where (\<lambda>x. e_id x = e_id e) f (db_events s)\<rparr> = replace_event (f e) s"
proof -
  have "update_where (\<lambda>x. e_id x = e_id e) f (db_events s) = update_where (\<lambda>x. e_id x = e_id e) (\<lambda>_. f e) (db_events s)"
    unfolding update_where_def using stored_event_unique [OF assms(1)] by (intro map_cong) auto
  with assms(2) show ?thesis
    by (simp add: replace_event_def)
qed

lemma stored_replaced:
  assumes "stored_event e s" and "e_id e' = e_id e"
  shows "stored_event e' (replace_event e' s)"
proof -
  have "map e_id (update_where (\<lambda>x. e_id x = e_id e') (\<lambda>_. e') (db_events s)) = map e_id (db_events s)"
    by (rule map_update_where) simp
  with assms show ?thesis
    by (auto simp: stored_event_def replace_event_def set_update_where)
qed

lemma update_stored:
  assumes "stored_event e s" and "e_id (f e) = e_id e"
  shows "update_events e f s = (Inr 1, replace_event (f e) s)"
proof -
  have "length (filter (\<lambda>x. e_id x = e_id e) (db_events s)) = 1"
    using assms(1) by (simp add: stored_event_def filter_by_key)
  with assms show ?thesis
    by (simp add: update_events_def execute_update_run update_where_stored)
qed

text \<open>C25: Publishing a stored event does nothing when it is published already; without a venue or a
  promo image it fails, naming what is missing, and changes nothing; else it publishes the event, and sets
  the publish date when there is none. Un-publishing fails for an event that is not published, and else
  makes it a draft without a publish date. Nothing but the event's row changes.\<close>

theorem publish_and_unpublish:
  assumes "stored_event e s"
  shows "(let published = e\<lparr>e_status := event_status.Published,
        e_publish_date := Some (unwrap_or (e_publish_date e) (now s)), e_updated_at := now s\<rparr> in
      event_publish e s =
        (if e_status e = event_status.Published then (Inr e, s)
         else if e_venue_id e = None \<or> e_promo_image_url e = None
         then (Inl (from_validation_errors (publish_errors e)), s)
         else (Inr published, replace_event published s))) \<and>
    (let draft = e\<lparr>e_status := event_status.Draft, e_publish_date := None, e_updated_at := now s\<rparr> in
      if e_status e = event_status.Published then event_unpublish e s = (Inr draft, replace_event draft s)
      else \<exists>err. event_unpublish e s = (Inl err, s))"
proof (intro conjI)
  let ?dated = "\<lambda>x. x\<lparr>e_status := event_status.Published, e_updated_at := now s\<rparr>"
  let ?new = "\<lambda>x. x\<lparr>e_status := event_status.Published, e_publish_date := Some (now s), e_updated_at := now s\<rparr>"
  have "publish_errors e = [] \<longleftrightarrow> e_venue_id e \<noteq> None \<and> e_promo_image_url e \<noteq> None"
    by (auto simp: publish_errors_def Let_def)
  moreover have "event_find (e_id e) (replace_event (?dated e) s) = (Inr (?dated e), replace_event (?dated e) s)"
    "event_find (e_id e) (replace_event (?new e) s) = (Inr (?new e), replace_event (?new e) s)"
    using stored_event_find [OF stored_replaced [OF assms, of "?dated e"]]
      stored_event_find [OF stored_replaced [OF assms, of "?new e"]] by simp_all
  moreover have "e\<lparr>e_status := event_status.Published, e_publish_date := Some (unwrap_or (e_publish_date e) (now s)),
      e_updated_at := now s\<rparr> = (case e_publish_date e of Some _ \<Rightarrow> ?dated e | None \<Rightarrow> ?new e)"
    by (cases e, cases "e_publish_date e") auto
  ultimately have "event_publish e s =
      (if e_status e = event_status.Published then (Inr e, s)
       else if e_venue_id e = None \<or> e_promo_image_url e = None
       then (Inl (from_validation_errors (publish_errors e)), s)
       else (Inr (e\<lparr>e_status := event_status.Published, e_publish_date := Some (unwrap_or (e_publish_date e) (now s)),
           e_updated_at := now s\<rparr>),
         replace_event (e\<lparr>e_status := event_status.Published,
           e_publish_date := Some (unwrap_or (e_publish_date e) (now s)), e_updated_at := now s\<rparr>) s))"
    using stored_event_find [OF assms] update_stored [OF assms, of ?dated] update_stored [OF assms, of ?new]
    unfolding event_publish_def by (simp only: fail_run bindo_gets split: option.split) (auto simp: bindo_run fail_run)
  then show "let published = e\<lparr>e_status := event_status.Published,
        e_publish_date := Some (unwrap_or (e_publish_date e) (now s)), e_updated_at := now s\<rparr> in
      event_publish e s =
        (if e_status e = event_status.Published then (Inr e, s)
         else if e_venue_id e = None \<or> e_promo_image_url e = None
         then (Inl (from_validation_errors (publish_errors e)), s)
         else (Inr published, replace_event published s))"
    by (simp only: Let_def)
next
  let ?draft = "\<lambda>x. (event_change (no_event_attributes\<lparr>eva_publish_date := Some None\<rparr>) x)
      \<lparr>e_status := event_status.Draft, e_updated_at := now s\<rparr>"
  have draft: "?draft x = x\<lparr>e_status := event_status.Draft, e_publish_date := None, e_updated_at := now s\<rparr>" for x
    by (simp add: event_change_def no_event_attributes_def or_else_def)
  show "let draft = e\<lparr>e_status := event_status.Draft, e_publish_date := None, e_updated_at := now s\<rparr> in
      if e_status e = event_status.Published then event_unpublish e s = (Inr draft, replace_event draft s)
      else \<exists>err. event_unpublish e s = (Inl err, s)"
    using update_stored [OF assms, of ?draft] stored_event_find [OF stored_replaced [OF assms, of "?draft e"]]
    by (auto simp: event_unpublish_def fail_run bindo_run draft Let_def)
qed

definition ready_gig :: event_row where
  "ready_gig = (blank_event 1 9)\<lparr>e_status := event_status.Draft, e_venue_id := Some 4,
     e_promo_image_url := Some ''poster''\<rparr>"

theorem publish_and_unpublish_witness:
  "let s = blank_db\<lparr>db_events := [ready_gig]\<rparr>;
       published = ready_gig\<lparr>e_status := event_status.Published, e_publish_date := Some 1000, e_updated_at := 1000\<rparr>
   in event_publish ready_gig s = (Inr published, replace_event published s) \<and>
      (\<exists>err. event_unpublish ready_gig s = (Inl err, s))"
proof -
  have "stored_event ready_gig (blank_db\<lparr>db_events := [ready_gig]\<rparr>)"
    by (simp add: stored_event_def)
  from publish_and_unpublish [OF this] show ?thesis
    by (simp add: ready_gig_def blank_event_def blank_db_def Let_def)
qed

text \<open>What publishing asks for is not kept: a change may clear the promo image of a published event.\<close>

lemma published_event_loses_image:
  assumes "stored_event e s" and "e_status e = event_status.Published" and "event_violation s e = None"
    and "n_date_valid (e_event_start e) (e_event_end e) ''event_end_before_event_start''
      ''Event End must be after Event Start'' = Inr ()"
  shows "\<exists>e' t. event_update vu e (no_event_attributes\<lparr>eva_promo_image_url := Some None\<rparr>) s = (Inr e', t) \<and>
    e_status e' = event_status.Published \<and> e_promo_image_url e' = None"
proof -
  let ?f = "\<lambda>x. (event_change (no_event_attributes\<lparr>eva_promo_image_url := Some None\<rparr>) x)\<lparr>e_updated_at := now s\<rparr>"
  have change: "?f x = x\<lparr>e_promo_image_url := None, e_updated_at := now s\<rparr>" for x
    by (simp add: event_change_def no_event_attributes_def or_else_def)
  have "find (\<lambda>x. e_id x = e_id e) (db_events s) = Some e"
    using assms(1) by (auto simp: stored_event_def intro: find_distinct)
  moreover have "x = e" if "x \<in> set (db_events s)" "e_id x = e_id e" for x
    using that stored_event_unique [OF assms(1)] by simp
  moreover have "event_violation s (?f e) = None"
    using assms(3) by (simp add: event_violation_def change split: if_splits)
  ultimately have "update_checked db_events (\<lambda>rs s. s\<lparr>db_events := rs\<rparr>) event_violation (\<lambda>x. e_id x = e_id e) ?f
      UpdateError ''Could not update event'' s = (Inr (?f e), s\<lparr>db_events := update_where (\<lambda>x. e_id x = e_id e) ?f (db_events s)\<rparr>)"
    by (subst update_checked_Inr_iff) auto
  with assms(2) assms(4) change show ?thesis
    by (simp add: event_update_def event_validate_def url_check_def top_line_check_def no_event_attributes_def
        check_validation_run bindo_run append_validation_error_def n_date_valid_def split: option.splits)
qed

section \<open>Every sale of the range is shown on its day\<close>

lemma map_of_days:
  assumes "\<And>d. key (f d) = d"
  shows "foldl (\<lambda>m r. m(key r \<mapsto> r)) m (map f ds) d = (if d \<in> set ds then Some (f d) else m d)"
  using assms by (induction ds arbitrary: m) auto

lemma revenue_of_Cons:
  "revenue_of ((oi, x) # rows) = oi_unit_price_in_cents oi * (oi_quantity oi - oi_refunded_quantity oi) + revenue_of rows"
  by (simp add: revenue_of_def)

lemma revenue_by_day:
  assumes "distinct ds" and "snd ` set rows \<subseteq> set ds"
  shows "(\<Sum>d\<leftarrow>ds. revenue_of (filter (\<lambda>(_, d'). d' = d) rows)) = revenue_of rows"
  using assms(2)
proof (induction rows)
  case Nil
  then show ?case by (simp add: revenue_of_def)
next
  case (Cons row rows)
  obtain oi x where row: "row = (oi, x)" by (cases row)
  let ?r = "oi_unit_price_in_cents oi * (oi_quantity oi - oi_refunded_quantity oi)"
  have "(\<Sum>d\<leftarrow>ds. revenue_of (filter (\<lambda>(_, d'). d' = d) (row # rows))) =
      (\<Sum>d\<leftarrow>ds. (if d = x then ?r else 0) + revenue_of (filter (\<lambda>(_, d'). d' = d) rows))"
    by (intro arg_cong [of _ _ sum_list] map_cong) (auto simp: row revenue_of_Cons)
  also have "\<dots> = (\<Sum>d\<leftarrow>ds. if d = x then ?r else 0) + revenue_of rows"
    using Cons by (simp add: sum_list_addf)
  also have "(\<Sum>d\<leftarrow>ds. if d = x then ?r else 0) = ?r"
    using assms(1) Cons.prems by (simp add: sum_list_distinct_conv_sum_set row)
  finally show ?case by (simp add: row revenue_of_Cons)
qed

lemma sales_rows_days:
  assumes "row \<in> set (sales_rows s event_id (days a) (days b + seconds 86399))"
  shows "a \<le> snd row \<and> snd row \<le> b"
proof -
  obtain t where "days a \<le> t" "t \<le> days b + seconds 86399" "snd row = t div days 1"
    using assms by (auto simp: sales_rows_def split: option.splits if_splits)
  moreover from this have "days a div days 1 \<le> t div days 1"
    "t div days 1 \<le> (days b + seconds 86399) div days 1"
    by (auto intro!: zdiv_mono1 simp: days_def seconds_def)
  ultimately show ?thesis
    by (simp add: days_def seconds_def)
qed

text \<open>C26: the statistics of an event over a range of days have one entry for each day, in order, with exactly the
  revenue and the tickets of the order items paid on that day, and their revenues add up to that of all sales
  they are made from: those paid from the start of the first day up to 23:59:59 of the last. A sale paid within
  the last second of the last day is left out. A range that ends before it starts is an error.\<close>

theorem sales_by_day:
  "get_sales_by_date_range e a b s =
     (if b < a then (Inl (database_error_new InternalError
         (Some (Text ''Sales data start date must come before end date''))), s)
      else let rows = sales_rows s (e_id e) (days a) (days b + seconds (23 * 60 * 60 + 59 * 60 + 59)) in
        (Inr (map (\<lambda>d. let sold = filter (\<lambda>(_, d'). d' = d) rows in
           \<lparr>ds_date = d, ds_revenue_in_cents = revenue_of sold, ds_ticket_sales = tickets_sold sold\<rparr>) [a..b]), s)) \<and>
   (let rows = sales_rows s (e_id e) (days a) (days b + seconds (23 * 60 * 60 + 59 * 60 + 59)) in
      (\<Sum>d\<leftarrow>[a..b]. revenue_of (filter (\<lambda>(_, d'). d' = d) rows)) = revenue_of rows)"
proof (rule conjI)
  let ?rows = "sales_rows s (e_id e) (days a) (days b + seconds (23 * 60 * 60 + 59 * 60 + 59))"
  let ?stat = "\<lambda>d. let sold = filter (\<lambda>(_, d'). d' = d) ?rows in
    \<lparr>ds_date = d, ds_revenue_in_cents = revenue_of sold, ds_ticket_sales = tickets_sold sold\<rparr>"
  have none: "?stat d = \<lparr>ds_date = d, ds_revenue_in_cents = 0, ds_ticket_sales = 0\<rparr>" if "d \<notin> snd ` set ?rows" for d
  proof -
    have "filter (\<lambda>(_, d'). d' = d) ?rows = []"
      using that by (force simp: filter_empty_conv)
    then show ?thesis by (simp add: revenue_of_def tickets_sold_def)
  qed
  let ?m = "foldl (\<lambda>m r. m(ds_date r \<mapsto> r)) Map.empty (sales_summary ?rows)"
  have m: "?m d = (if d \<in> snd ` set ?rows then Some (?stat d) else None)" for d
    unfolding sales_summary_def by (subst map_of_days) (simp_all add: Let_def)
  have entry: "(case ?m d of Some map_data \<Rightarrow> map_data
      | None \<Rightarrow> \<lparr>ds_date = d, ds_revenue_in_cents = 0, ds_ticket_sales = 0\<rparr>) = ?stat d" for d
    using none [of d] unfolding m by (cases "d \<in> snd ` set ?rows") simp_all
  have shift: "map (\<lambda>k. f (a + k)) [0..b - a] = map f [a..b]" for f :: "int \<Rightarrow> day_stats"
    by (rule nth_equalityI) (simp_all add: add.commute)
  have "get_sales_by_date_range e a b s = (Inr (map (\<lambda>k. ?stat (a + k)) [0..b - a]), s)" if "\<not> b < a"
    using that
    by (simp only: get_sales_by_date_range_def simp_thms if_False bindo_gets ret_run Let_def
        entry [unfolded Let_def])
  then show "get_sales_by_date_range e a b s =
     (if b < a then (Inl (database_error_new InternalError
         (Some (Text ''Sales data start date must come before end date''))), s)
      else let rows = ?rows in
        (Inr (map (\<lambda>d. let sold = filter (\<lambda>(_, d'). d' = d) rows in
           \<lparr>ds_date = d, ds_revenue_in_cents = revenue_of sold, ds_ticket_sales = tickets_sold sold\<rparr>) [a..b]), s))"
    unfolding shift [of ?stat] by (simp add: get_sales_by_date_range_def fail_run Let_def)
next
  show "let rows = sales_rows s (e_id e) (days a) (days b + seconds (23 * 60 * 60 + 59 * 60 + 59)) in
      (\<Sum>d\<leftarrow>[a..b]. revenue_of (filter (\<lambda>(_, d'). d' = d) rows)) = revenue_of rows"
    unfolding Let_def by (rule revenue_by_day) (auto dest: sales_rows_days)
qed

end
