(* ===== verification/Displays.thy ===== *)
theory Displays imports Events begin

text \<open>
  What is shown of tickets and events: the ticket for its holder and at the door
  (\<open>db/src/models/ticket_instances.rs\<close>, \<open>redeemable_ticket.rs\<close>), the guest list, the summaries of an
  organization's events and the fans of events and organizations (\<open>events.rs\<close>, \<open>organizations.rs\<close>,
  \<open>fans.rs\<close>, with their SQL). They read and write nothing.
\<close>

section \<open>Tickets for their holders\<close>

record display_ticket =
  dt_id :: uuid
  dt_order_id :: uuid
  dt_price_in_cents :: u32
  dt_ticket_type_id :: uuid
  dt_ticket_type_name :: string
  dt_status :: ticket_instance_status
  dt_redeem_key :: "string option"
  dt_pending_transfer :: bool

record display_ticket_intermediary =
  dti_id :: uuid
  dti_order_id :: uuid
  dti_unit_price_in_cents :: int
  dti_ticket_type_id :: uuid
  dti_name :: string
  dti_user_id :: "uuid option"
  dti_event_id :: uuid
  dti_venue_id :: "uuid option"
  dti_status :: ticket_instance_status
  dti_redeem_key :: "string option"
  dti_redeem_date :: "timestamp option"
  dti_pending_transfer :: bool

text \<open>The redeem key is shown from the redeem date of the event on.\<close>

definition display_ticket_of :: "timestamp \<Rightarrow> display_ticket_intermediary \<Rightarrow> display_ticket" where
  "display_ticket_of utc t =
     (let redeem_key = (case dti_redeem_date t of
          Some d \<Rightarrow> if d > utc then None else dti_redeem_key t
        | None \<Rightarrow> dti_redeem_key t)
      in \<lparr>dt_id = dti_id t, dt_order_id = dti_order_id t,
          dt_price_in_cents = as_u32 (dti_unit_price_in_cents t), dt_ticket_type_id = dti_ticket_type_id t,
          dt_ticket_type_name = dti_name t, dt_status = dti_status t, dt_redeem_key = redeem_key,
          dt_pending_transfer = dti_pending_transfer t\<rparr>)"

text \<open>The joins of a ticket with its asset, ticket type, wallet and event.\<close>

definition ticket_joins :: "db \<Rightarrow> ticket_instance \<Rightarrow> (ticket_type \<times> wallet \<times> event_row) list" where
  "ticket_joins s t = concat (map (\<lambda>a. concat (map (\<lambda>tt. concat (map (\<lambda>w.
       map (\<lambda>e. (tt, w, e)) (filter (\<lambda>e. e_id e = tt_event_id tt) (db_events s)))
     (filter (\<lambda>w. w_id w = ti_wallet_id t) (db_wallets s))))
     (filter (\<lambda>tt. tt_id tt = a_ticket_type_id a) (db_ticket_types s))))
     (filter (\<lambda>a. a_id a = ti_asset_id t) (db_assets s)))"

definition items_of_ticket :: "db \<Rightarrow> ticket_instance \<Rightarrow> order_item list" where
  "items_of_ticket s t = filter (\<lambda>oi. ti_order_item_id t = Some (oi_id oi)) (db_order_items s)"

definition price_with_fees :: "db \<Rightarrow> order_item \<Rightarrow> int" where
  "price_with_fees s oi = oi_unit_price_in_cents oi +
     sum_list (map oi_unit_price_in_cents (filter (\<lambda>f. oi_parent_id f = Some (oi_id oi)) (db_order_items s)))"

definition pending_transfer :: "timestamp \<Rightarrow> ticket_instance \<Rightarrow> bool" where
  "pending_transfer n t =
     (if ti_transfer_key t = None then False
      else case ti_transfer_expiry_date t of None \<Rightarrow> False | Some d \<Rightarrow> if d < n then False else True)"

definition intermediaries :: "db \<Rightarrow> ticket_instance \<Rightarrow> (display_ticket_intermediary \<times> event_row) list" where
  "intermediaries s t = concat (map (\<lambda>oi. map (\<lambda>(tt, w, e).
       (\<lparr>dti_id = ti_id t, dti_order_id = oi_order_id oi, dti_unit_price_in_cents = price_with_fees s oi,
         dti_ticket_type_id = tt_id tt, dti_name = tt_name tt, dti_user_id = w_user_id w,
         dti_event_id = e_id e, dti_venue_id = e_venue_id e, dti_status = ti_status t,
         dti_redeem_key = ti_redeem_key t, dti_redeem_date = e_redeem_date e,
         dti_pending_transfer = pending_transfer (now s) t\<rparr>, e)) (ticket_joins s t))
     (items_of_ticket s t))"

definition find_for_display ::
  "'tz time_zones \<Rightarrow> uuid \<Rightarrow> (display_event \<times> display_user option \<times> display_ticket) dbop"
where
  "find_for_display z id' =
     bindo (first_where (\<lambda>s. concat (map (intermediaries s) (filter (\<lambda>t. ti_id t = id') (db_ticket_instances s))))
       (\<lambda>_. True) QueryError ''Unable to load ticket'') (\<lambda>(t, _).
     bindo (event_find (dti_event_id t)) (\<lambda>e.
     bindo (event_for_display z e) (\<lambda>event.
     bindo (case dti_user_id t of
         Some uid \<Rightarrow> bindo (user_find uid) (\<lambda>u. ret (Some (display_user_of u)))
       | None \<Rightarrow> ret None) (\<lambda>user.
     bindo (gets utc_now) (\<lambda>utc. ret (event, user, display_ticket_of utc t))))))"

record processing_ticket =
  pt_id :: uuid
  pt_asset_id :: uuid
  pt_token_id :: int
  pt_wallet_id :: uuid
  pt_ticket_type_name :: string

record processing_ticket_intermediary =
  pti_id :: uuid
  pti_asset_id :: uuid
  pti_token_id :: int
  pti_wallet_id :: uuid
  pti_name :: string
  pti_user_id :: "uuid option"
  pti_event_id :: uuid
  pti_venue_id :: "uuid option"

definition processing_ticket_of :: "processing_ticket_intermediary \<Rightarrow> processing_ticket" where
  "processing_ticket_of t =
     \<lparr>pt_id = pti_id t, pt_asset_id = pti_asset_id t, pt_token_id = pti_token_id t,
      pt_wallet_id = pti_wallet_id t, pt_ticket_type_name = pti_name t\<rparr>"

definition find_for_processing :: "uuid \<Rightarrow> uuid \<Rightarrow> processing_ticket_intermediary dbop" where
  "find_for_processing id' event_id =
     first_where (\<lambda>s. concat (map (\<lambda>t. map (\<lambda>(tt, w, e).
         \<lparr>pti_id = ti_id t, pti_asset_id = ti_asset_id t, pti_token_id = ti_token_id t,
          pti_wallet_id = ti_wallet_id t, pti_name = tt_name tt, pti_user_id = w_user_id w,
          pti_event_id = e_id e, pti_venue_id = e_venue_id e\<rparr>)
         (filter (\<lambda>(tt, w, e). e_id e = event_id) (ticket_joins s t)))
         (filter (\<lambda>t. ti_id t = id') (db_ticket_instances s))))
       (\<lambda>_. True) QueryError ''Unable to load ticket''"

text \<open>\<open>group_by\<close> of the iterator: runs of neighbours with the same key.\<close>

fun runs_of :: "('a \<Rightarrow> 'k) \<Rightarrow> 'a list \<Rightarrow> ('k \<times> 'a list) list" where
  "runs_of key [] = []"
| "runs_of key (x # xs) =
     (case runs_of key xs of
        (k, g) # rest \<Rightarrow> if key x = k then (k, x # g) # rest else (key x, [x]) # (k, g) # rest
      | [] \<Rightarrow> [(key x, [x])])"

definition ticket_find_for_user_for_display ::
  "'tz time_zones \<Rightarrow> uuid \<Rightarrow> uuid option \<Rightarrow> timestamp option \<Rightarrow> timestamp option \<Rightarrow>
   (display_event \<times> display_ticket list) list dbop"
where
  "ticket_find_for_user_for_display z user_id event_id start_time end_time =
     bindo (gets (\<lambda>s. map fst
       (sort_key (\<lambda>(t, e). (unwrap_or (e_event_start e) 0, collate s (e_name e)))
         (filter (\<lambda>(t, e).
            (case e_event_start e of Some d \<Rightarrow> d \<ge> unwrap_or start_time 0 | None \<Rightarrow> False) \<and>
            (case e_event_end e of Some d \<Rightarrow> d \<le> unwrap_or end_time (days 730485) | None \<Rightarrow> False) \<and>
            dti_user_id t = Some user_id \<and>
            (case event_id of Some i \<Rightarrow> e_id e = i | None \<Rightarrow> True))
           (concat (map (intermediaries s) (db_ticket_instances s))))))) (\<lambda>tickets.
     fold_op (\<lambda>(key, group) grouped_display_tickets.
       bindo (event_find key) (\<lambda>e.
       bindo (event_for_display z e) (\<lambda>event.
       bindo (gets utc_now) (\<lambda>utc.
       ret (grouped_display_tickets @ [(event, map (display_ticket_of utc) group)])))))
       (runs_of dti_event_id tickets) [])"

section \<open>Tickets at the door\<close>

record redeemable_ticket =
  rt_id :: uuid
  rt_ticket_type :: string
  rt_user_id :: "uuid option"
  rt_order_id :: uuid
  rt_order_item_id :: uuid
  rt_price_in_cents :: int
  rt_first_name :: "string option"
  rt_last_name :: "string option"
  rt_email :: "string option"
  rt_phone :: "string option"
  rt_redeem_key :: "string option"
  rt_redeem_date :: "timestamp option"
  rt_status :: ticket_instance_status
  rt_event_id :: uuid
  rt_event_name :: string
  rt_door_time :: "timestamp option"
  rt_event_start :: "timestamp option"
  rt_venue_id :: "uuid option"
  rt_venue_name :: "string option"

text \<open>A ticket with the order it belongs to and the guest: the person the order is for, else the owner of
  the wallet. The venue is the event's, when there is one.\<close>

definition guest_rows ::
  "db \<Rightarrow> ticket_instance \<Rightarrow> (order_item \<times> ticket_type \<times> event_row \<times> user_row) list"
where
  "guest_rows s t = concat (map (\<lambda>oi. concat (map (\<lambda>ord. concat (map (\<lambda>(tt, w, e).
       map (\<lambda>u. (oi, tt, e, u))
         (filter (\<lambda>u. or_else (o_on_behalf_of_user_id ord) (w_user_id w) = Some (u_id u)) (db_users s)))
     (ticket_joins s t))) (filter (\<lambda>ord. o_id ord = oi_order_id oi) (db_orders s)))) (items_of_ticket s t))"

definition redeemable_ticket_of ::
  "db \<Rightarrow> ticket_instance \<Rightarrow> order_item \<times> ticket_type \<times> event_row \<times> user_row \<Rightarrow> uuid option \<Rightarrow>
   string option \<Rightarrow> redeemable_ticket"
where
  "redeemable_ticket_of s t row venue_id venue_name =
     (case row of (oi, tt, e, u) \<Rightarrow>
        \<lparr>rt_id = ti_id t, rt_ticket_type = tt_name tt, rt_user_id = Some (u_id u),
         rt_order_id = oi_order_id oi, rt_order_item_id = oi_id oi,
         rt_price_in_cents = price_with_fees s oi, rt_first_name = u_first_name u,
         rt_last_name = u_last_name u, rt_email = u_email u, rt_phone = u_phone u,
         rt_redeem_key = ti_redeem_key t, rt_redeem_date = e_redeem_date e, rt_status = ti_status t,
         rt_event_id = e_id e, rt_event_name = e_name e, rt_door_time = e_door_time e,
         rt_event_start = e_event_start e, rt_venue_id = venue_id, rt_venue_name = venue_name\<rparr>)"

definition venue_of_event :: "db \<Rightarrow> event_row \<Rightarrow> venue option" where
  "venue_of_event s e = find (\<lambda>v. e_venue_id e = Some (v_id v)) (db_venues s)"

definition show_redeemable_ticket :: "uuid \<Rightarrow> redeemable_ticket dbop" where
  "show_redeemable_ticket ticket_id =
     bindo (first_where (\<lambda>s. concat (map (\<lambda>t. map (\<lambda>(oi, tt, e, u).
         redeemable_ticket_of s t (oi, tt, e, u) (e_venue_id e) (map_option v_name (venue_of_event s e)))
         (guest_rows s t)) (filter (\<lambda>t. ti_id t = ticket_id) (db_ticket_instances s))))
       (\<lambda>_. True) QueryError ''Unable to load ticket'') (\<lambda>ticket_data.
     bindo (gets utc_now) (\<lambda>utc.
     ret (if (case rt_redeem_date ticket_data of Some d \<Rightarrow> d > utc | None \<Rightarrow> False)
          then ticket_data\<lparr>rt_redeem_key := None\<rparr> else ticket_data)))"

text \<open>The guest list searches names, address and phone number; it uses the query as it is, and the join
  with venues leaves out events without one.\<close>

definition text_matches :: "string option \<Rightarrow> string \<Rightarrow> bool" where
  "text_matches field pattern = (case field of Some t \<Rightarrow> ilike t pattern | None \<Rightarrow> False)"

definition user_matches :: "user_row \<Rightarrow> string \<Rightarrow> bool" where
  "user_matches u pattern \<longleftrightarrow>
     text_matches (u_first_name u) pattern \<or> text_matches (u_last_name u) pattern \<or>
     text_matches (u_email u) pattern \<or> text_matches (u_phone u) pattern"

definition guest_list :: "event_row \<Rightarrow> string \<Rightarrow> redeemable_ticket list dbop" where
  "guest_list self query = gets (\<lambda>s. map snd (sort_key fst (concat (map (\<lambda>t.
     concat (map (\<lambda>(oi, tt, e, u).
       case venue_of_event s e of
         None \<Rightarrow> []
       | Some v \<Rightarrow>
           if tt_event_id tt = e_id self \<and> user_matches u (''%'' @ query @ ''%'')
           then [((nulls_last s (u_last_name u), ti_id t),
             (redeemable_ticket_of s t (oi, tt, e, u) (Some (v_id v)) (Some (v_name v)))
               \<lparr>rt_redeem_key := (case e_redeem_date e of
                  None \<Rightarrow> ti_redeem_key t
                | Some d \<Rightarrow> if d < now s then ti_redeem_key t else None)\<rparr>)]
           else [])
       (guest_rows s t))) (db_ticket_instances s)))))"

section \<open>Summaries of an organization's events\<close>

record event_summary_ticket_type =
  estt_event_id :: uuid
  estt_name :: string
  estt_min_price :: int
  estt_max_price :: int
  estt_total :: int
  estt_sold_unreserved :: int
  estt_sold_held :: int
  estt_open :: int
  estt_held :: int
  estt_sales_total_in_cents :: "int option"

record event_summary =
  es_id :: uuid
  es_name :: string
  es_organization_id :: uuid
  es_venue :: "venue_info option"
  es_created_at :: timestamp
  es_event_start :: "timestamp option"
  es_door_time :: "timestamp option"
  es_status :: event_status
  es_promo_image_url :: "string option"
  es_additional_info :: "string option"
  es_top_line_info :: "string option"
  es_age_limit :: "u32 option"
  es_cancelled_at :: "timestamp option"
  es_min_ticket_price :: "u32 option"
  es_max_ticket_price :: "u32 option"
  es_publish_date :: "timestamp option"
  es_on_sale :: "timestamp option"
  es_total_tickets :: u32
  es_sold_unreserved :: u32
  es_sold_held :: u32
  es_tickets_open :: u32
  es_tickets_held :: u32
  es_sales_total_in_cents :: u32
  es_ticket_types :: "event_summary_ticket_type list"
  es_is_external :: bool
  es_external_url :: "string option"
  es_override_status :: "event_override_status option"
  es_localized_times :: event_localized_time_strings

text \<open>The period of the page: an event without the date it is compared by belongs to none.\<close>

definition in_period :: "timestamp \<Rightarrow> past_or_upcoming option \<Rightarrow> event_row \<Rightarrow> bool" where
  "in_period n period e =
     (case period of
        None \<Rightarrow> True
      | Some Upcoming \<Rightarrow> (case e_event_start e of Some t \<Rightarrow> t \<ge> n | None \<Rightarrow> False)
      | Some Past \<Rightarrow> (case e_event_end e of Some t \<Rightarrow> t \<le> n | None \<Rightarrow> False))"

definition optional_min :: "int list \<Rightarrow> int option" where
  "optional_min xs = (case xs of [] \<Rightarrow> None | y # ys \<Rightarrow> Some (fold min ys y))"

definition optional_max :: "int list \<Rightarrow> int option" where
  "optional_max xs = (case xs of [] \<Rightarrow> None | y # ys \<Rightarrow> Some (fold max ys y))"

definition pricing_of_type :: "db \<Rightarrow> uuid \<Rightarrow> ticket_pricing list" where
  "pricing_of_type s ticket_type_id =
     filter (\<lambda>p. tp_ticket_type_id p = ticket_type_id) (db_ticket_pricing s)"

definition pricing_of_event :: "db \<Rightarrow> uuid \<Rightarrow> ticket_pricing list" where
  "pricing_of_event s event_id = concat (map (\<lambda>tt. pricing_of_type s (tt_id tt))
     (filter (\<lambda>tt. tt_event_id tt = event_id) (db_ticket_types s)))"

text \<open>The sum over the paid items that satisfy a condition, null when there is none.\<close>

definition paid_total :: "db \<Rightarrow> (order_item \<Rightarrow> bool) \<Rightarrow> int option" where
  "paid_total s P =
     (let paid = filter (\<lambda>oi. P oi \<and> list_ex (\<lambda>ord. o_id ord = oi_order_id oi \<and> o_status ord = Paid) (db_orders s))
        (db_order_items s)
      in if paid = [] then None
        else Some (sum_list (map (\<lambda>oi. oi_unit_price_in_cents oi * (oi_quantity oi - oi_refunded_quantity oi)) paid)))"

definition events_of_page ::
  "db \<Rightarrow> uuid \<Rightarrow> past_or_upcoming option \<Rightarrow> u32 \<Rightarrow> u32 \<Rightarrow> uuid option \<Rightarrow> event_row list"
where
  "events_of_page s organization_id period offset limit event_id =
     (let rows = filter (\<lambda>e. e_organization_id e = organization_id \<and> in_period (now s) period e \<and>
            (case event_id of None \<Rightarrow> True | Some i \<Rightarrow> e_id e = i)) (db_events s);
          sorted = (case period of
              None \<Rightarrow> rows
            | Some Upcoming \<Rightarrow> sort_key (\<lambda>e. unwrap_or (e_event_start e) 0) rows
            | Some Past \<Rightarrow> sort_key (\<lambda>e. case e_event_start e of None \<Rightarrow> (False, 0) | Some t \<Rightarrow> (True, - t)) rows)
      in take (unat limit) (drop (unat offset) sorted))"

definition tickets_of_type :: "db \<Rightarrow> uuid \<Rightarrow> ticket_instance list" where
  "tickets_of_type s ticket_type_id = concat (map (\<lambda>a.
     filter (\<lambda>t. ti_asset_id t = a_id a) (db_ticket_instances s))
     (filter (\<lambda>a. a_ticket_type_id a = ticket_type_id) (db_assets s)))"

definition count_of :: "('a \<Rightarrow> bool) \<Rightarrow> 'a list \<Rightarrow> int" where
  "count_of P xs = int (length (filter P xs))"

definition sold :: "ticket_instance \<Rightarrow> bool" where
  "sold t \<longleftrightarrow> ti_status t \<in> {ticket_instance_status.Purchased, ticket_instance_status.Redeemed}"

definition unsold :: "ticket_instance \<Rightarrow> bool" where
  "unsold t \<longleftrightarrow> ti_status t \<in> {ticket_instance_status.Available, ticket_instance_status.Reserved}"

definition summary_of_type :: "db \<Rightarrow> event_row \<Rightarrow> ticket_type \<Rightarrow> event_summary_ticket_type option" where
  "summary_of_type s e tt =
     (let tickets = tickets_of_type s (tt_id tt);
          prices = map tp_price_in_cents (pricing_of_type s (tt_id tt)) in
      case (optional_min prices, optional_max prices) of
        (Some lo, Some hi) \<Rightarrow> Some \<lparr>estt_event_id = tt_event_id tt, estt_name = tt_name tt,
          estt_min_price = lo, estt_max_price = hi, estt_total = int (length tickets),
          estt_sold_unreserved = count_of (\<lambda>t. sold t \<and> ti_hold_id t = None) tickets,
          estt_sold_held = count_of (\<lambda>t. sold t \<and> ti_hold_id t \<noteq> None) tickets,
          estt_open = count_of (\<lambda>t. unsold t \<and> ti_hold_id t = None) tickets,
          estt_held = count_of (\<lambda>t. ti_hold_id t \<noteq> None) tickets,
          estt_sales_total_in_cents = paid_total s (\<lambda>oi. oi_ticket_type_id oi = Some (tt_id tt))\<rparr>
      | _ \<Rightarrow> None)"

text \<open>The ticket types that have tickets; a type without any price gives a null price, which the load
  refuses.\<close>

definition summaries_of_types ::
  "uuid \<Rightarrow> past_or_upcoming option \<Rightarrow> uuid option \<Rightarrow> event_summary_ticket_type list dbop"
where
  "summaries_of_types organization_id period event_id =
     bindo (gets (\<lambda>s. concat (map (\<lambda>e. concat (map (\<lambda>tt.
         if tickets_of_type s (tt_id tt) = [] then [] else [summary_of_type s e tt])
         (filter (\<lambda>tt. tt_event_id tt = e_id e) (db_ticket_types s))))
       (filter (\<lambda>e. e_organization_id e = organization_id \<and> in_period (now s) period e \<and>
          (case event_id of None \<Rightarrow> True | Some i \<Rightarrow> e_id e = i)) (db_events s))))) (\<lambda>rows.
     if None \<in> set rows
     then lift_result (wrap QueryError ''Could not load events' ticket types for organization'' (Inl OtherFailure))
     else ret (map the rows))"

definition summary_of_event ::
  "'tz time_zones \<Rightarrow> db \<Rightarrow> event_summary_ticket_type list \<Rightarrow> event_row \<Rightarrow> event_summary"
where
  "summary_of_event z s ticket_types e =
     (let venue = map_option (\<lambda>v. \<lparr>vi_id = v_id v, vi_name = v_name v, vi_timezone = v_timezone v\<rparr>)
            (venue_of_event s e);
          timezone = (case venue of Some v \<Rightarrow> vi_timezone v | None \<Rightarrow> None);
          localized_times =
            \<lparr>elts_event_start = map_option (to_rfc2822 z) (localized_time z (e_event_start e) timezone),
             elts_event_end = map_option (to_rfc2822 z) (localized_time z (e_event_end e) timezone),
             elts_door_time = map_option (to_rfc2822 z) (localized_time z (e_door_time e) timezone)\<rparr>;
          prices = map tp_price_in_cents (pricing_of_event s (e_id e));
          own = map (\<lambda>tt. tt\<lparr>estt_sales_total_in_cents := Some (unwrap_or (estt_sales_total_in_cents tt) 0)\<rparr>)
            (filter (\<lambda>tt. estt_event_id tt = e_id e) ticket_types)
      in \<lparr>es_id = e_id e, es_name = e_name e, es_organization_id = e_organization_id e, es_venue = venue,
          es_created_at = e_created_at e, es_event_start = e_event_start e, es_door_time = e_door_time e,
          es_status = e_status e, es_promo_image_url = e_promo_image_url e,
          es_additional_info = e_additional_info e, es_top_line_info = e_top_line_info e,
          es_age_limit = map_option as_u32 (e_age_limit e), es_cancelled_at = e_cancelled_at e,
          es_min_ticket_price = map_option as_u32 (optional_min prices),
          es_max_ticket_price = map_option as_u32 (optional_max prices),
          es_publish_date = e_publish_date e,
          es_on_sale = optional_min (map tp_start_date (pricing_of_event s (e_id e))),
          es_total_tickets = sum_list (map (\<lambda>tt. as_u32 (estt_total tt)) own),
          es_sold_unreserved = sum_list (map (\<lambda>tt. as_u32 (estt_sold_unreserved tt)) own),
          es_sold_held = sum_list (map (\<lambda>tt. as_u32 (estt_sold_held tt)) own),
          es_tickets_open = sum_list (map (\<lambda>tt. as_u32 (estt_open tt)) own),
          es_tickets_held = sum_list (map (\<lambda>tt. as_u32 (estt_held tt)) own),
          es_sales_total_in_cents =
            as_u32 (unwrap_or (paid_total s (\<lambda>oi. oi_event_id oi = Some (e_id e))) 0),
          es_ticket_types = own, es_is_external = e_is_external e, es_external_url = e_external_url e,
          es_override_status = e_override_status e, es_localized_times = localized_times\<rparr>)"

text \<open>Without an event and an organization the program stops, which no caller asks for: the organization
  is an argument here, and is the event's when there is one.\<close>

definition find_summary_data ::
  "'tz time_zones \<Rightarrow> uuid \<Rightarrow> uuid option \<Rightarrow> past_or_upcoming option \<Rightarrow> u32 \<Rightarrow> u32 \<Rightarrow> event_summary list dbop"
where
  "find_summary_data z organization_id event_id period page limit =
     bindo (gets (\<lambda>s. events_of_page s organization_id period (page * limit) limit event_id)) (\<lambda>events.
     bindo (summaries_of_types organization_id period event_id) (\<lambda>ticket_types.
     gets (\<lambda>s. map (summary_of_event z s ticket_types) events)))"

text \<open>\<open>results.remove(0)\<close> stops the program when the event is not found.\<close>

definition event_summary_of :: "'tz time_zones \<Rightarrow> event_row \<Rightarrow> (db, event_summary) panic_op" where
  "event_summary_of z self =
     bindo (attempt (find_summary_data z (e_organization_id self) (Some (e_id self)) None 0 100)) (\<lambda>r.
     case r of
       Inl err \<Rightarrow> fail (Some err)
     | Inr [] \<Rightarrow> fail None
     | Inr (x # _) \<Rightarrow> ret x)"

text \<open>The total counts events without a start as upcoming and events without an end as past; the page
  leaves them out.\<close>

definition far_future :: timestamp where
  "far_future = days 2932896"

definition recent_past :: timestamp where
  "recent_past = days 10956"

definition counted_in_period :: "timestamp \<Rightarrow> past_or_upcoming \<Rightarrow> event_row \<Rightarrow> bool" where
  "counted_in_period n period e =
     (case period of
        Upcoming \<Rightarrow> unwrap_or (e_event_start e) far_future \<ge> n
      | Past \<Rightarrow> unwrap_or (e_event_end e) recent_past \<le> n)"

definition find_all_events_for_organization ::
  "'tz time_zones \<Rightarrow> uuid \<Rightarrow> past_or_upcoming \<Rightarrow> u32 \<Rightarrow> u32 \<Rightarrow> event_summary payload dbop"
where
  "find_all_events_for_organization z organization_id period page limit =
     bindo (gets (\<lambda>s. length (filter (\<lambda>e. e_organization_id e = organization_id \<and>
       counted_in_period (now s) period e) (db_events s)))) (\<lambda>total.
     bindo (find_summary_data z organization_id None (Some period) page limit) (\<lambda>results.
     ret \<lparr>pl_data = results, pl_paging = (paging_new page limit)\<lparr>pg_total := total\<rparr>\<rparr>))"

section \<open>Fans\<close>

datatype fan_sort_field = SortFirstName | SortLastName | SortEmail | SortPhone | SortOrders | SortFirstOrder
  | SortLastOrder | SortRevenue

record display_fan =
  df_user_id :: uuid
  df_first_name :: "string option"
  df_last_name :: "string option"
  df_email :: "string option"
  df_phone :: "string option"
  df_thumb_profile_pic_url :: "string option"
  df_organization_id :: uuid
  df_order_count :: "u32 option"
  df_created_at :: timestamp
  df_first_order_time :: "timestamp option"
  df_last_order_time :: "timestamp option"
  df_revenue_in_cents :: "int option"

definition search_pattern :: "string option \<Rightarrow> string" where
  "search_pattern query = (case query of Some q \<Rightarrow> ''%'' @ escape_text q @ ''%'' | None \<Rightarrow> ''%'')"

text \<open>The queries order by the number of a column. The picture is column six, so that from there on the
  numbers of the fields name the column before: orders are ordered by the user's id, the first order by the
  number of orders, the last order by the creation of the user, and the revenue by the first order. A null
  is after every value.\<close>

definition fan_key :: "db \<Rightarrow> fan_sort_field \<Rightarrow> display_fan \<Rightarrow> bool \<times> int" where
  "fan_key s field f =
     (case field of
        SortFirstName \<Rightarrow> nulls_last s (df_first_name f)
      | SortLastName \<Rightarrow> nulls_last s (df_last_name f)
      | SortEmail \<Rightarrow> nulls_last s (df_email f)
      | SortPhone \<Rightarrow> nulls_last s (df_phone f)
      | SortOrders \<Rightarrow> (False, int (df_user_id f))
      | SortFirstOrder \<Rightarrow> (False, case df_order_count f of Some n \<Rightarrow> uint n | None \<Rightarrow> 0)
      | SortLastOrder \<Rightarrow> (False, df_created_at f)
      | SortRevenue \<Rightarrow> (case df_first_order_time f of Some t \<Rightarrow> (False, t) | None \<Rightarrow> (True, 0)))"

definition sort_fans :: "(display_fan \<Rightarrow> bool \<times> int) \<Rightarrow> sorting_dir \<Rightarrow> display_fan list \<Rightarrow> display_fan list" where
  "sort_fans key dir fans =
     (case dir of
        Asc \<Rightarrow> sort_key key fans
      | Desc \<Rightarrow> sort_key (\<lambda>f. case key f of (b, k) \<Rightarrow> (\<not> b, - k)) fans)"

text \<open>The fans of an organization: who paid orders with items of its events.\<close>

definition fan_of_user :: "uuid \<Rightarrow> (order_item \<times> order_row \<times> event_row) list \<Rightarrow> user_row \<Rightarrow> display_fan" where
  "fan_of_user organization_id sales u =
     (let own = filter (\<lambda>(oi, ord, e). o_user_id ord = u_id u) sales in
      \<lparr>df_user_id = u_id u, df_first_name = u_first_name u, df_last_name = u_last_name u,
       df_email = u_email u, df_phone = u_phone u, df_thumb_profile_pic_url = u_thumb_profile_pic_url u,
       df_organization_id = organization_id,
       df_order_count = Some (of_nat (length (remdups (map (\<lambda>(oi, ord, e). o_id ord) own)))),
       df_created_at = u_created_at u,
       df_first_order_time = optional_min (map (\<lambda>(oi, ord, e). o_order_date ord) own),
       df_last_order_time = optional_max (map (\<lambda>(oi, ord, e). o_order_date ord) own),
       df_revenue_in_cents = Some (revenue_of own)\<rparr>)"

definition organization_search_fans ::
  "organization \<Rightarrow> string option \<Rightarrow> u32 \<Rightarrow> u32 \<Rightarrow> fan_sort_field \<Rightarrow> sorting_dir \<Rightarrow> display_fan payload dbop"
where
  "organization_search_fans self query page limit sort_field sort_direction = gets (\<lambda>s.
     let sales = sales_of_organization s (org_id self) (\<lambda>_. True);
         buyers = filter (\<lambda>u. list_ex (\<lambda>(oi, ord, e). o_user_id ord = u_id u) sales \<and>
           user_matches u (search_pattern query)) (db_users s);
         fans = map (fan_of_user (org_id self) sales) buyers;
         results = take (unat limit) (drop (unat (limit * page)) (sort_fans (fan_key s sort_field) sort_direction fans))
     in with_total (if results = [] then 0 else length fans) (payload_new results (paging_new page limit)))"

text \<open>The fans of an event. The full outer join pairs every interest of a user, in any event, with every
  order of the user, in any state, and every item of the order.\<close>

definition buyer :: "order_row \<Rightarrow> uuid" where
  "buyer ord = unwrap_or (o_on_behalf_of_user_id ord) (o_user_id ord)"

definition interests_and_orders :: "db \<Rightarrow> (event_interest option \<times> order_row option) list" where
  "interests_and_orders s =
     concat (map (\<lambda>i. case filter (\<lambda>ord. buyer ord = ei_user_id i) (db_orders s) of
         [] \<Rightarrow> [(Some i, None)] | os \<Rightarrow> map (\<lambda>ord. (Some i, Some ord)) os) (db_event_interest s)) @
     map (\<lambda>ord. (None, Some ord))
       (filter (\<lambda>ord. \<not> list_ex (\<lambda>i. ei_user_id i = buyer ord) (db_event_interest s)) (db_orders s))"

definition with_items ::
  "db \<Rightarrow> event_interest option \<times> order_row option \<Rightarrow> (event_interest option \<times> order_row option \<times> order_item option) list"
where
  "with_items s row =
     (case row of (i, ord) \<Rightarrow>
        (case ord of
           None \<Rightarrow> [(i, None, None)]
         | Some x \<Rightarrow> (case filter (\<lambda>oi. oi_order_id oi = o_id x) (db_order_items s) of
             [] \<Rightarrow> [(i, Some x, None)] | items \<Rightarrow> map (\<lambda>oi. (i, Some x, Some oi)) items)))"

definition fan_rows ::
  "db \<Rightarrow> uuid \<Rightarrow> string \<Rightarrow> (user_row \<times> uuid \<times> order_row option \<times> order_item option) list"
where
  "fan_rows s event_id pattern = concat (map (\<lambda>(i, ord, item).
     let of_item = (case item of Some oi \<Rightarrow> oi_event_id oi | None \<Rightarrow> None);
         of_interest = map_option ei_event_id i;
         user_id = or_else (map_option buyer ord) (map_option ei_user_id i) in
     if of_interest = Some event_id \<or> of_item = Some event_id
     then concat (map (\<lambda>u. map (\<lambda>e. (u, e_organization_id e, ord, item))
         (filter (\<lambda>e. or_else of_item of_interest = Some (e_id e)) (db_events s)))
       (filter (\<lambda>u. Some (u_id u) = user_id \<and> user_matches u pattern) (db_users s)))
     else []) (concat (map (with_items s) (interests_and_orders s))))"

definition fan_of_group ::
  "(user_row \<times> uuid \<times> order_row option \<times> order_item option) list \<Rightarrow> user_row \<times> uuid \<Rightarrow> display_fan"
where
  "fan_of_group rows fan =
     (case fan of (u, organization_id) \<Rightarrow>
        let own = filter (\<lambda>(v, g, _, _). (v, g) = (u, organization_id)) rows;
            orders = map the (filter (\<lambda>x. x \<noteq> None) (map (\<lambda>(_, _, ord, _). ord) own));
            items = map the (filter (\<lambda>x. x \<noteq> None) (map (\<lambda>(_, _, _, item). item) own)) in
        \<lparr>df_user_id = u_id u, df_first_name = u_first_name u, df_last_name = u_last_name u,
         df_email = u_email u, df_phone = u_phone u, df_thumb_profile_pic_url = u_thumb_profile_pic_url u,
         df_organization_id = organization_id,
         df_order_count = Some (of_nat (length (remdups (map o_id orders)))),
         df_created_at = u_created_at u,
         df_first_order_time = optional_min (map o_order_date orders),
         df_last_order_time = optional_max (map o_order_date orders),
         df_revenue_in_cents = Some (sum_list (map (\<lambda>oi.
           oi_unit_price_in_cents oi * (oi_quantity oi - oi_refunded_quantity oi)) items))\<rparr>)"

definition fans_of_event :: "db \<Rightarrow> uuid \<Rightarrow> string \<Rightarrow> display_fan list" where
  "fans_of_event s event_id pattern =
     (let rows = fan_rows s event_id pattern in
      map (fan_of_group rows) (remdups (map (\<lambda>(u, g, _, _). (u, g)) rows)))"

text \<open>Limit and offset become \<open>i32\<close>; the database refuses negative ones.\<close>

definition event_search_fans ::
  "event_row \<Rightarrow> string option \<Rightarrow> u32 option \<Rightarrow> u32 option \<Rightarrow> fan_sort_field option \<Rightarrow> sorting_dir option \<Rightarrow>
   (display_fan list \<times> nat) dbop"
where
  "event_search_fans self query limit offset sort_field sort_direction =
     (let dir = unwrap_or sort_direction Desc; l = unwrap_or limit 100; o' = unwrap_or offset 0 in
      if sint l < 0 \<or> sint o' < 0
      then lift_result (wrap QueryError ''Could not fetch query results'' (Inl OtherFailure))
      else gets (\<lambda>s.
        let fans = fans_of_event s (e_id self) (search_pattern query);
            key = (case sort_field of Some field \<Rightarrow> fan_key s field | None \<Rightarrow> (\<lambda>f. (False, df_created_at f)));
            results = take (unat l) (drop (unat o') (sort_fans key dir fans))
        in (results, if results = [] then 0 else length fans)))"

section \<open>The redeem key is shown at its time\<close>

text \<open>Neither the holder's view nor the view at the door shows the redeem key before the redeem date.\<close>

lemma display_ticket_key:
  "dt_redeem_key (display_ticket_of utc t) =
     (if (\<exists>d. dti_redeem_date t = Some d \<and> utc < d) then None else dti_redeem_key t)"
  by (simp add: display_ticket_of_def Let_def split: option.split)

lemma show_redeemable_ticket_key:
  assumes "show_redeemable_ticket i s = (Inr r, t)" and "rt_redeem_date r = Some d" and "utc_now s < d"
  shows "rt_redeem_key r = None"
proof -
  obtain x where "r = (if (case rt_redeem_date x of Some d \<Rightarrow> d > utc_now s | None \<Rightarrow> False)
      then x\<lparr>rt_redeem_key := None\<rparr> else x)"
    using assms(1) by (force simp: show_redeemable_ticket_def bindo_Inr_iff first_where_Inr_iff ret_run gets_def)
  with assms(2,3) show ?thesis
    by (simp split: if_splits)
qed

section \<open>Totals and fans as they are counted\<close>

text \<open>An event without dates is in the total of both periods and on the page of none.\<close>

lemma undated_event_counted:
  assumes "e_event_start e = None" and "e_event_end e = None" and "recent_past \<le> n" and "n \<le> far_future"
  shows "counted_in_period n period e \<and> \<not> in_period n (Some period) e"
  using assms by (cases period) (simp_all add: counted_in_period_def in_period_def)

text \<open>An event that has started and has not ended is neither past nor upcoming.\<close>

lemma running_event_in_no_period:
  assumes "e_event_start e = Some a" and "a < n" and "e_event_end e = Some b" and "n < b"
  shows "\<not> in_period n (Some period) e \<and> \<not> counted_in_period n period e"
  using assms by (cases period) (simp_all add: in_period_def counted_in_period_def)

text \<open>A fan who is interested in two events and bought one ticket for 100 in the first of them counts with a
  revenue of 200 there, before anything is paid.\<close>

definition sample_fan :: db where
  "sample_fan = blank_db\<lparr>db_events := [blank_event 1 9, blank_event 2 9],
     db_users := [(blank_user 3)\<lparr>u_first_name := Some ''Ann''\<rparr>],
     db_event_interest :=
       [\<lparr>ei_id = 4, ei_event_id = 1, ei_user_id = 3, ei_created_at = 0, ei_updated_at = 0\<rparr>,
        \<lparr>ei_id = 5, ei_event_id = 2, ei_user_id = 3, ei_created_at = 0, ei_updated_at = 0\<rparr>],
     db_orders := [blank_order 6 3 Draft],
     db_order_items := [(blank_item 7 6 order_item_types.Tickets 1 100)\<lparr>oi_event_id := Some 1\<rparr>]\<rparr>"

lemma fan_revenue_doubled:
  "map df_revenue_in_cents (fans_of_event sample_fan 1 ''%'') = [Some 200]"
  by (simp add: fans_of_event_def fan_rows_def interests_and_orders_def with_items_def sample_fan_def
      blank_defs buyer_def or_else_def user_matches_def text_matches_def ilike_any fan_of_group_def Let_def)

end
