(* ===== verification/Web.thy ===== *)
theory Web imports Displays begin

text \<open>
  The frame in which a request runs: the errors of the web layer and the responses they become
  (\<open>api/src/errors\<close>), the transaction around a request (\<open>api/src/db/connection.rs\<close>,
  \<open>middleware/database_transaction.rs\<close>), the signed-in user with the checks of scopes
  (\<open>api/src/auth/user.rs\<close>), and the short responses that controllers use (\<open>helpers/application.rs\<close>).
  Services outside the program (payment processor, block chain, mail) answer by parameters; the
  session records the calls.
\<close>

section \<open>Errors and responses\<close>

datatype auth_error_type = Forbidden | Unauthorized

record auth_error =
  ae_reason :: string
  ae_error_type :: auth_error_type

datatype application_error_type = Unprocessable | Internal

record application_error =
  ape_reason :: string
  ape_error_type :: application_error_type

record payment_processor_error =
  ppe_description :: string
  ppe_cause :: "string option"

text \<open>The errors that convert into the error of the web layer; those of crates carry nothing here.
  \<open>HandlerPanicked\<close> stands for a panic of the handler, which ends the request and its transaction.\<close>

datatype big_neon_error = OfApplication application_error | OfAuth auth_error | OfDatabase db_error
  | OfEnumParse enum_parse_error | OfPaymentProcessor payment_processor_error | OfTari tari_error
  | OfDiesel | OfEmailBuilder | OfJwt | OfReqwest | OfReqwestToStr | OfSerde | OfSmtp | OfStripe
  | OfUuidParse | OfR2d2 | HandlerPanicked

definition auth_error_new :: "auth_error_type \<Rightarrow> string \<Rightarrow> auth_error" where
  "auth_error_new error_type reason = \<lparr>ae_reason = reason, ae_error_type = error_type\<rparr>"

definition application_error_new :: "string \<Rightarrow> application_error" where
  "application_error_new reason = \<lparr>ape_reason = reason, ape_error_type = Internal\<rparr>"

definition application_error_new_with_type :: "application_error_type \<Rightarrow> string \<Rightarrow> application_error" where
  "application_error_new_with_type error_type reason = \<lparr>ape_reason = reason, ape_error_type = error_type\<rparr>"

text \<open>The body of a response: nothing, an error message (with the cause of a business process error, or
  the errors of fields), or what a handler answers.\<close>

datatype 'b body = Empty | Failed string | FailedBecause string cause
  | InvalidFields "validation_errors option" | Json 'b

record 'b http_response =
  hr_status :: nat
  hr_body :: "'b body"

definition status_code_and_message :: "nat \<Rightarrow> string \<Rightarrow> 'b http_response" where
  "status_code_and_message code message = \<lparr>hr_status = code, hr_body = Failed message\<rparr>"

definition internal_error :: "string \<Rightarrow> 'b http_response" where
  "internal_error message = status_code_and_message 500 message"

definition unauthorized_response :: "string \<Rightarrow> 'b http_response" where
  "unauthorized_response message = status_code_and_message 401 message"

definition forbidden_response :: "string \<Rightarrow> 'b http_response" where
  "forbidden_response message = status_code_and_message 403 message"

definition unprocessable_response :: "string \<Rightarrow> 'b http_response" where
  "unprocessable_response message = status_code_and_message 422 message"

definition database_error_response :: "db_error \<Rightarrow> 'b http_response" where
  "database_error_response e =
     (if err_code e = 1000 then status_code_and_message 400 ''Invalid input''
      else if err_code e = 1100 then status_code_and_message 400 ''Missing input''
      else if err_code e = 2000 then status_code_and_message 404 ''No results''
      else if err_code e = 3000 then internal_error ''Query error''
      else if err_code e = 3100 then internal_error ''Could not insert record''
      else if err_code e = 3200 then internal_error ''Could not update record''
      else if err_code e = 3300 then internal_error ''Could not delete record''
      else if err_code e = 3400 then status_code_and_message 409 ''Duplicate record exists''
      else if err_code e = 4000 then internal_error ''Connection error''
      else if err_code e = 5000 then internal_error ''Internal error''
      else if err_code e = 7000
      then \<lparr>hr_status = 422, hr_body = FailedBecause ''Business process error: ''
             (unwrap_or (err_cause e) (Text ''Unknown Cause''))\<rparr>
      else if err_code e = 7200
      then (case err_error_code e of
          ValidationError errors \<Rightarrow> \<lparr>hr_status = 422, hr_body = InvalidFields (Some errors)\<rparr>
        | _ \<Rightarrow> \<lparr>hr_status = 422, hr_body = InvalidFields None\<rparr>)
      else if err_code e = 7300 then internal_error ''Internal error''
      else internal_error ''Unknown error'')"

definition auth_error_response :: "auth_error \<Rightarrow> 'b http_response" where
  "auth_error_response e =
     (case ae_error_type e of
        Forbidden \<Rightarrow> forbidden_response (ae_reason e)
      | Unauthorized \<Rightarrow> unauthorized_response (ae_reason e))"

definition application_error_response :: "application_error \<Rightarrow> 'b http_response" where
  "application_error_response e =
     (case ape_error_type e of
        Internal \<Rightarrow> internal_error ''Internal error''
      | Unprocessable \<Rightarrow> unprocessable_response (ape_reason e))"

definition to_response :: "big_neon_error \<Rightarrow> 'b http_response" where
  "to_response e =
     (case e of
        OfApplication a \<Rightarrow> application_error_response a
      | OfAuth a \<Rightarrow> auth_error_response a
      | OfDatabase d \<Rightarrow> database_error_response d
      | OfJwt \<Rightarrow> unauthorized_response ''Invalid token''
      | OfTari _ \<Rightarrow> internal_error ''Internal error: Problem with the Tari client''
      | _ \<Rightarrow> internal_error ''Internal error'')"

section \<open>Sessions\<close>

datatype external_call = CreateRepeatToken string | UpdateRepeatToken string string
  | AuthCharge string int string uuid | RefundCharge string | PartialRefund string u32 | CompleteCharge string
  | CreateAsset create_asset_payload | IncreaseSupply string nat | NullifyTokens string "nat list"
  | RedeemToken string "nat list" | TransferTokens string "nat list" string

text \<open>A request works in a transaction on the database; the last committed state is what a rollback
  returns to.\<close>

record session =
  ss_db :: db
  ss_committed :: db
  ss_calls :: "external_call list"

type_synonym 'a web = "(session, big_neon_error, 'a) op"

text \<open>An operation of the models, with the \<open>?\<close> of a controller.\<close>

definition on_db :: "'a dbop \<Rightarrow> 'a web" where
  "on_db m = (\<lambda>w. case m (ss_db w) of
     (Inr x, t) \<Rightarrow> (Inr x, w\<lparr>ss_db := t\<rparr>)
   | (Inl e, t) \<Rightarrow> (Inl (OfDatabase e), w\<lparr>ss_db := t\<rparr>))"

definition call_external :: "external_call \<Rightarrow> unit web" where
  "call_external c = modify (\<lambda>w. w\<lparr>ss_calls := ss_calls w @ [c]\<rparr>)"

text \<open>The rows go back to a state; identifiers and keys that were drawn stay drawn.\<close>

definition roll_back_to :: "db \<Rightarrow> db \<Rightarrow> db" where
  "roll_back_to s t = s\<lparr>uuids_drawn := uuids_drawn t, rng_drawn := rng_drawn t, keypairs_drawn := keypairs_drawn t\<rparr>"

definition begin_transaction :: "unit web" where
  "begin_transaction = modify (\<lambda>w. w\<lparr>ss_committed := ss_db w\<rparr>)"

definition commit_transaction :: "unit web" where
  "commit_transaction = modify (\<lambda>w. w\<lparr>ss_committed := ss_db w\<rparr>)"

definition rollback_transaction :: "unit web" where
  "rollback_transaction = modify (\<lambda>w. w\<lparr>ss_db := roll_back_to (ss_committed w) (ss_db w)\<rparr>)"

text \<open>The whole request: an error of the handler becomes a response and rolls the transaction back; a
  response that the handler returns itself, whatever its status, commits.\<close>

definition run_request :: "'b http_response web \<Rightarrow> db \<Rightarrow> 'b http_response \<times> session" where
  "run_request handler s =
     (case bindo begin_transaction (\<lambda>_. handler) \<lparr>ss_db = s, ss_committed = s, ss_calls = []\<rparr> of
        (Inr response, w) \<Rightarrow> (response, snd (commit_transaction w))
      | (Inl e, w) \<Rightarrow> (to_response e, snd (rollback_transaction w)))"

section \<open>Texts of requests\<close>

text \<open>White space among the characters of headers and parameters, which are ASCII.\<close>

definition is_white :: "char \<Rightarrow> bool" where
  "is_white c \<longleftrightarrow> c = CHR '' '' \<or> (9 \<le> (of_char c :: nat) \<and> (of_char c :: nat) \<le> 13)"

definition trim :: "string \<Rightarrow> string" where
  "trim s = rev (dropWhile is_white (rev (dropWhile is_white s)))"

section \<open>Short responses\<close>

definition http_ok :: "'b \<Rightarrow> 'b http_response web" where
  "http_ok b = ret \<lparr>hr_status = 200, hr_body = Json b\<rparr>"

definition http_finish :: "'b http_response web" where
  "http_finish = ret \<lparr>hr_status = 200, hr_body = Empty\<rparr>"

definition http_created :: "'b \<Rightarrow> 'b http_response web" where
  "http_created b = ret \<lparr>hr_status = 201, hr_body = Json b\<rparr>"

definition no_content :: "'b http_response web" where
  "no_content = ret \<lparr>hr_status = 204, hr_body = Empty\<rparr>"

definition not_found :: "'b http_response web" where
  "not_found = ret \<lparr>hr_status = 404, hr_body = Empty\<rparr>"

definition unauthorized_with_message :: "string \<Rightarrow> 'a web" where
  "unauthorized_with_message message = fail (OfAuth (auth_error_new Unauthorized message))"

definition unauthorized :: "'a web" where
  "unauthorized = unauthorized_with_message ''User does not have the required permissions''"

definition forbidden :: "string \<Rightarrow> 'a web" where
  "forbidden message = fail (OfAuth (auth_error_new Forbidden message))"

definition unprocessable :: "string \<Rightarrow> 'a web" where
  "unprocessable message = fail (OfApplication (application_error_new_with_type Unprocessable message))"

definition internal_server_error :: "string \<Rightarrow> 'a web" where
  "internal_server_error message = fail (OfApplication (application_error_new message))"

section \<open>The signed-in user\<close>

record auth_user =
  au_user :: user_row
  au_global_scopes :: "string list"
  au_ip_address :: "string option"
  au_uri :: string
  au_method :: string

definition auth_user_new :: "user_row \<Rightarrow> string option \<Rightarrow> string \<Rightarrow> string \<Rightarrow> auth_user" where
  "auth_user_new user ip_address uri method' =
     \<lparr>au_user = user, au_global_scopes = map scope_to_string (get_global_scopes user),
      au_ip_address = ip_address, au_uri = uri, au_method = method'\<rparr>"

definition au_id :: "auth_user \<Rightarrow> uuid" where
  "au_id self = u_id (au_user self)"

definition au_email :: "auth_user \<Rightarrow> string option" where
  "au_email self = u_email (au_user self)"

text \<open>A failed check is written to the log, which is not modelled.\<close>

definition check_scope_access :: "auth_user \<Rightarrow> scopes \<Rightarrow> organization option \<Rightarrow> bool web" where
  "check_scope_access self scope organization =
     (if scope_to_string scope \<in> set (au_global_scopes self) then ret True
      else case organization of
          Some g \<Rightarrow>
            bindo (on_db (get_scopes_for_user g (au_user self))) (\<lambda>organization_scopes.
            if scope \<in> set organization_scopes then ret True else ret False)
        | None \<Rightarrow> ret False)"

definition has_scope :: "auth_user \<Rightarrow> scopes \<Rightarrow> bool web" where
  "has_scope self scope = check_scope_access self scope None"

definition has_scope_for_organization :: "auth_user \<Rightarrow> scopes \<Rightarrow> organization \<Rightarrow> bool web" where
  "has_scope_for_organization self scope organization = check_scope_access self scope (Some organization)"

definition requires_scope :: "auth_user \<Rightarrow> scopes \<Rightarrow> unit web" where
  "requires_scope self scope =
     bindo (check_scope_access self scope None) (\<lambda>granted.
     if granted then ret ()
     else fail (OfAuth (auth_error_new Unauthorized ''User does not have the required permissions'')))"

definition requires_scope_for_organization :: "auth_user \<Rightarrow> scopes \<Rightarrow> organization \<Rightarrow> unit web" where
  "requires_scope_for_organization self scope organization =
     bindo (check_scope_access self scope (Some organization)) (\<lambda>granted.
     if granted then ret ()
     else fail (OfAuth (auth_error_new Unauthorized ''User does not have the required permissions'')))"

section \<open>What a check of scopes decides\<close>

text \<open>The roles a user has in an organization, and whether they, or the global roles, grant a scope.\<close>

definition roles_in :: "db \<Rightarrow> user_row \<Rightarrow> organization \<Rightarrow> roles list" where
  "roles_in s user g =
     (if is_admin user then [OrgOwner]
      else case find (\<lambda>m. ou_user_id m = u_id user \<and> ou_organization_id m = org_id g) (db_organization_users s) of
          Some m \<Rightarrow> ou_role m | None \<Rightarrow> [])"

definition granted :: "db \<Rightarrow> auth_user \<Rightarrow> scopes \<Rightarrow> organization option \<Rightarrow> bool" where
  "granted s user scope organization \<longleftrightarrow>
     scope_to_string scope \<in> set (au_global_scopes user) \<or>
     (case organization of Some g \<Rightarrow> scope \<in> set (get_scopes (roles_in s (au_user user) g)) | None \<Rightarrow> False)"

lemma on_db_run: "on_db m w = (case fst (m (ss_db w)) of Inr x \<Rightarrow> Inr x | Inl e \<Rightarrow> Inl (OfDatabase e),
    w\<lparr>ss_db := snd (m (ss_db w))\<rparr>)"
  by (simp add: on_db_def split: prod.splits sum.splits)

lemma same_session: "w\<lparr>ss_db := ss_db w\<rparr> = w"
  by simp

lemma get_scopes_for_user_run: "get_scopes_for_user g user s = (Inr (get_scopes (roles_in s user g)), s)"
  by (simp add: get_scopes_for_user_def get_roles_for_user_def roles_in_def member_find_def bindo_run
      optional_op_run first_where_run ret_run optional_def wrap_def database_error_new_def split: option.split)

lemma check_scope_access_run: "check_scope_access user scope g w = (Inr (granted (ss_db w) user scope g), w)"
  by (simp add: check_scope_access_def granted_def bindo_run on_db_run get_scopes_for_user_run ret_run
      split: option.split)

lemma requires_scope_run:
  "requires_scope user scope w = (if granted (ss_db w) user scope None then Inr ()
     else Inl (OfAuth (auth_error_new Unauthorized ''User does not have the required permissions'')), w)"
  by (simp add: requires_scope_def bindo_run check_scope_access_run ret_run fail_run)

lemma requires_scope_for_organization_run:
  "requires_scope_for_organization user scope g w = (if granted (ss_db w) user scope (Some g) then Inr ()
     else Inl (OfAuth (auth_error_new Unauthorized ''User does not have the required permissions'')), w)"
  by (simp add: requires_scope_for_organization_def bindo_run check_scope_access_run ret_run fail_run)

text \<open>The response to a request that a check refuses.\<close>

definition refused :: "'b http_response" where
  "refused = unauthorized_response ''User does not have the required permissions''"

lemma to_response_refused:
  "to_response (OfAuth (auth_error_new Unauthorized ''User does not have the required permissions'')) = refused"
  by (simp add: to_response_def auth_error_response_def auth_error_new_def refused_def)

section \<open>Failed requests leave no trace\<close>

lemma roll_back_same: "roll_back_to s s = s"
  by (simp add: roll_back_to_def)

text \<open>The response of an error is never one of success.\<close>

lemma error_status: "n < 400 \<Longrightarrow> hr_status (to_response e) \<noteq> n"
  by (simp add: to_response_def application_error_response_def auth_error_response_def database_error_response_def
      internal_error_def status_code_and_message_def unauthorized_response_def forbidden_response_def
      unprocessable_response_def split: big_neon_error.split application_error_type.split auth_error_type.split
      error_code.split)

text \<open>Operations that never commit: whatever they do, the committed state stays.\<close>

definition same_committed :: "session \<Rightarrow> session \<Rightarrow> bool" where
  "same_committed w w' \<longleftrightarrow> ss_committed w' = ss_committed w"

interpretation committed: step_relation same_committed
  by unfold_locales (simp_all add: same_committed_def)

lemma never_commits_steps:
  "steps same_committed (on_db m)" "steps same_committed (requires_scope user scope)"
  "steps same_committed (requires_scope_for_organization user scope g)"
  "steps same_committed (call_external c)"
  by (simp_all add: steps_def same_committed_def on_db_run requires_scope_run
      requires_scope_for_organization_run call_external_def)

lemma never_commits_responses:
  "steps same_committed (http_ok b)" "steps same_committed (http_created b')" "steps same_committed http_finish"
  "steps same_committed no_content" "steps same_committed not_found" "steps same_committed unauthorized"
  "steps same_committed (forbidden m)" "steps same_committed (unprocessable m)"
  "steps same_committed (internal_server_error m)"
  unfolding http_ok_def http_created_def http_finish_def no_content_def not_found_def unauthorized_def
    unauthorized_with_message_def forbidden_def unprocessable_def internal_server_error_def
  by (rule committed.steps_ret committed.steps_fail)+

lemmas never_commits = committed.steps_control never_commits_steps never_commits_responses

text \<open>A request whose handler never commits and fails leaves the rows as they were, and its response is the
  one of the error.\<close>

lemma failed_request_rolled_back:
  assumes "steps same_committed handler" and "handler \<lparr>ss_db = s, ss_committed = s, ss_calls = []\<rparr> = (Inl e, w)"
  shows "\<exists>w'. run_request handler s = (to_response e, w') \<and> ss_db w' = roll_back_to s (ss_db w)"
proof -
  have "ss_committed w = s"
    using stepsD_run [OF assms] by (simp add: same_committed_def)
  with assms(2) show ?thesis
    by (simp add: run_request_def begin_transaction_def bindo_run rollback_transaction_def)
qed

end
