(* ===== verification/Catalog_Requests.thy ===== *)
theory Catalog_Requests imports Web begin

text \<open>
  The requests on the catalog: \<open>api/src/controllers/regions.rs\<close>, \<open>venues.rs\<close>, \<open>stages.rs\<close> and
  \<open>artists.rs\<close>, with \<open>models/create_artist_request.rs\<close>. Spotify is a parameter: what connecting,
  searching and reading an artist answer.
\<close>

section \<open>Regions\<close>

definition regions_index :: "paging_parameters \<Rightarrow> region payload http_response web" where
  "regions_index query_parameters =
     bindo (on_db regions_all) (\<lambda>regions.
     http_ok (payload_from_data regions (parameters_page query_parameters) (parameters_limit query_parameters)))"

definition regions_show :: "uuid \<Rightarrow> region http_response web" where
  "regions_show id' = bindo (on_db (region_find id')) http_ok"

definition regions_create :: "new_region \<Rightarrow> auth_user \<Rightarrow> region http_response web" where
  "regions_create new_region user =
     bindo (requires_scope user RegionWrite) (\<lambda>_.
     bindo (on_db (region_commit new_region)) http_created)"

definition regions_update :: "uuid \<Rightarrow> region_attributes \<Rightarrow> auth_user \<Rightarrow> region http_response web" where
  "regions_update id' region_parameters user =
     bindo (requires_scope user RegionWrite) (\<lambda>_.
     bindo (on_db (region_find id')) (\<lambda>region.
     bindo (on_db (region_update region region_parameters)) http_ok))"

section \<open>Venues\<close>

definition venues_index :: "paging_parameters \<Rightarrow> auth_user option \<Rightarrow> venue payload http_response web" where
  "venues_index query_parameters user =
     bindo (case user of
         Some u \<Rightarrow> on_db (venues_all (Some (au_user u)))
       | None \<Rightarrow> on_db (venues_all None)) (\<lambda>venues.
     http_ok (payload_from_data venues (parameters_page query_parameters) (parameters_limit query_parameters)))"

definition venues_show :: "uuid \<Rightarrow> venue http_response web" where
  "venues_show id' = bindo (on_db (venue_find id')) http_ok"

definition venues_show_from_organizations ::
  "uuid \<Rightarrow> paging_parameters \<Rightarrow> auth_user option \<Rightarrow> venue payload http_response web"
where
  "venues_show_from_organizations organization_id query_parameters user =
     bindo (case user of
         Some u \<Rightarrow> on_db (venue_find_for_organization (Some (au_id u)) organization_id)
       | None \<Rightarrow> on_db (venue_find_for_organization None organization_id)) (\<lambda>venues.
     http_ok (payload_from_data venues (parameters_page query_parameters) (parameters_limit query_parameters)))"

text \<open>A new venue of an organization starts private. Without an organization the scope that is asked for
  is the one for artists.\<close>

definition venues_create :: "new_venue \<Rightarrow> auth_user \<Rightarrow> venue http_response web" where
  "venues_create new_venue user =
     bindo (case nv_organization_id new_venue of
         Some organization_id \<Rightarrow>
           bindo (on_db (organization_find organization_id)) (\<lambda>organization.
           requires_scope_for_organization user VenueWrite organization)
       | None \<Rightarrow> requires_scope user ArtistWrite) (\<lambda>_.
     bindo (on_db (venue_commit new_venue)) (\<lambda>venue.
     bindo (if v_organization_id venue \<noteq> None then on_db (venue_set_privacy venue True) else ret venue) (\<lambda>venue.
     http_created venue)))"

definition venues_toggle_privacy :: "uuid \<Rightarrow> auth_user \<Rightarrow> venue http_response web" where
  "venues_toggle_privacy id' user =
     bindo (requires_scope user VenueWrite) (\<lambda>_.
     bindo (on_db (venue_find id')) (\<lambda>venue.
     bindo (on_db (venue_set_privacy venue (\<not> v_is_private venue))) http_ok))"

text \<open>A public venue, or one without an organization, takes the global scope; \<open>unwrap\<close> of its organization
  cannot fail in the other branch.\<close>

definition venue_guard :: "venue \<Rightarrow> auth_user \<Rightarrow> unit web" where
  "venue_guard venue user =
     (if \<not> v_is_private venue \<or> v_organization_id venue = None then requires_scope user VenueWrite
      else bindo (on_db (venue_organization venue)) (\<lambda>organization.
        requires_scope_for_organization user VenueWrite (the organization)))"

definition venues_update :: "uuid \<Rightarrow> venue_attributes \<Rightarrow> auth_user \<Rightarrow> venue http_response web" where
  "venues_update id' venue_parameters user =
     bindo (on_db (venue_find id')) (\<lambda>venue.
     bindo (venue_guard venue user) (\<lambda>_.
     bindo (on_db (venue_update venue venue_parameters)) http_ok))"

definition venues_add_to_organization :: "uuid \<Rightarrow> uuid \<Rightarrow> auth_user \<Rightarrow> venue http_response web" where
  "venues_add_to_organization id' organization_id user =
     bindo (requires_scope user OrgAdmin) (\<lambda>_.
     bindo (on_db (venue_find id')) (\<lambda>venue.
     if v_organization_id venue \<noteq> None
     then ret \<lparr>hr_status = 409, hr_body = Failed ''An error has occurred''\<rparr>
     else bindo (on_db (venue_add_to_organization venue organization_id)) http_created))"

section \<open>Stages\<close>

definition stages_index :: "uuid \<Rightarrow> paging_parameters \<Rightarrow> stage payload http_response web" where
  "stages_index id' query_parameters =
     bindo (on_db (stage_find_by_venue_id id')) (\<lambda>stages.
     http_ok (payload_from_data stages (parameters_page query_parameters) (parameters_limit query_parameters)))"

definition stages_show :: "uuid \<Rightarrow> stage http_response web" where
  "stages_show id' = bindo (on_db (stage_find id')) http_ok"

record create_stage =
  cs_name :: string
  cs_description :: "string option"
  cs_capacity :: "int option"

definition stages_create :: "uuid \<Rightarrow> create_stage \<Rightarrow> auth_user \<Rightarrow> stage http_response web" where
  "stages_create id' create_stage user =
     bindo (on_db (venue_find id')) (\<lambda>venue.
     bindo (case v_organization_id venue of
         Some organization_id \<Rightarrow>
           bindo (on_db (organization_find organization_id)) (\<lambda>organization.
           requires_scope_for_organization user VenueWrite organization)
       | None \<Rightarrow> requires_scope user VenueWrite) (\<lambda>_.
     bindo (on_db (stage_commit (stage_create id' (cs_name create_stage) (cs_description create_stage)
       (cs_capacity create_stage)))) http_created))"

definition stages_update :: "uuid \<Rightarrow> stage_attributes \<Rightarrow> auth_user \<Rightarrow> stage http_response web" where
  "stages_update id' stage_parameters user =
     bindo (on_db (stage_find id')) (\<lambda>stage.
     bindo (on_db (venue_find (st_venue_id stage))) (\<lambda>venue.
     bindo (venue_guard venue user) (\<lambda>_.
     bindo (on_db (stage_update stage stage_parameters)) http_ok)))"

definition stages_delete :: "uuid \<Rightarrow> auth_user \<Rightarrow> unit http_response web" where
  "stages_delete id' user =
     bindo (on_db (stage_find id')) (\<lambda>stage.
     bindo (on_db (venue_find (st_venue_id stage))) (\<lambda>venue.
     bindo (venue_guard venue user) (\<lambda>_.
     bindo (on_db (stage_destroy stage)) (\<lambda>_. http_ok ()))))"

section \<open>Artists\<close>

record create_artist_request =
  car_id :: "uuid option"
  car_organization_id :: "uuid option"
  car_is_private :: "bool option"
  car_name :: "string option"
  car_bio :: "string option"
  car_image_url :: "string option"
  car_thumb_image_url :: "string option"
  car_website_url :: "string option"
  car_youtube_video_urls :: "string list option"
  car_facebook_username :: "string option"
  car_instagram_username :: "string option"
  car_snapchat_username :: "string option"
  car_soundcloud_username :: "string option"
  car_bandcamp_username :: "string option"
  car_spotify_id :: "string option"
  car_created_at :: "timestamp option"
  car_updated_at :: "timestamp option"
  car_other_image_urls :: "string list option"

definition new_artist_of_request :: "create_artist_request \<Rightarrow> new_artist" where
  "new_artist_of_request r =
     \<lparr>na_organization_id = car_organization_id r, na_name = unwrap_or (car_name r) [],
      na_bio = unwrap_or (car_bio r) [], na_image_url = car_image_url r,
      na_thumb_image_url = car_thumb_image_url r, na_website_url = car_website_url r,
      na_youtube_video_urls = car_youtube_video_urls r, na_facebook_username = car_facebook_username r,
      na_instagram_username = car_instagram_username r, na_snapchat_username = car_snapchat_username r,
      na_soundcloud_username = car_soundcloud_username r, na_bandcamp_username = car_bandcamp_username r,
      na_spotify_id = car_spotify_id r, na_other_image_urls = car_other_image_urls r\<rparr>"

definition request_of_artist :: "artist \<Rightarrow> create_artist_request" where
  "request_of_artist a =
     \<lparr>car_id = Some (art_id a), car_organization_id = art_organization_id a,
      car_is_private = Some (art_is_private a), car_name = Some (art_name a), car_bio = Some (art_bio a),
      car_image_url = art_image_url a, car_thumb_image_url = art_thumb_image_url a,
      car_website_url = art_website_url a, car_youtube_video_urls = Some (art_youtube_video_urls a),
      car_facebook_username = art_facebook_username a, car_instagram_username = art_instagram_username a,
      car_snapchat_username = art_snapchat_username a, car_soundcloud_username = art_soundcloud_username a,
      car_bandcamp_username = art_bandcamp_username a, car_spotify_id = art_spotify_id a,
      car_created_at = Some (art_created_at a), car_updated_at = Some (art_updated_at a),
      car_other_image_urls = art_other_image_urls a\<rparr>"

record spotify =
  sp_connect :: "big_neon_error + unit"
  sp_search :: "string \<Rightarrow> big_neon_error + create_artist_request list"
  sp_read_artist :: "string \<Rightarrow> big_neon_error + create_artist_request option"

definition artists_search_request ::
  "spotify \<Rightarrow> paging_parameters \<Rightarrow> auth_user option \<Rightarrow> create_artist_request payload http_response web"
where
  "artists_search_request spotify query_parameters user =
     (let db_user = map_option au_user user in
      bindo (on_db (artist_search db_user (get_tag query_parameters ''q''))) (\<lambda>artists.
      let try_spotify = unwrap_or (map_option (\<lambda>t. t \<noteq> ''0'') (get_tag query_parameters ''spotify'')) False in
      if try_spotify \<and> artists = [] \<and> get_tag query_parameters ''q'' \<noteq> None
      then
        bindo (lift_result (sp_connect spotify)) (\<lambda>_.
        bindo (lift_result (sp_search spotify (unwrap_or (get_tag query_parameters ''q'') []))) (\<lambda>spotify_artists.
        http_ok (payload_new spotify_artists (paging_of_parameters query_parameters))))
      else http_ok (payload_new (map request_of_artist artists) (paging_of_parameters query_parameters))))"

definition artists_index :: "paging_parameters \<Rightarrow> auth_user option \<Rightarrow> artist payload http_response web" where
  "artists_index query_parameters user =
     bindo (on_db (artist_search (map_option au_user user) (get_tag query_parameters ''q''))) (\<lambda>artists.
     http_ok (payload_from_data artists (parameters_page query_parameters) (parameters_limit query_parameters)))"

definition artists_show :: "uuid \<Rightarrow> artist http_response web" where
  "artists_show id' = bindo (on_db (artist_find id')) http_ok"

text \<open>With a Spotify id the artist of Spotify is taken, its gaps filled from the request. The organization
  of the request is not among what is merged.\<close>

definition artists_create ::
  "(string \<Rightarrow> bool) \<Rightarrow> spotify \<Rightarrow> create_artist_request \<Rightarrow> auth_user \<Rightarrow> artist http_response web"
where
  "artists_create valid_url spotify create_artist user =
     bindo (case car_organization_id create_artist of
         Some organization_id \<Rightarrow>
           bindo (on_db (organization_find organization_id)) (\<lambda>organization.
           requires_scope_for_organization user ArtistWrite organization)
       | None \<Rightarrow> requires_scope user ArtistWrite) (\<lambda>_.
     bindo (case car_spotify_id create_artist of
         Some spotify_id \<Rightarrow>
           bindo (lift_result (sp_connect spotify)) (\<lambda>_.
           bindo (lift_result (sp_read_artist spotify spotify_id)) (\<lambda>spotify_artist_result.
           case spotify_artist_result of
             Some artist \<Rightarrow>
               let new_artist = artist_merge (new_artist_of_request artist) (new_artist_of_request create_artist)
               in bindo (on_db (artist_commit valid_url new_artist)) (\<lambda>a. ret (Some a))
           | None \<Rightarrow> ret None))
       | None \<Rightarrow>
           bindo (on_db (artist_commit valid_url (new_artist_of_request create_artist))) (\<lambda>a. ret (Some a))) (\<lambda>artist.
     case artist of
       None \<Rightarrow> not_found
     | Some artist \<Rightarrow>
         bindo (if art_organization_id artist \<noteq> None then on_db (artist_set_privacy artist True)
                else ret artist) http_created))"

definition artists_show_from_organizations ::
  "uuid \<Rightarrow> paging_parameters \<Rightarrow> auth_user option \<Rightarrow> artist payload http_response web"
where
  "artists_show_from_organizations organization_id query_parameters user =
     bindo (case user of
         Some u \<Rightarrow> on_db (artist_find_for_organization (Some (au_id u)) organization_id)
       | None \<Rightarrow> on_db (artist_find_for_organization None organization_id)) (\<lambda>artists.
     http_ok (payload_from_data artists (parameters_page query_parameters) (parameters_limit query_parameters)))"

definition artists_update ::
  "(string \<Rightarrow> bool) \<Rightarrow> uuid \<Rightarrow> artist_attributes \<Rightarrow> auth_user \<Rightarrow> artist http_response web"
where
  "artists_update valid_url id' artist_parameters user =
     bindo (on_db (artist_find id')) (\<lambda>artist.
     bindo (if \<not> art_is_private artist \<or> art_organization_id artist = None
            then requires_scope user ArtistWrite
            else bindo (on_db (artist_organization artist)) (\<lambda>organization.
              requires_scope_for_organization user ArtistWrite (the organization))) (\<lambda>_.
     bindo (on_db (artist_update valid_url artist artist_parameters)) http_ok))"

definition artists_toggle_privacy :: "uuid \<Rightarrow> auth_user \<Rightarrow> artist http_response web" where
  "artists_toggle_privacy id' user =
     bindo (requires_scope user ArtistWrite) (\<lambda>_.
     bindo (on_db (artist_find id')) (\<lambda>artist.
     bindo (on_db (artist_set_privacy artist (\<not> art_is_private artist))) http_ok))"

section \<open>An artist of Spotify has no organization\<close>

text \<open>A user who may write artists of one organization creates an artist that belongs to none, and is
  public, by naming an artist of Spotify.\<close>

lemma spotify_artist_public:
  assumes "artists_create vu sp r user w = (Inr resp, w')" and "car_spotify_id r = Some i"
    and "sp_read_artist sp i = Inr (Some a)" and "car_organization_id a = None" and "hr_body resp = Json b"
  shows "art_organization_id b = None \<and> \<not> art_is_private b"
proof -
  have org: "na_organization_id (artist_merge (new_artist_of_request a) (new_artist_of_request r)) = None"
    using assms(4) by (simp add: artist_merge_def new_artist_of_request_def)
  from assms(1-3) obtain b' w1 w2 where
    "on_db (artist_commit vu (artist_merge (new_artist_of_request a) (new_artist_of_request r))) w1 = (Inr b', w2)"
    and rest: "bindo (if art_organization_id b' \<noteq> None then on_db (artist_set_privacy b' True) else ret b')
      http_created w2 = (Inr resp, w')"
    by (auto simp: artists_create_def bindo_Inr_iff lift_result_run ret_run Let_def)
  then have "art_organization_id b' = None \<and> \<not> art_is_private b'"
    using org by (auto simp: on_db_def artist_commit_def bindo_Inr_iff insert_checked_Inr_iff artist_row_def
        check_validation_run gets_def draw_uuid_def split: prod.splits sum.splits)
  with rest assms(5) show ?thesis
    by (auto simp: http_created_def ret_run)
qed

end
