(* ===== verification/Services.thy ===== *)
theory Services imports Web Transfers Domain_Actions begin

text \<open>
  The services a request talks to: the configuration (\<open>api/src/config.rs\<close>), the clients of the asset
  service (the trait of \<open>tari-client\<close>), the payment processor (\<open>api/src/payments.rs\<close>, the crate
  \<open>stripe\<close>, \<open>utils/service_locator.rs\<close>) and the messages to users, which are queued as domain actions
  (\<open>utils/communication.rs\<close>, \<open>communications\<close>) and sent by the queue's workers (\<open>utils/sendgrid/mail.rs\<close>,
  \<open>utils/twilio.rs\<close>). The network is a parameter: what a request to a URL answers.
\<close>

section \<open>Numbers as texts\<close>

definition as_u64 :: "int \<Rightarrow> nat" where
  "as_u64 n = nat (n mod 2 ^ 64)"

definition int_text :: "int \<Rightarrow> string" where
  "int_text n = (if n < 0 then ''-'' @ decimal (nat (- n)) else decimal (nat n))"

text \<open>An amount in cents printed as \<open>f64\<close> with two decimals, which is exact below 2 ^ 53 cents.\<close>

definition cents_text :: "int \<Rightarrow> string" where
  "cents_text n =
     (let k = nat \<bar>n\<bar> in
      (if n < 0 then ''-'' else '''') @ decimal (k div 100) @ ''.'' @
      [''0123456789'' ! (k mod 100 div 10), ''0123456789'' ! (k mod 10)])"

section \<open>The asset service as a trait\<close>

record tari_client =
  tc_create_asset :: "string \<Rightarrow> string \<Rightarrow> create_asset_payload \<Rightarrow> tari_error + string"
  tc_increase_supply :: "string \<Rightarrow> string \<Rightarrow> string \<Rightarrow> nat \<Rightarrow> tari_error + unit"
  tc_nullify_tokens :: "string \<Rightarrow> string \<Rightarrow> string \<Rightarrow> nat list \<Rightarrow> tari_error + unit"
  tc_redeem_token :: "string \<Rightarrow> string \<Rightarrow> string \<Rightarrow> nat list \<Rightarrow> tari_error + unit"
  tc_transfer_tokens :: "string \<Rightarrow> string \<Rightarrow> string \<Rightarrow> nat list \<Rightarrow> string \<Rightarrow> tari_error + unit"

definition http_tari_client :: "crates \<Rightarrow> string \<Rightarrow> tari_client" where
  "http_tari_client c tari_url =
     \<lparr>tc_create_asset = create_asset c tari_url,
      tc_increase_supply = modify_asset_increase_supply c tari_url,
      tc_nullify_tokens = modify_asset_nullify_tokens c tari_url,
      tc_redeem_token = modify_asset_redeem_token c tari_url,
      tc_transfer_tokens = transfer_tokens c tari_url\<rparr>"

text \<open>The client for tests says yes to everything; the identifier it invents is an argument.\<close>

definition test_tari_client :: "string \<Rightarrow> tari_client" where
  "test_tari_client new_v4 =
     \<lparr>tc_create_asset = \<lambda>_ _ _. Inr new_v4, tc_increase_supply = \<lambda>_ _ _ _. Inr (),
      tc_nullify_tokens = \<lambda>_ _ _ _. Inr (), tc_redeem_token = \<lambda>_ _ _ _. Inr (),
      tc_transfer_tokens = \<lambda>_ _ _ _ _. Inr ()\<rparr>"

section \<open>Configuration\<close>

datatype environment = Development | Test | Production

record config =
  cfg_allowed_origins :: string
  cfg_front_end_url :: string
  cfg_api_url :: string
  cfg_api_port :: string
  cfg_app_name :: string
  cfg_database_url :: string
  cfg_database_pool_size :: nat
  cfg_domain :: string
  cfg_environment :: environment
  cfg_facebook_app_id :: "string option"
  cfg_facebook_app_secret :: "string option"
  cfg_google_recaptcha_secret_key :: "string option"
  cfg_http_keep_alive :: nat
  cfg_block_external_comms :: bool
  cfg_primary_currency :: string
  cfg_stripe_secret_key :: string
  cfg_token_secret :: string
  cfg_token_issuer :: string
  cfg_tari_client :: tari_client
  cfg_communication_default_source_email :: string
  cfg_communication_default_source_phone :: string
  cfg_sendgrid_api_key :: string
  cfg_sendgrid_template_bn_refund :: string
  cfg_sendgrid_template_bn_user_registered :: string
  cfg_sendgrid_template_bn_purchase_completed :: string
  cfg_sendgrid_template_bn_org_invite :: string
  cfg_sendgrid_template_bn_transfer_tickets :: string
  cfg_sendgrid_template_bn_password_reset :: string
  cfg_sendgrid_template_bn_user_invite :: string
  cfg_spotify_auth_token :: "string option"
  cfg_twilio_account_id :: string
  cfg_twilio_api_key :: string
  cfg_api_keys_encryption_key :: string
  cfg_jwt_expiry_time :: nat

text \<open>A variable that must be defined, or the start of the server panics with the message on the left.
  The message names \<open>DATABASE_URL\<close> also where the test database is missing.\<close>

definition required :: "(string \<Rightarrow> string option) \<Rightarrow> string \<Rightarrow> string + string" where
  "required env name = (case env name of Some v \<Rightarrow> Inr v | None \<Rightarrow> Inl (name @ '' must be defined.''))"

definition parsed :: "(string \<Rightarrow> nat option) \<Rightarrow> string \<Rightarrow> string \<Rightarrow> string + nat" where
  "parsed parse message text' = (case parse text' of Some n \<Rightarrow> Inr n | None \<Rightarrow> Inl message)"

text \<open>Which client of the asset service a configuration gets.\<close>

definition choose_tari_client :: "crates \<Rightarrow> string \<Rightarrow> environment \<Rightarrow> string \<Rightarrow> tari_client" where
  "choose_tari_client c new_v4 environment tari_uri =
     (if environment = Test \<or> tari_uri = ''TEST'' then test_tari_client new_v4
      else http_tari_client c tari_uri)"

definition config_new ::
  "crates \<Rightarrow> string \<Rightarrow> (string \<Rightarrow> nat option) \<Rightarrow> (string \<Rightarrow> string option) \<Rightarrow> environment \<Rightarrow> string + config"
where
  "config_new c new_v4 parse env environment =
     and_then (case (if environment = Test then env ''TEST_DATABASE_URL'' else env ''DATABASE_URL'') of
         Some url \<Rightarrow> Inr url | None \<Rightarrow> Inl ''DATABASE_URL must be defined.'') (\<lambda>database_url.
     and_then (case env ''DATABASE_POOL_SIZE'' of
         Some s \<Rightarrow> parsed parse ''Not a valid integer for database pool size'' s | None \<Rightarrow> Inr 20) (\<lambda>pool.
     and_then (required env ''TOKEN_SECRET'') (\<lambda>token_secret.
     and_then (required env ''TOKEN_ISSUER'') (\<lambda>token_issuer.
     and_then (case env ''FRONT_END_URL'' of
         Some url \<Rightarrow> Inr url | None \<Rightarrow> Inl ''Front end url must be defined'') (\<lambda>front_end_url.
     and_then (required env ''TARI_URL'') (\<lambda>tari_uri.
     and_then (required env ''COMMUNICATION_DEFAULT_SOURCE_EMAIL'') (\<lambda>source_email.
     and_then (required env ''COMMUNICATION_DEFAULT_SOURCE_PHONE'') (\<lambda>source_phone.
     and_then (required env ''SENDGRID_API_KEY'') (\<lambda>sendgrid_api_key.
     and_then (required env ''SENDGRID_TEMPLATE_BN_REFUND'') (\<lambda>bn_refund.
     and_then (required env ''SENDGRID_TEMPLATE_BN_USER_REGISTERED'') (\<lambda>bn_user_registered.
     and_then (required env ''SENDGRID_TEMPLATE_BN_PURCHASE_COMPLETED'') (\<lambda>bn_purchase_completed.
     and_then (required env ''SENDGRID_TEMPLATE_BN_ORG_INVITE'') (\<lambda>bn_org_invite.
     and_then (required env ''SENDGRID_TEMPLATE_BN_TRANSFER_TICKETS'') (\<lambda>bn_transfer_tickets.
     and_then (required env ''SENDGRID_TEMPLATE_BN_PASSWORD_RESET'') (\<lambda>bn_password_reset.
     and_then (required env ''SENDGRID_TEMPLATE_BN_USER_INVITE'') (\<lambda>bn_user_invite.
     and_then (required env ''TWILIO_API_KEY'') (\<lambda>twilio_api_key.
     and_then (required env ''TWILIO_ACCOUNT_ID'') (\<lambda>twilio_account_id.
     and_then (required env ''API_KEYS_ENCRYPTION_KEY'') (\<lambda>api_keys_encryption_key.
     and_then (parsed parse ''ParseIntError'' (unwrap_or (env ''HTTP_KEEP_ALIVE'') ''75'')) (\<lambda>http_keep_alive.
     and_then (parsed parse ''ParseIntError'' (unwrap_or (env ''JWT_EXPIRY_TIME'') ''15'')) (\<lambda>jwt_expiry_time.
     Inr \<lparr>cfg_allowed_origins = unwrap_or (env ''ALLOWED_ORIGINS'') ''*'', cfg_front_end_url = front_end_url,
       cfg_api_url = unwrap_or (env ''API_URL'') ''127.0.0.1'', cfg_api_port = unwrap_or (env ''API_PORT'') ''8088'',
       cfg_app_name = unwrap_or (env ''APP_NAME'') ''Big Neon'', cfg_database_url = database_url,
       cfg_database_pool_size = pool, cfg_domain = unwrap_or (env ''DOMAIN'') ''api.bigneon.com'',
       cfg_environment = environment, cfg_facebook_app_id = env ''FACEBOOK_APP_ID'',
       cfg_facebook_app_secret = env ''FACEBOOK_APP_SECRET'',
       cfg_google_recaptcha_secret_key = env ''GOOGLE_RECAPTCHA_SECRET_KEY'',
       cfg_http_keep_alive = http_keep_alive,
       cfg_block_external_comms = (unwrap_or (env ''BLOCK_EXTERNAL_COMMS'') ''0'' \<noteq> ''0''),
       cfg_primary_currency = unwrap_or (env ''PRIMARY_CURRENCY'') ''usd'',
       cfg_stripe_secret_key = unwrap_or (env ''STRIPE_SECRET_KEY'') ''<stripe not enabled>'',
       cfg_token_secret = token_secret, cfg_token_issuer = token_issuer,
       cfg_tari_client = choose_tari_client c new_v4 environment tari_uri,
       cfg_communication_default_source_email = source_email,
       cfg_communication_default_source_phone = source_phone, cfg_sendgrid_api_key = sendgrid_api_key,
       cfg_sendgrid_template_bn_refund = bn_refund,
       cfg_sendgrid_template_bn_user_registered = bn_user_registered,
       cfg_sendgrid_template_bn_purchase_completed = bn_purchase_completed,
       cfg_sendgrid_template_bn_org_invite = bn_org_invite,
       cfg_sendgrid_template_bn_transfer_tickets = bn_transfer_tickets,
       cfg_sendgrid_template_bn_password_reset = bn_password_reset,
       cfg_sendgrid_template_bn_user_invite = bn_user_invite,
       cfg_spotify_auth_token = env ''SPOTIFY_AUTH_TOKEN'', cfg_twilio_account_id = twilio_account_id,
       cfg_twilio_api_key = twilio_api_key, cfg_api_keys_encryption_key = api_keys_encryption_key,
       cfg_jwt_expiry_time = jwt_expiry_time\<rparr>)))))))))))))))))))))"

section \<open>The payment processor\<close>

record stripe_error =
  se_description :: string
  se_cause :: "string option"

text \<open>What \<open>reqwest\<close> and \<open>serde_json\<close> do: a post with basic authentication and a form gives an error text
  or a status with the body or an error in reading it; the field \<open>id\<close> of a body; a body as JSON.\<close>

record network =
  net_post :: "string \<Rightarrow> string \<Rightarrow> (string \<times> string) list option \<Rightarrow> string + (nat \<times> (string + string))"
  net_status_text :: "nat \<Rightarrow> string"
  net_id_of :: "string \<Rightarrow> string + string"
  net_json :: "string \<Rightarrow> json option"

record stripe_result =
  sr_id :: string
  sr_raw_data :: string

definition stripe_of_reqwest :: "string \<Rightarrow> stripe_error" where
  "stripe_of_reqwest r = \<lparr>se_description = ''Error calling Stripe: reqwest error '' @ r, se_cause = Some r\<rparr>"

definition stripe_of_serde :: "string \<Rightarrow> stripe_error" where
  "stripe_of_serde r = \<lparr>se_description = ''Error deserializing response:'' @ r, se_cause = Some r\<rparr>"

definition stripe_of_response :: "network \<Rightarrow> nat \<Rightarrow> string + string \<Rightarrow> stripe_error" where
  "stripe_of_response net status body =
     \<lparr>se_description = ''Error calling Stripe: HTTP Code '' @ net_status_text net status @ '': Body:'' @
        (case body of Inr b \<Rightarrow> b | Inl _ \<Rightarrow> ''<Error reading response body>''),
      se_cause = None\<rparr>"

definition stripe_error_text :: "stripe_error \<Rightarrow> string" where
  "stripe_error_text e =
     (case se_cause e of Some c \<Rightarrow> se_description e @ '' caused by: '' @ c | None \<Rightarrow> se_description e)"

definition stripe_result_of :: "network \<Rightarrow> string + string \<Rightarrow> stripe_error + stripe_result" where
  "stripe_result_of net body =
     and_then (map_error stripe_of_reqwest body) (\<lambda>raw.
     and_then (map_error stripe_of_serde (net_id_of net raw)) (\<lambda>i.
     Inr \<lparr>sr_id = i, sr_raw_data = raw\<rparr>))"

definition stripe_call ::
  "network \<Rightarrow> string \<Rightarrow> string \<Rightarrow> (string \<times> string) list option \<Rightarrow> stripe_error + stripe_result" where
  "stripe_call net api_key url params =
     and_then (map_error stripe_of_reqwest (net_post net url api_key params)) (\<lambda>(status, body).
     if status = 200 then stripe_result_of net body else Inl (stripe_of_response net status body))"

definition starts_with :: "string \<Rightarrow> string \<Rightarrow> bool" where
  "starts_with prefix' s \<longleftrightarrow> take (length prefix') s = prefix'"

definition metadata_params :: "(string \<times> string) list \<Rightarrow> (string \<times> string) list" where
  "metadata_params metadata = map (\<lambda>(k, v). (''metadata['' @ k @ '']'', v)) metadata"

definition create_charge ::
  "network \<Rightarrow> string \<Rightarrow> string \<Rightarrow> int \<Rightarrow> string \<Rightarrow> string \<Rightarrow> bool \<Rightarrow> (string \<times> string) list \<Rightarrow>
   stripe_error + stripe_result"
where
  "create_charge net api_key token amount currency description capture metadata =
     stripe_call net api_key ''https://api.stripe.com/v1/charges''
       (Some ([(''currency'', currency), (''amount'', int_text amount), (''description'', description),
          (if starts_with ''tok_'' token then ''source'' else ''customer'', token),
          (''capture'', if capture then ''true'' else ''false'')] @ metadata_params metadata))"

definition stripe_charge ::
  "network \<Rightarrow> string \<Rightarrow> string \<Rightarrow> int \<Rightarrow> string \<Rightarrow> string \<Rightarrow> (string \<times> string) list \<Rightarrow> stripe_error + stripe_result"
where
  "stripe_charge net api_key token amount currency description metadata =
     create_charge net api_key token amount currency description True metadata"

definition stripe_auth ::
  "network \<Rightarrow> string \<Rightarrow> string \<Rightarrow> int \<Rightarrow> string \<Rightarrow> string \<Rightarrow> (string \<times> string) list \<Rightarrow> stripe_error + stripe_result"
where
  "stripe_auth net api_key token amount currency description metadata =
     create_charge net api_key token amount currency description False metadata"

definition stripe_refund :: "network \<Rightarrow> string \<Rightarrow> string \<Rightarrow> stripe_error + stripe_result" where
  "stripe_refund net api_key charge_id =
     stripe_call net api_key ''https://api.stripe.com/v1/refunds'' (Some [(''charge'', charge_id)])"

definition stripe_partial_refund :: "network \<Rightarrow> string \<Rightarrow> string \<Rightarrow> u32 \<Rightarrow> stripe_error + stripe_result" where
  "stripe_partial_refund net api_key charge_id amount =
     stripe_call net api_key ''https://api.stripe.com/v1/refunds''
       (Some [(''charge'', charge_id), (''amount'', decimal (unat amount))])"

definition stripe_complete :: "network \<Rightarrow> string \<Rightarrow> string \<Rightarrow> stripe_error + stripe_result" where
  "stripe_complete net api_key charge_id =
     stripe_call net api_key (''https://api.stripe.com/v1/charges/'' @ charge_id @ ''/capture'') None"

definition stripe_update_customer ::
  "network \<Rightarrow> string \<Rightarrow> string \<Rightarrow> string \<Rightarrow> string \<Rightarrow> (string \<times> string) list \<Rightarrow> stripe_error + stripe_result" where
  "stripe_update_customer net api_key client_id description source metadata =
     stripe_call net api_key (''https://api.stripe.com/v1/customers/'' @ client_id)
       (Some ([(''description'', description), (''source'', source)] @ metadata_params metadata))"

definition stripe_create_customer ::
  "network \<Rightarrow> string \<Rightarrow> string \<Rightarrow> string \<Rightarrow> (string \<times> string) list \<Rightarrow> stripe_error + stripe_result" where
  "stripe_create_customer net api_key description source metadata =
     stripe_call net api_key ''https://api.stripe.com/v1/customers''
       (Some ([(''description'', description), (''source'', source)] @ metadata_params metadata))"

text \<open>The processor as a trait; the three results it gives have the same shape.\<close>

record processor_result =
  pr_id :: string
  pr_raw :: string

record payment_processor =
  pp_create_repeat_token :: "string \<Rightarrow> string \<Rightarrow> payment_processor_error + processor_result"
  pp_update_repeat_token :: "string \<Rightarrow> string \<Rightarrow> string \<Rightarrow> payment_processor_error + processor_result"
  pp_auth :: "string \<Rightarrow> int \<Rightarrow> string \<Rightarrow> string \<Rightarrow> (string \<times> string) list \<Rightarrow> payment_processor_error + processor_result"
  pp_refund :: "string \<Rightarrow> payment_processor_error + processor_result"
  pp_partial_refund :: "string \<Rightarrow> u32 \<Rightarrow> payment_processor_error + processor_result"
  pp_complete_authed_charge :: "string \<Rightarrow> payment_processor_error + processor_result"

definition processor_error_of_stripe :: "stripe_error \<Rightarrow> payment_processor_error" where
  "processor_error_of_stripe s = \<lparr>ppe_description = se_description s, ppe_cause = Some (se_description s)\<rparr>"

definition of_stripe :: "stripe_error + stripe_result \<Rightarrow> payment_processor_error + processor_result" where
  "of_stripe r = map_error processor_error_of_stripe
     (and_then r (\<lambda>x. Inr \<lparr>pr_id = sr_id x, pr_raw = sr_raw_data x\<rparr>))"

definition stripe_payment_processor :: "network \<Rightarrow> string \<Rightarrow> payment_processor" where
  "stripe_payment_processor net key =
     \<lparr>pp_create_repeat_token = \<lambda>token description. of_stripe (stripe_create_customer net key description token []),
      pp_update_repeat_token = \<lambda>repeat_token token description.
        of_stripe (stripe_update_customer net key repeat_token description token []),
      pp_auth = \<lambda>token amount currency description metadata.
        of_stripe (stripe_auth net key token amount currency description metadata),
      pp_refund = \<lambda>auth_token. of_stripe (stripe_refund net key auth_token),
      pp_partial_refund = \<lambda>auth_token amount. of_stripe (stripe_partial_refund net key auth_token amount),
      pp_complete_authed_charge = \<lambda>auth_token. of_stripe (stripe_complete net key auth_token)\<rparr>"

definition create_payment_processor :: "network \<Rightarrow> config \<Rightarrow> string \<Rightarrow> big_neon_error + payment_processor" where
  "create_payment_processor net cfg provider_name =
     (if provider_name = ''stripe'' then Inr (stripe_payment_processor net (cfg_stripe_secret_key cfg))
      else Inl (OfApplication (application_error_new ''Unknown payment provider'')))"

definition to_json :: "network \<Rightarrow> processor_result \<Rightarrow> big_neon_error + json" where
  "to_json net r = (case net_json net (pr_raw r) of Some j \<Rightarrow> Inr j | None \<Rightarrow> Inl OfSerde)"

text \<open>A call of a service by a handler: it is recorded, and its error is the handler's.\<close>

definition call_processor :: "external_call \<Rightarrow> payment_processor_error + 'a \<Rightarrow> 'a web" where
  "call_processor c r = bindo (call_external c) (\<lambda>_. lift_result (map_error OfPaymentProcessor r))"

definition call_tari :: "external_call \<Rightarrow> tari_error + 'a \<Rightarrow> 'a web" where
  "call_tari c r = bindo (call_external c) (\<lambda>_. lift_result (map_error OfTari r))"

end
