(* ===== verification/Communications.thy ===== *)
theory Communications imports Services begin

text \<open>
  Messages to users. A request queues a message as a domain action (\<open>api/src/utils/communication.rs\<close>
  and the mailers of \<open>api/src/communications\<close>); a worker of the queue sends it later, over Sendgrid
  (\<open>utils/sendgrid/mail.rs\<close>) or Twilio (\<open>utils/twilio.rs\<close>). The two services are parameters: what they
  answer. A panic of the code is the value \<open>None\<close>.
\<close>

section \<open>Messages\<close>

datatype communication_type = Email | EmailTemplate | Sms

record comm_address =
  addresses :: "string list"

type_synonym template_data = "(string \<times> string) list"

record communication =
  comm_type :: communication_type
  comm_title :: string
  comm_body :: "string option"
  comm_source :: "comm_address option"
  comm_destinations :: comm_address
  comm_template_id :: "string option"
  comm_template_data :: "template_data list option"

definition comm_address_new :: comm_address where
  "comm_address_new = \<lparr>addresses = []\<rparr>"

definition comm_address_from :: "string \<Rightarrow> comm_address" where
  "comm_address_from address = \<lparr>addresses = [address]\<rparr>"

definition comm_address_from_vec :: "string list \<Rightarrow> comm_address" where
  "comm_address_from_vec addrs = \<lparr>addresses = addrs\<rparr>"

definition comm_address_get :: "comm_address \<Rightarrow> string list" where
  "comm_address_get self = addresses self"

definition comm_address_get_first :: "comm_address \<Rightarrow> big_neon_error + string" where
  "comm_address_get_first self =
     (if length (addresses self) \<ge> 1 then Inr (addresses self ! 0)
      else Inl (OfApplication (application_error_new ''Minimum of one communication address required'')))"

definition comm_address_push :: "comm_address \<Rightarrow> string \<Rightarrow> comm_address" where
  "comm_address_push self address = \<lparr>addresses = addresses self @ [address]\<rparr>"

definition communication_new ::
  "communication_type \<Rightarrow> string \<Rightarrow> string option \<Rightarrow> comm_address option \<Rightarrow> comm_address \<Rightarrow> string option \<Rightarrow>
   template_data list option \<Rightarrow> communication"
where
  "communication_new ctype title body source destinations template_id template_data =
     \<lparr>comm_type = ctype, comm_title = title, comm_body = body, comm_source = source,
      comm_destinations = destinations, comm_template_id = template_id, comm_template_data = template_data\<rparr>"

text \<open>The JSON of the derived serializer; a map of template data is written in the order of its list.\<close>

definition communication_type_text :: "communication_type \<Rightarrow> string" where
  "communication_type_text t =
     (case t of Email \<Rightarrow> ''Email'' | EmailTemplate \<Rightarrow> ''EmailTemplate'' | Sms \<Rightarrow> ''Sms'')"

definition comm_address_json :: "comm_address \<Rightarrow> json" where
  "comm_address_json a = JObject [(''addresses'', JArray (map JString (addresses a)))]"

definition template_data_json :: "template_data \<Rightarrow> json" where
  "template_data_json d = JObject (map (\<lambda>(k, v). (k, JString v)) d)"

definition communication_json :: "communication \<Rightarrow> json" where
  "communication_json m = JObject [(''comm_type'', JString (communication_type_text (comm_type m))),
     (''title'', JString (comm_title m)), (''body'', optional_json JString (comm_body m)),
     (''source'', optional_json comm_address_json (comm_source m)),
     (''destinations'', comm_address_json (comm_destinations m)),
     (''template_id'', optional_json JString (comm_template_id m)),
     (''template_data'', optional_json (\<lambda>ds. JArray (map template_data_json ds)) (comm_template_data m))]"

definition channel_of :: "communication_type \<Rightarrow> communication_channel_type option" where
  "channel_of t =
     (case t of
        Email \<Rightarrow> Some communication_channel_type.Email
      | EmailTemplate \<Rightarrow> Some communication_channel_type.Email
      | Sms \<Rightarrow> Some communication_channel_type.Sms)"

text \<open>The message waits a day at most and is tried three times.\<close>

definition queue :: "crates \<Rightarrow> communication \<Rightarrow> unit dbop" where
  "queue c self =
     bindo draw_uuid (\<lambda>main_table_id.
     bindo (gets utc_now) (\<lambda>utc.
     bindo (action_commit (action_create None domain_action_types.Communication (channel_of (comm_type self))
       (json_text c (communication_json self)) ''event'' main_table_id utc (utc + days 1) 3)) (\<lambda>_.
     ret ())))"

section \<open>Sendgrid\<close>

record sg_email =
  sge_email :: string
  sge_name :: "string option"

record sg_content =
  sgc_content_type :: string
  sgc_value :: string

record sg_personalization =
  sgp_to :: "sg_email list"
  sgp_subject :: "string option"
  sgp_dynamic_template_data :: "template_data option"

record sg_mail_message =
  sgm_from :: sg_email
  sgm_subject :: "string option"
  sgm_content :: "sg_content list"
  sgm_personalizations :: "sg_personalization list"
  sgm_template_id :: "string option"

definition sg_email_from :: "string \<Rightarrow> sg_email" where
  "sg_email_from email = \<lparr>sge_email = email, sge_name = None\<rparr>"

text \<open>Sendgrid requires at least one character.\<close>

definition sg_content_new :: sg_content where
  "sg_content_new = \<lparr>sgc_content_type = ''text/html'', sgc_value = '' ''\<rparr>"

definition sg_personalization_new :: sg_personalization where
  "sg_personalization_new = \<lparr>sgp_to = [], sgp_subject = None, sgp_dynamic_template_data = None\<rparr>"

text \<open>A key that is there already is overwritten.\<close>

definition add_template_data :: "sg_personalization \<Rightarrow> template_data \<Rightarrow> sg_personalization" where
  "add_template_data self data = self\<lparr>sgp_dynamic_template_data :=
     Some (case sgp_dynamic_template_data self of
         None \<Rightarrow> data
       | Some h \<Rightarrow> filter (\<lambda>(k, _). k \<notin> fst ` set data) h @ data)\<rparr>"

definition sg_mail_message_new :: sg_mail_message where
  "sg_mail_message_new =
     \<lparr>sgm_from = sg_email_from [], sgm_subject = None, sgm_content = [], sgm_personalizations = [],
      sgm_template_id = None\<rparr>"

text \<open>The mail service: a message with a key gives an error text or the status of the answer; the text
  of an error status.\<close>

record mail_service =
  ms_post :: "string \<Rightarrow> sg_mail_message \<Rightarrow> string + nat"
  ms_status_error :: "nat \<Rightarrow> string"

text \<open>Sending at once takes every answer for success, sending in the background looks at its status.\<close>

definition sg_send :: "mail_service \<Rightarrow> string \<Rightarrow> sg_mail_message \<Rightarrow> big_neon_error + unit" where
  "sg_send ms sg_api_key self =
     (case ms_post ms sg_api_key self of
        Inr _ \<Rightarrow> Inr () | Inl err \<Rightarrow> Inl (OfApplication (application_error_new err)))"

definition sg_send_async :: "mail_service \<Rightarrow> string \<Rightarrow> sg_mail_message \<Rightarrow> big_neon_error + unit" where
  "sg_send_async ms sg_api_key self =
     (case ms_post ms sg_api_key self of
        Inr status \<Rightarrow>
          if status \<ge> 400 \<and> status < 600
          then Inl (OfApplication (application_error_new (ms_status_error ms status))) else Inr ()
      | Inl err \<Rightarrow> Inl (OfApplication (application_error_new err)))"

definition email_message :: "string \<Rightarrow> string list \<Rightarrow> string \<Rightarrow> string option \<Rightarrow> sg_mail_message" where
  "email_message source dest title body =
     sg_mail_message_new\<lparr>sgm_subject := Some title, sgm_from := sg_email_from source,
       sgm_personalizations := [sg_personalization_new\<lparr>sgp_to := map sg_email_from dest\<rparr>],
       sgm_content := [sg_content_new\<lparr>sgc_value := unwrap_or body (sgc_value sg_content_new)\<rparr>]\<rparr>"

definition email_template_message ::
  "string \<Rightarrow> string list \<Rightarrow> string \<Rightarrow> template_data list \<Rightarrow> big_neon_error + sg_mail_message" where
  "email_template_message source dest template_id template_data =
     (if length dest \<noteq> length template_data
      then Inl (OfApplication (application_error_new ''Destination addresses mismatched with template data''))
      else Inr (sg_mail_message_new\<lparr>sgm_from := sg_email_from source, sgm_template_id := Some template_id,
        sgm_personalizations := map2 (\<lambda>d data.
          add_template_data (sg_personalization_new\<lparr>sgp_to := [sg_email_from d]\<rparr>) data) dest template_data,
        sgm_content := [sg_content_new]\<rparr>))"

definition send_email :: "mail_service \<Rightarrow> string \<Rightarrow> string \<Rightarrow> string list \<Rightarrow> string \<Rightarrow> string option \<Rightarrow> big_neon_error + unit" where
  "send_email ms key source dest title body = sg_send ms key (email_message source dest title body)"

definition send_email_async ::
  "mail_service \<Rightarrow> string \<Rightarrow> string \<Rightarrow> string list \<Rightarrow> string \<Rightarrow> string option \<Rightarrow> big_neon_error + unit" where
  "send_email_async ms key source dest title body = sg_send_async ms key (email_message source dest title body)"

definition send_email_template ::
  "mail_service \<Rightarrow> string \<Rightarrow> string \<Rightarrow> string list \<Rightarrow> string \<Rightarrow> template_data list \<Rightarrow> big_neon_error + unit" where
  "send_email_template ms key source dest template_id template_data =
     and_then (email_template_message source dest template_id template_data) (sg_send ms key)"

definition send_email_template_async ::
  "mail_service \<Rightarrow> string \<Rightarrow> string \<Rightarrow> string list \<Rightarrow> string \<Rightarrow> template_data list \<Rightarrow> big_neon_error + unit" where
  "send_email_template_async ms key source dest template_id template_data =
     and_then (email_template_message source dest template_id template_data) (sg_send_async ms key)"

section \<open>Twilio\<close>

text \<open>One message after the other, until one fails. The error of the crate is shown as it is.\<close>

fun send_sms_async ::
  "(string \<Rightarrow> string \<Rightarrow> string \<Rightarrow> string \<Rightarrow> string \<Rightarrow> big_neon_error + unit) \<Rightarrow> string \<Rightarrow> string \<Rightarrow> string \<Rightarrow>
   string list \<Rightarrow> string \<Rightarrow> big_neon_error + unit"
where
  "send_sms_async twilio account_id api_key source [] body = Inr ()"
| "send_sms_async twilio account_id api_key source (t # ts) body =
     and_then (twilio account_id api_key source t body)
       (\<lambda>_. send_sms_async twilio account_id api_key source ts body)"

section \<open>Sending a queued message\<close>

definition send_async ::
  "mail_service \<Rightarrow> (string \<Rightarrow> string \<Rightarrow> string \<Rightarrow> string \<Rightarrow> string \<Rightarrow> big_neon_error + unit) \<Rightarrow>
   (string \<Rightarrow> communication option) \<Rightarrow> domain_action \<Rightarrow> config \<Rightarrow> (big_neon_error + unit) option"
where
  "send_async ms twilio parse domain_action cfg =
     (case parse (da_payload domain_action) of
        None \<Rightarrow> Some (Inl OfSerde)
      | Some m \<Rightarrow>
          if cfg_environment cfg = Test \<or> cfg_block_external_comms cfg then Some (Inr ())
          else (case map_option comm_address_get_first (comm_source m) of
              Some (Inr source_address) \<Rightarrow>
                let destination_addresses = comm_address_get (comm_destinations m) in
                (case comm_type m of
                   Email \<Rightarrow> Some (send_email_async ms (cfg_sendgrid_api_key cfg) source_address
                     destination_addresses (comm_title m) (comm_body m))
                 | EmailTemplate \<Rightarrow>
                     (case (comm_template_id m, comm_template_data m) of
                        (Some template_id, Some data) \<Rightarrow> Some (send_email_template_async ms
                          (cfg_sendgrid_api_key cfg) source_address destination_addresses template_id data)
                      | _ \<Rightarrow> None)
                 | Sms \<Rightarrow> Some (send_sms_async twilio (cfg_twilio_account_id cfg) (cfg_twilio_api_key cfg)
                     source_address destination_addresses (unwrap_or (comm_body m) (comm_title m))))
            | _ \<Rightarrow> None))"

section \<open>The messages the service writes\<close>

text \<open>A message filled into a template of the mail service.\<close>

definition template_message :: "config \<Rightarrow> string \<Rightarrow> string \<Rightarrow> string \<Rightarrow> template_data \<Rightarrow> communication" where
  "template_message cfg email title template_id data =
     communication_new EmailTemplate title None
       (Some (comm_address_from (cfg_communication_default_source_email cfg))) (comm_address_from email)
       (Some template_id) (Some [data])"

definition ticket_rows :: "display_order_item list \<Rightarrow> (display_order_item \<Rightarrow> string) \<Rightarrow> string" where
  "ticket_rows items row =
     concat (map row (filter (\<lambda>oi. doi_item_type oi = order_item_types.Tickets) items))"

definition purchase_row :: "display_order_item \<Rightarrow> string" where
  "purchase_row oi =
     ''<tr><th align=\"center\">'' @ int_text (doi_quantity oi) @ ''</th><th>'' @ doi_description oi @
     ''</th><th align=\"right\">$'' @ cents_text (doi_unit_price_in_cents oi) @
     ''</th><th align=\"right\">$'' @ cents_text (doi_quantity oi * doi_unit_price_in_cents oi) @ ''</th></tr>''"

text \<open>Everything that is not a ticket counts as a fee.\<close>

definition fees_total :: "display_order_item list \<Rightarrow> (display_order_item \<Rightarrow> int) \<Rightarrow> int" where
  "fees_total items quantity = sum_list (map (\<lambda>oi. quantity oi * doi_unit_price_in_cents oi)
     (filter (\<lambda>oi. doi_item_type oi \<noteq> order_item_types.Tickets) items))"

definition tickets_total :: "display_order_item list \<Rightarrow> (display_order_item \<Rightarrow> int) \<Rightarrow> int" where
  "tickets_total items quantity =
     sum_list (map quantity (filter (\<lambda>oi. doi_item_type oi = order_item_types.Tickets) items))"

definition purchase_completed ::
  "crates \<Rightarrow> string \<Rightarrow> string \<Rightarrow> display_order \<Rightarrow> config \<Rightarrow> unit dbop" where
  "purchase_completed c user_first_name user_email display_order cfg =
     queue c (template_message cfg user_email ''BigNeon Purchase Completed''
       (cfg_sendgrid_template_bn_purchase_completed cfg)
       [(''name'', user_first_name),
        (''ticket_count'', int_text (tickets_total (do_items display_order) doi_quantity)),
        (''total_fees'', cents_text (fees_total (do_items display_order) doi_quantity)),
        (''total_price'', cents_text (do_total_in_cents display_order)),
        (''item_breakdown'', ''<table style=\"width:100%\"><tbody>'' @
          ''<tr><th>Units</th><th>Description</th><th>Unit Price</th><th>Total</th></tr>'' @
          ticket_rows (do_items display_order) purchase_row @ ''</tbody></table>''),
        (''tickets_link'', cfg_front_end_url cfg @ ''/hub'')])"

definition kept_quantity :: "display_order_item \<Rightarrow> int" where
  "kept_quantity oi = doi_quantity oi - doi_refunded_quantity oi"

definition refund_row :: "display_order_item \<Rightarrow> string" where
  "refund_row oi =
     ''<tr><th align=\"center\">'' @ int_text (doi_quantity oi) @ ''</th><th>'' @
     int_text (doi_refunded_quantity oi) @ ''</th><th>'' @ doi_description oi @
     ''</th><th align=\"right\">$'' @ cents_text (doi_unit_price_in_cents oi) @
     ''</th><th align=\"right\">$'' @ cents_text (kept_quantity oi * doi_unit_price_in_cents oi) @ ''</th></tr>''"

text \<open>The refunded amount is printed in cents, all other amounts in dollars.\<close>

definition refund_email ::
  "crates \<Rightarrow> string \<Rightarrow> string \<Rightarrow> display_order \<Rightarrow> u32 \<Rightarrow> config \<Rightarrow> unit dbop" where
  "refund_email c user_first_name user_email display_order amount_refunded cfg =
     queue c (template_message cfg user_email ''BigNeon Refund'' (cfg_sendgrid_template_bn_refund cfg)
       [(''name'', user_first_name), (''amount_refunded'', decimal (unat amount_refunded)),
        (''ticket_count'', int_text (tickets_total (do_items display_order) kept_quantity)),
        (''total_fees'', cents_text (fees_total (do_items display_order) kept_quantity)),
        (''total_price'', cents_text (do_total_in_cents display_order)),
        (''item_breakdown'', ''<table style=\"width:100%\"><tbody>'' @
          ''<tr><th>Units</th><th>Units Refunded</th><th>Description</th><th>Unit Price</th><th>Total</th></tr>'' @
          ticket_rows (do_items display_order) refund_row @ ''</tbody></table>''),
        (''tickets_link'', cfg_front_end_url cfg @ ''/hub'')])"

text \<open>An invitation without a token panics.\<close>

definition invite_user_to_organization_email ::
  "crates \<Rightarrow> config \<Rightarrow> organization_invite \<Rightarrow> organization \<Rightarrow> string \<Rightarrow> unit web" where
  "invite_user_to_organization_email c cfg invite org recipient_name =
     (case inv_security_token invite of
        None \<Rightarrow> fail HandlerPanicked
      | Some token \<Rightarrow> on_db (queue c
          (template_message cfg (inv_user_email invite) ''BigNeon Invites'' (cfg_sendgrid_template_bn_org_invite cfg)
            [(''name'', recipient_name), (''org'', org_name org),
             (''invite_link_accept'', cfg_front_end_url cfg @ ''/invites/accept?token='' @ uuid_to_string token)])))"

definition receive_tickets_link :: "config \<Rightarrow> string \<Rightarrow> u32 \<Rightarrow> string \<Rightarrow> string \<Rightarrow> string" where
  "receive_tickets_link cfg sender_user_id num_tickets transfer_key signature =
     cfg_front_end_url cfg @ ''/tickets/receive?sender_user_id='' @ sender_user_id @ ''&transfer_key='' @
     transfer_key @ ''&num_tickets='' @ decimal (unat num_tickets) @ ''&signature='' @ signature"

text \<open>The title is a literal: the name in braces is not filled in.\<close>

definition mail_tickets ::
  "crates \<Rightarrow> config \<Rightarrow> string \<Rightarrow> string \<Rightarrow> u32 \<Rightarrow> string \<Rightarrow> string \<Rightarrow> user_row \<Rightarrow> unit dbop" where
  "mail_tickets c cfg email sender_user_id num_tickets transfer_key signature from_user =
     queue c (template_message cfg email ''{sender_name} has sent you some tickets''
       (cfg_sendgrid_template_bn_transfer_tickets cfg)
       [(''sender_name'', full_name from_user),
        (''receive_tickets_link'', receive_tickets_link cfg sender_user_id num_tickets transfer_key signature)])"

definition sms_tickets ::
  "crates \<Rightarrow> config \<Rightarrow> string \<Rightarrow> string \<Rightarrow> u32 \<Rightarrow> string \<Rightarrow> string \<Rightarrow> user_row \<Rightarrow> unit dbop" where
  "sms_tickets c cfg phone sender_user_id num_tickets transfer_key signature from_user =
     queue c (communication_new Sms
       (full_name from_user @ '' has sent you some tickets: '' @
          receive_tickets_link cfg sender_user_id num_tickets transfer_key signature) None
       (Some (comm_address_from (cfg_communication_default_source_phone cfg))) (comm_address_from phone)
       None None)"

definition user_registered :: "crates \<Rightarrow> string \<Rightarrow> string \<Rightarrow> config \<Rightarrow> unit dbop" where
  "user_registered c user_first_name user_email cfg =
     queue c (template_message cfg user_email ''BigNeon Registration''
       (cfg_sendgrid_template_bn_user_registered cfg) [(''name'', user_first_name)])"

text \<open>The two messages with a link to set a password; a user without a token or an address panics.\<close>

definition password_reset_email :: "config \<Rightarrow> user_row \<Rightarrow> communication option" where
  "password_reset_email cfg user =
     (case (u_password_reset_token user, u_email user) of
        (Some token, Some email) \<Rightarrow> Some (template_message cfg email ''Big Neon Password reset request''
          (cfg_sendgrid_template_bn_password_reset cfg)
          [(''name'', full_name user),
           (''password_reset_link'', cfg_front_end_url cfg @ ''/password-reset?token='' @ uuid_to_string token)])
      | _ \<Rightarrow> None)"

definition invite_user_email :: "config \<Rightarrow> user_row \<Rightarrow> communication option" where
  "invite_user_email cfg user =
     (case (u_password_reset_token user, u_email user) of
        (Some token, Some email) \<Rightarrow> Some (template_message cfg email ''Big Neon Password reset request''
          (cfg_sendgrid_template_bn_user_invite cfg)
          [(''name'', full_name user),
           (''invite_link'', cfg_front_end_url cfg @ ''/password-reset?token='' @ uuid_to_string token @ ''&invite=true'')])
      | _ \<Rightarrow> None)"

end
