(* ===== verification/Cart_Requests.thy ===== *)
theory Cart_Requests imports Communications begin

text \<open>
  The requests on the cart of the signed-in user (\<open>api/src/controllers/cart.rs\<close>): changing it, and
  checking it out for free, against an external payment, or with a payment processor. A checkout with
  a processor commits in its middle, between the authorization of the charge and its capture.
\<close>

section \<open>Changing the cart\<close>

record cart_item =
  ci_ticket_type_id :: uuid
  ci_quantity :: u32
  ci_redemption_code :: "string option"

record update_cart_request =
  ucr_items :: "cart_item list"
  ucr_box_office_pricing :: "bool option"

definition box_office_guard :: "cart_item list \<Rightarrow> auth_user \<Rightarrow> unit web" where
  "box_office_guard items user =
     bindo (on_db (find_by_ticket_type_ids (remdups (sort (map ci_ticket_type_id items))))) (\<lambda>organizations.
     for_each (requires_scope_for_organization user BoxOfficeTicketRead) organizations)"

definition order_item_of_request :: "cart_item \<Rightarrow> update_order_item" where
  "order_item_of_request i =
     \<lparr>uoi_ticket_type_id = ci_ticket_type_id i, uoi_quantity = ci_quantity i,
      uoi_redemption_code = ci_redemption_code i\<rparr>"

text \<open>The loop that stops at the first ticket type of an event in draft.\<close>

fun none_in_draft :: "update_order_item list \<Rightarrow> bool web" where
  "none_in_draft [] = ret True"
| "none_in_draft (order_item # items) =
     bindo (on_db (is_event_not_draft (uoi_ticket_type_id order_item))) (\<lambda>not_draft.
     if \<not> not_draft then ret False else none_in_draft items)"

definition show_order :: "uuid \<Rightarrow> display_order web" where
  "show_order id' = bindo (on_db (order_find id')) (\<lambda>order. on_db (for_display order))"

definition change_cart :: "bool \<Rightarrow> update_cart_request \<Rightarrow> auth_user \<Rightarrow> display_order http_response web" where
  "change_cart remove_others json user =
     (let box_office_pricing = unwrap_or (ucr_box_office_pricing json) False in
      bindo (if box_office_pricing then box_office_guard (ucr_items json) user else ret ()) (\<lambda>_.
      bindo (on_db (find_or_create_cart (au_user user))) (\<lambda>cart.
      let requested = map order_item_of_request (ucr_items json) in
      bindo (none_in_draft requested) (\<lambda>published.
      if \<not> published
      then ret \<lparr>hr_status = 400, hr_body = Failed ''Event has not been published.''\<rparr>
      else
        bindo (on_db (update_quantities cart requested box_office_pricing remove_others)) (\<lambda>cart.
        bindo (show_order (o_id cart)) http_ok)))))"

definition update_cart :: "update_cart_request \<Rightarrow> auth_user \<Rightarrow> display_order http_response web" where
  "update_cart json user = change_cart False json user"

definition replace_cart :: "update_cart_request \<Rightarrow> auth_user \<Rightarrow> display_order http_response web" where
  "replace_cart json user = change_cart True json user"

definition cart_destroy :: "auth_user \<Rightarrow> display_order http_response web" where
  "cart_destroy user =
     bindo (on_db (find_or_create_cart (au_user user))) (\<lambda>cart.
     bindo (on_db (update_quantities cart [] False True)) (\<lambda>cart.
     bindo (show_order (o_id cart)) http_ok))"

text \<open>No cart is the empty object.\<close>

definition cart_show :: "auth_user \<Rightarrow> display_order option http_response web" where
  "cart_show user =
     bindo (on_db (find_cart_for_user (au_id user))) (\<lambda>order.
     case order of
       Some order' \<Rightarrow> bindo (on_db (for_display order')) (\<lambda>d. http_ok (Some d))
     | None \<Rightarrow> http_ok None)"

section \<open>The ways to pay\<close>

datatype payment_request =
    External "string option" string string "string option" "string option" "string option"
  | Card string string bool bool
  | PaymentMethod "string option"
  | Free

record checkout_cart_request =
  ccr_amount :: int
  ccr_method :: payment_request

text \<open>A successful payment answers with the order as it is now.\<close>

definition paid_response :: "order_row \<Rightarrow> display_order http_response web" where
  "paid_response order = bindo (show_order (o_id order)) http_ok"

abbreviation not_a_draft :: "'a web" where
  "not_a_draft \<equiv> unprocessable ''Could not complete this cart because it is not in the correct status''"

definition checkout_free :: "order_row \<Rightarrow> auth_user \<Rightarrow> display_order http_response web" where
  "checkout_free order user =
     (if o_status order \<noteq> order_status.Draft then not_a_draft
      else bindo (on_db (add_external_payment order (Some ''Free Checkout'') (au_id user) 0)) (\<lambda>_.
        paid_response order))"

text \<open>The guest is found by address, then by phone, and created when neither is known.\<close>

definition find_guest ::
  "argon \<Rightarrow> string \<Rightarrow> string \<Rightarrow> string option \<Rightarrow> string option \<Rightarrow> user_row web" where
  "find_guest g first_name last_name email phone =
     bindo (case email of Some e \<Rightarrow> on_db (optional_op (find_by_email e)) | None \<Rightarrow> ret None) (\<lambda>guest.
     bindo (case guest of Some u \<Rightarrow> ret (Some u)
            | None \<Rightarrow> (case phone of Some p \<Rightarrow> on_db (optional_op (find_by_phone p)) | None \<Rightarrow> ret None)) (\<lambda>guest.
     case guest of Some u \<Rightarrow> ret u
     | None \<Rightarrow> on_db (create_stub g first_name last_name email phone)))"

definition external_payment_guard :: "order_row \<Rightarrow> auth_user \<Rightarrow> unit web" where
  "external_payment_guard order user =
     bindo (on_db (order_items order)) (\<lambda>items.
     for_each (\<lambda>(event_id, _). case event_id of
         Some e \<Rightarrow> bindo (on_db (organization_find_for_event e)) (\<lambda>organization.
           requires_scope_for_organization user OrderMakeExternalPayment organization)
       | None \<Rightarrow> ret ()) (group_by oi_event_id items))"

definition checkout_external ::
  "argon \<Rightarrow> order_row \<Rightarrow> string option \<Rightarrow> string \<Rightarrow> string \<Rightarrow> string option \<Rightarrow> string option \<Rightarrow> string option \<Rightarrow>
   int \<Rightarrow> auth_user \<Rightarrow> display_order http_response web"
where
  "checkout_external g order reference first_name last_name email phone note amount user =
     bindo (external_payment_guard order user) (\<lambda>_.
     if o_status order \<noteq> order_status.Draft then not_a_draft
     else
       bindo (find_guest g first_name last_name email phone) (\<lambda>guest.
       bindo (on_db (order_update order \<lparr>uoa_note = Some note\<rparr>)) (\<lambda>order.
       bindo (on_db (set_behalf_of_user order guest (au_id user))) (\<lambda>order.
       bindo (on_db (add_external_payment order reference (au_id user) amount)) (\<lambda>_.
       paid_response order)))))"

section \<open>Paying with a processor\<close>

text \<open>Storing the card for later: an existing method is pointed at the new card, or a new one is made.\<close>

definition save_card ::
  "network \<Rightarrow> payment_processor \<Rightarrow> string \<Rightarrow> string \<Rightarrow> bool \<Rightarrow> auth_user \<Rightarrow> string web"
where
  "save_card net client provider_name token set_default auth_user =
     bindo (on_db (optional_op (user_payment_method (au_user auth_user) provider_name))) (\<lambda>stored.
     case stored of
       Some payment_method \<Rightarrow>
         bindo (call_processor (UpdateRepeatToken (pm_provider payment_method) token)
           (pp_update_repeat_token client (pm_provider payment_method) token ''Big Neon something'')) (\<lambda>response.
         bindo (lift_result (to_json net response)) (\<lambda>data.
         bindo (on_db (payment_method_update payment_method \<lparr>pma_provider_data = Some data\<rparr> (au_id auth_user))) (\<lambda>_.
         ret (pm_provider payment_method))))
     | None \<Rightarrow>
         bindo (call_processor (CreateRepeatToken token)
           (pp_create_repeat_token client token ''Big Neon something'')) (\<lambda>repeat_token.
         bindo (lift_result (to_json net repeat_token)) (\<lambda>data.
         bindo (on_db (payment_method_commit (payment_method_create (au_id auth_user) provider_name set_default
           (pr_id repeat_token) data) (au_id auth_user))) (\<lambda>_.
         ret (pr_id repeat_token)))))"

definition charge_token ::
  "network \<Rightarrow> payment_processor \<Rightarrow> string \<Rightarrow> string option \<Rightarrow> bool \<Rightarrow> bool \<Rightarrow> bool \<Rightarrow> auth_user \<Rightarrow> string web"
where
  "charge_token net client provider_name token use_stored_payment save_payment_method set_default auth_user =
     (if use_stored_payment
      then bindo (on_db (optional_op (user_payment_method (au_user auth_user) provider_name))) (\<lambda>stored.
        case stored of
          Some payment_method \<Rightarrow> ret (pm_provider payment_method)
        | None \<Rightarrow> unprocessable ''Could not complete this cart because stored provider does not exist'')
      else case token of
          None \<Rightarrow> unprocessable ''Could not complete this cart because no token provided''
        | Some token \<Rightarrow>
            if save_payment_method then save_card net client provider_name token set_default auth_user
            else ret token)"

text \<open>The part after the token: authorize, store the payment, commit, capture, complete. An authorization
  that cannot be stored, or a captured charge whose payment cannot be completed, is refunded.\<close>

definition store_authorized ::
  "network \<Rightarrow> payment_processor \<Rightarrow> order_row \<Rightarrow> auth_user \<Rightarrow> int \<Rightarrow> string \<Rightarrow> processor_result \<Rightarrow> payment web"
where
  "store_authorized net client order auth_user amount provider_name auth_result =
     bindo (lift_result (to_json net auth_result)) (\<lambda>data.
     bindo (attempt (on_db (add_credit_card_payment order (au_id auth_user) amount provider_name
       (pr_id auth_result) payment_status.Authorized data))) (\<lambda>stored.
     case stored of
       Inr (p, order) \<Rightarrow> ret p
     | Inl e \<Rightarrow> bindo (call_processor (RefundCharge (pr_id auth_result)) (pp_refund client (pr_id auth_result)))
         (\<lambda>_. fail e)))"

definition capture_payment ::
  "network \<Rightarrow> payment_processor \<Rightarrow> order_row \<Rightarrow> auth_user \<Rightarrow> processor_result \<Rightarrow> payment \<Rightarrow>
   display_order http_response web"
where
  "capture_payment net client order auth_user auth_result payment =
     bindo (call_processor (CompleteCharge (pr_id auth_result))
       (pp_complete_authed_charge client (pr_id auth_result))) (\<lambda>charge_result.
     bindo (lift_result (to_json net charge_result)) (\<lambda>data.
     bindo (attempt (on_db (mark_complete payment data (au_id auth_user)))) (\<lambda>completed.
     case completed of
       Inr _ \<Rightarrow> paid_response order
     | Inl e \<Rightarrow> bindo (call_processor (RefundCharge (pr_id auth_result)) (pp_refund client (pr_id auth_result)))
         (\<lambda>_. fail e))))"

definition checkout_payment_processor ::
  "network \<Rightarrow> config \<Rightarrow> order_row \<Rightarrow> string option \<Rightarrow> int \<Rightarrow> auth_user \<Rightarrow> string \<Rightarrow> string \<Rightarrow> bool \<Rightarrow> bool \<Rightarrow> bool \<Rightarrow>
   display_order http_response web"
where
  "checkout_payment_processor net cfg order token amount auth_user currency provider_name use_stored_payment
     save_payment_method set_default =
     (if o_user_id order \<noteq> au_id auth_user then forbidden ''This cart does not belong to you''
      else if o_status order \<noteq> order_status.Draft then not_a_draft
      else
        bindo (lift_result (create_payment_processor net cfg provider_name)) (\<lambda>client.
        bindo (charge_token net client provider_name token use_stored_payment save_payment_method set_default
          auth_user) (\<lambda>token.
        bindo (call_processor (AuthCharge token amount currency (o_id order))
          (pp_auth client token amount currency ''Tickets from Bigneon'' [(''order_id'', uuid_to_string (o_id order))]))
          (\<lambda>auth_result.
        bindo (store_authorized net client order auth_user amount provider_name auth_result) (\<lambda>payment.
        bindo commit_transaction (\<lambda>_.
        bindo begin_transaction (\<lambda>_.
        capture_payment net client order auth_user auth_result payment)))))))"

section \<open>Checking out\<close>

text \<open>The tokens of an order by asset, and the wallet of the first ticket of each asset. The code's maps
  have no order; here the assets are in the order of their first ticket.\<close>

fun push_token :: "uuid \<Rightarrow> nat \<Rightarrow> (uuid \<times> nat list) list \<Rightarrow> (uuid \<times> nat list) list" where
  "push_token a t [] = [(a, [t])]"
| "push_token a t ((b, ts) # m) = (if a = b then (b, ts @ [t]) # m else (b, ts) # push_token a t m)"

definition collect_ticket ::
  "ticket_instance \<Rightarrow> (uuid \<times> nat list) list \<times> (uuid \<times> uuid) list \<Rightarrow> (uuid \<times> nat list) list \<times> (uuid \<times> uuid) list"
where
  "collect_ticket ticket = (\<lambda>(tokens, wallets).
     (push_token (ti_asset_id ticket) (as_u64 (ti_token_id ticket)) tokens,
      if map_of wallets (ti_asset_id ticket) = None then wallets @ [(ti_asset_id ticket, ti_wallet_id ticket)]
      else wallets))"

definition tokens_of_items :: "order_item list \<Rightarrow> ((uuid \<times> nat list) list \<times> (uuid \<times> uuid) list) dbop" where
  "tokens_of_items items =
     fold_op (\<lambda>oi acc. bindo (find_for_order_item (oi_id oi)) (\<lambda>tickets. ret (fold collect_ticket tickets acc)))
       items ([], [])"

abbreviation asset_unassigned :: "'a web" where
  "asset_unassigned \<equiv> internal_server_error
     ''Could not complete this checkout because the asset has not been assigned on the blockchain''"

definition assets_assigned :: "(uuid \<times> nat list) list \<Rightarrow> unit web" where
  "assets_assigned tokens = for_each (\<lambda>(asset_id, _).
     bindo (on_db (asset_find asset_id)) (\<lambda>asset.
     if a_blockchain_asset_id asset = None then asset_unassigned else ret ())) tokens"

definition hand_over_tokens ::
  "tari_client \<Rightarrow> wallet \<Rightarrow> (uuid \<times> uuid) list \<Rightarrow> uuid \<times> nat list \<Rightarrow> unit web"
where
  "hand_over_tokens tari new_owner_wallet wallets = (\<lambda>(asset_id, token_ids).
     bindo (on_db (asset_find asset_id)) (\<lambda>asset.
     case a_blockchain_asset_id asset of
       None \<Rightarrow> asset_unassigned
     | Some a \<Rightarrow>
         (case map_of wallets asset_id of
            None \<Rightarrow> internal_server_error
              ''Could not complete this checkout because wallet id not found for asset''
          | Some wallet_id \<Rightarrow>
              bindo (on_db (wallet_find wallet_id)) (\<lambda>org_wallet.
              call_tari (TransferTokens a token_ids (w_public_key new_owner_wallet))
                (tc_transfer_tokens tari (w_secret_key org_wallet) (w_public_key org_wallet) a token_ids
                   (w_public_key new_owner_wallet))))))"

definition pay ::
  "network \<Rightarrow> argon \<Rightarrow> config \<Rightarrow> checkout_cart_request \<Rightarrow> auth_user \<Rightarrow> order_row \<Rightarrow> display_order http_response web"
where
  "pay net g cfg req user order =
     (case ccr_method req of
        Free \<Rightarrow>
          bindo (on_db (calculate_total order)) (\<lambda>total.
          if total > 0
          then unprocessable
            ''Could not use free payment method this cart because it has a total greater than zero''
          else checkout_free order user)
      | External reference first_name last_name email phone note \<Rightarrow>
          checkout_external g order reference first_name last_name email phone note (ccr_amount req) user
      | PaymentMethod provider \<Rightarrow>
          bindo (case provider of
              Some provider \<Rightarrow> ret provider
            | None \<Rightarrow>
                bindo (on_db (optional_op (default_payment_method (au_user user)))) (\<lambda>stored.
                case stored of
                  Some payment_method \<Rightarrow> ret (pm_name payment_method)
                | None \<Rightarrow> unprocessable
                    ''Could not complete this cart because user has no default payment method'')) (\<lambda>provider.
          checkout_payment_processor net cfg order None (ccr_amount req) user (cfg_primary_currency cfg)
            provider True False False)
      | Card token provider save_payment_method set_default \<Rightarrow>
          checkout_payment_processor net cfg order (Some token) (ccr_amount req) user (cfg_primary_currency cfg)
            provider False save_payment_method set_default)"

text \<open>What follows a payment: the tokens go to the buyer's wallet and a message is queued.\<close>

definition after_payment ::
  "crates \<Rightarrow> config \<Rightarrow> auth_user \<Rightarrow> uuid \<Rightarrow> (uuid \<times> nat list) list \<Rightarrow> (uuid \<times> uuid) list \<Rightarrow> unit web"
where
  "after_payment c cfg user order_id tokens wallets =
     bindo (on_db (find_default_for_user (au_id user))) (\<lambda>new_owner_wallet.
     bindo (for_each (hand_over_tokens (cfg_tari_client cfg) new_owner_wallet wallets) tokens) (\<lambda>_.
     bindo (on_db (order_find order_id)) (\<lambda>order.
     bindo (on_db (for_display order)) (\<lambda>display_order.
     bindo (on_db (user_find (unwrap_or (o_on_behalf_of_user_id order) (o_user_id order)))) (\<lambda>buyer.
     case (u_first_name buyer, u_email buyer) of
       (Some first_name, Some email) \<Rightarrow> on_db (purchase_completed c first_name email display_order cfg)
     | _ \<Rightarrow> ret ())))))"

definition checkout ::
  "crates \<Rightarrow> network \<Rightarrow> argon \<Rightarrow> config \<Rightarrow> checkout_cart_request \<Rightarrow> auth_user \<Rightarrow> display_order http_response web"
where
  "checkout c net g cfg req user =
     bindo (on_db (find_cart_for_user (au_id user))) (\<lambda>cart.
     case cart of
       None \<Rightarrow> unprocessable ''No cart exists for user''
     | Some order \<Rightarrow>
         bindo (on_db (lock_version order)) (\<lambda>order.
         bindo (on_db (order_items order)) (\<lambda>items.
         bindo (on_db (tokens_of_items items)) (\<lambda>(tokens, wallets).
         bindo (assets_assigned tokens) (\<lambda>_.
         bindo (pay net g cfg req user order) (\<lambda>payment_response.
         if hr_status payment_response = 200
         then bindo (after_payment c cfg user (o_id order) tokens wallets) (\<lambda>_. ret payment_response)
         else ret payment_response))))))"


section \<open>Every captured charge is on record\<close>

text \<open>The charges that a state has a card payment of an amount for, and those a request has captured.\<close>

definition charge_key :: "payment \<Rightarrow> string option \<times> int \<times> payment_methods" where
  "charge_key p = (p_external_reference p, p_amount p, p_payment_method p)"

definition charges :: "int \<Rightarrow> db \<Rightarrow> string set" where
  "charges amount s =
     {a. (Some a, amount, payment_methods.CreditCard) \<in> set (map charge_key (db_payments s))}"

definition captured :: "external_call list \<Rightarrow> string set" where
  "captured calls = {a. CompleteCharge a \<in> set calls}"

definition keeps_charges :: "int \<Rightarrow> db \<Rightarrow> db \<Rightarrow> bool" where
  "keeps_charges amount s t \<longleftrightarrow> charges amount s \<subseteq> charges amount t"

interpretation charges: step_relation "keeps_charges amount" for amount
  by unfold_locales (auto simp: keeps_charges_def)

lemma charges_writes: "writes (- {PaymentsT}) s t \<Longrightarrow> keeps_charges amount s t"
  using writes_same [where T = PaymentsT] by (force simp: keeps_charges_def charges_def)

lemma charges_footprint: "steps (writes (- {PaymentsT})) m \<Longrightarrow> steps (keeps_charges amount) m"
  by (simp add: steps_def charges_writes)

lemma charges_insert:
  "steps (keeps_charges amount) (insert_checked db_payments (\<lambda>rs s. s\<lparr>db_payments := rs\<rparr>) v r code m)"
  by (auto simp: steps_def insert_checked_run keeps_charges_def charges_def split: option.split)

lemma charges_update:
  assumes "\<And>p. charge_key (f p) = charge_key p"
  shows "steps (keeps_charges amount) (execute_update db_payments (\<lambda>rs s. s\<lparr>db_payments := rs\<rparr>) P f)"
  by (simp add: steps_def keeps_charges_def charges_def map_update_where assms del: set_map)

lemmas charges_table = charges_insert charges_update

lemma charges_payments:
  "steps (keeps_charges amount) (payment_commit p u)"
  "steps (keeps_charges amount) (add_payment order p u)"
  "steps (keeps_charges amount) (mark_complete q raw u)"
proof -
  show commit: "steps (keeps_charges amount) (payment_commit p u)" for p
    unfolding payment_commit_def by (auto intro!: charges.steps_control charges_table intro: charges_footprint footprints)
  show "steps (keeps_charges amount) (add_payment order p u)"
    unfolding add_payment_def by (auto intro!: charges.steps_control commit split: order_status.split
        intro: charges_footprint footprints)
  show "steps (keeps_charges amount) (mark_complete q raw u)"
    unfolding mark_complete_def payment_order_def by (auto intro!: charges.steps_control charges_table
        simp: charge_key_def intro: charges_footprint footprints)
qed

definition on_record :: "int \<Rightarrow> session \<Rightarrow> bool" where
  "on_record amount w \<longleftrightarrow>
     captured (ss_calls w) \<subseteq> charges amount (ss_db w) \<and> captured (ss_calls w) \<subseteq> charges amount (ss_committed w)"

lemma record_on_db: "steps (keeps_charges amount) m \<Longrightarrow> keeps (on_record amount) (on_db m)"
  by (auto simp: keeps_def on_record_def on_db_run steps_def keeps_charges_def)

lemma record_reads: "(\<And>w. snd (m w) = w) \<Longrightarrow> keeps (on_record amount) m"
  by (simp add: keeps_def)

lemma record_checks:
  "keeps (on_record amount) (requires_scope_for_organization user scope g)"
  "keeps (on_record amount) (lift_result r)" "keeps (on_record amount) (http_ok b)"
  "keeps (on_record amount) (unprocessable m)" "keeps (on_record amount) (forbidden m)"
  "keeps (on_record amount) (internal_server_error m)"
  by (rule record_reads, simp add: requires_scope_for_organization_run lift_result_run http_ok_def
      unprocessable_def forbidden_def internal_server_error_def ret_run fail_run split: sum.split)+

lemma call_external_run: "call_external c w = (Inr (), w\<lparr>ss_calls := ss_calls w @ [c]\<rparr>)"
  by (simp add: call_external_def)

lemma record_call:
  assumes "\<And>a. c \<noteq> CompleteCharge a"
  shows "keeps (on_record amount) (call_external c)"
proof -
  have "captured (calls @ [c]) = captured calls" for calls
    using assms by (auto simp: captured_def)
  then show ?thesis by (simp add: keeps_def on_record_def call_external_run)
qed

lemma record_services:
  "(\<And>a. c \<noteq> CompleteCharge a) \<Longrightarrow> keeps (on_record amount) (call_processor c r)"
  "(\<And>a. c \<noteq> CompleteCharge a) \<Longrightarrow> keeps (on_record amount) (call_tari c t)"
  unfolding call_processor_def call_tari_def by (auto intro!: keeps_bindo record_call record_checks)

lemma record_option:
  "keeps (on_record amount) m \<Longrightarrow> (\<And>y. keeps (on_record amount) (f y)) \<Longrightarrow>
     keeps (on_record amount) (case x of None \<Rightarrow> m | Some y \<Rightarrow> f y)"
  "keeps (on_record amount) m \<Longrightarrow> keeps (on_record amount) m' \<Longrightarrow>
     keeps (on_record amount) (if c then m else m')"
  by (simp_all split: option.split)

lemmas record_intros = keeps_control record_option record_checks record_services record_on_db charges_payments

text \<open>Everything on the way but the capture, by its footprint.\<close>

lemma writes_queue [footprints]: "DomainActionsT \<in> W \<Longrightarrow> steps (writes W) (queue c m)"
  unfolding queue_def action_commit_def by (auto intro!: footprints)

lemma writes_order_changes [footprints]:
  assumes "OrdersT \<in> W" and "DomainEventsT \<in> W"
  shows "steps (writes W) (order_update order a)" and "steps (writes W) (set_behalf_of_user order u i)"
  unfolding order_update_def set_behalf_of_user_def using assms by (auto intro!: footprints)

lemma writes_checkout_reads [footprints]:
  "steps (writes W) (find_cart_for_user u)" "steps (writes W) (asset_find i)" "steps (writes W) (wallet_find i)"
  "steps (writes W) (organization_find_for_event e)" "steps (writes W) (default_payment_method v)"
  by (rule writes_pure, simp add: find_cart_for_user_def asset_find_def wallet_find_def
      organization_find_for_event_def default_payment_method_def find_default_payment_method_def)+

lemma writes_show [footprints]: "steps (writes W) (for_display order)" "steps (writes W) (tokens_of_items items)"
proof -
  have "steps (writes W) (item_find_for_display i)" for i
    by (rule writes_pure) (simp add: item_find_for_display_def Let_def)
  then show "steps (writes W) (for_display order)"
    unfolding for_display_def remaining_for_event_def by (auto intro!: footprints split: prod.split)
  show "steps (writes W) (tokens_of_items items)"
    unfolding tokens_of_items_def by (auto intro!: footprints)
qed

lemma record_reading: "steps (writes {}) m \<Longrightarrow> keeps (on_record amount) (on_db m)"
  by (auto intro!: record_on_db charges_footprint elim: steps_writes_mono)

lemma record_show: "keeps (on_record amount) (show_order i)" "keeps (on_record amount) (paid_response order)"
  unfolding show_order_def paid_response_def by (auto intro!: record_intros charges_footprint footprints)

lemma record_after_payment: "keeps (on_record amount) (after_payment c cfg user i tokens wallets)"
  unfolding after_payment_def hand_over_tokens_def purchase_completed_def
  by (auto intro!: record_intros charges_footprint footprints split: prod.split option.split)

lemma record_card:
  "keeps (on_record amount) (charge_token net client provider token stored save default' user)"
  unfolding charge_token_def save_card_def
  by (auto intro!: record_intros charges_footprint footprints split: option.split)

lemma record_external: "keeps (on_record amount) (checkout_external g order reference f l email phone note n user)"
  unfolding checkout_external_def external_payment_guard_def find_guest_def add_external_payment_def
  by (auto intro!: record_intros record_show split: option.split intro: charges_footprint footprints)

lemma record_free: "keeps (on_record amount) (checkout_free order user)"
  unfolding checkout_free_def add_external_payment_def
  by (auto intro!: record_intros record_show)

text \<open>A stored authorization is a card payment of the amount, in the state that is then committed.\<close>

lemma authorized_on_record:
  assumes "store_authorized net client order user amount provider a w = (Inr p, w')"
  shows "pr_id a \<in> charges amount (ss_db w')"
proof -
  from assms obtain data p' order' where
    added: "add_credit_card_payment order (au_id user) amount provider (pr_id a) payment_status.Authorized data (ss_db w) =
      (Inr (p', order'), ss_db w')"
    by (auto simp: store_authorized_def bindo_run lift_result_run attempt_run on_db_run ret_run fail_run
        split: sum.splits prod.splits) (metis prod.collapse)
  then obtain self s1 s2 where
    commit: "payment_commit (payment_create (o_id order) (au_id user) payment_status.Authorized
      payment_methods.CreditCard provider (Some (pr_id a)) amount (Some data)) (au_id user) s1 = (Inr p', s2)"
    and rest: "bindo (complete_if_fully_paid self) (\<lambda>self. ret (p', self)) s2 = (Inr (p', order'), ss_db w')"
    by (fastforce simp: add_credit_card_payment_def add_payment_def bindo_Inr_iff ret_run)
  from commit have "pr_id a \<in> charges amount s2"
    by (auto simp: payment_commit_def bindo_Inr_iff insert_checked_Inr_iff gets_def draw_uuid_def ret_run
        domain_event_commit_def charges_def charge_key_def payment_row_def payment_create_def)
  moreover have steps: "steps (keeps_charges amount) (bindo (complete_if_fully_paid self) (\<lambda>self. ret (p', self)))"
    by (auto intro!: charges_footprint footprints)
  from steps rest have "keeps_charges amount s2 (ss_db w')" by (rule stepsD_run)
  ultimately show ?thesis by (auto simp: keeps_charges_def)
qed

lemma record_capture:
  assumes "on_record amount w" and "pr_id a \<in> charges amount (ss_db w)"
    and "pr_id a \<in> charges amount (ss_committed w)"
  shows "on_record amount (snd (capture_payment net client order user a p w))"
proof -
  let ?rest = "\<lambda>charge_result. bindo (lift_result (to_json net charge_result)) (\<lambda>data.
     bindo (attempt (on_db (mark_complete p data (au_id user)))) (\<lambda>completed.
     case completed of
       Inr _ \<Rightarrow> paid_response order
     | Inl e \<Rightarrow> bindo (call_processor (RefundCharge (pr_id a)) (pp_refund client (pr_id a))) (\<lambda>_. fail e)))"
  let ?r = "lift_result (map_error OfPaymentProcessor (pp_complete_authed_charge client (pr_id a)))"
  let ?w = "w\<lparr>ss_calls := ss_calls w @ [CompleteCharge (pr_id a)]\<rparr>"
  have "on_record amount ?w" using assms by (auto simp: on_record_def captured_def)
  moreover have "keeps (on_record amount) (bindo ?r ?rest)"
    by (auto intro!: record_intros record_show split: sum.split)
  moreover have "capture_payment net client order user a p w = bindo ?r ?rest ?w"
    by (simp add: capture_payment_def call_processor_def bindo_run call_external_run)
  ultimately show ?thesis by (simp add: keepsD)
qed

lemma record_charge:
  "keeps (on_record amount) (bindo (store_authorized net client order user amount provider a) (\<lambda>payment.
     bindo commit_transaction (\<lambda>_. bindo begin_transaction (\<lambda>_.
     capture_payment net client order user a payment))))"
proof (rule keepsI)
  fix w
  assume rec: "on_record amount w"
  have store: "keeps (on_record amount) (store_authorized net client order user amount provider a)"
    unfolding store_authorized_def add_credit_card_payment_def
    by (auto intro!: record_intros split: sum.split)
  obtain r w1 where run: "store_authorized net client order user amount provider a w = (r, w1)" by fastforce
  have rec1: "on_record amount w1" using store run rec by (rule keepsD_run)
  show "on_record amount (snd (bindo (store_authorized net client order user amount provider a) (\<lambda>payment.
     bindo commit_transaction (\<lambda>_. bindo begin_transaction (\<lambda>_.
     capture_payment net client order user a payment))) w))"
  proof (cases r)
    case (Inl e)
    then show ?thesis using run rec1 by (simp add: bindo_run)
  next
    case (Inr p)
    then have "pr_id a \<in> charges amount (ss_db w1)" using run authorized_on_record by blast
    then show ?thesis
      using Inr run rec1 by (simp add: bindo_run commit_transaction_def begin_transaction_def)
        (rule record_capture, auto simp: on_record_def)
  qed
qed

lemma record_processor:
  "keeps (on_record amount) (checkout_payment_processor net cfg order token amount user currency provider
     stored save default')"
  unfolding checkout_payment_processor_def
  by (auto intro!: record_intros record_card record_charge)

lemma record_checkout: "keeps (on_record (ccr_amount req)) (checkout c net g cfg req user)"
  unfolding checkout_def pay_def assets_assigned_def
  by (auto intro!: record_intros record_processor record_external record_free record_after_payment
      charges_footprint footprints split: option.split payment_request.split prod.split)

text \<open>C27: Whatever becomes of a checkout, a charge that was captured is on record in the rows that remain:
  there is a card payment with its reference and its amount, also when the request fails after the
  capture and is rolled back.\<close>

theorem captured_charges_on_record:
  "captured (ss_calls (snd (run_request (checkout c net g cfg req user) s))) \<subseteq>
     charges (ccr_amount req) (ss_db (snd (run_request (checkout c net g cfg req user) s)))"
proof -
  let ?w = "\<lparr>ss_db = s, ss_committed = s, ss_calls = []\<rparr>"
  obtain r w where run: "checkout c net g cfg req user ?w = (r, w)" by fastforce
  have "on_record (ccr_amount req) w"
    using record_checkout run by (rule keepsD_run) (simp add: on_record_def captured_def)
  then show ?thesis
    using run by (cases r) (auto simp: run_request_def begin_transaction_def commit_transaction_def
        rollback_transaction_def bindo_run on_record_def charges_def roll_back_to_def)
qed

text \<open>An authorization that cannot be stored is given back, and it is the last thing asked of the processor.\<close>

lemma unstored_authorization_refunded:
  assumes "store_authorized net client order user amount provider a w = (Inl e, w')"
    and "net_json net (pr_raw a) \<noteq> None"
  shows "ss_calls w' = ss_calls w @ [RefundCharge (pr_id a)]"
  using assms
  by (auto simp: store_authorized_def to_json_def bindo_run lift_result_run attempt_run on_db_run ret_run fail_run
      call_processor_def call_external_run split: sum.splits prod.splits option.splits)

end
