(* ===== verification/Inventory_Requests.thy ===== *)
theory Inventory_Requests imports Communications begin

text \<open>
  The requests on what an event sells: \<open>api/src/controllers/holds.rs\<close>, \<open>comps.rs\<close>, \<open>codes.rs\<close>,
  \<open>redemption_codes.rs\<close> and \<open>ticket_types.rs\<close>, with the display types of \<open>api/src/models\<close>. The last
  sections show what a refused request leaves behind, and what none of them looks at.
\<close>

section \<open>Prices and ticket types as shown\<close>

record display_ticket_pricing =
  dtp_id :: uuid
  dtp_name :: string
  dtp_status :: ticket_pricing_status
  dtp_start_date :: timestamp
  dtp_end_date :: timestamp
  dtp_price_in_cents :: int
  dtp_fee_in_cents :: int

definition display_of_pricing :: "ticket_pricing \<Rightarrow> fee_schedule \<Rightarrow> display_ticket_pricing dbop" where
  "display_of_pricing ticket_pricing fee_schedule =
     bindo (get_range fee_schedule (tp_price_in_cents ticket_pricing)) (\<lambda>fee_range.
     ret \<lparr>dtp_id = tp_id ticket_pricing, dtp_name = tp_name ticket_pricing,
       dtp_status = tp_status ticket_pricing, dtp_start_date = tp_start_date ticket_pricing,
       dtp_end_date = tp_end_date ticket_pricing, dtp_price_in_cents = tp_price_in_cents ticket_pricing,
       dtp_fee_in_cents = fsr_fee_in_cents fee_range\<rparr>)"

record admin_display_ticket_type =
  adt_id :: uuid
  adt_name :: string
  adt_description :: "string option"
  adt_capacity :: u32
  adt_status :: ticket_type_status
  adt_start_date :: timestamp
  adt_end_date :: timestamp
  adt_available :: u32
  adt_increment :: u32
  adt_limit_per_person :: u32
  adt_ticket_pricing :: "display_ticket_pricing list"
  adt_price_in_cents :: int

definition admin_display_of_ticket_type :: "ticket_type \<Rightarrow> fee_schedule \<Rightarrow> admin_display_ticket_type dbop" where
  "admin_display_of_ticket_type ticket_type fee_schedule =
     bindo (remaining_ticket_count ticket_type) (\<lambda>available.
     bindo (ticket_capacity ticket_type) (\<lambda>capacity.
     bindo (valid_ticket_pricing ticket_type False) (\<lambda>prices.
     bindo (fold_op (\<lambda>p acc. bindo (display_of_pricing p fee_schedule) (\<lambda>d. ret (acc @ [d]))) prices []) (\<lambda>pricing.
     ret \<lparr>adt_id = tt_id ticket_type, adt_name = tt_name ticket_type,
       adt_description = tt_description ticket_type, adt_capacity = capacity,
       adt_status = tt_status ticket_type, adt_start_date = tt_start_date ticket_type,
       adt_end_date = tt_end_date ticket_type, adt_available = available,
       adt_increment = as_u32 (tt_increment ticket_type),
       adt_limit_per_person = as_u32 (tt_limit_per_person ticket_type), adt_ticket_pricing = pricing,
       adt_price_in_cents = tt_price_in_cents ticket_type\<rparr>))))"

record user_display_ticket_type =
  udt_id :: uuid
  udt_name :: string
  udt_description :: "string option"
  udt_status :: ticket_type_status
  udt_available :: u32
  udt_start_date :: timestamp
  udt_end_date :: timestamp
  udt_increment :: int
  udt_limit_per_person :: u32
  udt_ticket_pricing :: "display_ticket_pricing option"
  udt_redemption_code :: "string option"

text \<open>The status a buyer sees: a published type without tickets or without a price says so.\<close>

definition shown_status :: "ticket_type \<Rightarrow> u32 \<Rightarrow> display_ticket_pricing option \<Rightarrow> ticket_type_status" where
  "shown_status ticket_type available ticket_pricing =
     (if tt_status ticket_type = ticket_type_status.Published
      then if available = 0 then ticket_type_status.SoldOut
        else if ticket_pricing = None then ticket_type_status.NoActivePricing
        else tt_status ticket_type
      else tt_status ticket_type)"

definition price_with_hold :: "hold \<Rightarrow> display_ticket_pricing \<Rightarrow> display_ticket_pricing" where
  "price_with_hold h tp =
     (case h_hold_type h of
        hold_types.Comp \<Rightarrow> tp\<lparr>dtp_fee_in_cents := 0, dtp_price_in_cents := 0\<rparr>
      | hold_types.Discount \<Rightarrow>
          tp\<lparr>dtp_price_in_cents := max 0 (dtp_price_in_cents tp - unwrap_or (h_discount_in_cents h) 0)\<rparr>)"

definition user_display_with_hold ::
  "ticket_type \<Rightarrow> fee_schedule \<Rightarrow> bool \<Rightarrow> hold option \<Rightarrow> user_display_ticket_type dbop"
where
  "user_display_with_hold ticket_type fee_schedule box_office_pricing hold =
     bindo (remaining_ticket_count ticket_type) (\<lambda>available.
     bindo (optional_op (current_ticket_pricing ticket_type box_office_pricing)) (\<lambda>current.
     bindo (case current of
         Some tp \<Rightarrow> bindo (display_of_pricing tp fee_schedule) (\<lambda>d. ret (Some d))
       | None \<Rightarrow> ret None) (\<lambda>ticket_pricing.
     let result = \<lparr>udt_id = tt_id ticket_type, udt_name = tt_name ticket_type,
       udt_description = tt_description ticket_type,
       udt_status = shown_status ticket_type available ticket_pricing, udt_available = available,
       udt_start_date = tt_start_date ticket_type, udt_end_date = tt_end_date ticket_type,
       udt_increment = tt_increment ticket_type,
       udt_limit_per_person = as_u32 (tt_limit_per_person ticket_type),
       udt_ticket_pricing = ticket_pricing, udt_redemption_code = map_option h_redemption_code hold\<rparr>
     in case hold of
       None \<Rightarrow> ret result
     | Some h \<Rightarrow>
         bindo (hold_quantity h) (\<lambda>(_, available).
         ret (result\<lparr>udt_description := Some (''Using promo code: '' @ h_redemption_code h),
           udt_limit_per_person := as_u32 (unwrap_or (h_max_per_order h) 0), udt_available := available,
           udt_ticket_pricing := map_option (price_with_hold h) ticket_pricing\<rparr>)))))"

definition user_display_of_ticket_type ::
  "ticket_type \<Rightarrow> fee_schedule \<Rightarrow> bool \<Rightarrow> user_display_ticket_type dbop" where
  "user_display_of_ticket_type ticket_type fee_schedule box_office_pricing =
     user_display_with_hold ticket_type fee_schedule box_office_pricing None"

section \<open>Holds\<close>

record create_hold_request =
  chr_name :: string
  chr_redemption_code :: string
  chr_discount_in_cents :: "u32 option"
  chr_hold_type :: hold_types
  chr_quantity :: u32
  chr_ticket_type_id :: uuid
  chr_end_at :: "timestamp option"
  chr_max_per_order :: "u32 option"

record update_hold_request =
  uhr_name :: "string option"
  uhr_redemption_code :: "string option"
  uhr_hold_type :: "hold_types option"
  uhr_quantity :: "u32 option"
  uhr_discount_in_cents :: "int option option"
  uhr_email :: "string option option"
  uhr_phone :: "string option option"
  uhr_end_at :: "timestamp option option"
  uhr_max_per_order :: "int option option"

record split_hold_request =
  shr_name :: string
  shr_redemption_code :: string
  shr_discount_in_cents :: "u32 option"
  shr_hold_type :: hold_types
  shr_quantity :: u32
  shr_end_at :: "timestamp option"
  shr_max_per_order :: "u32 option"

definition hold_attributes_of_request :: "update_hold_request \<Rightarrow> update_hold_attributes" where
  "hold_attributes_of_request r =
     \<lparr>uha_name = uhr_name r, uha_redemption_code = uhr_redemption_code r, uha_hold_type = uhr_hold_type r,
      uha_discount_in_cents = uhr_discount_in_cents r, uha_email = uhr_email r, uha_phone = uhr_phone r,
      uha_end_at = uhr_end_at r, uha_max_per_order = uhr_max_per_order r\<rparr>"

record hold_response =
  hrs_id :: uuid
  hrs_name :: string
  hrs_event_id :: uuid
  hrs_redemption_code :: string
  hrs_discount_in_cents :: "int option"
  hrs_end_at :: "timestamp option"
  hrs_max_per_order :: "int option"
  hrs_hold_type :: hold_types
  hrs_ticket_type_id :: uuid
  hrs_available :: u32
  hrs_quantity :: u32

definition hold_response_of :: "hold \<Rightarrow> hold_response web" where
  "hold_response_of hold =
     bindo (on_db (hold_quantity hold)) (\<lambda>(quantity, available). ret
       \<lparr>hrs_id = h_id hold, hrs_name = h_name hold, hrs_event_id = h_event_id hold,
        hrs_redemption_code = h_redemption_code hold, hrs_discount_in_cents = h_discount_in_cents hold,
        hrs_end_at = h_end_at hold, hrs_max_per_order = h_max_per_order hold,
        hrs_hold_type = h_hold_type hold, hrs_ticket_type_id = h_ticket_type_id hold,
        hrs_available = available, hrs_quantity = quantity\<rparr>)"

text \<open>The scope is asked for in the organization of an event, or of the event of a hold or a code.\<close>

definition event_guard :: "auth_user \<Rightarrow> scopes \<Rightarrow> uuid \<Rightarrow> event_row web" where
  "event_guard user scope event_id =
     bindo (on_db (event_find event_id)) (\<lambda>event.
     bindo (on_db (event_organization event)) (\<lambda>organization.
     bindo (requires_scope_for_organization user scope organization) (\<lambda>_. ret event)))"

definition hold_guard :: "auth_user \<Rightarrow> scopes \<Rightarrow> uuid \<Rightarrow> hold web" where
  "hold_guard user scope id' =
     bindo (on_db (hold_find id')) (\<lambda>hold.
     bindo (on_db (hold_organization hold)) (\<lambda>organization.
     bindo (requires_scope_for_organization user scope organization) (\<lambda>_. ret hold)))"

definition code_guard :: "auth_user \<Rightarrow> scopes \<Rightarrow> uuid \<Rightarrow> code_row web" where
  "code_guard user scope id' =
     bindo (on_db (code_find id')) (\<lambda>code.
     bindo (on_db (code_organization code)) (\<lambda>organization.
     bindo (requires_scope_for_organization user scope organization) (\<lambda>_. ret code)))"

text \<open>The ticket type of the request is not compared with the event.\<close>

definition holds_create :: "create_hold_request \<Rightarrow> uuid \<Rightarrow> auth_user \<Rightarrow> hold_response http_response web" where
  "holds_create req id' user =
     bindo (event_guard user HoldWrite id') (\<lambda>_.
     bindo (on_db (hold_commit (create_hold (chr_name req) id' (chr_redemption_code req)
       (chr_discount_in_cents req) (chr_end_at req) (chr_max_per_order req) (chr_hold_type req)
       (chr_ticket_type_id req)))) (\<lambda>hold.
     bindo (on_db (set_quantity hold (chr_quantity req))) (\<lambda>_.
     bindo (hold_response_of hold) http_created)))"

definition update_hold_of_request :: "hold \<Rightarrow> update_hold_request \<Rightarrow> hold web" where
  "update_hold_of_request hold req =
     bindo (on_db (hold_update hold (hold_attributes_of_request req))) (\<lambda>hold.
     bindo (case uhr_quantity req of
         Some quantity \<Rightarrow> on_db (set_quantity hold quantity) | None \<Rightarrow> ret ()) (\<lambda>_.
     ret hold))"

definition holds_update :: "update_hold_request \<Rightarrow> uuid \<Rightarrow> auth_user \<Rightarrow> hold http_response web" where
  "holds_update req id' user =
     bindo (hold_guard user HoldWrite id') (\<lambda>hold.
     bindo (update_hold_of_request hold req) http_ok)"

definition holds_show :: "uuid \<Rightarrow> auth_user \<Rightarrow> hold_response http_response web" where
  "holds_show id' user =
     bindo (hold_guard user OrgRead id') (\<lambda>hold. bindo (hold_response_of hold) http_ok)"

definition holds_split :: "split_hold_request \<Rightarrow> uuid \<Rightarrow> auth_user \<Rightarrow> hold http_response web" where
  "holds_split req id' user =
     bindo (hold_guard user HoldWrite id') (\<lambda>hold.
     bindo (on_db (hold_split hold (shr_name req) (shr_redemption_code req) (shr_quantity req)
       (shr_discount_in_cents req) (shr_hold_type req) (shr_end_at req) (shr_max_per_order req))) http_created)"

definition holds_destroy :: "uuid \<Rightarrow> auth_user \<Rightarrow> unit http_response web" where
  "holds_destroy id' user =
     bindo (hold_guard user HoldWrite id') (\<lambda>hold.
     bindo (on_db (hold_destroy hold)) (\<lambda>_. http_finish))"

section \<open>Comps\<close>

record new_comp_request =
  ncr_name :: string
  ncr_email :: "string option"
  ncr_phone :: "string option"
  ncr_quantity :: u32
  ncr_redemption_code :: string
  ncr_end_at :: "timestamp option"
  ncr_max_per_order :: "u32 option"

definition comps_index :: "uuid \<Rightarrow> paging_parameters \<Rightarrow> auth_user \<Rightarrow> display_hold payload http_response web" where
  "comps_index id' query_parameters user =
     bindo (hold_guard user CompRead id') (\<lambda>_.
     bindo (on_db (hold_find_by_parent_id id' hold_types.Comp (parameters_page query_parameters)
       (parameters_limit query_parameters))) (\<lambda>comps.
     bindo (on_db (fold_op (\<lambda>h acc. bindo (hold_into_display h) (\<lambda>r. ret (acc @ [r]))) (pl_data comps) [])) (\<lambda>list'.
     http_ok (payload_new list' (pl_paging comps)))))"

definition comps_show :: "uuid \<Rightarrow> auth_user \<Rightarrow> display_hold http_response web" where
  "comps_show id' user =
     bindo (hold_guard user CompRead id') (\<lambda>hold. bindo (on_db (hold_into_display hold)) http_ok)"

definition comps_create :: "new_comp_request \<Rightarrow> uuid \<Rightarrow> auth_user \<Rightarrow> display_hold http_response web" where
  "comps_create new_comp id' user =
     bindo (hold_guard user CompWrite id') (\<lambda>hold.
     bindo (on_db (create_comp_for_person (ncr_name new_comp) (h_id hold) (ncr_email new_comp)
       (ncr_phone new_comp) (ncr_redemption_code new_comp) (ncr_end_at new_comp) (ncr_max_per_order new_comp)
       (ncr_quantity new_comp))) (\<lambda>comp.
     bindo (on_db (hold_into_display comp)) http_created))"

definition comps_update :: "update_hold_request \<Rightarrow> uuid \<Rightarrow> auth_user \<Rightarrow> display_hold http_response web" where
  "comps_update req id' user =
     bindo (hold_guard user CompWrite id') (\<lambda>comp.
     bindo (update_hold_of_request comp req) (\<lambda>hold.
     bindo (on_db (hold_into_display hold)) http_ok))"

text \<open>The hold is read a second time.\<close>

definition comps_destroy :: "uuid \<Rightarrow> auth_user \<Rightarrow> unit http_response web" where
  "comps_destroy id' user =
     bindo (hold_guard user CompWrite id') (\<lambda>_.
     bindo (on_db (hold_find id')) (\<lambda>comp.
     bindo (on_db (hold_destroy comp)) (\<lambda>_. http_ok ())))"

section \<open>Codes\<close>

record create_code_request =
  ccq_name :: string
  ccq_redemption_code :: string
  ccq_code_type :: code_types
  ccq_max_uses :: u32
  ccq_discount_in_cents :: "u32 option"
  ccq_start_date :: timestamp
  ccq_end_date :: timestamp
  ccq_max_tickets_per_user :: "u32 option"
  ccq_ticket_type_ids :: "uuid list"

record update_code_request =
  ucq_name :: "string option"
  ucq_redemption_code :: "string option"
  ucq_max_uses :: "int option"
  ucq_discount_in_cents :: "u32 option option"
  ucq_start_date :: "timestamp option"
  ucq_end_date :: "timestamp option"
  ucq_max_tickets_per_user :: "u32 option option"
  ucq_ticket_type_ids :: "uuid list option"

definition code_attributes_of_request :: "update_code_request \<Rightarrow> update_code_attributes" where
  "code_attributes_of_request r =
     \<lparr>uca_name = ucq_name r, uca_redemption_code = ucq_redemption_code r, uca_max_uses = ucq_max_uses r,
      uca_discount_in_cents = map_option (map_option as_i64) (ucq_discount_in_cents r),
      uca_start_date = ucq_start_date r, uca_end_date = ucq_end_date r,
      uca_max_tickets_per_user = map_option (map_option as_i64) (ucq_max_tickets_per_user r)\<rparr>"

definition codes_show :: "uuid \<Rightarrow> auth_user \<Rightarrow> display_code http_response web" where
  "codes_show id' user =
     bindo (code_guard user CodeRead id') (\<lambda>code. bindo (on_db (code_for_display code)) http_ok)"

definition codes_create :: "create_code_request \<Rightarrow> uuid \<Rightarrow> auth_user \<Rightarrow> display_code http_response web" where
  "codes_create req id' user =
     bindo (event_guard user CodeWrite id') (\<lambda>_.
     bindo (on_db (code_commit (code_create (ccq_name req) id' (ccq_code_type req) (ccq_redemption_code req)
       (ccq_max_uses req) (ccq_discount_in_cents req) (ccq_start_date req) (ccq_end_date req)
       (ccq_max_tickets_per_user req)))) (\<lambda>code.
     bindo (on_db (update_ticket_types code (ccq_ticket_type_ids req))) (\<lambda>_.
     bindo (on_db (code_for_display code)) http_created)))"

definition codes_update :: "update_code_request \<Rightarrow> uuid \<Rightarrow> auth_user \<Rightarrow> display_code http_response web" where
  "codes_update req id' user =
     bindo (code_guard user CodeWrite id') (\<lambda>code.
     bindo (on_db (code_update code (code_attributes_of_request req))) (\<lambda>code.
     bindo (case ucq_ticket_type_ids req of
         Some ids \<Rightarrow> on_db (update_ticket_types code ids) | None \<Rightarrow> ret ()) (\<lambda>_.
     bindo (on_db (code_for_display code)) http_ok)))"

definition codes_destroy :: "uuid \<Rightarrow> auth_user \<Rightarrow> unit http_response web" where
  "codes_destroy id' user =
     bindo (code_guard user CodeWrite id') (\<lambda>code.
     bindo (on_db (code_destroy code)) (\<lambda>_. http_ok ()))"

text \<open>Anyone may ask what a redemption code gives.\<close>

record redemption_response =
  rdr_ticket_type :: user_display_ticket_type
  rdr_redemption_code :: string
  rdr_max_per_order :: "int option"
  rdr_discount_in_cents :: "int option"
  rdr_hold_type :: hold_types

definition redemption_codes_show :: "string \<Rightarrow> redemption_response http_response web" where
  "redemption_codes_show code =
     bindo (on_db (hold_find_by_redemption_code code)) (\<lambda>hold.
     bindo (on_db (ticket_type_find (h_ticket_type_id hold))) (\<lambda>ticket_type.
     bindo (on_db (organization_find_for_event (h_event_id hold))) (\<lambda>organization.
     bindo (on_db (fee_schedule_find (org_fee_schedule_id organization))) (\<lambda>fee_schedule.
     bindo (on_db (user_display_with_hold ticket_type fee_schedule False (Some hold))) (\<lambda>ticket_type.
     http_ok \<lparr>rdr_ticket_type = ticket_type, rdr_redemption_code = h_redemption_code hold,
       rdr_max_per_order = h_max_per_order hold, rdr_discount_in_cents = h_discount_in_cents hold,
       rdr_hold_type = h_hold_type hold\<rparr>)))))"

section \<open>Ticket types\<close>

record create_ticket_pricing_request =
  ctp_name :: string
  ctp_price_in_cents :: int
  ctp_start_date :: timestamp
  ctp_end_date :: timestamp
  ctp_is_box_office_only :: "bool option"

record create_ticket_type_request =
  ctt_name :: string
  ctt_description :: "string option"
  ctt_capacity :: u32
  ctt_start_date :: timestamp
  ctt_end_date :: timestamp
  ctt_ticket_pricing :: "create_ticket_pricing_request list"
  ctt_increment :: "int option"
  ctt_limit_per_person :: int
  ctt_price_in_cents :: int

record update_ticket_pricing_request =
  utp_id :: "uuid option"
  utp_name :: "string option"
  utp_start_date :: "timestamp option"
  utp_end_date :: "timestamp option"
  utp_price_in_cents :: "int option"
  utp_is_box_office_only :: "bool option"

record update_ticket_type_request =
  utt_name :: "string option"
  utt_description :: "string option option"
  utt_capacity :: "u32 option"
  utt_start_date :: "timestamp option"
  utt_end_date :: "timestamp option"
  utt_ticket_pricing :: "update_ticket_pricing_request list option"
  utt_increment :: "int option"
  utt_limit_per_person :: "int option"
  utt_price_in_cents :: "int option"

definition ticket_types_create ::
  "config \<Rightarrow> uuid \<Rightarrow> create_ticket_type_request \<Rightarrow> auth_user \<Rightarrow> uuid http_response web"
where
  "ticket_types_create cfg id' data user =
     bindo (event_guard user EventWrite id') (\<lambda>event.
     bindo (on_db (find_default_for_organization (e_organization_id event))) (\<lambda>org_wallet.
     bindo (on_db (add_ticket_type event (ctt_name data) (ctt_description data) (ctt_capacity data)
       (ctt_start_date data) (ctt_end_date data) (w_id org_wallet) (ctt_increment data)
       (ctt_limit_per_person data) (ctt_price_in_cents data))) (\<lambda>ticket_type.
     bindo (for_each (\<lambda>entry. bindo (on_db (add_ticket_pricing ticket_type (ctp_name entry)
       (ctp_start_date entry) (ctp_end_date entry) (ctp_price_in_cents entry)
       (unwrap_or (ctp_is_box_office_only entry) False) None)) (\<lambda>_. ret ())) (ctt_ticket_pricing data)) (\<lambda>_.
     bindo (on_db (update_cache event)) (\<lambda>_.
     bindo (on_db (validate_ticket_pricing ticket_type)) (\<lambda>_.
     let payload = \<lparr>cap_name = uuid_to_string (e_id event) @ ''.'' @ ctt_name data,
       cap_total_supply = unat (ctt_capacity data), cap_authorised_signers = [], cap_rule_flags = 0,
       cap_rule_metadata = [], cap_expiry_date = ctt_end_date data div 1000000\<rparr> in
     bindo (call_tari (CreateAsset payload) (tc_create_asset (cfg_tari_client cfg) (w_secret_key org_wallet)
       (w_public_key org_wallet) payload)) (\<lambda>tari_asset_id.
     bindo (on_db (asset_find_by_ticket_type (tt_id ticket_type))) (\<lambda>asset.
     bindo (on_db (update_blockchain_id asset tari_asset_id)) (\<lambda>_.
     http_created (tt_id ticket_type))))))))))"

definition ticket_types_index ::
  "uuid \<Rightarrow> paging_parameters \<Rightarrow> auth_user \<Rightarrow> admin_display_ticket_type payload http_response web"
where
  "ticket_types_index id' query_parameters user =
     bindo (on_db (event_find id')) (\<lambda>event.
     bindo (on_db (event_organization event)) (\<lambda>organization.
     bindo (requires_scope_for_organization user EventWrite organization) (\<lambda>_.
     bindo (on_db (fee_schedule_find (org_fee_schedule_id organization))) (\<lambda>fee_schedule.
     bindo (on_db (ticket_type_find_by_event_id id')) (\<lambda>ticket_types.
     bindo (on_db (fold_op (\<lambda>t acc. bindo (admin_display_of_ticket_type t fee_schedule) (\<lambda>d. ret (acc @ [d])))
       ticket_types [])) (\<lambda>data.
     let paging = paging_of_parameters query_parameters in
     http_ok (payload_new data (paging\<lparr>pg_limit := of_nat (length data), pg_total := length data\<rparr>))))))))"

text \<open>The scope is asked for in the organization of the event in the path, and the ticket type is taken
  as the path names it: nothing compares the two.\<close>

definition ticket_types_cancel :: "uuid \<Rightarrow> uuid \<Rightarrow> auth_user \<Rightarrow> unit http_response web" where
  "ticket_types_cancel event_id ticket_type_id user =
     bindo (event_guard user EventWrite event_id) (\<lambda>_.
     bindo (on_db (ticket_type_find ticket_type_id)) (\<lambda>ticket_type.
     bindo (on_db (ticket_type_cancel ticket_type)) (\<lambda>_. http_finish)))"

abbreviation asset_not_on_chain :: "'a web" where
  "asset_not_on_chain \<equiv> internal_server_error
     ''Could not complete capacity increase because the asset has not been assigned on the blockchain''"

definition increase_capacity :: "config \<Rightarrow> event_row \<Rightarrow> ticket_type \<Rightarrow> u32 \<Rightarrow> u32 \<Rightarrow> unit web" where
  "increase_capacity cfg event ticket_type requested_capacity valid_count =
     bindo (on_db (ticket_count ticket_type)) (\<lambda>starting_tari_id.
     let additional_ticket_count = requested_capacity - valid_count in
     bindo (on_db (asset_find_by_ticket_type (tt_id ticket_type))) (\<lambda>asset.
     bindo (on_db (find_default_for_organization (e_organization_id event))) (\<lambda>org_wallet.
     bindo (on_db (create_multiple (a_id asset) starting_tari_id additional_ticket_count (w_id org_wallet))) (\<lambda>_.
     case a_blockchain_asset_id asset of
       Some a \<Rightarrow> call_tari (IncreaseSupply a (unat requested_capacity)) (tc_increase_supply (cfg_tari_client cfg)
         (w_secret_key org_wallet) (w_public_key org_wallet) a (unat requested_capacity))
     | None \<Rightarrow> asset_not_on_chain))))"

definition reduce_capacity :: "config \<Rightarrow> event_row \<Rightarrow> ticket_type \<Rightarrow> u32 \<Rightarrow> u32 \<Rightarrow> unit web" where
  "reduce_capacity cfg event ticket_type requested_capacity valid_count =
     (let nullify_ticket_count = valid_count - requested_capacity in
     bindo (on_db (asset_find_by_ticket_type (tt_id ticket_type))) (\<lambda>asset.
     bindo (on_db (find_default_for_organization (e_organization_id event))) (\<lambda>org_wallet.
     bindo (on_db (nullify_tickets (a_id asset) nullify_ticket_count)) (\<lambda>tickets.
     if length tickets = unat nullify_ticket_count
     then
       let tari_ids = map (\<lambda>t. as_u64 (ti_token_id t)) tickets in
       (case a_blockchain_asset_id asset of
          Some a \<Rightarrow> call_tari (NullifyTokens a tari_ids) (tc_nullify_tokens (cfg_tari_client cfg)
            (w_secret_key org_wallet) (w_public_key org_wallet) a tari_ids)
        | None \<Rightarrow> asset_not_on_chain)
     else internal_server_error (''Unable to nullify the requested number ('' @
       decimal (unat requested_capacity) @ '') of ticket instances'')))))"

definition change_capacity :: "config \<Rightarrow> event_row \<Rightarrow> ticket_type \<Rightarrow> u32 option \<Rightarrow> unit web" where
  "change_capacity cfg event ticket_type capacity =
     (case capacity of
        None \<Rightarrow> ret ()
      | Some requested_capacity \<Rightarrow>
          bindo (on_db (valid_ticket_count ticket_type)) (\<lambda>valid_count.
          if valid_count < requested_capacity
          then increase_capacity cfg event ticket_type requested_capacity valid_count
          else if valid_count > requested_capacity
          then reduce_capacity cfg event ticket_type requested_capacity valid_count
          else ret ()))"

text \<open>A price point of the request with an id changes the one it names, without an id it is a new one
  when all its fields are there, and is passed over otherwise.\<close>

definition put_pricing ::
  "ticket_type \<Rightarrow> ticket_pricing list \<Rightarrow> update_ticket_pricing_request \<Rightarrow> unit web" where
  "put_pricing ticket_type existing r =
     (case utp_id r of
        Some i \<Rightarrow>
          (case find (\<lambda>p. tp_id p = i) existing of
             Some p \<Rightarrow> bindo (on_db (pricing_update p \<lparr>tpa_name = utp_name r,
               tpa_price_in_cents = utp_price_in_cents r, tpa_start_date = utp_start_date r,
               tpa_end_date = utp_end_date r, tpa_is_box_office_only = utp_is_box_office_only r\<rparr>)) (\<lambda>_. ret ())
           | None \<Rightarrow> internal_server_error (''Unable to find specified ticket pricing with id '' @ uuid_to_string i))
      | None \<Rightarrow>
          (case (utp_name r, utp_price_in_cents r, utp_start_date r, utp_end_date r) of
             (Some name, Some price_in_cents, Some start_date, Some end_date) \<Rightarrow>
               bindo (on_db (add_ticket_pricing ticket_type name start_date end_date price_in_cents
                 (unwrap_or (utp_is_box_office_only r) False) None)) (\<lambda>_. ret ())
           | _ \<Rightarrow> ret ()))"

definition replace_pricing :: "ticket_type \<Rightarrow> update_ticket_pricing_request list \<Rightarrow> unit web" where
  "replace_pricing ticket_type data =
     bindo (on_db (published_ticket_pricing ticket_type)) (\<lambda>existing.
     bindo (for_each (\<lambda>p. if list_ex (\<lambda>r. utp_id r = Some (tp_id p)) data then ret ()
       else bindo (on_db (pricing_destroy p)) (\<lambda>_. ret ())) existing) (\<lambda>_.
     bindo (for_each (put_pricing ticket_type existing) data) (\<lambda>_.
     on_db (validate_ticket_pricing ticket_type))))"

definition ticket_types_update ::
  "config \<Rightarrow> uuid \<Rightarrow> uuid \<Rightarrow> update_ticket_type_request \<Rightarrow> auth_user \<Rightarrow> unit http_response web"
where
  "ticket_types_update cfg event_id ticket_type_id data user =
     bindo (event_guard user EventWrite event_id) (\<lambda>event.
     bindo (on_db (ticket_type_find ticket_type_id)) (\<lambda>ticket_type.
     bindo (change_capacity cfg event ticket_type (utt_capacity data)) (\<lambda>_.
     bindo (on_db (ticket_type_update ticket_type \<lparr>tta_name = utt_name data,
       tta_description = utt_description data, tta_start_date = utt_start_date data,
       tta_end_date = utt_end_date data, tta_increment = utt_increment data,
       tta_limit_per_person = utt_limit_per_person data, tta_price_in_cents = utt_price_in_cents data\<rparr>)) (\<lambda>updated.
     bindo (case utt_ticket_pricing data of
         Some pricing \<Rightarrow> replace_pricing updated pricing | None \<Rightarrow> ret ()) (\<lambda>_.
     bindo (on_db (update_cache event)) (\<lambda>_.
     http_finish))))))"

section \<open>Refused requests\<close>

text \<open>Whoever lacks the scope in the organization is refused before anything is read for change.\<close>

lemma hold_guard_run:
  assumes "hold_find i (ss_db w) = (Inr h, ss_db w)" and "hold_organization h (ss_db w) = (Inr g, ss_db w)"
  shows "hold_guard user scope i w =
    (if granted (ss_db w) user scope (Some g) then Inr h
     else Inl (OfAuth (auth_error_new Unauthorized ''User does not have the required permissions'')), w)"
  using assms by (simp add: hold_guard_def bindo_run on_db_run requires_scope_for_organization_run ret_run)

lemma code_guard_run:
  assumes "code_find i (ss_db w) = (Inr c, ss_db w)" and "code_organization c (ss_db w) = (Inr g, ss_db w)"
  shows "code_guard user scope i w =
    (if granted (ss_db w) user scope (Some g) then Inr c
     else Inl (OfAuth (auth_error_new Unauthorized ''User does not have the required permissions'')), w)"
  using assms by (simp add: code_guard_def bindo_run on_db_run requires_scope_for_organization_run ret_run)

lemma event_guard_run:
  assumes "event_find i (ss_db w) = (Inr e, ss_db w)" and "event_organization e (ss_db w) = (Inr g, ss_db w)"
  shows "event_guard user scope i w =
    (if granted (ss_db w) user scope (Some g) then Inr e
     else Inl (OfAuth (auth_error_new Unauthorized ''User does not have the required permissions'')), w)"
  using assms by (simp add: event_guard_def bindo_run on_db_run requires_scope_for_organization_run ret_run)

text \<open>Someone without any scope in an organization, of their own or of a role in it.\<close>

definition outsider :: "db \<Rightarrow> auth_user \<Rightarrow> organization \<Rightarrow> bool" where
  "outsider s user g \<longleftrightarrow> list_all (\<lambda>scope. \<not> granted s user scope (Some g))
     [EventWrite, HoldWrite, CodeWrite, CompWrite, CompRead, CodeRead, OrgRead]"

abbreviation untouched :: "db \<Rightarrow> session" where
  "untouched s \<equiv> \<lparr>ss_db = s, ss_committed = s, ss_calls = []\<rparr>"

lemma refused_request:
  assumes "handler (untouched s) =
    (Inl (OfAuth (auth_error_new Unauthorized ''User does not have the required permissions'')), untouched s)"
  shows "run_request handler s = (refused, untouched s)"
  using assms
  by (simp add: run_request_def begin_transaction_def rollback_transaction_def bindo_run to_response_refused
      roll_back_same)

text \<open>C28: an outsider of an organization is refused, with status 401, every request of these controllers whose path
  names an event, a hold, a comp or a code of the organization, reading ones among them; the rows are exactly those
  before, and no service was called. This says nothing of a ticket type that is named under the event of another
  organization (the last section), nor of looking up a redemption code, which anybody may.\<close>

theorem outsiders_change_no_inventory:
  assumes "event_find e s = (Inr ev, s)" and "event_organization ev s = (Inr g, s)"
    and "hold_find h s = (Inr ho, s)" and "hold_organization ho s = (Inr g, s)"
    and "code_find c s = (Inr co, s)" and "code_organization co s = (Inr g, s)"
    and "outsider s user g"
  shows "run_request (ticket_types_create cfg e ct user) s = (refused, untouched s) \<and>
    run_request (ticket_types_index e q user) s = (refused, untouched s) \<and>
    run_request (ticket_types_cancel e tt user) s = (refused, untouched s) \<and>
    run_request (ticket_types_update cfg e tt ut user) s = (refused, untouched s) \<and>
    run_request (holds_create ch e user) s = (refused, untouched s) \<and>
    run_request (holds_update uh h user) s = (refused, untouched s) \<and>
    run_request (holds_show h user) s = (refused, untouched s) \<and>
    run_request (holds_split sh h user) s = (refused, untouched s) \<and>
    run_request (holds_destroy h user) s = (refused, untouched s) \<and>
    run_request (comps_create nc h user) s = (refused, untouched s) \<and>
    run_request (comps_update uh h user) s = (refused, untouched s) \<and>
    run_request (comps_index h q user) s = (refused, untouched s) \<and>
    run_request (comps_show h user) s = (refused, untouched s) \<and>
    run_request (comps_destroy h user) s = (refused, untouched s) \<and>
    run_request (codes_create cc e user) s = (refused, untouched s) \<and>
    run_request (codes_update uc c user) s = (refused, untouched s) \<and>
    run_request (codes_show c user) s = (refused, untouched s) \<and>
    run_request (codes_destroy c user) s = (refused, untouched s)"
proof -
  have no: "\<not> granted s user scope (Some g)"
    if "scope \<in> set [EventWrite, HoldWrite, CodeWrite, CompWrite, CompRead, CodeRead, OrgRead]" for scope
    using assms(7) that by (auto simp: outsider_def)
  have guards: "event_guard user scope e (untouched s) =
      (Inl (OfAuth (auth_error_new Unauthorized ''User does not have the required permissions'')), untouched s)"
    "hold_guard user scope h (untouched s) =
      (Inl (OfAuth (auth_error_new Unauthorized ''User does not have the required permissions'')), untouched s)"
    "code_guard user scope c (untouched s) =
      (Inl (OfAuth (auth_error_new Unauthorized ''User does not have the required permissions'')), untouched s)"
    if "scope \<in> set [EventWrite, HoldWrite, CodeWrite, CompWrite, CompRead, CodeRead, OrgRead]" for scope
    using event_guard_run [of e "untouched s" ev g user scope] hold_guard_run [of h "untouched s" ho g user scope]
      code_guard_run [of c "untouched s" co g user scope] assms(1-6) no [OF that] by simp_all
  have index: "ticket_types_index e q user (untouched s) =
      (Inl (OfAuth (auth_error_new Unauthorized ''User does not have the required permissions'')), untouched s)"
    using assms(1, 2) no [of EventWrite]
    by (simp add: ticket_types_index_def bindo_run on_db_run requires_scope_for_organization_run)
  show ?thesis
    by (intro conjI; rule refused_request)
      (simp_all add: index holds_show_def comps_index_def comps_show_def codes_show_def ticket_types_create_def ticket_types_cancel_def ticket_types_update_def holds_create_def
        holds_update_def holds_split_def holds_destroy_def comps_create_def comps_update_def comps_destroy_def
        codes_create_def codes_update_def codes_destroy_def bindo_run guards)
qed

definition sample_inventory :: db where
  "sample_inventory = sample_club\<lparr>db_events := [blank_event 3 7], db_ticket_types := [blank_ticket_type 9 3],
     db_holds := [sample_hold], db_codes := [sample_code]\<rparr>"

definition sample_stranger :: auth_user where
  "sample_stranger = auth_user_new (blank_user 1) None ''/holds'' ''DELETE''"

theorem outsiders_change_no_inventory_witness:
  "run_request (holds_destroy 40 sample_stranger) sample_inventory = (refused, untouched sample_inventory) \<and>
   run_request (codes_destroy 50 sample_stranger) sample_inventory = (refused, untouched sample_inventory)"
proof -
  have rows: "event_find 3 sample_inventory = (Inr (blank_event 3 7), sample_inventory)"
    "event_organization (blank_event 3 7) sample_inventory = (Inr (blank_organization 7 8), sample_inventory)"
    "hold_find 40 sample_inventory = (Inr sample_hold, sample_inventory)"
    "hold_organization sample_hold sample_inventory = (Inr (blank_organization 7 8), sample_inventory)"
    "code_find 50 sample_inventory = (Inr sample_code, sample_inventory)"
    "code_organization sample_code sample_inventory = (Inr (blank_organization 7 8), sample_inventory)"
    by (simp_all add: event_find_def event_organization_def organization_find_def hold_find_def hold_organization_def
        code_find_def code_organization_def first_where_run wrap_def sample_inventory_def sample_club_def
        sample_hold_def sample_code_def blank_defs)
  have "outsider sample_inventory sample_stranger (blank_organization 7 8)"
    by code_simp
  then show ?thesis
    using outsiders_change_no_inventory [OF rows, of sample_stranger] by blast
qed

section \<open>The ticket type of a path is not that of its event\<close>

text \<open>A scope in the organization of any event is enough to cancel any ticket type, of whatever event
  and organization it is.\<close>

lemma any_ticket_type_cancelled:
  assumes "event_find e s = (Inr ev, s)" and "event_organization ev s = (Inr g, s)"
    and "granted s user EventWrite (Some g)" and "ticket_type_find tt s = (Inr t, s)"
  shows "\<exists>w. run_request (ticket_types_cancel e tt user) s = (\<lparr>hr_status = 200, hr_body = body.Empty\<rparr>, w) \<and>
    (\<forall>t' \<in> set (db_ticket_types (ss_db w)). tt_id t' = tt \<longrightarrow> tt_status t' = ticket_type_status.Cancelled)"
proof -
  from assms(4) have found: "find (\<lambda>t. tt_id t = tt) (db_ticket_types s) = Some t"
    by (auto simp: ticket_type_find_def first_where_run split: option.splits)
  then have t: "tt_id t = tt" "t \<in> set (db_ticket_types s)" by (auto dest: find_SomeD)
  let ?f = "\<lambda>t. t\<lparr>tt_status := ticket_type_status.Cancelled, tt_cancelled_at := Some (now s), tt_updated_at := now s\<rparr>"
  have "filter (\<lambda>t. tt_id t = tt) (db_ticket_types s) \<noteq> []"
    using t by (auto simp: filter_empty_conv)
  then obtain r where "ticket_type_cancel t s =
      (Inr r, s\<lparr>db_ticket_types := update_where (\<lambda>t. tt_id t = tt) ?f (db_ticket_types s)\<rparr>)"
    by (cases "filter (\<lambda>t. tt_id t = tt) (db_ticket_types s)") (auto simp: ticket_type_cancel_def update_first_run t)
  then have "run_request (ticket_types_cancel e tt user) s = (\<lparr>hr_status = 200, hr_body = body.Empty\<rparr>,
      snd (commit_transaction ((untouched s)\<lparr>ss_db :=
        s\<lparr>db_ticket_types := update_where (\<lambda>t. tt_id t = tt) ?f (db_ticket_types s)\<rparr>\<rparr>)))"
    using event_guard_run [of e "untouched s" ev g user EventWrite] assms
    by (simp add: run_request_def ticket_types_cancel_def bindo_run begin_transaction_def on_db_run
        http_finish_def ret_run)
  moreover have "\<forall>t' \<in> set (update_where (\<lambda>t. tt_id t = tt) ?f (db_ticket_types s)).
      tt_id t' = tt \<longrightarrow> tt_status t' = ticket_type_status.Cancelled"
  proof (intro ballI impI)
    fix t'
    assume "t' \<in> set (update_where (\<lambda>t. tt_id t = tt) ?f (db_ticket_types s))"
    then obtain x where "t' = (if tt_id x = tt then ?f x else x)"
      unfolding update_where_def set_map by (rule imageE)
    moreover assume "tt_id t' = tt"
    ultimately show "tt_status t' = ticket_type_status.Cancelled" by (cases "tt_id x = tt") simp_all
  qed
  ultimately show ?thesis by (simp add: commit_transaction_def)
qed

end
