(* ===== verification/Ticket_Requests.thy ===== *)
theory Ticket_Requests imports Cart_Requests Inventory_Requests begin

text \<open>
  The requests on tickets that were sold and on paid orders: \<open>api/src/controllers/tickets.rs\<close> and
  \<open>orders.rs\<close>. The last section is about the money that a refund pays back.
\<close>

section \<open>Tickets\<close>

record search_parameters =
  sp_start_utc :: "timestamp option"
  sp_end_utc :: "timestamp option"

text \<open>The times go into the tags of the page; \<open>time_json\<close> is their text in an answer.\<close>

definition paging_of_search :: "(timestamp \<Rightarrow> string) \<Rightarrow> search_parameters \<Rightarrow> paging" where
  "paging_of_search time_json s =
     (let default_tags = Map.empty;
          default_tags = (case sp_start_utc s of Some i \<Rightarrow> default_tags(''start_utc'' \<mapsto> JString (time_json i))
            | None \<Rightarrow> default_tags);
          default_tags = (case sp_end_utc s of Some i \<Rightarrow> default_tags(''end_utc'' \<mapsto> JString (time_json i))
            | None \<Rightarrow> default_tags)
      in \<lparr>pg_page = 0, pg_limit = 100, pg_sort = [], pg_dir = Asc, pg_total = 0, pg_tags = default_tags\<rparr>)"

datatype tickets_of_user = AllEvents "(display_event \<times> display_ticket list) payload"
  | OneEvent "display_ticket payload"

definition tickets_index ::
  "'tz time_zones \<Rightarrow> (timestamp \<Rightarrow> string) \<Rightarrow> uuid option \<Rightarrow> search_parameters \<Rightarrow> auth_user \<Rightarrow>
   tickets_of_user http_response web"
where
  "tickets_index z time_json id' query auth_user =
     bindo (on_db (ticket_find_for_user_for_display z (au_id auth_user) id' (sp_start_utc query)
       (sp_end_utc query))) (\<lambda>tickets.
     let paging = paging_of_search time_json query;
         payload = payload_new tickets paging in
     case (id', pl_data payload) of
       (Some _, (_, of_event) # _) \<Rightarrow> http_ok (OneEvent (payload_new of_event paging))
     | _ \<Rightarrow> http_ok (AllEvents payload))"

record show_ticket_response =
  str_event :: display_event
  str_user :: "display_user option"
  str_ticket :: display_ticket

text \<open>Who may see a ticket: its owner, and whoever may read tickets of the organization. A ticket
  without an owner is shown to every signed-in user.\<close>

definition ticket_guard ::
  "'tz time_zones \<Rightarrow> uuid \<Rightarrow> auth_user \<Rightarrow> (display_event \<times> display_user option \<times> display_ticket) web"
where
  "ticket_guard z id' auth_user =
     bindo (on_db (find_for_display z id')) (\<lambda>(event, user, ticket).
     bindo (on_db (event_find (de_id event))) (\<lambda>db_event.
     bindo (on_db (event_organization db_event)) (\<lambda>organization.
     bindo (if (case user of Some u \<Rightarrow> du_id u \<noteq> au_id auth_user | None \<Rightarrow> False)
            then requires_scope_for_organization auth_user TicketRead organization else ret ()) (\<lambda>_.
     ret (event, user, ticket)))))"

definition tickets_show ::
  "'tz time_zones \<Rightarrow> uuid \<Rightarrow> auth_user \<Rightarrow> show_ticket_response http_response web"
where
  "tickets_show z id' auth_user =
     bindo (ticket_guard z id' auth_user) (\<lambda>(event, user, ticket).
     http_ok \<lparr>str_event = event, str_user = user, str_ticket = ticket\<rparr>)"

definition tickets_show_redeemable ::
  "'tz time_zones \<Rightarrow> uuid \<Rightarrow> auth_user \<Rightarrow> redeemable_ticket http_response web"
where
  "tickets_show_redeemable z id' auth_user =
     bindo (ticket_guard z id' auth_user) (\<lambda>_.
     bindo (on_db (show_redeemable_ticket id')) http_ok)"

record send_tickets_request =
  snd_ticket_ids :: "uuid list"
  snd_validity_period_in_seconds :: "int option"
  snd_email_or_phone :: string

text \<open>\<open>Regex::new("[^0-9\+]+")\<close> replaced by nothing.\<close>

definition numbers_only :: "string \<Rightarrow> string" where
  "numbers_only t = filter (\<lambda>ch. ch \<in> set ''0123456789+'') t"

definition send_via_email_or_phone ::
  "crates \<Rightarrow> config \<Rightarrow> send_tickets_request \<Rightarrow> auth_user \<Rightarrow> unit http_response web"
where
  "send_via_email_or_phone c cfg req auth_user =
     bindo (requires_scope auth_user TicketTransfer) (\<lambda>_.
     bindo (on_db (authorize_ticket_transfer c (au_id auth_user) (snd_ticket_ids req)
       (as_u32 (unwrap_or (snd_validity_period_in_seconds req) 604800)))) (\<lambda>authorization.
     if CHR ''@'' \<in> set (snd_email_or_phone req)
     then bindo (on_db (mail_tickets c cfg (snd_email_or_phone req)
         (uuid_to_string (ta_sender_user_id authorization)) (ta_num_tickets authorization)
         (uuid_to_string (ta_transfer_key authorization)) (ta_signature authorization) (au_user auth_user)))
         (\<lambda>_. http_finish)
     else if length (numbers_only (snd_email_or_phone req)) > 7
     then bindo (on_db (sms_tickets c cfg (snd_email_or_phone req)
         (uuid_to_string (ta_sender_user_id authorization)) (ta_num_tickets authorization)
         (uuid_to_string (ta_transfer_key authorization)) (ta_signature authorization) (au_user auth_user)))
         (\<lambda>_. http_finish)
     else unprocessable ''Invalid destination, please supply valid phone number or email address.''))"

record transfer_ticket_request =
  ttr_ticket_ids :: "uuid list"
  ttr_validity_period_in_seconds :: int

definition transfer_authorization_request ::
  "crates \<Rightarrow> transfer_ticket_request \<Rightarrow> auth_user \<Rightarrow> transfer_authorization http_response web"
where
  "transfer_authorization_request c req auth_user =
     bindo (requires_scope auth_user TicketTransfer) (\<lambda>_.
     bindo (on_db (authorize_ticket_transfer c (au_id auth_user) (ttr_ticket_ids req)
       (as_u32 (ttr_validity_period_in_seconds req)))) http_ok)"

definition tokens_of_tickets :: "ticket_instance list \<Rightarrow> (uuid \<times> nat list) list" where
  "tokens_of_tickets tickets = fold (\<lambda>t. push_token (ti_asset_id t) (as_u64 (ti_token_id t))) tickets []"

definition transfer_on_chain :: "config \<Rightarrow> wallet \<Rightarrow> wallet \<Rightarrow> uuid \<times> nat list \<Rightarrow> unit web" where
  "transfer_on_chain cfg sender receiver = (\<lambda>(asset_id, token_ids).
     bindo (on_db (asset_find asset_id)) (\<lambda>asset.
     case a_blockchain_asset_id asset of
       Some a \<Rightarrow> call_tari (TransferTokens a token_ids (w_public_key receiver))
         (tc_transfer_tokens (cfg_tari_client cfg) (w_secret_key sender) (w_public_key sender) a token_ids
            (w_public_key receiver))
     | None \<Rightarrow> internal_server_error
         ''Could not complete ticket transfer because the asset has not been assigned on the blockchain''))"

text \<open>Assets follow in the order of their first tickets; the code's map has no order.\<close>

definition receive_transfer ::
  "crates \<Rightarrow> config \<Rightarrow> transfer_authorization \<Rightarrow> auth_user \<Rightarrow> unit http_response web"
where
  "receive_transfer c cfg authorization auth_user =
     bindo (requires_scope auth_user TicketTransfer) (\<lambda>_.
     bindo (on_db (find_default_for_user (ta_sender_user_id authorization))) (\<lambda>sender_wallet.
     bindo (on_db (find_default_for_user (au_id auth_user))) (\<lambda>receiver_wallet.
     bindo (on_db (receive_ticket_transfer c authorization sender_wallet (w_id receiver_wallet))) (\<lambda>tickets.
     bindo (for_each (transfer_on_chain cfg sender_wallet receiver_wallet) (tokens_of_tickets tickets)) (\<lambda>_.
     http_finish)))))"

section \<open>The lines of an order\<close>

record order_details_line_item =
  odl_ticket_instance_id :: "uuid option"
  odl_order_item_id :: uuid
  odl_description :: string
  odl_ticket_price_in_cents :: int
  odl_fees_price_in_cents :: int
  odl_total_price_in_cents :: int
  odl_status :: string
  odl_refundable :: bool

text \<open>The query of \<open>queries/order_details.sql\<close>: one line for each event fee, each ticket that the items
  hold and each ticket that was refunded for them.\<close>

definition detail_keys :: "db \<Rightarrow> uuid \<Rightarrow> (uuid option \<times> uuid) list" where
  "detail_keys s order_id = remdups (
     map (\<lambda>oi. (None, oi_id oi)) (filter (\<lambda>oi. oi_order_id oi = order_id \<and>
       oi_item_type oi = order_item_types.EventFees) (db_order_items s)) @
     [(Some (rt_ticket_instance_id rt), refunded_ticket.rt_order_item_id rt). rt \<leftarrow> db_refunded_tickets s,
        oi \<leftarrow> db_order_items s, refunded_ticket.rt_order_item_id rt = oi_id oi \<and> oi_order_id oi = order_id] @
     [(Some (ti_id ti), oi_id oi). ti \<leftarrow> db_ticket_instances s, oi \<leftarrow> db_order_items s,
        ti_order_item_id ti = Some (oi_id oi) \<and> oi_order_id oi = order_id \<and>
        oi_item_type oi = order_item_types.Tickets])"

text \<open>A left join keeps a row without a partner.\<close>

definition left_join :: "'b list \<Rightarrow> 'b option list" where
  "left_join rows = (if rows = [] then [None] else map Some rows)"

definition detail_joins :: "db \<Rightarrow> uuid list \<Rightarrow> uuid option \<times> uuid \<Rightarrow>
  (order_item \<times> ticket_instance option \<times> event_row \<times> ticket_type option \<times> order_row \<times> wallet option \<times>
   refunded_ticket option \<times> order_item option) list"
where
  "detail_joins s organization_ids = (\<lambda>(ticket, item).
     [(oi, ti, e, tt, o', w, rt, fi).
        oi \<leftarrow> filter (\<lambda>oi. oi_id oi = item) (db_order_items s),
        ti \<leftarrow> left_join (filter (\<lambda>ti. ticket = Some (ti_id ti)) (db_ticket_instances s)),
        e \<leftarrow> filter (\<lambda>e. oi_event_id oi = Some (e_id e) \<and> e_organization_id e \<in> set organization_ids) (db_events s),
        tp \<leftarrow> left_join (filter (\<lambda>tp. oi_ticket_pricing_id oi = Some (tp_id tp)) (db_ticket_pricing s)),
        o' \<leftarrow> filter (\<lambda>o'. o_id o' = oi_order_id oi \<and> o_status o' \<in> {order_status.Paid, order_status.PartiallyPaid})
          (db_orders s),
        tt \<leftarrow> left_join (filter (\<lambda>tt. map_option tp_ticket_type_id tp = Some (tt_id tt)) (db_ticket_types s)),
        w \<leftarrow> left_join (filter (\<lambda>w. map_option ti_wallet_id ti = Some (w_id w)) (db_wallets s)),
        rt \<leftarrow> left_join (filter (\<lambda>rt. map_option ti_id ti = Some (rt_ticket_instance_id rt)) (db_refunded_tickets s)),
        fi \<leftarrow> left_join (filter (\<lambda>fi. oi_parent_id fi = Some (oi_id oi) \<and>
          oi_item_type fi = order_item_types.PerUnitFees) (db_order_items s))])"

text \<open>Both refunds hide the price they paid back. The name of the type is null for an item without a
  price point, and the line cannot be read then.\<close>

definition refunded_at :: "(refunded_ticket \<Rightarrow> timestamp option) \<Rightarrow> refunded_ticket option \<Rightarrow> bool" where
  "refunded_at at rt \<longleftrightarrow> (case rt of Some r \<Rightarrow> at r \<noteq> None | None \<Rightarrow> False)"

definition detail_line :: "uuid option \<Rightarrow> order_item \<times> ticket_instance option \<times> event_row \<times> ticket_type option \<times>
  order_row \<times> wallet option \<times> refunded_ticket option \<times> order_item option \<Rightarrow> order_details_line_item option"
where
  "detail_line ticket = (\<lambda>(oi, ti, e, tt, o', w, rt, fi).
     let all_refunded = (oi_quantity oi = oi_refunded_quantity oi);
         event_fees = (oi_item_type oi = order_item_types.EventFees);
         ticket_price = (if all_refunded \<or> refunded_at rt_ticket_refunded_at rt then 0
           else if event_fees then 0 else oi_unit_price_in_cents oi);
         fees_price = (if all_refunded \<or> refunded_at rt_fee_refunded_at rt then 0
           else case fi of None \<Rightarrow> oi_company_fee_in_cents oi + oi_client_fee_in_cents oi
             | Some fi \<Rightarrow> oi_unit_price_in_cents fi);
         status = (if all_refunded \<or> refunded_at rt_ticket_refunded_at rt then ''Refunded''
           else if (case map_option w_user_id w of Some (Some u) \<Rightarrow> u \<noteq> o_user_id o' | _ \<Rightarrow> False)
           then ''Transferred''
           else case ti of None \<Rightarrow> ''Purchased'' | Some t \<Rightarrow> enum_to_string ticket_instance_status_variants (ti_status t))
     in map_option (\<lambda>description.
       \<lparr>odl_ticket_instance_id = ticket, odl_order_item_id = oi_id oi, odl_description = description,
        odl_ticket_price_in_cents = ticket_price, odl_fees_price_in_cents = fees_price,
        odl_total_price_in_cents = ticket_price + fees_price, odl_status = status,
        odl_refundable = (status \<in> {''Purchased'', ''Redeemed''})\<rparr>)
       (if event_fees then Some (''Event Fees - '' @ e_name e)
        else map_option (\<lambda>tt. e_name e @ '' - '' @ tt_name tt) tt))"

definition detail_rank :: "db \<Rightarrow> uuid option \<times> uuid \<Rightarrow> (nat \<times> uuid) \<times> (int \<times> (nat \<times> uuid))" where
  "detail_rank s = (\<lambda>(ticket, item). let oi = find (\<lambda>oi. oi_id oi = item) (db_order_items s) in
     ((case oi of Some r \<Rightarrow> (case oi_event_id r of Some e \<Rightarrow> (0, e) | None \<Rightarrow> (1, 0)) | None \<Rightarrow> (1, 0)),
      (case oi of Some r \<Rightarrow> - int (item_type_rank (oi_item_type r)) | None \<Rightarrow> 0),
      (case ticket of Some t \<Rightarrow> (0, t) | None \<Rightarrow> (1, 0))))"

definition order_details :: "order_row \<Rightarrow> uuid list \<Rightarrow> order_details_line_item list dbop" where
  "order_details self organization_ids = (\<lambda>s.
     let keys = sort_key (detail_rank s) (detail_keys s (o_id self));
         lines = concat (map (\<lambda>k. map (detail_line (fst k)) (detail_joins s organization_ids k)) keys) in
     (wrap QueryError ''Could not load order items''
        (if None \<in> set lines then Inl OtherFailure else Inr (map the lines)), s))"

section \<open>Orders\<close>

definition orders_index :: "paging_parameters \<Rightarrow> auth_user \<Rightarrow> display_order payload http_response web" where
  "orders_index query_parameters user =
     bindo (requires_scope user OrderReadOwn) (\<lambda>_.
     bindo (on_db (find_for_user_for_display (au_id user))) (\<lambda>orders.
     http_ok (payload_new orders (paging_of_parameters query_parameters))))"

definition orders_show :: "uuid \<Rightarrow> auth_user \<Rightarrow> display_order http_response web" where
  "orders_show id' user =
     bindo (requires_scope user OrderReadOwn) (\<lambda>_.
     bindo (on_db (order_find id')) (\<lambda>order.
     if o_user_id order \<noteq> au_id user \<or> o_status order = order_status.Draft
     then forbidden ''You do not have access to this order''
     else bindo (on_db (for_display order)) http_ok))"

record details_response =
  dr_items :: "order_details_line_item list"
  dr_order_contains_tickets_for_other_organizations :: bool

text \<open>The lines of the organizations whose orders the user may read.\<close>

definition readable_organizations :: "auth_user \<Rightarrow> organization list \<Rightarrow> (uuid list \<times> bool) web" where
  "readable_organizations user organizations =
     fold_op (\<lambda>organization (ids, others).
       bindo (has_scope_for_organization user OrderRead organization) (\<lambda>granted.
       ret (if granted then (ids @ [org_id organization], others) else (ids, True))))
       organizations ([], False)"

definition orders_details :: "uuid \<Rightarrow> auth_user \<Rightarrow> details_response http_response web" where
  "orders_details id' user =
     bindo (on_db (order_find id')) (\<lambda>order.
     bindo (on_db (order_organizations order)) (\<lambda>organizations.
     bindo (readable_organizations user organizations) (\<lambda>(organization_ids, others).
     if organization_ids = [] then unauthorized
     else bindo (on_db (order_details order organization_ids)) (\<lambda>items.
       http_ok \<lparr>dr_items = items, dr_order_contains_tickets_for_other_organizations = others\<rparr>))))"

definition orders_update :: "uuid \<Rightarrow> update_order_attributes \<Rightarrow> auth_user \<Rightarrow> display_order http_response web" where
  "orders_update id' json user =
     bindo (requires_scope user OrderReadOwn) (\<lambda>_.
     bindo (on_db (order_find id')) (\<lambda>order.
     if o_user_id order \<noteq> au_id user then forbidden ''You do not have access to this order''
     else
       bindo (on_db (order_update order json)) (\<lambda>order.
       bindo (on_db (for_display order)) http_ok)))"

text \<open>The tickets of an order: all of them for the user it belongs to, for others those of the events of
  their organizations.\<close>

definition shows_tickets_of :: "order_row \<Rightarrow> uuid list \<Rightarrow> auth_user \<Rightarrow> order_item \<Rightarrow> bool dbop" where
  "shows_tickets_of order orgs user item =
     (if o_user_id order \<noteq> au_id user \<and> o_on_behalf_of_user_id order \<noteq> Some (au_id user)
      then case oi_event_id item of
          None \<Rightarrow> ret False
        | Some e \<Rightarrow> bindo (event_find e) (\<lambda>event. ret (e_organization_id event \<in> set orgs))
      else ret True)"

definition tickets_of_item :: "order_item \<Rightarrow> redeemable_ticket list \<Rightarrow> redeemable_ticket list dbop" where
  "tickets_of_item item results =
     bindo (find_for_order_item (oi_id item)) (\<lambda>tickets.
     fold_op (\<lambda>t results. bindo (show_redeemable_ticket (ti_id t)) (\<lambda>r. ret (results @ [r]))) tickets results)"

definition orders_tickets :: "uuid \<Rightarrow> auth_user \<Rightarrow> redeemable_ticket list http_response web" where
  "orders_tickets id' user =
     bindo (on_db (order_find id')) (\<lambda>order.
     bindo (on_db (user_organizations (au_user user))) (\<lambda>organizations.
     bindo (on_db (order_items order)) (\<lambda>items.
     bindo (on_db (fold_op (\<lambda>item results.
         bindo (shows_tickets_of order (map org_id organizations) user item) (\<lambda>shown.
         if shown then tickets_of_item item results else ret results))
       (filter (\<lambda>t. oi_item_type t = order_item_types.Tickets) items) [])) http_ok)))"

section \<open>Refunds\<close>

record refund_response =
  rr_amount_refunded :: u32
  rr_refund_breakdown :: "(payment_methods \<times> u32) list"

text \<open>A user may refund items when the scope is granted in every organization of their events, and there
  is at least one.\<close>

fun may_refund_all :: "auth_user \<Rightarrow> organization list \<Rightarrow> bool web" where
  "may_refund_all user [] = ret True"
| "may_refund_all user (organization # organizations) =
     bindo (has_scope_for_organization user OrderRefund organization) (\<lambda>granted.
     if granted then may_refund_all user organizations else ret False)"

definition refund_guard :: "refund_item list \<Rightarrow> auth_user \<Rightarrow> unit web" where
  "refund_guard items user =
     bindo (on_db (find_by_order_item_ids (map ri_order_item_id items))) (\<lambda>organizations.
     bindo (if organizations = [] then ret False else may_refund_all user organizations) (\<lambda>authorized.
     if \<not> authorized then unauthorized else ret ()))"

text \<open>What goes back to the organizations: for each asset the tokens, the wallet of its first ticket and
  the tickets. The maps have no order; here the assets are in the order of their first tickets.\<close>

record returned_tokens =
  rk_asset_id :: uuid
  rk_tokens :: "nat list"
  rk_wallet_id :: uuid
  rk_tickets :: "ticket_instance list"

fun push_returned :: "ticket_instance \<Rightarrow> returned_tokens list \<Rightarrow> returned_tokens list" where
  "push_returned t [] = [\<lparr>rk_asset_id = ti_asset_id t, rk_tokens = [as_u64 (ti_token_id t)],
     rk_wallet_id = ti_wallet_id t, rk_tickets = [t]\<rparr>]"
| "push_returned t (r # rs) =
     (if rk_asset_id r = ti_asset_id t
      then r\<lparr>rk_tokens := rk_tokens r @ [as_u64 (ti_token_id t)], rk_tickets := rk_tickets r @ [t]\<rparr> # rs
      else r # push_returned t rs)"

definition collect_returned :: "uuid list \<Rightarrow> returned_tokens list dbop" where
  "collect_returned ticket_instance_ids =
     bindo (find_by_ticket_instance_ids ticket_instance_ids) (\<lambda>refunded.
     fold_op (\<lambda>r acc. bindo (find_ticket (rt_ticket_instance_id r)) (\<lambda>t. ret (push_returned t acc)))
       (filter (\<lambda>r. rt_ticket_refunded_at r \<noteq> None) refunded) [])"

definition wallet_of_asset :: "uuid \<Rightarrow> wallet dbop" where
  "wallet_of_asset asset_id =
     bindo (find_by_asset_id asset_id) (\<lambda>organization. find_default_for_organization (org_id organization))"

abbreviation refund_unassigned :: "'a web" where
  "refund_unassigned \<equiv> internal_server_error
     ''Could not complete this refund because the asset is not assigned on the blockchain''"

text \<open>The tokens of an asset go from the wallet of its first ticket to the wallet of the organization, or
  back.\<close>

definition return_tokens :: "config \<Rightarrow> returned_tokens \<Rightarrow> wallet web" where
  "return_tokens cfg r =
     bindo (on_db (wallet_of_asset (rk_asset_id r))) (\<lambda>organization_wallet.
     bindo (on_db (asset_find (rk_asset_id r))) (\<lambda>asset.
     case a_blockchain_asset_id asset of
       Some a \<Rightarrow>
         bindo (on_db (wallet_find (rk_wallet_id r))) (\<lambda>user_wallet.
         bindo (call_tari (TransferTokens a (rk_tokens r) (w_public_key organization_wallet))
           (tc_transfer_tokens (cfg_tari_client cfg) (w_secret_key user_wallet) (w_public_key user_wallet) a
              (rk_tokens r) (w_public_key organization_wallet))) (\<lambda>_.
         ret organization_wallet))
     | None \<Rightarrow> refund_unassigned))"

definition give_tokens_back :: "config \<Rightarrow> returned_tokens \<Rightarrow> unit web" where
  "give_tokens_back cfg r =
     bindo (on_db (wallet_of_asset (rk_asset_id r))) (\<lambda>organization_wallet.
     bindo (on_db (asset_find (rk_asset_id r))) (\<lambda>asset.
     case a_blockchain_asset_id asset of
       Some a \<Rightarrow>
         bindo (on_db (wallet_find (rk_wallet_id r))) (\<lambda>user_wallet.
         call_tari (TransferTokens a (rk_tokens r) (w_public_key user_wallet))
           (tc_transfer_tokens (cfg_tari_client cfg) (w_secret_key organization_wallet)
              (w_public_key organization_wallet) a (rk_tokens r) (w_public_key user_wallet)))
     | None \<Rightarrow> refund_unassigned))"

text \<open>The loop over the assets tells, beside its result, which tokens have moved.\<close>

fun return_all_tokens ::
  "config \<Rightarrow> returned_tokens list \<Rightarrow> returned_tokens list \<Rightarrow>
   (returned_tokens list \<times> (big_neon_error + unit)) web"
where
  "return_all_tokens cfg [] modified = ret (modified, Inr ())"
| "return_all_tokens cfg (r # rs) modified =
     bindo (attempt (return_tokens cfg r)) (\<lambda>moved.
     case moved of
       Inl e \<Rightarrow> ret (modified, Inl e)
     | Inr organization_wallet \<Rightarrow>
         bindo (attempt (for_each (\<lambda>t. on_db (set_wallet t organization_wallet)) (rk_tickets r))) (\<lambda>wallets_set.
         case wallets_set of
           Inl e \<Rightarrow> ret (modified @ [r], Inl e)
         | Inr _ \<Rightarrow> return_all_tokens cfg rs (modified @ [r])))"

section \<open>Paying back\<close>

text \<open>What is left of the payments under each external reference: authorized ones do not count, refunds
  are negative.\<close>

definition remaining_balance :: "payment list \<Rightarrow> string option \<Rightarrow> int" where
  "remaining_balance payments reference =
     sum_list (map p_amount (filter (\<lambda>p. p_status p \<noteq> payment_status.Authorized \<and>
       p_external_reference p = reference) payments))"

fun add_refunded :: "payment_methods \<Rightarrow> u32 \<Rightarrow> (payment_methods \<times> u32) list \<Rightarrow> (payment_methods \<times> u32) list" where
  "add_refunded m a [] = [(m, a)]"
| "add_refunded m a ((n, b) # l) = (if m = n then (n, b + a) # l else (n, b) # add_refunded m a l)"

definition pay_back_card :: "network \<Rightarrow> config \<Rightarrow> payment \<Rightarrow> u32 \<Rightarrow> json option web" where
  "pay_back_card net cfg payment amount_to_refund =
     (if p_payment_method payment = payment_methods.CreditCard
      then
        bindo (lift_result (create_payment_processor net cfg (p_provider payment))) (\<lambda>client.
        case p_external_reference payment of
          Some external_reference \<Rightarrow>
            bindo (call_processor (PartialRefund external_reference amount_to_refund)
              (pp_partial_refund client external_reference amount_to_refund)) (\<lambda>result.
            bindo (lift_result (to_json net result)) (\<lambda>data. ret (Some data)))
        | None \<Rightarrow> internal_server_error (''Unable to refund amount owed payment '' @
            uuid_to_string (p_id payment) @ '' lacks external reference''))
      else ret None)"

text \<open>\<open>remaining_balance as u32\<close> keeps the low 32 bits, also of a negative balance.\<close>

definition refund_payment ::
  "network \<Rightarrow> config \<Rightarrow> auth_user \<Rightarrow> payment list \<Rightarrow> u32 \<Rightarrow> payment \<Rightarrow>
   (payment_methods \<times> u32) list \<times> u32 \<Rightarrow> ((payment_methods \<times> u32) list \<times> u32) web"
where
  "refund_payment net cfg user balances refund_due payment = (\<lambda>(breakdown, amount_refunded).
     let balance = remaining_balance balances (p_external_reference payment) in
     if p_status payment \<noteq> payment_status.Completed \<or> balance = 0 then ret (breakdown, amount_refunded)
     else
       let amount_to_refund = min (refund_due - amount_refunded) (as_u32 balance) in
       bindo (pay_back_card net cfg payment amount_to_refund) (\<lambda>refund_data.
       bindo (on_db (log_refund payment (au_id user) amount_to_refund refund_data)) (\<lambda>_.
       ret (add_refunded (p_payment_method payment) amount_to_refund breakdown,
            amount_refunded + amount_to_refund))))"

definition pay_back ::
  "network \<Rightarrow> config \<Rightarrow> auth_user \<Rightarrow> order_row \<Rightarrow> u32 \<Rightarrow> ((payment_methods \<times> u32) list \<times> u32) web"
where
  "pay_back net cfg user order refund_due =
     bindo (on_db (order_payments order)) (\<lambda>balances.
     bindo (on_db (order_payments order)) (\<lambda>payments.
     bindo (fold_op (refund_payment net cfg user balances refund_due) payments ([], 0)) (\<lambda>(breakdown, refunded).
     if refunded < refund_due
     then internal_server_error (''Unable to refund amount owed '' @ decimal (unat refunded) @ '' refunded, '' @
       decimal (unat refund_due) @ '' due'')
     else ret (breakdown, refunded))))"

text \<open>The inner transaction: when it fails, the rows go back to its start, and the tokens that have moved
  are given back on the chain.\<close>

definition settle_refund ::
  "network \<Rightarrow> config \<Rightarrow> auth_user \<Rightarrow> order_row \<Rightarrow> returned_tokens list \<Rightarrow> u32 \<Rightarrow>
   ((payment_methods \<times> u32) list \<times> u32) web"
where
  "settle_refund net cfg user order returned refund_due =
     bindo (gets ss_db) (\<lambda>start.
     bindo (return_all_tokens cfg returned []) (\<lambda>(modified, moved).
     bindo (case moved of Inl e \<Rightarrow> ret (Inl e)
            | Inr _ \<Rightarrow> attempt (pay_back net cfg user order refund_due)) (\<lambda>paid.
     case paid of
       Inr result \<Rightarrow> ret result
     | Inl e \<Rightarrow>
         bindo (modify (\<lambda>w. w\<lparr>ss_db := roll_back_to start (ss_db w)\<rparr>)) (\<lambda>_.
         bindo (for_each (give_tokens_back cfg) modified) (\<lambda>_. fail e)))))"

definition mail_refund :: "crates \<Rightarrow> config \<Rightarrow> uuid \<Rightarrow> u32 \<Rightarrow> unit web" where
  "mail_refund c cfg order_id amount_refunded =
     bindo (on_db (order_find order_id)) (\<lambda>order.
     bindo (on_db (for_display order)) (\<lambda>display_order.
     bindo (on_db (user_find (unwrap_or (o_on_behalf_of_user_id order) (o_user_id order)))) (\<lambda>user.
     case (u_first_name user, u_email user) of
       (Some first_name, Some email) \<Rightarrow>
         on_db (refund_email c first_name email display_order amount_refunded cfg)
     | _ \<Rightarrow> ret ())))"

definition orders_refund ::
  "crates \<Rightarrow> network \<Rightarrow> config \<Rightarrow> uuid \<Rightarrow> refund_item list \<Rightarrow> auth_user \<Rightarrow> refund_response http_response web"
where
  "orders_refund c net cfg id' items user =
     bindo (on_db (order_find id')) (\<lambda>order.
     if o_status order \<notin> {order_status.Paid, order_status.PartiallyPaid}
     then internal_server_error ''Order must have associated payments to refund order items''
     else
       bindo (refund_guard items user) (\<lambda>_.
       bindo (on_db (refund order items)) (\<lambda>refund_due.
       bindo (on_db (collect_returned (concat (map (\<lambda>i. case ri_ticket_instance_id i of
         Some t \<Rightarrow> [t] | None \<Rightarrow> []) items)))) (\<lambda>returned.
       bindo (settle_refund net cfg user order returned refund_due) (\<lambda>(breakdown, amount_refunded).
       bindo (if cfg_environment cfg \<noteq> environment.Test
              then bindo commit_transaction (\<lambda>_. begin_transaction) else ret ()) (\<lambda>_.
       bindo (mail_refund c cfg (o_id order) amount_refunded) (\<lambda>_.
       http_ok \<lparr>rr_amount_refunded = amount_refunded, rr_refund_breakdown = breakdown\<rparr>)))))))"

section \<open>What a refund pays back\<close>

text \<open>What an order has been paid, refunds deducted; the parts of a breakdown, and what the processor was
  asked to pay back.\<close>

definition paid_in :: "db \<Rightarrow> uuid \<Rightarrow> int" where
  "paid_in s i = sum_list (map p_amount (filter (\<lambda>p. p_order_id p = i) (db_payments s)))"

definition refunded_in :: "(payment_methods \<times> u32) list \<Rightarrow> nat" where
  "refunded_in breakdown = sum_list (map (\<lambda>(_, a). unat a) breakdown)"

definition refunded_to_cards :: "(payment_methods \<times> u32) list \<Rightarrow> nat" where
  "refunded_to_cards breakdown =
     sum_list (map (\<lambda>(m, a). if m = payment_methods.CreditCard then unat a else 0) breakdown)"

definition asked_back :: "external_call list \<Rightarrow> nat" where
  "asked_back calls = sum_list (map (\<lambda>c. case c of PartialRefund _ a \<Rightarrow> unat a | _ \<Rightarrow> 0) calls)"

lemma add_refunded_parts:
  assumes "refunded_in l + unat a < 2 ^ 32"
  shows "refunded_in (add_refunded m a l) = refunded_in l + unat a"
    and "refunded_to_cards (add_refunded m a l) =
      refunded_to_cards l + (if m = payment_methods.CreditCard then unat a else 0)"
proof -
  have "unat (b + a) = unat b + unat a" if "unat b + unat a < 2 ^ 32" for b :: u32
    using that by (simp add: unat_word_ariths)
  with assms show "refunded_in (add_refunded m a l) = refunded_in l + unat a"
    "refunded_to_cards (add_refunded m a l) =
      refunded_to_cards l + (if m = payment_methods.CreditCard then unat a else 0)"
    by (induction m a l rule: add_refunded.induct) (auto simp: refunded_in_def refunded_to_cards_def)
qed

lemma log_refund_Inr:
  assumes "log_refund p u a data s = (Inr (), t)"
  shows "paid_in t (p_order_id p) = paid_in s (p_order_id p) - as_i64 a"
proof -
  from assms obtain q v e r where commit: "payment_commit (payment_create (p_order_id p) (p_created_by p)
      payment_status.Refunded (p_payment_method p) (p_provider p) (p_external_reference p) (- as_i64 a) data) u s =
      (Inr q, v)" and event: "domain_event_commit e v = (Inr r, t)"
    unfolding log_refund_def bindo_Inr_iff ret_run by blast
  have "steps (writes (- {PaymentsT})) (domain_event_commit e)" by (auto intro!: footprints)
  from stepsD_run [OF this event] have "db_payments t = db_payments v"
    using writes_same [where T = PaymentsT] by fastforce
  then show ?thesis using payment_commit_Inr [OF commit] by (auto simp: paid_in_def payment_create_def)
qed

text \<open>The loop over the payments: what was given back is in the breakdown, in the rows and, as far as it
  went to cards, was asked of the processor.\<close>

definition refund_books ::
  "uuid \<Rightarrow> u32 \<Rightarrow> int \<Rightarrow> (payment_methods \<times> u32) list \<times> u32 \<Rightarrow> session \<Rightarrow> bool"
where
  "refund_books i due paid = (\<lambda>(breakdown, refunded) w.
     refunded \<le> due \<and> refunded_in breakdown = unat refunded \<and>
     paid_in (ss_db w) i + int (unat refunded) = paid \<and>
     asked_back (ss_calls w) = refunded_to_cards breakdown)"

lemma pay_back_card_Inr:
  assumes "pay_back_card net cfg p a w = (Inr data, w')"
  shows "ss_db w' = ss_db w \<and> asked_back (ss_calls w') =
    asked_back (ss_calls w) + (if p_payment_method p = payment_methods.CreditCard then unat a else 0)"
  using assms
  by (auto simp: pay_back_card_def bindo_Inr_iff lift_result_run call_processor_def call_external_run ret_run
      internal_server_error_def fail_run asked_back_def split: if_splits option.splits)

lemma refund_payment_books:
  assumes "refund_payment net cfg user balances due p acc w = (Inr acc', w')"
    and "refund_books i due paid acc w" and "p_order_id p = i"
  shows "refund_books i due paid acc' w'"
proof -
  obtain b r where acc: "acc = (b, r)" by fastforce
  let ?balance = "remaining_balance balances (p_external_reference p)"
  show ?thesis
  proof (cases "p_status p \<noteq> payment_status.Completed \<or> ?balance = 0")
    case True
    then show ?thesis using assms by (simp add: refund_payment_def acc ret_run)
  next
    case False
    define a where "a = min (due - r) (as_u32 ?balance)"
    from assms(1) False obtain data w1 where card: "pay_back_card net cfg p a w = (Inr data, w1)"
      and log: "on_db (log_refund p (au_id user) a data) w1 = (Inr (), w')"
      and acc': "acc' = (add_refunded (p_payment_method p) a b, r + a)"
      by (auto simp: refund_payment_def acc Let_def bindo_Inr_iff ret_run a_def)
    from log have logged: "log_refund p (au_id user) a data (ss_db w1) = (Inr (), ss_db w')"
      and calls: "ss_calls w' = ss_calls w1"
      by (auto simp: on_db_run split: sum.splits) (metis prod.collapse)
    from assms(2) have books: "r \<le> due" "refunded_in b = unat r"
      "paid_in (ss_db w) i + int (unat r) = paid" "asked_back (ss_calls w) = refunded_to_cards b"
      by (simp_all add: refund_books_def acc)
    have "a \<le> due - r" by (simp add: a_def)
    then have sum: "unat r + unat a \<le> unat due"
      using books(1) by (simp add: word_le_nat_alt unat_sub)
    then have "unat r + unat a < 2 ^ 32"
      using unsigned_less [of due, where ?'a = nat] by simp
    then have "unat (r + a) = unat r + unat a" and small: "refunded_in b + unat a < 2 ^ 32"
      by (simp_all add: unat_word_ariths books(2))
    moreover from this(1) have "uint (r + a) = uint r + uint a"
      by (metis of_nat_add uint_nat)
    ultimately show ?thesis
      using books sum calls pay_back_card_Inr [OF card] log_refund_Inr [OF logged] assms(3)
        add_refunded_parts [OF small, of "p_payment_method p"]
      by (simp add: refund_books_def acc' word_le_nat_alt as_i64_def)
  qed
qed

lemma refund_loop_books:
  assumes "fold_op (refund_payment net cfg user balances due) ps acc w = (Inr acc', w')"
    and "refund_books i due paid acc w" and "list_all (\<lambda>p. p_order_id p = i) ps"
  shows "refund_books i due paid acc' w'"
  using assms
proof (induction ps arbitrary: acc w)
  case (Cons p ps)
  then obtain acc1 w1 where "refund_payment net cfg user balances due p acc w = (Inr acc1, w1)"
    and "fold_op (refund_payment net cfg user balances due) ps acc1 w1 = (Inr acc', w')"
    by (auto simp: bindo_Inr_iff)
  then show ?case using Cons.IH Cons.prems refund_payment_books by simp
qed (simp add: ret_run)

lemma pay_back_books:
  assumes "pay_back net cfg user order due w = (Inr (breakdown, refunded), w')"
    and "paid_in (ss_db w) (o_id order) = paid" and "asked_back (ss_calls w) = 0"
  shows "refunded = due \<and> refund_books (o_id order) due paid (breakdown, refunded) w'"
proof -
  let ?ps = "filter (\<lambda>p. p_order_id p = o_id order) (db_payments (ss_db w))"
  from assms(1) obtain b r w1 where
    "fold_op (refund_payment net cfg user ?ps due) ?ps ([], 0) w = (Inr (b, r), w1)"
    and "\<not> r < due" "breakdown = b" "refunded = r" "w' = w1"
    by (auto simp: pay_back_def order_payments_def on_db_run bindo_Inr_iff gets_def ret_run
        internal_server_error_def fail_run split: if_splits)
  moreover have "refund_books (o_id order) due paid ([], 0) w"
    using assms by (simp add: refund_books_def refunded_in_def refunded_to_cards_def)
  ultimately show ?thesis
    using refund_loop_books [of net cfg user ?ps due ?ps "([], 0)" w "(b, r)" w1 "o_id order" paid]
    by (auto simp: list_all_iff refund_books_def)
qed

text \<open>Everything around the loop leaves the books alone.\<close>

definition same_books :: "uuid \<Rightarrow> session \<Rightarrow> session \<Rightarrow> bool" where
  "same_books i w w' \<longleftrightarrow> paid_in (ss_db w') i = paid_in (ss_db w) i \<and> asked_back (ss_calls w') = asked_back (ss_calls w)"

interpretation books: step_relation "same_books i" for i
  by unfold_locales (simp_all add: same_books_def)

lemma books_on_db:
  assumes "steps (writes (- {PaymentsT})) m"
  shows "steps (same_books i) (on_db m)"
proof (rule stepsI)
  fix w :: session
  have "db_payments (snd (m (ss_db w))) = db_payments (ss_db w)"
    using writes_same [OF stepsD [OF assms], of PaymentsT] by simp
  then show "same_books i w (snd (on_db m w))"
    by (simp add: same_books_def on_db_run paid_in_def)
qed

lemma books_checks:
  "steps (same_books i) (has_scope_for_organization user scope g)" "steps (same_books i) (lift_result r)"
  "steps (same_books i) (internal_server_error m)" "steps (same_books i) unauthorized"
  "steps (same_books i) begin_transaction" "steps (same_books i) commit_transaction"
  "steps (same_books i) (http_ok b)"
  by (simp_all add: steps_def same_books_def has_scope_for_organization_def check_scope_access_run lift_result_run
      internal_server_error_def unauthorized_def unauthorized_with_message_def fail_run begin_transaction_def
      commit_transaction_def http_ok_def ret_run split: sum.split)

lemma books_call: "steps (same_books i) (call_tari (TransferTokens a ts key) r)"
  unfolding call_tari_def
  by (rule books.steps_bindo) (simp_all add: steps_def same_books_def call_external_run asked_back_def
      lift_result_run split: sum.split)

lemmas books_intros = books.steps_control books_on_db books_checks books_call

lemma writes_refund_reads [footprints]:
  "steps (writes W) (collect_returned ts)" "steps (writes W) (find_by_order_item_ids is)"
  "steps (writes W) (find_by_asset_id a)"
proof -
  have "steps (writes W) (find_by_ticket_instance_ids ts)"
    by (rule writes_pure) (simp add: find_by_ticket_instance_ids_def)
  then show "steps (writes W) (collect_returned ts)"
    unfolding collect_returned_def by (auto intro!: footprints)
  show "steps (writes W) (find_by_order_item_ids is)" "steps (writes W) (find_by_asset_id a)"
    by (rule writes_pure, simp add: find_by_order_item_ids_def find_by_asset_id_def)+
qed

lemma writes_wallet_of_asset [footprints]: "WalletsT \<in> W \<Longrightarrow> steps (writes W) (wallet_of_asset a)"
  unfolding wallet_of_asset_def by (auto intro!: footprints)

lemma may_refund_all_state: "snd (may_refund_all user gs w) = w"
  by (induction gs) (simp_all add: bindo_run has_scope_for_organization_def check_scope_access_run ret_run)

lemma refund_guard_state: "snd (refund_guard items user w) = w"
proof -
  obtain gs where gs: "find_by_order_item_ids (map ri_order_item_id items) (ss_db w) = (Inr gs, ss_db w)"
    by (simp add: find_by_order_item_ids_def)
  obtain r where r: "may_refund_all user gs w = (r, w)"
    using may_refund_all_state [of user gs w] by (metis prod.collapse)
  show ?thesis
    by (cases r) (simp_all add: refund_guard_def bindo_run on_db_run gs r ret_run unauthorized_def
        unauthorized_with_message_def fail_run)
qed

lemma books_return_tokens: "steps (same_books i) (return_tokens cfg r)"
  unfolding return_tokens_def by (auto intro!: books_intros footprints split: option.split)

lemma books_return_all_tokens: "steps (same_books i) (return_all_tokens cfg rs modified)"
  by (induction cfg rs modified rule: return_all_tokens.induct)
    (auto intro!: books_intros footprints books_return_tokens split: sum.split)

lemma books_mail_refund: "steps (same_books i) (mail_refund c cfg j a)"
  unfolding mail_refund_def refund_email_def by (auto intro!: books_intros footprints split: option.split)

lemma settle_refund_books:
  assumes "settle_refund net cfg user order returned due w = (Inr (breakdown, refunded), w')"
    and "paid_in (ss_db w) (o_id order) = paid" and "asked_back (ss_calls w) = 0"
  shows "refunded = due \<and> refund_books (o_id order) due paid (breakdown, refunded) w'"
proof -
  obtain modified moved w1 where moved: "return_all_tokens cfg returned [] w = (Inr (modified, moved), w1)"
    using assms(1) by (auto simp: settle_refund_def bindo_Inr_iff gets_def)
  have paid: "pay_back net cfg user order due w1 = (Inr (breakdown, refunded), w')"
  proof (cases moved)
    case (Inl e)
    then show ?thesis using assms(1) moved
      by (auto simp: settle_refund_def bindo_Inr_iff gets_def ret_run fail_run)
  next
    case (Inr u)
    then show ?thesis using assms(1) moved
      by (auto simp: settle_refund_def bindo_Inr_iff gets_def ret_run fail_run attempt_run split: sum.splits)
        (metis prod.collapse)
  qed
  have "same_books (o_id order) w w1" using books_return_all_tokens moved by (rule stepsD_run)
  then have "paid_in (ss_db w1) (o_id order) = paid" "asked_back (ss_calls w1) = 0"
    using assms(2,3) by (simp_all add: same_books_def)
  then show ?thesis by (rule pay_back_books [OF paid])
qed

lemma no_json: "hr_body (to_response e) \<noteq> Json r"
  by (simp add: to_response_def application_error_response_def auth_error_response_def database_error_response_def
      internal_error_def status_code_and_message_def unauthorized_response_def forbidden_response_def
      unprocessable_response_def split: big_neon_error.split application_error_type.split auth_error_type.split
      error_code.split)

text \<open>From a request that answers with a refund back to the pieces of its run.\<close>

lemma orders_refund_books:
  assumes "orders_refund c net cfg i items user (untouched s) = (Inr response, w)" and "hr_body response = Json r"
  shows "\<exists>order. order_find i s = (Inr order, s) \<and>
    fst (refund order items s) = Inr (rr_amount_refunded r) \<and>
    refund_books i (rr_amount_refunded r) (paid_in s i) (rr_refund_breakdown r, rr_amount_refunded r) w"
proof -
  obtain order where order: "order_find i s = (Inr order, s)" and "o_id order = i"
    using assms(1) by (auto simp: orders_refund_def bindo_Inr_iff on_db_run order_find_def first_where_run
        split: option.splits dest: find_SomeD)
  with assms obtain due returned breakdown refunded w1 w2 w3 w4 w5 where
    guard: "refund_guard items user (untouched s) = (Inr (), w1)"
    and due: "on_db (refund order items) w1 = (Inr due, w2)"
    and returned: "on_db (collect_returned (concat (map (\<lambda>i. case ri_ticket_instance_id i of
         Some t \<Rightarrow> [t] | None \<Rightarrow> []) items))) w2 = (Inr returned, w3)"
    and settled: "settle_refund net cfg user order returned due w3 = (Inr (breakdown, refunded), w4)"
    and committed: "(if cfg_environment cfg \<noteq> environment.Test
              then bindo commit_transaction (\<lambda>_. begin_transaction) else ret ()) w4 = (Inr (), w5)"
    and mailed: "mail_refund c cfg (o_id order) refunded w5 = (Inr (), w)"
    and r: "r = \<lparr>rr_amount_refunded = refunded, rr_refund_breakdown = breakdown\<rparr>"
    by (auto simp: orders_refund_def bindo_Inr_iff on_db_run http_ok_def ret_run internal_server_error_def fail_run
        split: if_splits)
  have guarded: "w1 = untouched s"
    using guard refund_guard_state [of items user "untouched s"] by simp
  have "steps (same_books i) (on_db (refund order items))" by (auto intro!: books_on_db footprints)
  then have "same_books i w1 w2" using due by (rule stepsD_run)
  moreover have "steps (same_books i) (on_db (collect_returned ts))" for ts by (auto intro!: books_on_db footprints)
  then have "same_books i w2 w3" using returned by (rule stepsD_run)
  ultimately have start: "paid_in (ss_db w3) (o_id order) = paid_in s i" "asked_back (ss_calls w3) = 0"
    using guarded \<open>o_id order = i\<close> by (simp_all add: same_books_def asked_back_def)
  have settled: "refunded = due" "refund_books i due (paid_in s i) (breakdown, refunded) w4"
    using settle_refund_books [OF settled start] unfolding \<open>o_id order = i\<close> by blast+
  have "same_books i w4 w5"
    using committed by (cases "cfg_environment cfg = environment.Test")
      (auto simp: bindo_run commit_transaction_def begin_transaction_def ret_run same_books_def)
  moreover have "same_books i w5 w"
    using mailed by (rule stepsD_run [OF books_mail_refund])
  ultimately have "refund_books i due (paid_in s i) (breakdown, refunded) w"
    using settled by (simp add: refund_books_def same_books_def)
  then show ?thesis
    using order due guarded settled(1) r by (auto simp: on_db_run split: sum.splits)
qed

text \<open>C29: a refund request that answers with an amount has paid back exactly that: it is the amount that
  the refund of the items came to, the parts of the breakdown add up to it, what the order has been paid
  is less by it, and the processor was asked to pay back the part that went to cards, no more and no less.\<close>

theorem refund_pays_back_what_it_says:
  "case hr_body (fst (run_request (orders_refund c net cfg i items user) s)) of
     Json r \<Rightarrow>
       (\<exists>order. order_find i s = (Inr order, s) \<and> fst (refund order items s) = Inr (rr_amount_refunded r)) \<and>
       refunded_in (rr_refund_breakdown r) = unat (rr_amount_refunded r) \<and>
       paid_in (ss_db (snd (run_request (orders_refund c net cfg i items user) s))) i +
         int (unat (rr_amount_refunded r)) = paid_in s i \<and>
       asked_back (ss_calls (snd (run_request (orders_refund c net cfg i items user) s))) =
         refunded_to_cards (rr_refund_breakdown r)
   | _ \<Rightarrow> True"
proof -
  obtain res w where run: "orders_refund c net cfg i items user (untouched s) = (res, w)" by fastforce
  show ?thesis
  proof (cases res)
    case (Inl e)
    then have "\<not> (\<exists>r. hr_body (to_response e :: refund_response http_response) = Json r)" by (simp add: no_json)
    then show ?thesis
      using Inl run by (auto simp: run_request_def bindo_run begin_transaction_def split: body.split)
  next
    case (Inr response)
    then show ?thesis
      using run orders_refund_books [of c net cfg i items user s response w]
      by (auto simp: run_request_def bindo_run begin_transaction_def commit_transaction_def refund_books_def
          split: body.split)
  qed
qed

text \<open>A refund of the fee of an event, paid outside: it is settled in full.\<close>

definition sample_paid_request :: db where
  "sample_paid_request = blank_db\<lparr>db_users := [blank_user 1], db_organizations := [blank_organization 4 8],
     db_events := [blank_event 3 4], db_orders := [blank_order 7 1 order_status.Paid],
     db_order_items := [(blank_item 32 7 order_item_types.EventFees 1 5)\<lparr>oi_event_id := Some 3\<rparr>],
     db_payments := [\<lparr>p_id = 50, p_order_id = 7, p_created_by = 1, p_status = payment_status.Completed,
       p_payment_method = payment_methods.External, p_amount = 5, p_provider = ''External'',
       p_external_reference = Some ''Receipt'', p_raw_data = None, p_created_at = 0, p_updated_at = 0\<rparr>]\<rparr>"

definition sample_clerk :: auth_user where
  "sample_clerk = (auth_user_new (blank_user 1) None ''/orders/7/refund'' ''PATCH'')
     \<lparr>au_global_scopes := [scope_to_string OrderRefund]\<rparr>"

lemma sample_refund_settled:
  "fst (settle_refund net cfg sample_clerk (blank_order 7 1 order_status.Paid) [] 5 (untouched sample_paid_request)) =
    Inr ([(payment_methods.External, 5)], 5)"
  by code_simp

end
