(* ===== verification/Marketing.thy ===== *)
theory Marketing imports Inventory_Requests begin

text \<open>
  The mailing lists of organizations: the client of the contacts of Sendgrid
  (\<open>api/src/utils/sendgrid/contacts.rs\<close>), the queued work on them (\<open>utils/marketing_contacts.rs\<close>,
  \<open>domain_events/executors/marketing_contacts\<close>) and the three executors that the router of domain
  actions knows. The answers of the service and the reading of JSON texts are parameters; a panic is
  the error \<open>HandlerPanicked\<close>.
\<close>

section \<open>Requests to the service\<close>

text \<open>An answer is its status and its body.\<close>

record contact_service =
  cs_send :: "string \<Rightarrow> string \<Rightarrow> string \<Rightarrow> string option \<Rightarrow> string + nat \<times> string"
  cs_json :: "string \<Rightarrow> string + json"
  cs_status_text :: "nat \<Rightarrow> string"

datatype reqwest_error = SendFailed string | StatusFailed nat | BodyFailed string

definition reqwest_error_text :: "contact_service \<Rightarrow> reqwest_error \<Rightarrow> string" where
  "reqwest_error_text cs e =
     (case e of SendFailed t \<Rightarrow> t | StatusFailed n \<Rightarrow> cs_status_text cs n | BodyFailed t \<Rightarrow> t)"

definition is_client_error :: "reqwest_error \<Rightarrow> bool" where
  "is_client_error e = (case e of StatusFailed n \<Rightarrow> 400 \<le> n \<and> n < 500 | _ \<Rightarrow> False)"

definition error_for_status :: "nat \<times> string \<Rightarrow> reqwest_error + nat \<times> string" where
  "error_for_status r = (if 400 \<le> fst r \<and> fst r < 600 then Inl (StatusFailed (fst r)) else Inr r)"

definition response_json :: "contact_service \<Rightarrow> nat \<times> string \<Rightarrow> reqwest_error + json" where
  "response_json cs r = map_error BodyFailed (cs_json cs (snd r))"

definition send_request ::
  "contact_service \<Rightarrow> string \<Rightarrow> string \<Rightarrow> string \<Rightarrow> string option \<Rightarrow> reqwest_error + nat \<times> string" where
  "send_request cs api_key method' url body = map_error SendFailed (cs_send cs method' url api_key body)"

definition application_failure :: "contact_service \<Rightarrow> reqwest_error \<Rightarrow> big_neon_error" where
  "application_failure cs e = OfApplication (application_error_new (reqwest_error_text cs e))"

definition send_request_json ::
  "contact_service \<Rightarrow> string \<Rightarrow> string \<Rightarrow> string \<Rightarrow> string option \<Rightarrow> big_neon_error + json" where
  "send_request_json cs api_key method' url body =
     map_error (application_failure cs)
       (and_then (and_then (send_request cs api_key method' url body) error_for_status) (response_json cs))"

section \<open>Reading JSON\<close>

definition json_field :: "string \<Rightarrow> json \<Rightarrow> json option" where
  "json_field k j = (case j of JObject kvs \<Rightarrow> map_of kvs k | _ \<Rightarrow> None)"

definition json_number :: "nat \<Rightarrow> json \<Rightarrow> nat option" where
  "json_number bits j = (case j of JNumber n \<Rightarrow> if 0 \<le> n \<and> n < 2 ^ bits then Some (nat n) else None | _ \<Rightarrow> None)"

definition json_string :: "json \<Rightarrow> string option" where
  "json_string j = (case j of JString t \<Rightarrow> Some t | _ \<Rightarrow> None)"

definition json_list :: "(json \<Rightarrow> 'a option) \<Rightarrow> json \<Rightarrow> 'a list option" where
  "json_list f j = (case j of JArray js \<Rightarrow> those (map f js) | _ \<Rightarrow> None)"

definition read_field :: "string \<Rightarrow> (json \<Rightarrow> 'a option) \<Rightarrow> json \<Rightarrow> 'a option" where
  "read_field k f j = Option.bind (json_field k j) f"

text \<open>\<open>from_value(v).unwrap()\<close> panics on a value of another shape.\<close>

definition unwrapped :: "'a option \<Rightarrow> big_neon_error + 'a" where
  "unwrapped r = (case r of Some x \<Rightarrow> Inr x | None \<Rightarrow> Inl HandlerPanicked)"

section \<open>Contacts\<close>

record sg_contact =
  sgo_email :: string
  sgo_first_name :: "string option"
  sgo_last_name :: "string option"

record sg_create_contact_response =
  sgr_new_count :: nat
  sgr_updated_count :: nat
  sgr_error_count :: nat
  sgr_error_indices :: "nat list"
  sgr_unmodified_indices :: "nat list"
  sgr_persisted_recipients :: "string list"
  sgr_errors :: "json list"

text \<open>Names that are missing are not written.\<close>

definition contact_json :: "sg_contact \<Rightarrow> json" where
  "contact_json self = JObject ([(''email'', JString (sgo_email self))] @
     (case sgo_first_name self of Some n \<Rightarrow> [(''first_name'', JString n)] | None \<Rightarrow> []) @
     (case sgo_last_name self of Some n \<Rightarrow> [(''last_name'', JString n)] | None \<Rightarrow> []))"

text \<open>The details of errors stay JSON; each has a message.\<close>

definition create_contact_response_of :: "json \<Rightarrow> sg_create_contact_response option" where
  "create_contact_response_of v =
     Option.bind (read_field ''new_count'' (json_number 32) v) (\<lambda>n.
     Option.bind (read_field ''updated_count'' (json_number 32) v) (\<lambda>u.
     Option.bind (read_field ''error_count'' (json_number 32) v) (\<lambda>e.
     Option.bind (read_field ''error_indices'' (json_list (json_number 32)) v) (\<lambda>ei.
     Option.bind (read_field ''unmodified_indices'' (json_list (json_number 32)) v) (\<lambda>ui.
     Option.bind (read_field ''persisted_recipients'' (json_list json_string) v) (\<lambda>p.
     Option.bind (read_field ''errors'' (json_list (\<lambda>d. map_option (\<lambda>_. d) (read_field ''message'' json_string d))) v)
       (\<lambda>es.
     Some \<lparr>sgr_new_count = n, sgr_updated_count = u, sgr_error_count = e, sgr_error_indices = ei,
       sgr_unmodified_indices = ui, sgr_persisted_recipients = p, sgr_errors = es\<rparr>)))))))"

definition sendgrid_api_url :: string where
  "sendgrid_api_url = ''https://api.sendgrid.com/v3''"

definition contact_api_url :: "string option \<Rightarrow> string" where
  "contact_api_url recipient_id =
     sendgrid_api_url @ ''/contactdb/recipients'' @ (case recipient_id of Some s \<Rightarrow> ''/'' @ s | None \<Rightarrow> [])"

definition contact_create_many ::
  "crates \<Rightarrow> contact_service \<Rightarrow> string \<Rightarrow> sg_contact list \<Rightarrow> big_neon_error + sg_create_contact_response" where
  "contact_create_many c cs api_key contacts =
     and_then (send_request_json cs api_key ''POST'' (contact_api_url None)
       (Some (json_text c (JArray (map contact_json contacts)))))
       (\<lambda>j. unwrapped (create_contact_response_of j))"

definition contact_create ::
  "crates \<Rightarrow> contact_service \<Rightarrow> string \<Rightarrow> sg_contact \<Rightarrow> big_neon_error + sg_create_contact_response" where
  "contact_create c cs api_key self =
     and_then (send_request_json cs api_key ''POST'' (contact_api_url None)
       (Some (json_text c (JArray [contact_json self]))))
       (\<lambda>j. unwrapped (create_contact_response_of j))"

section \<open>Lists of contacts\<close>

record sg_contact_list_response =
  sgl_id :: nat
  sgl_name :: string
  sgl_recipient_count :: nat

definition contact_list_of :: "json \<Rightarrow> sg_contact_list_response option" where
  "contact_list_of v =
     Option.bind (read_field ''id'' (json_number 64) v) (\<lambda>i.
     Option.bind (read_field ''name'' json_string v) (\<lambda>n.
     Option.bind (read_field ''recipient_count'' (json_number 32) v) (\<lambda>r.
     Some \<lparr>sgl_id = i, sgl_name = n, sgl_recipient_count = r\<rparr>)))"

definition list_api_url :: "string option \<Rightarrow> string" where
  "list_api_url list_id =
     sendgrid_api_url @ ''/contactdb/lists'' @ (case list_id of Some l \<Rightarrow> ''/'' @ l | None \<Rightarrow> [])"

definition recipients_api_url :: "string \<Rightarrow> string" where
  "recipients_api_url list_id = sendgrid_api_url @ ''/contactdb/lists/'' @ list_id @ ''/recipients''"

text \<open>A list is its name.\<close>

definition contact_list_json :: "crates \<Rightarrow> string \<Rightarrow> string" where
  "contact_list_json c name = json_text c (JObject [(''name'', JString name)])"

definition list_get_async ::
  "contact_service \<Rightarrow> string \<Rightarrow> string \<Rightarrow> big_neon_error + sg_contact_list_response" where
  "list_get_async cs api_key id' =
     map_error (application_failure cs)
       (and_then (and_then (and_then (send_request cs api_key ''GET'' (list_api_url (Some id')) None)
          error_for_status) (response_json cs))
        (\<lambda>j. case contact_list_of j of Some l \<Rightarrow> Inr l | None \<Rightarrow> Inl (BodyFailed ''invalid type'')))"

definition list_create ::
  "crates \<Rightarrow> contact_service \<Rightarrow> string \<Rightarrow> string \<Rightarrow> big_neon_error + sg_contact_list_response" where
  "list_create c cs api_key name =
     and_then (send_request_json cs api_key ''POST'' (list_api_url None) (Some (contact_list_json c name)))
       (\<lambda>j. unwrapped (contact_list_of j))"

definition list_get_by_id :: "contact_service \<Rightarrow> string \<Rightarrow> nat \<Rightarrow> big_neon_error + sg_contact_list_response" where
  "list_get_by_id cs api_key id' =
     and_then (send_request_json cs api_key ''GET'' (list_api_url (Some (decimal id'))) None)
       (\<lambda>j. unwrapped (contact_list_of j))"

definition list_fetch_all :: "contact_service \<Rightarrow> string \<Rightarrow> big_neon_error + sg_contact_list_response list" where
  "list_fetch_all cs api_key =
     and_then (send_request_json cs api_key ''GET'' (list_api_url None) None) (\<lambda>j.
       case json_field ''lists'' j of
         Some found \<Rightarrow>
           (case json_list contact_list_of found of
              Some ls \<Rightarrow> Inr ls
            | None \<Rightarrow> Inl (OfApplication (application_error_new ''invalid type'')))
       | None \<Rightarrow> Inl (OfApplication (application_error_new
           ''Unexpected sendgrid result: no lists key in result'')))"

text \<open>An error of the client may mean that a list of the name exists: it is looked for among all lists.\<close>

definition list_create_or_return ::
  "crates \<Rightarrow> contact_service \<Rightarrow> string \<Rightarrow> string \<Rightarrow> (big_neon_error \<Rightarrow> string) \<Rightarrow>
   big_neon_error + sg_contact_list_response"
where
  "list_create_or_return c cs api_key name show_error =
     (case and_then (and_then (send_request cs api_key ''POST'' (list_api_url None) (Some (contact_list_json c name)))
         error_for_status) (response_json cs) of
        Inr j \<Rightarrow> unwrapped (contact_list_of j)
      | Inl err \<Rightarrow>
          if is_client_error err
          then (case list_fetch_all cs api_key of
              Inl e \<Rightarrow> (if e = HandlerPanicked then Inl e else Inl (OfApplication (application_error_new (show_error e))))
            | Inr found \<Rightarrow> (case find (\<lambda>l. sgl_name l = name) found of
                Some list' \<Rightarrow> Inr list' | None \<Rightarrow> Inl OfReqwest))
          else Inl OfReqwest)"

text \<open>The service answers an addition of recipients with an empty body.\<close>

definition add_recipients ::
  "crates \<Rightarrow> contact_service \<Rightarrow> string \<Rightarrow> sg_contact_list_response \<Rightarrow> string list \<Rightarrow> big_neon_error + unit" where
  "add_recipients c cs api_key self recipient_ids =
     map_error (application_failure cs)
       (and_then (and_then (send_request cs api_key ''POST'' (recipients_api_url (decimal (sgl_id self)))
          (Some (json_text c (JArray (map JString recipient_ids))))) error_for_status) (\<lambda>_. Inr ()))"

section \<open>Errors as text\<close>

text \<open>\<open>Display\<close> of an error; \<open>cause_text\<close> renders the cause of a database error and \<open>other_text\<close> the errors
  of crates.\<close>

definition show_error :: "(cause \<Rightarrow> string) \<Rightarrow> (big_neon_error \<Rightarrow> string) \<Rightarrow> big_neon_error \<Rightarrow> string" where
  "show_error cause_text other_text e =
     (case e of
        OfApplication a \<Rightarrow> ape_reason a
      | OfAuth a \<Rightarrow> ae_reason a
      | OfDatabase d \<Rightarrow> ''['' @ int_text (err_code d) @ ''] '' @ err_message d @
          (case err_cause d of Some t \<Rightarrow> [CHR 0x0A] @ ''Caused by: '' @ cause_text t | None \<Rightarrow> [])
      | OfEnumParse p \<Rightarrow> epe_message p @ [CHR 0x0A] @ ''Type: '' @ epe_enum_type p @ [CHR 0x0A] @ ''Value: '' @
          epe_value p
      | OfPaymentProcessor p \<Rightarrow> ppe_description p @
          (case ppe_cause p of Some t \<Rightarrow> '' caused by: '' @ t | None \<Rightarrow> [])
      | OfTari t \<Rightarrow> tari_error_text t
      | _ \<Rightarrow> other_text e)"

section \<open>Work for the queue\<close>

definition create_list_payload :: "uuid \<Rightarrow> json" where
  "create_list_payload event_id = JObject [(''event_id'', JUuid event_id)]"

definition create_list_of_payload :: "json \<Rightarrow> uuid option" where
  "create_list_of_payload j = (case json_field ''event_id'' j of Some (JUuid i) \<Rightarrow> Some i | _ \<Rightarrow> None)"

record import_payload =
  ip_event_id :: uuid
  ip_execution_count :: u32

definition import_payload_new :: "uuid \<Rightarrow> import_payload" where
  "import_payload_new event_id = \<lparr>ip_event_id = event_id, ip_execution_count = 0\<rparr>"

definition import_payload_json :: "import_payload \<Rightarrow> json" where
  "import_payload_json p =
     JObject [(''event_id'', JUuid (ip_event_id p)), (''execution_count'', JNumber (uint (ip_execution_count p)))]"

text \<open>A count that is missing is zero.\<close>

definition import_of_payload :: "json \<Rightarrow> import_payload option" where
  "import_of_payload j =
     (case json_field ''event_id'' j of
        Some (JUuid i) \<Rightarrow>
          (case json_field ''execution_count'' j of
             None \<Rightarrow> Some (import_payload_new i)
           | Some k \<Rightarrow> map_option (\<lambda>n. \<lparr>ip_event_id = i, ip_execution_count = of_nat n\<rparr>) (json_number 32 k))
      | _ \<Rightarrow> None)"

definition enqueue_scheduled :: "crates \<Rightarrow> domain_action_types \<Rightarrow> json \<Rightarrow> uuid \<Rightarrow> timestamp \<Rightarrow> domain_action web" where
  "enqueue_scheduled c action_type payload event_id scheduled_at =
     on_db (action_commit (action_create None action_type None (json_text c payload) (table_name tables.Events)
       event_id scheduled_at (scheduled_at + days 1) 3))"

definition create_list_enqueue :: "crates \<Rightarrow> uuid \<Rightarrow> domain_action web" where
  "create_list_enqueue c event_id =
     bindo (on_db (gets utc_now)) (\<lambda>utc.
     enqueue_scheduled c domain_action_types.MarketingContactsCreateEventList (create_list_payload event_id)
       event_id utc)"

definition import_enqueue_scheduled :: "crates \<Rightarrow> import_payload \<Rightarrow> timestamp \<Rightarrow> domain_action web" where
  "import_enqueue_scheduled c payload scheduled_at =
     enqueue_scheduled c domain_action_types.MarketingContactsBulkEventFanListImport (import_payload_json payload)
       (ip_event_id payload) scheduled_at"

definition import_enqueue :: "crates \<Rightarrow> import_payload \<Rightarrow> domain_action web" where
  "import_enqueue c payload = bindo (on_db (gets utc_now)) (import_enqueue_scheduled c payload)"

section \<open>The executors\<close>

text \<open>What the executors use of their surroundings: the reading of a payload, the text of a date and the
  check of addresses of pages.\<close>

record surroundings =
  sur_crates :: crates
  sur_ring :: ring
  sur_contacts :: contact_service
  sur_parse :: "string \<Rightarrow> json option"
  sur_date_text :: "timestamp \<Rightarrow> string"
  sur_valid_url :: "string \<Rightarrow> bool"
  sur_show :: "big_neon_error \<Rightarrow> string"

definition panics_of :: "db_error option + 'a \<Rightarrow> big_neon_error + 'a" where
  "panics_of = map_error (\<lambda>e. case e of None \<Rightarrow> HandlerPanicked | Some d \<Rightarrow> OfDatabase d)"

definition decrypted :: "crates \<Rightarrow> ring \<Rightarrow> string \<Rightarrow> organization \<Rightarrow> organization web" where
  "decrypted c r key g = lift_result (panics_of (case organization_decrypt c r key g of
     (Inl e, _) \<Rightarrow> Inl e | (Inr _, g') \<Rightarrow> Inr g'))"

definition i64_of_u64 :: "nat \<Rightarrow> int" where
  "i64_of_u64 n = (if n < 2 ^ 63 then int n else int n - 2 ^ 64)"

text \<open>An event without a start panics.\<close>

definition ensure_event_list ::
  "surroundings \<Rightarrow> string \<Rightarrow> event_row \<Rightarrow> big_neon_error + sg_contact_list_response" where
  "ensure_event_list sur api_key event =
     (case e_event_start event of
        None \<Rightarrow> Inl HandlerPanicked
      | Some date \<Rightarrow> list_create_or_return (sur_crates sur) (sur_contacts sur) api_key
          (e_name event @ '' ('' @ sur_date_text sur date @ '')'') (sur_show sur))"

text \<open>The key of the organization of an event, if it has one.\<close>

definition contacts_key :: "surroundings \<Rightarrow> config \<Rightarrow> event_row \<Rightarrow> string option web" where
  "contacts_key sur cfg event =
     bindo (on_db (event_organization event)) (\<lambda>org.
     bindo (decrypted (sur_crates sur) (sur_ring sur) (cfg_api_keys_encryption_key cfg) org) (\<lambda>org.
     ret (org_sendgrid_api_key org)))"

definition create_event_list_job :: "surroundings \<Rightarrow> config \<Rightarrow> domain_action \<Rightarrow> unit web" where
  "create_event_list_job sur cfg action =
     (case Option.bind (sur_parse sur (da_payload action)) create_list_of_payload of
        None \<Rightarrow> fail OfSerde
      | Some event_id \<Rightarrow>
          bindo (on_db (event_find event_id)) (\<lambda>event.
          bindo (contacts_key sur cfg event) (\<lambda>key.
          case key of
            None \<Rightarrow> ret ()
          | Some api_key \<Rightarrow>
              bindo (lift_result (ensure_event_list sur api_key event)) (\<lambda>sg_list.
              bindo (if e_sendgrid_list_id event \<noteq> Some (i64_of_u64 (sgl_id sg_list))
                     then bindo (on_db (event_update (sur_valid_url sur) event
                       (no_event_attributes\<lparr>eva_sendgrid_list_id := Some (i64_of_u64 (sgl_id sg_list))\<rparr>))) (\<lambda>_. ret ())
                     else ret ()) (\<lambda>_.
              bindo (on_db (has_pending_action domain_action_types.MarketingContactsBulkEventFanListImport
                (table_name tables.Events) event_id)) (\<lambda>pending.
              if \<not> pending
              then bindo (import_enqueue (sur_crates sur) (import_payload_new event_id)) (\<lambda>_. ret ())
              else ret ()))))))"

definition is_event_on_sale :: "timestamp \<Rightarrow> event_row \<Rightarrow> bool" where
  "is_event_on_sale utc event \<longleftrightarrow> e_status event = event_status.Published \<and>
     (case e_event_end event of None \<Rightarrow> True | Some t \<Rightarrow> t > utc)"

definition hours_delay :: int where
  "hours_delay = 12"

text \<open>The count is a \<open>u32\<close> that wraps.\<close>

definition enqueue_delayed_domain_action :: "surroundings \<Rightarrow> import_payload \<Rightarrow> domain_action web" where
  "enqueue_delayed_domain_action sur payload =
     bindo (on_db (gets utc_now)) (\<lambda>utc.
     import_enqueue_scheduled (sur_crates sur) (payload\<lparr>ip_execution_count := ip_execution_count payload + 1\<rparr>)
       (utc + minutes (60 * hours_delay)))"

definition contact_of_fan :: "display_fan \<Rightarrow> sg_contact list" where
  "contact_of_fan fan = (case df_email fan of
     Some email \<Rightarrow> [\<lparr>sgo_email = email, sgo_first_name = df_first_name fan, sgo_last_name = df_last_name fan\<rparr>]
   | None \<Rightarrow> [])"

text \<open>The fans go to the service before the list of the event is looked for.\<close>

definition import_fans :: "surroundings \<Rightarrow> string \<Rightarrow> event_row \<Rightarrow> display_fan list \<Rightarrow> big_neon_error + unit" where
  "import_fans sur api_key event fans =
     and_then (contact_create_many (sur_crates sur) (sur_contacts sur) api_key (concat (map contact_of_fan fans)))
       (\<lambda>result. case e_sendgrid_list_id event of
          None \<Rightarrow> Inl (OfApplication (application_error_new
            ''Event has no sendgrid list id. Cannot add recipients to list''))
        | Some list_id \<Rightarrow>
            and_then (list_get_by_id (sur_contacts sur) api_key (as_u64 list_id)) (\<lambda>sg_list.
            if sgr_persisted_recipients result \<noteq> []
            then add_recipients (sur_crates sur) (sur_contacts sur) api_key sg_list (sgr_persisted_recipients result)
            else Inr ()))"

definition bulk_import_job :: "surroundings \<Rightarrow> config \<Rightarrow> domain_action \<Rightarrow> unit web" where
  "bulk_import_job sur cfg action =
     (case Option.bind (sur_parse sur (da_payload action)) import_of_payload of
        None \<Rightarrow> fail OfSerde
      | Some payload \<Rightarrow>
          bindo (on_db (event_find (ip_event_id payload))) (\<lambda>event.
          bindo (contacts_key sur cfg event) (\<lambda>key.
          case key of
            None \<Rightarrow> ret ()
          | Some api_key \<Rightarrow>
              bindo (on_db (event_search_fans event None None None None None)) (\<lambda>(fans, total').
              bindo (if total' > 0 then lift_result (import_fans sur api_key event fans) else ret ()) (\<lambda>_.
              bindo (on_db (gets utc_now)) (\<lambda>utc.
              if is_event_on_sale utc event
              then bindo (enqueue_delayed_domain_action sur payload) (\<lambda>_. ret ())
              else ret ()))))))"

text \<open>An executor for the monitor: an error becomes its text.\<close>

definition executor_of :: "surroundings \<Rightarrow> (domain_action \<Rightarrow> unit web) \<Rightarrow> executor" where
  "executor_of sur job = (\<lambda>action s.
     case job action \<lparr>ss_db = s, ss_committed = s, ss_calls = []\<rparr> of
       (Inr _, w) \<Rightarrow> (None, ss_db w)
     | (Inl e, w) \<Rightarrow> (Some (sur_show sur e), ss_db w))"

definition send_communication_job ::
  "mail_service \<Rightarrow> (string \<Rightarrow> string \<Rightarrow> string \<Rightarrow> string \<Rightarrow> string \<Rightarrow> big_neon_error + unit) \<Rightarrow>
   (string \<Rightarrow> communication option) \<Rightarrow> config \<Rightarrow> domain_action \<Rightarrow> unit web"
where
  "send_communication_job ms twilio parse cfg action =
     (case send_async ms twilio parse action cfg of Some r \<Rightarrow> lift_result r | None \<Rightarrow> fail HandlerPanicked)"

definition find_executor ::
  "surroundings \<Rightarrow> mail_service \<Rightarrow> (string \<Rightarrow> string \<Rightarrow> string \<Rightarrow> string \<Rightarrow> string \<Rightarrow> big_neon_error + unit) \<Rightarrow>
   (string \<Rightarrow> communication option) \<Rightarrow> config \<Rightarrow> domain_action_types \<Rightarrow> executor"
where
  "find_executor sur ms twilio parse cfg action_type =
     (case action_type of
        domain_action_types.Communication \<Rightarrow> executor_of sur (send_communication_job ms twilio parse cfg)
      | domain_action_types.MarketingContactsBulkEventFanListImport \<Rightarrow> executor_of sur (bulk_import_job sur cfg)
      | domain_action_types.MarketingContactsCreateEventList \<Rightarrow> executor_of sur (create_event_list_job sur cfg))"

section \<open>The import goes on while an event is on sale\<close>

text \<open>A payload reads back as it was written.\<close>

lemma create_list_payload_read: "create_list_of_payload (create_list_payload i) = Some i"
  by (simp add: create_list_of_payload_def create_list_payload_def json_field_def)

lemma import_payload_read: "import_of_payload (import_payload_json p) = Some p"
  by (simp add: import_of_payload_def import_payload_json_def json_field_def json_number_def
      uint_lt2p [where x = "ip_execution_count p", simplified])

lemma fans_only_read: "snd (event_search_fans ev q page limit f d s) = s"
  by (simp add: event_search_fans_def Let_def lift_result_run)

lemma action_commit_Inr:
  assumes "action_commit a s = (Inr r, t)"
  shows "db_domain_actions t = db_domain_actions s @ [action_row a (uuid_source s (uuids_drawn s)) (now s)]"
  using assms by (auto simp: action_commit_def bindo_Inr_iff draw_uuid_def insert_checked_Inr_iff gets_def)

lemma enqueue_scheduled_Inr:
  assumes "enqueue_scheduled c ty payload i scheduled_at w = (Inr r, w')"
  shows "db_domain_actions (ss_db w') = db_domain_actions (ss_db w) @
    [action_row (action_create None ty None (json_text c payload) (table_name tables.Events) i scheduled_at
       (scheduled_at + days 1) 3) (uuid_source (ss_db w) (uuids_drawn (ss_db w))) (now (ss_db w))]"
proof -
  obtain q t where "action_commit (action_create None ty None (json_text c payload) (table_name tables.Events) i
      scheduled_at (scheduled_at + days 1) 3) (ss_db w) = (q, t)" by fastforce
  then show ?thesis
    using assms by (cases q) (auto simp: enqueue_scheduled_def on_db_run dest: action_commit_Inr)
qed

text \<open>C30: an import of fans that ran well, for an event that is on sale and whose organization has a key for the
  contact lists, has queued exactly one action, the next import of the same event with its count raised by one,
  twelve hours later, with a payload that reads back as that. For an event that is over or not published, and
  for an organization without a key, it leaves the rows alone.\<close>

theorem import_runs_again_while_on_sale:
  assumes "bulk_import_job sur cfg a (untouched s) = (Inr (), w)"
    and "Option.bind (sur_parse sur (da_payload a)) import_of_payload = Some p"
    and "event_find (ip_event_id p) s = (Inr ev, s)"
    and "contacts_key sur cfg ev (untouched s) = (Inr key, untouched s)"
  shows "if key \<noteq> None \<and> is_event_on_sale (utc_now s) ev
    then \<exists>r. db_domain_actions (ss_db w) = db_domain_actions s @ [r] \<and>
      da_domain_action_type r = domain_action_types.MarketingContactsBulkEventFanListImport \<and>
      da_status r = domain_action_status.Pending \<and> da_main_table_id r = ip_event_id p \<and>
      da_scheduled_at r = utc_now s + minutes 720 \<and>
      (\<exists>j. da_payload r = json_text (sur_crates sur) j \<and>
         import_of_payload j = Some (p\<lparr>ip_execution_count := ip_execution_count p + 1\<rparr>))
    else ss_db w = s"
proof -
  obtain fans where fans: "event_search_fans ev None None None None None s = (Inr fans, s)"
    by (auto simp: event_search_fans_def)
  show ?thesis
  proof (cases key)
    case None
    then show ?thesis using assms(1) by (auto simp: bulk_import_job_def assms(2-4) bindo_run on_db_run ret_run)
  next
    case (Some k)
    from assms(1) have rest: "(if is_event_on_sale (utc_now s) ev
        then bindo (enqueue_delayed_domain_action sur p) (\<lambda>_. ret ()) else ret ()) (untouched s) = (Inr (), w)"
      by (auto simp: bulk_import_job_def assms(2-4) Some on_db_run fans bindo_Inr_iff lift_result_run ret_run
          split: if_splits sum.splits prod.splits)
    show ?thesis
    proof (cases "is_event_on_sale (utc_now s) ev")
      case True
      with rest obtain r where "import_enqueue_scheduled (sur_crates sur)
          (p\<lparr>ip_execution_count := ip_execution_count p + 1\<rparr>) (utc_now s + minutes 720) (untouched s) = (Inr r, w)"
        by (auto simp: enqueue_delayed_domain_action_def bindo_Inr_iff on_db_run ret_run hours_delay_def)
      from enqueue_scheduled_Inr [OF this [unfolded import_enqueue_scheduled_def]] True Some show ?thesis
        using import_payload_read by (auto simp: action_row_def action_create_def)
    next
      case False
      with rest have "w = untouched s" by (simp add: ret_run)
      with False show ?thesis by simp
    qed
  qed
qed

definition sample_config :: config where
  "sample_config =
     \<lparr>cfg_allowed_origins = ''*'', cfg_front_end_url = ''http://localhost'', cfg_api_url = ''127.0.0.1'',
      cfg_api_port = ''8088'', cfg_app_name = ''Big Neon'', cfg_database_url = ''postgres'',
      cfg_database_pool_size = 20, cfg_domain = ''api.bigneon.com'', cfg_environment = environment.Test,
      cfg_facebook_app_id = None, cfg_facebook_app_secret = None, cfg_google_recaptcha_secret_key = None,
      cfg_http_keep_alive = 75, cfg_block_external_comms = True, cfg_primary_currency = ''usd'',
      cfg_stripe_secret_key = [], cfg_token_secret = ''secret'', cfg_token_issuer = ''issuer'',
      cfg_tari_client = test_tari_client ''tari'', cfg_communication_default_source_email = ''a@b.co'',
      cfg_communication_default_source_phone = ''1'', cfg_sendgrid_api_key = [],
      cfg_sendgrid_template_bn_refund = [], cfg_sendgrid_template_bn_user_registered = [],
      cfg_sendgrid_template_bn_purchase_completed = [], cfg_sendgrid_template_bn_org_invite = [],
      cfg_sendgrid_template_bn_transfer_tickets = [], cfg_sendgrid_template_bn_password_reset = [],
      cfg_sendgrid_template_bn_user_invite = [], cfg_spotify_auth_token = None, cfg_twilio_account_id = [],
      cfg_twilio_api_key = [], cfg_api_keys_encryption_key = [], cfg_jwt_expiry_time = 15\<rparr>"

definition sample_surroundings :: surroundings where
  "sample_surroundings =
     \<lparr>sur_crates = sample_crates, sur_ring = sample_ring,
      sur_contacts = \<lparr>cs_send = \<lambda>_ _ _ _. Inl ''offline'', cs_json = \<lambda>t. Inl t, cs_status_text = \<lambda>_. []\<rparr>,
      sur_parse = \<lambda>_. Some (import_payload_json \<lparr>ip_event_id = 3, ip_execution_count = 4\<rparr>),
      sur_date_text = \<lambda>_. [], sur_valid_url = \<lambda>_. True, sur_show = \<lambda>_. []\<rparr>"

definition sample_fans :: db where
  "sample_fans = blank_db\<lparr>db_events := [blank_event 3 7],
     db_organizations := [(blank_organization 7 8)\<lparr>org_sendgrid_api_key := Some ''key''\<rparr>]\<rparr>"

theorem import_runs_again_while_on_sale_witness:
  "\<exists>w. bulk_import_job sample_surroundings sample_config sample_action (untouched sample_fans) = (Inr (), w) \<and>
     map da_scheduled_at (db_domain_actions (ss_db w)) = [utc_now sample_fans + minutes 720]"
proof -
  let ?sur = sample_surroundings and ?p = "\<lparr>ip_event_id = 3, ip_execution_count = 4\<rparr>"
  have payload: "Option.bind (sur_parse ?sur (da_payload sample_action)) import_of_payload = Some ?p"
    using import_payload_read [of ?p] by (simp add: sample_surroundings_def)
  have event: "event_find (ip_event_id ?p) sample_fans = (Inr (blank_event 3 7), sample_fans)"
    by (simp add: event_find_def first_where_run sample_fans_def blank_event_def)
  have key: "contacts_key ?sur sample_config (blank_event 3 7) (untouched sample_fans) =
      (Inr (Some ''key''), untouched sample_fans)"
    by (simp add: contacts_key_def bindo_run on_db_run event_organization_def organization_find_def first_where_run
        sample_fans_def blank_defs decrypted_def organization_decrypt_def sample_config_def ret_run lift_result_run
        panics_of_def map_error_def)
  have ran: "fst (bulk_import_job ?sur sample_config sample_action (untouched sample_fans)) = Inr ()"
    by code_simp
  define w where "w = snd (bulk_import_job ?sur sample_config sample_action (untouched sample_fans))"
  have run: "bulk_import_job ?sur sample_config sample_action (untouched sample_fans) = (Inr (), w)"
    using ran by (simp add: w_def prod_eq_iff)
  have "is_event_on_sale (utc_now sample_fans) (blank_event 3 7)"
    by (simp add: is_event_on_sale_def blank_event_def)
  then show ?thesis
    using import_runs_again_while_on_sale [OF run payload event key] run by (auto simp: sample_fans_def blank_db_def)
qed

end
