(* ===== verification/Organization_Requests.thy ===== *)
theory Organization_Requests imports Marketing begin

text \<open>
  The requests on organizations, their members and their invitations: \<open>api/src/controllers/organizations.rs\<close>
  and \<open>organization_invites.rs\<close>. The last sections show what it takes to give somebody a role, and that
  a request that gives no role at all is checked by nothing.
\<close>

section \<open>Organizations\<close>

record new_organization_request =
  nor_name :: string
  nor_client_event_fee_in_cents :: "int option"
  nor_company_event_fee_in_cents :: "int option"
  nor_address :: "string option"
  nor_city :: "string option"
  nor_state :: "string option"
  nor_country :: "string option"
  nor_postal_code :: "string option"
  nor_phone :: "string option"
  nor_sendgrid_api_key :: "string option"
  nor_google_ga_key :: "string option"
  nor_facebook_pixel_key :: "string option"

definition organizations_index_for_all ::
  "paging_parameters \<Rightarrow> auth_user \<Rightarrow> organization payload http_response web" where
  "organizations_index_for_all query_parameters user =
     bindo (requires_scope user OrgAdmin) (\<lambda>_.
     bindo (on_db organizations_all) (\<lambda>organizations.
     http_ok (payload_from_data organizations (parameters_page query_parameters)
       (parameters_limit query_parameters))))"

definition organizations_index ::
  "paging_parameters \<Rightarrow> auth_user \<Rightarrow> organization payload http_response web" where
  "organizations_index query_parameters user =
     bindo (has_scope user OrgAdmin) (\<lambda>admin.
     if admin then organizations_index_for_all query_parameters user
     else
       bindo (on_db (all_linked_to_user (au_id user))) (\<lambda>organizations.
       http_ok (payload_from_data organizations (parameters_page query_parameters)
         (parameters_limit query_parameters))))"

text \<open>The scope is asked for in the organization of the path.\<close>

definition organization_guard :: "auth_user \<Rightarrow> scopes \<Rightarrow> uuid \<Rightarrow> organization web" where
  "organization_guard user scope id' =
     bindo (on_db (organization_find id')) (\<lambda>organization.
     bindo (requires_scope_for_organization user scope organization) (\<lambda>_. ret organization))"

definition organizations_show ::
  "crates \<Rightarrow> ring \<Rightarrow> config \<Rightarrow> uuid \<Rightarrow> auth_user \<Rightarrow> organization http_response web" where
  "organizations_show c r cfg id' user =
     bindo (organization_guard user OrgRead id') (\<lambda>organization.
     bindo (decrypted c r (cfg_api_keys_encryption_key cfg) organization) http_ok)"

definition new_organization_of :: "new_organization_request \<Rightarrow> uuid \<Rightarrow> new_organization" where
  "new_organization_of req fee_schedule_id =
     \<lparr>norg_name = nor_name req, norg_fee_schedule_id = fee_schedule_id, norg_address = nor_address req,
      norg_city = nor_city req, norg_state = nor_state req, norg_country = nor_country req,
      norg_postal_code = nor_postal_code req, norg_phone = nor_phone req,
      norg_sendgrid_api_key = nor_sendgrid_api_key req, norg_google_ga_key = nor_google_ga_key req,
      norg_facebook_pixel_key = nor_facebook_pixel_key req,
      norg_client_event_fee_in_cents = nor_client_event_fee_in_cents req,
      norg_company_event_fee_in_cents = nor_company_event_fee_in_cents req\<rparr>"

definition organizations_create ::
  "crates \<Rightarrow> ring \<Rightarrow> config \<Rightarrow> new_organization_request \<Rightarrow> auth_user \<Rightarrow> organization http_response web" where
  "organizations_create c r cfg req user =
     bindo (requires_scope user OrgAdmin) (\<lambda>_.
     bindo (on_db (fee_schedule_commit (fee_schedule_create (nor_name req @ '' default fees'')
       [\<lparr>nfsr_min_price_in_cents = 0, nfsr_company_fee_in_cents = 0, nfsr_client_fee_in_cents = 0\<rparr>]) (au_id user)))
       (\<lambda>fee_schedule.
     bindo (on_db (organization_commit c r (new_organization_of req (fs_id fee_schedule))
       (cfg_api_keys_encryption_key cfg) (au_id user))) (\<lambda>organization.
     bindo (decrypted c r (cfg_api_keys_encryption_key cfg) organization) (\<lambda>organization.
     bindo (on_db (create_wallet_for_organization (org_id organization) ''Default'')) (\<lambda>_.
     http_created organization)))))"

text \<open>A new key of the mailing service makes lists for the events to come.\<close>

definition enqueue_create_marketing_list :: "crates \<Rightarrow> organization \<Rightarrow> unit web" where
  "enqueue_create_marketing_list c organization =
     bindo (on_db (upcoming_events organization)) (\<lambda>events.
     for_each (\<lambda>event. bindo (create_list_enqueue c (e_id event)) (\<lambda>_. ret ())) events)"

definition organizations_update ::
  "crates \<Rightarrow> ring \<Rightarrow> config \<Rightarrow> uuid \<Rightarrow> organization_attributes \<Rightarrow> auth_user \<Rightarrow> organization http_response web" where
  "organizations_update c r cfg id' attributes user =
     bindo (organization_guard user OrgWrite id') (\<lambda>organization.
     bindo (on_db (organization_update c r organization attributes (cfg_api_keys_encryption_key cfg))) (\<lambda>updated.
     bindo (decrypted c r (cfg_api_keys_encryption_key cfg) organization) (\<lambda>organization.
     bindo (decrypted c r (cfg_api_keys_encryption_key cfg) updated) (\<lambda>updated.
     bindo (case (org_sendgrid_api_key organization, org_sendgrid_api_key updated) of
         (Some old_key, Some new_key) \<Rightarrow>
           if new_key \<noteq> old_key then enqueue_create_marketing_list c updated else ret ()
       | (None, Some _) \<Rightarrow> enqueue_create_marketing_list c updated
       | (_, None) \<Rightarrow> ret ()) (\<lambda>_.
     http_ok updated)))))"

definition organizations_add_venue :: "uuid \<Rightarrow> new_venue \<Rightarrow> auth_user \<Rightarrow> venue http_response web" where
  "organizations_add_venue id' new_venue user =
     bindo (organization_guard user OrgWrite id') (\<lambda>_.
     bindo (on_db (venue_commit (new_venue\<lparr>nv_organization_id := Some id'\<rparr>))) http_created)"

definition organizations_add_artist ::
  "(string \<Rightarrow> bool) \<Rightarrow> uuid \<Rightarrow> new_artist \<Rightarrow> auth_user \<Rightarrow> artist http_response web" where
  "organizations_add_artist valid_url id' new_artist user =
     bindo (organization_guard user OrgWrite id') (\<lambda>_.
     bindo (on_db (artist_commit valid_url (new_artist\<lparr>na_organization_id := Some id'\<rparr>))) http_created)"

section \<open>Members\<close>

text \<open>The scope that giving a role asks for; the other roles are none of an organization.\<close>

definition role_scope :: "roles \<Rightarrow> scopes option" where
  "role_scope role =
     (case role of
        roles.OrgOwner \<Rightarrow> Some scopes.OrgAdmin
      | roles.OrgAdmin \<Rightarrow> Some OrgAdminUsers
      | roles.OrgMember \<Rightarrow> Some OrgUsers
      | roles.DoorPerson \<Rightarrow> Some OrgUsers
      | roles.OrgBoxOffice \<Rightarrow> Some OrgUsers
      | _ \<Rightarrow> None)"

definition requires_roles :: "auth_user \<Rightarrow> organization \<Rightarrow> unit web \<Rightarrow> roles list \<Rightarrow> unit web" where
  "requires_roles user organization other roles =
     for_each (\<lambda>role. case role_scope role of
         Some scope \<Rightarrow> requires_scope_for_organization user scope organization
       | None \<Rightarrow> other) roles"

definition add_or_replace_user :: "uuid \<Rightarrow> uuid \<Rightarrow> roles list \<Rightarrow> auth_user \<Rightarrow> unit http_response web" where
  "add_or_replace_user id' user_id roles user =
     bindo (on_db (organization_find id')) (\<lambda>organization.
     bindo (requires_roles user organization (forbidden ''Role is not allowed for this user'') roles) (\<lambda>_.
     bindo (on_db (add_user organization user_id roles)) (\<lambda>_.
     ret \<lparr>hr_status = 201, hr_body = body.Empty\<rparr>)))"

definition organizations_remove_user :: "uuid \<Rightarrow> uuid \<Rightarrow> auth_user \<Rightarrow> nat http_response web" where
  "organizations_remove_user id' user_id user =
     bindo (organization_guard user OrgUsers id') (\<lambda>organization.
     bindo (on_db (remove_user organization user_id)) http_ok)"

record display_organization_user =
  dou_user_id :: "uuid option"
  dou_first_name :: "string option"
  dou_last_name :: "string option"
  dou_email :: "string option"
  dou_roles :: "roles list"
  dou_invite_or_member :: string
  dou_invite_id :: "uuid option"

definition list_organization_members ::
  "uuid \<Rightarrow> paging_parameters \<Rightarrow> auth_user \<Rightarrow> display_organization_user payload http_response web" where
  "list_organization_members id' query_parameters user =
     bindo (organization_guard user OrgRead id') (\<lambda>organization.
     bindo (on_db (organization_members organization)) (\<lambda>users.
     let members = map (\<lambda>(m, u). \<lparr>dou_user_id = Some (u_id u), dou_first_name = u_first_name u,
       dou_last_name = u_last_name u, dou_email = u_email u, dou_roles = ou_role m,
       dou_invite_or_member = ''member'', dou_invite_id = None\<rparr>) users in
     bindo (on_db (pending_invites organization)) (\<lambda>invites.
     let invited = map (\<lambda>inv. \<lparr>dou_user_id = inv_user_id inv, dou_first_name = None, dou_last_name = None,
       dou_email = Some (inv_user_email inv), dou_roles = inv_roles inv, dou_invite_or_member = ''invite'',
       dou_invite_id = Some (inv_id inv)\<rparr>) invites in
     http_ok (payload_from_data (members @ invited) (parameters_page query_parameters)
       (parameters_limit query_parameters)))))"

record fee_schedule_with_ranges =
  fsw_id :: uuid
  fsw_name :: string
  fsw_version :: int
  fsw_created_at :: timestamp
  fsw_ranges :: "fee_schedule_range list"

definition with_ranges :: "fee_schedule \<Rightarrow> fee_schedule_range list \<Rightarrow> fee_schedule_with_ranges" where
  "with_ranges fee_schedule ranges =
     \<lparr>fsw_id = fs_id fee_schedule, fsw_name = fs_name fee_schedule, fsw_version = fs_version fee_schedule,
      fsw_created_at = fs_created_at fee_schedule, fsw_ranges = ranges\<rparr>"

definition show_fee_schedule :: "uuid \<Rightarrow> auth_user \<Rightarrow> fee_schedule_with_ranges http_response web" where
  "show_fee_schedule id' user =
     bindo (organization_guard user OrgWrite id') (\<lambda>organization.
     bindo (on_db (fee_schedule_find (org_fee_schedule_id organization))) (\<lambda>fee_schedule.
     bindo (on_db (fee_schedule_ranges fee_schedule)) (\<lambda>ranges.
     http_ok (with_ranges fee_schedule ranges))))"

definition organizations_add_fee_schedule ::
  "uuid \<Rightarrow> new_fee_schedule \<Rightarrow> auth_user \<Rightarrow> fee_schedule_with_ranges http_response web" where
  "organizations_add_fee_schedule id' json user =
     bindo (requires_scope user OrgAdmin) (\<lambda>_.
     bindo (on_db (fee_schedule_commit json (au_id user))) (\<lambda>fee_schedule.
     bindo (on_db (fee_schedule_ranges fee_schedule)) (\<lambda>ranges.
     bindo (on_db (organization_find id')) (\<lambda>organization.
     bindo (on_db (add_fee_schedule organization fee_schedule)) (\<lambda>_.
     http_created (with_ranges fee_schedule ranges))))))"

definition fan_sort_field_variants :: "(string \<times> fan_sort_field) list" where
  "fan_sort_field_variants =
     [(''FirstName'', SortFirstName), (''LastName'', SortLastName), (''Email'', SortEmail), (''Phone'', SortPhone),
      (''Orders'', SortOrders), (''FirstOrder'', SortFirstOrder), (''LastOrder'', SortLastOrder),
      (''Revenue'', SortRevenue)]"

text \<open>A field that cannot be read is the last order.\<close>

definition fan_sort_of :: "string \<Rightarrow> fan_sort_field" where
  "fan_sort_of s = (case enum_from_str fan_sort_field_variants ''FanSortField'' s of
     Inr f \<Rightarrow> f | Inl _ \<Rightarrow> SortLastOrder)"

definition organizations_search_fans ::
  "uuid \<Rightarrow> paging_parameters \<Rightarrow> auth_user \<Rightarrow> display_fan payload http_response web" where
  "organizations_search_fans id' query user =
     bindo (organization_guard user OrgFans id') (\<lambda>org.
     bindo (on_db (organization_search_fans org (get_tag query ''query'') (parameters_page query)
       (parameters_limit query) (case pp_sort query of Some s \<Rightarrow> fan_sort_of s | None \<Rightarrow> SortLastOrder)
       (unwrap_or (pp_dir query) Desc))) http_ok)"

section \<open>Invitations\<close>

definition find_invited :: "string \<Rightarrow> (string \<times> uuid option) web" where
  "find_invited email =
     bindo (on_db (optional_op (find_by_email email))) (\<lambda>maybe_a_user.
     case maybe_a_user of
       Some user \<Rightarrow> ret (full_name user, Some (u_id user))
     | None \<Rightarrow> ret (''New user'', None))"

definition expire_active_invite :: "string \<Rightarrow> unit web" where
  "expire_active_invite email =
     bindo (on_db (find_active_invite_by_email email)) (\<lambda>active.
     case active of
       Some i \<Rightarrow> bindo (on_db (change_invite_status i 0)) (\<lambda>_. ret ())
     | None \<Rightarrow> ret ())"

definition invites_create ::
  "crates \<Rightarrow> config \<Rightarrow> uuid \<Rightarrow> string \<Rightarrow> roles list \<Rightarrow> auth_user \<Rightarrow> organization_invite http_response web" where
  "invites_create c cfg id' user_email roles auth_user =
     bindo (on_db (organization_find id')) (\<lambda>organization.
     bindo (requires_roles auth_user organization
       (on_db (validation_error_op ''role'' ''Role must be either OrgOwner or OrgMember'')) roles) (\<lambda>_.
     bindo (find_invited user_email) (\<lambda>(recipient, user_id).
     bindo (expire_active_invite user_email) (\<lambda>_.
     bindo (on_db (invite_commit (invite_create id' (au_id auth_user) user_email user_id roles))) (\<lambda>invite.
     bindo (on_db (organization_find (inv_organization_id invite))) (\<lambda>organization.
     bindo (invite_user_to_organization_email c cfg invite organization recipient) (\<lambda>_.
     http_created invite)))))))"

definition invites_index :: "uuid \<Rightarrow> paging_parameters \<Rightarrow> auth_user \<Rightarrow> display_invite payload http_response web" where
  "invites_index id' query_parameters auth_user =
     bindo (organization_guard auth_user OrgUsers id') (\<lambda>_.
     bindo (on_db (find_pending_by_organization_paged id' (parameters_page query_parameters)
       (parameters_limit query_parameters))) http_ok)"

text \<open>The organization is that of the invitation, whatever the path says.\<close>

definition invites_destroy :: "uuid \<Rightarrow> auth_user \<Rightarrow> unit http_response web" where
  "invites_destroy invite_id auth_user =
     bindo (on_db (invite_find invite_id)) (\<lambda>invite.
     bindo (on_db (invite_organization invite)) (\<lambda>organization.
     bindo (requires_roles auth_user organization
       (requires_scope_for_organization auth_user scopes.OrgAdmin organization) (inv_roles invite)) (\<lambda>_.
     bindo (on_db (invite_destroy invite)) (\<lambda>_. http_ok ()))))"

definition invites_view :: "uuid \<Rightarrow> display_invite http_response web" where
  "invites_view token = bindo (on_db (get_invite_display token)) http_ok"

definition valid_for_acceptance :: "organization_invite \<Rightarrow> auth_user \<Rightarrow> bool" where
  "valid_for_acceptance invite_details u =
     (case inv_user_id invite_details of
        Some user_id \<Rightarrow> user_id = au_id u
      | None \<Rightarrow> (case au_email u of Some email \<Rightarrow> inv_user_email invite_details = email | None \<Rightarrow> False))"

definition accept_request :: "uuid \<Rightarrow> auth_user option \<Rightarrow> unit http_response web" where
  "accept_request security_token user =
     bindo (on_db (find_by_token security_token)) (\<lambda>invite_details.
     case user of
       Some u \<Rightarrow>
         if valid_for_acceptance invite_details u
         then
           bindo (on_db (change_invite_status invite_details 1)) (\<lambda>invite_details.
           bindo (on_db (organization_find (inv_organization_id invite_details))) (\<lambda>org.
           bindo (on_db (add_user org (au_id u) (inv_roles invite_details))) (\<lambda>_.
           http_finish)))
         else unauthorized
     | None \<Rightarrow> unauthorized)"

section \<open>What it takes to give a role\<close>

lemma organization_find_run:
  "organization_find i s = (case find (\<lambda>g. org_id g = i) (db_organizations s) of
     Some g \<Rightarrow> Inr g | None \<Rightarrow> fst (organization_find i s), s)"
  by (simp add: organization_find_def first_where_run split: option.split)

lemma requires_roles_Inr:
  assumes "requires_roles user g (fail e) rs w = (Inr (), w')"
  shows "w' = w \<and> list_all (\<lambda>role. \<exists>scope. role_scope role = Some scope \<and> granted (ss_db w) user scope (Some g)) rs"
  using assms
  by (induction rs)
    (auto simp: requires_roles_def ret_run bindo_Inr_iff fail_run requires_scope_for_organization_run
      split: option.splits if_splits)

lemma add_user_request_Inr:
  assumes "add_or_replace_user i target rs user (untouched s) = (Inr response, w)"
    and "distinct (map ou_id (db_organization_users s))"
  shows "\<exists>g. organization_find i s = (Inr g, s) \<and>
    list_all (\<lambda>role. \<exists>scope. role_scope role = Some scope \<and> granted s user scope (Some g)) rs \<and>
    roles_of (ss_db w) (target, i) = Some rs \<and>
    (\<forall>k. k \<noteq> (target, i) \<longrightarrow> roles_of (ss_db w) k = roles_of s k)"
proof -
  obtain g where g: "organization_find i s = (Inr g, s)" and "org_id g = i"
    using assms(1) by (auto simp: add_or_replace_user_def bindo_Inr_iff on_db_run organization_find_def
        first_where_run split: option.splits dest: find_SomeD)
  with assms(1) obtain w1 m where
    roles: "requires_roles user g (forbidden ''Role is not allowed for this user'') rs (untouched s) = (Inr (), w1)"
    and add: "on_db (add_user g target rs) w1 = (Inr m, w)"
    by (auto simp: add_or_replace_user_def bindo_Inr_iff on_db_run ret_run)
  from requires_roles_Inr [OF roles [unfolded forbidden_def]] have w1: "w1 = untouched s"
    and scopes: "list_all (\<lambda>role. \<exists>scope. role_scope role = Some scope \<and> granted s user scope (Some g)) rs"
    by auto
  from add obtain t where "add_user g target rs s = (Inr m, t)" and "ss_db w = t"
    by (auto simp: w1 on_db_run split: sum.splits) (metis prod.collapse)
  from add_user_Inr [OF this(1) assms(2)] this(2) show ?thesis
    using g scopes \<open>org_id g = i\<close> by auto
qed

text \<open>C31: a request to make somebody a member with some roles either answers 201, and then the requester
  holds, for each of the roles, the scope that giving this role asks for in the organization, the person
  has exactly those roles and no other membership has changed; or it leaves all memberships as they were.\<close>

theorem giving_roles_needs_scopes:
  assumes "distinct (map ou_id (db_organization_users s))"
  shows "case run_request (add_or_replace_user i target rs user) s of (response, w) \<Rightarrow>
    if hr_status response = 201
    then (\<exists>g. organization_find i s = (Inr g, s) \<and>
        list_all (\<lambda>role. \<exists>scope. role_scope role = Some scope \<and> granted s user scope (Some g)) rs) \<and>
      roles_of (ss_db w) (target, i) = Some rs \<and> (\<forall>k. k \<noteq> (target, i) \<longrightarrow> roles_of (ss_db w) k = roles_of s k)
    else db_organization_users (ss_db w) = db_organization_users s"
proof -
  obtain res w where run: "add_or_replace_user i target rs user (untouched s) = (res, w)" by fastforce
  show ?thesis
  proof (cases res)
    case (Inl e)
    have "steps same_committed (add_or_replace_user i target rs user)"
      unfolding add_or_replace_user_def requires_roles_def forbidden_def
      by (auto intro!: never_commits split: option.split)
    from failed_request_rolled_back [OF this run [unfolded Inl]]
    obtain w' where "run_request (add_or_replace_user i target rs user) s = (to_response e, w')"
      and "ss_db w' = roll_back_to s (ss_db w)" by blast
    then show ?thesis by (simp add: roll_back_to_def error_status)
  next
    case (Inr response)
    have "hr_status response = 201"
      using run [unfolded Inr] by (auto simp: add_or_replace_user_def bindo_Inr_iff ret_run)
    then show ?thesis
      using add_user_request_Inr [OF run [unfolded Inr] assms] run [unfolded Inr]
      by (auto simp: run_request_def bindo_run begin_transaction_def commit_transaction_def)
  qed
qed

definition sample_boss :: auth_user where
  "sample_boss = (auth_user_new (blank_user 1) None ''/organizations'' ''POST'')
     \<lparr>au_global_scopes := [scope_to_string OrgUsers]\<rparr>"

theorem giving_roles_needs_scopes_witness:
  "\<exists>w. run_request (add_or_replace_user 7 1 [roles.OrgMember] sample_boss) sample_club =
      (\<lparr>hr_status = 201, hr_body = body.Empty\<rparr>, w) \<and> roles_of (ss_db w) (1, 7) = Some [roles.OrgMember] \<and>
     hr_status (fst (run_request (add_or_replace_user 7 1 [roles.OrgOwner] sample_boss) sample_club)) = 401"
proof -
  have ids: "distinct (map ou_id (db_organization_users sample_club))"
    by (simp add: sample_club_def blank_db_def)
  have "fst (run_request (add_or_replace_user 7 1 [roles.OrgMember] sample_boss) sample_club) =
      \<lparr>hr_status = 201, hr_body = body.Empty\<rparr>"
    and refused: "hr_status (fst (run_request (add_or_replace_user 7 1 [roles.OrgOwner] sample_boss) sample_club)) = 401"
    by code_simp+
  then obtain w where run: "run_request (add_or_replace_user 7 1 [roles.OrgMember] sample_boss) sample_club =
      (\<lparr>hr_status = 201, hr_body = body.Empty\<rparr>, w)"
    by (metis prod.collapse)
  with giving_roles_needs_scopes [OF ids, where i = 7 and target = 1 and rs = "[roles.OrgMember]" and user = sample_boss] refused show ?thesis by auto
qed

text \<open>Without a role in the list there is nothing to check: any signed-in user takes all roles of any member
  away.\<close>

lemma anyone_takes_all_roles:
  assumes "organization_find i s = (Inr g, s)" and "distinct (map ou_id (db_organization_users s))"
    and "m \<in> set (db_organization_users s)" and "membership m = (target, i)"
  shows "\<exists>w. run_request (add_or_replace_user i target [] user) s = (\<lparr>hr_status = 201, hr_body = body.Empty\<rparr>, w) \<and>
    roles_of (ss_db w) (target, i) = Some []"
proof -
  have "org_id g = i" using assms(1) by (auto simp: organization_find_def first_where_run split: option.splits
        dest: find_SomeD)
  obtain m' where found: "find (\<lambda>m. membership m = (target, i)) (db_organization_users s) = Some m'"
    using assms(3,4) by (cases "find (\<lambda>m. membership m = (target, i)) (db_organization_users s)")
      (auto simp: find_None_iff)
  then have m': "m' \<in> set (db_organization_users s)" by (auto dest: find_SomeD)
  have "optional_op (member_find target i) s = (Inr (Some m'), s)"
    using found by (simp add: member_find_def optional_op_run first_where_run)
  moreover have "filter (\<lambda>m. ou_id m = ou_id m') (db_organization_users s) \<noteq> []"
    using m' by (auto simp: filter_empty_conv)
  ultimately obtain r t where add: "add_user g target [] s = (Inr r, t)"
    using \<open>org_id g = i\<close> by (cases "filter (\<lambda>m. ou_id m = ou_id m') (db_organization_users s)")
      (auto simp: add_user_def member_commit_def member_create_def bindo_run update_first_run)
  then have "run_request (add_or_replace_user i target [] user) s =
      (\<lparr>hr_status = 201, hr_body = body.Empty\<rparr>, snd (commit_transaction ((untouched s)\<lparr>ss_db := t\<rparr>)))"
    using assms(1) by (simp add: run_request_def bindo_run begin_transaction_def add_or_replace_user_def on_db_run
        requires_roles_def ret_run)
  then show ?thesis
    using add_user_Inr [OF add assms(2)] \<open>org_id g = i\<close> by (simp add: commit_transaction_def)
qed

section \<open>An invitation is used once\<close>

lemma snd_bindo: "snd (bindo m f s) = (case m s of (Inr x, t) \<Rightarrow> snd (f x t) | (Inl e, t) \<Rightarrow> t)"
  by (simp add: bindo_run split: prod.splits sum.splits)

lemma add_user_keeps_invites: "db_organization_invites (snd (add_user g u rs s)) = db_organization_invites s"
  by (simp add: add_user_def member_commit_def member_create_def member_find_def snd_bindo optional_op_run
      first_where_run update_first_run draw_uuid_def gets_def insert_checked_run
      split: option.split sum.split list.split prod.split)

lemma used_token_gone:
  assumes "i \<in> set (db_organization_invites s)" and "inv_security_token i = Some token"
    and "\<And>i j. i \<in> set (db_organization_invites s) \<Longrightarrow> j \<in> set (db_organization_invites s) \<Longrightarrow>
      inv_security_token i = Some token \<Longrightarrow> inv_security_token j = Some token \<Longrightarrow> inv_id i = inv_id j"
    and "db_organization_invites t = db_organization_invites (snd (change_invite_status i n s))"
  shows "hr_status (fst (run_request (accept_request token user) t)) = 404"
proof -
  let ?f = "\<lambda>j. j\<lparr>inv_security_token := None, inv_accepted := Some n, inv_updated_at := utc_now s\<rparr>"
  have invites: "db_organization_invites t = update_where (\<lambda>j. inv_id j = inv_id i) ?f (db_organization_invites s)"
    using assms(4) by (simp add: change_invite_status_def Let_def bindo_run ret_run)
  have "inv_security_token j \<noteq> Some token" if "j \<in> set (db_organization_invites t)" for j
  proof -
    from that obtain k where k: "k \<in> set (db_organization_invites s)"
      and j: "j = (if inv_id k = inv_id i then ?f k else k)"
      unfolding invites update_where_def set_map by (rule imageE)
    show ?thesis
    proof (cases "inv_id k = inv_id i")
      case True then show ?thesis by (simp add: j)
    next
      case False then show ?thesis using assms(3) [OF k assms(1) _ assms(2)] by (auto simp: j)
    qed
  qed
  then have "find (open_invite t token) (db_organization_invites t) = None"
    by (auto simp: find_None_iff open_invite_def)
  then have none: "find_by_token token t =
      (Inl (database_error_new NoResults (Some (WithDriverText ''No valid token found'' NotFound))), t)"
    by (simp add: find_by_token_def first_where_run)
  have "run_request (accept_request token user) t = (to_response (OfDatabase
      (database_error_new NoResults (Some (WithDriverText ''No valid token found'' NotFound)))),
      snd (rollback_transaction (untouched t)))"
    unfolding run_request_def accept_request_def bindo_run begin_transaction_def on_db_run
    by (simp add: none)
  then show ?thesis
    by (simp add: to_response_def database_error_response_def status_code_and_message_def)
qed

text \<open>C32: accepting an invitation with status 200 takes an open invitation with that token that is meant
  for the user, by the account it names or, when it names none, by the address; the user has exactly its
  roles afterwards, no other membership has changed, and the token is worth nothing from then on, for
  anybody.\<close>

theorem invitation_used_once:
  assumes "run_request (accept_request token user) s = (\<lparr>hr_status = 200, hr_body = body.Empty\<rparr>, w)"
    and "distinct (map ou_id (db_organization_users s))"
    and "\<And>i j. i \<in> set (db_organization_invites s) \<Longrightarrow> j \<in> set (db_organization_invites s) \<Longrightarrow>
      inv_security_token i = Some token \<Longrightarrow> inv_security_token j = Some token \<Longrightarrow> inv_id i = inv_id j"
  shows "\<exists>u i. user = Some u \<and> i \<in> set (db_organization_invites s) \<and> open_invite s token i \<and>
    valid_for_acceptance i u \<and>
    roles_of (ss_db w) (au_id u, inv_organization_id i) = Some (inv_roles i) \<and>
    (\<forall>k. k \<noteq> (au_id u, inv_organization_id i) \<longrightarrow> roles_of (ss_db w) k = roles_of s k) \<and>
    hr_status (fst (run_request (accept_request token other) (ss_db w))) = 404"
proof -
  obtain res v where run: "accept_request token user (untouched s) = (res, v)" by fastforce
  obtain response where res: "res = Inr response" and w: "ss_db w = ss_db v" and "hr_status response = 200"
  proof (cases res)
    case (Inl e)
    then have "hr_status (to_response e :: unit http_response) = 200"
      using assms(1) run by (auto simp: run_request_def bindo_run begin_transaction_def)
    then show ?thesis by (simp add: error_status)
  next
    case (Inr response)
    then show ?thesis using assms(1) run that
      by (auto simp: run_request_def bindo_run begin_transaction_def commit_transaction_def)
  qed
  then obtain i u where token: "find_by_token token s = (Inr i, s)" and user: "user = Some u"
    and valid: "valid_for_acceptance i u"
    using run by (auto simp: accept_request_def bindo_Inr_iff on_db_run find_by_token_def first_where_run
        unauthorized_def unauthorized_with_message_def fail_run split: option.splits if_splits)
  then have i: "i \<in> set (db_organization_invites s)" "open_invite s token i"
    by (auto simp: find_by_token_def first_where_run split: option.splits dest: find_SomeD)
  define t where "t = snd (change_invite_status i 1 s)"
  have change: "change_invite_status i 1 s = (Inr (i\<lparr>inv_security_token := None, inv_accepted := Some 1,
      inv_updated_at := utc_now s\<rparr>), t)"
    by (simp add: t_def change_invite_status_def Let_def bindo_run ret_run)
  have users: "db_organization_users t = db_organization_users s"
    by (simp add: t_def change_invite_status_def Let_def bindo_run ret_run)
  from run res user valid token change obtain g m where g: "organization_find (inv_organization_id i) t = (Inr g, t)"
    and "on_db (add_user g (au_id u) (inv_roles i)) ((untouched s)\<lparr>ss_db := t\<rparr>) = (Inr m, v)"
    by (auto simp: accept_request_def bindo_Inr_iff on_db_run http_finish_def ret_run)
      (auto simp: organization_find_def first_where_run split: option.splits)
  then have add: "add_user g (au_id u) (inv_roles i) t = (Inr m, ss_db v)"
    by (auto simp: on_db_run split: sum.splits) (metis prod.collapse)
  have g_id: "org_id g = inv_organization_id i"
    using g by (auto simp: organization_find_def first_where_run split: option.splits dest: find_SomeD)
  have "roles_of t k = roles_of s k" for k by (simp add: roles_of_def users)
  then have roles: "roles_of (ss_db w) (au_id u, inv_organization_id i) = Some (inv_roles i)"
    "\<forall>k. k \<noteq> (au_id u, inv_organization_id i) \<longrightarrow> roles_of (ss_db w) k = roles_of s k"
    using add_user_Inr [OF add] assms(2) by (simp_all add: users w g_id)
  have "db_organization_invites (ss_db w) = db_organization_invites (snd (change_invite_status i 1 s))"
    using add_user_keeps_invites [of g "au_id u" "inv_roles i" t] add by (simp add: w t_def)
  moreover have "inv_security_token i = Some token" using i(2) by (simp add: open_invite_def)
  ultimately have "hr_status (fst (run_request (accept_request token other) (ss_db w))) = 404"
    using used_token_gone [OF i(1) _ assms(3)] by blast
  with user i valid roles show ?thesis by blast
qed

definition sample_open_invite :: organization_invite where
  "sample_open_invite = \<lparr>inv_id = 20, inv_organization_id = 7, inv_inviter_id = 1, inv_user_email = ''b@c.d'',
     inv_created_at = 0, inv_security_token = Some 30, inv_user_id = None, inv_accepted = None,
     inv_updated_at = 0, inv_sent_invite = False, inv_roles = [roles.OrgMember]\<rparr>"

definition sample_inviting_club :: db where
  "sample_inviting_club = sample_club\<lparr>db_users := [blank_user 1, blank_user 2],
     db_organization_invites := [sample_open_invite]\<rparr>"

definition sample_invited :: auth_user where
  "sample_invited = auth_user_new ((blank_user 2)\<lparr>u_email := Some ''b@c.d''\<rparr>) None ''/organizations'' ''POST''"

theorem invitation_used_once_witness:
  "\<exists>w. run_request (accept_request 30 (Some sample_invited)) sample_inviting_club =
      (\<lparr>hr_status = 200, hr_body = body.Empty\<rparr>, w) \<and> roles_of (ss_db w) (2, 7) = Some [roles.OrgMember] \<and>
     hr_status (fst (run_request (accept_request 30 (Some sample_invited)) (ss_db w))) = 404"
proof -
  have "fst (run_request (accept_request 30 (Some sample_invited)) sample_inviting_club) =
      \<lparr>hr_status = 200, hr_body = body.Empty\<rparr>"
    by code_simp
  then obtain w where run: "run_request (accept_request 30 (Some sample_invited)) sample_inviting_club =
      (\<lparr>hr_status = 200, hr_body = body.Empty\<rparr>, w)"
    by (metis prod.collapse)
  have "db_organization_users sample_inviting_club = []" and
    invites: "db_organization_invites sample_inviting_club = [sample_open_invite]"
    by (simp_all add: sample_inviting_club_def sample_club_def blank_db_def)
  then have ids: "distinct (map ou_id (db_organization_users sample_inviting_club))" by simp
  have same: "inv_id i = inv_id j" if "i \<in> set (db_organization_invites sample_inviting_club)"
    "j \<in> set (db_organization_invites sample_inviting_club)" for i j
    using that by (simp add: invites)
  have "roles_of (ss_db w) (2, 7) = Some [roles.OrgMember] \<and>
      hr_status (fst (run_request (accept_request 30 (Some sample_invited)) (ss_db w))) = 404"
    using invitation_used_once [OF run ids same, of "Some sample_invited"]
    by (auto simp: sample_invited_def auth_user_new_def au_id_def blank_user_def invites sample_open_invite_def)
  with run show ?thesis by blast
qed

end
