(* ===== verification/Event_Requests.thy ===== *)
theory Event_Requests imports Ticket_Requests Organization_Requests begin

text \<open>
  The requests on events (\<open>api/src/controllers/events.rs\<close>): searching and showing them, publishing,
  changing and cancelling, redeeming tickets at the door, the dashboard, artists, interest, guest lists,
  codes, holds and fans. The last section shows what becomes of a ticket that is presented at the door.
\<close>

section \<open>Searching events\<close>

record event_search_parameters =
  esp_query :: "string option"
  esp_region_id :: "uuid option"
  esp_organization_id :: "uuid option"
  esp_status :: "event_status list"
  esp_start_utc :: "timestamp option"
  esp_end_utc :: "timestamp option"
  esp_page :: "u32 option"
  esp_limit :: "u32 option"
  esp_sort :: "string option"
  esp_dir :: "sorting_dir option"
  esp_past_or_upcoming :: "string option"

definition put_tag :: "string \<Rightarrow> json option \<Rightarrow> (string \<rightharpoonup> json) \<Rightarrow> (string \<rightharpoonup> json)" where
  "put_tag name value tags = (case value of Some v \<Rightarrow> tags(name \<mapsto> v) | None \<Rightarrow> tags)"

text \<open>Each status overwrites the tag of the one before. \<open>time_json\<close> is the text of a time in an answer.\<close>

definition paging_of_event_search :: "(timestamp \<Rightarrow> string) \<Rightarrow> event_search_parameters \<Rightarrow> paging" where
  "paging_of_event_search time_json s =
     (let tags = Map.empty;
          tags = put_tag ''query'' (map_option JString (esp_query s)) tags;
          tags = put_tag ''region_id'' (map_option JUuid (esp_region_id s)) tags;
          tags = put_tag ''organization_id'' (map_option JUuid (esp_organization_id s)) tags;
          tags = fold (\<lambda>event_status tags. tags(''status'' \<mapsto>
            JString (enum_to_string event_status_variants event_status))) (esp_status s) tags;
          tags = put_tag ''start_utc'' (map_option (\<lambda>t. JString (time_json t)) (esp_start_utc s)) tags;
          tags = put_tag ''end_utc'' (map_option (\<lambda>t. JString (time_json t)) (esp_end_utc s)) tags
      in paging_of_parameters \<lparr>pp_page = esp_page s, pp_limit = esp_limit s, pp_sort = esp_sort s,
           pp_dir = esp_dir s, pp_tags = tags\<rparr>)"

text \<open>All rows are one page of at most 100, as the answer says; its list may be longer.\<close>

definition whole_list :: "'a list \<Rightarrow> paging \<Rightarrow> 'a payload" where
  "whole_list rows paging = payload_new rows (paging\<lparr>pg_total := length rows, pg_limit := 100\<rparr>)"

definition checkins ::
  "(timestamp \<Rightarrow> string) \<Rightarrow> event_search_parameters \<Rightarrow> auth_user \<Rightarrow> event_row payload http_response web"
where
  "checkins time_json query auth_user =
     bindo (on_db (find_events_with_access_to_scan (au_user auth_user))) (\<lambda>events.
     http_ok (whole_list events (paging_of_event_search time_json query)))"

record event_venue_entry =
  eve_id :: uuid
  eve_name :: string
  eve_organization_id :: uuid
  eve_venue_id :: "uuid option"
  eve_created_at :: timestamp
  eve_event_start :: "timestamp option"
  eve_door_time :: "timestamp option"
  eve_status :: event_status
  eve_publish_date :: "timestamp option"
  eve_promo_image_url :: "string option"
  eve_additional_info :: "string option"
  eve_top_line_info :: "string option"
  eve_age_limit :: "int option"
  eve_cancelled_at :: "timestamp option"
  eve_venue :: "venue option"
  eve_min_ticket_price :: "int option"
  eve_max_ticket_price :: "int option"
  eve_is_external :: bool
  eve_external_url :: "string option"
  eve_user_is_interested :: bool
  eve_localized_times :: event_localized_time_strings
  eve_tracking_keys :: tracking_keys

definition on_db_panic :: "(db, 'a) panic_op \<Rightarrow> 'a web" where
  "on_db_panic m = (\<lambda>w. case m (ss_db w) of (r, t) \<Rightarrow> (panics_of r, w\<lparr>ss_db := t\<rparr>))"

definition no_tracking_keys :: tracking_keys where
  "no_tracking_keys = \<lparr>tk_google_ga_key = None, tk_facebook_pixel_key = None\<rparr>"

definition venue_entry_of ::
  "'tz time_zones \<Rightarrow> event_row \<Rightarrow> venue option \<Rightarrow> bool \<Rightarrow> tracking_keys \<Rightarrow> event_venue_entry"
where
  "venue_entry_of z event venue interested keys =
     \<lparr>eve_id = e_id event, eve_name = e_name event, eve_organization_id = e_organization_id event,
      eve_venue_id = e_venue_id event, eve_created_at = e_created_at event, eve_event_start = e_event_start event,
      eve_door_time = e_door_time event, eve_status = e_status event, eve_publish_date = e_publish_date event,
      eve_promo_image_url = e_promo_image_url event, eve_additional_info = e_additional_info event,
      eve_top_line_info = e_top_line_info event, eve_age_limit = e_age_limit event,
      eve_cancelled_at = e_cancelled_at event, eve_venue = venue, eve_min_ticket_price = e_min_ticket_price event,
      eve_max_ticket_price = e_max_ticket_price event, eve_is_external = e_is_external event,
      eve_external_url = e_external_url event, eve_user_is_interested = interested,
      eve_localized_times = get_all_localized_time_strings z event venue, eve_tracking_keys = keys\<rparr>"

text \<open>An event whose venue was not found panics.\<close>

definition venue_of_map :: "venue list \<Rightarrow> event_row \<Rightarrow> venue option web" where
  "venue_of_map venues event =
     (case e_venue_id event of
        None \<Rightarrow> ret None
      | Some v \<Rightarrow> (case find (\<lambda>x. v_id x = v) (rev venues) of
            Some venue \<Rightarrow> ret (Some venue) | None \<Rightarrow> fail HandlerPanicked))"

definition events_index ::
  "'tz time_zones \<Rightarrow> (timestamp \<Rightarrow> string) \<Rightarrow> crates \<Rightarrow> ring \<Rightarrow> config \<Rightarrow> event_search_parameters \<Rightarrow>
   auth_user option \<Rightarrow> event_venue_entry payload http_response web"
where
  "events_index z time_json c r cfg query auth_user =
     (let user = map_option au_user auth_user;
          past_or_upcoming = (if unwrap_or (esp_past_or_upcoming query) ''upcoming'' = ''past'' then Past else Upcoming);
          sort_field = (if unwrap_or (esp_sort query) ''event_start'' = ''name'' then SortName else SortEventStart) in
      bindo (on_db (event_search (esp_query query) (esp_region_id query) (esp_organization_id query)
        (esp_start_utc query) (esp_end_utc query)
        (if esp_status query = [] then None else Some (esp_status query)) sort_field
        (unwrap_or (esp_dir query) Asc) user past_or_upcoming)) (\<lambda>events.
      let venue_ids = remdups (sort (List.map_filter e_venue_id events)) in
      bindo (on_db (venue_find_by_ids venue_ids)) (\<lambda>venues.
      let organization_ids = remdups (sort (map e_organization_id events)) in
      bindo (on_db_panic (tracking_keys_for_ids c r organization_ids (cfg_api_keys_encryption_key cfg)))
        (\<lambda>tracking_keys_for_orgs.
      bindo (case user of
          Some u \<Rightarrow> on_db (find_interest_by_event_ids_for_user (map e_id events) (u_id u))
        | None \<Rightarrow> ret Map.empty) (\<lambda>event_interest.
      bindo (fold_op (\<lambda>event results.
          bindo (venue_of_map venues event) (\<lambda>venue.
          ret (results @ [venue_entry_of z event venue (unwrap_or (event_interest (e_id event)) False)
            (unwrap_or (tracking_keys_for_orgs (e_organization_id event)) no_tracking_keys)]))) events [])
        (\<lambda>results.
      http_ok (whole_list results (paging_of_event_search time_json query))))))))"

section \<open>Showing an event\<close>

record short_organization =
  sho_id :: uuid
  sho_name :: string

record event_response =
  evr_id :: uuid
  evr_name :: string
  evr_organization_id :: uuid
  evr_venue_id :: "uuid option"
  evr_created_at :: timestamp
  evr_event_start :: "timestamp option"
  evr_door_time :: "timestamp option"
  evr_event_end :: "timestamp option"
  evr_cancelled_at :: "timestamp option"
  evr_fee_in_cents :: int
  evr_status :: event_status
  evr_publish_date :: "timestamp option"
  evr_promo_image_url :: "string option"
  evr_additional_info :: "string option"
  evr_top_line_info :: "string option"
  evr_age_limit :: "int option"
  evr_video_url :: "string option"
  evr_organization :: short_organization
  evr_venue :: "venue option"
  evr_artists :: "display_event_artist list"
  evr_ticket_types :: "user_display_ticket_type list"
  evr_total_interest :: u32
  evr_user_is_interested :: bool
  evr_min_ticket_price :: "int option"
  evr_max_ticket_price :: "int option"
  evr_is_external :: bool
  evr_external_url :: "string option"
  evr_override_status :: "event_override_status option"
  evr_limited_tickets_remaining :: "tickets_remaining list"
  evr_localized_times :: event_localized_time_strings
  evr_tracking_keys :: tracking_keys

definition box_office_pricing_guard :: "auth_user option \<Rightarrow> organization \<Rightarrow> bool \<Rightarrow> unit web" where
  "box_office_pricing_guard user organization box_office_pricing =
     (if box_office_pricing
      then case user of
          Some user \<Rightarrow> requires_scope_for_organization user BoxOfficeTicketRead organization
        | None \<Rightarrow> unauthorized_with_message ''Cannot access box office pricing''
      else ret ())"

definition display_ticket_types :: "fee_schedule \<Rightarrow> bool \<Rightarrow> uuid \<Rightarrow> user_display_ticket_type list web" where
  "display_ticket_types fee_schedule box_office_pricing event_id =
     bindo (on_db (ticket_type_find_by_event_id event_id)) (\<lambda>ticket_types.
     fold_op (\<lambda>ticket_type acc.
       if tt_status ticket_type \<noteq> ticket_type_status.Cancelled
       then bindo (on_db (user_display_of_ticket_type ticket_type fee_schedule box_office_pricing)) (\<lambda>d.
         ret (acc @ [d]))
       else ret acc) ticket_types [])"

definition tickets_remaining_for :: "auth_user option \<Rightarrow> uuid \<Rightarrow> tickets_remaining list web" where
  "tickets_remaining_for user event_id =
     (case user of
        Some u \<Rightarrow>
          bindo (on_db (quantity_for_user_for_event (au_id u) event_id)) (\<lambda>tickets_bought.
          fold_op (\<lambda>(tt, num) acc.
            bindo (on_db (ticket_type_find tt)) (\<lambda>ticket_type.
            let limit = tt_limit_per_person ticket_type in
            ret (if limit > 0
              then acc @ [\<lparr>tr_ticket_type_id = tt, tr_tickets_remaining = limit - num\<rparr>] else acc)))
            tickets_bought [])
      | None \<Rightarrow> ret [])"

definition events_show ::
  "'tz time_zones \<Rightarrow> crates \<Rightarrow> ring \<Rightarrow> config \<Rightarrow> uuid \<Rightarrow> bool option \<Rightarrow> auth_user option \<Rightarrow>
   event_response http_response web"
where
  "events_show z c r cfg id' box_office_pricing user =
     bindo (on_db (event_find id')) (\<lambda>event.
     bindo (on_db (event_organization event)) (\<lambda>organization.
     bindo (on_db (fee_schedule_find (org_fee_schedule_id organization))) (\<lambda>fee_schedule.
     bindo (on_db (event_venue event)) (\<lambda>venue.
     bindo (on_db (event_artist_find_all_from_event (e_id event))) (\<lambda>event_artists.
     bindo (on_db (total_interest (e_id event))) (\<lambda>total.
     bindo (case user of Some u \<Rightarrow> on_db (user_interest (e_id event) (au_id u)) | None \<Rightarrow> ret False) (\<lambda>interested.
     let box_office_pricing = unwrap_or box_office_pricing False in
     bindo (box_office_pricing_guard user organization box_office_pricing) (\<lambda>_.
     bindo (display_ticket_types fee_schedule box_office_pricing id') (\<lambda>ticket_types.
     bindo (tickets_remaining_for user (e_id event)) (\<lambda>limited_tickets_remaining.
     bindo (on_db_panic (tracking_keys_for_ids c r [org_id organization] (cfg_api_keys_encryption_key cfg)))
       (\<lambda>keys.
     http_ok \<lparr>evr_id = e_id event, evr_name = e_name event, evr_organization_id = e_organization_id event,
       evr_venue_id = e_venue_id event, evr_created_at = e_created_at event, evr_event_start = e_event_start event,
       evr_door_time = e_door_time event, evr_event_end = e_event_end event,
       evr_cancelled_at = e_cancelled_at event, evr_fee_in_cents = e_fee_in_cents event,
       evr_status = e_status event, evr_publish_date = e_publish_date event,
       evr_promo_image_url = e_promo_image_url event, evr_additional_info = e_additional_info event,
       evr_top_line_info = e_top_line_info event, evr_age_limit = e_age_limit event,
       evr_video_url = e_video_url event,
       evr_organization = \<lparr>sho_id = org_id organization, sho_name = org_name organization\<rparr>,
       evr_venue = venue, evr_artists = event_artists, evr_ticket_types = ticket_types,
       evr_total_interest = total, evr_user_is_interested = interested,
       evr_min_ticket_price = e_min_ticket_price event, evr_max_ticket_price = e_max_ticket_price event,
       evr_is_external = e_is_external event, evr_external_url = e_external_url event,
       evr_override_status = e_override_status event,
       evr_limited_tickets_remaining = limited_tickets_remaining,
       evr_localized_times = get_all_localized_time_strings z event venue,
       evr_tracking_keys = unwrap_or (keys (org_id organization)) no_tracking_keys\<rparr>)))))))))))"

section \<open>Publishing and redeeming\<close>

definition events_publish :: "crates \<Rightarrow> uuid \<Rightarrow> auth_user \<Rightarrow> unit http_response web" where
  "events_publish c id' user =
     bindo (event_guard user EventWrite id') (\<lambda>event.
     bindo (on_db (event_publish event)) (\<lambda>_.
     bindo (create_list_enqueue c (e_id event)) (\<lambda>_. http_finish)))"

definition events_unpublish :: "uuid \<Rightarrow> auth_user \<Rightarrow> unit http_response web" where
  "events_unpublish id' user =
     bindo (event_guard user EventWrite id') (\<lambda>event.
     bindo (on_db (event_unpublish event)) (\<lambda>_. http_finish))"

text \<open>The answers about a ticket that cannot be let in are no errors: the transaction commits.\<close>

definition redeemed_response ::
  "config \<Rightarrow> processing_ticket_intermediary \<Rightarrow> redeemable_ticket \<Rightarrow> redeem_results \<Rightarrow>
   redeemable_ticket http_response web"
where
  "redeemed_response cfg ticket redeemable result =
     (case result of
        TicketRedeemSuccess \<Rightarrow>
          bindo (on_db (asset_find (pti_asset_id ticket))) (\<lambda>asset.
          case a_blockchain_asset_id asset of
            Some a \<Rightarrow>
              bindo (on_db (wallet_find (pti_wallet_id ticket))) (\<lambda>wallet.
              bindo (call_tari (RedeemToken a [as_u64 (pti_token_id ticket)])
                (tc_redeem_token (cfg_tari_client cfg) (w_secret_key wallet) (w_public_key wallet) a
                  [as_u64 (pti_token_id ticket)])) (\<lambda>_.
              http_ok redeemable))
          | None \<Rightarrow> ret (status_code_and_message 400
              ''Could not complete this checkout because the asset has not been assigned on the blockchain.''))
      | TicketAlreadyRedeemed \<Rightarrow> ret (status_code_and_message 409 ''Ticket has already been redeemed.'')
      | TicketInvalid \<Rightarrow> ret (status_code_and_message 400 ''Ticket is invalid.''))"

definition redeem_ticket_request ::
  "config \<Rightarrow> uuid \<Rightarrow> uuid \<Rightarrow> string \<Rightarrow> auth_user \<Rightarrow> redeemable_ticket http_response web"
where
  "redeem_ticket_request cfg event_id ticket_instance_id redeem_key auth_user =
     bindo (on_db (find_for_processing ticket_instance_id event_id)) (\<lambda>ticket.
     bindo (on_db (event_find (pti_event_id ticket))) (\<lambda>db_event.
     bindo (on_db (event_organization db_event)) (\<lambda>organization.
     bindo (requires_scope_for_organization auth_user RedeemTicket organization) (\<lambda>_.
     bindo (on_db (show_redeemable_ticket ticket_instance_id)) (\<lambda>redeemable.
     bindo (on_db (redeem_ticket (pti_id ticket) redeem_key)) (\<lambda>result.
     redeemed_response cfg ticket redeemable result))))))"

section \<open>Lists and the dashboard\<close>

definition past_or_upcoming_variants :: "(string \<times> past_or_upcoming) list" where
  "past_or_upcoming_variants = [(''Past'', Past), (''Upcoming'', Upcoming)]"

definition events_show_from_organizations ::
  "'tz time_zones \<Rightarrow> uuid \<Rightarrow> paging_parameters \<Rightarrow> auth_user \<Rightarrow> event_summary payload http_response web"
where
  "events_show_from_organizations z id' paging user =
     bindo (on_db (organization_find id')) (\<lambda>org.
     bindo (requires_scope_for_organization user RedeemTicket org) (\<lambda>_.
     bindo (lift_result (map_error OfEnumParse (enum_from_str past_or_upcoming_variants ''PastOrUpcoming''
       (unwrap_or (get_tag paging ''past_or_upcoming'') ''Upcoming'')))) (\<lambda>period.
     bindo (on_db (find_all_events_for_organization z id' period (parameters_page paging)
       (parameters_limit paging))) http_ok)))"

record dashboard_result =
  dbr_event :: event_summary
  dbr_day_stats :: "day_stats list"

definition today :: "db \<Rightarrow> naive_date" where
  "today s = utc_now s div days 1"

definition dashboard ::
  "'tz time_zones \<Rightarrow> uuid \<Rightarrow> naive_date option \<Rightarrow> naive_date option \<Rightarrow> auth_user \<Rightarrow>
   dashboard_result http_response web"
where
  "dashboard z id' start_utc end_utc user =
     bindo (event_guard user DashboardRead id') (\<lambda>event.
     bindo (on_db_panic (event_summary_of z event)) (\<lambda>summary.
     bindo (on_db (gets today)) (\<lambda>date.
     bindo (on_db (get_sales_by_date_range event (unwrap_or start_utc (date - 29)) (unwrap_or end_utc date)))
       (\<lambda>stats.
     http_ok \<lparr>dbr_event = summary, dbr_day_stats = stats\<rparr>))))"

definition events_show_from_venues :: "uuid \<Rightarrow> paging_parameters \<Rightarrow> event_row payload http_response web" where
  "events_show_from_venues venue_id query_parameters =
     bindo (on_db (find_all_active_events_for_venue venue_id)) (\<lambda>events.
     http_ok (payload_from_data events (parameters_page query_parameters) (parameters_limit query_parameters)))"

section \<open>Changing events\<close>

definition events_create :: "(string \<Rightarrow> bool) \<Rightarrow> new_event \<Rightarrow> auth_user \<Rightarrow> event_row http_response web" where
  "events_create valid_url new_event user =
     bindo (on_db (organization_find (ne_organization_id new_event))) (\<lambda>organization.
     bindo (requires_scope_for_organization user EventWrite organization) (\<lambda>_.
     bindo (on_db (event_commit valid_url new_event)) http_created))"

definition events_update ::
  "(string \<Rightarrow> bool) \<Rightarrow> uuid \<Rightarrow> event_attributes \<Rightarrow> auth_user \<Rightarrow> event_row http_response web"
where
  "events_update valid_url id' event_parameters user =
     bindo (event_guard user EventWrite id') (\<lambda>event.
     bindo (on_db (event_update valid_url event event_parameters)) http_ok)"

definition events_cancel :: "uuid \<Rightarrow> auth_user \<Rightarrow> event_row http_response web" where
  "events_cancel id' user =
     bindo (event_guard user EventWrite id') (\<lambda>event. bindo (on_db (event_cancel event)) http_ok)"

section \<open>Interest and artists\<close>

definition events_list_interested_users ::
  "uuid \<Rightarrow> paging_parameters \<Rightarrow> auth_user \<Rightarrow> display_event_interested_user payload http_response web"
where
  "events_list_interested_users id' query user =
     bindo (requires_scope user EventInterest) (\<lambda>_.
     let paging = paging_of_parameters query in
     bindo (on_db (list_interested_users id' (au_id user) (pg_page paging * pg_limit paging)
       (pg_page paging * pg_limit paging + pg_limit paging))) http_ok)"

definition events_add_interest :: "uuid \<Rightarrow> auth_user \<Rightarrow> event_interest http_response web" where
  "events_add_interest id' user =
     bindo (requires_scope user EventInterest) (\<lambda>_.
     bindo (on_db (interest_commit (interest_create id' (au_id user)))) http_created)"

definition events_remove_interest :: "uuid \<Rightarrow> auth_user \<Rightarrow> nat http_response web" where
  "events_remove_interest id' user =
     bindo (requires_scope user EventInterest) (\<lambda>_.
     bindo (on_db (interest_remove id' (au_id user))) http_ok)"

record add_artist_request =
  aar_artist_id :: uuid
  aar_rank :: int
  aar_set_time :: "timestamp option"
  aar_importance :: int
  aar_stage_id :: "uuid option"

definition events_add_artist :: "uuid \<Rightarrow> add_artist_request \<Rightarrow> auth_user \<Rightarrow> event_artist http_response web" where
  "events_add_artist id' req user =
     bindo (event_guard user EventWrite id') (\<lambda>_.
     bindo (on_db (event_artist_commit (event_artist_create id' (aar_artist_id req) (aar_rank req)
       (aar_set_time req) (aar_importance req) (aar_stage_id req)))) http_created)"

record update_artists_request =
  uar_artist_id :: uuid
  uar_set_time :: "timestamp option"
  uar_importance :: int
  uar_stage_id :: "uuid option"

text \<open>The artists are ranked by their place in the list.\<close>

definition events_update_artists ::
  "uuid \<Rightarrow> update_artists_request list \<Rightarrow> auth_user \<Rightarrow> event_artist list http_response web"
where
  "events_update_artists id' artists user =
     bindo (event_guard user EventWrite id') (\<lambda>_.
     bindo (on_db (event_artist_clear_all_from_event id')) (\<lambda>_.
     bindo (fold_op (\<lambda>a (rank, added).
         bindo (on_db (event_artist_commit (event_artist_create id' (uar_artist_id a) rank (uar_set_time a)
           (uar_importance a) (uar_stage_id a)))) (\<lambda>event_artist.
         ret (rank + 1, added @ [event_artist]))) artists (0, [])) (\<lambda>(_, added_artists).
     http_ok added_artists)))"

section \<open>Guests, codes, holds and fans\<close>

definition paging_of_guest_list :: "string \<Rightarrow> paging" where
  "paging_of_guest_list query =
     \<lparr>pg_page = 0, pg_limit = 100, pg_sort = [], pg_dir = Asc, pg_total = 0,
      pg_tags = [''query'' \<mapsto> JString query]\<rparr>"

definition events_guest_list :: "uuid \<Rightarrow> string \<Rightarrow> auth_user \<Rightarrow> redeemable_ticket payload http_response web" where
  "events_guest_list id' query user =
     bindo (event_guard user EventViewGuests id') (\<lambda>event.
     bindo (on_db (guest_list event query)) (\<lambda>tickets.
     http_ok (payload_new tickets (paging_of_guest_list query))))"

text \<open>A tag that is null or the name of a type is read; another value is an error.\<close>

definition code_type_of_json :: "json \<Rightarrow> big_neon_error + code_types option" where
  "code_type_of_json v =
     (case v of
        JNull \<Rightarrow> Inr None
      | JString s \<Rightarrow> (case enum_from_sql code_types_variants s of
            Some t \<Rightarrow> Inr (Some t) | None \<Rightarrow> Inl OfSerde)
      | _ \<Rightarrow> Inl OfSerde)"

definition events_codes :: "uuid \<Rightarrow> paging_parameters \<Rightarrow> auth_user \<Rightarrow> display_code payload http_response web" where
  "events_codes id' query user =
     bindo (on_db (organization_find_for_event id')) (\<lambda>organization.
     bindo (requires_scope_for_organization user CodeRead organization) (\<lambda>_.
     bindo (case pp_tags query ''type'' of
         Some value \<Rightarrow> lift_result (code_type_of_json value) | None \<Rightarrow> ret None) (\<lambda>code_type.
     bindo (on_db (code_find_for_event id' code_type)) (\<lambda>codes.
     let payload = payload_from_data codes (parameters_page query) (parameters_limit query) in
     http_ok (payload\<lparr>pl_paging := (pl_paging payload)\<lparr>pg_tags := pp_tags query\<rparr>\<rparr>)))))"

definition events_holds :: "uuid \<Rightarrow> paging_parameters \<Rightarrow> auth_user \<Rightarrow> hold_response payload http_response web" where
  "events_holds id' query user =
     bindo (on_db (organization_find_for_event id')) (\<lambda>organization.
     bindo (requires_scope_for_organization user HoldRead organization) (\<lambda>_.
     bindo (on_db (hold_find_for_event id')) (\<lambda>holds.
     bindo (fold_op (\<lambda>hold acc. bindo (hold_response_of hold) (\<lambda>r. ret (acc @ [r]))) holds []) (\<lambda>rows.
     http_ok (payload_from_data rows (parameters_page query) (parameters_limit query))))))"

definition no_result_is_ok :: "('a list \<times> nat) dbop \<Rightarrow> ('a list \<times> nat) web" where
  "no_result_is_ok m = (\<lambda>w. case m (ss_db w) of
     (Inl e, t) \<Rightarrow> (if err_error_code e = NoResults then Inr ([], 0) else Inl (OfDatabase e), w\<lparr>ss_db := t\<rparr>)
   | (Inr x, t) \<Rightarrow> (Inr x, w\<lparr>ss_db := t\<rparr>))"

definition events_fans_index :: "uuid \<Rightarrow> paging_parameters \<Rightarrow> auth_user \<Rightarrow> display_fan payload http_response web" where
  "events_fans_index id' query user =
     bindo (event_guard user OrgFans id') (\<lambda>event.
     let dir = unwrap_or (pp_dir query) Desc in
     bindo (no_result_is_ok (event_search_fans event (get_tag query ''query'') (Some (parameters_limit query))
       (Some (parameters_page query * parameters_limit query)) (map_option fan_sort_of (pp_sort query))
       (Some dir))) (\<lambda>(fans, total).
     http_ok (payload_new fans ((paging_new (parameters_page query) (parameters_limit query))
       \<lparr>pg_dir := dir, pg_total := total\<rparr>))))"

section \<open>At the door\<close>

lemma reads_for_processing:
  "find_for_processing i e s = (Inr t, s') \<Longrightarrow> s' = s \<and> pti_id t = i \<and> pti_event_id t = e \<and>
     (\<exists>u \<in> set (db_ticket_instances s). ti_id u = i \<and> ti_asset_id u = pti_asset_id t \<and> ti_token_id u = pti_token_id t)"
  by (auto simp: find_for_processing_def first_where_run split: option.splits dest!: find_SomeD) blast

lemma reads_redeemable: "snd (show_redeemable_ticket i s) = s"
  by (simp add: show_redeemable_ticket_def bindo_run first_where_run ret_run split: option.split)

lemma redeem_ticket_run:
  "redeem_ticket i key s = (case find (\<lambda>t. ti_id t = i) (db_ticket_instances s) of
     None \<Rightarrow> (fst (redeem_ticket i key s), s)
   | Some t \<Rightarrow>
       if ti_status t = ticket_instance_status.Purchased \<and> ti_redeem_key t = Some key
       then (Inr TicketRedeemSuccess, s\<lparr>db_ticket_instances := update_where (\<lambda>t. ti_id t = i)
         (\<lambda>t. t\<lparr>ti_status := ticket_instance_status.Redeemed\<rparr>) (db_ticket_instances s)\<rparr>)
       else (Inr (if ti_status t = ticket_instance_status.Redeemed then TicketAlreadyRedeemed else TicketInvalid), s))"
  by (simp add: redeem_ticket_def find_ticket_def op_simps split: option.split)

lemma redeemed_response_Inr:
  assumes "redeemed_response cfg ticket redeemable result w = (Inr response, v)"
  shows "ss_db v = ss_db w \<and> hr_status response \<in> {200, 400, 409} \<and>
    (hr_status response = 200 \<longrightarrow> result = TicketRedeemSuccess \<and>
      (\<exists>asset a. find (\<lambda>a. a_id a = pti_asset_id ticket) (db_assets (ss_db w)) = Some asset \<and>
         a_blockchain_asset_id asset = Some a \<and>
         ss_calls v = ss_calls w @ [RedeemToken a [as_u64 (pti_token_id ticket)]])) \<and>
    (hr_status response = 400 \<and> result = TicketRedeemSuccess \<longrightarrow> hr_body response = Failed
      ''Could not complete this checkout because the asset has not been assigned on the blockchain.'' \<and>
      (\<exists>asset. find (\<lambda>a. a_id a = pti_asset_id ticket) (db_assets (ss_db w)) = Some asset \<and>
         a_blockchain_asset_id asset = None) \<and>
      ss_calls v = ss_calls w) \<and> (hr_status response = 409 \<longrightarrow> result = TicketAlreadyRedeemed)"
proof (cases result)
  case TicketRedeemSuccess
  then obtain asset w1 where asset: "on_db (asset_find (pti_asset_id ticket)) w = (Inr asset, w1)"
    and rest: "(case a_blockchain_asset_id asset of
            Some a \<Rightarrow>
              bindo (on_db (wallet_find (pti_wallet_id ticket))) (\<lambda>wallet.
              bindo (call_tari (RedeemToken a [as_u64 (pti_token_id ticket)])
                (tc_redeem_token (cfg_tari_client cfg) (w_secret_key wallet) (w_public_key wallet) a
                  [as_u64 (pti_token_id ticket)])) (\<lambda>_.
              http_ok redeemable))
          | None \<Rightarrow> ret (status_code_and_message 400
              ''Could not complete this checkout because the asset has not been assigned on the blockchain.''))
        w1 = (Inr response, v)"
    using assms by (auto simp: redeemed_response_def bindo_Inr_iff)
  have w1: "w1 = w" and found: "find (\<lambda>a. a_id a = pti_asset_id ticket) (db_assets (ss_db w)) = Some asset"
    using asset by (auto simp: on_db_run asset_find_def first_where_run split: sum.splits option.splits)
  show ?thesis
  proof (cases "a_blockchain_asset_id asset")
    case None
    then show ?thesis using rest TicketRedeemSuccess w1 found by (auto simp: ret_run status_code_and_message_def)
  next
    case (Some a)
    then show ?thesis using rest TicketRedeemSuccess w1 found
      by (auto simp: bindo_Inr_iff on_db_run wallet_find_def call_tari_def call_external_def lift_result_run
          http_ok_def ret_run modify_def split: sum.splits)
  qed
qed (use assms in \<open>auto simp: redeemed_response_def ret_run status_code_and_message_def\<close>)

lemma never_commits_tari: "steps same_committed (call_tari c r)"
  by (auto simp: steps_def same_committed_def call_tari_def call_external_def bindo_run lift_result_run modify_def
      split: prod.splits)

lemma redeem_request_Inr:
  assumes "redeem_ticket_request cfg e i key user (untouched s) = (Inr response, v)"
  shows "\<exists>ev g ticket redeemable result t. event_find e s = (Inr ev, s) \<and> event_organization ev s = (Inr g, s) \<and>
    granted s user RedeemTicket (Some g) \<and> redeem_ticket i key s = (Inr result, t) \<and>
    (\<exists>u \<in> set (db_ticket_instances s). ti_id u = i \<and> ti_asset_id u = pti_asset_id ticket \<and>
       ti_token_id u = pti_token_id ticket) \<and>
    redeemed_response cfg ticket redeemable result ((untouched s)\<lparr>ss_db := t\<rparr>) = (Inr response, v)"
proof -
  from assms obtain ticket w1 where ticket: "on_db (find_for_processing i e) (untouched s) = (Inr ticket, w1)"
    and rest: "bindo (on_db (event_find (pti_event_id ticket))) (\<lambda>db_event.
     bindo (on_db (event_organization db_event)) (\<lambda>organization.
     bindo (requires_scope_for_organization user RedeemTicket organization) (\<lambda>_.
     bindo (on_db (show_redeemable_ticket i)) (\<lambda>redeemable.
     bindo (on_db (redeem_ticket (pti_id ticket) key)) (\<lambda>result.
     redeemed_response cfg ticket redeemable result))))) w1 = (Inr response, v)"
    by (auto simp: redeem_ticket_request_def bindo_Inr_iff)
  from ticket obtain s' where "find_for_processing i e s = (Inr ticket, s')" and "w1 = (untouched s)\<lparr>ss_db := s'\<rparr>"
    by (auto simp: on_db_run split: sum.splits) (metis prod.collapse)
  with reads_for_processing [of i e s] have w1: "w1 = untouched s" and ids: "pti_id ticket = i" "pti_event_id ticket = e"
    and row: "\<exists>u \<in> set (db_ticket_instances s). ti_id u = i \<and> ti_asset_id u = pti_asset_id ticket \<and>
      ti_token_id u = pti_token_id ticket"
    by auto
  from rest obtain ev w2 where ev: "on_db (event_find e) (untouched s) = (Inr ev, w2)"
    and rest2: "bindo (on_db (event_organization ev)) (\<lambda>organization.
     bindo (requires_scope_for_organization user RedeemTicket organization) (\<lambda>_.
     bindo (on_db (show_redeemable_ticket i)) (\<lambda>redeemable.
     bindo (on_db (redeem_ticket i key)) (\<lambda>result.
     redeemed_response cfg ticket redeemable result)))) w2 = (Inr response, v)"
    by (auto simp: bindo_Inr_iff w1 ids)
  then have event: "event_find e s = (Inr ev, s)" and w2: "w2 = untouched s"
    by (auto simp: on_db_run event_find_def first_where_run split: option.splits)
  from rest2 obtain g w3 where g: "on_db (event_organization ev) (untouched s) = (Inr g, w3)"
    and rest3: "bindo (requires_scope_for_organization user RedeemTicket g) (\<lambda>_.
     bindo (on_db (show_redeemable_ticket i)) (\<lambda>redeemable.
     bindo (on_db (redeem_ticket i key)) (\<lambda>result.
     redeemed_response cfg ticket redeemable result))) w3 = (Inr response, v)"
    by (auto simp: bindo_Inr_iff w2)
  then have org: "event_organization ev s = (Inr g, s)" and w3: "w3 = untouched s"
    by (auto simp: on_db_run event_organization_def organization_find_def first_where_run split: option.splits)
  from rest3 have scope: "granted s user RedeemTicket (Some g)" and
    rest4: "bindo (on_db (show_redeemable_ticket i)) (\<lambda>redeemable.
     bindo (on_db (redeem_ticket i key)) (\<lambda>result.
     redeemed_response cfg ticket redeemable result)) (untouched s) = (Inr response, v)"
    by (auto simp: bindo_Inr_iff w3 requires_scope_for_organization_run split: if_splits)
  from rest4 obtain redeemable result t where "redeem_ticket i key s = (Inr result, t)"
    and "redeemed_response cfg ticket redeemable result ((untouched s)\<lparr>ss_db := t\<rparr>) = (Inr response, v)"
    by (auto simp: bindo_Inr_iff on_db_run reads_redeemable split: sum.splits) (metis prod.collapse)
  with event org scope row show ?thesis by blast
qed

text \<open>C36: a ticket presented at the door is let in, with status 200, only if it was purchased and not yet
  redeemed, its key is the one presented and the person at the door may redeem tickets for the organization
  of the event; it is redeemed then and exactly one call tells the chain so, for its token of the asset that its
  asset was assigned there. With any other answer all tickets are as before, save one: where the asset of the
  ticket has not been assigned on the chain, the answer is 400, no call is made and the ticket is redeemed all
  the same.\<close>

theorem door_lets_in_once:
  "case run_request (redeem_ticket_request cfg e i key user) s of (response, w) \<Rightarrow>
     let let_in = (\<exists>t ev g. find (\<lambda>t. ti_id t = i) (db_ticket_instances s) = Some t \<and>
           ti_status t = ticket_instance_status.Purchased \<and> ti_redeem_key t = Some key \<and>
           event_find e s = (Inr ev, s) \<and> event_organization ev s = (Inr g, s) \<and>
           granted s user RedeemTicket (Some g) \<and>
           db_ticket_instances (ss_db w) = update_where (\<lambda>t. ti_id t = i)
             (\<lambda>t. t\<lparr>ti_status := ticket_instance_status.Redeemed\<rparr>) (db_ticket_instances s))
     in if hr_status response = 200
        then let_in \<and> (\<exists>u \<in> set (db_ticket_instances s). \<exists>asset a. ti_id u = i \<and>
          find (\<lambda>a. a_id a = ti_asset_id u) (db_assets s) = Some asset \<and> a_blockchain_asset_id asset = Some a \<and>
          ss_calls w = [RedeemToken a [as_u64 (ti_token_id u)]])
        else db_ticket_instances (ss_db w) = db_ticket_instances s \<or>
          let_in \<and> hr_status response = 400 \<and> ss_calls w = [] \<and>
          (\<exists>u \<in> set (db_ticket_instances s). \<exists>asset. ti_id u = i \<and>
             find (\<lambda>a. a_id a = ti_asset_id u) (db_assets s) = Some asset \<and> a_blockchain_asset_id asset = None)"
proof -
  obtain res v where run: "redeem_ticket_request cfg e i key user (untouched s) = (res, v)" by fastforce
  show ?thesis
  proof (cases res)
    case (Inl err)
    have "steps same_committed (redeem_ticket_request cfg e i key user)"
      unfolding redeem_ticket_request_def redeemed_response_def
      by (auto intro!: never_commits never_commits_tari split: redeem_results.split option.split)
    from failed_request_rolled_back [OF this run [unfolded Inl]]
    obtain w where "run_request (redeem_ticket_request cfg e i key user) s = (to_response err, w)"
      and "ss_db w = roll_back_to s (ss_db v)" by blast
    then show ?thesis by (simp add: roll_back_to_def error_status Let_def)
  next
    case (Inr response)
    from redeem_request_Inr [OF run [unfolded Inr]] obtain ev g ticket redeemable result t row where
      who: "event_find e s = (Inr ev, s)" "event_organization ev s = (Inr g, s)"
        "granted s user RedeemTicket (Some g)"
      and redeem: "redeem_ticket i key s = (Inr result, t)"
      and row: "row \<in> set (db_ticket_instances s)" "ti_id row = i" "ti_asset_id row = pti_asset_id ticket"
        "ti_token_id row = pti_token_id ticket"
      and answer: "redeemed_response cfg ticket redeemable result ((untouched s)\<lparr>ss_db := t\<rparr>) = (Inr response, v)"
      by blast
    obtain x where x: "find (\<lambda>t. ti_id t = i) (db_ticket_instances s) = Some x"
      using redeem by (cases "find (\<lambda>t. ti_id t = i) (db_ticket_instances s)")
        (auto simp: redeem_ticket_def find_ticket_def op_simps)
    have w: "run_request (redeem_ticket_request cfg e i key user) s =
        (response, v\<lparr>ss_committed := ss_db v\<rparr>)"
      using run [unfolded Inr] by (simp add: run_request_def bindo_run begin_transaction_def commit_transaction_def)
    define right where "right \<longleftrightarrow> ti_status x = ticket_instance_status.Purchased \<and> ti_redeem_key x = Some key"
    have rows: "db_ticket_instances t = (if right then update_where (\<lambda>t. ti_id t = i)
        (\<lambda>t. t\<lparr>ti_status := ticket_instance_status.Redeemed\<rparr>) (db_ticket_instances s)
        else db_ticket_instances s)" and assets: "db_assets t = db_assets s" and result: "result = TicketRedeemSuccess \<longleftrightarrow> right"
      using redeem by (auto simp: redeem_ticket_run x right_def split: if_splits)
    note facts = redeemed_response_Inr [OF answer]
    show ?thesis
    proof (cases right)
      case True
      then have let_in: "\<exists>t ev g. find (\<lambda>t. ti_id t = i) (db_ticket_instances s) = Some t \<and>
           ti_status t = ticket_instance_status.Purchased \<and> ti_redeem_key t = Some key \<and>
           event_find e s = (Inr ev, s) \<and> event_organization ev s = (Inr g, s) \<and>
           granted s user RedeemTicket (Some g) \<and>
           db_ticket_instances (ss_db v) = update_where (\<lambda>t. ti_id t = i)
             (\<lambda>t. t\<lparr>ti_status := ticket_instance_status.Redeemed\<rparr>) (db_ticket_instances s)"
        using facts who x rows by (auto simp: right_def)
      have "result = TicketRedeemSuccess" using True result by simp
      then have "hr_status response \<in> {200, 400}" using facts by auto
      then show ?thesis
      proof (elim insertE emptyE)
        assume "hr_status response = 200"
        moreover from this obtain asset a where
          "find (\<lambda>a. a_id a = ti_asset_id row) (db_assets s) = Some asset" "a_blockchain_asset_id asset = Some a"
          "ss_calls v = [RedeemToken a [as_u64 (ti_token_id row)]]"
          using facts row assets by auto
        ultimately show ?thesis using let_in row(1,2) unfolding w by (auto simp: Let_def)
      next
        assume "hr_status response = 400"
        moreover from this obtain asset where
          "find (\<lambda>a. a_id a = ti_asset_id row) (db_assets s) = Some asset" "a_blockchain_asset_id asset = None"
          "ss_calls v = []"
          using facts row assets \<open>result = TicketRedeemSuccess\<close> by auto
        ultimately show ?thesis using let_in row(1,2) unfolding w by (auto simp: Let_def)
      qed
    next
      case False
      then show ?thesis using facts rows result by (auto simp: w Let_def)
    qed
  qed
qed

end
