(* ===== verification/Accounts.thy ===== *)
theory Accounts imports Communications begin

text \<open>
  Accounts and sign-in: the claims of tokens (\<open>api/src/auth/claims/\<close>), the tokens that are handed out
  (\<open>token_response.rs\<close>), the user of a request (\<open>extractors/user.rs\<close>, \<open>optional_user.rs\<close>) and the
  requests of \<open>controllers/auth.rs\<close>, \<open>users.rs\<close>, \<open>password_resets.rs\<close>, \<open>user_invites.rs\<close>,
  \<open>payment_methods.rs\<close> and \<open>external/facebook.rs\<close>. The crate that signs tokens, the captcha service and
  Facebook are parameters. The last sections show that a new password ends the sessions before it, and that
  signing up and in at once never works when a captcha is asked for.
\<close>

section \<open>Claims\<close>

record access_token =
  at_sub :: string
  at_iss :: string
  at_exp :: nat

record refresh_token =
  rt_sub :: string
  rt_iss :: string
  rt_issued :: nat

text \<open>The crates: signing and reading claims with a secret, and reading an identifier. An access token is
  read with the time, for its expiry; the flag of a refresh token says whether an expiry is looked at.\<close>

record tokens =
  encode_access :: "access_token \<Rightarrow> string \<Rightarrow> string option"
  encode_refresh :: "refresh_token \<Rightarrow> string \<Rightarrow> string option"
  decode_access :: "timestamp \<Rightarrow> string \<Rightarrow> string \<Rightarrow> access_token option"
  decode_refresh :: "bool \<Rightarrow> string \<Rightarrow> string \<Rightarrow> refresh_token option"
  parse_uuid :: "string \<Rightarrow> uuid option"

text \<open>The seconds since 1970 of the system clock; a clock before that panics.\<close>

definition unix_seconds :: "timestamp \<Rightarrow> nat web" where
  "unix_seconds t = (if 0 \<le> t then ret (nat (t div seconds 1)) else fail HandlerPanicked)"

definition access_token_new :: "uuid \<Rightarrow> string \<Rightarrow> nat \<Rightarrow> access_token web" where
  "access_token_new user_id issuer expiry_in_minutes =
     bindo (gets (\<lambda>w. utc_now (ss_db w))) (\<lambda>timer.
     bindo (unix_seconds (timer + seconds (int (expiry_in_minutes * 60)))) (\<lambda>exp.
     ret \<lparr>at_sub = uuid_to_string user_id, at_iss = issuer, at_exp = exp\<rparr>))"

definition refresh_token_new :: "uuid \<Rightarrow> string \<Rightarrow> refresh_token web" where
  "refresh_token_new user_id issuer =
     bindo (gets (\<lambda>w. utc_now (ss_db w))) (\<lambda>timer.
     bindo (unix_seconds timer) (\<lambda>issued.
     ret \<lparr>rt_sub = uuid_to_string user_id, rt_iss = issuer, rt_issued = issued\<rparr>))"

definition some_or :: "big_neon_error \<Rightarrow> 'a option \<Rightarrow> 'a web" where
  "some_or e x = (case x of Some y \<Rightarrow> ret y | None \<Rightarrow> fail e)"

definition access_token_get_id :: "tokens \<Rightarrow> access_token \<Rightarrow> uuid web" where
  "access_token_get_id j self = some_or OfUuidParse (parse_uuid j (at_sub self))"

definition refresh_token_get_id :: "tokens \<Rightarrow> refresh_token \<Rightarrow> uuid web" where
  "refresh_token_get_id j self = some_or OfUuidParse (parse_uuid j (rt_sub self))"

section \<open>Tokens that are handed out\<close>

record token_response =
  tr_access_token :: string
  tr_refresh_token :: string

definition token_response_new :: "string \<Rightarrow> string \<Rightarrow> token_response" where
  "token_response_new access_token refresh_token =
     \<lparr>tr_access_token = access_token, tr_refresh_token = refresh_token\<rparr>"

definition create_from_user :: "tokens \<Rightarrow> string \<Rightarrow> string \<Rightarrow> nat \<Rightarrow> user_row \<Rightarrow> token_response web" where
  "create_from_user j token_secret token_issuer expiry user =
     bindo (access_token_new (u_id user) token_issuer expiry) (\<lambda>access_token_claims.
     bindo (some_or OfJwt (encode_access j access_token_claims token_secret)) (\<lambda>access_token.
     bindo (refresh_token_new (u_id user) token_issuer) (\<lambda>refresh_token_claims.
     bindo (some_or OfJwt (encode_refresh j refresh_token_claims token_secret)) (\<lambda>refresh_token.
     ret \<lparr>tr_access_token = access_token, tr_refresh_token = refresh_token\<rparr>))))"

definition create_from_refresh_token ::
  "tokens \<Rightarrow> string \<Rightarrow> string \<Rightarrow> nat \<Rightarrow> uuid \<Rightarrow> string \<Rightarrow> token_response web"
where
  "create_from_refresh_token j token_secret token_issuer expiry_time_in_minutes user_id signed_refresh_token =
     bindo (access_token_new user_id token_issuer expiry_time_in_minutes) (\<lambda>access_token_claims.
     bindo (some_or OfJwt (encode_access j access_token_claims token_secret)) (\<lambda>access_token.
     ret \<lparr>tr_access_token = access_token, tr_refresh_token = signed_refresh_token\<rparr>))"

section \<open>The user of a request\<close>

text \<open>What the extractors read of a request: the header, as a text if it is one, and where it came from.\<close>

record incoming =
  in_authorization :: "string option option"
  in_remote_ip :: "string option"
  in_uri :: string
  in_method :: string

datatype extraction_error = ErrorUnauthorized string | ErrorInternalServerError db_error
  | ErrorOf big_neon_error

type_synonym 'a extraction = "(session, extraction_error, 'a) op"

fun words_from :: "string \<Rightarrow> string \<Rightarrow> string list" where
  "words_from w [] = (if w = [] then [] else [w])"
| "words_from w (c # cs) =
     (if is_white c then (if w = [] then words_from [] cs else w # words_from [] cs)
      else words_from (w @ [c]) cs)"

definition split_whitespace :: "string \<Rightarrow> string list" where
  "split_whitespace s = words_from [] s"

definition web_step :: "'a web \<Rightarrow> 'a extraction" where
  "web_step m = (\<lambda>w. case m w of (Inr x, v) \<Rightarrow> (Inr x, v) | (Inl e, v) \<Rightarrow> (Inl (ErrorOf e), v))"

definition find_token_user :: "uuid \<Rightarrow> user_row extraction" where
  "find_token_user id' = (\<lambda>w. case user_find id' (ss_db w) of
     (Inr user, t) \<Rightarrow> (Inr user, w\<lparr>ss_db := t\<rparr>)
   | (Inl e, t) \<Rightarrow> (Inl (ErrorInternalServerError e), w\<lparr>ss_db := t\<rparr>))"

definition user_from_request :: "tokens \<Rightarrow> config \<Rightarrow> incoming \<Rightarrow> auth_user extraction" where
  "user_from_request j cfg req =
     (case in_authorization req of
        Some auth_header \<Rightarrow>
          bindo (web_step (some_or OfReqwestToStr auth_header)) (\<lambda>auth_header.
          let parts = split_whitespace auth_header;
            scheme = (case parts of p # _ \<Rightarrow> p | [] \<Rightarrow> ''None'') in
          if scheme \<noteq> ''Bearer'' then fail (ErrorUnauthorized ''Authorization scheme not supported'')
          else case tl parts of
              access_token # _ \<Rightarrow>
                bindo (gets (\<lambda>w. utc_now (ss_db w))) (\<lambda>utc.
                bindo (web_step (some_or OfJwt (decode_access j utc access_token (cfg_token_secret cfg)))) (\<lambda>token.
                bindo (web_step (access_token_get_id j token)) (\<lambda>id'.
                bindo (find_token_user id') (\<lambda>user.
                ret (auth_user_new user (in_remote_ip req) (in_uri req) (in_method req))))))
            | [] \<Rightarrow> fail (ErrorUnauthorized ''No access token provided''))
      | None \<Rightarrow> fail (ErrorUnauthorized ''Missing auth token''))"

definition optional_user_from_request :: "tokens \<Rightarrow> config \<Rightarrow> incoming \<Rightarrow> auth_user option extraction" where
  "optional_user_from_request j cfg req =
     (case in_authorization req of
        Some _ \<Rightarrow> bindo (user_from_request j cfg req) (\<lambda>u. ret (Some u))
      | None \<Rightarrow> ret None)"

section \<open>The captcha service\<close>

record recaptcha_response =
  rr_success :: bool
  rr_error_codes :: "string list option"

datatype posted = NotSent | NoText | Answered string

record recaptcha =
  rc_post :: "string \<Rightarrow> (string \<times> string) list \<Rightarrow> posted"
  rc_parse :: "string \<Rightarrow> recaptcha_response option"

definition google_recaptcha_site_verify_url :: string where
  "google_recaptcha_site_verify_url = ''https://www.google.com/recaptcha/api/siteverify''"

definition verify_response ::
  "recaptcha \<Rightarrow> string \<Rightarrow> string \<Rightarrow> string option \<Rightarrow> application_error + recaptcha_response"
where
  "verify_response rc google_recaptcha_secret_key captcha_response remote_ip =
     (let parameters = [(''secret'', google_recaptcha_secret_key), (''response'', captcha_response)] @
        (case remote_ip of Some val \<Rightarrow> [(''remoteip'', val)] | None \<Rightarrow> []) in
      case rc_post rc google_recaptcha_site_verify_url parameters of
        NotSent \<Rightarrow> Inl (application_error_new ''Error making recaptcha request'')
      | NoText \<Rightarrow> Inl (application_error_new ''Error getting recaptcha response'')
      | Answered response \<Rightarrow>
          (case rc_parse rc response of
             None \<Rightarrow> Inl (application_error_new ''Error parsing recaptcha response'')
           | Some response \<Rightarrow> Inr response))"

section \<open>Signing in\<close>

record login_request =
  lr_email :: string
  lr_password :: string
  lr_captcha_response :: "string option"

definition login_request_new :: "string \<Rightarrow> string \<Rightarrow> login_request" where
  "login_request_new email password =
     \<lparr>lr_email = email, lr_password = password, lr_captcha_response = None\<rparr>"

definition check_captcha :: "recaptcha \<Rightarrow> config \<Rightarrow> incoming \<Rightarrow> string option \<Rightarrow> unit web" where
  "check_captcha rc cfg req captcha =
     (case cfg_google_recaptcha_secret_key cfg of
        Some google_recaptcha_secret_key \<Rightarrow>
          (case captcha of
             Some captcha_response \<Rightarrow>
               bindo (lift_result (map_error OfApplication
                 (verify_response rc google_recaptcha_secret_key captcha_response (in_remote_ip req))))
                 (\<lambda>captcha_response.
               if \<not> rr_success captcha_response then unauthorized_with_message ''Captcha value invalid''
               else ret ())
           | None \<Rightarrow> unauthorized_with_message ''Captcha required'')
      | None \<Rightarrow> ret ())"

definition login_user :: "login_request \<Rightarrow> user_row web" where
  "login_user req = (\<lambda>w. case find_by_email (lr_email req) (ss_db w) of
     (Inr u, t) \<Rightarrow> (Inr u, w\<lparr>ss_db := t\<rparr>)
   | (Inl _, t) \<Rightarrow> unauthorized_with_message ''Email or password incorrect'' (w\<lparr>ss_db := t\<rparr>))"

definition auth_token ::
  "argon \<Rightarrow> tokens \<Rightarrow> recaptcha \<Rightarrow> config \<Rightarrow> incoming \<Rightarrow> login_request \<Rightarrow> token_response web"
where
  "auth_token g j rc cfg http_request login_request =
     bindo (check_captcha rc cfg http_request (lr_captcha_response login_request)) (\<lambda>_.
     bindo (login_user login_request) (\<lambda>user.
     if \<not> check_password g user (lr_password login_request)
     then unauthorized_with_message ''Email or password incorrect''
     else create_from_user j (cfg_token_secret cfg) (cfg_token_issuer cfg) (cfg_jwt_expiry_time cfg) user))"

text \<open>The seconds of the last change as \<open>timestamp() as u64\<close>.\<close>

definition password_modified_timestamp :: "user_row \<Rightarrow> nat" where
  "password_modified_timestamp user = nat ((u_password_modified_at user div seconds 1) mod 2 ^ 64)"

definition token_refresh :: "tokens \<Rightarrow> config \<Rightarrow> string \<Rightarrow> token_response http_response web" where
  "token_refresh j cfg refresh_token =
     bindo (some_or OfJwt (decode_refresh j False refresh_token (cfg_token_secret cfg))) (\<lambda>claims.
     bindo (refresh_token_get_id j claims) (\<lambda>id'.
     bindo (on_db (user_find id')) (\<lambda>user.
     if password_modified_timestamp user > rt_issued claims then unauthorized_with_message ''Invalid token''
     else
       bindo (create_from_refresh_token j (cfg_token_secret cfg) (cfg_token_issuer cfg)
         (cfg_jwt_expiry_time cfg) (u_id user) refresh_token) http_ok)))"

section \<open>Users\<close>

record current_user =
  cu_user :: display_user
  cu_roles :: "roles list"
  cu_scopes :: "scopes list"
  cu_organization_roles :: "uuid \<rightharpoonup> roles list"
  cu_organization_scopes :: "uuid \<rightharpoonup> scopes list"

definition current_user_from_user :: "user_row \<Rightarrow> current_user web" where
  "current_user_from_user user =
     bindo (on_db (get_roles_by_organization user)) (\<lambda>roles_by_organization.
     bindo (on_db (user_for_display user)) (\<lambda>display.
     ret \<lparr>cu_user = display, cu_roles = u_role user, cu_scopes = get_global_scopes user,
       cu_organization_roles = roles_by_organization,
       cu_organization_scopes = map_option get_scopes \<circ> roles_by_organization\<rparr>))"

definition show_current_user :: "auth_user \<Rightarrow> current_user http_response web" where
  "show_current_user auth_user = bindo (current_user_from_user (au_user auth_user)) http_ok"

definition users_profile :: "uuid \<Rightarrow> uuid \<Rightarrow> auth_user \<Rightarrow> fan_profile http_response web" where
  "users_profile id' user_id auth_user =
     bindo (on_db (organization_find id')) (\<lambda>organization.
     bindo (requires_scope_for_organization auth_user OrgFans organization) (\<lambda>_.
     bindo (on_db (user_find user_id)) (\<lambda>user.
     bindo (on_db (has_fan organization user)) (\<lambda>fan.
     if \<not> fan then forbidden ''Fan does not belong to this organization''
     else bindo (on_db (get_profile_for_organization user organization)) http_ok))))"

definition users_history ::
  "uuid \<Rightarrow> uuid \<Rightarrow> paging_parameters \<Rightarrow> auth_user \<Rightarrow> history_item payload http_response web"
where
  "users_history id' user_id query auth_user =
     bindo (on_db (organization_find id')) (\<lambda>organization.
     bindo (requires_scope_for_organization auth_user OrgFans organization) (\<lambda>_.
     bindo (on_db (user_find user_id)) (\<lambda>user.
     bindo (on_db (has_fan organization user)) (\<lambda>fan.
     if \<not> fan then unauthorized
     else bindo (on_db (get_history_for_organization user organization (parameters_page query)
       (parameters_limit query) (unwrap_or (pp_dir query) Desc))) http_ok))))"

record user_profile_attributes =
  upa_first_name :: "string option option"
  upa_last_name :: "string option option"
  upa_email :: "string option option"
  upa_phone :: "string option option"
  upa_profile_pic_url :: "string option option"
  upa_thumb_profile_pic_url :: "string option option"
  upa_cover_photo_url :: "string option option"

definition editable_of_profile :: "user_profile_attributes \<Rightarrow> user_attributes" where
  "editable_of_profile attributes =
     \<lparr>ua_first_name = upa_first_name attributes, ua_last_name = upa_last_name attributes,
      ua_email = upa_email attributes, ua_phone = upa_phone attributes, ua_active = None, ua_role = None,
      ua_profile_pic_url = upa_profile_pic_url attributes,
      ua_thumb_profile_pic_url = upa_thumb_profile_pic_url attributes,
      ua_cover_photo_url = upa_cover_photo_url attributes\<rparr>"

definition update_current_user ::
  "(string \<Rightarrow> bool) \<Rightarrow> user_profile_attributes \<Rightarrow> auth_user \<Rightarrow> current_user http_response web"
where
  "update_current_user valid_url user_parameters auth_user =
     bindo (on_db (user_update valid_url (au_user auth_user) (editable_of_profile user_parameters))) (\<lambda>updated_user.
     bindo (current_user_from_user updated_user) http_ok)"

text \<open>Only the users themselves and administrators.\<close>

definition self_or_admin :: "uuid \<Rightarrow> auth_user \<Rightarrow> user_row web" where
  "self_or_admin id' auth_user =
     bindo (on_db (user_find id')) (\<lambda>user.
     if \<not> (au_user auth_user = user \<or> is_admin (au_user auth_user)) then unauthorized else ret user)"

definition users_show :: "uuid \<Rightarrow> auth_user \<Rightarrow> display_user http_response web" where
  "users_show id' auth_user =
     bindo (self_or_admin id' auth_user) (\<lambda>user.
     bindo (on_db (user_for_display user)) http_ok)"

definition list_organizations ::
  "uuid \<Rightarrow> paging_parameters \<Rightarrow> auth_user \<Rightarrow> display_organization_link payload http_response web"
where
  "list_organizations id' query_parameters auth_user =
     bindo (self_or_admin id' auth_user) (\<lambda>_.
     bindo (on_db (all_org_names_linked_to_user id')) (\<lambda>organization_links.
     http_ok (payload_from_data organization_links (parameters_page query_parameters)
       (parameters_limit query_parameters))))"

definition show_push_notification_tokens_for_user_id ::
  "uuid \<Rightarrow> auth_user \<Rightarrow> display_push_notification_token list http_response web"
where
  "show_push_notification_tokens_for_user_id id' auth_user =
     bindo (self_or_admin id' auth_user) (\<lambda>_.
     bindo (on_db (push_tokens_by_user_id id')) (\<lambda>ts. http_ok (map display_push_token_of ts)))"

definition show_push_notification_tokens ::
  "auth_user \<Rightarrow> display_push_notification_token list http_response web"
where
  "show_push_notification_tokens auth_user =
     bindo (on_db (push_tokens_by_user_id (au_id auth_user))) (\<lambda>ts. http_ok (map display_push_token_of ts))"

definition add_push_notification_token :: "string \<Rightarrow> string \<Rightarrow> auth_user \<Rightarrow> unit http_response web" where
  "add_push_notification_token token_source token auth_user =
     bindo (on_db (push_token_commit (push_token_create (au_id auth_user) token_source token))) (\<lambda>_. http_finish)"

definition remove_push_notification_token :: "uuid \<Rightarrow> auth_user \<Rightarrow> unit http_response web" where
  "remove_push_notification_token id' auth_user =
     bindo (on_db (push_token_remove (au_id auth_user) id')) (\<lambda>_. http_finish)"

definition payment_methods_index :: "auth_user \<Rightarrow> display_payment_method list http_response web" where
  "payment_methods_index auth_user =
     bindo (on_db (user_payment_methods (au_user auth_user))) (\<lambda>ms. http_ok (map display_payment_method_of ms))"

section \<open>Signing up\<close>

record register_request =
  rr_email :: string
  rr_first_name :: "string option"
  rr_last_name :: "string option"
  rr_phone :: "string option"
  rr_password :: string
  rr_captcha_response :: "string option"

definition new_user_of_register :: "argon \<Rightarrow> register_request \<Rightarrow> new_user dbop" where
  "new_user_of_register g attributes =
     user_create g (rr_first_name attributes) (rr_last_name attributes) (Some (rr_email attributes))
       (rr_phone attributes) (rr_password attributes)"

definition register_request_new ::
  "string \<Rightarrow> string \<Rightarrow> string \<Rightarrow> string \<Rightarrow> string \<Rightarrow> string option \<Rightarrow> register_request"
where
  "register_request_new first_name last_name email phone password captcha_response =
     \<lparr>rr_email = email, rr_first_name = Some first_name, rr_last_name = Some last_name, rr_phone = Some phone,
      rr_password = password, rr_captcha_response = captcha_response\<rparr>"

definition verify_recaptcha ::
  "recaptcha \<Rightarrow> string \<Rightarrow> string option \<Rightarrow> string option \<Rightarrow> application_error + recaptcha_response"
where
  "verify_recaptcha rc google_recaptcha_secret_key captcha_response remote_ip =
     (case captcha_response of
        Some captcha_response \<Rightarrow>
          (case verify_response rc google_recaptcha_secret_key captcha_response remote_ip of
             Inl e \<Rightarrow> Inl e
           | Inr response \<Rightarrow>
               if \<not> rr_success response then Inl (application_error_new ''Captcha value invalid'')
               else Inr response)
      | None \<Rightarrow> Inl (application_error_new ''Captcha required''))"

definition check_register_captcha :: "recaptcha \<Rightarrow> config \<Rightarrow> incoming \<Rightarrow> register_request \<Rightarrow> unit web" where
  "check_register_captcha rc cfg http_request parameters =
     (case cfg_google_recaptcha_secret_key cfg of
        Some google_recaptcha_secret_key \<Rightarrow>
          (case verify_recaptcha rc google_recaptcha_secret_key (rr_captcha_response parameters)
              (in_remote_ip http_request) of
             Inl err \<Rightarrow> unauthorized_with_message (ape_reason err)
           | Inr _ \<Rightarrow> ret ())
      | None \<Rightarrow> ret ())"

definition welcome_mail :: "crates \<Rightarrow> config \<Rightarrow> new_user \<Rightarrow> unit web" where
  "welcome_mail c cfg new_user =
     (case (nu_first_name new_user, nu_email new_user) of
        (Some first_name, Some email) \<Rightarrow> on_db (user_registered c first_name email cfg)
      | _ \<Rightarrow> ret ())"

definition register ::
  "argon \<Rightarrow> crates \<Rightarrow> recaptcha \<Rightarrow> config \<Rightarrow> incoming \<Rightarrow> register_request \<Rightarrow> unit http_response web"
where
  "register g c rc cfg http_request parameters =
     bindo (check_register_captcha rc cfg http_request parameters) (\<lambda>_.
     bindo (on_db (new_user_of_register g parameters)) (\<lambda>new_user.
     bindo (on_db (user_commit new_user)) (\<lambda>_.
     bindo (welcome_mail c cfg new_user) (\<lambda>_.
     ret \<lparr>hr_status = 201, hr_body = body.Empty\<rparr>))))"

definition register_and_login ::
  "argon \<Rightarrow> tokens \<Rightarrow> crates \<Rightarrow> recaptcha \<Rightarrow> config \<Rightarrow> incoming \<Rightarrow> register_request \<Rightarrow>
     token_response http_response web"
where
  "register_and_login g j c rc cfg http_request parameters =
     bindo (check_register_captcha rc cfg http_request parameters) (\<lambda>_.
     bindo (on_db (new_user_of_register g parameters)) (\<lambda>new_user.
     bindo (on_db (user_commit new_user)) (\<lambda>_.
     bindo (auth_token g j rc cfg http_request
       (login_request_new (rr_email parameters) (rr_password parameters))) (\<lambda>token_response.
     bindo (welcome_mail c cfg new_user) (\<lambda>_.
     http_created token_response)))))"

section \<open>Passwords and invitations\<close>

definition queue_link :: "crates \<Rightarrow> communication option \<Rightarrow> unit web" where
  "queue_link c message = bindo (some_or HandlerPanicked message) (\<lambda>m. on_db (queue c m))"

definition password_resets_create :: "crates \<Rightarrow> config \<Rightarrow> string \<Rightarrow> string http_response web" where
  "password_resets_create c cfg email =
     (let request_pending_response = http_created (''Your request has been received; '' @ email @
        '' will receive an email shortly with a link to reset your password if it is an account on file.'') in
      bindo (\<lambda>w. case find_by_email email (ss_db w) of
          (Inr user, t) \<Rightarrow> (Inr (Some user), w\<lparr>ss_db := t\<rparr>)
        | (Inl _, t) \<Rightarrow> (Inr None, w\<lparr>ss_db := t\<rparr>)) (\<lambda>found.
      case found of
        None \<Rightarrow> request_pending_response
      | Some user \<Rightarrow>
          bindo (on_db (create_password_reset_token user)) (\<lambda>user.
          bindo (queue_link c (password_reset_email cfg user)) (\<lambda>_.
          request_pending_response))))"

definition password_resets_update ::
  "argon \<Rightarrow> tokens \<Rightarrow> config \<Rightarrow> uuid \<Rightarrow> string \<Rightarrow> token_response http_response web"
where
  "password_resets_update g j cfg password_reset_token password =
     bindo (on_db (consume_password_reset_token g password_reset_token password)) (\<lambda>user.
     bindo (create_from_user j (cfg_token_secret cfg) (cfg_token_issuer cfg) (cfg_jwt_expiry_time cfg) user)
       http_ok)"

record user_invite_request =
  uir_first_name :: "string option"
  uir_last_name :: "string option"
  uir_email :: string

definition user_invites_create ::
  "argon \<Rightarrow> crates \<Rightarrow> config \<Rightarrow> user_invite_request \<Rightarrow> unit http_response web"
where
  "user_invites_create g c cfg parameters =
     bindo (on_db (optional_op (find_by_email (uir_email parameters)))) (\<lambda>found.
     case found of
       Some _ \<Rightarrow> http_created ()
     | None \<Rightarrow>
         bindo (on_db (new_for_invite g (uir_first_name parameters) (uir_last_name parameters)
           (Some (uir_email parameters)))) (\<lambda>new_user.
         bindo (on_db (user_commit new_user)) (\<lambda>user.
         bindo (on_db (create_password_reset_token user)) (\<lambda>user.
         bindo (queue_link c (invite_user_email cfg user)) (\<lambda>_.
         http_created ())))))"

section \<open>Signing in with Facebook\<close>

record facebook_graph_response =
  fgr_id :: string
  fgr_first_name :: string
  fgr_last_name :: string
  fgr_email :: string

text \<open>Facebook: what a read of a page with a token answers, and how its answer is read.\<close>

record facebook =
  fb_get :: "string \<Rightarrow> string \<Rightarrow> string option"
  fb_parse :: "string \<Rightarrow> facebook_graph_response option"

definition facebook_graph_url :: string where
  "facebook_graph_url = ''https://graph.facebook.com''"

definition facebook_user :: "argon \<Rightarrow> string \<Rightarrow> facebook_graph_response \<Rightarrow> user_row web" where
  "facebook_user g access_token response = (\<lambda>w.
     case find_by_email (fgr_email response) (ss_db w) of
       (Inr user, t) \<Rightarrow>
         bindo (on_db (add_external_login user (fgr_id response) facebook_site access_token)) (\<lambda>_. ret user)
           (w\<lparr>ss_db := t\<rparr>)
     | (Inl e, t) \<Rightarrow>
         (if err_code e = 2000
          then on_db (create_from_external_login g (fgr_id response) (fgr_first_name response)
            (fgr_last_name response) (fgr_email response) facebook_site access_token)
          else fail (OfDatabase e)) (w\<lparr>ss_db := t\<rparr>))"

definition web_login ::
  "argon \<Rightarrow> tokens \<Rightarrow> facebook \<Rightarrow> config \<Rightarrow> string \<Rightarrow> token_response http_response web"
where
  "web_login g j fb cfg access_token =
     bindo (some_or OfReqwest (fb_get fb (facebook_graph_url @ ''/me?fields=id,email,first_name,last_name'')
       (''Bearer '' @ access_token))) (\<lambda>response.
     bindo (some_or OfSerde (fb_parse fb response)) (\<lambda>facebook_graph_response.
     bindo (on_db (find_login_user (fgr_id facebook_graph_response) ''facebook.com'')) (\<lambda>existing_user.
     bindo (case existing_user of
         Some u \<Rightarrow> on_db (user_find (el_user_id u))
       | None \<Rightarrow> facebook_user g access_token facebook_graph_response) (\<lambda>user.
     bindo (create_from_user j (cfg_token_secret cfg) (cfg_token_issuer cfg) (cfg_jwt_expiry_time cfg) user)
       http_ok))))"

section \<open>Reading optional texts\<close>

text \<open>\<open>deserialize_unless_blank\<close> and its variant for columns that can be emptied
  (\<open>db/src/models/mod.rs\<close>); how a value of the type is read is the parameter.\<close>

definition not_blank :: "json \<Rightarrow> bool" where
  "not_blank value = (case value of JString v \<Rightarrow> v \<noteq> [] | _ \<Rightarrow> False)"

definition deserialize_unless_blank :: "(json \<Rightarrow> 'a option) \<Rightarrow> json \<Rightarrow> 'a option" where
  "deserialize_unless_blank deserialize value = (if not_blank value then deserialize value else None)"

definition double_option_deserialize_unless_blank :: "(json \<Rightarrow> 'a option) \<Rightarrow> json \<Rightarrow> 'a option" where
  "double_option_deserialize_unless_blank deserialize value =
     (if value = JNull then deserialize JNull
      else if not_blank value then deserialize value
      else deserialize JNull)"

section \<open>A new password ends the sessions before it\<close>

lemma some_or_Inr_iff: "some_or e x w = (Inr y, v) \<longleftrightarrow> x = Some y \<and> v = w"
  by (auto simp: some_or_def ret_run fail_run split: option.split)

lemma access_token_new_run:
  "access_token_new i issuer m w =
     (let t = utc_now (ss_db w) + seconds (int (m * 60)) in
      if 0 \<le> t then Inr \<lparr>at_sub = uuid_to_string i, at_iss = issuer, at_exp = nat (t div seconds 1)\<rparr>
      else Inl HandlerPanicked, w)"
  by (simp add: access_token_new_def unix_seconds_def bindo_run ret_run fail_run Let_def)

lemma create_from_user_Inr:
  assumes "create_from_user j key issuer expiry user w = (Inr r, v)"
  shows "v = w \<and> 0 \<le> utc_now (ss_db w) \<and> (\<exists>claims. fst (access_token_new (u_id user) issuer expiry w) = Inr claims \<and>
    encode_access j claims key = Some (tr_access_token r))"
  using assms
  by (auto simp: create_from_user_def refresh_token_new_def unix_seconds_def bindo_Inr_iff some_or_Inr_iff
      access_token_new_run Let_def ret_run fail_run split: if_splits)

lemma consume_sets_password:
  assumes "consume_password_reset_token g k pw s = (Inr u, t)" and "distinct (map u_id (db_users s))"
    and "find (\<lambda>u. u_password_reset_token u = Some k) (db_users s) = Some owner"
  shows "find (\<lambda>v. u_id v = u_id owner) (db_users t) = Some u \<and> u_id u = u_id owner \<and>
    u_password_modified_at u = utc_now s \<and> utc_now t = utc_now s"
proof -
  have owner: "owner \<in> set (db_users s)" using assms(3) by (auto dest: find_SomeD)
  have found: "find_by_password_reset_token k s = (Inr owner, s)"
    using assms(3) by (simp add: find_by_password_reset_token_def first_where_run)
  obtain salt n where hash: "password_hash_generate g pw None s =
      (Inr (argon_default2i g pw salt), s\<lparr>rng_drawn := n\<rparr>)"
    using password_hash_generate_run by blast
  let ?s = "s\<lparr>rng_drawn := n\<rparr>"
  let ?f = "\<lambda>u. u\<lparr>u_hashed_pw := password_hash_to_string g (argon_default2i g pw salt),
    u_password_modified_at := utc_now s, u_updated_at := now s, u_password_reset_token := None,
    u_password_reset_requested_at := None\<rparr>"
  have "update_user_row owner ?f ''Could not save new password for user'' ?s = (Inr u, t)"
    using assms(1) by (auto simp: consume_password_reset_token_def bindo_run found hash fail_run split: if_splits)
  moreover have "update_user_row owner ?f ''Could not save new password for user'' ?s =
      (Inr (?f owner), ?s\<lparr>db_users := update_where (\<lambda>u. u_id u = u_id owner) ?f (db_users s)\<rparr>)"
    using update_user_row_run [of ?s owner owner ?f] assms(2) owner by simp
  ultimately have u: "u = ?f owner" and t: "t = ?s\<lparr>db_users := update_where (\<lambda>u. u_id u = u_id owner) ?f (db_users s)\<rparr>"
    by simp_all
  have "find (\<lambda>v. u_id v = u_id owner) (db_users s) = Some owner"
    using filter_by_key [OF assms(2) owner] by (rule find_Some_filter)
  then show ?thesis by (simp add: u t find_update_where [where key = u_id])
qed

text \<open>C33: once a reset has set a new password and answered with new tokens, whoever presents a refresh token
  of that account that was issued in an earlier second than the reset is refused, whenever he comes. A token
  issued in the second of the reset or later is still answered, whenever he comes: with itself and an access
  token for the account that runs from then, if the crate signs it. So tokens of the second of the reset survive it.\<close>

theorem new_password_ends_sessions:
  assumes reset: "run_request (password_resets_update g j cfg k pw) s = (\<lparr>hr_status = 200, hr_body = Json r\<rparr>, w)"
    and ids: "distinct (map u_id (db_users s))" and clock: "utc_now s < seconds (2 ^ 64)"
    and owner: "find (\<lambda>u. u_password_reset_token u = Some k) (db_users s) = Some owner"
    and claims: "decode_refresh j False old (cfg_token_secret cfg) = Some claims"
      "parse_uuid j (rt_sub claims) = Some (u_id owner)"
  shows "if rt_issued claims < nat (utc_now s div seconds 1)
    then fst (run_request (token_refresh j cfg old) ((ss_db w)\<lparr>utc_now := later\<rparr>)) =
      unauthorized_response ''Invalid token''
    else let expiry = later + seconds (int (cfg_jwt_expiry_time cfg * 60)) in
      0 \<le> expiry \<and> encode_access j \<lparr>at_sub = uuid_to_string (u_id owner), at_iss = cfg_token_issuer cfg,
          at_exp = nat (expiry div seconds 1)\<rparr> (cfg_token_secret cfg) = Some token \<longrightarrow>
        fst (run_request (token_refresh j cfg old) ((ss_db w)\<lparr>utc_now := later\<rparr>)) =
          \<lparr>hr_status = 200, hr_body = Json \<lparr>tr_access_token = token, tr_refresh_token = old\<rparr>\<rparr>"
proof -
  let ?w = "\<lparr>ss_db = s, ss_committed = s, ss_calls = []\<rparr>"
  obtain res v where run: "password_resets_update g j cfg k pw ?w = (res, v)" by fastforce
  obtain response where "res = Inr response" and w: "ss_db w = ss_db v"
    and "response = \<lparr>hr_status = 200, hr_body = Json r\<rparr>"
  proof (cases res)
    case (Inl e)
    then have "to_response e = \<lparr>hr_status = 200, hr_body = Json r\<rparr>"
      using reset run by (auto simp: run_request_def bindo_run begin_transaction_def)
    then have "hr_status (to_response e :: token_response http_response) = 200" by simp
    then show ?thesis by (simp add: error_status)
  next
    case (Inr response)
    then show ?thesis using reset run that
      by (auto simp: run_request_def bindo_run begin_transaction_def commit_transaction_def)
  qed
  with run obtain u t where use: "consume_password_reset_token g k pw s = (Inr u, t)"
    and made: "create_from_user j (cfg_token_secret cfg) (cfg_token_issuer cfg) (cfg_jwt_expiry_time cfg) u
      (?w\<lparr>ss_db := t\<rparr>) = (Inr r, v)"
    by (auto simp: password_resets_update_def bindo_Inr_iff on_db_run http_ok_def ret_run split: sum.splits)
      (metis prod.collapse)
  from consume_sets_password [OF use ids owner] have u: "find (\<lambda>v. u_id v = u_id owner) (db_users t) = Some u"
    "u_id u = u_id owner" "u_password_modified_at u = utc_now s" "utc_now t = utc_now s" by simp_all
  from create_from_user_Inr [OF made] have v: "ss_db w = t" and "0 \<le> utc_now s" by (simp_all add: w u(4))
  then have second: "password_modified_timestamp u = nat (utc_now s div seconds 1)"
    using clock by (simp add: password_modified_timestamp_def u(3) seconds_def)
  show ?thesis
  proof (cases "rt_issued claims < nat (utc_now s div seconds 1)")
    case True
    then show ?thesis
      by (simp add: run_request_def token_refresh_def bindo_run begin_transaction_def some_or_def claims
          refresh_token_get_id_def ret_run on_db_run user_find_def first_where_run v u(1) second
          unauthorized_with_message_def fail_run to_response_def auth_error_response_def auth_error_new_def)
  next
    case False
    then show ?thesis
      by (simp add: run_request_def token_refresh_def bindo_run begin_transaction_def some_or_def claims
          refresh_token_get_id_def ret_run on_db_run user_find_def first_where_run v u(1,2) second http_ok_def
          create_from_refresh_token_def access_token_new_run Let_def)
  qed
qed

definition sample_tokens :: tokens where
  "sample_tokens = \<lparr>encode_access = (\<lambda>_ _. Some ''access''), encode_refresh = (\<lambda>_ _. Some ''refresh''),
     decode_access = (\<lambda>_ _ _. Some \<lparr>at_sub = ''1'', at_iss = ''bn'', at_exp = 1000\<rparr>),
     decode_refresh = (\<lambda>_ t _. Some \<lparr>rt_sub = ''1'', rt_iss = ''bn'', rt_issued = length t\<rparr>),
     parse_uuid = (\<lambda>_. Some 1)\<rparr>"

definition sample_forgetful :: user_row where
  "sample_forgetful = (blank_user 1)\<lparr>u_password_reset_token := Some 5, u_password_reset_requested_at := Some 0\<rparr>"

definition sample_reset :: db where
  "sample_reset = blank_db\<lparr>db_users := [sample_forgetful], utc_now := seconds 10\<rparr>"

theorem new_password_ends_sessions_witness:
  "\<forall>cfg. \<exists>r w. run_request (password_resets_update sample_argon sample_tokens cfg 5 ''pw'') sample_reset =
      (\<lparr>hr_status = 200, hr_body = Json r\<rparr>, w) \<and>
    fst (run_request (token_refresh sample_tokens cfg ''old'') ((ss_db w)\<lparr>utc_now := seconds 1000\<rparr>)) =
      unauthorized_response ''Invalid token''"
proof
  fix cfg
  have rows: "db_users sample_reset = [sample_forgetful]" "utc_now sample_reset = seconds 10"
    by (simp_all add: sample_reset_def)
  have "\<exists>u t. consume_password_reset_token sample_argon 5 ''pw'' sample_reset = (Inr u, t)"
    using consume_run(1) [of 5 sample_reset sample_forgetful 0 sample_argon "''pw''"] sample_argon_works
    by (auto simp: rows sample_forgetful_def days_def seconds_def)
  then obtain u t where "consume_password_reset_token sample_argon 5 ''pw'' sample_reset = (Inr u, t)" by blast
  moreover from consume_sets_password [OF this] have "utc_now t = seconds 10"
    by (simp add: rows sample_forgetful_def)
  ultimately obtain r w where run: "run_request (password_resets_update sample_argon sample_tokens cfg 5 ''pw'')
      sample_reset = (\<lparr>hr_status = 200, hr_body = Json r\<rparr>, w)"
    by (simp add: run_request_def password_resets_update_def bindo_run begin_transaction_def on_db_run
        create_from_user_def access_token_new_run refresh_token_new_def unix_seconds_def ret_run some_or_def
        sample_tokens_def seconds_def http_ok_def)
  have "fst (run_request (token_refresh sample_tokens cfg ''old'') ((ss_db w)\<lparr>utc_now := seconds 1000\<rparr>)) =
      unauthorized_response ''Invalid token''"
    using new_password_ends_sessions [OF run, where old = "''old''" and later = "seconds 1000"
        and owner = sample_forgetful and claims = "\<lparr>rt_sub = ''1'', rt_iss = ''bn'', rt_issued = 3\<rparr>"]
    by (simp add: rows sample_tokens_def sample_forgetful_def blank_user_def seconds_def)
  with run show "\<exists>r w. run_request (password_resets_update sample_argon sample_tokens cfg 5 ''pw'') sample_reset =
      (\<lparr>hr_status = 200, hr_body = Json r\<rparr>, w) \<and>
    fst (run_request (token_refresh sample_tokens cfg ''old'') ((ss_db w)\<lparr>utc_now := seconds 1000\<rparr>)) =
      unauthorized_response ''Invalid token''" by blast
qed

text \<open>C34: when a captcha key is configured, signing up and in at once never makes an account, whatever the
  captcha service says: the sign-in after it carries no captcha and is refused, the response is an error and
  no row remains.\<close>

theorem sign_up_with_captcha_fails:
  assumes "cfg_google_recaptcha_secret_key cfg = Some key"
  shows "case run_request (register_and_login g j c rc cfg http_request parameters) s of (response, w) \<Rightarrow>
    400 \<le> hr_status response \<and> ss_db w = roll_back_to s (ss_db w)"
proof -
  let ?h = "register_and_login g j c rc cfg http_request parameters"
  obtain res v where run: "?h \<lparr>ss_db = s, ss_committed = s, ss_calls = []\<rparr> = (res, v)" by fastforce
  obtain e where e: "res = Inl e"
    using run by (cases res) (auto simp: register_and_login_def auth_token_def check_captcha_def assms
        login_request_new_def unauthorized_with_message_def fail_run bindo_Inr_iff)
  have "steps same_committed ?h"
    unfolding register_and_login_def auth_token_def check_captcha_def assms login_request_new_def
      check_register_captcha_def welcome_mail_def unauthorized_with_message_def option.case login_request.simps
    by (auto intro!: never_commits split: option.split sum.split)
  from failed_request_rolled_back [OF this run [unfolded e]] obtain w where
    "run_request ?h s = (to_response e, w)" and "ss_db w = roll_back_to s (ss_db v)" by blast
  moreover have "400 \<le> hr_status (to_response e :: token_response http_response)"
    by (metis error_status not_le)
  ultimately show ?thesis by (simp add: roll_back_to_def)
qed


definition sample_sign_up :: register_request where
  "sample_sign_up = register_request_new ''Ann'' ''A'' ''a@b.c'' ''123'' ''pw'' (Some ''captcha'')"

definition sample_incoming :: incoming where
  "sample_incoming = \<lparr>in_authorization = None, in_remote_ip = None, in_uri = ''/users'', in_method = ''POST''\<rparr>"

definition sample_recaptcha :: recaptcha where
  "sample_recaptcha = \<lparr>rc_post = (\<lambda>_ _. Answered ''ok''), rc_parse = (\<lambda>_. Some \<lparr>rr_success = True, rr_error_codes = None\<rparr>)\<rparr>"

theorem sign_up_with_captcha_fails_witness:
  "\<forall>cfg. 400 \<le> hr_status (fst (run_request (register_and_login sample_argon sample_tokens sample_crates
      sample_recaptcha (cfg\<lparr>cfg_google_recaptcha_secret_key := Some ''key''\<rparr>) sample_incoming sample_sign_up)
      blank_db))"
proof
  fix cfg
  show "400 \<le> hr_status (fst (run_request (register_and_login sample_argon sample_tokens sample_crates
      sample_recaptcha (cfg\<lparr>cfg_google_recaptcha_secret_key := Some ''key''\<rparr>) sample_incoming sample_sign_up)
      blank_db))"
    using sign_up_with_captcha_fails [of "cfg\<lparr>cfg_google_recaptcha_secret_key := Some ''key''\<rparr>" "''key''",
        where s = blank_db and g = sample_argon and j = sample_tokens and c = sample_crates
          and rc = sample_recaptcha and http_request = sample_incoming and parameters = sample_sign_up]
    by (auto split: prod.splits)
qed

section \<open>Who a request comes from\<close>

lemma web_step_Inr_iff: "web_step m w = (Inr x, v) \<longleftrightarrow> m w = (Inr x, v)"
  by (auto simp: web_step_def split: prod.splits sum.splits)

lemma find_token_user_Inr_iff:
  "find_token_user i w = (Inr u, v) \<longleftrightarrow> find (\<lambda>u. u_id u = i) (db_users (ss_db w)) = Some u \<and> v = w"
  by (auto simp: find_token_user_def user_find_def first_where_run split: option.split)

text \<open>C35: a request is taken to come from a user exactly when its header has the scheme Bearer and a second
  word that is, for the key of the server and at this moment, a token with the identifier of a user; the
  scopes are then those of the roles the user has now, whatever they were when the token was made.\<close>

theorem request_user_is_token_owner:
  "(user_from_request j cfg req w = (Inr user, v)) \<longleftrightarrow>
     (\<exists>header token claims id' u more. in_authorization req = Some (Some header) \<and>
        split_whitespace header = ''Bearer'' # token # more \<and>
        decode_access j (utc_now (ss_db w)) token (cfg_token_secret cfg) = Some claims \<and>
        parse_uuid j (at_sub claims) = Some id' \<and>
        find (\<lambda>u. u_id u = id') (db_users (ss_db w)) = Some u \<and> v = w \<and>
        user = \<lparr>au_user = u, au_global_scopes = map scope_to_string (get_scopes (u_role u)),
          au_ip_address = in_remote_ip req, au_uri = in_uri req, au_method = in_method req\<rparr>)"
proof (cases "\<exists>header. in_authorization req = Some (Some header)")
  case False
  then show ?thesis
    by (auto simp: user_from_request_def bindo_Inr_iff web_step_Inr_iff some_or_Inr_iff fail_run split: option.split)
next
  case True
  then obtain header where header: "in_authorization req = Some (Some header)" by blast
  show ?thesis
    by (cases "split_whitespace header"; cases "tl (split_whitespace header)")
      (auto simp: user_from_request_def header bindo_Inr_iff web_step_Inr_iff some_or_Inr_iff fail_run ret_run
        access_token_get_id_def find_token_user_Inr_iff auth_user_new_def get_global_scopes_def)
qed

end
