(* ===== verification/Reports.thy ===== *)
theory Reports imports Ticket_Requests begin

text \<open>
  The reports of an organization: the queries and sums of \<open>db/src/models/reports.rs\<close> with its SQL texts in
  \<open>db/src/queries/reports/\<close>, and the requests of \<open>api/src/controllers/reports.rs\<close>. A query without an order
  answers its rows here in the order of the tables. The last sections show which sales a report may count
  twice, and that the summary of an event is not tied to the organization that was asked for its scope.
\<close>

section \<open>Rows\<close>

record transaction_report_row =
  trr_event_name :: string
  trr_ticket_name :: string
  trr_quantity :: int
  trr_refunded_quantity :: int
  trr_unit_price_in_cents :: int
  trr_gross :: int
  trr_company_fee_in_cents :: int
  trr_client_fee_in_cents :: int
  trr_order_type :: order_types
  trr_payment_method :: "payment_methods option"
  trr_transaction_date :: timestamp
  trr_redemption_code :: "string option"
  trr_order_id :: uuid
  trr_event_id :: uuid
  trr_user_id :: uuid

record event_summary_sales_row =
  ssr_event_id :: uuid
  ssr_ticket_name :: string
  ssr_pricing_name :: string
  ssr_total_client_fee_in_cents :: int
  ssr_total_company_fee_in_cents :: int
  ssr_price_in_cents :: int
  ssr_online_count :: int
  ssr_box_office_count :: int
  ssr_comp_count :: int
  ssr_total_sold :: int
  ssr_total_gross_income_in_cents :: int
  ssr_ticket_type_id :: uuid
  ssr_ticket_pricing_id :: uuid

record event_summary_fees_row =
  sfr_event_id :: uuid
  sfr_ticket_type_id :: uuid
  sfr_ticket_pricing_id :: uuid
  sfr_ticket_name :: string
  sfr_pricing_name :: string
  sfr_total_sold :: int
  sfr_comp_count :: int
  sfr_online_count :: int
  sfr_price_in_cents :: int
  sfr_total_company_fee_in_cents :: int
  sfr_company_fee_in_cents :: int
  sfr_total_client_fee_in_cents :: int
  sfr_client_fee_in_cents :: int

record event_summary_other_fees =
  sof_event_id :: uuid
  sof_unit_price_in_cents :: int
  sof_total_company_fee_in_cents :: int
  sof_company_fee_in_cents :: int
  sof_total_client_fee_in_cents :: int
  sof_client_fee_in_cents :: int

record event_summary_sales_result =
  ssl_event_id :: uuid
  ssl_sales :: "event_summary_sales_row list"
  ssl_ticket_fees :: "event_summary_fees_row list"
  ssl_other_fees :: "event_summary_other_fees list"

definition default_summary :: event_summary_sales_result where
  "default_summary = \<lparr>ssl_event_id = uuid_nil, ssl_sales = [], ssl_ticket_fees = [], ssl_other_fees = []\<rparr>"

record ticket_count_row =
  tcr_ticket_type_id :: uuid
  tcr_ticket_name :: string
  tcr_ticket_stats :: string
  tcr_event_id :: uuid
  tcr_event_name :: string
  tcr_organization_id :: uuid
  tcr_allocation_count :: int
  tcr_unpurchased_count :: int
  tcr_available_count :: int
  tcr_comp_count :: int
  tcr_comp_available_count :: int
  tcr_comp_redeemed_count :: int
  tcr_comp_purchased_count :: int
  tcr_comp_reserved_count :: int
  tcr_comp_nullified_count :: int
  tcr_hold_count :: int
  tcr_hold_available_count :: int
  tcr_hold_redeemed_count :: int
  tcr_hold_purchased_count :: int
  tcr_hold_reserved_count :: int
  tcr_hold_nullified_count :: int

record ticket_count_sales_row =
  tcs_event_id :: uuid
  tcs_organization_id :: uuid
  tcs_ticket_type_id :: uuid
  tcs_box_office_count :: int
  tcs_online_count :: int
  tcs_box_office_sales_in_cents :: int
  tcs_online_sales_in_cents :: int
  tcs_total_box_office_fees_in_cents :: int
  tcs_total_online_fees_in_cents :: int
  tcs_company_box_office_fees_in_cents :: int
  tcs_client_box_office_fees_in_cents :: int
  tcs_company_online_fees_in_cents :: int
  tcs_client_online_fees_in_cents :: int

record ticket_count_result =
  tcn_sales :: "ticket_count_sales_row option"
  tcn_totals :: "ticket_count_row option"

section \<open>What the queries share\<close>

text \<open>A condition that is null lets every row through; a null column fails a condition that is not.\<close>

definition unless_null :: "'a option \<Rightarrow> ('a \<Rightarrow> bool) \<Rightarrow> bool" where
  "unless_null parameter P = (case parameter of Some x \<Rightarrow> P x | None \<Rightarrow> True)"

definition paid_between :: "timestamp option \<Rightarrow> timestamp option \<Rightarrow> order_row \<Rightarrow> bool" where
  "paid_between start end' order \<longleftrightarrow>
     unless_null start (\<lambda>t. case o_paid_at order of Some p \<Rightarrow> p \<ge> t | None \<Rightarrow> False) \<and>
     unless_null end' (\<lambda>t. case o_paid_at order of Some p \<Rightarrow> p \<le> t | None \<Rightarrow> False)"

text \<open>\<open>SUM\<close> and \<open>AVG\<close> pass over nulls; the average is rounded to a whole number, halves away from zero.\<close>

definition sum_known :: "int option list \<Rightarrow> int" where
  "sum_known xs = sum_list (List.map_filter id xs)"

definition round_div :: "int \<Rightarrow> int \<Rightarrow> int" where
  "round_div a n = (if 0 \<le> a then (2 * a + n) div (2 * n) else - ((2 * (- a) + n) div (2 * n)))"

definition average :: "int option list \<Rightarrow> int option" where
  "average xs = (case List.map_filter id xs of [] \<Rightarrow> None | ys \<Rightarrow> Some (round_div (sum_list ys) (int (length ys))))"

text \<open>A null in a column that the row cannot do without fails the whole query.\<close>

definition decoded :: "string \<Rightarrow> (db \<Rightarrow> 'a option list) \<Rightarrow> 'a list dbop" where
  "decoded message q = (\<lambda>s. (wrap QueryError message
     (if None \<in> set (q s) then Inl OtherFailure else Inr (map the (q s))), s))"

definition grouped :: "('r \<Rightarrow> 'k) \<Rightarrow> ('k \<Rightarrow> 'r list \<Rightarrow> 'a) \<Rightarrow> 'r list \<Rightarrow> 'a list" where
  "grouped key f rows = map (\<lambda>k. f k (filter (\<lambda>r. key r = k) rows)) (remdups (map key rows))"

definition sold_of :: "order_item \<Rightarrow> int" where
  "sold_of oi = oi_quantity oi - oi_refunded_quantity oi"

section \<open>The details of transactions\<close>

text \<open>The lines of orders that a report is about: the line, the fee lines under it, its ticket type, price
  point, hold and event. The query of the transactions leaves the price point out, which is one row at most.\<close>

type_synonym sale = "order_row \<times> order_item \<times> order_item option \<times> ticket_type option \<times> ticket_pricing option \<times>
  hold option \<times> event_row option"

definition sales_of_report ::
  "db \<Rightarrow> uuid option \<Rightarrow> uuid option \<Rightarrow> timestamp option \<Rightarrow> timestamp option \<Rightarrow> order_item_types list \<Rightarrow> sale list"
where
  "sales_of_report s event_id organization_id start end' item_types =
     [(ord, oi, fi, tt, tp, h, e).
        ord \<leftarrow> filter (\<lambda>ord. o_status ord = order_status.Paid \<and> paid_between start end' ord) (db_orders s),
        oi \<leftarrow> filter (\<lambda>oi. oi_order_id oi = o_id ord \<and> oi_item_type oi \<in> set item_types \<and>
          unless_null event_id (\<lambda>i. oi_event_id oi = Some i)) (db_order_items s),
        fi \<leftarrow> left_join (filter (\<lambda>fi. oi_parent_id fi = Some (oi_id oi)) (db_order_items s)),
        tt \<leftarrow> left_join (filter (\<lambda>tt. oi_ticket_type_id oi = Some (tt_id tt)) (db_ticket_types s)),
        tp \<leftarrow> left_join (filter (\<lambda>tp. oi_ticket_pricing_id oi = Some (tp_id tp)) (db_ticket_pricing s)),
        h \<leftarrow> left_join (filter (\<lambda>h. oi_hold_id oi = Some (h_id h)) (db_holds s)),
        e \<leftarrow> filter (\<lambda>e. unless_null organization_id (\<lambda>i. map_option e_organization_id e = Some i))
          (left_join (filter (\<lambda>e. oi_event_id oi = Some (e_id e)) (db_events s)))]"

definition with_payments :: "db \<Rightarrow> sale list \<Rightarrow> (sale \<times> payment option) list" where
  "with_payments s sales =
     [(sale, p). sale \<leftarrow> sales, p \<leftarrow> left_join (filter (\<lambda>p. p_order_id p = o_id (fst sale)) (db_payments s))]"

definition transaction_row :: "sale \<times> payment option \<Rightarrow> transaction_report_row option" where
  "transaction_row = (\<lambda>((ord, oi, fi, tt, tp, h, e), p).
     case (e, oi_event_id oi, o_paid_at ord) of
       (Some e, Some event_id, Some paid_at) \<Rightarrow> Some
         \<lparr>trr_event_name = e_name e,
          trr_ticket_name = (case tt of Some tt \<Rightarrow> tt_name tt | None \<Rightarrow> ''Per Event Fees''),
          trr_quantity = oi_quantity oi, trr_refunded_quantity = oi_refunded_quantity oi,
          trr_unit_price_in_cents = oi_unit_price_in_cents oi,
          trr_gross = sold_of oi * oi_unit_price_in_cents oi +
            (case fi of Some fi \<Rightarrow> sold_of fi * oi_unit_price_in_cents fi | None \<Rightarrow> 0),
          trr_company_fee_in_cents = oi_company_fee_in_cents oi,
          trr_client_fee_in_cents = oi_client_fee_in_cents oi, trr_order_type = o_order_type ord,
          trr_payment_method = map_option p_payment_method p, trr_transaction_date = paid_at,
          trr_redemption_code = map_option h_redemption_code h, trr_order_id = o_id ord,
          trr_event_id = event_id, trr_user_id = o_user_id ord\<rparr>
     | _ \<Rightarrow> None)"

definition transaction_detail_report ::
  "uuid option \<Rightarrow> uuid option \<Rightarrow> timestamp option \<Rightarrow> timestamp option \<Rightarrow> transaction_report_row list dbop"
where
  "transaction_detail_report event_id organization_id start end' =
     decoded ''Could not fetch report results'' (\<lambda>s. map transaction_row (with_payments s
       (sales_of_report s event_id organization_id start end'
         [order_item_types.Tickets, order_item_types.EventFees])))"

section \<open>The summary of events\<close>

definition sale_key :: "sale \<Rightarrow> uuid option \<times> uuid option \<times> uuid option \<times> string option \<times> string option" where
  "sale_key = (\<lambda>(ord, oi, fi, tt, tp, h, e). (oi_event_id oi, oi_ticket_type_id oi, oi_ticket_pricing_id oi,
     map_option tt_name tt, map_option tp_name tp))"

definition comp_sale :: "sale \<Rightarrow> bool" where
  "comp_sale = (\<lambda>(ord, oi, fi, tt, tp, h, e). map_option h_hold_type h = Some hold_types.Comp)"

definition box_office_sale :: "sale \<Rightarrow> bool" where
  "box_office_sale = (\<lambda>(ord, oi, fi, tt, tp, h, e). o_box_office_pricing ord)"

definition sale_quantity :: "sale \<Rightarrow> int" where
  "sale_quantity = (\<lambda>(ord, oi, fi, tt, tp, h, e). sold_of oi)"

definition quantities :: "(sale \<Rightarrow> bool) \<Rightarrow> sale list \<Rightarrow> int" where
  "quantities P rows = sum_list (map sale_quantity (filter P rows))"

definition sale_price :: "sale \<Rightarrow> int option" where
  "sale_price = (\<lambda>(ord, oi, fi, tt, tp, h, e). map_option tp_price_in_cents tp)"

definition sale_fee :: "(order_item \<Rightarrow> int) \<Rightarrow> sale \<Rightarrow> int option" where
  "sale_fee fee = (\<lambda>(ord, oi, fi, tt, tp, h, e). map_option fee fi)"

text \<open>The fee of a line for the units that were not refunded.\<close>

definition sale_fee_total :: "(order_item \<Rightarrow> int) \<Rightarrow> sale \<Rightarrow> int option" where
  "sale_fee_total fee = (\<lambda>(ord, oi, fi, tt, tp, h, e).
     map_option (\<lambda>fi. fee fi * (oi_quantity fi - oi_refunded_quantity oi)) fi)"

definition sales_row ::
  "uuid option \<times> uuid option \<times> uuid option \<times> string option \<times> string option \<Rightarrow> sale list \<Rightarrow>
   event_summary_sales_row option"
where
  "sales_row k rows =
     (let total_sold = quantities (\<lambda>_. True) rows; comp_count = quantities comp_sale rows;
          company = sum_known (map (sale_fee oi_company_fee_in_cents) rows);
          client = sum_known (map (sale_fee oi_client_fee_in_cents) rows) in
      case (k, average (map sale_price rows)) of
        ((Some event_id, Some ticket_type_id, Some ticket_pricing_id, Some ticket_name, Some pricing_name), Some price) \<Rightarrow>
          Some \<lparr>ssr_event_id = event_id, ssr_ticket_name = ticket_name, ssr_pricing_name = pricing_name,
            ssr_total_client_fee_in_cents = client, ssr_total_company_fee_in_cents = company,
            ssr_price_in_cents = price, ssr_online_count = quantities (\<lambda>r. \<not> box_office_sale r) rows,
            ssr_box_office_count = quantities box_office_sale rows, ssr_comp_count = comp_count,
            ssr_total_sold = total_sold,
            ssr_total_gross_income_in_cents = (total_sold - comp_count) * price + company + client,
            ssr_ticket_type_id = ticket_type_id, ssr_ticket_pricing_id = ticket_pricing_id\<rparr>
      | _ \<Rightarrow> None)"

definition fees_row ::
  "uuid option \<times> uuid option \<times> uuid option \<times> string option \<times> string option \<Rightarrow> sale list \<Rightarrow>
   event_summary_fees_row option"
where
  "fees_row k rows =
     (let company = map (sale_fee_total oi_company_fee_in_cents) rows;
          client = map (sale_fee_total oi_client_fee_in_cents) rows in
      case (k, average (map sale_price rows)) of
        ((Some event_id, Some ticket_type_id, Some ticket_pricing_id, Some ticket_name, Some pricing_name), Some price) \<Rightarrow>
          Some \<lparr>sfr_event_id = event_id, sfr_ticket_type_id = ticket_type_id,
            sfr_ticket_pricing_id = ticket_pricing_id, sfr_ticket_name = ticket_name,
            sfr_pricing_name = pricing_name, sfr_total_sold = quantities (\<lambda>_. True) rows,
            sfr_comp_count = quantities comp_sale rows,
            sfr_online_count = quantities (\<lambda>r. \<not> box_office_sale r) rows, sfr_price_in_cents = price,
            sfr_total_company_fee_in_cents = sum_known company,
            sfr_company_fee_in_cents = unwrap_or (average company) 0,
            sfr_total_client_fee_in_cents = sum_known client,
            sfr_client_fee_in_cents = unwrap_or (average client) 0\<rparr>
      | _ \<Rightarrow> None)"

text \<open>The other fees join nothing but the event: a line of fees counts once, and not at all when any of it was
  refunded.\<close>

definition other_fee_lines ::
  "db \<Rightarrow> uuid option \<Rightarrow> uuid option \<Rightarrow> timestamp option \<Rightarrow> timestamp option \<Rightarrow> order_item list"
where
  "other_fee_lines s event_id organization_id start end' =
     [oi.
        ord \<leftarrow> filter (\<lambda>ord. o_status ord = order_status.Paid \<and> paid_between start end' ord) (db_orders s),
        oi \<leftarrow> filter (\<lambda>oi. oi_order_id oi = o_id ord \<and> oi_item_type oi = order_item_types.EventFees \<and>
          oi_refunded_quantity oi = 0 \<and> unless_null event_id (\<lambda>i. oi_event_id oi = Some i)) (db_order_items s),
        e \<leftarrow> filter (\<lambda>e. unless_null organization_id (\<lambda>i. map_option e_organization_id e = Some i))
          (left_join (filter (\<lambda>e. oi_event_id oi = Some (e_id e)) (db_events s)))]"

definition other_fees_row :: "uuid option \<Rightarrow> order_item list \<Rightarrow> event_summary_other_fees option" where
  "other_fees_row k rows =
     (case (k, average (map (\<lambda>oi. Some (oi_unit_price_in_cents oi)) rows)) of
        (Some event_id, Some unit_price) \<Rightarrow> Some
          \<lparr>sof_event_id = event_id, sof_unit_price_in_cents = unit_price,
           sof_total_company_fee_in_cents = sum_list (map oi_company_fee_in_cents rows),
           sof_company_fee_in_cents = unwrap_or (average (map (\<lambda>oi. Some (oi_company_fee_in_cents oi)) rows)) 0,
           sof_total_client_fee_in_cents = sum_list (map oi_client_fee_in_cents rows),
           sof_client_fee_in_cents = unwrap_or (average (map (\<lambda>oi. Some (oi_client_fee_in_cents oi)) rows)) 0\<rparr>
      | _ \<Rightarrow> None)"

text \<open>The rows of each event, as the program collects them.\<close>

definition by_event :: "('r \<Rightarrow> uuid) \<Rightarrow> 'r list \<Rightarrow> (uuid \<rightharpoonup> 'r list)" where
  "by_event event_of rows = fold (\<lambda>row m. m(event_of row \<mapsto> unwrap_or (m (event_of row)) [] @ [row])) rows Map.empty"

text \<open>The sales are taken in runs of rows with the same event. The query joins the payments of an order
  for the fees only.\<close>

definition summary_event_report_core ::
  "uuid option \<Rightarrow> uuid option \<Rightarrow> timestamp option \<Rightarrow> timestamp option \<Rightarrow> event_summary_sales_result list dbop"
where
  "summary_event_report_core event_id organization_id start end' =
     bindo (decoded ''Could not fetch report sales results'' (\<lambda>s. grouped sale_key sales_row
       (sales_of_report s event_id organization_id start end' [order_item_types.Tickets]))) (\<lambda>sales_rows.
     if sales_rows = [] then ret []
     else
       bindo (decoded ''Could not fetch report fee results'' (\<lambda>s. grouped sale_key fees_row (map fst
         (with_payments s (sales_of_report s event_id organization_id start end' [order_item_types.Tickets])))))
         (\<lambda>fees_rows.
       let fees_hash = by_event sfr_event_id fees_rows in
       bindo (decoded ''Could not fetch report fee results'' (\<lambda>s. grouped oi_event_id other_fees_row
         (other_fee_lines s event_id organization_id start end'))) (\<lambda>other_fees_rows.
       let other_fees_hash = by_event sof_event_id other_fees_rows in
       ret (map (\<lambda>(event_id, sales).
         \<lparr>ssl_event_id = event_id, ssl_sales = sales, ssl_ticket_fees = unwrap_or (fees_hash event_id) [],
          ssl_other_fees = unwrap_or (other_fees_hash event_id) []\<rparr>) (runs_of ssr_event_id sales_rows)))))"

definition summary_event_report ::
  "uuid \<Rightarrow> timestamp option \<Rightarrow> timestamp option \<Rightarrow> event_summary_sales_result dbop"
where
  "summary_event_report event_id start end' =
     bindo (summary_event_report_core (Some event_id) None start end') (\<lambda>results.
     ret (case results of [] \<Rightarrow> default_summary\<lparr>ssl_event_id := event_id\<rparr> | _ \<Rightarrow> last results))"

definition organization_summary_report ::
  "uuid \<Rightarrow> timestamp option \<Rightarrow> timestamp option \<Rightarrow> event_summary_sales_result list dbop"
where
  "organization_summary_report organization_id start end' =
     summary_event_report_core None (Some organization_id) start end'"

section \<open>Counts of tickets\<close>

text \<open>The lines of paid orders of a ticket type, with the fees of each line and the event fees of its order.\<close>

type_synonym counted_sale = "order_row \<times> order_item \<times> order_item option \<times> order_item option"

definition counted_sales :: "db \<Rightarrow> ticket_type \<Rightarrow> counted_sale list" where
  "counted_sales s tt =
     [(ord, oi, tf, ef).
        oi \<leftarrow> filter (\<lambda>oi. oi_ticket_type_id oi = Some (tt_id tt)) (db_order_items s),
        tf \<leftarrow> left_join (filter (\<lambda>fi. oi_parent_id fi = Some (oi_id oi) \<and>
          oi_item_type fi = order_item_types.PerUnitFees) (db_order_items s)),
        ef \<leftarrow> left_join (filter (\<lambda>fi. oi_order_id fi = oi_order_id oi \<and>
          oi_item_type fi = order_item_types.EventFees) (db_order_items s)),
        ord \<leftarrow> filter (\<lambda>ord. o_id ord = oi_order_id oi \<and> o_status ord = order_status.Paid) (db_orders s)]"

definition for_somebody :: "counted_sale \<Rightarrow> bool" where
  "for_somebody = (\<lambda>(ord, oi, tf, ef). o_on_behalf_of_user_id ord \<noteq> None)"

definition counted :: "(counted_sale \<Rightarrow> int option) \<Rightarrow> (counted_sale \<Rightarrow> bool) \<Rightarrow> counted_sale list \<Rightarrow> int" where
  "counted amount P rows = sum_known (map amount (filter P rows))"

text \<open>A sum with a null is null: without an event fee the fees of the line are lost.\<close>

definition counted_fees :: "(order_item \<Rightarrow> int) \<Rightarrow> counted_sale \<Rightarrow> int option" where
  "counted_fees fee = (\<lambda>(ord, oi, tf, ef).
     case (tf, ef) of (Some tf, Some ef) \<Rightarrow> Some (fee tf * sold_of tf + fee ef * sold_of ef) | _ \<Rightarrow> None)"

definition ticket_count_sales_row_of :: "event_row \<Rightarrow> ticket_type \<Rightarrow> counted_sale list \<Rightarrow> ticket_count_sales_row" where
  "ticket_count_sales_row_of e tt rows =
     (let online = (\<lambda>r. \<not> for_somebody r);
          sales = (\<lambda>(ord, oi, tf, ef). Some (oi_unit_price_in_cents oi * sold_of oi));
          items = (\<lambda>(ord, oi, tf, ef). Some (oi_quantity oi)) in
      \<lparr>tcs_event_id = e_id e, tcs_organization_id = e_organization_id e, tcs_ticket_type_id = tt_id tt,
       tcs_box_office_count = counted items for_somebody rows, tcs_online_count = counted items online rows,
       tcs_box_office_sales_in_cents = counted sales for_somebody rows,
       tcs_online_sales_in_cents = counted sales online rows,
       tcs_total_box_office_fees_in_cents = counted (counted_fees oi_unit_price_in_cents) for_somebody rows,
       tcs_total_online_fees_in_cents = counted (counted_fees oi_unit_price_in_cents) online rows,
       tcs_company_box_office_fees_in_cents = counted (counted_fees oi_company_fee_in_cents) for_somebody rows,
       tcs_client_box_office_fees_in_cents = counted (counted_fees oi_client_fee_in_cents) for_somebody rows,
       tcs_company_online_fees_in_cents = counted (counted_fees oi_company_fee_in_cents) online rows,
       tcs_client_online_fees_in_cents = counted (counted_fees oi_client_fee_in_cents) online rows\<rparr>)"

definition ticket_count_sales :: "db \<Rightarrow> uuid option \<Rightarrow> uuid option \<Rightarrow> ticket_count_sales_row list" where
  "ticket_count_sales s event_id organization_id =
     [ticket_count_sales_row_of e tt (counted_sales s tt).
        tt \<leftarrow> filter (\<lambda>tt. counted_sales s tt \<noteq> []) (db_ticket_types s),
        e \<leftarrow> filter (\<lambda>e. e_id e = tt_event_id tt \<and> unless_null event_id (\<lambda>i. e_id e = i) \<and>
          unless_null organization_id (\<lambda>i. e_organization_id e = i)) (db_events s)]"

type_synonym counted_ticket = "ticket_instance \<times> asset option \<times> ticket_type option \<times> event_row option \<times> hold option"

definition counted_tickets :: "db \<Rightarrow> uuid option \<Rightarrow> uuid option \<Rightarrow> counted_ticket list" where
  "counted_tickets s event_id organization_id =
     [(ti, a, tt, e, h).
        ti \<leftarrow> db_ticket_instances s,
        a \<leftarrow> left_join (filter (\<lambda>a. a_id a = ti_asset_id ti) (db_assets s)),
        tt \<leftarrow> left_join (filter (\<lambda>tt. map_option a_ticket_type_id a = Some (tt_id tt)) (db_ticket_types s)),
        e \<leftarrow> filter (\<lambda>e. unless_null event_id (\<lambda>i. map_option e_id e = Some i) \<and>
            unless_null organization_id (\<lambda>i. map_option e_organization_id e = Some i))
          (left_join (filter (\<lambda>e. map_option tt_event_id tt = Some (e_id e)) (db_events s))),
        h \<leftarrow> left_join (filter (\<lambda>h. ti_hold_id ti = Some (h_id h)) (db_holds s))]"

definition tickets_counted :: "(ticket_instance \<Rightarrow> hold option \<Rightarrow> bool) \<Rightarrow> counted_ticket list \<Rightarrow> int" where
  "tickets_counted P rows = int (length (filter (\<lambda>(ti, a, tt, e, h). P ti h) rows))"

definition in_comp :: "ticket_instance \<Rightarrow> hold option \<Rightarrow> bool" where
  "in_comp ti h \<longleftrightarrow> ti_hold_id ti \<noteq> None \<and> map_option h_hold_type h = Some hold_types.Comp"

definition in_other_hold :: "ticket_instance \<Rightarrow> hold option \<Rightarrow> bool" where
  "in_other_hold ti h \<longleftrightarrow> ti_hold_id ti \<noteq> None \<and>
     (case h of Some h \<Rightarrow> h_hold_type h \<noteq> hold_types.Comp | None \<Rightarrow> False)"

definition ticket_count_row_of ::
  "uuid option \<times> string option \<times> ticket_type_status option \<times> uuid option \<Rightarrow> counted_ticket list \<Rightarrow>
   ticket_count_row option"
where
  "ticket_count_row_of k rows =
     (let comp = (\<lambda>status. tickets_counted (\<lambda>ti h. in_comp ti h \<and> ti_status ti = status) rows);
          held = (\<lambda>status. tickets_counted (\<lambda>ti h. in_other_hold ti h \<and> ti_status ti = status) rows) in
      case (k, map (\<lambda>(ti, a, tt, e, h). e) rows) of
        ((Some ticket_type_id, Some ticket_name, Some ticket_status, Some event_id), Some e # _) \<Rightarrow> Some
          \<lparr>tcr_ticket_type_id = ticket_type_id, tcr_ticket_name = ticket_name,
           tcr_ticket_stats = enum_to_string ticket_type_status_variants ticket_status,
           tcr_event_id = event_id, tcr_event_name = e_name e, tcr_organization_id = e_organization_id e,
           tcr_allocation_count = int (length rows),
           tcr_unpurchased_count = tickets_counted (\<lambda>ti h. ti_status ti = ticket_instance_status.Available) rows,
           tcr_available_count = tickets_counted (\<lambda>ti h. ti_hold_id ti = None \<and>
             ti_status ti = ticket_instance_status.Available) rows,
           tcr_comp_count = tickets_counted in_comp rows,
           tcr_comp_available_count = comp ticket_instance_status.Available,
           tcr_comp_redeemed_count = comp ticket_instance_status.Redeemed,
           tcr_comp_purchased_count = comp ticket_instance_status.Purchased,
           tcr_comp_reserved_count = comp ticket_instance_status.Reserved,
           tcr_comp_nullified_count = comp ticket_instance_status.Nullified,
           tcr_hold_count = tickets_counted in_other_hold rows,
           tcr_hold_available_count = held ticket_instance_status.Available,
           tcr_hold_redeemed_count = held ticket_instance_status.Redeemed,
           tcr_hold_purchased_count = held ticket_instance_status.Purchased,
           tcr_hold_reserved_count = held ticket_instance_status.Reserved,
           tcr_hold_nullified_count = held ticket_instance_status.Nullified\<rparr>
      | _ \<Rightarrow> None)"

definition ticket_key :: "counted_ticket \<Rightarrow> uuid option \<times> string option \<times> ticket_type_status option \<times> uuid option" where
  "ticket_key = (\<lambda>(ti, a, tt, e, h). (map_option a_ticket_type_id a, map_option tt_name tt, map_option tt_status tt,
     map_option e_id e))"

text \<open>The counts by organization, event and ticket type.\<close>

type_synonym ticket_counts = "uuid \<rightharpoonup> (uuid \<rightharpoonup> (uuid \<rightharpoonup> ticket_count_result))"

definition change_count ::
  "uuid \<Rightarrow> uuid \<Rightarrow> uuid \<Rightarrow> (ticket_count_result option \<Rightarrow> ticket_count_result) \<Rightarrow> ticket_counts \<Rightarrow> ticket_counts"
where
  "change_count organization_id event_id ticket_type_id f result =
     (let org_key = unwrap_or (result organization_id) Map.empty;
          event_key = unwrap_or (org_key event_id) Map.empty
      in result(organization_id \<mapsto> org_key(event_id \<mapsto> event_key(ticket_type_id \<mapsto> f (event_key ticket_type_id)))))"

definition put_sales :: "ticket_count_sales_row \<Rightarrow> ticket_counts \<Rightarrow> ticket_counts" where
  "put_sales row = change_count (tcs_organization_id row) (tcs_event_id row) (tcs_ticket_type_id row)
     (\<lambda>_. \<lparr>tcn_sales = Some row, tcn_totals = None\<rparr>)"

definition put_totals :: "ticket_count_row \<Rightarrow> ticket_counts \<Rightarrow> ticket_counts" where
  "put_totals row = change_count (tcr_organization_id row) (tcr_event_id row) (tcr_ticket_type_id row)
     (\<lambda>r. (unwrap_or r \<lparr>tcn_sales = None, tcn_totals = None\<rparr>)\<lparr>tcn_totals := Some row\<rparr>)"

definition ticket_count_report :: "uuid option \<Rightarrow> uuid option \<Rightarrow> ticket_counts dbop" where
  "ticket_count_report event_id organization_id =
     bindo (gets (\<lambda>s. ticket_count_sales s event_id organization_id)) (\<lambda>count_sales_rows.
     let result = fold put_sales count_sales_rows Map.empty in
     bindo (decoded ''Could not fetch ticket count results'' (\<lambda>s. grouped ticket_key ticket_count_row_of
       (counted_tickets s event_id organization_id))) (\<lambda>count_rows.
     ret (fold put_totals count_rows result)))"

section \<open>Requests\<close>

record report_query_parameters =
  rqp_report :: string
  rqp_start_utc :: "timestamp option"
  rqp_end_utc :: "timestamp option"
  rqp_event_id :: "uuid option"

text \<open>What a report answers.\<close>

datatype report = TransactionDetails "transaction_report_row list" | EventSummary event_summary_sales_result
  | WeeklySettlement "event_summary_sales_result list" | TicketCounts ticket_counts

text \<open>The scope depends on whether an event is named; whose event it is is not looked at.\<close>

definition report_guard :: "uuid \<Rightarrow> uuid option \<Rightarrow> auth_user \<Rightarrow> unit web" where
  "report_guard id' event_id user =
     bindo (on_db (organization_find id')) (\<lambda>organization.
     if event_id \<noteq> None then requires_scope_for_organization user EventFinancialReports organization
     else requires_scope_for_organization user OrgReports organization)"

definition transaction_detail_report_request ::
  "report_query_parameters \<Rightarrow> uuid \<Rightarrow> auth_user \<Rightarrow> report http_response web"
where
  "transaction_detail_report_request query id' user =
     bindo (report_guard id' (rqp_event_id query) user) (\<lambda>_.
     bindo (on_db (transaction_detail_report (rqp_event_id query) (Some id') (rqp_start_utc query)
       (rqp_end_utc query))) (\<lambda>result. http_ok (TransactionDetails result)))"

definition event_summary_report_request ::
  "report_query_parameters \<Rightarrow> uuid \<Rightarrow> auth_user \<Rightarrow> report http_response web"
where
  "event_summary_report_request query id' user =
     bindo (on_db (organization_find id')) (\<lambda>organization.
     case rqp_event_id query of
       Some event_id \<Rightarrow>
         bindo (requires_scope_for_organization user EventFinancialReports organization) (\<lambda>_.
         bindo (on_db (summary_event_report event_id (rqp_start_utc query) (rqp_end_utc query))) (\<lambda>result.
         http_ok (EventSummary result)))
     | None \<Rightarrow> unprocessable ''event_id parameter is required'')"

definition weekly_settlement_report_request ::
  "report_query_parameters \<Rightarrow> uuid \<Rightarrow> auth_user \<Rightarrow> report http_response web"
where
  "weekly_settlement_report_request query id' user =
     bindo (on_db (organization_find id')) (\<lambda>organization.
     bindo (requires_scope_for_organization user OrgFinancialReports organization) (\<lambda>_.
     bindo (on_db (organization_summary_report id' (rqp_start_utc query) (rqp_end_utc query))) (\<lambda>result.
     http_ok (WeeklySettlement result))))"

definition ticket_counts_request :: "report_query_parameters \<Rightarrow> uuid \<Rightarrow> auth_user \<Rightarrow> report http_response web" where
  "ticket_counts_request query id' user =
     bindo (report_guard id' (rqp_event_id query) user) (\<lambda>_.
     bindo (on_db (ticket_count_report (rqp_event_id query) (Some id'))) (\<lambda>result. http_ok (TicketCounts result)))"

definition get_report :: "report_query_parameters \<Rightarrow> uuid \<Rightarrow> auth_user \<Rightarrow> report http_response web" where
  "get_report query id' user =
     (let name = trim (rqp_report query) in
      if name = ''transaction_details'' then transaction_detail_report_request query id' user
      else if name = ''event_summary'' then event_summary_report_request query id' user
      else if name = ''weekly_settlement'' then weekly_settlement_report_request query id' user
      else if name = ''ticket_count'' then ticket_counts_request query id' user
      else not_found)"

section \<open>Reports stay within their organization\<close>

lemma all_known: "None \<notin> set ys \<and> map the ys = xs \<longleftrightarrow> ys = map Some xs"
proof
  assume "None \<notin> set ys \<and> map the ys = xs"
  then show "ys = map Some xs" by (auto intro!: nth_equalityI simp: nth_map) (metis nth_mem option.exhaust_sel)
qed auto

lemma decoded_Inr_iff: "decoded m q s = (Inr xs, t) \<longleftrightarrow> t = s \<and> q s = map Some xs"
  using all_known [of "q s" xs] by (auto simp: decoded_def wrap_def)

lemma Some_in_left_join: "Some x \<in> set (left_join xs) \<longleftrightarrow> x \<in> set xs"
  by (auto simp: left_join_def)

lemma sales_of_report_event:
  assumes "(ord, oi, fi, tt, tp, h, e) \<in> set (sales_of_report s event_id (Some g) start end' types)"
  shows "\<exists>x \<in> set (db_events s). e = Some x \<and> oi_event_id oi = Some (e_id x) \<and> e_organization_id x = g"
  using assms by (auto simp: sales_of_report_def unless_null_def Some_in_left_join)

lemma grouped_rows:
  assumes "x \<in> set (grouped key f rows)"
  shows "\<exists>r \<in> set rows. x = f (key r) (filter (\<lambda>q. key q = key r) rows)"
  using assms by (auto simp: grouped_def)

lemma runs_of_keys: "(k, g) \<in> set (runs_of key xs) \<Longrightarrow> \<exists>x \<in> set xs. key x = k"
  by (induction xs arbitrary: k g) (fastforce split: list.splits prod.splits if_splits)+

definition event_of_organization :: "db \<Rightarrow> uuid \<Rightarrow> uuid \<Rightarrow> bool" where
  "event_of_organization s g i \<longleftrightarrow> list_ex (\<lambda>e. e_id e = i \<and> e_organization_id e = g) (db_events s)"

lemma transaction_row_event:
  assumes "transaction_row (sale, p) = Some row"
    and "sale \<in> set (sales_of_report s event_id (Some g) start end' types)"
  shows "event_of_organization s g (trr_event_id row)"
proof -
  obtain ord oi fi tt tp h e where sale: "sale = (ord, oi, fi, tt, tp, h, e)" by (cases sale)
  from sales_of_report_event [OF assms(2) [unfolded sale]] obtain x where
    "x \<in> set (db_events s)" "e = Some x" "oi_event_id oi = Some (e_id x)" "e_organization_id x = g" by blast
  then show ?thesis using assms(1)
    by (auto simp: sale transaction_row_def event_of_organization_def list_ex_iff split: option.splits)
qed

lemma transaction_detail_report_events:
  assumes "transaction_detail_report event_id (Some g) start end' s = (Inr rows, t)" and "row \<in> set rows"
  shows "event_of_organization s g (trr_event_id row)"
proof -
  have "Some row \<in> set (map Some rows)" using assms(2) by simp
  also have "map Some rows = map transaction_row (with_payments s (sales_of_report s event_id (Some g) start end'
      [order_item_types.Tickets, order_item_types.EventFees]))"
    using assms(1) by (simp add: transaction_detail_report_def decoded_Inr_iff)
  finally obtain sale p where "transaction_row (sale, p) = Some row"
    and "sale \<in> set (sales_of_report s event_id (Some g) start end'
      [order_item_types.Tickets, order_item_types.EventFees])"
    by (auto simp: with_payments_def)
  then show ?thesis by (rule transaction_row_event)
qed

lemma sales_row_event:
  assumes "map Some rows = grouped sale_key sales_row (sales_of_report s event_id (Some g) start end' types)"
    and "row \<in> set rows"
  shows "event_of_organization s g (ssr_event_id row)"
proof -
  have "Some row \<in> set (map Some rows)" using assms(2) by simp
  then obtain r where r: "r \<in> set (sales_of_report s event_id (Some g) start end' types)"
    and row: "sales_row (sale_key r) (filter (\<lambda>q. sale_key q = sale_key r)
      (sales_of_report s event_id (Some g) start end' types)) = Some row"
    unfolding assms(1) by (auto dest: grouped_rows)
  obtain ord oi fi tt tp h e where sale: "r = (ord, oi, fi, tt, tp, h, e)" by (cases r)
  from sales_of_report_event [OF r [unfolded sale]] obtain x where
    "x \<in> set (db_events s)" "oi_event_id oi = Some (e_id x)" "e_organization_id x = g" by blast
  then show ?thesis using row
    by (auto simp: sale sale_key_def sales_row_def Let_def event_of_organization_def list_ex_iff split: option.splits)
qed

lemma settlement_events:
  assumes "organization_summary_report g start end' s = (Inr results, t)" and "r \<in> set results"
  shows "event_of_organization s g (ssl_event_id r)"
proof -
  obtain rows where rows: "map Some rows = grouped sale_key sales_row (sales_of_report s None (Some g) start end'
      [order_item_types.Tickets])"
    and "\<exists>g. (ssl_event_id r, g) \<in> set (runs_of ssr_event_id rows)"
    using assms
    by (auto simp: organization_summary_report_def summary_event_report_core_def bindo_Inr_iff decoded_Inr_iff
        ret_run Let_def split: if_splits) blast
  then obtain row where "row \<in> set rows" "ssr_event_id row = ssl_event_id r"
    by (auto dest: runs_of_keys)
  then show ?thesis using sales_row_event [OF rows] by metis
qed

lemma ticket_count_sales_organization:
  "row \<in> set (ticket_count_sales s event_id (Some g)) \<Longrightarrow>
     tcs_organization_id row = g \<and> event_of_organization s g (tcs_event_id row)"
  by (auto simp: ticket_count_sales_def ticket_count_sales_row_of_def Let_def unless_null_def
      event_of_organization_def list_ex_iff)

lemma counted_ticket_event:
  assumes "(ti, a, tt, e, h) \<in> set (counted_tickets s event_id (Some g))"
  obtains x where "e = Some x" "x \<in> set (db_events s)" "e_organization_id x = g"
  using assms by (auto simp: counted_tickets_def unless_null_def Some_in_left_join)

lemma ticket_count_row_organization:
  assumes "map Some rows = grouped ticket_key ticket_count_row_of (counted_tickets s event_id (Some g))"
    and "row \<in> set rows"
  shows "tcr_organization_id row = g \<and> event_of_organization s g (tcr_event_id row)"
proof -
  let ?all = "counted_tickets s event_id (Some g)"
  have "Some row \<in> set (map Some rows)" using assms(2) by simp
  then obtain r where r: "r \<in> set ?all"
    and row: "ticket_count_row_of (ticket_key r) (filter (\<lambda>q. ticket_key q = ticket_key r) ?all) = Some row"
    unfolding assms(1) by (auto dest: grouped_rows)
  obtain ti a tt e h where fields: "r = (ti, a, tt, e, h)" by (cases r)
  from counted_ticket_event [OF r [unfolded fields]] obtain y where
    y: "e = Some y" "y \<in> set (db_events s)" "e_organization_id y = g" .
  have "tcr_event_id row = e_id y"
    using row y(1) by (auto simp: fields ticket_key_def ticket_count_row_of_def Let_def
        split: list.splits option.splits prod.splits)
  then have event: "event_of_organization s g (tcr_event_id row)"
    using y by (auto simp: event_of_organization_def list_ex_iff)
  have in_g: "\<And>x. Some x \<in> (\<lambda>(ti, a, tt, e, h). e) ` set ?all \<Longrightarrow> e_organization_id x = g"
    by (force elim: counted_ticket_event)
  from row obtain x rest where "map (\<lambda>(ti, a, tt, e, h). e) (filter (\<lambda>q. ticket_key q = ticket_key r) ?all) = Some x # rest"
    and "tcr_organization_id row = e_organization_id x"
    by (auto simp: ticket_count_row_of_def Let_def split: list.splits option.splits prod.splits)
  moreover from this(1) have "Some x \<in> set (map (\<lambda>(ti, a, tt, e, h). e) (filter (\<lambda>q. ticket_key q = ticket_key r) ?all))"
    by simp
  then have "Some x \<in> (\<lambda>(ti, a, tt, e, h). e) ` set ?all"
    by (metis (no_types, lifting) filter_is_subset image_mono set_map subsetD)
  ultimately show ?thesis using in_g event by simp
qed

text \<open>Counts of an organization: they stand under its key and the keys of its events, and the sales and the
  totals at an event are those of the event.\<close>

definition counted_for :: "uuid \<Rightarrow> uuid \<Rightarrow> ticket_count_result \<Rightarrow> bool" where
  "counted_for g e c \<longleftrightarrow>
     (case tcn_sales c of Some r \<Rightarrow> tcs_organization_id r = g \<and> tcs_event_id r = e | None \<Rightarrow> True) \<and>
     (case tcn_totals c of Some r \<Rightarrow> tcr_organization_id r = g \<and> tcr_event_id r = e | None \<Rightarrow> True)"

definition counts_of_organization :: "db \<Rightarrow> uuid \<Rightarrow> ticket_counts \<Rightarrow> bool" where
  "counts_of_organization s g counts \<longleftrightarrow> dom counts \<subseteq> {g} \<and>
     (\<forall>events e. counts g = Some events \<longrightarrow> e \<in> dom events \<longrightarrow> event_of_organization s g e \<and>
       (\<forall>types c. events e = Some types \<longrightarrow> c \<in> ran types \<longrightarrow> counted_for g e c))"

lemma counts_of_organization_change:
  assumes "counts_of_organization s g m" and "event_of_organization s g e"
    and "\<And>x. (case x of Some c \<Rightarrow> counted_for g e c | None \<Rightarrow> True) \<Longrightarrow> counted_for g e (f x)"
  shows "counts_of_organization s g (change_count g e i f m)"
proof -
  let ?events = "unwrap_or (m g) Map.empty"
  let ?types = "unwrap_or (?events e) Map.empty"
  have old: "event_of_organization s g e' \<and> (\<forall>types c. ?events e' = Some types \<longrightarrow> c \<in> ran types \<longrightarrow> counted_for g e' c)"
    if "e' \<in> dom ?events" for e'
    using that assms(1) by (cases "m g") (auto simp: counts_of_organization_def unwrap_or_def)
  have "case ?types i of Some c \<Rightarrow> counted_for g e c | None \<Rightarrow> True"
    using old [of e] by (cases "?events e") (auto simp: unwrap_or_def intro: ranI split: option.split)
  from assms(3) [OF this] have new: "counted_for g e (f (?types i))" .
  have types: "counted_for g e c" if "c \<in> ran (?types(i \<mapsto> f (?types i)))" for c
    using that new old [of e] by (cases "?events e") (auto simp: unwrap_or_def ran_def split: if_splits)
  show ?thesis
    using assms(1,2) old types
    unfolding counts_of_organization_def change_count_def Let_def
    by (auto split: if_splits)
qed

lemma counts_of_organization_report:
  assumes "ticket_count_report event_id (Some g) s = (Inr result, t)"
  shows "counts_of_organization s g result"
proof -
  have sales: "counts_of_organization s g (fold put_sales rows m)"
    if "counts_of_organization s g m" "set rows \<subseteq> set (ticket_count_sales s event_id (Some g))" for rows m
    using that
  proof (induction rows arbitrary: m)
    case (Cons row rows)
    then have row: "tcs_organization_id row = g" "event_of_organization s g (tcs_event_id row)"
      by (auto dest: ticket_count_sales_organization)
    have "counts_of_organization s g (put_sales row m)"
      unfolding put_sales_def row(1)
      by (rule counts_of_organization_change [OF Cons.prems(1) row(2)]) (simp add: counted_for_def row)
    then show ?case using Cons.IH Cons.prems(2) by simp
  qed simp
  have totals: "counts_of_organization s g (fold put_totals rows m)"
    if "counts_of_organization s g m"
      "\<And>row. row \<in> set rows \<Longrightarrow> tcr_organization_id row = g \<and> event_of_organization s g (tcr_event_id row)" for rows m
    using that
  proof (induction rows arbitrary: m)
    case (Cons row rows)
    then have row: "tcr_organization_id row = g" "event_of_organization s g (tcr_event_id row)" by auto
    have "counts_of_organization s g (put_totals row m)"
      unfolding put_totals_def row(1)
      by (rule counts_of_organization_change [OF Cons.prems(1) row(2)])
        (auto simp: counted_for_def row unwrap_or_def split: option.splits)
    then show ?case using Cons.IH Cons.prems(2) by simp
  qed simp
  from assms obtain rows where rows: "map Some rows = grouped ticket_key ticket_count_row_of
      (counted_tickets s event_id (Some g))"
    and result: "result = fold put_totals rows (fold put_sales (ticket_count_sales s event_id (Some g)) Map.empty)"
    by (auto simp: ticket_count_report_def bindo_Inr_iff decoded_Inr_iff ret_run Let_def)
  show ?thesis
    unfolding result using ticket_count_row_organization [OF rows]
    by (intro totals sales) (auto simp: counts_of_organization_def)
qed

definition holds_scope :: "db \<Rightarrow> auth_user \<Rightarrow> uuid \<Rightarrow> scopes \<Rightarrow> bool" where
  "holds_scope s user g scope \<longleftrightarrow> (case organization_find g s of
     (Inr organization, _) \<Rightarrow> granted s user scope (Some organization) | _ \<Rightarrow> False)"

lemma organization_guard_steps:
  assumes "on_db (organization_find g) w = (Inr organization, v)"
  shows "v = w \<and> organization_find g (ss_db w) = (Inr organization, ss_db w)"
  using assms by (auto simp: on_db_run organization_find_def first_where_run split: option.splits)

lemma report_guard_Inr:
  assumes "report_guard g event_id user w = (Inr (), v)"
  shows "v = w \<and> holds_scope (ss_db w) user g (if event_id = None then OrgReports else EventFinancialReports)"
  using assms
  by (auto simp: report_guard_def bindo_Inr_iff holds_scope_def requires_scope_for_organization_run
      dest!: organization_guard_steps split: if_splits)

lemma on_db_Inr: "on_db m w = (Inr x, v) \<Longrightarrow> m (ss_db w) = (Inr x, ss_db v)"
  by (auto simp: on_db_def split: prod.splits sum.splits)

lemma details_request_Inr:
  assumes "transaction_detail_report_request query g user (untouched s) = (Inr response, v)"
  shows "holds_scope s user g (if rqp_event_id query = None then OrgReports else EventFinancialReports) \<and>
    (\<exists>rows. hr_body response = Json (TransactionDetails rows) \<and>
      list_all (\<lambda>row. event_of_organization s g (trr_event_id row)) rows)"
  using assms
  by (auto simp: transaction_detail_report_request_def bindo_Inr_iff http_ok_def ret_run list_all_iff
      dest!: report_guard_Inr on_db_Inr intro: transaction_detail_report_events)

lemma counts_request_Inr:
  assumes "ticket_counts_request query g user (untouched s) = (Inr response, v)"
  shows "holds_scope s user g (if rqp_event_id query = None then OrgReports else EventFinancialReports) \<and>
    (\<exists>counts. hr_body response = Json (TicketCounts counts) \<and> counts_of_organization s g counts)"
  using assms
  by (auto simp: ticket_counts_request_def bindo_Inr_iff http_ok_def ret_run
      dest!: report_guard_Inr on_db_Inr dest: counts_of_organization_report)

lemma settlement_request_Inr:
  assumes "weekly_settlement_report_request query g user (untouched s) = (Inr response, v)"
  shows "holds_scope s user g OrgFinancialReports \<and>
    (\<exists>results. hr_body response = Json (WeeklySettlement results) \<and>
      list_all (\<lambda>r. event_of_organization s g (ssl_event_id r)) results)"
  using assms
  by (auto simp: weekly_settlement_report_request_def bindo_Inr_iff http_ok_def ret_run list_all_iff holds_scope_def
      requires_scope_for_organization_run dest!: organization_guard_steps split: if_splits;
    auto dest!: on_db_Inr intro: settlement_events)

lemma summary_request_Inr:
  assumes "event_summary_report_request query g user (untouched s) = (Inr response, v)"
  shows "holds_scope s user g EventFinancialReports \<and> (\<exists>r. hr_body response = Json (EventSummary r))"
  using assms
  by (auto simp: event_summary_report_request_def bindo_Inr_iff http_ok_def ret_run holds_scope_def unprocessable_def
      fail_run requires_scope_for_organization_run dest!: organization_guard_steps split: option.splits if_splits)

text \<open>C37: whoever gets a report of an organization holds the scope that the report asks for there, and the
  transactions, the settlements and the counts are of events of that organization only: the counts stand under
  the organization and under events of it alone, and the sales and the totals at an event name that event.\<close>

theorem reports_stay_in_organization:
  "case run_request (get_report query g user) s of (response, w) \<Rightarrow>
     let asked = (if rqp_event_id query = None then OrgReports else EventFinancialReports) in
     case hr_body response of
       Json (TransactionDetails rows) \<Rightarrow> holds_scope s user g asked \<and>
         list_all (\<lambda>row. event_of_organization s g (trr_event_id row)) rows
     | Json (WeeklySettlement results) \<Rightarrow> holds_scope s user g OrgFinancialReports \<and>
         list_all (\<lambda>r. event_of_organization s g (ssl_event_id r)) results
     | Json (TicketCounts counts) \<Rightarrow> holds_scope s user g asked \<and> counts_of_organization s g counts
     | Json (EventSummary _) \<Rightarrow> holds_scope s user g EventFinancialReports
     | _ \<Rightarrow> True"
proof -
  obtain res v where run: "get_report query g user (untouched s) = (res, v)" by fastforce
  show ?thesis
  proof (cases res)
    case (Inl e)
    then have "hr_body (fst (run_request (get_report query g user) s)) = hr_body (to_response e)"
      using run by (simp add: run_request_def bindo_run begin_transaction_def)
    then have "hr_body (fst (run_request (get_report query g user) s)) \<noteq> Json r" for r
      by (simp add: no_json)
    then show ?thesis
      by (cases "hr_body (fst (run_request (get_report query g user) s))") (auto split: prod.splits)
  next
    case (Inr response)
    have response: "fst (run_request (get_report query g user) s) = response"
      using run Inr by (simp add: run_request_def bindo_run begin_transaction_def)
    consider "transaction_detail_report_request query g user (untouched s) = (Inr response, v)"
      | "event_summary_report_request query g user (untouched s) = (Inr response, v)"
      | "weekly_settlement_report_request query g user (untouched s) = (Inr response, v)"
      | "ticket_counts_request query g user (untouched s) = (Inr response, v)"
      | "hr_body response = body.Empty"
      using run Inr by (auto simp: get_report_def Let_def not_found_def ret_run split: if_splits)
    then show ?thesis
    proof cases
      case 1 then show ?thesis using details_request_Inr response by (fastforce simp: Let_def split: prod.split)
    next
      case 2 then show ?thesis using summary_request_Inr response by (fastforce simp: Let_def split: prod.split)
    next
      case 3 then show ?thesis using settlement_request_Inr response by (fastforce simp: Let_def split: prod.split)
    next
      case 4 then show ?thesis using counts_request_Inr response by (fastforce simp: Let_def split: prod.split)
    next
      case 5 then show ?thesis using response by (auto split: prod.split)
    qed
  qed
qed

text \<open>The summary of an event is the exception: it is answered for an event of any organization, to whoever may
  read the financial reports of some organization.\<close>

lemma foreign_summary_answered:
  assumes "holds_scope s user g EventFinancialReports" and "summary_event_report i start end' s = (Inr r, t)"
  shows "hr_body (fst (run_request (get_report \<lparr>rqp_report = ''event_summary'', rqp_start_utc = start,
    rqp_end_utc = end', rqp_event_id = Some i\<rparr> g user) s)) = Json (EventSummary r)"
proof -
  have "trim ''event_summary'' = ''event_summary''" by code_simp
  moreover obtain organization where "organization_find g s = (Inr organization, s)"
    and "granted s user EventFinancialReports (Some organization)"
    using assms(1) by (auto simp: holds_scope_def organization_find_def first_where_run split: option.splits)
  ultimately show ?thesis using assms(2)
    by (simp add: get_report_def run_request_def bindo_run begin_transaction_def event_summary_report_request_def
        on_db_run requires_scope_for_organization_run http_ok_def ret_run)
qed

text \<open>The fees of the summary join the payments of the orders, so the lines of an order count once for each of
  its payments.\<close>

lemma payments_multiply:
  "sum_list (map f (map fst (with_payments s sales))) =
     (\<Sum>sale\<leftarrow>sales. int (max 1 (length (filter (\<lambda>p. p_order_id p = o_id (fst sale)) (db_payments s)))) * f sale)"
proof (induction sales)
  case (Cons sale sales)
  let ?ps = "filter (\<lambda>p. p_order_id p = o_id (fst sale)) (db_payments s)"
  have "sum_list (map (\<lambda>_. f sale) (left_join ?ps)) = int (max 1 (length ?ps)) * f sale"
    by (cases ?ps) (simp_all add: left_join_def comp_def sum_list_triv max_def distrib_right)
  then show ?case using Cons.IH by (simp add: with_payments_def comp_def)
qed (simp add: with_payments_def)

section \<open>Counts that add up\<close>

definition totals_ok :: "(ticket_count_row \<Rightarrow> bool) \<Rightarrow> ticket_counts \<Rightarrow> bool" where
  "totals_ok P result \<longleftrightarrow> (\<forall>g of_events e of_types i c r. result g = Some of_events \<longrightarrow> of_events e = Some of_types \<longrightarrow>
     of_types i = Some c \<longrightarrow> tcn_totals c = Some r \<longrightarrow> P r)"

lemma totals_ok_change:
  assumes "totals_ok P m" and "\<And>x r. tcn_totals (f x) = Some r \<Longrightarrow> P r \<or> (\<exists>c. x = Some c \<and> tcn_totals c = Some r)"
  shows "totals_ok P (change_count g e i f m)"
  using assms(1) assms(2)
  by (auto simp: totals_ok_def change_count_def Let_def unwrap_or_def split: if_splits option.splits) blast+

lemma totals_ok_report:
  assumes "ticket_count_report event_id organization_id s = (Inr result, t)"
    and "\<And>k rows r. set rows \<subseteq> set (counted_tickets s event_id organization_id) \<Longrightarrow>
      ticket_count_row_of k rows = Some r \<Longrightarrow> P r"
  shows "totals_ok P result"
proof -
  have sales: "totals_ok P (fold put_sales rows m)" if "totals_ok P m" for rows m
    using that
  proof (induction rows arbitrary: m)
    case (Cons row rows)
    have "totals_ok P (put_sales row m)"
      unfolding put_sales_def by (rule totals_ok_change [OF Cons.prems]) simp
    then show ?case using Cons.IH by simp
  qed simp
  have totals: "totals_ok P (fold put_totals rows m)" if "totals_ok P m" "\<And>r. r \<in> set rows \<Longrightarrow> P r" for rows m
    using that
  proof (induction rows arbitrary: m)
    case (Cons row rows)
    have "totals_ok P (put_totals row m)"
      unfolding put_totals_def
      by (rule totals_ok_change [OF Cons.prems(1)]) (use Cons.prems(2) in \<open>auto simp: unwrap_or_def\<close>)
    then show ?case using Cons.IH Cons.prems(2) by simp
  qed simp
  from assms(1) obtain rows where rows: "map Some rows = grouped ticket_key ticket_count_row_of
      (counted_tickets s event_id organization_id)"
    and result: "result = fold put_totals rows (fold put_sales (ticket_count_sales s event_id organization_id) Map.empty)"
    by (auto simp: ticket_count_report_def bindo_Inr_iff decoded_Inr_iff ret_run Let_def)
  have "P r" if "r \<in> set rows" for r
  proof -
    from that have "Some r \<in> set (map Some rows)" by simp
    from grouped_rows [OF this [unfolded rows]] obtain q where
      "Some r = ticket_count_row_of (ticket_key q) (filter (\<lambda>x. ticket_key x = ticket_key q)
        (counted_tickets s event_id organization_id))" by blast
    then show ?thesis by (intro assms(2)) auto
  qed
  then show ?thesis unfolding result by (intro totals sales) (simp_all add: totals_ok_def)
qed

lemma tickets_counted_simps:
  "tickets_counted P [] = 0"
  "tickets_counted P ((ti, a, tt, e, h) # rows) = (if P ti h then 1 else 0) + tickets_counted P rows"
  by (simp_all add: tickets_counted_def)

lemma counted_by_status:
  "tickets_counted P rows =
     tickets_counted (\<lambda>ti h. P ti h \<and> ti_status ti = ticket_instance_status.Available) rows +
     tickets_counted (\<lambda>ti h. P ti h \<and> ti_status ti = ticket_instance_status.Redeemed) rows +
     tickets_counted (\<lambda>ti h. P ti h \<and> ti_status ti = ticket_instance_status.Purchased) rows +
     tickets_counted (\<lambda>ti h. P ti h \<and> ti_status ti = ticket_instance_status.Reserved) rows +
     tickets_counted (\<lambda>ti h. P ti h \<and> ti_status ti = ticket_instance_status.Nullified) rows"
proof (induction rows)
  case (Cons row rows)
  obtain ti a tt e h where row: "row = (ti, a, tt, e, h)" by (cases row)
  show ?case using Cons.IH by (cases "ti_status ti") (simp_all add: tickets_counted_simps row)
qed (simp add: tickets_counted_simps)

lemma counted_by_hold:
  assumes "\<And>ti a tt e h. (ti, a, tt, e, h) \<in> set rows \<Longrightarrow> ti_hold_id ti \<noteq> None \<Longrightarrow> h \<noteq> None"
  shows "tickets_counted P rows = tickets_counted (\<lambda>ti h. ti_hold_id ti = None \<and> P ti h) rows +
    tickets_counted (\<lambda>ti h. in_comp ti h \<and> P ti h) rows + tickets_counted (\<lambda>ti h. in_other_hold ti h \<and> P ti h) rows"
  using assms
proof (induction rows)
  case (Cons row rows)
  obtain ti a tt e h where row: "row = (ti, a, tt, e, h)" by (cases row)
  have "ti_hold_id ti \<noteq> None \<Longrightarrow> h \<noteq> None" using Cons.prems [of ti a tt e h] by (simp add: row)
  then have one: "(if P ti h then 1 else 0 :: int) = (if ti_hold_id ti = None \<and> P ti h then 1 else 0) +
      (if in_comp ti h \<and> P ti h then 1 else 0) + (if in_other_hold ti h \<and> P ti h then 1 else 0)"
    by (auto simp: in_comp_def in_other_hold_def split: option.splits)
  have "tickets_counted P rows = tickets_counted (\<lambda>ti h. ti_hold_id ti = None \<and> P ti h) rows +
    tickets_counted (\<lambda>ti h. in_comp ti h \<and> P ti h) rows + tickets_counted (\<lambda>ti h. in_other_hold ti h \<and> P ti h) rows"
    by (rule Cons.IH) (rule Cons.prems, auto)
  with one show ?case unfolding row tickets_counted_simps by linarith
qed (simp add: tickets_counted_simps)

lemma tickets_counted_mono:
  "(\<And>ti h. P ti h \<Longrightarrow> Q ti h) \<Longrightarrow> tickets_counted P rows \<le> tickets_counted Q rows"
  by (induction rows) (auto simp: tickets_counted_simps)

lemma counted_ticket_hold:
  assumes "(ti, a, tt, e, h) \<in> set (counted_tickets s event_id organization_id)" and "ti_hold_id ti \<noteq> None"
    and "\<forall>ti \<in> set (db_ticket_instances s). refers (ti_hold_id ti) h_id (db_holds s)"
  shows "h \<noteq> None"
proof -
  from assms(1) have "ti \<in> set (db_ticket_instances s)"
    and h: "h \<in> set (left_join (filter (\<lambda>h. ti_hold_id ti = Some (h_id h)) (db_holds s)))"
    by (auto simp: counted_tickets_def)
  with assms(2,3) have "filter (\<lambda>h. ti_hold_id ti = Some (h_id h)) (db_holds s) \<noteq> []"
    by (fastforce simp: refers_def filter_empty_conv list_ex_iff split: option.splits)
  then show ?thesis using h by (auto simp: left_join_def)
qed

lemma ticket_count_row_fields:
  assumes "ticket_count_row_of k rows = Some r"
  shows "tcr_allocation_count r = tickets_counted (\<lambda>_ _. True) rows"
    and "tcr_unpurchased_count r = tickets_counted (\<lambda>ti h. ti_status ti = ticket_instance_status.Available) rows"
    and "tcr_available_count r = tickets_counted (\<lambda>ti h. ti_hold_id ti = None \<and>
      ti_status ti = ticket_instance_status.Available) rows"
    and "tcr_comp_count r = tickets_counted in_comp rows" and "tcr_hold_count r = tickets_counted in_other_hold rows"
    and "tcr_comp_available_count r = tickets_counted (\<lambda>ti h. in_comp ti h \<and> ti_status ti = ticket_instance_status.Available) rows"
    and "tcr_comp_redeemed_count r = tickets_counted (\<lambda>ti h. in_comp ti h \<and> ti_status ti = ticket_instance_status.Redeemed) rows"
    and "tcr_comp_purchased_count r = tickets_counted (\<lambda>ti h. in_comp ti h \<and> ti_status ti = ticket_instance_status.Purchased) rows"
    and "tcr_comp_reserved_count r = tickets_counted (\<lambda>ti h. in_comp ti h \<and> ti_status ti = ticket_instance_status.Reserved) rows"
    and "tcr_comp_nullified_count r = tickets_counted (\<lambda>ti h. in_comp ti h \<and> ti_status ti = ticket_instance_status.Nullified) rows"
    and "tcr_hold_available_count r = tickets_counted (\<lambda>ti h. in_other_hold ti h \<and> ti_status ti = ticket_instance_status.Available) rows"
    and "tcr_hold_redeemed_count r = tickets_counted (\<lambda>ti h. in_other_hold ti h \<and> ti_status ti = ticket_instance_status.Redeemed) rows"
    and "tcr_hold_purchased_count r = tickets_counted (\<lambda>ti h. in_other_hold ti h \<and> ti_status ti = ticket_instance_status.Purchased) rows"
    and "tcr_hold_reserved_count r = tickets_counted (\<lambda>ti h. in_other_hold ti h \<and> ti_status ti = ticket_instance_status.Reserved) rows"
    and "tcr_hold_nullified_count r = tickets_counted (\<lambda>ti h. in_other_hold ti h \<and> ti_status ti = ticket_instance_status.Nullified) rows"
proof -
  have all: "int (length rows) = tickets_counted (\<lambda>_ _. True) rows"
    by (induction rows) (auto simp: tickets_counted_simps)
  with assms show "tcr_allocation_count r = tickets_counted (\<lambda>_ _. True) rows"
    by (auto simp: ticket_count_row_of_def Let_def split: list.splits option.splits prod.splits)
qed (use assms in \<open>auto simp: ticket_count_row_of_def Let_def split: list.splits option.splits prod.splits\<close>)

text \<open>C38: in the ticket counts of a report the tickets of comps, and those of other holds, are the sums of
  their available, redeemed, purchased, reserved and nullified ones; the tickets that were not purchased are
  those in no hold and those available in comps and in holds; with the other tickets of comps and holds they
  are no more than the tickets that were allocated.\<close>

theorem ticket_counts_add_up:
  assumes "ticket_count_report event_id organization_id s = (Inr result, t)"
    and "result g = Some of_events" "of_events e = Some of_types" "of_types i = Some c" "tcn_totals c = Some r"
    and "\<forall>ti \<in> set (db_ticket_instances s). refers (ti_hold_id ti) h_id (db_holds s)"
  shows "tcr_comp_count r = tcr_comp_available_count r + tcr_comp_redeemed_count r + tcr_comp_purchased_count r +
      tcr_comp_reserved_count r + tcr_comp_nullified_count r \<and>
    tcr_hold_count r = tcr_hold_available_count r + tcr_hold_redeemed_count r + tcr_hold_purchased_count r +
      tcr_hold_reserved_count r + tcr_hold_nullified_count r \<and>
    tcr_unpurchased_count r = tcr_available_count r + tcr_comp_available_count r + tcr_hold_available_count r \<and>
    tcr_unpurchased_count r + (tcr_comp_count r - tcr_comp_available_count r) +
      (tcr_hold_count r - tcr_hold_available_count r) \<le> tcr_allocation_count r"
proof -
  let ?P = "\<lambda>r. tcr_comp_count r = tcr_comp_available_count r + tcr_comp_redeemed_count r + tcr_comp_purchased_count r +
      tcr_comp_reserved_count r + tcr_comp_nullified_count r \<and>
    tcr_hold_count r = tcr_hold_available_count r + tcr_hold_redeemed_count r + tcr_hold_purchased_count r +
      tcr_hold_reserved_count r + tcr_hold_nullified_count r \<and>
    tcr_unpurchased_count r = tcr_available_count r + tcr_comp_available_count r + tcr_hold_available_count r \<and>
    tcr_unpurchased_count r + (tcr_comp_count r - tcr_comp_available_count r) +
      (tcr_hold_count r - tcr_hold_available_count r) \<le> tcr_allocation_count r"
  have "?P r" if "set rows \<subseteq> set (counted_tickets s event_id organization_id)"
    and "ticket_count_row_of k rows = Some r" for k rows r
  proof -
    have held: "h \<noteq> None" if "(ti, a, tt, e, h) \<in> set rows" "ti_hold_id ti \<noteq> None" for ti a tt e h
      using counted_ticket_hold [of ti a tt e h] that \<open>set rows \<subseteq> _\<close> assms(6) by blast
    note fields = ticket_count_row_fields [OF \<open>ticket_count_row_of k rows = Some r\<close>]
    have "tickets_counted (\<lambda>ti h. ti_hold_id ti = None \<and> ti_status ti = ticket_instance_status.Available) rows \<le>
        tickets_counted (\<lambda>ti h. ti_hold_id ti = None \<and> True) rows"
      by (rule tickets_counted_mono) simp
    then show ?thesis
      using counted_by_status [of in_comp rows] counted_by_status [of in_other_hold rows]
        counted_by_hold [of rows "\<lambda>ti h. ti_status ti = ticket_instance_status.Available"]
        counted_by_hold [of rows "\<lambda>_ _. True"] held
      by (simp add: fields)
  qed
  with totals_ok_report [OF assms(1), of ?P] have "totals_ok ?P result" by blast
  then show ?thesis using assms(2-5) unfolding totals_ok_def by blast
qed

definition sample_house :: db where
  "sample_house = blank_db\<lparr>db_organizations := [blank_organization 4 8], db_events := [blank_event 3 4],
     db_ticket_types := [blank_ticket_type 9 3], db_assets := [blank_asset 7 9],
     db_holds := [sample_hold\<lparr>h_id := 5, h_hold_type := hold_types.Comp\<rparr>],
     db_ticket_instances := [blank_ticket 1 7, (blank_ticket 2 7)\<lparr>ti_hold_id := Some 5\<rparr>,
       (blank_ticket 3 7)\<lparr>ti_hold_id := Some 5, ti_status := ticket_instance_status.Purchased\<rparr>]\<rparr>"

theorem ticket_counts_add_up_witness:
  "\<exists>result t of_events of_types c r. ticket_count_report None (Some 4) sample_house = (Inr result, t) \<and>
     result 4 = Some of_events \<and> of_events 3 = Some of_types \<and> of_types 9 = Some c \<and> tcn_totals c = Some r \<and>
     tcr_allocation_count r = 3 \<and> tcr_comp_count r = 2 \<and> tcr_comp_available_count r = 1 \<and>
     tcr_comp_redeemed_count r + tcr_comp_purchased_count r + tcr_comp_reserved_count r + tcr_comp_nullified_count r = 1"
proof -
  have "case fst (ticket_count_report None (Some 4) sample_house) of
      Inr result \<Rightarrow> (case result 4 of Some of_events \<Rightarrow> (case of_events 3 of Some of_types \<Rightarrow> (case of_types 9 of
        Some c \<Rightarrow> (case tcn_totals c of Some r \<Rightarrow> tcr_allocation_count r = 3 \<and> tcr_comp_count r = 2 \<and>
          tcr_comp_available_count r = 1 | None \<Rightarrow> False) | None \<Rightarrow> False) | None \<Rightarrow> False) | None \<Rightarrow> False)
    | Inl _ \<Rightarrow> False"
    by code_simp
  then obtain result of_events of_types c r where run: "fst (ticket_count_report None (Some 4) sample_house) = Inr result"
    and at: "result 4 = Some of_events" "of_events 3 = Some of_types" "of_types 9 = Some c" "tcn_totals c = Some r"
    and counts: "tcr_allocation_count r = 3" "tcr_comp_count r = 2" "tcr_comp_available_count r = 1"
    by (auto split: sum.splits option.splits)
  obtain t where report: "ticket_count_report None (Some 4) sample_house = (Inr result, t)"
    using run by (metis prod.collapse)
  have "\<forall>ti \<in> set (db_ticket_instances sample_house). refers (ti_hold_id ti) h_id (db_holds sample_house)"
    by code_simp
  from ticket_counts_add_up [OF report at this] counts show ?thesis using report at by auto
qed

end
