(* ===== verification/Routing.thy ===== *)
theory Routing imports Web begin

text \<open>
  The resources of the server and the methods they answer (\<open>api/src/routing.rs\<close>), in the order in which they are
  registered. The last section shows that a path that was made from a resource is never taken by one that was
  registered before it.
\<close>

section \<open>The resources\<close>

datatype http_method = GET | POST | PUT | PATCH | DELETE

text \<open>A pattern with the handler of each method; a handler has the name of its module and function, but for the
  one of \<open>/status\<close>, which is written in place.\<close>

type_synonym resource = "string \<times> (http_method \<times> string) list"

definition routes_of_events :: "resource list" where
  "routes_of_events =
     [(''/artists/search'', [(GET, ''artists::search'')]),
      (''/artists/{id}/toggle_privacy'', [(PUT, ''artists::toggle_privacy'')]),
      (''/artists/{id}'', [(GET, ''artists::show''), (PUT, ''artists::update'')]),
      (''/artists'', [(GET, ''artists::index''), (POST, ''artists::create'')]),
      (''/auth/token'', [(POST, ''auth::token'')]),
      (''/auth/token/refresh'', [(POST, ''auth::token_refresh'')]),
      (''/cart'',
        [(DELETE, ''cart::destroy''), (POST, ''cart::update_cart''),
         (PUT, ''cart::replace_cart''), (GET, ''cart::show'')]),
      (''/cart/checkout'', [(POST, ''cart::checkout'')]),
      (''/codes/{id}'', [(GET, ''codes::show''), (PUT, ''codes::update''), (DELETE, ''codes::destroy'')]),
      (''/comps/{id}'', [(GET, ''comps::show''), (PATCH, ''comps::update''), (DELETE, ''comps::destroy'')]),
      (''/events'', [(GET, ''events::index''), (POST, ''events::create'')]),
      (''/events/checkins'', [(GET, ''events::checkins'')]),
      (''/events/{id}'', [(GET, ''events::show''), (PUT, ''events::update''), (DELETE, ''events::cancel'')]),
      (''/events/{id}/artists'', [(POST, ''events::add_artist''), (PUT, ''events::update_artists'')]),
      (''/events/{id}/codes'', [(GET, ''events::codes''), (POST, ''codes::create'')]),
      (''/events/{id}/dashboard'', [(GET, ''events::dashboard'')]),
      (''/events/{id}/guests'', [(GET, ''events::guest_list'')]),
      (''/events/{id}/holds'', [(POST, ''holds::create''), (GET, ''events::holds'')]),
      (''/events/{id}/fans'', [(GET, ''events::fans_index'')]),
      (''/events/{id}/interest'',
        [(GET, ''events::list_interested_users''),
         (POST, ''events::add_interest''), (DELETE, ''events::remove_interest'')]),
      (''/events/{id}/publish'', [(POST, ''events::publish'')]),
      (''/events/{id}/unpublish'', [(POST, ''events::unpublish'')]),
      (''/events/{id}/redeem/{ticket_instance_id}'', [(POST, ''events::redeem_ticket'')]),
      (''/events/{id}/tickets'', [(GET, ''tickets::index'')]),
      (''/events/{id}/ticket_types'', [(GET, ''ticket_types::index''), (POST, ''ticket_types::create'')]),
      (''/events/{event_id}/ticket_types/{ticket_type_id}'',
        [(PATCH, ''ticket_types::update''), (DELETE, ''ticket_types::cancel'')])]"

definition routes_of_organizations :: "resource list" where
  "routes_of_organizations =
     [(''/external/facebook/web_login'', [(POST, ''external::facebook::web_login'')]),
      (''/invitations/{id}'', [(GET, ''organization_invites::view'')]),
      (''/invitations'', [(POST, ''organization_invites::accept_request'')]),
      (''/holds/{id}/comps'', [(GET, ''comps::index''), (POST, ''comps::create'')]),
      (''/holds/{id}/split'', [(POST, ''holds::split'')]),
      (''/holds/{id}'', [(PATCH, ''holds::update''), (GET, ''holds::show''), (DELETE, ''holds::destroy'')]),
      (''/orders'', [(GET, ''orders::index'')]),
      (''/orders/{id}/details'', [(GET, ''orders::details'')]),
      (''/orders/{id}/refund'', [(PATCH, ''orders::refund'')]),
      (''/orders/{id}/tickets'', [(GET, ''orders::tickets'')]),
      (''/orders/{id}'', [(GET, ''orders::show''), (PATCH, ''orders::update'')]),
      (''/organizations/{id}/artists'',
        [(GET, ''artists::show_from_organizations''), (POST, ''organizations::add_artist'')]),
      (''/organizations/{id}/events'', [(GET, ''events::show_from_organizations'')]),
      (''/organizations/{id}/fans/{user_id}/history'', [(GET, ''users::history'')]),
      (''/organizations/{id}/fans/{user_id}'', [(GET, ''users::profile'')]),
      (''/organizations/{id}/fee_schedule'',
        [(GET, ''organizations::show_fee_schedule''), (POST, ''organizations::add_fee_schedule'')]),
      (''/organizations/{id}/fans'', [(GET, ''organizations::search_fans'')]),
      (''/organizations/{id}/invites/{invite_id}'', [(DELETE, ''organization_invites::destroy'')]),
      (''/organizations/{id}/invites'',
        [(GET, ''organization_invites::index''), (POST, ''organization_invites::create'')]),
      (''/organizations/{id}/users'',
        [(POST, ''organizations::add_or_replace_user''),
         (PUT, ''organizations::add_or_replace_user''), (GET, ''organizations::list_organization_members'')]),
      (''/organizations/{id}/users/{user_id}'', [(DELETE, ''organizations::remove_user'')]),
      (''/organizations/{id}/venues'',
        [(GET, ''venues::show_from_organizations''), (POST, ''organizations::add_venue'')]),
      (''/organizations/{id}'', [(GET, ''organizations::show''), (PATCH, ''organizations::update'')]),
      (''/organizations'', [(GET, ''organizations::index''), (POST, ''organizations::create'')])]"

definition routes_of_users :: "resource list" where
  "routes_of_users =
     [(''/password_reset'', [(POST, ''password_resets::create''), (PUT, ''password_resets::update'')]),
      (''/payment_methods'', [(GET, ''payment_methods::index'')]),
      (''/redemption_codes/{code}'', [(GET, ''redemption_codes::show'')]),
      (''/regions/{id}'', [(GET, ''regions::show''), (PUT, ''regions::update'')]),
      (''/regions'', [(GET, ''regions::index''), (POST, ''regions::create'')]),
      (''/reports/{id}'', [(GET, ''reports::get_report'')]),
      (''/status'', [(GET, ''status'')]),
      (''/stages/{id}'', [(GET, ''stages::show''), (PUT, ''stages::update''), (DELETE, ''stages::delete'')]),
      (''/tickets/transfer'', [(POST, ''tickets::transfer_authorization'')]),
      (''/tickets/receive'', [(POST, ''tickets::receive_transfer'')]),
      (''/tickets/send'', [(POST, ''tickets::send_via_email_or_phone'')]),
      (''/tickets/{id}'', [(GET, ''tickets::show'')]),
      (''/tickets'', [(GET, ''tickets::index'')]),
      (''/tickets/{id}/redeem'', [(GET, ''tickets::show_redeemable_ticket'')]),
      (''/users/me'', [(GET, ''users::current_user''), (PUT, ''users::update_current_user'')]),
      (''/users/register'', [(POST, ''users::register'')]),
      (''/users/{id}/tokens'', [(GET, ''users::show_push_notification_tokens_for_user_id'')]),
      (''/users/tokens'',
        [(GET, ''users::show_push_notification_tokens''), (POST, ''users::add_push_notification_token'')]),
      (''/users/tokens/{id}'', [(DELETE, ''users::remove_push_notification_token'')]),
      (''/users'', [(POST, ''users::register_and_login'')]),
      (''/users/{id}'', [(GET, ''users::show'')]),
      (''/user_invites'', [(POST, ''user_invites::create'')]),
      (''/users/{id}/organizations'', [(GET, ''users::list_organizations'')]),
      (''/venues/{id}/events'', [(GET, ''events::show_from_venues'')]),
      (''/venues/{id}/organizations'', [(POST, ''venues::add_to_organization'')]),
      (''/venues/{id}/stages'', [(POST, ''stages::create''), (GET, ''stages::index'')]),
      (''/venues/{id}/toggle_privacy'', [(PUT, ''venues::toggle_privacy'')]),
      (''/venues/{id}'', [(GET, ''venues::show''), (PUT, ''venues::update'')]),
      (''/venues'', [(GET, ''venues::index''), (POST, ''venues::create'')])]"

definition routes :: "resource list" where
  "routes = routes_of_events @ routes_of_organizations @ routes_of_users"

section \<open>Patterns\<close>

text \<open>The parts of a pattern between its slashes are words, or parameters in braces.\<close>

datatype segment = Word string | Param string

fun split_path :: "string \<Rightarrow> string list" where
  "split_path [] = [[]]"
| "split_path (c # cs) =
     (if c = CHR ''/'' then [] # split_path cs
      else case split_path cs of w # ws \<Rightarrow> (c # w) # ws | [] \<Rightarrow> [[c]])"

definition segment_of :: "string \<Rightarrow> segment" where
  "segment_of w = (case w of [] \<Rightarrow> Word []
     | c # cs \<Rightarrow> if c = CHR ''{'' then Param (butlast cs) else Word w)"

definition parse_pattern :: "string \<Rightarrow> segment list" where
  "parse_pattern p = map segment_of (tl (split_path p))"

text \<open>A path, as the list of its parts, fits a pattern when the words agree; a parameter takes any part that is
  not empty. A path is made from a pattern by putting values for the parameters.\<close>

fun fits :: "segment list \<Rightarrow> string list \<Rightarrow> bool" where
  "fits [] [] = True"
| "fits (Word w # p) (x # xs) = (w = x \<and> fits p xs)"
| "fits (Param _ # p) (x # xs) = (x \<noteq> [] \<and> fits p xs)"
| "fits _ _ = False"

fun made_from :: "(string \<Rightarrow> string) \<Rightarrow> segment list \<Rightarrow> string list" where
  "made_from value [] = []"
| "made_from value (Word w # p) = w # made_from value p"
| "made_from value (Param n # p) = value n # made_from value p"

text \<open>Which paths a resource recognises is decided by the web framework, which is a parameter; the code relies on its
  documentation, that a path fits a pattern as above.\<close>

type_synonym recogniser = "string \<Rightarrow> string list \<Rightarrow> bool"

definition recognises_patterns :: "recogniser \<Rightarrow> bool" where
  "recognises_patterns recognised \<longleftrightarrow> (\<forall>p path. recognised p path = fits (parse_pattern p) path)"

text \<open>The handler of the first resource that recognises the path, \<open>None\<close> for the default resource, which answers GET with 404,
  and for a method that the resource does not have.\<close>

definition handler_of :: "recogniser \<Rightarrow> http_method \<Rightarrow> string list \<Rightarrow> string option" where
  "handler_of recognised method' path =
     (case find (\<lambda>r. recognised (fst r) path) routes of
        Some r \<Rightarrow> map_of (snd r) method'
      | None \<Rightarrow> None)"

section \<open>No path is taken by another resource\<close>

text \<open>The values of the parameters are identifiers, 36 characters long, but for the code of a redemption.\<close>

definition path_values :: "(string \<Rightarrow> string) \<Rightarrow> bool" where
  "path_values value \<longleftrightarrow> (\<forall>n. value n \<noteq> [] \<and> (n \<noteq> ''code'' \<longrightarrow> length (value n) = 36))"

fun clash :: "segment list \<Rightarrow> segment list \<Rightarrow> bool" where
  "clash [] [] = True"
| "clash (Word w # p) (Word v # q) = (w = v \<and> clash p q)"
| "clash (Word w # p) (Param n # q) = ((n = ''code'' \<or> length w = 36) \<and> clash p q)"
| "clash (Param n # p) (Word v # q) = clash p q"
| "clash (Param n # p) (Param m # q) = clash p q"
| "clash _ _ = False"

lemma fits_nothing: "fits [] (made_from value (v # q)) = False"
  by (cases v) auto

lemma fits_clash: "fits p (made_from value q) \<Longrightarrow> path_values value \<Longrightarrow> clash p q"
  by (induction p q rule: clash.induct) (auto simp: fits_nothing path_values_def)

lemma fits_own: "path_values value \<Longrightarrow> fits p (made_from value p)"
proof (induction p)
  case (Cons x p)
  then show ?case by (cases x) (auto simp: path_values_def)
qed simp

fun no_clashes :: "segment list list \<Rightarrow> bool" where
  "no_clashes [] = True"
| "no_clashes (p # ps) = (list_all (\<lambda>q. \<not> clash p q) ps \<and> no_clashes ps)"

lemma find_own:
  assumes "no_clashes (map f rs)" "r \<in> set rs" "path_values value"
  shows "find (\<lambda>r. fits (f r) (made_from value (f r'))) rs = Some r \<or> r \<noteq> r'"
proof (cases "r = r'")
  case True
  show ?thesis using assms(1, 2) unfolding True
  proof (induction rs)
    case (Cons x rs)
    show ?case
    proof (cases "x = r'")
      case False
      then have "\<not> clash (f x) (f r')" using Cons.prems by (auto simp: list_all_iff)
      then have "\<not> fits (f x) (made_from value (f r'))" using fits_clash assms(3) by blast
      then show ?thesis using Cons False by simp
    qed (simp add: fits_own [OF assms(3)])
  qed simp
qed simp

lemma patterns_apart: "no_clashes (map (\<lambda>r. parse_pattern (fst r)) routes)"
  by code_simp

lemma methods_apart: "list_all (\<lambda>r. distinct (map fst (snd r))) routes"
  by code_simp


lemma hex_string_length [simp]: "length (hex_string w n) = w"
  by (induction w arbitrary: n) auto

lemma uuid_to_string_length: "length (uuid_to_string i) = 36"
  by (simp add: uuid_to_string_def)

lemma values_of_uuids: "path_values (\<lambda>n. if n = ''code'' then c # cs else uuid_to_string (ids n))"
  using uuid_to_string_length by (auto simp: path_values_def) (metis length_0_conv zero_neq_numeral)

lemma handler_of_route:
  assumes "recognises_patterns recognised" "r \<in> set routes" "path_values value" "mh \<in> set (snd r)"
  shows "handler_of recognised (fst mh) (made_from value (parse_pattern (fst r))) = Some (snd mh)"
proof -
  have "find (\<lambda>x. recognised (fst x) (made_from value (parse_pattern (fst r)))) routes = Some r"
    using find_own [where f = "\<lambda>x. parse_pattern (fst x)", OF patterns_apart assms(2, 3), of r] assms(1)
    by (simp add: recognises_patterns_def)
  moreover have "distinct (map fst (snd r))"
    using methods_apart assms(2) by (auto simp: list_all_iff)
  ultimately show ?thesis
    using assms(4) by (cases mh) (simp add: handler_of_def)
qed

text \<open>C39: every resource is reached by the paths made from its pattern with the text of an identifier, of 36
  characters, in the place of each parameter and any text that is not empty in the place of a code: no resource
  registered before it takes such a path, and each method it declares is answered by the handler it declares. Of
  other paths it says nothing: a word in the place of an identifier may be taken by another resource.\<close>

theorem every_route_reached:
  assumes "recognises_patterns recognised"
  shows "list_all (\<lambda>(p, hs). list_all (\<lambda>(m, h).
       handler_of recognised m
         (made_from (\<lambda>n. if n = ''code'' then c # cs else uuid_to_string (ids n)) (parse_pattern p)) = Some h) hs)
       routes"
  using handler_of_route [OF assms _ values_of_uuids] by (fastforce simp: list_all_iff)

theorem every_route_reached_witness:
  "recognises_patterns (\<lambda>p. fits (parse_pattern p)) \<and>
   list_all (\<lambda>(p, hs). list_all (\<lambda>(m, h).
       handler_of (\<lambda>p. fits (parse_pattern p)) m
         (made_from (\<lambda>n. if n = ''code'' then CHR ''C'' # ''ODE'' else uuid_to_string ((\<lambda>_. 7) n)) (parse_pattern p)) =
         Some h) hs)
     routes"
proof -
  have "recognises_patterns (\<lambda>p. fits (parse_pattern p))" by (simp add: recognises_patterns_def)
  then show ?thesis
    using every_route_reached [of _ "CHR ''C''" "''ODE''" "\<lambda>_. 7"] by blast
qed

end
