(* ===== verification/Spotify.thy ===== *)
theory Spotify imports Catalog_Requests Services begin

text \<open>
  The client of Spotify (\<open>api/src/utils/spotify.rs\<close>): connecting, searching artists and reading one, from
  the JSON texts the service answers. What the service answers, the parser of JSON (\<open>serde_json\<close>) and the
  encoding of URLs (\<open>url\<close>) are parameters. The client is the \<open>spotify\<close> that the requests on artists take.
\<close>

section \<open>Values of JSON\<close>

text \<open>The values of \<open>serde_json\<close>: a number is an integer of at most 64 bits or something else, of which nothing is
  read. Indexing a value that is no object, or a key it does not have, gives \<open>Null\<close>.\<close>

datatype json_value = Null | Boolean bool | Integer int | Decimal | Text string
  | Array "json_value list" | Object "(string \<times> json_value) list"

fun get_key :: "json_value \<Rightarrow> string \<Rightarrow> json_value option" where
  "get_key (Object entries) k = map_of entries k"
| "get_key _ k = None"

definition at_key :: "json_value \<Rightarrow> string \<Rightarrow> json_value" where
  "at_key v k = unwrap_or (get_key v k) Null"

fun as_str :: "json_value \<Rightarrow> string option" where
  "as_str (Text t) = Some t"
| "as_str _ = None"

fun as_integer :: "json_value \<Rightarrow> int option" where
  "as_integer (Integer n) = (if - (2 ^ 63) \<le> n \<and> n < 2 ^ 63 then Some n else None)"
| "as_integer _ = None"

fun as_array :: "json_value \<Rightarrow> json_value list option" where
  "as_array (Array vs) = Some vs"
| "as_array _ = None"

section \<open>The service\<close>

text \<open>\<open>post_token\<close> is the answer to the form with the grant type, sent with an \<open>Authorization\<close> header;
  \<open>get_url\<close> that to a URL with the \<open>Authorization\<close> header if there is one. \<open>None\<close> is an error of the network,
  or of reading the answer.\<close>

record auth_response =
  ar_access_token :: string
  ar_expires_in :: nat

record spotify_service =
  post_token :: "string \<Rightarrow> string \<Rightarrow> (string \<times> string) list \<Rightarrow> auth_response option"
  get_url :: "string \<Rightarrow> string option \<Rightarrow> string option"
  from_json :: "string \<Rightarrow> json_value option"
  percent_encode :: "string \<Rightarrow> string"

record spotify_client =
  sc_auth_token :: "string option"
  sc_access_token :: string
  sc_expires_at :: nat

definition spotify_url_auth :: string where
  "spotify_url_auth = ''https://accounts.spotify.com/api/token''"

definition connect :: "spotify_service \<Rightarrow> nat \<Rightarrow> string option \<Rightarrow> big_neon_error + spotify_client" where
  "connect service clock_secs auth_token =
     (case auth_token of
        Some token \<Rightarrow>
          (case post_token service spotify_url_auth (''Basic '' @ token) [(''grant_type'', ''client_credentials'')] of
             Some res \<Rightarrow>
               Inr \<lparr>sc_auth_token = Some token, sc_access_token = ar_access_token res,
                 sc_expires_at = clock_secs + ar_expires_in res\<rparr>
           | None \<Rightarrow> Inl OfReqwest)
      | None \<Rightarrow> Inr \<lparr>sc_auth_token = None, sc_access_token = [], sc_expires_at = 0\<rparr>)"

section \<open>Reading artists\<close>

definition first_wide :: "int \<Rightarrow> json_value list \<Rightarrow> json_value option" where
  "first_wide width array = find (\<lambda>v. \<not> unwrap_or (as_integer (at_key v ''width'')) 0 < width) array"

definition first_narrow :: "int \<Rightarrow> json_value list \<Rightarrow> json_value option" where
  "first_narrow width array = find (\<lambda>v. \<not> unwrap_or (as_integer (at_key v ''width'')) 99999999 > width) array"

text \<open>The first image that is wide enough ends the search, whether or not it has a URL.\<close>

definition get_image_from_artist :: "json_value \<Rightarrow> int option \<Rightarrow> int option \<Rightarrow> string option" where
  "get_image_from_artist image_array min_width max_width =
     (case as_array image_array of
        None \<Rightarrow> None
      | Some array \<Rightarrow>
          (case Option.bind min_width (\<lambda>w. first_wide w array) of
             Some v \<Rightarrow> as_str (at_key v ''url'')
           | None \<Rightarrow>
               (case Option.bind max_width (\<lambda>w. first_narrow w array) of
                  Some v \<Rightarrow> as_str (at_key v ''url'')
                | None \<Rightarrow> None)))"

definition image_urls :: "json_value \<Rightarrow> string list option" where
  "image_urls images = map_option (List.map_filter (\<lambda>i. as_str (at_key i ''url''))) (as_array images)"

definition artist_request ::
  "json_value \<Rightarrow> string option \<Rightarrow> string option \<Rightarrow> create_artist_request" where
  "artist_request artist image_url thumb_image_url =
     \<lparr>car_id = None, car_organization_id = None, car_is_private = None,
      car_name = as_str (at_key artist ''name''), car_bio = Some [],
      car_image_url = image_url, car_thumb_image_url = thumb_image_url, car_website_url = None,
      car_youtube_video_urls = None, car_facebook_username = None, car_instagram_username = None,
      car_snapchat_username = None, car_soundcloud_username = None, car_bandcamp_username = None,
      car_spotify_id = as_str (at_key artist ''id''), car_created_at = None, car_updated_at = None,
      car_other_image_urls = image_urls (at_key artist ''images'')\<rparr>"

definition searched_artist :: "json_value \<Rightarrow> create_artist_request" where
  "searched_artist artist =
     artist_request artist (get_image_from_artist (at_key artist ''images'') (Some 600) None) None"

definition artist_read :: "json_value \<Rightarrow> create_artist_request" where
  "artist_read artist =
     artist_request artist (get_image_from_artist (at_key artist ''images'') (Some 600) None)
       (get_image_from_artist (at_key artist ''images'') None (Some 300))"

definition spotify_error :: "json_value \<Rightarrow> big_neon_error" where
  "spotify_error v = OfApplication (application_error_new
     (unwrap_or (as_str (at_key (at_key v ''error'') ''message'')) ''Invalid Spotify Response''))"

text \<open>The two steps of every question: the answer as a text, the text as JSON.\<close>

definition ask :: "spotify_service \<Rightarrow> string \<Rightarrow> string option \<Rightarrow> big_neon_error + json_value" where
  "ask service url authorization =
     (case get_url service url authorization of
        None \<Rightarrow> Inl OfReqwest
      | Some res \<Rightarrow> (case from_json service res of None \<Rightarrow> Inl OfSerde | Some v \<Rightarrow> Inr v))"

definition spotify_search ::
  "spotify_service \<Rightarrow> spotify_client \<Rightarrow> string \<Rightarrow> big_neon_error + create_artist_request list" where
  "spotify_search service self q =
     (case sc_auth_token self of
        None \<Rightarrow> Inr []
      | Some _ \<Rightarrow>
          (case ask service (''https://api.spotify.com/v1/search?q='' @ percent_encode service q @
                  ''&type=artist&access_token='' @ sc_access_token self) None of
             Inl e \<Rightarrow> Inl e
           | Inr result \<Rightarrow>
               if get_key result ''error'' \<noteq> None then Inl (spotify_error result)
               else (case as_array (at_key (at_key result ''artists'') ''items'') of
                       None \<Rightarrow> Inl HandlerPanicked
                     | Some items \<Rightarrow> Inr (map searched_artist items))))"

definition spotify_read_artist ::
  "spotify_service \<Rightarrow> spotify_client \<Rightarrow> string \<Rightarrow> big_neon_error + create_artist_request option" where
  "spotify_read_artist service self artist_id =
     (case sc_auth_token self of
        None \<Rightarrow> Inl (OfApplication (application_error_new ''No Spotify Auth Token''))
      | Some _ \<Rightarrow>
          (case ask service (''https://api.spotify.com/v1/artists/'' @ artist_id)
                  (Some (''Bearer '' @ sc_access_token self)) of
             Inl e \<Rightarrow> Inl e
           | Inr artist \<Rightarrow>
               if get_key artist ''error'' \<noteq> None then Inl (spotify_error artist)
               else Inr (Some (artist_read artist))))"

section \<open>The client in the requests on artists\<close>

text \<open>A request connects and then asks once with the client it got.\<close>

definition with_client ::
  "big_neon_error + spotify_client \<Rightarrow> (spotify_client \<Rightarrow> big_neon_error + 'a) \<Rightarrow> big_neon_error + 'a" where
  "with_client r f = (case r of Inl e \<Rightarrow> Inl e | Inr c \<Rightarrow> f c)"

definition spotify_of_service :: "spotify_service \<Rightarrow> nat \<Rightarrow> string option \<Rightarrow> spotify" where
  "spotify_of_service service clock_secs auth_token =
     (let client = connect service clock_secs auth_token in
      \<lparr>sp_connect = map_sum id (\<lambda>_. ()) client,
       sp_search = (\<lambda>q. with_client client (\<lambda>c. spotify_search service c q)),
       sp_read_artist = (\<lambda>i. with_client client (\<lambda>c. spotify_read_artist service c i))\<rparr>)"

section \<open>Without a token nothing is asked\<close>

lemma read_artist_Inr:
  "sp_read_artist (spotify_of_service service clock_secs token) i = Inr x \<longleftrightarrow>
   (\<exists>t res v. token = Some t \<and>
      post_token service spotify_url_auth (''Basic '' @ t) [(''grant_type'', ''client_credentials'')] = Some res \<and>
      ask service (''https://api.spotify.com/v1/artists/'' @ i) (Some (''Bearer '' @ ar_access_token res)) = Inr v \<and>
      get_key v ''error'' = None \<and> x = Some (artist_read v))"
  by (auto simp: spotify_of_service_def with_client_def connect_def spotify_read_artist_def
      split: option.splits sum.splits if_splits)

text \<open>An artist created from Spotify carries no organization, whatever the request says: with the lemma on the
  requests, the artist is public and belongs to nobody.\<close>

lemma created_from_spotify_public:
  assumes "artists_create vu (spotify_of_service service clock_secs token) r user w = (Inr resp, w')"
    and "car_spotify_id r = Some i" and "hr_body resp = Json b"
  shows "art_organization_id b = None \<and> \<not> art_is_private b"
proof -
  from assms(1, 2) obtain x where "sp_read_artist (spotify_of_service service clock_secs token) i = Inr x"
    by (auto simp: artists_create_def bindo_Inr_iff lift_result_run)
  then obtain v where "x = Some (artist_read v)"
    by (auto simp: read_artist_Inr)
  then show ?thesis
    using spotify_artist_public [OF assms(1, 2) _ _ assms(3)]
      \<open>sp_read_artist _ i = Inr x\<close> by (simp add: artist_read_def artist_request_def)
qed

text \<open>Every question goes to the service it names, except that the identifier of an artist is put into the URL as
  it was typed: one with slashes and dots asks for something else.\<close>

lemma typed_path_reaches_url:
  assumes "post_token service spotify_url_auth (''Basic '' @ t) [(''grant_type'', ''client_credentials'')] = Some res"
  shows "sp_read_artist (spotify_of_service service clock_secs (Some t)) ''../me'' =
    (case ask service ''https://api.spotify.com/v1/artists/../me'' (Some (''Bearer '' @ ar_access_token res)) of
       Inl e \<Rightarrow> Inl e
     | Inr v \<Rightarrow> if get_key v ''error'' \<noteq> None then Inl (spotify_error v) else Inr (Some (artist_read v)))"
  using assms by (simp add: spotify_of_service_def with_client_def connect_def spotify_read_artist_def)

text \<open>An answer without a list of artists makes the search panic.\<close>

lemma search_panics:
  assumes "post_token service spotify_url_auth (''Basic '' @ t) [(''grant_type'', ''client_credentials'')] = Some res"
    and "\<And>url h. ask service url h = Inr (Object [])"
  shows "sp_search (spotify_of_service service clock_secs (Some t)) q = Inl HandlerPanicked"
  using assms by (simp add: spotify_of_service_def with_client_def connect_def spotify_search_def at_key_def)

lemma image_is_listed:
  assumes "get_image_from_artist images lo hi = Some url"
  shows "\<exists>urls. image_urls images = Some urls \<and> url \<in> set urls"
proof -
  from assms obtain vs where vs: "as_array images = Some vs"
    by (auto simp: get_image_from_artist_def split: option.splits)
  have "\<exists>v\<in>set vs. as_str (at_key v ''url'') = Some url"
    using assms vs by (auto simp: get_image_from_artist_def first_wide_def first_narrow_def bind_eq_Some_conv
        split: option.splits dest!: find_SomeD)
  then show ?thesis
    using vs by (force simp: image_urls_def List.map_filter_def)
qed

end
