(* ===== verification/Monitor.thy ===== *)
theory Monitor imports Domain_Actions begin

text \<open>
  The endless loop of the monitor (\<open>run_actions\<close> of \<open>api/src/domain_events/domain_action_monitor.rs\<close>) and the
  futures it has started, as a step relation: the futures run beside the loop, in any order, and beside the
  other users of the database. A future is dropped when it has not come to its end after 55 seconds. The keys of
  the queue are those its primary key allows: a step that draws one a second time is left out.
\<close>

section \<open>The loop and its futures\<close>

record monitor =
  mon_db :: db
  mon_running :: "(domain_action \<times> executor) list"
  mon_end :: "(domain_action_error + unit) option"

definition monitor_start :: "db \<Rightarrow> monitor" where
  "monitor_start s = \<lparr>mon_db = s, mon_running = [], mon_end = None\<rparr>"

text \<open>One pass of the loop; \<open>message\<close> says that the one to stop has arrived. Every future that runs keeps its
  connection. When nothing was found the loop sleeps, which changes nothing.\<close>

definition run_actions_pass ::
  "(domain_action_types \<rightharpoonup> executor) \<Rightarrow> nat \<Rightarrow> nat \<Rightarrow> bool \<Rightarrow> monitor \<Rightarrow> monitor" where
  "run_actions_pass router pool limit message m =
     (if message then m\<lparr>mon_end := Some (Inr ())\<rparr>
      else case find_actions router (pool - length (mon_running m)) limit (mon_db m) of
          (Inl e, t) \<Rightarrow> m\<lparr>mon_db := t, mon_end := Some (Inl e)\<rparr>
        | (Inr futures, t) \<Rightarrow> m\<lparr>mon_db := t, mon_running := mon_running m @ futures\<rparr>)"

text \<open>\<open>stop\<close> sends the message and joins the thread; \<open>unwrap\<close> panics when the thread is gone, and its end of the
  channel with it. The panic is \<open>None\<close>.\<close>

definition monitor_stop :: "monitor \<Rightarrow> monitor option" where
  "monitor_stop m = (if mon_end m = None then Some (m\<lparr>mon_end := Some (Inr ())\<rparr>) else None)"

inductive monitor_step ::
  "(domain_action_types \<rightharpoonup> executor) \<Rightarrow> nat \<Rightarrow> nat \<Rightarrow> monitor \<Rightarrow> monitor \<Rightarrow> bool" for router pool limit
where
  pass: "mon_end m = None \<Longrightarrow> monitor_step router pool limit m (run_actions_pass router pool limit message m)"
| settled: "mon_running m = fs @ f # gs \<Longrightarrow>
    distinct (map da_id (db_domain_actions (snd (poll_future f (mon_db m))))) \<Longrightarrow>
    monitor_step router pool limit m (m\<lparr>mon_db := snd (poll_future f (mon_db m)), mon_running := fs @ gs\<rparr>)"
| expired: "mon_running m = fs @ f # gs \<Longrightarrow>
    monitor_step router pool limit m (m\<lparr>mon_running := fs @ gs\<rparr>)"
| elsewhere: "db_domain_actions s = db_domain_actions (mon_db m) @ new_actions \<Longrightarrow>
    da_id ` set new_actions \<inter> da_id ` set (db_domain_actions (mon_db m)) = {} \<Longrightarrow>
    monitor_step router pool limit m (m\<lparr>mon_db := s\<rparr>)"

section \<open>What becomes of an action\<close>

text \<open>\<open>fits r0 r\<close>: what a row of the queue may have become; \<open>mine rs a\<close>: a copy of an action that was due.\<close>

definition fits_row :: "domain_action \<Rightarrow> domain_action \<Rightarrow> bool" where
  "fits_row r0 r \<longleftrightarrow> da_max_attempt_count r = da_max_attempt_count r0 \<and>
     da_attempt_count r \<le> max (da_attempt_count r0) (da_max_attempt_count r0) \<and>
     (da_status r0 \<noteq> domain_action_status.Pending \<longrightarrow> r = r0)"

definition bounded :: "domain_action list \<Rightarrow> db \<Rightarrow> bool" where
  "bounded rs s \<longleftrightarrow> da_id ` set rs \<subseteq> da_id ` set (db_domain_actions s) \<and>
     (\<forall>r \<in> set (db_domain_actions s). \<forall>r0 \<in> set rs. da_id r = da_id r0 \<longrightarrow> fits_row r0 r)"

definition was_due :: "domain_action list \<Rightarrow> domain_action \<Rightarrow> bool" where
  "was_due rs a \<longleftrightarrow> da_attempt_count a < da_max_attempt_count a \<and>
     (\<forall>r0 \<in> set rs. da_id r0 = da_id a \<longrightarrow>
        da_status r0 = domain_action_status.Pending \<and> da_max_attempt_count r0 = da_max_attempt_count a)"

lemma fits_row_refl: "r0 = r \<Longrightarrow> fits_row r0 r"
  by (simp add: fits_row_def)

lemma pending_was_due: "bounded rs s \<Longrightarrow> a \<in> set (db_domain_actions s) \<Longrightarrow> pending_action n a \<Longrightarrow> was_due rs a"
  by (fastforce simp: bounded_def was_due_def pending_action_def fits_row_def)

lemma bounded_update:
  assumes "bounded rs s" and "was_due rs a" and "\<And>r. P r \<Longrightarrow> da_id r = da_id a"
    and "\<And>r. da_id (f r) = da_id r \<and> da_max_attempt_count (f r) = da_max_attempt_count r \<and>
      (da_attempt_count (f r) = da_attempt_count r \<or> da_attempt_count (f r) = da_attempt_count a + 1)"
  shows "bounded rs (s\<lparr>db_domain_actions := update_where P f (db_domain_actions s)\<rparr>)"
proof -
  let ?g = "\<lambda>r. if P r then f r else r"
  have "fits_row r0 (?g r)" if "r \<in> set (db_domain_actions s)" "r0 \<in> set rs" "da_id (?g r) = da_id r0" for r r0
  proof -
    have "da_id r = da_id r0" using that(3) assms(4) [of r] by (simp split: if_splits)
    then have fits: "fits_row r0 r" using assms(1) that by (simp add: bounded_def)
    show ?thesis
    proof (cases "P r")
      case True
      then have "da_status r0 = domain_action_status.Pending" "da_max_attempt_count r0 = da_max_attempt_count a"
        "da_attempt_count a < da_max_attempt_count a"
        using assms(2, 3) that(2) \<open>da_id r = da_id r0\<close> by (auto simp: was_due_def)
      then show ?thesis using fits assms(4) [of r] True by (auto simp: fits_row_def)
    qed (use fits in simp)
  qed
  moreover have "da_id ` set rs \<subseteq> da_id ` ?g ` set (db_domain_actions s)"
  proof -
    have "da_id ` ?g ` set (db_domain_actions s) = da_id ` set (db_domain_actions s)"
      unfolding image_image using assms(4) by (intro image_cong) simp_all
    then show ?thesis using assms(1) by (simp add: bounded_def)
  qed
  moreover have rows: "set (db_domain_actions (s\<lparr>db_domain_actions := update_where P f (db_domain_actions s)\<rparr>)) =
      ?g ` set (db_domain_actions s)"
    by (simp add: update_where_def)
  ultimately show ?thesis
    unfolding bounded_def rows by blast
qed

lemma bounded_frame: "bounded rs s \<Longrightarrow> db_domain_actions t = db_domain_actions s \<Longrightarrow> bounded rs t"
  by (simp add: bounded_def)

lemma bounded_appended:
  assumes "bounded rs s" and "db_domain_actions t = db_domain_actions s @ new_actions"
    and "da_id ` set new_actions \<inter> da_id ` set (db_domain_actions s) = {}"
  shows "bounded rs t"
proof -
  have "fits_row r0 r" if "r \<in> set new_actions" "r0 \<in> set rs" "da_id r = da_id r0" for r r0
  proof -
    have "da_id r0 \<in> da_id ` set (db_domain_actions s)" using assms(1) that(2) by (auto simp: bounded_def)
    then show ?thesis using assms(3) that(1, 3) by (metis IntI empty_iff imageI)
  qed
  then show ?thesis using assms(1) by (auto simp: bounded_def assms(2))
qed

section \<open>Every operation on an action that was due keeps the bounds\<close>

lemma bounded_done: "was_due rs a \<Longrightarrow> keeps (bounded rs) (set_done a)"
  by (rule keepsI) (auto simp: set_done_def intro: bounded_update)

lemma bounded_failed: "was_due rs a \<Longrightarrow> keeps (bounded rs) (set_failed a reason)"
  by (rule keepsI) (auto simp: set_failed_def intro: bounded_update)

lemma bounded_errored: "was_due rs a \<Longrightarrow> keeps (bounded rs) (set_errored a reason)"
  by (rule keepsI) (auto simp: set_errored_def intro: bounded_update)

lemma bounded_busy:
  assumes "was_due rs a"
  shows "keeps (bounded rs) (set_busy a k)"
proof -
  have "keeps (bounded rs) (busy_check a)"
    by (rule keepsI) (simp add: busy_check_run split: option.split)
  moreover have "keeps (bounded rs) (busy_claim a timeout)" for timeout
    by (rule keepsI) (auto simp: busy_claim_snd intro: bounded_update [OF _ assms])
  ultimately show ?thesis unfolding set_busy_def Let_def by (intro keeps_control)
qed

lemma keeps_caused_by: "keeps I m \<Longrightarrow> keeps I (caused_by m)"
  by (simp add: keeps_def caused_by_snd)

lemma bounded_take: "\<forall>a \<in> set actions. was_due rs a \<Longrightarrow> keeps (bounded rs) (take_actions router c l i actions result)"
proof (induction router c l i actions result rule: take_actions.induct)
  case (2 router c l i action actions result)
  then show ?case
    by (auto split: sum.split option.split
        intro!: keeps_control keeps_caused_by bounded_busy bounded_errored)
qed (simp add: keeps_ret)

lemma bounded_find:
  assumes "bounded rs s"
  shows "bounded rs (snd (find_actions router c l s))"
proof -
  let ?pending = "filter (pending_action (now s)) (db_domain_actions s)"
  have "\<forall>a \<in> set ?pending. was_due rs a" using pending_was_due [OF assms] by auto
  from keepsD [OF bounded_take [OF this] assms] show ?thesis
    using assms by (simp add: find_actions_def caused_by_def find_pending_def bindo_run ret_run fail_run)
qed

text \<open>An executor that succeeds may have put new actions into the queue, and has left the others alone; what one
  that fails has done is rolled back.\<close>

definition extends_queue :: "executor \<Rightarrow> bool" where
  "extends_queue x \<longleftrightarrow>
     (\<forall>a s t. x a s = (None, t) \<longrightarrow> (\<exists>new_actions. db_domain_actions t = db_domain_actions s @ new_actions))"

lemma set_done_keys: "map da_id (db_domain_actions (snd (set_done a s))) = map da_id (db_domain_actions s)"
  by (simp add: set_done_def bindo_run update_where_def)

lemma caused_by_then: "snd (bindo (caused_by m) (\<lambda>_. ret y) s) = snd (m s)"
  by (simp add: bindo_run ret_run caused_by_def split: prod.split sum.split)

lemma bounded_poll:
  assumes "bounded rs s" and "was_due rs a" and "extends_queue x"
    and keys: "distinct (map da_id (db_domain_actions (snd (poll_future (a, x) s))))"
  shows "bounded rs (snd (poll_future (a, x) s))"
proof (cases "x a s")
  case (Pair e v)
  show ?thesis
  proof (cases e)
    case None
    obtain new_actions where v: "db_domain_actions v = db_domain_actions s @ new_actions"
      using assms(3) Pair None unfolding extends_queue_def by blast
    have u: "snd (poll_future (a, x) s) = snd (set_done a v)"
      using Pair None by (simp add: poll_future_def caused_by_then)
    from keys have "distinct (map da_id (db_domain_actions v))" unfolding u set_done_keys .
    then have "bounded rs v" by (intro bounded_appended [OF assms(1) v]) (auto simp: v)
    then show ?thesis using keepsD [OF bounded_done [OF assms(2)]] unfolding u by blast
  next
    case (Some reason)
    have "snd (poll_future (a, x) s) = snd (set_failed a reason s)"
      using Pair Some by (simp add: poll_future_def caused_by_then)
    then show ?thesis using keepsD [OF bounded_failed [OF assms(2)] assms(1)] by simp
  qed
qed

section \<open>The invariant of the monitor\<close>

definition monitor_invariant ::
  "(domain_action_types \<rightharpoonup> executor) \<Rightarrow> domain_action list \<Rightarrow> monitor \<Rightarrow> bool" where
  "monitor_invariant router rs m \<longleftrightarrow> bounded rs (mon_db m) \<and>
     (\<forall>(a, x) \<in> set (mon_running m). was_due rs a \<and> router (da_domain_action_type a) = Some x)"

lemma pass_invariant:
  assumes "monitor_invariant router rs m"
  shows "monitor_invariant router rs (run_actions_pass router pool limit message m)"
proof (cases "find_actions router (pool - length (mon_running m)) limit (mon_db m)")
  case (Pair r t)
  then have "bounded rs t"
    using bounded_find [of rs "mon_db m" router "pool - length (mon_running m)" limit] assms
    by (simp add: monitor_invariant_def)
  moreover have "was_due rs a \<and> router (da_domain_action_type a) = Some x" if "r = Inr fs" "(a, x) \<in> set fs" for fs a x
  proof -
    have found: "fst ` set fs \<subseteq> set (filter (pending_action (now (mon_db m))) (db_domain_actions (mon_db m)))"
      "\<forall>(a, x) \<in> set fs. router (da_domain_action_type a) = Some x"
      using find_actions_Inr Pair that(1) by blast+
    then have "a \<in> set (db_domain_actions (mon_db m))" "pending_action (now (mon_db m)) a"
      using that(2) by force+
    then show ?thesis
      using pending_was_due assms found(2) that(2) unfolding monitor_invariant_def by blast
  qed
  ultimately show ?thesis
    using assms Pair by (auto simp: run_actions_pass_def monitor_invariant_def split: sum.split)
qed

lemma monitor_step_invariant:
  assumes "monitor_step router pool limit m m'" and "monitor_invariant router rs m"
    and "\<forall>ty x. router ty = Some x \<longrightarrow> extends_queue x"
  shows "monitor_invariant router rs m'"
  using assms
proof cases
  case (pass message)
  then show ?thesis using pass_invariant assms(2) by simp
next
  case (settled fs f gs)
  obtain a x where f: "f = (a, x)" by (cases f)
  then show ?thesis using assms(2, 3) settled bounded_poll [of rs "mon_db m" a x]
    by (auto simp: monitor_invariant_def)
next
  case (expired fs f gs)
  then show ?thesis using assms(2) by (auto simp: monitor_invariant_def)
next
  case (elsewhere s new_actions)
  then show ?thesis using assms(2) bounded_appended by (auto simp: monitor_invariant_def)
qed

lemma monitor_reachable:
  assumes "(monitor_step router pool limit)\<^sup>*\<^sup>* m m'" and "monitor_invariant router rs m"
    and "\<forall>ty x. router ty = Some x \<longrightarrow> extends_queue x"
  shows "monitor_invariant router rs m'"
  using assms(1, 2) by (induction rule: rtranclp_induct) (auto intro: monitor_step_invariant [OF _ _ assms(3)])

lemma recorded_attempts:
  assumes "(monitor_step router pool limit)\<^sup>*\<^sup>* (monitor_start s) m"
    and "\<forall>ty x. router ty = Some x \<longrightarrow> extends_queue x"
    and "distinct (map da_id (db_domain_actions s))" and "r0 \<in> set (db_domain_actions s)"
    and "r \<in> set (db_domain_actions (mon_db m))" and "da_id r = da_id r0"
  shows "fits_row r0 r"
proof -
  have "bounded (db_domain_actions s) s"
    using same_row [OF assms(3)] by (auto simp: bounded_def intro!: fits_row_refl)
  then have "monitor_invariant router (db_domain_actions s) (monitor_start s)"
    by (simp add: monitor_invariant_def monitor_start_def)
  from monitor_reachable [OF assms(1) this assms(2)] assms(4-6) show ?thesis
    by (simp add: monitor_invariant_def bounded_def)
qed

section \<open>Examples\<close>

text \<open>A monitor that ended by itself cannot be stopped.\<close>

lemma stop_after_error_panics:
  "find_actions router pool limit s = (Inl e, t) \<Longrightarrow>
     monitor_stop (run_actions_pass router pool limit False (monitor_start s)) = None"
  by (simp add: run_actions_pass_def monitor_start_def monitor_stop_def)

text \<open>Dropping a future counts no attempt: the action is found again as soon as its claim has run out.\<close>

definition hanging_queue :: db where
  "hanging_queue = blank_db\<lparr>db_domain_actions := [action_row (action_create None domain_action_types.Communication
     None ''{}'' ''Orders'' 7 500 (seconds 3600) 3) 80 900]\<rparr>"

definition sample_later :: "(domain_action_types \<Rightarrow> executor) \<Rightarrow> monitor" where
  "sample_later f = (let m = run_actions_pass (\<lambda>ty. Some (f ty)) 5 2 False (monitor_start hanging_queue) in
     m\<lparr>mon_running := [], mon_db := (mon_db m)\<lparr>now := now (mon_db m) + seconds 61, utc_now := utc_now (mon_db m) + seconds 61\<rparr>\<rparr>)"

lemma sample_later_reached:
  "(monitor_step (\<lambda>ty. Some (f ty)) 5 2)\<^sup>*\<^sup>* (monitor_start hanging_queue) (sample_later f)"
proof -
  let ?m = "run_actions_pass (\<lambda>ty. Some (f ty)) 5 2 False (monitor_start hanging_queue)"
  have "length (mon_running ?m) = 1" by code_simp
  then obtain g where running: "mon_running ?m = [] @ g # []" by (auto simp: length_Suc_conv)
  have "monitor_step (\<lambda>ty. Some (f ty)) 5 2 (monitor_start hanging_queue) ?m"
    by (rule monitor_step.pass) (simp add: monitor_start_def)
  moreover from running have "monitor_step (\<lambda>ty. Some (f ty)) 5 2 ?m (?m\<lparr>mon_running := []\<rparr>)"
    using monitor_step.expired [of ?m "[]" _ "[]"] by auto
  moreover have "monitor_step (\<lambda>ty. Some (f ty)) 5 2 (?m\<lparr>mon_running := []\<rparr>) (sample_later f)"
    unfolding sample_later_def Let_def
    using monitor_step.elsewhere [of "(mon_db ?m)\<lparr>now := now (mon_db ?m) + seconds 61, utc_now := utc_now (mon_db ?m) + seconds 61\<rparr>"
        "?m\<lparr>mon_running := []\<rparr>" "[]"] by simp
  ultimately show ?thesis
    by (meson converse_rtranclp_into_rtranclp rtranclp.rtrancl_refl)
qed

lemma expired_attempt_not_counted:
  "map da_attempt_count (db_domain_actions (mon_db (sample_later f))) = [0] \<and>
   length (mon_running (run_actions_pass (\<lambda>ty. Some (f ty)) 5 2 False (sample_later f))) = 1"
  by code_simp

lemma sample_later_key: "map da_id (db_domain_actions (mon_db (sample_later f))) = [80]"
  by code_simp

end
