(* ===== verification/Executors.thy ===== *)
theory Executors imports Marketing Monitor begin

text \<open>
  The executors of the server (\<open>api/src/domain_events/routing.rs\<close> and the executors it sets up) in the run of the
  monitor until the queue is empty: what they put into the queue, and that the run comes to an end.
\<close>

section \<open>What is due\<close>

text \<open>Creating the list of an event puts its import into the queue, due at once; an import puts the next one
  there, due twelve hours later. So an action to create a list counts twice.\<close>

definition burden :: "domain_action \<Rightarrow> nat" where
  "burden a = (if da_domain_action_type a = domain_action_types.MarketingContactsCreateEventList then 2 else 1)"

definition due_until :: "timestamp \<Rightarrow> domain_action \<Rightarrow> bool" where
  "due_until n a \<longleftrightarrow> da_status a = domain_action_status.Pending \<and> da_scheduled_at a \<le> n"

definition load :: "timestamp \<Rightarrow> domain_action list \<Rightarrow> nat" where
  "load n rows = sum_list (map burden (filter (due_until n) rows))"

lemma load_simps [simp]:
  "load n [] = 0"
  "load n (a # rows) = (if due_until n a then burden a else 0) + load n rows"
  "load n (rows @ rows') = load n rows + load n rows'"
  by (simp_all add: load_def)

lemma settled_burden: "settled_row a b \<Longrightarrow> due_until n b \<Longrightarrow> due_until n a \<and> burden b = burden a"
  by (auto simp: settled_row_def due_until_def burden_def)

lemma load_settled: "list_all2 settled_row xs ys \<Longrightarrow> load n ys \<le> load n xs"
  by (induction rule: list_all2_induct) (auto dest: settled_burden)

lemma settled_rows_refl: "list_all2 settled_row xs xs"
  by (simp add: list.rel_refl settled_row_refl)

lemma settled_rows_trans: "list_all2 settled_row xs ys \<Longrightarrow> list_all2 settled_row ys zs \<Longrightarrow> list_all2 settled_row xs zs"
  by (rule list_all2_trans [OF settled_row_trans])

text \<open>Rows that are settled for good count no more.\<close>

lemma load_settled_without:
  assumes "list_all2 settled_row xs ys" and "\<And>y. y \<in> set ys \<Longrightarrow> da_id y \<in> I \<Longrightarrow> \<not> due_until n y"
  shows "load n ys \<le> load n (filter (\<lambda>x. da_id x \<notin> I) xs)"
  using assms
proof (induction rule: list_all2_induct)
  case (Cons x xs y ys)
  have "da_id y = da_id x" using Cons.hyps(1) by (simp add: settled_row_def)
  then show ?case using Cons settled_burden [OF Cons.hyps(1), of n] by auto
qed simp

lemma subseq_load: "subseq xs ys \<Longrightarrow> load n xs \<le> load n ys"
  by (induction rule: list_emb.induct) auto

lemma load_split: "load n rows = load n (filter P rows) + load n (filter (\<lambda>x. \<not> P x) rows)"
  by (induction rows) auto

section \<open>Growing the queue\<close>

definition grows :: "nat \<Rightarrow> db \<Rightarrow> db \<Rightarrow> bool" where
  "grows k s t \<longleftrightarrow> now t = now s \<and> utc_now t = utc_now s \<and>
     (\<exists>old new. db_domain_actions t = old @ new \<and> list_all2 settled_row (db_domain_actions s) old \<and>
        load (now s) new \<le> k)"

lemma growsI:
  assumes "now t = now s" "utc_now t = utc_now s" "db_domain_actions t = old @ new"
    and "list_all2 settled_row (db_domain_actions s) old" "load (now s) new \<le> k"
  shows "grows k s t"
  using assms unfolding grows_def by blast

lemma settles_grows: "settles s t \<Longrightarrow> grows 0 s t"
  unfolding settles_def grows_def by (metis append_Nil2 le_refl load_simps(1))

lemma grows_trans:
  assumes "grows j s t" and "grows k t u"
  shows "grows (j + k) s u"
proof -
  obtain old new where t: "db_domain_actions t = old @ new" "list_all2 settled_row (db_domain_actions s) old"
    "load (now s) new \<le> j" using assms(1) unfolding grows_def by blast
  obtain old' new' where u: "db_domain_actions u = old' @ new'" "list_all2 settled_row (old @ new) old'"
    "load (now s) new' \<le> k" using assms unfolding grows_def t(1) by auto
  then obtain a b where ab: "old' = a @ b" "list_all2 settled_row old a" "list_all2 settled_row new b"
    by (auto simp: list_all2_append1)
  have "list_all2 settled_row (db_domain_actions s) a"
    by (rule settled_rows_trans [OF t(2) ab(2)])
  moreover have "load (now s) (b @ new') \<le> j + k" using load_settled [OF ab(3), of "now s"] t(3) u(3) by simp
  moreover have "now u = now s" "utc_now u = utc_now s" using assms by (simp_all add: grows_def)
  ultimately show ?thesis using growsI [of u s a "b @ new'" "j + k"] u(1) ab(1) by simp
qed

text \<open>What an executor that succeeds may put into the queue, at given times.\<close>

definition spawns :: "nat \<Rightarrow> timestamp \<Rightarrow> timestamp \<Rightarrow> executor \<Rightarrow> bool" where
  "spawns k n u x \<longleftrightarrow> (\<forall>a s t. x a s = (None, t) \<and> now s = n \<and> utc_now s = u \<longrightarrow>
     now t = n \<and> utc_now t = u \<and> (\<exists>new. db_domain_actions t = db_domain_actions s @ new \<and> load n new \<le> k))"

lemma poll_grows:
  assumes "poll_future (a, x) s = (Inr (Inr ()), t)" and "spawns k (now s) (utc_now s) x"
  shows "grows k s t \<and> (\<forall>b \<in> set (db_domain_actions t). da_id b = da_id a \<longrightarrow>
    da_status b = domain_action_status.Success)"
proof -
  obtain v where run: "x a s = (None, v)" and t: "t = snd (set_done a v)"
    using assms(1)
    by (auto simp: poll_future_def bindo_run ret_run caused_by_def split: prod.splits option.splits sum.splits)
  obtain new where v: "now v = now s" "utc_now v = utc_now s" "db_domain_actions v = db_domain_actions s @ new"
    "load (now s) new \<le> k" using assms(2) run unfolding spawns_def by blast
  then have "grows k s v" unfolding grows_def using settled_rows_refl by blast
  moreover have "grows 0 v t" using settles_grows stepsD [OF settles_done] unfolding t by blast
  ultimately have "grows k s t" using grows_trans by fastforce
  then show ?thesis by (auto simp: t set_done_def set_update_where)
qed

abbreviation rank :: "domain_action \<Rightarrow> nat" where
  "rank a \<equiv> burden a - 1"

lemma run_grows:
  assumes "fst (run_futures fs s)" and "\<forall>(a, x) \<in> set fs. spawns (rank a) (now s) (utc_now s) x"
  shows "grows (\<Sum>(a, x)\<leftarrow>fs. rank a) s (snd (run_futures fs s)) \<and>
    (\<exists>old new. db_domain_actions (snd (run_futures fs s)) = old @ new \<and>
       list_all2 settled_row (db_domain_actions s) old \<and> load (now s) new \<le> (\<Sum>(a, x)\<leftarrow>fs. rank a) \<and>
       (\<forall>b \<in> set old. da_id b \<in> da_id ` fst ` set fs \<longrightarrow> da_status b \<noteq> domain_action_status.Pending))"
  using assms
proof (induction fs arbitrary: s)
  case Nil
  have "grows 0 s s" using growsI [of s s "db_domain_actions s" "[]" 0] settled_rows_refl by simp
  moreover have "\<exists>old new. db_domain_actions s = old @ new \<and> list_all2 settled_row (db_domain_actions s) old \<and>
      load (now s) new \<le> 0" by (intro exI [of _ "db_domain_actions s"] exI [of _ "[]"]) (simp add: settled_rows_refl)
  ultimately show ?case by simp
next
  case (Cons f fs)
  obtain a x where f: "f = (a, x)" by (cases f)
  from Cons.prems f obtain t where poll: "poll_future (a, x) s = (Inr (Inr ()), t)" and ok: "fst (run_futures fs t)"
    and u: "snd (run_futures (f # fs) s) = snd (run_futures fs t)"
    by (auto split: prod.splits sum.splits)
  from poll_grows [OF poll] Cons.prems(2) f have one: "grows (rank a) s t"
    "\<forall>b \<in> set (db_domain_actions t). da_id b = da_id a \<longrightarrow> da_status b = domain_action_status.Success" by auto
  then have clocks: "now t = now s" "utc_now t = utc_now s" by (simp_all add: grows_def)
  then have "\<forall>(a, x) \<in> set fs. spawns (rank a) (now t) (utc_now t) x" using Cons.prems(2) by simp
  from Cons.IH [OF ok this] have rest: "grows (\<Sum>(a, x)\<leftarrow>fs. rank a) t (snd (run_futures fs t))"
    and "\<exists>old new. db_domain_actions (snd (run_futures fs t)) = old @ new \<and>
       list_all2 settled_row (db_domain_actions t) old \<and> load (now t) new \<le> (\<Sum>(a, x)\<leftarrow>fs. rank a) \<and>
       (\<forall>b \<in> set old. da_id b \<in> da_id ` fst ` set fs \<longrightarrow> da_status b \<noteq> domain_action_status.Pending)" by simp_all
  then obtain old' new' where later: "db_domain_actions (snd (run_futures fs t)) = old' @ new'"
    "list_all2 settled_row (db_domain_actions t) old'" "load (now s) new' \<le> (\<Sum>(a, x)\<leftarrow>fs. rank a)"
    "\<forall>b \<in> set old'. da_id b \<in> da_id ` fst ` set fs \<longrightarrow> da_status b \<noteq> domain_action_status.Pending"
    using clocks by auto
  obtain old new where first: "db_domain_actions t = old @ new" "list_all2 settled_row (db_domain_actions s) old"
    "load (now s) new \<le> rank a" using one(1) unfolding grows_def by blast
  from later(2) obtain p q where pq: "old' = p @ q" "list_all2 settled_row old p" "list_all2 settled_row new q"
    unfolding first(1) by (auto simp: list_all2_append1)
  have "list_all2 settled_row (db_domain_actions s) p"
    by (rule settled_rows_trans [OF first(2) pq(2)])
  moreover have "load (now s) (q @ new') \<le> (\<Sum>(a, x)\<leftarrow>f # fs. rank a)"
    using load_settled [OF pq(3), of "now s"] first(3) later(3) f by simp
  moreover have "da_status b \<noteq> domain_action_status.Pending"
    if b: "b \<in> set p" "da_id b \<in> da_id ` fst ` set (f # fs)" for b
  proof (cases "da_id b = da_id a")
    case True
    obtain c where "c \<in> set old" "settled_row c b" using list_all2_right [OF pq(2) b(1)] by blast
    then show ?thesis using one(2) True first(1) by (auto simp: settled_row_def)
  next
    case False
    then show ?thesis using later(4) b pq(1) f by auto
  qed
  ultimately show ?case
    using grows_trans [OF one(1) rest] later(1) pq(1) u f
    by (intro conjI exI [of _ p] exI [of _ "q @ new'"]) simp_all
qed

section \<open>The run ends\<close>

lemma run_til_empty_terminates:
  assumes "\<forall>ty x. router ty = Some x \<longrightarrow>
    spawns (if ty = domain_action_types.MarketingContactsCreateEventList then 1 else 0) (now s) (utc_now s) x"
  shows "\<exists>r t. run_til_empty router connections limit s = Some (r, t)"
  using assms
proof (induction "load (now s) (db_domain_actions s)" arbitrary: s rule: less_induct)
  case less
  obtain r t where find: "find_actions router connections limit s = (r, t)" by fastforce
  show ?case
  proof (cases r)
    case (Inl e)
    then show ?thesis using find by (simp add: run_til_empty.simps)
  next
    case (Inr fs)
    let ?pending = "filter (pending_action (now s)) (db_domain_actions s)"
    from find_actions_Inr [of router connections limit s fs t] find Inr
    have inside: "fst ` set fs \<subseteq> set ?pending" and found: "settles s t" "subseq (map fst fs) ?pending" "\<forall>(a, x) \<in> set fs. router (da_domain_action_type a) = Some x"
      by simp_all
    have clocks: "now t = now s" "utc_now t = utc_now s" using found(1) by (simp_all add: settles_def)
    let ?u = "snd (run_futures fs t)" and ?I = "da_id ` fst ` set fs"
    show ?thesis
    proof (cases "fs = [] \<or> \<not> fst (run_futures fs t)")
      case True
      then show ?thesis using find Inr by (subst run_til_empty.simps) auto
    next
      case False
      have "\<forall>(a, x) \<in> set fs. spawns (rank a) (now t) (utc_now t) x"
        using found(3) less.prems clocks by (fastforce simp: burden_def split: if_splits)
      from run_grows [OF _ this] False obtain old new where u: "db_domain_actions ?u = old @ new"
        "list_all2 settled_row (db_domain_actions t) old" "load (now s) new \<le> (\<Sum>(a, x)\<leftarrow>fs. rank a)"
        "\<forall>b \<in> set old. da_id b \<in> ?I \<longrightarrow> da_status b \<noteq> domain_action_status.Pending"
        and after: "now ?u = now s" "utc_now ?u = utc_now s"
        using clocks by (auto simp: grows_def)
      have "list_all2 settled_row (db_domain_actions s) old"
        using found(1) settled_rows_trans [OF _ u(2)] by (simp add: settles_def)
      from load_settled_without [OF this, of ?I "now s"] u(4)
      have rest: "load (now s) old \<le> load (now s) (filter (\<lambda>x. da_id x \<notin> ?I) (db_domain_actions s))"
        by (auto simp: due_until_def)
      have "subseq (filter (\<lambda>x. da_id x \<in> ?I) (map fst fs)) (filter (\<lambda>x. da_id x \<in> ?I) ?pending)"
        using found(2) by (rule subseq_filter)
      moreover have "filter (\<lambda>x. da_id x \<in> ?I) (map fst fs) = map fst fs" by (auto simp: filter_id_conv)
      ultimately have "load (now s) (map fst fs) \<le> load (now s) (filter (\<lambda>x. da_id x \<in> ?I) ?pending)"
        using subseq_load by simp
      also have "\<dots> \<le> load (now s) (filter (\<lambda>x. da_id x \<in> ?I) (db_domain_actions s))"
        by (intro subseq_load subseq_filter subseq_filter_left)
      finally have found_load: "load (now s) (map fst fs) \<le> load (now s) (filter (\<lambda>x. da_id x \<in> ?I) (db_domain_actions s))" .
      have due: "\<forall>a \<in> set (map fst fs). due_until (now s) a"
      proof
        fix a assume "a \<in> set (map fst fs)"
        then have "a \<in> set ?pending" using inside by auto
        then show "due_until (now s) a" by (simp add: pending_action_def due_until_def)
      qed
      then have weights: "load (now s) (map fst fs) = (\<Sum>(a, x)\<leftarrow>fs. burden a)"
        by (induction fs) auto
      have ranks: "(\<Sum>(a, x)\<leftarrow>gs. burden a) = length gs + (\<Sum>(a, x)\<leftarrow>gs. rank a)"
        for gs :: "(domain_action \<times> executor) list"
        by (induction gs) (auto simp: burden_def)
      have "load (now s) (db_domain_actions ?u) = load (now s) old + load (now s) new" by (simp add: u(1))
      moreover have "0 < length fs" using False by simp
      ultimately have "load (now s) (db_domain_actions ?u) < load (now s) (db_domain_actions s)"
        using u(3) rest found_load weights ranks [of fs]
          load_split [of "now s" "db_domain_actions s" "\<lambda>x. da_id x \<in> ?I"] by linarith
      then have "\<exists>r v. run_til_empty router connections limit ?u = Some (r, v)"
        using less.hyps [of ?u] less.prems after by simp
      then show ?thesis using find Inr False by (subst run_til_empty.simps) auto
    qed
  qed
qed

section \<open>The executors of the server\<close>

definition quiet :: "session \<Rightarrow> session \<Rightarrow> bool" where
  "quiet w v \<longleftrightarrow> now (ss_db v) = now (ss_db w) \<and> utc_now (ss_db v) = utc_now (ss_db w) \<and>
     db_domain_actions (ss_db v) = db_domain_actions (ss_db w)"

interpretation quiet_steps: step_relation quiet
  by unfold_locales (auto simp: quiet_def)

lemma quiet_on_db:
  assumes "steps (writes W) m" and "DomainActionsT \<notin> W"
  shows "steps quiet (on_db m)"
proof (rule stepsI)
  fix w :: session
  have s: "writes W (ss_db w) (snd (m (ss_db w)))" using assms(1) by (rule stepsD)
  show "quiet w (snd (on_db m w))"
    using writes_environment [OF s] writes_same [OF s assms(2)]
    by (simp add: quiet_def on_db_run split: sum.split)
qed

lemma writes_event_update: "steps (writes {EventsT}) (event_update vu e attrs)"
  unfolding event_update_def Let_def by (auto intro!: footprints split: option.split)

lemma quiet_lift: "steps quiet (lift_result r)"
  by (rule stepsI) (simp add: lift_result_run quiet_def)

lemma quiet_reads:
  "steps quiet (on_db (event_find i))" "steps quiet (on_db (event_organization ev))" "steps quiet (on_db (gets f))"
  "steps quiet (on_db (event_search_fans ev q page l f' d))" "steps quiet (on_db (has_pending_action ty tb j))"
  by (rule stepsI, auto simp: quiet_def on_db_run fans_only_read event_find_def event_organization_def
    organization_find_def first_where_run has_pending_action_def split: sum.split option.split)+

lemma quiet_key: "steps quiet (contacts_key sur cfg ev)"
  unfolding contacts_key_def decrypted_def by (intro quiet_steps.steps_control quiet_reads quiet_lift)

text \<open>What is queued by an executor that succeeds: at most one import, and when.\<close>

definition queues_import :: "(timestamp \<Rightarrow> timestamp) \<Rightarrow> session \<Rightarrow> session \<Rightarrow> bool" where
  "queues_import when' w v \<longleftrightarrow> now (ss_db v) = now (ss_db w) \<and> utc_now (ss_db v) = utc_now (ss_db w) \<and>
     (\<exists>new. db_domain_actions (ss_db v) = db_domain_actions (ss_db w) @ new \<and>
        (new = [] \<or> (\<exists>r. new = [r] \<and> da_domain_action_type r = domain_action_types.MarketingContactsBulkEventFanListImport \<and>
           da_scheduled_at r = when' (utc_now (ss_db w)))))"

lemma quiet_queues: "quiet w v \<Longrightarrow> queues_import f v u \<Longrightarrow> queues_import f w u"
  by (simp add: quiet_def queues_import_def)

lemma queues_nothing: "queues_import f w w"
  by (simp add: queues_import_def)

lemma enqueued_import:
  assumes "import_enqueue_scheduled c p (f (utc_now (ss_db w))) w = (Inr r, v)"
  shows "queues_import f w v"
proof -
  have "now (ss_db v) = now (ss_db w)" "utc_now (ss_db v) = utc_now (ss_db w)"
    using assms by (auto simp: import_enqueue_scheduled_def enqueue_scheduled_def on_db_run action_commit_def
      bindo_run draw_uuid_run insert_checked_run split: sum.splits option.splits)
  then show ?thesis
    using enqueue_scheduled_Inr [OF assms [unfolded import_enqueue_scheduled_def]]
    by (auto simp: queues_import_def action_row_def action_create_def)
qed

definition queues_op :: "(timestamp \<Rightarrow> timestamp) \<Rightarrow> 'a web \<Rightarrow> bool" where
  "queues_op f m \<longleftrightarrow> (\<forall>w r v. m w = (Inr r, v) \<longrightarrow> queues_import f w v)"

lemma queues_op_quiet: "steps quiet m \<Longrightarrow> queues_op f m"
  unfolding queues_op_def using quiet_queues queues_nothing stepsD_run [of quiet m] by metis

lemma queues_op_bindo: "steps quiet m \<Longrightarrow> (\<And>x. queues_op f (g x)) \<Longrightarrow> queues_op f (bindo m g)"
  unfolding queues_op_def bindo_Inr_iff using quiet_queues stepsD_run [of quiet m] by metis

lemma queues_op_done: "queues_op f m \<Longrightarrow> queues_op f (bindo m (\<lambda>_. ret x))"
  unfolding queues_op_def bindo_Inr_iff by (auto simp: ret_run)

lemma queues_op_enqueue:
  "queues_op f (bindo (on_db (gets utc_now)) (\<lambda>utc. import_enqueue_scheduled c p (f utc)))"
  unfolding queues_op_def by (auto simp: bindo_run on_db_run dest: enqueued_import)

lemma queues_op_branch:
  "queues_op f m \<Longrightarrow> queues_op f m' \<Longrightarrow> queues_op f (if b then m else m')"
  by simp

lemma queues_op_stop: "queues_op f (ret x)" "queues_op f (fail e)"
  by (auto simp: queues_op_def ret_run fail_run queues_nothing)

lemma import_queues: "queues_op (\<lambda>u. u + minutes 720) (bulk_import_job sur cfg a)"
proof -
  have next': "queues_op (\<lambda>u. u + minutes 720) (enqueue_delayed_domain_action sur p)" for p
    using queues_op_enqueue [of "\<lambda>u. u + minutes 720"]
    by (simp add: enqueue_delayed_domain_action_def hours_delay_def)
  show ?thesis
    unfolding bulk_import_job_def
    by (auto split: option.split intro!: queues_op_bindo queues_op_branch queues_op_done queues_op_stop next'
      quiet_reads quiet_key quiet_lift quiet_steps.steps_ret)
qed

lemma create_list_queues: "queues_op (\<lambda>u. u) (create_event_list_job sur cfg a)"
proof -
  have enqueue: "queues_op (\<lambda>u. u) (import_enqueue c p)" for c p
    using queues_op_enqueue [of "\<lambda>u. u"] by (simp add: import_enqueue_def)
  have update: "steps quiet (on_db (event_update vu e attrs))" for vu e attrs
    by (rule quiet_on_db [OF writes_event_update]) simp
  show ?thesis
    unfolding create_event_list_job_def
    by (auto split: option.split intro!: queues_op_bindo queues_op_branch queues_op_done queues_op_stop enqueue update
      quiet_reads quiet_key quiet_lift quiet_steps.steps_control)
qed

lemma communication_queues: "queues_op f (send_communication_job ms twilio parse cfg a)"
  unfolding send_communication_job_def
  by (auto split: option.split intro!: queues_op_quiet quiet_lift queues_op_stop)

lemma executor_spawns:
  assumes "\<And>a. queues_op f (job a)" and "k = 0 \<Longrightarrow> n < f u"
  shows "spawns k n u (executor_of sur job)"
  unfolding spawns_def
proof (intro allI impI, elim conjE)
  fix a s t
  assume run: "executor_of sur job a s = (None, t)" and clocks: "now s = n" "utc_now s = u"
  then obtain v where "job a (untouched s) = (Inr (), v)" "t = ss_db v"
    by (auto simp: executor_of_def split: prod.splits sum.splits)
  with assms(1) have "queues_import f (untouched s) v" unfolding queues_op_def by blast
  then show "now t = n \<and> utc_now t = u \<and> (\<exists>new. db_domain_actions t = db_domain_actions s @ new \<and> load n new \<le> k)"
    using assms(2) clocks \<open>t = ss_db v\<close>
    by (cases k) (auto simp: queues_import_def burden_def due_until_def)
qed

lemma find_executor_spawns:
  assumes "n < u + minutes 720"
  shows "spawns (if ty = domain_action_types.MarketingContactsCreateEventList then 1 else 0) n u
    (find_executor sur ms twilio parse cfg ty)"
  using assms
  by (cases ty) (auto simp: find_executor_def intro: executor_spawns [OF communication_queues [where f = "\<lambda>u. u + minutes 720"]]
    executor_spawns [OF import_queues] executor_spawns [OF create_list_queues])

lemma set_up_router: "set_up_executors f Map.empty = Some (\<lambda>ty. Some (f ty))"
proof -
  have "(\<lambda>ty. Some (f ty)) = [domain_action_types.Communication \<mapsto> f domain_action_types.Communication,
      domain_action_types.MarketingContactsCreateEventList \<mapsto> f domain_action_types.MarketingContactsCreateEventList,
      domain_action_types.MarketingContactsBulkEventFanListImport \<mapsto> f domain_action_types.MarketingContactsBulkEventFanListImport]"
    by (rule ext, case_tac ty) simp_all
  then show ?thesis by (simp add: set_up_executors_def add_executor_def Let_def)
qed


definition sample_import_queue :: db where
  "sample_import_queue = sample_fans\<lparr>db_domain_actions := [action_row (action_create None
     domain_action_types.MarketingContactsBulkEventFanListImport None ''{}'' ''Events'' 3 500 5000 3) 80 900]\<rparr>"

definition silent_mail :: mail_service where
  "silent_mail = \<lparr>ms_post = (\<lambda>_ _. Inl ''offline''), ms_status_error = (\<lambda>_. [])\<rparr>"


section \<open>The attempts on record\<close>

lemma executor_extends: "(\<And>a. queues_op f (job a)) \<Longrightarrow> extends_queue (executor_of sur job)"
  unfolding extends_queue_def queues_op_def queues_import_def
  by (fastforce simp: executor_of_def split: prod.splits sum.splits)

lemma find_executor_extends: "extends_queue (find_executor sur ms twilio parse cfg ty)"
  by (cases ty) (auto simp: find_executor_def intro: executor_extends [OF communication_queues [where f = "\<lambda>u. u"]]
    executor_extends [OF import_queues] executor_extends [OF create_list_queues])

text \<open>C40: however the endless loop of the monitor, with the executors that the server sets up, and its futures
  interleave with the rest of the system, which only adds actions with keys of their own, the attempts on
  record for an action (\<open>attempt_count\<close>) never get above its maximum, or stay what they were where they were
  above it from the start; the maximum never changes, and an action that is settled stays as it is. It is the record
  that is bounded: an attempt that is dropped after 55 seconds is not put on record and is made again.\<close>

theorem recorded_attempts_bounded:
  assumes "set_up_executors (find_executor sur ms twilio parse cfg) Map.empty = Some router"
    and "(monitor_step router pool limit)\<^sup>*\<^sup>* (monitor_start s) m"
    and "distinct (map da_id (db_domain_actions s))" and "r0 \<in> set (db_domain_actions s)"
    and "r \<in> set (db_domain_actions (mon_db m))" and "da_id r = da_id r0"
  shows "da_max_attempt_count r = da_max_attempt_count r0 \<and>
    da_attempt_count r \<le> max (da_attempt_count r0) (da_max_attempt_count r0) \<and>
    (da_status r0 \<noteq> domain_action_status.Pending \<longrightarrow> r = r0)"
proof -
  have "\<forall>ty x. router ty = Some x \<longrightarrow> extends_queue x"
    using assms(1) find_executor_extends by (auto simp: set_up_router)
  from recorded_attempts [OF assms(2) this assms(3-6)] show ?thesis by (simp add: fits_row_def)
qed

abbreviation sample_executors :: "domain_action_types \<Rightarrow> executor" where
  "sample_executors \<equiv> find_executor sample_surroundings silent_mail (\<lambda>_ _ _ _ _. Inr ()) (\<lambda>_. None) sample_config"

theorem recorded_attempts_bounded_witness:
  "\<exists>router r. set_up_executors sample_executors Map.empty = Some router \<and>
     (monitor_step router 5 2)\<^sup>*\<^sup>* (monitor_start hanging_queue) (sample_later sample_executors) \<and>
     db_domain_actions (mon_db (sample_later sample_executors)) = [r] \<and>
     da_max_attempt_count r = 3 \<and> da_attempt_count r \<le> 3"
proof -
  obtain r where r: "db_domain_actions (mon_db (sample_later sample_executors)) = [r]" "da_id r = 80"
    using sample_later_key [of sample_executors] by auto
  have "distinct (map da_id (db_domain_actions hanging_queue))"
    "hd (db_domain_actions hanging_queue) \<in> set (db_domain_actions hanging_queue)"
    "r \<in> set (db_domain_actions (mon_db (sample_later sample_executors)))"
    using r(1) by (simp_all add: hanging_queue_def)
  from recorded_attempts_bounded [OF set_up_router sample_later_reached this] r(2) have
    "da_max_attempt_count r = 3 \<and> da_attempt_count r \<le> 3"
    by (simp add: hanging_queue_def action_row_def action_create_def)
  then show ?thesis using r(1) set_up_router sample_later_reached by blast
qed

end
