(* ===== verification/Spec2Isabelle.thy ===== *)
theory Spec2Isabelle imports Locks Domain_Actions Transfers Catalog_Requests Cart_Requests Inventory_Requests Event_Requests Accounts Reports Routing Spotify Executors begin

text \<open>
  A model of bn-api, the ticketing service: the crate \<open>db\<close>, whose models carry the rules, the crate
  \<open>api\<close>, whose controllers decide who may use them, and the crate \<open>tari-client\<close>, which signs the
  messages to the asset service.

  Conventions. A function that talks to the database is an operation
  \<open>state \<Rightarrow> (error + value) \<times> state\<close> (theory \<open>Prelude\<close>): the \<open>?\<close> operator is \<open>bindo\<close>, and an error keeps
  the state reached so far, because the code decides later whether the transaction is rolled back.
  The state (theory \<open>Database\<close>) is one list of rows per table, with the clock, the sources of
  identifiers and random numbers and the rows locked by others. A handler of a request is an operation
  of the same shape over the state of the server (theory \<open>Web\<close>), which holds the committed database,
  the one of the open transaction and what was sent to services; the frame around it commits
  or rolls back by the status of the response. \<open>i64\<close> amounts are integers without bounds, \<open>u32\<close>
  quantities are 32 bit words, UUIDs are numbers, texts are lists of
  characters. Upper and lower case are those of the ASCII letters; Rust's and those of the database know other
  letters too.

  The models of the crate \<open>db\<close>, in the order of the imports:
  \<^item> \<open>Prelude\<close>: operations, the calculus of what an operation does to the state, tables as lists.
  \<^item> \<open>Errors\<close> (\<open>utils/errors.rs\<close>, \<open>validators/mod.rs\<close>), \<open>Enums\<close> (\<open>models/enums.rs\<close>), \<open>Scopes\<close>
    (\<open>models/scopes.rs\<close>).
  \<^item> \<open>Database\<close>: the rows (\<open>models/*.rs\<close>, \<open>schema.rs\<close>) and the statements of the query builder.
  \<^item> \<open>Tickets\<close> (\<open>models/ticket_instances.rs\<close> and the SQL files of \<open>queries/\<close> it runs): the pool of
    tickets; a reservation takes exactly what was asked for and a release gives it back, a ticket is redeemed once.
  \<^item> \<open>Domain_Events\<close> (\<open>models/assets.rs\<close>, \<open>models/domain_events.rs\<close>).
  \<^item> \<open>Pricing\<close> (\<open>models/ticket_pricing.rs\<close>, \<open>models/ticket_types.rs\<close>): which prices may stand together.
  \<^item> \<open>Fees\<close> (\<open>models/fee_schedules.rs\<close>, \<open>models/fee_schedule_ranges.rs\<close>): the fee of a price.
  \<^item> \<open>Paging\<close>: pages of rows and other small tools.
  \<^item> \<open>Holds\<close> (\<open>models/holds.rs\<close>), \<open>Codes\<close> (\<open>models/codes.rs\<close>, \<open>models/ticket_type_codes.rs\<close>): quantities
    of holds, and redemption codes that stay unique.
  \<^item> \<open>Order_Items\<close>, \<open>Payments\<close>, \<open>Orders\<close> (\<open>models/order_items.rs\<close>, \<open>payments.rs\<close>, \<open>refunded_tickets.rs\<close>,
    \<open>wallets.rs\<close>, \<open>orders.rs\<close>): the whole life of an order as the code has it.
  \<^item> \<open>Locks\<close>: the optimistic lock as a locale, interpreted on orders, holds, codes and users.
  \<^item> \<open>Refunds\<close>: what a refund does to quantities and money, and that its recursion ends.
  \<^item> \<open>Footprints\<close>: which tables an operation may write.
  \<^item> \<open>Order_States\<close>: the life cycle of an order as an inductive relation that every operation refines.
  \<^item> \<open>Carts\<close>: finding and creating the cart of a user.
  \<^item> \<open>Domain_Actions\<close> (\<open>models/domain_actions.rs\<close>, \<open>domain_event_publisher.rs\<close>, \<open>api/src/domain_events/\<close>):
    claims, retries, and the run until the queue is empty. \<open>Monitor\<close>: the endless loop with the futures it
    starts as a step relation, in which a future may be dropped at any time, as it is after 55 seconds.
  \<^item> \<open>Signing\<close> (\<open>tari-client/src\<close>), \<open>Secrets\<close> (\<open>utils/passwords.rs\<close>, \<open>encryption.rs\<close>, \<open>rand.rs\<close>).
  \<^item> \<open>Transfers\<close>: a transfer of tickets moves exactly the named tickets, once.
  \<^item> \<open>Users\<close> (\<open>models/users.rs\<close> and what hangs on a user), \<open>Organizations\<close> (\<open>models/organizations.rs\<close>,
    \<open>organization_users.rs\<close>, \<open>organization_invites.rs\<close>).
  \<^item> \<open>Catalog\<close> (\<open>models/regions.rs\<close>, \<open>venues.rs\<close>, \<open>stages.rs\<close>, \<open>artists.rs\<close>, \<open>event_artists.rs\<close>,
    \<open>event_interest.rs\<close>): the references between them are kept, and which region a venue gets.
  \<^item> \<open>Events\<close> (\<open>models/events.rs\<close>): publishing, cached prices, daily statistics; \<open>Displays\<close>: what is shown
    of tickets and events.

  The server, the crate \<open>api\<close>:
  \<^item> \<open>Web\<close> (\<open>errors/\<close>, \<open>db/connection.rs\<close>, \<open>auth/user.rs\<close>): errors and responses, the transaction around
    a request, the signed-in user.
  \<^item> \<open>Services\<close> (\<open>config.rs\<close>, the client of the asset service, \<open>stripe/src\<close>), \<open>Communications\<close>
    (\<open>utils/communication.rs\<close>, \<open>communications/\<close>).
  \<^item> The controllers: \<open>Catalog_Requests\<close> (regions, venues, stages, artists), \<open>Cart_Requests\<close> (the cart and
    its checkout), \<open>Inventory_Requests\<close> (holds, comps, codes, ticket types), \<open>Ticket_Requests\<close> (tickets,
    orders and refunds), \<open>Organization_Requests\<close> (organizations, members, invitations), \<open>Accounts\<close>
    (users, sign-in, tokens, password resets), \<open>Event_Requests\<close> (events and the door), \<open>Reports\<close>
    (\<open>models/reports.rs\<close> with its SQL and its controller). Their theorems say who is refused and that
    a refused request leaves everything as it was, and follow money and tickets through a whole request.
  \<^item> \<open>Marketing\<close> (\<open>utils/marketing_contacts.rs\<close>, \<open>utils/sendgrid/contacts.rs\<close>, the executors of domain actions).
    \<open>Executors\<close>: the monitor with these executors; the run until the queue is empty ends, and in the endless
    loop the attempts on record of an action stay within its maximum.
  \<^item> \<open>Spotify\<close> (\<open>utils/spotify.rs\<close>): what is read from the answers of Spotify.
  \<^item> \<open>Routing\<close> (\<open>routing.rs\<close>): every resource is reached.

  Termination. The definitions are total but for the run of the monitor until the queue is empty, a partial
  function whose value is \<open>None\<close> where it does not return. It returns when the executors put nothing into the
  queue that is due at once, or only what puts nothing more there itself; with those of the server it does
  (theory \<open>Executors\<close>). There every executor comes to its end, so the 55 seconds after which a future is dropped
  do not show in it; the clocks stand still. Panics are values of their own.

  Parameters. The crates that hash, encrypt and sign, the web framework, time zones and the tests of
  addresses and URLs, and every remote service (payments, mail, texts, captcha, Facebook, Spotify, contact
  lists, the asset service) are fields of records or arguments; what is relied on is a named hypothesis.

  Not modelled: reading the bytes of a request into its record and writing a response as text, logging,
  the threads themselves, the start of the server and the command line tools, seed data,
  the generated \<open>schema.rs\<close>, and test helpers. Sums in SQL are not
  bounded to 64 bits, and rows without an order come in the order of the tables. A validation error
  keeps its code and message and not the values it was raised with.
\<close>

end
